(* ===== verification/Prelude.thy ===== *)
theory Prelude
  imports Main "HOL-Library.Word" "HOL-Library.List_Lexorder" "HOL-Library.Char_ord"
    "HOL-Library.Multiset"
begin

text \<open>
  Shared vocabulary of the development: Rust results, strings and machine integers as the
  lifecycle crate uses them, the list searches of the standard library, and the lemmas about
  them that the component theories use.

  A Rust \<open>String\<close> is the list of its UTF-8 bytes, so \<open>length\<close> is \<open>str::len\<close>, the
  lexicographic order is \<open>Ord for str\<close>, and \<open>trim\<close> strips the UTF-8 encodings of the
  characters with the Unicode property White\_Space.
\<close>

named_theorems result_simps \<open>rewrite rules for the propagation of results\<close>
named_theorems state_defs \<open>the tables of the lifecycle state machines\<close>
named_theorems validate_defs \<open>the validation functions of the contracts\<close>

section \<open>Results\<close>

type_synonym ('e, 'a) result = "'e + 'a"

definition and_then :: "('e, 'a) result \<Rightarrow> ('a \<Rightarrow> ('e, 'b) result) \<Rightarrow> ('e, 'b) result" where
  "and_then r f = (case r of Inl e \<Rightarrow> Inl e | Inr x \<Rightarrow> f x)"

definition map_err :: "('e \<Rightarrow> 'd) \<Rightarrow> ('e, 'a) result \<Rightarrow> ('d, 'a) result" where
  "map_err h r = (case r of Inl e \<Rightarrow> Inl (h e) | Inr x \<Rightarrow> Inr x)"

definition is_ok :: "('e, 'a) result \<Rightarrow> bool" where
  "is_ok r = (case r of Inl _ \<Rightarrow> False | Inr _ \<Rightarrow> True)"

lemma and_then_simps [simp, result_simps]:
  "and_then (Inl e) f = Inl e" "and_then (Inr x) f = f x"
  by (simp_all add: and_then_def)

lemma and_then_Inr_iff [result_simps]:
  "and_then r f = Inr y \<longleftrightarrow> (\<exists>x. r = Inr x \<and> f x = Inr y)"
  by (cases r) auto

lemma map_err_simps [simp, result_simps]:
  "map_err h (Inl e) = Inl (h e)" "map_err h (Inr x) = Inr x"
  by (simp_all add: map_err_def)

lemma map_err_Inr_iff [simp, result_simps]: "map_err h r = Inr y \<longleftrightarrow> r = Inr y"
  by (cases r) auto

lemma is_ok_simps [simp, result_simps]: "\<not> is_ok (Inl e)" "is_ok (Inr x)"
  by (simp_all add: is_ok_def)

lemma is_ok_iff: "is_ok r \<longleftrightarrow> (\<exists>x. r = Inr x)"
  by (cases r) auto

lemma is_ok_unit: "is_ok (r :: ('e, unit) result) \<longleftrightarrow> r = Inr ()"
  by (cases r) auto

text \<open>A guard clause: \<open>if bad { return Err(e) }\<close>.\<close>

definition reject_if :: "bool \<Rightarrow> 'e \<Rightarrow> ('e, unit) result" where
  "reject_if bad e = (if bad then Inl e else Inr ())"

lemma reject_if_Inr [simp, result_simps]: "reject_if bad e = Inr u \<longleftrightarrow> \<not> bad"
  by (simp add: reject_if_def)

lemma reject_if_False [simp]: "reject_if False e = Inr ()"
  by (simp add: reject_if_def)

lemma reject_if_True [simp]: "reject_if True e = Inl e"
  by (simp add: reject_if_def)

text \<open>A loop of fallible checks: \<open>for x in xs { f(x)?; }\<close>.\<close>

fun try_each :: "('a \<Rightarrow> ('e, unit) result) \<Rightarrow> 'a list \<Rightarrow> ('e, unit) result" where
  "try_each f [] = Inr ()"
| "try_each f (x # xs) = and_then (f x) (\<lambda>_. try_each f xs)"

lemma try_each_Inr [result_simps]: "try_each f xs = Inr u \<longleftrightarrow> (\<forall>x\<in>set xs. f x = Inr ())"
  by (induction xs) (auto simp: and_then_Inr_iff)

text \<open>A loop that collects fallible results: \<open>xs.map(f).collect::<Result<Vec<_>, _>>()\<close>.\<close>

fun try_map :: "('a \<Rightarrow> ('e, 'b) result) \<Rightarrow> 'a list \<Rightarrow> ('e, 'b list) result" where
  "try_map f [] = Inr []"
| "try_map f (x # xs) = and_then (f x) (\<lambda>y. and_then (try_map f xs) (\<lambda>ys. Inr (y # ys)))"

lemma try_map_Inr: "try_map f xs = Inr ys \<longleftrightarrow> list_all2 (\<lambda>x y. f x = Inr y) xs ys"
  by (induction xs arbitrary: ys) (auto simp: and_then_Inr_iff list_all2_Cons1)

text \<open>A loop that updates a state by fallible steps: \<open>for x in xs { s.add(x)?; }\<close>.\<close>

fun try_fold :: "('s \<Rightarrow> 'a \<Rightarrow> ('e, 's) result) \<Rightarrow> 's \<Rightarrow> 'a list \<Rightarrow> ('e, 's) result" where
  "try_fold f s [] = Inr s"
| "try_fold f s (x # xs) = and_then (f s x) (\<lambda>s'. try_fold f s' xs)"

text \<open>\<open>option.ok_or(e)\<close>.\<close>

definition ok_or :: "'e \<Rightarrow> 'a option \<Rightarrow> ('e, 'a) result" where
  "ok_or e v = (case v of None \<Rightarrow> Inl e | Some x \<Rightarrow> Inr x)"

lemma ok_or_simps [simp, result_simps]: "ok_or e None = Inl e" "ok_or e (Some x) = Inr x"
  by (simp_all add: ok_or_def)

lemma ok_or_Inr_iff [simp, result_simps]: "ok_or e v = Inr x \<longleftrightarrow> v = Some x"
  by (cases v) simp_all

section \<open>Strings\<close>

definition white_space :: "string list" where
  "white_space =
     [[CHR 0x09], [CHR 0x0A], [CHR 0x0B], [CHR 0x0C], [CHR 0x0D], [CHR 0x20],
      [CHR 0xC2, CHR 0x85], [CHR 0xC2, CHR 0xA0],
      [CHR 0xE1, CHR 0x9A, CHR 0x80],
      [CHR 0xE2, CHR 0x80, CHR 0x80], [CHR 0xE2, CHR 0x80, CHR 0x81],
      [CHR 0xE2, CHR 0x80, CHR 0x82], [CHR 0xE2, CHR 0x80, CHR 0x83],
      [CHR 0xE2, CHR 0x80, CHR 0x84], [CHR 0xE2, CHR 0x80, CHR 0x85],
      [CHR 0xE2, CHR 0x80, CHR 0x86], [CHR 0xE2, CHR 0x80, CHR 0x87],
      [CHR 0xE2, CHR 0x80, CHR 0x88], [CHR 0xE2, CHR 0x80, CHR 0x89],
      [CHR 0xE2, CHR 0x80, CHR 0x8A],
      [CHR 0xE2, CHR 0x80, CHR 0xA8], [CHR 0xE2, CHR 0x80, CHR 0xA9],
      [CHR 0xE2, CHR 0x80, CHR 0xAF],
      [CHR 0xE2, CHR 0x81, CHR 0x9F],
      [CHR 0xE3, CHR 0x80, CHR 0x80]]"

definition starts_with :: "string \<Rightarrow> string \<Rightarrow> bool" where
  "starts_with s w = (take (length w) s = w)"

function strip_any :: "string list \<Rightarrow> string \<Rightarrow> string" where
  "strip_any ws s =
     (case find (\<lambda>w. w \<noteq> [] \<and> starts_with s w) ws of
        None \<Rightarrow> s
      | Some w \<Rightarrow> if s = [] then s else strip_any ws (drop (length w) s))"
  by pat_completeness auto
termination
  by (relation "measure (\<lambda>(ws, s). length s)") (auto simp: find_Some_iff)

declare strip_any.simps [simp del]

definition trim_start :: "string \<Rightarrow> string" where
  "trim_start s = strip_any white_space s"

definition trim_end :: "string \<Rightarrow> string" where
  "trim_end s = rev (strip_any (map rev white_space) (rev s))"

definition trim :: "string \<Rightarrow> string" where
  "trim s = trim_end (trim_start s)"

abbreviation blank :: "string \<Rightarrow> bool" where
  "blank s \<equiv> trim s = []"

lemma strip_any_suffix: "\<exists>k. strip_any ws s = drop k s"
proof (induction ws s rule: strip_any.induct)
  case (1 ws s)
  show ?case
  proof (cases "find (\<lambda>w. w \<noteq> [] \<and> starts_with s w) ws")
    case None
    then have "strip_any ws s = drop 0 s" by (simp add: strip_any.simps)
    then show ?thesis by blast
  next
    case (Some w)
    show ?thesis
    proof (cases "s = []")
      case True
      then have "strip_any ws s = drop 0 s" by (subst strip_any.simps) (simp split: option.split)
      then show ?thesis by blast
    next
      case False
      with 1 Some obtain k where "strip_any ws (drop (length w) s) = drop k (drop (length w) s)"
        by blast
      with False have "strip_any ws s = drop (k + length w) s"
        by (simp add: strip_any.simps [of ws s] Some)
      then show ?thesis by blast
    qed
  qed
qed

definition no_prefix :: "string list \<Rightarrow> string \<Rightarrow> bool" where
  "no_prefix ws s \<longleftrightarrow> (\<forall>w\<in>set ws. w \<noteq> [] \<longrightarrow> \<not> starts_with s w)"

lemma find_no_prefix: "find (\<lambda>w. w \<noteq> [] \<and> starts_with s w) ws = None \<longleftrightarrow> no_prefix ws s"
  by (auto simp: find_None_iff no_prefix_def)

lemma strip_any_no_prefix: "no_prefix ws (strip_any ws s)"
proof (induction ws s rule: strip_any.induct)
  case (1 ws s)
  show ?case
  proof (cases "find (\<lambda>w. w \<noteq> [] \<and> starts_with s w) ws")
    case None
    then show ?thesis using find_no_prefix [of s ws] by (simp add: strip_any.simps)
  next
    case (Some w)
    then have "w \<noteq> [] \<and> starts_with s w" by (auto simp: find_Some_iff)
    then have "s \<noteq> []" by (auto simp: starts_with_def)
    with 1 Some show ?thesis by (simp add: strip_any.simps [of ws s])
  qed
qed

lemma strip_any_id: "no_prefix ws s \<Longrightarrow> strip_any ws s = s"
  using find_no_prefix [of s ws] by (simp add: strip_any.simps)

lemma no_prefix_take: "no_prefix ws s \<Longrightarrow> no_prefix ws (take k s)"
proof -
  have "starts_with s w" if "starts_with (take k s) w" for w
  proof -
    from that have w: "take (min (length w) k) s = w" by (simp add: starts_with_def)
    then have "length w \<le> k"
      by (metis length_take min.cobounded1 min.cobounded2 order_trans)
    with w show ?thesis by (simp add: starts_with_def min_absorb1)
  qed
  then show "no_prefix ws s \<Longrightarrow> no_prefix ws (take k s)" by (auto simp: no_prefix_def)
qed

lemma trim_start_idem [simp]: "trim_start (trim_start s) = trim_start s"
  by (simp add: trim_start_def strip_any_id strip_any_no_prefix)

lemma trim_end_take: "\<exists>k. trim_end s = take k s"
proof -
  obtain k where k: "strip_any (map rev white_space) (rev s) = drop k (rev s)"
    using strip_any_suffix by blast
  then have "trim_end s = take (length s - k) s"
    by (simp add: trim_end_def rev_drop)
  then show ?thesis by blast
qed

lemma trim_end_idem [simp]: "trim_end (trim_end s) = trim_end s"
  by (simp add: trim_end_def strip_any_id strip_any_no_prefix)

lemma trim_start_trim [simp]: "trim_start (trim s) = trim s"
proof -
  obtain k where "trim s = take k (trim_start s)"
    using trim_end_take [of "trim_start s"] by (auto simp: trim_def)
  moreover have "no_prefix white_space (take k (trim_start s))"
    by (rule no_prefix_take) (simp add: trim_start_def strip_any_no_prefix)
  ultimately show ?thesis by (simp add: trim_start_def strip_any_id)
qed

lemma trim_idem [simp]: "trim (trim s) = trim s"
proof -
  have "trim (trim s) = trim_end (trim s)" by (subst (1) trim_def) simp
  also have "\<dots> = trim s" by (simp add: trim_def)
  finally show ?thesis .
qed

lemma set_strip_any: "set (strip_any ws s) \<subseteq> set s"
  using strip_any_suffix [of ws s] by (auto dest: in_set_dropD)

lemma set_trim: "set (trim s) \<subseteq> set s"
  using set_strip_any [of white_space s] set_strip_any [of "map rev white_space" "rev (trim_start s)"]
  by (auto simp: trim_def trim_end_def trim_start_def)

definition to_ascii_lowercase :: "string \<Rightarrow> string" where
  "to_ascii_lowercase s =
     map (\<lambda>c. if of_char c \<in> {65..90 :: nat} then char_of (of_char c + 32 :: nat) else c) s"

definition replace_char :: "char \<Rightarrow> char \<Rightarrow> string \<Rightarrow> string" where
  "replace_char a b s = map (\<lambda>c. if c = a then b else c) s"

section \<open>Machine integers\<close>

type_synonym u64 = "64 word"

definition saturating_add :: "u64 \<Rightarrow> u64 \<Rightarrow> u64" where
  "saturating_add a b = (if unat a + unat b < 2 ^ 64 then a + b else - 1)"

definition saturating_mul :: "u64 \<Rightarrow> u64 \<Rightarrow> u64" where
  "saturating_mul a b = (if unat a * unat b < 2 ^ 64 then a * b else - 1)"

lemma unat_minus_one_u64: "unat (- 1 :: u64) = 2 ^ 64 - 1"
  by (simp add: unat_eq_nat_uint uint_word_ariths)

lemma unat_saturating_add: "unat (saturating_add a b) = min (unat a + unat b) (2 ^ 64 - 1)"
  by (auto simp: saturating_add_def unat_minus_one_u64 unat_word_ariths min_def)

lemma unat_saturating_mul: "unat (saturating_mul a b) = min (unat a * unat b) (2 ^ 64 - 1)"
  by (auto simp: saturating_mul_def unat_minus_one_u64 unat_word_ariths min_def)

text \<open>
  IEEE-754 binary64 and binary32 values by their bits. \<open>PartialEq\<close> on floats is not
  structural: no NaN equals itself and the two zeros are equal.
\<close>

type_synonym f64 = "64 word"
type_synonym f32 = "32 word"

definition f64_is_nan :: "f64 \<Rightarrow> bool" where
  "f64_is_nan x = (unat x mod 2 ^ 63 > 0x7FF0000000000000)"

definition f64_eq :: "f64 \<Rightarrow> f64 \<Rightarrow> bool" where
  "f64_eq x y = (\<not> f64_is_nan x \<and> \<not> f64_is_nan y \<and>
     (x = y \<or> (unat x mod 2 ^ 63 = 0 \<and> unat y mod 2 ^ 63 = 0)))"

lemma f64_eq_refl [simp]: "f64_eq x x \<longleftrightarrow> \<not> f64_is_nan x"
  by (auto simp: f64_eq_def)

definition f32_is_nan :: "f32 \<Rightarrow> bool" where
  "f32_is_nan x = (unat x mod 2 ^ 31 > 0x7F800000)"

definition f32_eq :: "f32 \<Rightarrow> f32 \<Rightarrow> bool" where
  "f32_eq x y = (\<not> f32_is_nan x \<and> \<not> f32_is_nan y \<and>
     (x = y \<or> (unat x mod 2 ^ 31 = 0 \<and> unat y mod 2 ^ 31 = 0)))"

lemma f32_eq_refl [simp]: "f32_eq x x \<longleftrightarrow> \<not> f32_is_nan x"
  by (auto simp: f32_eq_def)

section \<open>Searching and rewriting lists\<close>

text \<open>\<open>Iterator::position\<close>.\<close>

fun position :: "('a \<Rightarrow> bool) \<Rightarrow> 'a list \<Rightarrow> nat option" where
  "position p [] = None"
| "position p (x # xs) = (if p x then Some 0 else map_option Suc (position p xs))"

lemma position_None_iff: "position p xs = None \<longleftrightarrow> (\<forall>x\<in>set xs. \<not> p x)"
  by (induction xs) auto

lemma position_Some_D:
  "position p xs = Some i \<Longrightarrow> i < length xs \<and> p (xs ! i) \<and> (\<forall>j<i. \<not> p (xs ! j))"
proof (induction xs arbitrary: i)
  case Nil
  then show ?case by simp
next
  case (Cons x xs)
  show ?case
  proof (cases "p x")
    case True
    with Cons.prems show ?thesis by simp
  next
    case False
    with Cons.prems obtain k where "position p xs = Some k" "i = Suc k" by auto
    with Cons.IH [of k] False show ?thesis by (auto simp: nth_Cons split: nat.splits)
  qed
qed

lemma position_less: "position p xs = Some i \<Longrightarrow> i < length xs"
  by (simp add: position_Some_D)

lemma position_nth: "position p xs = Some i \<Longrightarrow> p (xs ! i)"
  by (simp add: position_Some_D)

lemma position_eqI:
  assumes "i < length xs" "p (xs ! i)" "\<And>j. j < i \<Longrightarrow> \<not> p (xs ! j)"
  shows "position p xs = Some i"
proof (cases "position p xs")
  case None
  with assms(1,2) show ?thesis by (auto simp: position_None_iff)
next
  case (Some k)
  note k = position_Some_D [OF Some]
  then have "\<not> i < k" using assms(2) by blast
  moreover have "\<not> k < i" using assms(3) [of k] k by blast
  ultimately have "k = i" by simp
  with Some show ?thesis by simp
qed

lemma find_position: "find p xs = map_option (\<lambda>i. xs ! i) (position p xs)"
  by (induction xs) (auto simp: option.map_comp comp_def)

lemma position_distinct_key:
  assumes "distinct (map key xs)" "i < length xs" "key (xs ! i) = k"
  shows "position (\<lambda>x. key x = k) xs = Some i"
proof (rule position_eqI)
  fix j assume "j < i"
  with assms have "map key xs ! j \<noteq> map key xs ! i"
    using nth_eq_iff_index_eq [of "map key xs" j i] by simp
  with assms \<open>j < i\<close> show "key (xs ! j) \<noteq> k" by simp
qed (use assms in simp_all)

lemma distinct_set_singleton: "distinct xs \<Longrightarrow> set xs = {x} \<Longrightarrow> xs = [x]"
proof (cases xs)
  case (Cons y ys)
  assume "distinct xs" "set xs = {x}"
  with Cons have "y = x" "set ys \<subseteq> {x}" "x \<notin> set ys" by auto
  with Cons show ?thesis by (cases ys) auto
qed simp

text \<open>\<open>if !v.contains(x) { v.push(x) }\<close>.\<close>

definition push_unique :: "'a \<Rightarrow> 'a list \<Rightarrow> 'a list" where
  "push_unique x xs = (if x \<in> set xs then xs else xs @ [x])"

lemma set_push_unique [simp]: "set (push_unique x xs) = insert x (set xs)"
  by (auto simp: push_unique_def)

lemma distinct_push_unique [simp]: "distinct (push_unique x xs) \<longleftrightarrow> distinct xs"
  by (auto simp: push_unique_def)

text \<open>Insertion of the values of an iterator into a set, keeping first occurrences in order.\<close>

fun keep_first :: "'a list \<Rightarrow> 'a list \<Rightarrow> 'a list" where
  "keep_first out [] = out"
| "keep_first out (x # xs) = keep_first (push_unique x out) xs"

lemma set_keep_first [simp]: "set (keep_first out xs) = set out \<union> set xs"
  by (induction xs arbitrary: out) auto

lemma distinct_keep_first: "distinct out \<Longrightarrow> distinct (keep_first out xs)"
  by (induction xs arbitrary: out) auto

lemma keep_first_prefix: "\<exists>added. keep_first out xs = out @ added"
proof (induction xs arbitrary: out)
  case Nil
  then show ?case by simp
next
  case (Cons x xs)
  then obtain a where "keep_first (push_unique x out) xs = push_unique x out @ a" by blast
  then show ?case by (auto simp: push_unique_def split: if_splits)
qed

section \<open>Decimal numbers\<close>

text \<open>
  Decimal text of natural numbers as \<open>ToString\<close> prints unsigned integers, with and without padding,
  and that it determines the number.
\<close>

definition digits :: string where
  "digits = ''0123456789''"

fun decimal :: "nat \<Rightarrow> string" where
  "decimal n = (if n < 10 then [digits ! n] else decimal (n div 10) @ [digits ! (n mod 10)])"

declare decimal.simps [simp del]

definition digit_value :: "char \<Rightarrow> nat" where
  "digit_value c = the (position (\<lambda>d. d = c) digits)"

definition undecimal :: "string \<Rightarrow> nat" where
  "undecimal s = foldl (\<lambda>a c. 10 * a + digit_value c) 0 s"

lemma digits_props: "length digits = 10" "distinct digits"
  by (simp_all add: digits_def)

lemma digit_value_nth: "d < 10 \<Longrightarrow> digit_value (digits ! d) = d"
  using position_distinct_key [of id digits d "digits ! d"] digits_props by (simp add: digit_value_def)

lemma undecimal_decimal: "undecimal (decimal n) = n"
proof (induction n rule: decimal.induct)
  case (1 n)
  show ?case
  proof (cases "n < 10")
    case True
    then show ?thesis by (simp add: decimal.simps [of n] undecimal_def digit_value_nth)
  next
    case False
    with 1 have "undecimal (decimal (n div 10)) = n div 10" by simp
    with False show ?thesis by (simp add: decimal.simps [of n] undecimal_def digit_value_nth)
  qed
qed

lemma decimal_inj:
  assumes "decimal m = decimal n"
  shows "m = n"
proof -
  have "m = undecimal (decimal m)" by (simp only: undecimal_decimal)
  also have "\<dots> = n" by (simp only: assms undecimal_decimal)
  finally show ?thesis .
qed

abbreviation digit_chars :: "char set" where
  "digit_chars \<equiv> set digits"

lemma digit_char: "d < 10 \<Longrightarrow> digits ! d \<in> digit_chars"
  by (simp add: digits_props)

lemma decimal_chars: "decimal n \<noteq> [] \<and> set (decimal n) \<subseteq> digit_chars"
proof (induction n rule: decimal.induct)
  case (1 n)
  then show ?case by (cases "n < 10") (simp_all add: decimal.simps [of n] digit_char)
qed

text \<open>\<open>format!("{:020}", n)\<close>.\<close>

definition padded :: "nat \<Rightarrow> nat \<Rightarrow> string" where
  "padded w n = replicate (w - length (decimal n)) (CHR ''0'') @ decimal n"

lemma undecimal_zeros: "undecimal (replicate k (CHR ''0'') @ s) = undecimal s"
proof (induction k)
  case (Suc k)
  have "digit_value (CHR ''0'') = 0" by (simp add: digit_value_def digits_def)
  with Suc show ?case by (simp add: undecimal_def)
qed simp

lemma padded_inj: "padded w m = padded w n \<Longrightarrow> m = n"
  by (metis padded_def undecimal_zeros undecimal_decimal)

end
