(* ===== verification/Json_Value.thy ===== *)
theory Json_Value
  imports Prelude
begin

text \<open>
  JSON values as \<open>serde_json::Value\<close> has them, the libraries the lifecycle crate calls
  (chrono, serde\_json, sha2) as a record of parameters, and the canonical text and digest of
  \<open>lifecycle/src/session.rs\<close> (\<open>canonical_value_sha256\<close>).

  A chrono \<open>DateTime<Utc>\<close> is its instant in nanoseconds, a chrono duration a number of
  nanoseconds. The locale \<open>chrono_laws\<close> states what chrono documents of the operations used
  and \<open>json_text_laws\<close> what JSON text is; both are interpreted on concrete parameters.
\<close>

type_synonym datetime = int

datatype json_number = PosInt u64 | NegInt int | Float f64

datatype json =
    JNull
  | JBool bool
  | JNumber json_number
  | JString string
  | JArray "json list"
  | JObject "(string \<times> json) list"

record externals =
  duration_seconds :: "int \<Rightarrow> int option"
  datetime_add :: "datetime \<Rightarrow> int \<Rightarrow> datetime option"
  datetime_checked_sub :: "datetime \<Rightarrow> int \<Rightarrow> datetime option"
  min_utc :: datetime
  timestamp_millis :: "datetime \<Rightarrow> int"
  datetime_text :: "datetime \<Rightarrow> string"
  sha256_hex :: "string \<Rightarrow> string"
  json_string :: "string \<Rightarrow> string"
  json_number_text :: "json_number \<Rightarrow> string"
  json_parse :: "string \<Rightarrow> json option"

section \<open>What chrono documents\<close>

text \<open>
  \<open>Duration::seconds\<close> and \<open>DateTime + Duration\<close> either panic (\<open>None\<close>) or return the
  exact value; an addition that succeeds can be undone by \<open>checked_sub_signed\<close>; \<open>MIN_UTC\<close>
  is the least instant the type holds.
\<close>

definition nanos :: "int \<Rightarrow> int" where
  "nanos s = s * 1000000000"

locale chrono_laws =
  fixes X :: externals
  assumes seconds_exact: "duration_seconds X s = Some d \<Longrightarrow> d = nanos s"
    and add_exact: "datetime_add X t d = Some u \<Longrightarrow> u = t + d"
    and sub_undoes_add: "datetime_add X t d = Some u \<Longrightarrow> datetime_checked_sub X u d = Some t"

section \<open>Canonical text\<close>

fun join_with :: "string \<Rightarrow> string list \<Rightarrow> string" where
  "join_with sep [] = []"
| "join_with sep [x] = x"
| "join_with sep (x # y # ys) = x @ sep @ join_with sep (y # ys)"

lemma size_json_member: "(k, v) \<in> set kvs \<Longrightarrow> size v < Suc (size_list (size_prod (\<lambda>_. 0) size) kvs)"
  by (induction kvs) auto

function canonical :: "externals \<Rightarrow> json \<Rightarrow> string" where
  "canonical X JNull = ''null''"
| "canonical X (JBool b) = (if b then ''true'' else ''false'')"
| "canonical X (JNumber n) = json_number_text X n"
| "canonical X (JString s) = json_string X s"
| "canonical X (JArray vs) = ''['' @ join_with '','' (map (canonical X) vs) @ '']''"
| "canonical X (JObject kvs) =
     ''{'' @ join_with '',''
       (map (\<lambda>(k, v). json_string X k @ '':'' @ canonical X v) (sort_key fst kvs)) @ ''}''"
  by pat_completeness auto
termination
  by (relation "measure (\<lambda>(X, v). size v)") (auto simp: size_json_member less_Suc_eq_le size_list_estimation')

definition canonical_value_sha256 :: "externals \<Rightarrow> json \<Rightarrow> string" where
  "canonical_value_sha256 X v = sha256_hex X (canonical X v)"

section \<open>Object access\<close>

definition json_get :: "json \<Rightarrow> string \<Rightarrow> json option" where
  "json_get v k = (case v of JObject kvs \<Rightarrow> map_of kvs k | _ \<Rightarrow> None)"

definition json_as_str :: "json \<Rightarrow> string option" where
  "json_as_str v = (case v of JString s \<Rightarrow> Some s | _ \<Rightarrow> None)"

text \<open>\<open>value["key"] = v\<close> on an object whose keys are distinct.\<close>

definition json_set :: "string \<Rightarrow> json \<Rightarrow> json \<Rightarrow> json" where
  "json_set k x v =
     (case v of JObject kvs \<Rightarrow> JObject (filter (\<lambda>p. fst p \<noteq> k) kvs @ [(k, x)]) | _ \<Rightarrow> v)"

definition json_u64 :: "u64 \<Rightarrow> json" where
  "json_u64 n = JNumber (PosInt n)"

definition json_strings :: "string list \<Rightarrow> json" where
  "json_strings xs = JArray (map JString xs)"

section \<open>Canonical text determines the value\<close>

text \<open>The value with the fields of every object in key order, and its text read off in order.\<close>

function sorted_json :: "json \<Rightarrow> json" where
  "sorted_json JNull = JNull"
| "sorted_json (JBool b) = JBool b"
| "sorted_json (JNumber n) = JNumber n"
| "sorted_json (JString s) = JString s"
| "sorted_json (JArray vs) = JArray (map sorted_json vs)"
| "sorted_json (JObject kvs) = JObject (sort_key fst (map (\<lambda>(k, v). (k, sorted_json v)) kvs))"
  by pat_completeness auto
termination
  by (relation "measure size") (auto simp: size_json_member less_Suc_eq_le size_list_estimation')

function render :: "externals \<Rightarrow> json \<Rightarrow> string" where
  "render X JNull = ''null''"
| "render X (JBool b) = (if b then ''true'' else ''false'')"
| "render X (JNumber n) = json_number_text X n"
| "render X (JString s) = json_string X s"
| "render X (JArray vs) = ''['' @ join_with '','' (map (render X) vs) @ '']''"
| "render X (JObject kvs) =
     ''{'' @ join_with '','' (map (\<lambda>(k, v). json_string X k @ '':'' @ render X v) kvs) @ ''}''"
  by pat_completeness auto
termination
  by (relation "measure (\<lambda>(X, v). size v)") (auto simp: size_json_member less_Suc_eq_le size_list_estimation')

lemma insort_key_map_snd:
  "map (\<lambda>(k, v). (k, f v)) (insort_key fst (k, v) xs) =
   insort_key fst (k, f v) (map (\<lambda>(k, v). (k, f v)) xs)"
  by (induction xs) auto

lemma sort_key_map_snd:
  "sort_key fst (map (\<lambda>(k, v). (k, f v)) xs) = map (\<lambda>(k, v). (k, f v)) (sort_key fst xs)"
  by (induction xs) (auto simp: insort_key_map_snd)

lemma canonical_render: "canonical X v = render X (sorted_json v)"
proof (induction v rule: sorted_json.induct)
  case (5 vs)
  then have "map (canonical X) vs = map (render X) (map sorted_json vs)" by simp
  then show ?case by (simp only: canonical.simps render.simps sorted_json.simps)
next
  case (6 kvs)
  have "map (\<lambda>(k, v). json_string X k @ '':'' @ canonical X v) (sort_key fst kvs) =
        map (\<lambda>(k, v). json_string X k @ '':'' @ render X v)
          (sort_key fst (map (\<lambda>(k, v). (k, sorted_json v)) kvs))"
    using 6 by (auto simp: sort_key_map_snd simp del: sort_key_simps)
  then show ?case by (simp only: canonical.simps render.simps sorted_json.simps)
qed auto

text \<open>The numbers serde\_json can hold, and the objects its maps can hold.\<close>

fun number_valid :: "json_number \<Rightarrow> bool" where
  "number_valid (PosInt n) = True"
| "number_valid (NegInt i) = (- (2 ^ 63) \<le> i \<and> i < 0)"
| "number_valid (Float x) = (unat x mod 2 ^ 63 < 0x7FF0000000000000)"

function json_valid :: "json \<Rightarrow> bool" where
  "json_valid JNull = True"
| "json_valid (JBool b) = True"
| "json_valid (JNumber n) = number_valid n"
| "json_valid (JString s) = True"
| "json_valid (JArray vs) = (\<forall>v\<in>set vs. json_valid v)"
| "json_valid (JObject kvs) = (distinct (map fst kvs) \<and> (\<forall>(k, v)\<in>set kvs. json_valid v))"
  by pat_completeness auto
termination
  by (relation "measure size") (auto simp: size_json_member less_Suc_eq_le size_list_estimation')

lemma sorted_json_valid: "json_valid v \<Longrightarrow> json_valid (sorted_json v)"
proof (induction v rule: sorted_json.induct)
  case (6 kvs)
  let ?m = "map (\<lambda>(k, v). (k, sorted_json v)) kvs"
  have "map fst ?m = map fst kvs" by auto
  moreover have "mset (map fst (sort_key fst ?m)) = mset (map fst ?m)" by (simp only: mset_map mset_sort)
  ultimately have "distinct (map fst (sort_key fst ?m))"
    using 6(2) by (metis json_valid.simps(6) mset_eq_imp_distinct_iff)
  with 6 show ?case by auto
qed auto

definition number_chars :: "char set" where
  "number_chars = set ''0123456789+-.eE''"

definition delimited :: "string \<Rightarrow> bool" where
  "delimited u = (u = [] \<or> hd u \<in> set '',]}'')"

fun commas :: "('a \<Rightarrow> string) \<Rightarrow> 'a list \<Rightarrow> string" where
  "commas f [] = []"
| "commas f (x # xs) = CHR '','' # f x @ commas f xs"

lemma join_with_commas: "join_with '','' (map f (x # xs)) = f x @ commas f xs"
  by (induction xs arbitrary: x) auto

definition separable :: "('a \<Rightarrow> string) \<Rightarrow> 'a list \<Rightarrow> 'a list \<Rightarrow> bool" where
  "separable f xs ys \<longleftrightarrow> (\<forall>x\<in>set xs. \<forall>y\<in>set ys. \<forall>u v.
     delimited u \<longrightarrow> delimited v \<longrightarrow> f x @ u = f y @ v \<longrightarrow> x = y \<and> u = v)"

lemma separableD:
  "separable f xs ys \<Longrightarrow> x \<in> set xs \<Longrightarrow> y \<in> set ys \<Longrightarrow> delimited u \<Longrightarrow> delimited v \<Longrightarrow>
   f x @ u = f y @ v \<Longrightarrow> x = y \<and> u = v"
  unfolding separable_def by blast

lemma separable_tl: "separable f (x # xs) (y # ys) \<Longrightarrow> separable f xs ys"
  by (auto simp: separable_def)

lemma delimited_commas: "c \<in> set '']}'' \<Longrightarrow> delimited (commas f zs @ c # w)"
  by (cases zs) (auto simp: delimited_def)

lemma commas_inj:
  assumes "c \<in> set '']}''"
  shows "separable f xs ys \<Longrightarrow> commas f xs @ c # u = commas f ys @ c # v \<Longrightarrow> xs = ys \<and> u = v"
proof (induction xs arbitrary: ys)
  case Nil
  with assms show ?case by (cases ys) auto
next
  case (Cons x xs)
  show ?case
  proof (cases ys)
    case Nil
    with Cons.prems(2) assms show ?thesis by auto
  next
    case (Cons y ys')
    have "x = y \<and> commas f xs @ c # u = commas f ys' @ c # v"
      by (rule separableD [OF Cons.prems(1)])
        (use Cons.prems(2) Cons assms in \<open>simp_all add: delimited_commas\<close>)
    then show ?thesis using Cons.IH [of ys'] separable_tl [of f x xs y ys'] Cons.prems(1) Cons by simp
  qed
qed

lemma items_inj:
  assumes inj: "separable f xs ys"
    and hd: "\<forall>x\<in>set xs \<union> set ys. f x \<noteq> [] \<and> hd (f x) \<noteq> c"
    and c: "c \<in> set '']}''"
    and eq: "join_with '','' (map f xs) @ c # u = join_with '','' (map f ys) @ c # v"
  shows "xs = ys \<and> u = v"
proof (cases xs; cases ys)
  fix y ys' assume "xs = []" "ys = y # ys'"
  with eq hd show ?thesis by (cases "f y") (auto simp only: join_with_commas, auto)
next
  fix x xs' assume "xs = x # xs'" "ys = []"
  with eq hd show ?thesis by (cases "f x") (auto simp only: join_with_commas, auto)
next
  fix x xs' y ys' assume xs: "xs = x # xs'" and ys: "ys = y # ys'"
  from eq have "f x @ commas f xs' @ c # u = f y @ commas f ys' @ c # v"
    unfolding xs ys join_with_commas by simp
  then have "x = y \<and> commas f xs' @ c # u = commas f ys' @ c # v"
    by (intro separableD [OF inj]) (simp_all add: xs ys delimited_commas [OF c])
  then show ?thesis using commas_inj [OF c separable_tl, of f x xs' y ys' u v] inj xs ys by simp
qed (use eq in auto)

fun json_kind :: "json \<Rightarrow> nat" where
  "json_kind JNull = 0"
| "json_kind (JBool b) = 1"
| "json_kind (JNumber n) = 2"
| "json_kind (JString s) = 3"
| "json_kind (JArray vs) = 4"
| "json_kind (JObject kvs) = 5"

definition char_kind :: "char \<Rightarrow> nat" where
  "char_kind c = (if c = CHR ''n'' then 0 else if c = CHR ''t'' \<or> c = CHR ''f'' then 1
     else if c = CHR 0x22 then 3 else if c = CHR ''['' then 4 else if c = CHR ''{'' then 5 else 2)"

locale json_text_laws =
  fixes X :: externals
  assumes string_quoted: "\<exists>r. json_string X s = CHR 0x22 # r"
    and string_delimited: "json_string X s @ u = json_string X t @ v \<Longrightarrow> s = t \<and> u = v"
    and number_text: "json_number_text X n \<noteq> [] \<and> set (json_number_text X n) \<subseteq> number_chars"
    and number_text_inj: "number_valid m \<Longrightarrow> number_valid n \<Longrightarrow>
      json_number_text X m = json_number_text X n \<Longrightarrow> m = n"
begin

lemma render_kind: "render X a \<noteq> [] \<and> char_kind (hd (render X a)) = json_kind a"
proof (cases a)
  case (JNumber n)
  have "json_number_text X n \<noteq> []" "hd (json_number_text X n) \<in> number_chars"
    using number_text [of n] by (auto simp: hd_in_set subset_iff)
  with JNumber show ?thesis by (auto simp: char_kind_def number_chars_def)
next
  case (JString s)
  with string_quoted [of s] show ?thesis by (auto simp: char_kind_def)
qed (auto simp: char_kind_def)

lemma render_hd: "hd (render X a) \<noteq> CHR '']'' \<and> hd (render X a) \<noteq> CHR ''}''"
proof (cases a)
  case (JNumber n)
  have "hd (json_number_text X n) \<in> number_chars"
    using number_text [of n] by (auto simp: hd_in_set subset_iff)
  with JNumber show ?thesis by (auto simp: number_chars_def)
next
  case (JString s)
  with string_quoted [of s] show ?thesis by auto
qed auto

lemma same_kind:
  assumes "render X a @ u = render X b @ v"
  shows "json_kind a = json_kind b"
proof -
  have "hd (render X a) = hd (render X a @ u)" "hd (render X b) = hd (render X b @ v)"
    using render_kind [of a] render_kind [of b] by (simp_all add: hd_append)
  then have "hd (render X a) = hd (render X b)" using assms by simp
  then show ?thesis using render_kind [of a] render_kind [of b] by simp
qed

lemma number_code:
  assumes "number_valid m" "number_valid n" "delimited u" "delimited v"
    and "json_number_text X m @ u = json_number_text X n @ v"
  shows "m = n \<and> u = v"
proof -
  let ?P = "\<lambda>c. c \<in> number_chars"
  have tw: "takeWhile ?P (json_number_text X k @ w) = json_number_text X k" if "delimited w" for k w
  proof -
    have "takeWhile ?P w = []"
      using that by (cases w) (auto simp: delimited_def number_chars_def)
    then show ?thesis using number_text [of k] by (subst takeWhile_append2) auto
  qed
  have "json_number_text X m = json_number_text X n"
    using tw [OF assms(3), of m] tw [OF assms(4), of n] assms(5) by simp
  then show ?thesis using number_text_inj assms by auto
qed

lemma render_code:
  "json_valid a \<Longrightarrow> json_valid b \<Longrightarrow> delimited u \<Longrightarrow> delimited v \<Longrightarrow>
   render X a @ u = render X b @ v \<Longrightarrow> a = b \<and> u = v"
proof (induction a arbitrary: b u v rule: sorted_json.induct)
  case 1
  then show ?case using same_kind [OF 1(5)] by (cases b) auto
next
  case (2 x)
  then show ?case using same_kind [OF 2(5)] by (cases b) (auto split: if_splits)
next
  case (3 n)
  then obtain m where b: "b = JNumber m" using same_kind [OF 3(5)] by (cases b) auto
  with 3 have "n = m \<and> u = v" by (intro number_code) simp_all
  with b show ?case by simp
next
  case (4 s)
  then obtain t where b: "b = JString t" using same_kind [OF 4(5)] by (cases b) auto
  with 4(5) have "json_string X s @ u = json_string X t @ v" by simp
  then have "s = t \<and> u = v" by (rule string_delimited)
  with b show ?case by simp
next
  case (5 vs)
  then obtain ws where b: "b = JArray ws" using same_kind [OF 5(6)] by (cases b) auto
  have "vs = ws \<and> u = v"
  proof (rule items_inj [where f = "render X" and c = "CHR '']''"])
    show "separable (render X) vs ws"
      unfolding separable_def using 5(1) 5(2,3) b by simp blast
    show "\<forall>x\<in>set vs \<union> set ws. render X x \<noteq> [] \<and> hd (render X x) \<noteq> CHR '']''"
      using render_kind render_hd by blast
  qed (use 5(6) b in auto)
  with b show ?case by simp
next
  case (6 kvs)
  then obtain lws where b: "b = JObject lws" using same_kind [OF 6(6)] by (cases b) auto
  let ?f = "\<lambda>(k, v). json_string X k @ '':'' @ render X v"
  have "kvs = lws \<and> u = v"
  proof (rule items_inj [where f = ?f and c = "CHR ''}''"])
    show "separable ?f kvs lws"
      unfolding separable_def
    proof (clarify)
      fix k x l y u v
      assume xy: "(k, x) \<in> set kvs" "(l, y) \<in> set lws" and d: "delimited u" "delimited v"
        and eq: "(json_string X k @ '':'' @ render X x) @ u = (json_string X l @ '':'' @ render X y) @ v"
      from eq have "k = l" and rest: "render X x @ u = render X y @ v"
        using string_delimited [of k "'':'' @ render X x @ u" l "'':'' @ render X y @ v"] by auto
      moreover have "json_valid x" "json_valid y" using xy 6(2,3) b by auto
      ultimately show "(k, x) = (l, y) \<and> u = v" using 6(1) [OF xy(1) refl _ _ d rest] by simp
    qed
    show "\<forall>x\<in>set kvs \<union> set lws. ?f x \<noteq> [] \<and> hd (?f x) \<noteq> CHR ''}''"
    proof
      fix p :: "string \<times> json"
      obtain r where "json_string X (fst p) = CHR 0x22 # r" using string_quoted by blast
      then show "?f p \<noteq> [] \<and> hd (?f p) \<noteq> CHR ''}''" by (simp add: case_prod_unfold)
    qed
  qed (use 6(6) b in auto)
  with b show ?case by simp
qed

lemma canonical_inj:
  assumes "json_valid a" "json_valid b" "canonical X a = canonical X b"
  shows "sorted_json a = sorted_json b"
  using render_code [of "sorted_json a" "sorted_json b" "[]" "[]"] assms
  by (simp add: canonical_render sorted_json_valid delimited_def)

end

lemma sorted_json_object_map:
  assumes "sorted_json (JObject kvs) = sorted_json (JObject lws)"
    and "distinct (map fst kvs)" "distinct (map fst lws)"
  shows "map_option sorted_json (map_of kvs k) = map_option sorted_json (map_of lws k)"
proof -
  let ?m = "\<lambda>xs. map (\<lambda>(k, v). (k, sorted_json v)) xs"
  have "mset (sort_key fst (?m kvs)) = mset (sort_key fst (?m lws))" using assms(1) by simp
  then have "mset (?m kvs) = mset (?m lws)" by (simp only: mset_sort)
  then have "set (?m kvs) = set (?m lws)" by (rule mset_eq_setD)
  moreover have "distinct (map fst (?m xs))" if "distinct (map fst xs)" for xs :: "(string \<times> json) list"
    using that by (simp add: comp_def case_prod_unfold)
  ultimately have "map_of (?m kvs) = map_of (?m lws)"
    using assms(2,3) map_of_inject_set [of "?m kvs" "?m lws"] by blast
  then have "map_of (?m kvs) k = map_of (?m lws) k" by simp
  then show ?thesis by (simp add: map_of_map)
qed

section \<open>Equality of values\<close>

text \<open>
  \<open>PartialEq for serde_json::Value\<close>: numbers of the same kind by value (the two zeros are
  equal, and a number is never NaN), objects as maps.
\<close>

fun json_number_eq :: "json_number \<Rightarrow> json_number \<Rightarrow> bool" where
  "json_number_eq (PosInt m) (PosInt n) = (m = n)"
| "json_number_eq (NegInt m) (NegInt n) = (m = n)"
| "json_number_eq (Float x) (Float y) = (x = y \<or> unat x mod 2 ^ 63 = 0 \<and> unat y mod 2 ^ 63 = 0)"
| "json_number_eq _ _ = False"

lemma size_json_item: "v \<in> set vs \<Longrightarrow> size v < Suc (size_list size vs)"
  by (simp add: less_Suc_eq_le size_list_estimation')

function json_eq :: "json \<Rightarrow> json \<Rightarrow> bool" where
  "json_eq JNull w = (w = JNull)"
| "json_eq (JBool b) w = (w = JBool b)"
| "json_eq (JNumber n) w = (case w of JNumber m \<Rightarrow> json_number_eq n m | _ \<Rightarrow> False)"
| "json_eq (JString s) w = (w = JString s)"
| "json_eq (JArray vs) w =
     (case w of JArray ws \<Rightarrow> length vs = length ws \<and> (\<forall>p\<in>set (zip vs ws). json_eq (fst p) (snd p)) | _ \<Rightarrow> False)"
| "json_eq (JObject kvs) w =
     (case w of
        JObject lws \<Rightarrow>
          (\<forall>p\<in>set kvs. \<exists>q\<in>set lws. fst p = fst q \<and> json_eq (snd p) (snd q)) \<and>
          (\<forall>q\<in>set lws. \<exists>p\<in>set kvs. fst p = fst q \<and> json_eq (snd p) (snd q))
      | _ \<Rightarrow> False)"
  by pat_completeness auto
termination
  by (relation "measure (size \<circ> fst)")
    (auto simp: size_json_member dest!: set_zip_leftD intro: size_json_item)

lemma json_number_eq_refl [simp]: "json_number_eq n n"
  by (cases n) simp_all

lemma json_eq_refl [simp]: "json_eq v v"
proof (induction v rule: json_valid.induct)
  case (5 vs)
  then show ?case by (auto simp: set_zip)
next
  case (6 kvs)
  have "\<exists>q\<in>set kvs. fst p = fst q \<and> json_eq (snd p) (snd q)"
    and "\<exists>q\<in>set kvs. fst q = fst p \<and> json_eq (snd q) (snd p)" if "p \<in> set kvs" for p
    using 6 [of p "fst p" "snd p"] that by force+
  then show ?case by simp
qed auto

lemma rel_option_json_eq_refl [simp]: "rel_option json_eq v v"
  by (cases v) simp_all

lemma list_all2_json_eq_refl [simp]: "list_all2 json_eq vs vs"
  by (simp add: list_all2_same)

section \<open>Optional values on the wire\<close>

text \<open>
  An \<open>Option<Value>\<close> field is absent when it is \<open>None\<close>, and \<open>null\<close> is read as \<open>None\<close>: what
  was \<open>Some(Value::Null)\<close> comes back as \<open>None\<close>.
\<close>

definition optional_value_over_wire :: "json option \<Rightarrow> json option" where
  "optional_value_over_wire v = (case v of Some JNull \<Rightarrow> None | _ \<Rightarrow> v)"

lemma optional_value_over_wire_id: "optional_value_over_wire v = v \<longleftrightarrow> v \<noteq> Some JNull"
  by (auto simp: optional_value_over_wire_def split: option.splits json.splits)

end
