(* ===== verification/Runtime_Types.thy ===== *)
theory Runtime_Types
  imports Json_Value
begin

text \<open>
  The data of one provider invocation (\<open>lifecycle/src/runtime.rs\<close>): states, commands, events,
  the records they carry and their \<open>PartialEq\<close>, which is structural except on floats.
\<close>

definition DEFAULT_CONTEXT_TOKEN_LIMIT :: u64 where
  "DEFAULT_CONTEXT_TOKEN_LIMIT = 260000"

datatype tool_choice = Auto | Strict | Disable

record provider_config =
  pc_tura_llm_name :: string
  pc_default_model_tier :: "string option"
  pc_current_model :: "string option"
  pc_stream :: bool
  pc_temperature :: f32
  pc_max_tokens :: "32 word"
  pc_tool_choice :: tool_choice
  pc_time_out_ms :: u64

record context_token_stats =
  ct_input :: u64
  ct_limit :: u64

definition context_token_stats_default :: context_token_stats where
  "context_token_stats_default = \<lparr>ct_input = 0, ct_limit = DEFAULT_CONTEXT_TOKEN_LIMIT\<rparr>"

datatype runtime_call_result_status =
  StatusPending | StatusStreaming | StatusSucceeded | StatusFailed | StatusTimedOut | StatusCancelled

datatype runtime_state =
  Created | Dispatching | WaitingFirstToken | Streaming | Finished | Failed | TimedOut | Cancelled

record tool_call_record =
  tc_tool_called_name :: string
  tc_tool_called_input :: json
  tc_provider_metadata :: "json option"
  tc_tool_received_at :: datetime
  tc_tool_executed_at :: datetime
  tc_tool_calldata_received_at :: datetime
  tc_tool_reported_success :: bool
  tc_agent_reported_success :: bool
  tc_agent_reported_helpful :: bool
  tc_agent_reported_summary :: string
  tc_validator_reported_success :: "bool option"

record runtime_provider_config =
  rp_base :: provider_config
  rp_thinking :: bool
  rp_provider_name :: string
  rp_model_name :: string
  rp_provider_url_name :: string
  rp_llm_provider_name :: string

record runtime_error =
  er_error_code :: "string option"
  er_error_text :: "string option"
  er_retry_allowed :: bool
  er_fallback_allowed :: bool
  er_fallback_to_id :: "string option"

record usage_report =
  us_input_tokens :: u64
  us_output_tokens :: u64
  us_total_tokens :: u64
  us_cached_input_tokens :: u64
  us_cache_write_tokens :: u64
  us_reasoning_tokens :: u64
  us_attachment_input_tokens :: u64
  us_input_cost :: f64
  us_output_cost :: f64
  us_total_cost :: f64
  us_currency :: string
  us_pricing_source :: string
  us_latency_ms :: u64
  us_time_to_first_token_ms :: u64
  us_token_per_second :: f64

record provider_observation =
  po_schema_version :: string
  po_source :: string
  po_response_id :: "string option"
  po_model :: "string option"
  po_service_tier :: "string option"
  po_failed_attempts :: "json list"

datatype runtime_command =
    Transition runtime_state
  | CmdCallStarted datetime
  | CmdWaitingFirstToken
  | CmdFirstTokenReceived datetime
  | AppendText string
  | CaptureInput json
  | CaptureOutput json "provider_observation option"
  | RecordToolCall tool_call_record
  | UpdateContextTokens context_token_stats
  | UpdateUsage "usage_report option"
  | UpdateReasoning "string option" "string option"
  | FinishSuccess datetime "usage_report option"
  | FinishFailure datetime runtime_error runtime_state "usage_report option"

datatype runtime_event =
    RuntimeCreated string string runtime_provider_config datetime "string option" context_token_stats
  | StateChanged runtime_state
  | CallStarted datetime
  | EvWaitingFirstToken
  | FirstTokenReceived datetime
  | TextAppended string
  | InputCaptured json
  | OutputCaptured json "provider_observation option"
  | ToolCallRecorded tool_call_record
  | ContextTokensUpdated context_token_stats
  | UsageUpdated "usage_report option"
  | ReasoningUpdated "string option" "string option"
  | RuntimeFinished datetime "usage_report option"
  | RuntimeFailed datetime runtime_error runtime_state "usage_report option"

fun as_command :: "runtime_event \<Rightarrow> runtime_command option" where
  "as_command (RuntimeCreated _ _ _ _ _ _) = None"
| "as_command (StateChanged state) = Some (Transition state)"
| "as_command (CallStarted called_at) = Some (CmdCallStarted called_at)"
| "as_command EvWaitingFirstToken = Some CmdWaitingFirstToken"
| "as_command (FirstTokenReceived first_token_at) = Some (CmdFirstTokenReceived first_token_at)"
| "as_command (TextAppended chunk) = Some (AppendText chunk)"
| "as_command (InputCaptured i) = Some (CaptureInput i)"
| "as_command (OutputCaptured output observation) = Some (CaptureOutput output observation)"
| "as_command (ToolCallRecorded r) = Some (RecordToolCall r)"
| "as_command (ContextTokensUpdated tokens) = Some (UpdateContextTokens tokens)"
| "as_command (UsageUpdated usage) = Some (UpdateUsage usage)"
| "as_command (ReasoningUpdated reasoning hash) = Some (UpdateReasoning reasoning hash)"
| "as_command (RuntimeFinished finished_at usage) = Some (FinishSuccess finished_at usage)"
| "as_command (RuntimeFailed finished_at err state usage) = Some (FinishFailure finished_at err state usage)"

section \<open>Equality of events\<close>

definition usage_report_eq :: "usage_report \<Rightarrow> usage_report \<Rightarrow> bool" where
  "usage_report_eq a b =
     (us_input_tokens a = us_input_tokens b \<and> us_output_tokens a = us_output_tokens b \<and>
      us_total_tokens a = us_total_tokens b \<and> us_cached_input_tokens a = us_cached_input_tokens b \<and>
      us_cache_write_tokens a = us_cache_write_tokens b \<and> us_reasoning_tokens a = us_reasoning_tokens b \<and>
      us_attachment_input_tokens a = us_attachment_input_tokens b \<and>
      f64_eq (us_input_cost a) (us_input_cost b) \<and> f64_eq (us_output_cost a) (us_output_cost b) \<and>
      f64_eq (us_total_cost a) (us_total_cost b) \<and> us_currency a = us_currency b \<and>
      us_pricing_source a = us_pricing_source b \<and> us_latency_ms a = us_latency_ms b \<and>
      us_time_to_first_token_ms a = us_time_to_first_token_ms b \<and>
      f64_eq (us_token_per_second a) (us_token_per_second b))"

definition usage_option_eq :: "usage_report option \<Rightarrow> usage_report option \<Rightarrow> bool" where
  "usage_option_eq a b = (case (a, b) of
     (None, None) \<Rightarrow> True | (Some x, Some y) \<Rightarrow> usage_report_eq x y | _ \<Rightarrow> False)"

definition provider_config_eq :: "provider_config \<Rightarrow> provider_config \<Rightarrow> bool" where
  "provider_config_eq a b =
     (a\<lparr>pc_temperature := 0\<rparr> = b\<lparr>pc_temperature := 0\<rparr> \<and> f32_eq (pc_temperature a) (pc_temperature b))"

definition runtime_provider_config_eq :: "runtime_provider_config \<Rightarrow> runtime_provider_config \<Rightarrow> bool" where
  "runtime_provider_config_eq a b =
     (provider_config_eq (rp_base a) (rp_base b) \<and> rp_thinking a = rp_thinking b \<and>
      rp_provider_name a = rp_provider_name b \<and> rp_model_name a = rp_model_name b \<and>
      rp_provider_url_name a = rp_provider_url_name b \<and> rp_llm_provider_name a = rp_llm_provider_name b)"

definition tool_call_record_eq :: "tool_call_record \<Rightarrow> tool_call_record \<Rightarrow> bool" where
  "tool_call_record_eq a b =
     (a\<lparr>tc_tool_called_input := JNull, tc_provider_metadata := None\<rparr> =
        b\<lparr>tc_tool_called_input := JNull, tc_provider_metadata := None\<rparr> \<and>
      json_eq (tc_tool_called_input a) (tc_tool_called_input b) \<and>
      rel_option json_eq (tc_provider_metadata a) (tc_provider_metadata b))"

definition provider_observation_eq :: "provider_observation \<Rightarrow> provider_observation \<Rightarrow> bool" where
  "provider_observation_eq a b =
     (a\<lparr>po_failed_attempts := []\<rparr> = b\<lparr>po_failed_attempts := []\<rparr> \<and>
      list_all2 json_eq (po_failed_attempts a) (po_failed_attempts b))"

definition runtime_event_eq :: "runtime_event \<Rightarrow> runtime_event \<Rightarrow> bool" where
  "runtime_event_eq a b =
     (case a of
        RuntimeCreated s ag p t f c \<Rightarrow>
          (case b of RuntimeCreated s' ag' p' t' f' c' \<Rightarrow>
             s = s' \<and> ag = ag' \<and> runtime_provider_config_eq p p' \<and> t = t' \<and> f = f' \<and> c = c'
           | _ \<Rightarrow> False)
      | UsageUpdated u \<Rightarrow> (case b of UsageUpdated u' \<Rightarrow> usage_option_eq u u' | _ \<Rightarrow> False)
      | RuntimeFinished t u \<Rightarrow>
          (case b of RuntimeFinished t' u' \<Rightarrow> t = t' \<and> usage_option_eq u u' | _ \<Rightarrow> False)
      | RuntimeFailed t e s u \<Rightarrow>
          (case b of RuntimeFailed t' e' s' u' \<Rightarrow> t = t' \<and> e = e' \<and> s = s' \<and> usage_option_eq u u' | _ \<Rightarrow> False)
      | InputCaptured i \<Rightarrow> (case b of InputCaptured i' \<Rightarrow> json_eq i i' | _ \<Rightarrow> False)
      | OutputCaptured v ob \<Rightarrow>
          (case b of OutputCaptured v' ob' \<Rightarrow> json_eq v v' \<and> rel_option provider_observation_eq ob ob' | _ \<Rightarrow> False)
      | ToolCallRecorded r \<Rightarrow> (case b of ToolCallRecorded r' \<Rightarrow> tool_call_record_eq r r' | _ \<Rightarrow> False)
      | _ \<Rightarrow> a = b)"

definition usage_nan_free :: "usage_report option \<Rightarrow> bool" where
  "usage_nan_free u = (case u of None \<Rightarrow> True | Some r \<Rightarrow>
     \<not> f64_is_nan (us_input_cost r) \<and> \<not> f64_is_nan (us_output_cost r) \<and>
     \<not> f64_is_nan (us_total_cost r) \<and> \<not> f64_is_nan (us_token_per_second r))"

fun event_usage :: "runtime_event \<Rightarrow> usage_report option" where
  "event_usage (UsageUpdated u) = u"
| "event_usage (RuntimeFinished t u) = u"
| "event_usage (RuntimeFailed t e s u) = u"
| "event_usage e = None"

lemma usage_option_eq_refl: "usage_option_eq u u \<longleftrightarrow> usage_nan_free u"
  by (cases u) (auto simp: usage_option_eq_def usage_nan_free_def usage_report_eq_def)

lemma tool_call_record_eq_refl [simp]: "tool_call_record_eq r r"
  by (simp add: tool_call_record_eq_def)

lemma provider_observation_eq_refl [simp]: "provider_observation_eq ob ob"
  by (simp add: provider_observation_eq_def)

lemma rel_option_observation_refl [simp]: "rel_option provider_observation_eq ob ob"
  by (cases ob) simp_all

lemma runtime_event_eq_refl:
  "as_command e \<noteq> None \<Longrightarrow> runtime_event_eq e e \<longleftrightarrow> usage_nan_free (event_usage e)"
  by (cases e) (auto simp: runtime_event_eq_def usage_option_eq_refl usage_nan_free_def)

section \<open>States\<close>

fun debug_state :: "runtime_state \<Rightarrow> string" where
  "debug_state Created = ''Created''"
| "debug_state Dispatching = ''Dispatching''"
| "debug_state WaitingFirstToken = ''WaitingFirstToken''"
| "debug_state Streaming = ''Streaming''"
| "debug_state Finished = ''Finished''"
| "debug_state Failed = ''Failed''"
| "debug_state TimedOut = ''TimedOut''"
| "debug_state Cancelled = ''Cancelled''"

definition can_transition_to :: "runtime_state \<Rightarrow> runtime_state \<Rightarrow> bool" where
  [state_defs]: "can_transition_to self next =
     (case self of
        Created \<Rightarrow> next \<in> {Dispatching, Failed, TimedOut, Cancelled} \<or> self = next
      | Dispatching \<Rightarrow> next \<in> {WaitingFirstToken, Failed, TimedOut, Cancelled} \<or> self = next
      | WaitingFirstToken \<Rightarrow> next \<in> {Streaming, Finished, Failed, TimedOut, Cancelled} \<or> self = next
      | Streaming \<Rightarrow> next \<in> {Finished, Failed, TimedOut, Cancelled} \<or> self = next
      | _ \<Rightarrow> False)"

fun call_result_status :: "runtime_state \<Rightarrow> runtime_call_result_status" where
  "call_result_status Created = StatusPending"
| "call_result_status Dispatching = StatusPending"
| "call_result_status WaitingFirstToken = StatusPending"
| "call_result_status Streaming = StatusStreaming"
| "call_result_status Finished = StatusSucceeded"
| "call_result_status Failed = StatusFailed"
| "call_result_status TimedOut = StatusTimedOut"
| "call_result_status Cancelled = StatusCancelled"

definition is_live :: "runtime_state \<Rightarrow> bool" where
  [state_defs]: "is_live s = (s \<in> {Created, Dispatching, WaitingFirstToken, Streaming})"

definition is_terminal :: "runtime_state \<Rightarrow> bool" where
  [state_defs]: "is_terminal s = (\<not> is_live s)"

record runtime_transition_error =
  te_previous :: runtime_state
  te_next :: runtime_state

definition display_transition_error :: "runtime_transition_error \<Rightarrow> string" where
  "display_transition_error e =
     ''invalid runtime state transition: '' @ debug_state (te_previous e) @ '' -> '' @ debug_state (te_next e)"

lemma terminal_no_transition: "is_terminal s \<Longrightarrow> \<not> can_transition_to s t"
  by (cases s) (auto simp: state_defs)

lemma live_can_fail: "is_live s \<Longrightarrow> t \<in> {Failed, TimedOut, Cancelled} \<Longrightarrow> can_transition_to s t"
  by (cases s) (auto simp: state_defs)

lemma can_transition_live: "can_transition_to s t \<Longrightarrow> is_live s"
  by (cases s) (auto simp: state_defs)

text \<open>How far a call has come; transitions never go back.\<close>

fun state_rank :: "runtime_state \<Rightarrow> nat" where
  "state_rank Created = 0"
| "state_rank Dispatching = 1"
| "state_rank WaitingFirstToken = 2"
| "state_rank Streaming = 3"
| "state_rank _ = 4"

lemma can_transition_rank: "can_transition_to s t \<Longrightarrow> s = t \<or> state_rank s < state_rank t"
  by (cases s; cases t) (auto simp: state_defs)

end
