(* ===== verification/Event_Sourcing.thy ===== *)
theory Event_Sourcing
  imports Prelude
begin

text \<open>
  The contract both aggregates of the lifecycle crate keep: commands are decided into events,
  events are applied to the state, and a committed event is accepted only when it is what the
  reducer itself would have produced. The locale states the laws the aggregates promise; what
  follows from them (a state rebuilt from the event stream is the state that produced it,
  invariants hold along every run and every replay) is proved once here.
\<close>

text \<open>Commands executed one after another; a rejected command leaves the state as it is.\<close>

fun drive :: "('s \<Rightarrow> 'c \<Rightarrow> ('err, 'e) result) \<Rightarrow> ('s \<Rightarrow> 'e \<Rightarrow> 's) \<Rightarrow> 's \<Rightarrow> 'c list \<Rightarrow> 's \<times> 'e list" where
  "drive decide apply_event s [] = (s, [])"
| "drive decide apply_event s (c # cs) =
     (case decide s c of
        Inl _ \<Rightarrow> drive decide apply_event s cs
      | Inr e \<Rightarrow> (let (t, es) = drive decide apply_event (apply_event s e) cs in (t, e # es)))"

text \<open>The loop \<open>for event in events { aggregate.apply_committed(&event)?; }\<close>.\<close>

fun commit_all :: "('s \<Rightarrow> 'e \<Rightarrow> ('err, 's) result) \<Rightarrow> 's \<Rightarrow> 'e list \<Rightarrow> ('err, 's) result" where
  "commit_all commit s [] = Inr s"
| "commit_all commit s (e # es) = and_then (commit s e) (\<lambda>t. commit_all commit t es)"

text \<open>A predicate of every state and the event applied to it.\<close>

fun along :: "('s \<Rightarrow> 'e \<Rightarrow> bool) \<Rightarrow> ('s \<Rightarrow> 'e \<Rightarrow> 's) \<Rightarrow> 's \<Rightarrow> 'e list \<Rightarrow> bool" where
  "along P apply_event s [] = True"
| "along P apply_event s (e # es) = (P s e \<and> along P apply_event (apply_event s e) es)"

lemma commit_all_append:
  "commit_all commit s (es @ fs) = and_then (commit_all commit s es) (\<lambda>t. commit_all commit t fs)"
proof (induction es arbitrary: s)
  case (Cons e es)
  then show ?case by (cases "commit s e") auto
qed simp

lemma drive_append:
  "drive d a s (cs @ ds) =
     (let (t, es) = drive d a s cs; (u, fs) = drive d a t ds in (u, es @ fs))"
  by (induction cs arbitrary: s) (auto simp: Let_def split: sum.splits prod.splits)

text \<open>A reducer and the invariant its steps keep.\<close>

locale reducer =
  fixes decide :: "'s \<Rightarrow> 'c \<Rightarrow> ('err, 'e) result"
    and apply_event :: "'s \<Rightarrow> 'e \<Rightarrow> 's"
    and inv :: "'s \<Rightarrow> bool"
  assumes inv_step: "inv s \<Longrightarrow> decide s c = Inr e \<Longrightarrow> inv (apply_event s e)"
begin

lemma drive_inv: "inv s \<Longrightarrow> inv (fst (drive decide apply_event s cs))"
proof (induction cs arbitrary: s)
  case (Cons c cs)
  show ?case
  proof (cases "decide s c")
    case (Inr e)
    with Cons.prems have "inv (apply_event s e)" by (rule inv_step)
    then have "inv (fst (drive decide apply_event (apply_event s e) cs))" by (rule Cons.IH)
    with Inr show ?thesis by (auto simp: Let_def split: prod.splits)
  qed (use Cons in simp)
qed simp

end

text \<open>A reducer that accepts a committed event only if it could have decided it itself.\<close>

locale committed_reducer = reducer decide apply_event inv
  for decide :: "'s \<Rightarrow> 'c \<Rightarrow> ('err, 'e) result"
    and apply_event :: "'s \<Rightarrow> 'e \<Rightarrow> 's"
    and inv :: "'s \<Rightarrow> bool" +
  fixes commit :: "'s \<Rightarrow> 'e \<Rightarrow> ('fail, 's) result"
  assumes commit_applies: "commit s e = Inr t \<Longrightarrow> t = apply_event s e"
    and commit_decided: "commit s e = Inr t \<Longrightarrow> \<exists>c. decide s c = Inr e"
begin

lemma commit_all_inv: "inv s \<Longrightarrow> commit_all commit s es = Inr t \<Longrightarrow> inv t"
proof (induction es arbitrary: s)
  case (Cons e es)
  then obtain u where u: "commit s e = Inr u" "commit_all commit u es = Inr t"
    by (auto simp: and_then_Inr_iff)
  obtain c where "decide s c = Inr e" using commit_decided [OF u(1)] by blast
  then have "inv u" using inv_step Cons.prems(1) commit_applies [OF u(1)] by simp
  then show ?case using Cons.IH u(2) by blast
qed simp

text \<open>Whatever a replay accepts, a run of commands produces.\<close>

lemma commit_all_sound:
  "commit_all commit s es = Inr t \<Longrightarrow> \<exists>cs. drive decide apply_event s cs = (t, es)"
proof (induction es arbitrary: s)
  case Nil
  then have "drive decide apply_event s [] = (t, [])" by simp
  then show ?case by blast
next
  case (Cons e es)
  then obtain u where u: "commit s e = Inr u" "commit_all commit u es = Inr t"
    by (auto simp: and_then_Inr_iff)
  obtain c where c: "decide s c = Inr e" using commit_decided [OF u(1)] by blast
  obtain cs where "drive decide apply_event u cs = (t, es)" using Cons.IH [OF u(2)] by blast
  then have "drive decide apply_event s (c # cs) = (t, e # es)"
    using c commit_applies [OF u(1)] by simp
  then show ?case by blast
qed

end

text \<open>The events the reducer decides are accepted when they are committed.\<close>

locale event_sourced = committed_reducer decide apply_event inv commit
  for decide :: "'s \<Rightarrow> 'c \<Rightarrow> ('err, 'e) result"
    and apply_event :: "'s \<Rightarrow> 'e \<Rightarrow> 's"
    and inv :: "'s \<Rightarrow> bool"
    and commit :: "'s \<Rightarrow> 'e \<Rightarrow> ('fail, 's) result" +
  fixes replayable :: "'s \<Rightarrow> 'e \<Rightarrow> bool"
  assumes commit_accepts: "decide s c = Inr e \<Longrightarrow> replayable s e \<Longrightarrow> commit s e = Inr (apply_event s e)"
begin

lemma commit_all_drive:
  "along replayable apply_event s (snd (drive decide apply_event s cs)) \<Longrightarrow>
   commit_all commit s (snd (drive decide apply_event s cs)) = Inr (fst (drive decide apply_event s cs))"
proof (induction cs arbitrary: s)
  case (Cons c cs)
  show ?case
  proof (cases "decide s c")
    case (Inr e)
    obtain t es where d: "drive decide apply_event (apply_event s e) cs = (t, es)" by fastforce
    with Cons.prems Inr have "replayable s e" "along replayable apply_event (apply_event s e) es"
      by (simp_all add: Let_def)
    then show ?thesis using Cons.IH [of "apply_event s e"] commit_accepts [OF Inr] d Inr by simp
  qed (use Cons in simp)
qed simp

end

end
