(* ===== verification/Runtime_Lifecycle.thy ===== *)
theory Runtime_Lifecycle
  imports Runtime_Types Event_Sourcing
begin

text \<open>
  The runtime aggregate (\<open>RuntimeAggregate\<close> of \<open>lifecycle/src/runtime.rs\<close>): the state of one
  provider invocation, the commands that change it, the event stream it produces and the replay
  of that stream, its projection and its wire form. Errors are the strings the code returns.
\<close>

section \<open>The aggregate\<close>

record runtime_aggregate =
  ra_runtime_id :: string
  ra_session_id :: string
  ra_state :: runtime_state
  ra_created_at :: datetime
  ra_called_at :: "datetime option"
  ra_first_token_at :: "datetime option"
  ra_call_finished_at :: "datetime option"
  ra_fallback_from_id :: "string option"
  ra_agent_id :: string
  ra_provider :: runtime_provider_config
  ra_error :: "runtime_error option"
  ra_reasoning :: "string option"
  ra_reasoning_hash :: "string option"
  ra_input :: "json option"
  ra_output :: "json option"
  ra_provider_observation :: "provider_observation option"
  ra_text :: string
  ra_tool_call :: "tool_call_record list"
  ra_context_tokens :: context_token_stats
  ra_usage :: "usage_report option"
  ra_uncommitted_events :: "runtime_event list"

definition runtime_aggregate_eq :: "runtime_aggregate \<Rightarrow> runtime_aggregate \<Rightarrow> bool" where
  "runtime_aggregate_eq a b =
     (ra_runtime_id a = ra_runtime_id b \<and> ra_session_id a = ra_session_id b \<and>
      ra_state a = ra_state b \<and> ra_created_at a = ra_created_at b \<and>
      ra_called_at a = ra_called_at b \<and> ra_first_token_at a = ra_first_token_at b \<and>
      ra_call_finished_at a = ra_call_finished_at b \<and> ra_fallback_from_id a = ra_fallback_from_id b \<and>
      ra_agent_id a = ra_agent_id b \<and> runtime_provider_config_eq (ra_provider a) (ra_provider b) \<and>
      ra_error a = ra_error b \<and> ra_reasoning a = ra_reasoning b \<and>
      ra_reasoning_hash a = ra_reasoning_hash b \<and> rel_option json_eq (ra_input a) (ra_input b) \<and>
      rel_option json_eq (ra_output a) (ra_output b) \<and>
      rel_option provider_observation_eq (ra_provider_observation a) (ra_provider_observation b) \<and>
      ra_text a = ra_text b \<and> list_all2 tool_call_record_eq (ra_tool_call a) (ra_tool_call b) \<and>
      ra_context_tokens a = ra_context_tokens b \<and> usage_option_eq (ra_usage a) (ra_usage b))"

definition validate_fallback_source :: "string \<Rightarrow> string option \<Rightarrow> (string, unit) result" where
  "validate_fallback_source runtime_id fallback_from_id =
     (case fallback_from_id of
        None \<Rightarrow> Inr ()
      | Some source \<Rightarrow>
          and_then (reject_if (blank source) ''runtime fallback source must be non-empty'')
            (\<lambda>_. reject_if (source = runtime_id) ''runtime cannot fall back from itself''))"

definition created_aggregate ::
  "string \<Rightarrow> string \<Rightarrow> string \<Rightarrow> runtime_provider_config \<Rightarrow> datetime \<Rightarrow> string option \<Rightarrow>
   context_token_stats \<Rightarrow> runtime_event list \<Rightarrow> runtime_aggregate" where
  "created_aggregate runtime_id session_id agent_id provider created_at fallback_from_id tokens events =
     \<lparr>ra_runtime_id = runtime_id, ra_session_id = session_id, ra_state = Created,
      ra_created_at = created_at, ra_called_at = None, ra_first_token_at = None,
      ra_call_finished_at = None, ra_fallback_from_id = fallback_from_id, ra_agent_id = agent_id,
      ra_provider = provider, ra_error = None, ra_reasoning = None, ra_reasoning_hash = None,
      ra_input = None, ra_output = None, ra_provider_observation = None, ra_text = [],
      ra_tool_call = [], ra_context_tokens = tokens, ra_usage = None, ra_uncommitted_events = events\<rparr>"

definition new_with_fallback ::
  "string \<Rightarrow> string \<Rightarrow> string \<Rightarrow> runtime_provider_config \<Rightarrow> datetime \<Rightarrow> string option \<Rightarrow>
   (string, runtime_aggregate) result" where
  "new_with_fallback runtime_id session_id agent_id provider created_at fallback_from_id =
     and_then (validate_fallback_source runtime_id fallback_from_id)
       (\<lambda>_. Inr (created_aggregate runtime_id session_id agent_id provider created_at fallback_from_id
          context_token_stats_default
          [RuntimeCreated session_id agent_id provider created_at fallback_from_id
             context_token_stats_default]))"

definition new_runtime ::
  "string \<Rightarrow> string \<Rightarrow> string \<Rightarrow> runtime_provider_config \<Rightarrow> datetime \<Rightarrow> (string, runtime_aggregate) result" where
  "new_runtime runtime_id session_id agent_id provider created_at =
     new_with_fallback runtime_id session_id agent_id provider created_at None"

section \<open>Deciding and applying\<close>

definition require_live_command :: "runtime_aggregate \<Rightarrow> string \<Rightarrow> (string, unit) result" where
  "require_live_command a cmd =
     reject_if (\<not> is_live (ra_state a))
       (''runtime command '' @ cmd @ '' rejected in terminal state '' @ debug_state (ra_state a))"

definition require_transition :: "runtime_aggregate \<Rightarrow> runtime_state \<Rightarrow> (string, unit) result" where
  "require_transition a next =
     reject_if (\<not> can_transition_to (ra_state a) next)
       (display_transition_error \<lparr>te_previous = ra_state a, te_next = next\<rparr>)"

fun decide :: "runtime_aggregate \<Rightarrow> runtime_command \<Rightarrow> (string, runtime_event) result" where
  "decide a (Transition next) = and_then (require_transition a next) (\<lambda>_. Inr (StateChanged next))"
| "decide a (CmdCallStarted called_at) =
     and_then (require_transition a Dispatching) (\<lambda>_. Inr (CallStarted called_at))"
| "decide a CmdWaitingFirstToken =
     and_then (require_transition a WaitingFirstToken) (\<lambda>_. Inr EvWaitingFirstToken)"
| "decide a (CmdFirstTokenReceived first_token_at) =
     and_then (require_transition a Streaming) (\<lambda>_. Inr (FirstTokenReceived first_token_at))"
| "decide a (AppendText chunk) =
     and_then (require_live_command a ''append_text'') (\<lambda>_. Inr (TextAppended chunk))"
| "decide a (CaptureInput i) =
     and_then (require_live_command a ''capture_input'') (\<lambda>_. Inr (InputCaptured i))"
| "decide a (CaptureOutput output observation) =
     and_then (require_live_command a ''capture_output'') (\<lambda>_. Inr (OutputCaptured output observation))"
| "decide a (RecordToolCall r) =
     and_then (require_live_command a ''record_tool_call'') (\<lambda>_. Inr (ToolCallRecorded r))"
| "decide a (UpdateContextTokens tokens) =
     and_then (require_live_command a ''update_context_tokens'') (\<lambda>_. Inr (ContextTokensUpdated tokens))"
| "decide a (UpdateUsage usage) =
     and_then (require_live_command a ''update_usage'') (\<lambda>_. Inr (UsageUpdated usage))"
| "decide a (UpdateReasoning reasoning hash) =
     and_then (require_live_command a ''update_reasoning'') (\<lambda>_. Inr (ReasoningUpdated reasoning hash))"
| "decide a (FinishSuccess finished_at usage) =
     and_then (require_transition a Finished) (\<lambda>_. Inr (RuntimeFinished finished_at usage))"
| "decide a (FinishFailure finished_at err terminal_state usage) =
     and_then (reject_if (terminal_state \<notin> {Failed, TimedOut, Cancelled})
         (''runtime failure requires a failure terminal state, got '' @ debug_state terminal_state))
       (\<lambda>_. and_then (require_transition a terminal_state)
         (\<lambda>_. Inr (RuntimeFailed finished_at err terminal_state usage)))"

definition terminal_context_tokens :: "usage_report option \<Rightarrow> context_token_stats \<Rightarrow> context_token_stats" where
  "terminal_context_tokens usage tokens =
     (case usage of
        Some u \<Rightarrow> if us_input_tokens u > 0 then tokens\<lparr>ct_input := us_input_tokens u\<rparr> else tokens
      | None \<Rightarrow> tokens)"

fun apply_event :: "runtime_aggregate \<Rightarrow> runtime_event \<Rightarrow> runtime_aggregate" where
  "apply_event a (RuntimeCreated session_id agent_id provider created_at fallback_from_id tokens) =
     a\<lparr>ra_session_id := session_id, ra_agent_id := agent_id, ra_provider := provider,
       ra_created_at := created_at, ra_fallback_from_id := fallback_from_id,
       ra_context_tokens := tokens\<rparr>"
| "apply_event a (StateChanged state) = a\<lparr>ra_state := state\<rparr>"
| "apply_event a (CallStarted called_at) = a\<lparr>ra_state := Dispatching, ra_called_at := Some called_at\<rparr>"
| "apply_event a EvWaitingFirstToken = a\<lparr>ra_state := WaitingFirstToken\<rparr>"
| "apply_event a (FirstTokenReceived first_token_at) =
     a\<lparr>ra_state := Streaming, ra_first_token_at := Some first_token_at\<rparr>"
| "apply_event a (TextAppended chunk) = a\<lparr>ra_text := ra_text a @ chunk\<rparr>"
| "apply_event a (InputCaptured i) = a\<lparr>ra_input := Some i\<rparr>"
| "apply_event a (OutputCaptured output observation) =
     a\<lparr>ra_output := Some output, ra_provider_observation := observation\<rparr>"
| "apply_event a (ToolCallRecorded r) = a\<lparr>ra_tool_call := ra_tool_call a @ [r]\<rparr>"
| "apply_event a (ContextTokensUpdated tokens) = a\<lparr>ra_context_tokens := tokens\<rparr>"
| "apply_event a (UsageUpdated usage) = a\<lparr>ra_usage := usage\<rparr>"
| "apply_event a (ReasoningUpdated reasoning hash) =
     a\<lparr>ra_reasoning := reasoning, ra_reasoning_hash := hash\<rparr>"
| "apply_event a (RuntimeFinished finished_at usage) =
     a\<lparr>ra_state := Finished, ra_call_finished_at := Some finished_at, ra_usage := usage,
       ra_context_tokens := terminal_context_tokens usage (ra_context_tokens a)\<rparr>"
| "apply_event a (RuntimeFailed finished_at err state usage) =
     a\<lparr>ra_state := state, ra_call_finished_at := Some finished_at, ra_error := Some err,
       ra_usage := usage, ra_context_tokens := terminal_context_tokens usage (ra_context_tokens a)\<rparr>"

definition execute :: "runtime_aggregate \<Rightarrow> runtime_command \<Rightarrow> (string, runtime_aggregate \<times> runtime_event) result" where
  "execute a c = and_then (decide a c) (\<lambda>e.
     let b = apply_event a e
     in Inr (b\<lparr>ra_uncommitted_events := ra_uncommitted_events b @ [e]\<rparr>, e))"

definition apply_committed :: "runtime_aggregate \<Rightarrow> runtime_event \<Rightarrow> (string, runtime_aggregate) result" where
  "apply_committed a e =
     (case as_command e of
        None \<Rightarrow> Inl ''runtime_created may only be the first runtime event''
      | Some c \<Rightarrow> and_then (decide a c) (\<lambda>expected.
          if \<not> runtime_event_eq expected e
          then Inl ''runtime event does not match the canonical reducer result''
          else Inr (apply_event a e)))"

definition replay :: "string \<Rightarrow> runtime_event list \<Rightarrow> (string, runtime_aggregate) result" where
  "replay runtime_id events =
     (case events of
        [] \<Rightarrow> Inl (''runtime '' @ runtime_id @ '' has no creation event'')
      | RuntimeCreated session_id agent_id provider created_at fallback_from_id tokens # rest \<Rightarrow>
          and_then (validate_fallback_source runtime_id fallback_from_id)
            (\<lambda>_. commit_all apply_committed
               (created_aggregate runtime_id session_id agent_id provider created_at fallback_from_id tokens [])
               rest)
      | _ \<Rightarrow> Inl (''runtime '' @ runtime_id @ '' event stream must begin with runtime_created''))"

section \<open>The uncommitted buffer\<close>

definition take_uncommitted_events :: "runtime_aggregate \<Rightarrow> runtime_aggregate \<times> runtime_event list" where
  "take_uncommitted_events a = (a\<lparr>ra_uncommitted_events := []\<rparr>, ra_uncommitted_events a)"

definition next_uncommitted_event :: "runtime_aggregate \<Rightarrow> runtime_event option" where
  "next_uncommitted_event a = (case ra_uncommitted_events a of [] \<Rightarrow> None | e # _ \<Rightarrow> Some e)"

definition acknowledge_uncommitted_event :: "runtime_aggregate \<Rightarrow> runtime_aggregate \<times> runtime_event option" where
  "acknowledge_uncommitted_event a =
     (case ra_uncommitted_events a of
        [] \<Rightarrow> (a, None)
      | e # es \<Rightarrow> (a\<lparr>ra_uncommitted_events := es\<rparr>, Some e))"

definition has_uncommitted_events :: "runtime_aggregate \<Rightarrow> bool" where
  "has_uncommitted_events a = (ra_uncommitted_events a \<noteq> [])"

section \<open>The named operations\<close>

definition executed :: "runtime_aggregate \<Rightarrow> runtime_command \<Rightarrow> (string, runtime_aggregate) result" where
  "executed a c = and_then (execute a c) (\<lambda>(b, _). Inr b)"

definition transition :: "runtime_aggregate \<Rightarrow> runtime_state \<Rightarrow> (string, runtime_aggregate) result" where
  "transition a next = executed a (Transition next)"

definition mark_called :: "runtime_aggregate \<Rightarrow> datetime \<Rightarrow> (string, runtime_aggregate) result" where
  "mark_called a called_at = executed a (CmdCallStarted called_at)"

definition mark_waiting_first_token :: "runtime_aggregate \<Rightarrow> (string, runtime_aggregate) result" where
  "mark_waiting_first_token a = executed a CmdWaitingFirstToken"

definition mark_first_token :: "runtime_aggregate \<Rightarrow> datetime \<Rightarrow> (string, runtime_aggregate) result" where
  "mark_first_token a first_token_at = executed a (CmdFirstTokenReceived first_token_at)"

definition append_text :: "runtime_aggregate \<Rightarrow> string \<Rightarrow> (string, runtime_aggregate) result" where
  "append_text a chunk = executed a (AppendText chunk)"

definition set_input :: "runtime_aggregate \<Rightarrow> json \<Rightarrow> (string, runtime_aggregate) result" where
  "set_input a i = executed a (CaptureInput i)"

definition set_output_with_provider_observation ::
  "runtime_aggregate \<Rightarrow> json \<Rightarrow> provider_observation option \<Rightarrow> (string, runtime_aggregate) result" where
  "set_output_with_provider_observation a output observation = executed a (CaptureOutput output observation)"

definition set_output :: "runtime_aggregate \<Rightarrow> json \<Rightarrow> (string, runtime_aggregate) result" where
  "set_output a output = set_output_with_provider_observation a output None"

definition push_tool_call :: "runtime_aggregate \<Rightarrow> tool_call_record \<Rightarrow> (string, runtime_aggregate) result" where
  "push_tool_call a r = executed a (RecordToolCall r)"

definition update_context_tokens :: "runtime_aggregate \<Rightarrow> context_token_stats \<Rightarrow> (string, runtime_aggregate) result" where
  "update_context_tokens a tokens = executed a (UpdateContextTokens tokens)"

definition update_usage :: "runtime_aggregate \<Rightarrow> usage_report option \<Rightarrow> (string, runtime_aggregate) result" where
  "update_usage a usage = executed a (UpdateUsage usage)"

definition update_reasoning ::
  "runtime_aggregate \<Rightarrow> string option \<Rightarrow> string option \<Rightarrow> (string, runtime_aggregate) result" where
  "update_reasoning a reasoning hash = executed a (UpdateReasoning reasoning hash)"

definition finish_success :: "runtime_aggregate \<Rightarrow> datetime \<Rightarrow> usage_report option \<Rightarrow> (string, runtime_aggregate) result" where
  "finish_success a finished_at usage = executed a (FinishSuccess finished_at usage)"

definition finish_failure ::
  "runtime_aggregate \<Rightarrow> datetime \<Rightarrow> runtime_error \<Rightarrow> runtime_state \<Rightarrow> usage_report option \<Rightarrow>
   (string, runtime_aggregate) result" where
  "finish_failure a finished_at err terminal_state usage =
     executed a (FinishFailure finished_at err terminal_state usage)"

section \<open>Projections and the wire form\<close>

record runtime_projection =
  rj_runtime_id :: string
  rj_state :: runtime_state
  rj_call_result_status :: runtime_call_result_status
  rj_live :: bool
  rj_session_db_refresh_required :: bool

definition projection_new :: "string \<Rightarrow> runtime_state \<Rightarrow> runtime_projection" where
  "projection_new runtime_id state =
     \<lparr>rj_runtime_id = runtime_id, rj_state = state, rj_call_result_status = call_result_status state,
      rj_live = is_live state, rj_session_db_refresh_required = (\<not> is_live state)\<rparr>"

text \<open>Deserialisation recomputes the derived fields and refuses a wire that contradicts them.\<close>

definition projection_from_wire :: "runtime_projection \<Rightarrow> (string, runtime_projection) result" where
  "projection_from_wire wire =
     (let projection = projection_new (rj_runtime_id wire) (rj_state wire)
      in if rj_call_result_status wire \<noteq> rj_call_result_status projection
            \<or> rj_live wire \<noteq> rj_live projection
            \<or> rj_session_db_refresh_required wire \<noteq> rj_session_db_refresh_required projection
         then Inl ''runtime lifecycle projection contradicts runtime state''
         else Inr projection)"

datatype runtime_query = Lifecycle

fun query :: "runtime_aggregate \<Rightarrow> runtime_query \<Rightarrow> runtime_projection" where
  "query a Lifecycle = projection_new (ra_runtime_id a) (ra_state a)"

definition live_overlay_active :: "runtime_aggregate \<Rightarrow> bool" where
  "live_overlay_active a = is_live (ra_state a)"

definition session_db_refresh_required :: "runtime_aggregate \<Rightarrow> bool" where
  "session_db_refresh_required a = (\<not> live_overlay_active a)"

definition assistant_message_timestamps :: "externals \<Rightarrow> runtime_aggregate \<Rightarrow> int \<times> int" where
  "assistant_message_timestamps X a =
     (let created_at = (case ra_first_token_at a of Some t \<Rightarrow> t | None \<Rightarrow>
            (case ra_called_at a of Some t \<Rightarrow> t | None \<Rightarrow> ra_created_at a));
          updated_at = (case ra_call_finished_at a of Some t \<Rightarrow> t | None \<Rightarrow> created_at)
      in (timestamp_millis X created_at, timestamp_millis X updated_at))"

record runtime_wire =
  rw_runtime_id :: string
  rw_created_at :: datetime
  rw_called_at :: "datetime option"
  rw_first_token_at :: "datetime option"
  rw_call_finished_at :: "datetime option"
  rw_call_result_status :: runtime_call_result_status
  rw_fallback_from_id :: "string option"
  rw_session_id :: string
  rw_agent_id :: string
  rw_provider :: runtime_provider_config
  rw_error :: "runtime_error option"
  rw_reasoning :: "string option"
  rw_reasoning_hash :: "string option"
  rw_input :: "json option"
  rw_output :: "json option"
  rw_provider_observation :: "provider_observation option"
  rw_text :: string
  rw_tool_call :: "tool_call_record list"
  rw_context_tokens :: context_token_stats
  rw_usage :: "usage_report option"
  rw_state :: runtime_state

definition runtime_to_wire :: "runtime_aggregate \<Rightarrow> runtime_wire" where
  "runtime_to_wire a =
     \<lparr>rw_runtime_id = ra_runtime_id a, rw_created_at = ra_created_at a, rw_called_at = ra_called_at a,
      rw_first_token_at = ra_first_token_at a, rw_call_finished_at = ra_call_finished_at a,
      rw_call_result_status = call_result_status (ra_state a),
      rw_fallback_from_id = ra_fallback_from_id a, rw_session_id = ra_session_id a,
      rw_agent_id = ra_agent_id a, rw_provider = ra_provider a, rw_error = ra_error a,
      rw_reasoning = ra_reasoning a, rw_reasoning_hash = ra_reasoning_hash a, rw_input = ra_input a,
      rw_output = ra_output a, rw_provider_observation = ra_provider_observation a,
      rw_text = ra_text a, rw_tool_call = ra_tool_call a, rw_context_tokens = ra_context_tokens a,
      rw_usage = ra_usage a, rw_state = ra_state a\<rparr>"

text \<open>Reading drops a \<open>null\<close> from the optional JSON values, those of the tool calls included.\<close>

definition tool_call_over_wire :: "tool_call_record \<Rightarrow> tool_call_record" where
  "tool_call_over_wire r = r\<lparr>tc_provider_metadata := optional_value_over_wire (tc_provider_metadata r)\<rparr>"

definition runtime_from_wire :: "runtime_wire \<Rightarrow> (string, runtime_aggregate) result" where
  "runtime_from_wire w =
     (if rw_call_result_status w \<noteq> call_result_status (rw_state w)
      then Inl ''runtime call result projection contradicts runtime state''
      else Inr \<lparr>ra_runtime_id = rw_runtime_id w, ra_session_id = rw_session_id w,
        ra_state = rw_state w, ra_created_at = rw_created_at w, ra_called_at = rw_called_at w,
        ra_first_token_at = rw_first_token_at w, ra_call_finished_at = rw_call_finished_at w,
        ra_fallback_from_id = rw_fallback_from_id w, ra_agent_id = rw_agent_id w,
        ra_provider = rw_provider w, ra_error = rw_error w, ra_reasoning = rw_reasoning w,
        ra_reasoning_hash = rw_reasoning_hash w, ra_input = optional_value_over_wire (rw_input w),
        ra_output = optional_value_over_wire (rw_output w),
        ra_provider_observation = rw_provider_observation w, ra_text = rw_text w,
        ra_tool_call = map tool_call_over_wire (rw_tool_call w), ra_context_tokens = rw_context_tokens w,
        ra_usage = rw_usage w, ra_uncommitted_events = []\<rparr>)"

end
