(* ===== verification/Reference_Externals.thy ===== *)
theory Reference_Externals
  imports Json_Value
begin

text \<open>
  Concrete library parameters: chrono's documented bounds, JSON string literals with the
  escapes of the JSON grammar, decimal numbers. They satisfy the laws of \<open>chrono_laws\<close> and
  \<open>json_text_laws\<close> and are what the witnesses evaluate. The digest is a stand-in of the right
  shape: no theorem assumes anything of it but its shape.
\<close>

section \<open>Numbers\<close>

fun number_text :: "json_number \<Rightarrow> string" where
  "number_text (PosInt n) = decimal (unat n)"
| "number_text (NegInt i) = ''-'' @ decimal (nat (- i))"
| "number_text (Float x) = decimal (unat x) @ ''e0''"

lemma e_notin_decimal: "CHR ''e'' \<notin> set (decimal n)" "CHR ''-'' \<notin> set (decimal n)"
  using decimal_chars [of n] by (auto simp: digits_def)

lemma number_text_float: "CHR ''e'' \<in> set (number_text m) \<longleftrightarrow> (\<exists>x. m = Float x)"
  by (cases m) (simp_all add: e_notin_decimal)

lemma number_text_neg: "CHR ''-'' \<in> set (number_text m) \<longleftrightarrow> (\<exists>i. m = NegInt i)"
  by (cases m) (simp_all add: e_notin_decimal)

lemma number_text_inj_ref:
  assumes "number_valid m" "number_valid n" and eq: "number_text m = number_text n"
  shows "m = n"
proof -
  have f: "(\<exists>x. m = Float x) \<longleftrightarrow> (\<exists>x. n = Float x)" "(\<exists>i. m = NegInt i) \<longleftrightarrow> (\<exists>i. n = NegInt i)"
    using number_text_float [of m] number_text_float [of n] number_text_neg [of m] number_text_neg [of n] eq
    by simp_all
  show ?thesis
  proof (cases m)
    case (PosInt a)
    with f obtain b where "n = PosInt b" by (cases n) auto
    with PosInt eq show ?thesis by (auto dest!: decimal_inj simp: word_unat_eq_iff)
  next
    case (NegInt i)
    with f obtain j where "n = NegInt j" by (cases n) auto
    with NegInt assms show ?thesis by (auto dest!: decimal_inj)
  next
    case (Float x)
    with f obtain y where "n = Float y" by (cases n) auto
    with Float eq show ?thesis by (auto dest!: decimal_inj simp: word_unat_eq_iff)
  qed
qed

lemma number_text_shape: "number_text n \<noteq> [] \<and> set (number_text n) \<subseteq> number_chars"
proof -
  have "digit_chars \<subseteq> number_chars" by (auto simp: digits_def number_chars_def)
  moreover have "CHR ''-'' \<in> number_chars" "CHR ''e'' \<in> number_chars" "CHR ''0'' \<in> number_chars"
    by (simp_all add: number_chars_def)
  ultimately show ?thesis using decimal_chars by (cases n) auto
qed

section \<open>String literals\<close>

definition escapes :: "(char \<times> string) list" where
  "escapes =
     [(CHR 0x22, [CHR 0x5C, CHR 0x22]), (CHR 0x5C, [CHR 0x5C, CHR 0x5C]),
      (CHR 0x08, [CHR 0x5C, CHR ''b'']), (CHR 0x0C, [CHR 0x5C, CHR ''f'']),
      (CHR 0x0A, [CHR 0x5C, CHR ''n'']), (CHR 0x0D, [CHR 0x5C, CHR ''r'']),
      (CHR 0x09, [CHR 0x5C, CHR ''t''])]"

definition escape_char :: "char \<Rightarrow> string" where
  "escape_char c = (case map_of escapes c of Some e \<Rightarrow> e | None \<Rightarrow> [c])"

definition string_literal :: "string \<Rightarrow> string" where
  "string_literal s = [CHR 0x22] @ concat (map escape_char s) @ [CHR 0x22]"

lemma escape_char_cases:
  "escape_char c = [c] \<and> c \<noteq> CHR 0x22 \<and> c \<noteq> CHR 0x5C \<or> (\<exists>d. escape_char c = [CHR 0x5C, d] \<and> (c, [CHR 0x5C, d]) \<in> set escapes)"
  by (auto simp: escape_char_def escapes_def)

lemma escape_inj: "(c, e) \<in> set escapes \<Longrightarrow> (d, e) \<in> set escapes \<Longrightarrow> c = d"
  by (auto simp: escapes_def)

lemma escape_char_prefix: "escape_char c @ u = escape_char d @ v \<Longrightarrow> c = d \<and> u = v"
  using escape_char_cases [of c] escape_char_cases [of d] by (auto dest: escape_inj)

lemma escape_char_quote: "escape_char c @ u \<noteq> CHR 0x22 # v"
  using escape_char_cases [of c] by auto

lemma string_body_delimited:
  "concat (map escape_char s) @ CHR 0x22 # u = concat (map escape_char t) @ CHR 0x22 # v \<Longrightarrow> s = t \<and> u = v"
proof (induction s arbitrary: t)
  case Nil
  then show ?case using escape_char_quote by (cases t) (auto, metis)
next
  case (Cons c s)
  show ?case
  proof (cases t)
    case Nil
    then show ?thesis using Cons.prems escape_char_quote [of c "concat (map escape_char s) @ CHR 0x22 # u" v] by simp
  next
    case (Cons d t')
    then have "c = d \<and> concat (map escape_char s) @ CHR 0x22 # u = concat (map escape_char t') @ CHR 0x22 # v"
      using Cons.prems by (intro escape_char_prefix) simp
    with Cons.IH [of t'] Cons show ?thesis by simp
  qed
qed

section \<open>The parameters\<close>

definition utc_in_range :: "datetime \<Rightarrow> bool" where
  "utc_in_range t = (- 8334601228800000000000 \<le> t \<and> t \<le> 8210266876799999999999)"

definition reference_digest :: "string \<Rightarrow> string" where
  "reference_digest s = replicate 60 (CHR ''0'') @ ''a1'' @ (if even (length s) then ''00'' else ''ff'')"

definition reference_externals :: externals where
  "reference_externals = \<lparr>
     duration_seconds = (\<lambda>s. if \<bar>s\<bar> \<le> 9223372036854775 then Some (nanos s) else None),
     datetime_add = (\<lambda>t d. if utc_in_range t \<and> utc_in_range (t + d) then Some (t + d) else None),
     datetime_checked_sub = (\<lambda>t d. if utc_in_range t \<and> utc_in_range (t - d) then Some (t - d) else None),
     min_utc = - 8334601228800000000000,
     timestamp_millis = (\<lambda>t. t div 1000000),
     datetime_text = (\<lambda>t. if t < 0 then ''-'' @ decimal (nat (- t)) else decimal (nat t)),
     sha256_hex = reference_digest,
     json_string = string_literal,
     json_number_text = number_text,
     json_parse = (\<lambda>s. None)\<rparr>"

interpretation ref_chrono: chrono_laws reference_externals
  by unfold_locales (auto simp: reference_externals_def split: if_splits)

interpretation ref_text: json_text_laws reference_externals
proof
  show "\<exists>r. json_string reference_externals s = CHR 0x22 # r" for s
    by (simp add: reference_externals_def string_literal_def)
  show "s = t \<and> u = v"
    if "json_string reference_externals s @ u = json_string reference_externals t @ v" for s t u v
    using that string_body_delimited [of s u t v] by (simp add: reference_externals_def string_literal_def)
qed (simp_all add: reference_externals_def number_text_shape number_text_inj_ref)

end
