(* ===== verification/Runtime_Facts.thy ===== *)
theory Runtime_Facts
  imports Runtime_Lifecycle Reference_Externals
begin

text \<open>
  What holds of the runtime aggregate: it keeps the contract of an event-sourced aggregate, its
  timestamps and errors agree with its state, terminal states absorb every command, and the
  stream it produces rebuilds it.
\<close>

section \<open>Deciding\<close>

lemmas decide_defs = require_transition_def require_live_command_def result_simps

fun_cases decide_okE: "decide a c = Inr e"

lemma decide_as_command: "decide a c = Inr e \<Longrightarrow> as_command e = Some c"
  by (cases c) (auto simp: decide_defs)

lemma as_command_decide: "as_command e = Some c \<Longrightarrow> decide a c = Inr e' \<Longrightarrow> e' = e"
  by (cases e) (auto simp: decide_defs)

lemma decide_live: "decide a c = Inr e \<Longrightarrow> is_live (ra_state a)"
  by (cases c) (auto simp: decide_defs dest: can_transition_live)

lemma decide_state:
  "decide a c = Inr e \<Longrightarrow>
   ra_state (apply_event a e) = ra_state a \<or> can_transition_to (ra_state a) (ra_state (apply_event a e))"
  by (cases c) (auto simp: decide_defs)

lemma apply_committed_ok_iff:
  "apply_committed a e = Inr b \<longleftrightarrow>
   as_command e \<noteq> None \<and> decide a (the (as_command e)) = Inr e \<and>
   usage_nan_free (event_usage e) \<and> b = apply_event a e"
proof (cases "as_command e")
  case None
  then show ?thesis by (simp add: apply_committed_def)
next
  case (Some c)
  then have "runtime_event_eq e e \<longleftrightarrow> usage_nan_free (event_usage e)"
    by (simp add: runtime_event_eq_refl)
  then show ?thesis
    using Some as_command_decide [OF Some, of a]
    by (cases "decide a c") (auto simp: apply_committed_def)
qed

section \<open>The invariant\<close>

definition runtime_inv :: "runtime_aggregate \<Rightarrow> bool" where
  "runtime_inv a \<longleftrightarrow>
     (ra_called_at a \<noteq> None \<longrightarrow> ra_state a \<noteq> Created) \<and>
     (ra_first_token_at a \<noteq> None \<longrightarrow> 3 \<le> state_rank (ra_state a)) \<and>
     (ra_call_finished_at a \<noteq> None \<longrightarrow> is_terminal (ra_state a)) \<and>
     (ra_error a \<noteq> None \<longrightarrow> ra_state a \<in> {Failed, TimedOut, Cancelled} \<and> ra_call_finished_at a \<noteq> None) \<and>
     (\<forall>f. ra_fallback_from_id a = Some f \<longrightarrow> \<not> blank f \<and> f \<noteq> ra_runtime_id a)"

lemma can_transition_not_created: "can_transition_to s t \<Longrightarrow> s \<noteq> Created \<Longrightarrow> t \<noteq> Created"
  by (cases s; cases t) (auto simp: state_defs)

lemma rank_le_transition: "can_transition_to s t \<Longrightarrow> n \<le> state_rank s \<Longrightarrow> n \<le> state_rank t"
  using can_transition_rank [of s t] by auto

lemma apply_event_frame:
  assumes "as_command e \<noteq> None"
  shows "ra_runtime_id (apply_event a e) = ra_runtime_id a"
    and "ra_session_id (apply_event a e) = ra_session_id a"
    and "ra_fallback_from_id (apply_event a e) = ra_fallback_from_id a"
    and "ra_created_at (apply_event a e) = ra_created_at a"
  using assms by (cases e; simp)+

lemma step_called:
  "decide a c = Inr e \<Longrightarrow> (ra_called_at a \<noteq> None \<longrightarrow> ra_state a \<noteq> Created) \<Longrightarrow>
   ra_called_at (apply_event a e) \<noteq> None \<longrightarrow> ra_state (apply_event a e) \<noteq> Created"
  by (cases c) (auto simp: decide_defs dest: can_transition_not_created)

lemma step_first_token:
  "decide a c = Inr e \<Longrightarrow> (ra_first_token_at a \<noteq> None \<longrightarrow> 3 \<le> state_rank (ra_state a)) \<Longrightarrow>
   ra_first_token_at (apply_event a e) \<noteq> None \<longrightarrow> 3 \<le> state_rank (ra_state (apply_event a e))"
  by (cases c) (auto simp: decide_defs dest: rank_le_transition)

lemma step_finished:
  "decide a c = Inr e \<Longrightarrow> ra_call_finished_at a = None \<Longrightarrow>
   ra_call_finished_at (apply_event a e) \<noteq> None \<longrightarrow> is_terminal (ra_state (apply_event a e))"
  by (cases c) (auto simp: decide_defs is_terminal_def is_live_def)

lemma step_error:
  "decide a c = Inr e \<Longrightarrow> ra_error a = None \<Longrightarrow>
   ra_error (apply_event a e) \<noteq> None \<longrightarrow>
     ra_state (apply_event a e) \<in> {Failed, TimedOut, Cancelled} \<and> ra_call_finished_at (apply_event a e) \<noteq> None"
  by (cases c) (auto simp: decide_defs)

lemma runtime_inv_step:
  assumes inv: "runtime_inv a" and d: "decide a c = Inr e"
  shows "runtime_inv (apply_event a e)"
proof -
  have live: "is_live (ra_state a)" using d by (rule decide_live)
  then have none: "ra_call_finished_at a = None" "ra_error a = None"
    using inv unfolding runtime_inv_def is_terminal_def by blast+
  have cmd: "as_command e \<noteq> None" using decide_as_command [OF d] by simp
  show ?thesis
    unfolding runtime_inv_def apply_event_frame [OF cmd]
    using inv step_called [OF d] step_first_token [OF d] step_finished [OF d none(1)]
      step_error [OF d none(2)]
    unfolding runtime_inv_def by blast
qed

interpretation rt: event_sourced decide apply_event runtime_inv apply_committed
  "\<lambda>_ e. usage_nan_free (event_usage e)"
proof
  show "runtime_inv a \<Longrightarrow> decide a c = Inr e \<Longrightarrow> runtime_inv (apply_event a e)" for a c e
    by (rule runtime_inv_step)
  show "apply_committed a e = Inr b \<Longrightarrow> b = apply_event a e" for a e b
    by (simp add: apply_committed_ok_iff)
  show "apply_committed a e = Inr b \<Longrightarrow> \<exists>c. decide a c = Inr e" for a e b
    by (auto simp: apply_committed_ok_iff)
  show "decide a c = Inr e \<Longrightarrow> usage_nan_free (event_usage e) \<Longrightarrow> apply_committed a e = Inr (apply_event a e)"
    for a c e
    using decide_as_command [of a c e] by (simp add: apply_committed_ok_iff)
qed

section \<open>Runs of the aggregate\<close>

fun run_execute :: "runtime_aggregate \<Rightarrow> runtime_command list \<Rightarrow> runtime_aggregate" where
  "run_execute a [] = a"
| "run_execute a (c # cs) = run_execute (case executed a c of Inl _ \<Rightarrow> a | Inr b \<Rightarrow> b) cs"

lemma decide_uncommitted [simp]: "decide (a\<lparr>ra_uncommitted_events := es\<rparr>) c = decide a c"
  by (cases c) (auto simp: require_transition_def require_live_command_def)

lemma apply_event_uncommitted [simp]:
  "apply_event (a\<lparr>ra_uncommitted_events := es\<rparr>) e = (apply_event a e)\<lparr>ra_uncommitted_events := es\<rparr>"
  by (cases e) auto

lemma apply_event_keeps_uncommitted [simp]:
  "ra_uncommitted_events (apply_event a e) = ra_uncommitted_events a"
  by (cases e) auto

lemma drive_uncommitted:
  "drive decide apply_event (a\<lparr>ra_uncommitted_events := us\<rparr>) cs =
     (case drive decide apply_event a cs of (b, es) \<Rightarrow> (b\<lparr>ra_uncommitted_events := us\<rparr>, es))"
  by (induction cs arbitrary: a) (auto simp: Let_def split: sum.splits prod.splits)

lemma executed_decide:
  "executed a c = (case decide a c of Inl x \<Rightarrow> Inl x
     | Inr e \<Rightarrow> Inr ((apply_event a e)\<lparr>ra_uncommitted_events := ra_uncommitted_events a @ [e]\<rparr>))"
  by (cases "decide a c") (auto simp: executed_def execute_def Let_def)

lemma run_execute_drive:
  "run_execute a cs = (case drive decide apply_event a cs of
     (b, es) \<Rightarrow> b\<lparr>ra_uncommitted_events := ra_uncommitted_events a @ es\<rparr>)"
proof (induction cs arbitrary: a)
  case (Cons c cs)
  show ?case
  proof (cases "decide a c")
    case (Inr e)
    let ?b = "(apply_event a e)\<lparr>ra_uncommitted_events := ra_uncommitted_events a @ [e]\<rparr>"
    have "run_execute a (c # cs) = run_execute ?b cs" by (simp add: executed_decide Inr)
    then show ?thesis
      unfolding Cons.IH using Inr by (auto simp: drive_uncommitted Let_def split: prod.splits)
  qed (simp add: executed_decide Cons.IH)
qed simp

lemma along_const: "along (\<lambda>_. P) f s es \<longleftrightarrow> (\<forall>e\<in>set es. P e)"
  by (induction es arbitrary: s) auto

lemma drive_events_commands:
  "e \<in> set (snd (drive decide apply_event a cs)) \<Longrightarrow> as_command e \<noteq> None"
proof (induction cs arbitrary: a)
  case (Cons c cs)
  show ?case
  proof (cases "decide a c")
    case (Inr x)
    with Cons.prems have "e = x \<or> e \<in> set (snd (drive decide apply_event (apply_event a x) cs))"
      by (auto simp: Let_def split: prod.splits)
    then show ?thesis using Cons.IH decide_as_command [OF Inr] by auto
  qed (use Cons in simp)
qed simp

lemma created_aggregate_inv:
  "validate_fallback_source rid fb = Inr u \<Longrightarrow> runtime_inv (created_aggregate rid sid ag p t fb k es)"
  by (auto simp: runtime_inv_def created_aggregate_def validate_fallback_source_def result_simps
      split: option.splits)

lemma created_aggregate_uncommitted [simp]:
  "(created_aggregate rid sid ag p t fb k es)\<lparr>ra_uncommitted_events := es'\<rparr> =
   created_aggregate rid sid ag p t fb k es'"
  "ra_uncommitted_events (created_aggregate rid sid ag p t fb k es) = es"
  by (simp_all add: created_aggregate_def)

lemma new_with_fallback_ok:
  "new_with_fallback rid sid ag p t fb = Inr a \<Longrightarrow>
   validate_fallback_source rid fb = Inr () \<and>
   a = created_aggregate rid sid ag p t fb context_token_stats_default
         [RuntimeCreated sid ag p t fb context_token_stats_default]"
  by (auto simp: new_with_fallback_def result_simps)

lemma replay_created:
  "validate_fallback_source rid fb = Inr () \<Longrightarrow>
   replay rid (RuntimeCreated sid ag p t fb k # es) =
   commit_all apply_committed (created_aggregate rid sid ag p t fb k []) es"
  by (simp add: replay_def)

lemma replay_ok:
  assumes "replay rid es = Inr a"
  obtains sid ag p t fb k rest where "es = RuntimeCreated sid ag p t fb k # rest"
    "validate_fallback_source rid fb = Inr ()"
    "commit_all apply_committed (created_aggregate rid sid ag p t fb k []) rest = Inr a"
  using assms by (auto simp: replay_def result_simps split: list.splits runtime_event.splits)

section \<open>Terminal states\<close>

lemma terminal_rejects: "is_terminal (ra_state a) \<Longrightarrow> decide a c \<noteq> Inr e"
  using decide_live [of a c e] by (auto simp: is_terminal_def)

lemma executed_rank: "executed a c = Inr b \<Longrightarrow> state_rank (ra_state a) \<le> state_rank (ra_state b)"
  using decide_state [of a c] can_transition_rank
  by (auto simp: executed_decide split: sum.splits) (metis le_eq_less_or_eq order_refl)

section \<open>Text and tool calls are the stream's\<close>

fun event_text :: "runtime_event \<Rightarrow> string" where
  "event_text (TextAppended chunk) = chunk"
| "event_text e = []"

fun event_tool_calls :: "runtime_event \<Rightarrow> tool_call_record list" where
  "event_tool_calls (ToolCallRecorded r) = [r]"
| "event_tool_calls e = []"

lemma apply_event_text: "ra_text (apply_event a e) = ra_text a @ event_text e"
  by (cases e) auto

lemma apply_event_tool_call: "ra_tool_call (apply_event a e) = ra_tool_call a @ event_tool_calls e"
  by (cases e) auto

lemma commit_all_text:
  "commit_all apply_committed a es = Inr b \<Longrightarrow>
   ra_text b = ra_text a @ concat (map event_text es) \<and>
   ra_tool_call b = ra_tool_call a @ concat (map event_tool_calls es)"
proof (induction es arbitrary: a)
  case (Cons e es)
  then obtain m where "apply_committed a e = Inr m" "commit_all apply_committed m es = Inr b"
    by (auto simp: result_simps)
  with Cons.IH [of m] show ?case
    by (auto simp: apply_committed_ok_iff apply_event_text apply_event_tool_call)
qed simp

section \<open>Draining the buffer\<close>

text \<open>Acknowledging until nothing is left.\<close>

function drain :: "runtime_aggregate \<Rightarrow> runtime_aggregate \<times> runtime_event list" where
  "drain a = (case acknowledge_uncommitted_event a of
     (b, None) \<Rightarrow> (b, [])
   | (b, Some e) \<Rightarrow> (let (t, es) = drain b in (t, e # es)))"
  by pat_completeness auto
termination
  by (relation "measure (\<lambda>a. length (ra_uncommitted_events a))")
    (auto simp: acknowledge_uncommitted_event_def split: list.splits)

declare drain.simps [simp del]

end
