(* ===== verification/Runtime_Properties.thy ===== *)
theory Runtime_Properties
  imports Runtime_Facts Reference_Externals
begin

text \<open>
  The properties of the runtime aggregate: its event stream rebuilds it and nothing else is
  accepted as a stream, terminal states absorb, progress is monotone and always possible, and
  the transport forms are faithful.
\<close>

section \<open>Samples\<close>

text \<open>Concrete runtime values at which the properties of the runtime aggregate are instantiated.\<close>

definition sample_provider :: runtime_provider_config where
  "sample_provider =
     \<lparr>rp_base = \<lparr>pc_tura_llm_name = ''llm'', pc_default_model_tier = None, pc_current_model = None,
        pc_stream = True, pc_temperature = 0, pc_max_tokens = 1024, pc_tool_choice = Auto, pc_time_out_ms = 1000\<rparr>,
      rp_thinking = False, rp_provider_name = ''p'', rp_model_name = ''m'',
      rp_provider_url_name = ''u'', rp_llm_provider_name = ''l''\<rparr>"

definition sample_usage :: "f64 \<Rightarrow> usage_report" where
  "sample_usage cost =
     \<lparr>us_input_tokens = 7, us_output_tokens = 3, us_total_tokens = 10, us_cached_input_tokens = 0,
      us_cache_write_tokens = 0, us_reasoning_tokens = 0, us_attachment_input_tokens = 0,
      us_input_cost = cost, us_output_cost = 0, us_total_cost = 0, us_currency = ''usd'',
      us_pricing_source = ''s'', us_latency_ms = 5, us_time_to_first_token_ms = 1, us_token_per_second = 0\<rparr>"

definition sample_runtime :: runtime_aggregate where
  "sample_runtime = created_aggregate ''r1'' ''s1'' ''agent'' sample_provider 0 (Some ''r0'')
     context_token_stats_default
     [RuntimeCreated ''s1'' ''agent'' sample_provider 0 (Some ''r0'') context_token_stats_default]"

definition sample_commands :: "runtime_command list" where
  "sample_commands =
     [CmdCallStarted 1, CmdWaitingFirstToken, CmdFirstTokenReceived 2, AppendText ''he'', AppendText ''llo'',
      FinishSuccess 3 (Some (sample_usage 0)), AppendText ''late'']"

definition sample_error :: runtime_error where
  "sample_error = \<lparr>er_error_code = Some ''429'', er_error_text = None, er_retry_allowed = True,
     er_fallback_allowed = True, er_fallback_to_id = None\<rparr>"

lemma trim_r0: "trim ''r0'' = ''r0''"
  by code_simp

lemma sample_runtime_new:
  "new_with_fallback ''r1'' ''s1'' ''agent'' sample_provider 0 (Some ''r0'') = Inr sample_runtime"
  by (simp add: new_with_fallback_def sample_runtime_def validate_fallback_source_def trim_r0)

section \<open>Properties\<close>

lemmas sample_defs = sample_runtime_def sample_commands_def created_aggregate_def executed_def
  execute_def Let_def decide_defs state_defs terminal_context_tokens_def

lemma sample_run_events:
  "ra_uncommitted_events (run_execute sample_runtime sample_commands) =
     [RuntimeCreated ''s1'' ''agent'' sample_provider 0 (Some ''r0'') context_token_stats_default,
      CallStarted 1, EvWaitingFirstToken, FirstTokenReceived 2, TextAppended ''he'', TextAppended ''llo'',
      RuntimeFinished 3 (Some (sample_usage 0))]"
  by (simp add: sample_defs reject_if_def)

lemma sample_usage_finite: "usage_nan_free (Some (sample_usage 0))"
  by (simp add: usage_nan_free_def sample_usage_def f64_is_nan_def)

text \<open>
  C1: Whatever commands a new runtime executes (rejected ones included), replaying the stream of
  events it produced rebuilds exactly the aggregate, up to the transport buffer, provided no
  usage report in the stream holds a NaN.
\<close>

theorem runtime_replay_rebuilds:
  assumes new: "new_with_fallback rid sid ag p t fb = Inr a"
    and finite_usage: "\<forall>e\<in>set (ra_uncommitted_events (run_execute a cs)). usage_nan_free (event_usage e)"
  shows "replay rid (ra_uncommitted_events (run_execute a cs)) =
         Inr ((run_execute a cs)\<lparr>ra_uncommitted_events := []\<rparr>)"
proof -
  let ?c0 = "created_aggregate rid sid ag p t fb context_token_stats_default"
  let ?ev = "RuntimeCreated sid ag p t fb context_token_stats_default"
  from new_with_fallback_ok [OF new]
  have v: "validate_fallback_source rid fb = Inr ()" and a: "a = ?c0 [?ev]" by auto
  obtain b es where d: "drive decide apply_event a cs = (b, es)" by fastforce
  then have d0: "drive decide apply_event (?c0 []) cs = (b\<lparr>ra_uncommitted_events := []\<rparr>, es)"
    using drive_uncommitted [where a = a and us = "[]" and cs = cs] a by simp
  have run: "run_execute a cs = b\<lparr>ra_uncommitted_events := ?ev # es\<rparr>"
    by (simp add: run_execute_drive d) (simp add: a)
  have "commit_all apply_committed (?c0 []) es = Inr (b\<lparr>ra_uncommitted_events := []\<rparr>)"
    using rt.commit_all_drive [of "?c0 []" cs] finite_usage by (simp add: d0 along_const run)
  then show ?thesis by (simp add: run replay_created [OF v])
qed

text \<open>Witness of C1: a full call, with a command rejected after the end.\<close>

theorem runtime_replay_rebuilds_witness:
  "replay ''r1'' (ra_uncommitted_events (run_execute sample_runtime sample_commands)) =
     Inr ((run_execute sample_runtime sample_commands)\<lparr>ra_uncommitted_events := []\<rparr>) \<and>
   length (ra_uncommitted_events (run_execute sample_runtime sample_commands)) = 7"
proof -
  have "\<forall>e\<in>set (ra_uncommitted_events (run_execute sample_runtime sample_commands)). usage_nan_free (event_usage e)"
    unfolding sample_run_events using sample_usage_finite by (simp add: usage_nan_free_def)
  from runtime_replay_rebuilds [OF sample_runtime_new this] show ?thesis
    by (intro conjI) (simp_all add: sample_run_events)
qed

text \<open>
  A replay that succeeds is sound: the stream starts with the creation event, the rest is
  what some sequence of commands produces from the created aggregate, the result is the
  aggregate those commands lead to, and it satisfies the invariant relating timestamps, error and
  fallback source to the state.
\<close>

theorem runtime_replay_sound:
  assumes "replay rid es = Inr a"
  shows "runtime_inv a \<and> (\<exists>sid ag p t fb k cs.
     drive decide apply_event (created_aggregate rid sid ag p t fb k []) cs = (a, tl es) \<and>
     hd es = RuntimeCreated sid ag p t fb k \<and> es \<noteq> [])"
proof -
  from assms obtain sid ag p t fb k rest where es: "es = RuntimeCreated sid ag p t fb k # rest"
    and v: "validate_fallback_source rid fb = Inr ()"
    and c: "commit_all apply_committed (created_aggregate rid sid ag p t fb k []) rest = Inr a"
    by (rule replay_ok)
  have "runtime_inv a" using rt.commit_all_inv [OF created_aggregate_inv [OF v] c] .
  moreover obtain cs where "drive decide apply_event (created_aggregate rid sid ag p t fb k []) cs = (a, rest)"
    using rt.commit_all_sound [OF c] by blast
  ultimately show ?thesis using es by auto
qed

text \<open>An instance.\<close>

theorem runtime_replay_sound_witness:
  "\<exists>a. replay ''r1'' [RuntimeCreated ''s1'' ''agent'' sample_provider 0 None context_token_stats_default,
      CallStarted 1] = Inr a \<and> runtime_inv a"
proof -
  obtain a where "replay ''r1'' [RuntimeCreated ''s1'' ''agent'' sample_provider 0 None context_token_stats_default,
      CallStarted 1] = Inr a"
    by (simp add: replay_def validate_fallback_source_def apply_committed_def created_aggregate_def
        require_transition_def state_defs runtime_event_eq_def)
  then show ?thesis using runtime_replay_sound by blast
qed

text \<open>A terminal runtime is final: no sequence of commands changes it.\<close>

theorem runtime_terminal_absorbing: "is_terminal (ra_state a) \<Longrightarrow> run_execute a cs = a"
proof (induction cs)
  case (Cons c cs)
  then show ?case
    using terminal_rejects [of a c] by (cases "decide a c") (auto simp: executed_decide)
qed simp

text \<open>An instance: the finished call.\<close>

theorem runtime_terminal_absorbing_witness:
  "run_execute (run_execute sample_runtime sample_commands) [CmdCallStarted 9, FinishSuccess 9 None] =
     run_execute sample_runtime sample_commands"
proof (rule runtime_terminal_absorbing)
  show "is_terminal (ra_state (run_execute sample_runtime sample_commands))"
    by (simp add: sample_defs reject_if_def)
qed

text \<open>A call never goes back: along every run the rank of the state does not decrease.\<close>

theorem runtime_rank_monotone:
  "state_rank (ra_state (run_execute a cs)) \<le> state_rank (ra_state (run_execute a (cs @ ds)))"
proof -
  have step: "state_rank (ra_state b) \<le> state_rank (ra_state (run_execute b ds))" for b
  proof (induction ds arbitrary: b)
    case (Cons c ds)
    show ?case
    proof (cases "executed b c")
      case (Inr d)
      have "state_rank (ra_state d) \<le> state_rank (ra_state (run_execute d ds))" by (rule Cons.IH)
      with executed_rank [OF Inr] Inr show ?thesis by simp
    qed (use Cons in simp)
  qed simp
  have "run_execute a (cs @ ds) = run_execute (run_execute a cs) ds" by (induction cs arbitrary: a) auto
  then show ?thesis using step by simp
qed

text \<open>
  A live runtime is never stuck: it can be finished with any failure state, which records the
  error and the time, keeps the text, and takes the input tokens of the usage report if it has any.
\<close>

theorem runtime_can_always_fail:
  assumes "is_live (ra_state a)" "st \<in> {Failed, TimedOut, Cancelled}"
  shows "\<exists>b. finish_failure a t err st usage = Inr b \<and> ra_state b = st \<and> ra_error b = Some err \<and>
    ra_call_finished_at b = Some t \<and> ra_text b = ra_text a \<and> ra_usage b = usage \<and>
    ra_uncommitted_events b = ra_uncommitted_events a @ [RuntimeFailed t err st usage] \<and>
    ra_context_tokens b = terminal_context_tokens usage (ra_context_tokens a)"
  using assms live_can_fail [OF assms]
  by (auto simp: finish_failure_def executed_decide require_transition_def reject_if_def)

text \<open>An instance.\<close>

theorem runtime_can_always_fail_witness:
  "is_live (ra_state sample_runtime) \<and>
   (\<exists>b. finish_failure sample_runtime 5 sample_error TimedOut None = Inr b \<and> ra_state b = TimedOut)"
proof -
  have "is_live (ra_state sample_runtime)" by (simp add: sample_runtime_def created_aggregate_def state_defs)
  then show ?thesis using runtime_can_always_fail [of sample_runtime TimedOut 5 sample_error None] by blast
qed

text \<open>
  The wire form is faithful: reading what was written gives the aggregate back with an empty
  transport buffer, unless one of its optional JSON values is \<open>null\<close>.
\<close>

theorem runtime_wire_roundtrip:
  assumes "ra_input a \<noteq> Some JNull" "ra_output a \<noteq> Some JNull"
    "\<forall>r\<in>set (ra_tool_call a). tc_provider_metadata r \<noteq> Some JNull"
  shows "runtime_from_wire (runtime_to_wire a) = Inr (a\<lparr>ra_uncommitted_events := []\<rparr>)"
proof -
  have "map tool_call_over_wire (ra_tool_call a) = ra_tool_call a"
  proof (rule map_idI)
    fix r assume "r \<in> set (ra_tool_call a)"
    with assms(3) have "optional_value_over_wire (tc_provider_metadata r) = tc_provider_metadata r"
      by (simp add: optional_value_over_wire_id)
    then show "tool_call_over_wire r = r" by (cases r) (simp add: tool_call_over_wire_def)
  qed
  moreover have "optional_value_over_wire (ra_input a) = ra_input a"
    "optional_value_over_wire (ra_output a) = ra_output a"
    using assms(1,2) by (simp_all add: optional_value_over_wire_id)
  ultimately show ?thesis by (simp add: runtime_from_wire_def runtime_to_wire_def)
qed

text \<open>An instance.\<close>

theorem runtime_wire_roundtrip_witness:
  "runtime_from_wire (runtime_to_wire sample_runtime) = Inr (sample_runtime\<lparr>ra_uncommitted_events := []\<rparr>)"
  by (rule runtime_wire_roundtrip) (simp_all add: sample_runtime_def created_aggregate_def)

text \<open>
  An event the aggregate has just decided is accepted by its own \<open>apply_committed\<close> exactly
  when the usage report it carries holds no NaN: with a NaN the comparison with the reducer's
  result fails and the stream cannot be replayed.
\<close>

theorem runtime_committed_iff_nan_free:
  assumes "decide a c = Inr e"
  shows "is_ok (apply_committed a e) \<longleftrightarrow> usage_nan_free (event_usage e)"
  using assms decide_as_command [OF assms] by (auto simp: is_ok_iff apply_committed_ok_iff)

text \<open>An instance: a NaN cost makes the produced event unacceptable.\<close>

theorem runtime_committed_iff_nan_free_witness:
  "\<not> is_ok (apply_committed sample_runtime (UsageUpdated (Some (sample_usage 0x7FF8000000000000))))"
proof -
  have "decide sample_runtime (UpdateUsage (Some (sample_usage 0x7FF8000000000000))) =
      Inr (UsageUpdated (Some (sample_usage 0x7FF8000000000000)))"
    by (simp add: sample_runtime_def created_aggregate_def require_live_command_def state_defs)
  from runtime_committed_iff_nan_free [OF this] show ?thesis
    by (simp add: usage_nan_free_def sample_usage_def f64_is_nan_def)
qed

text \<open>
  The text and the tool calls of a replayed runtime are the text chunks and the tool calls of
  the stream, in order.
\<close>

theorem runtime_text_from_stream:
  assumes "replay rid es = Inr a"
  shows "ra_text a = concat (map event_text es) \<and> ra_tool_call a = concat (map event_tool_calls es)"
proof -
  from assms obtain sid ag p t fb k rest where "es = RuntimeCreated sid ag p t fb k # rest"
    "commit_all apply_committed (created_aggregate rid sid ag p t fb k []) rest = Inr a"
    by (rule replay_ok)
  with commit_all_text show ?thesis by (fastforce simp: created_aggregate_def)
qed

text \<open>An instance.\<close>

theorem runtime_text_from_stream_witness:
  "\<exists>a. replay ''r1'' [RuntimeCreated ''s1'' ''agent'' sample_provider 0 None context_token_stats_default,
      TextAppended ''a'', CallStarted 1, TextAppended ''b''] = Inr a \<and> ra_text a = ''ab''"
proof -
  let ?es = "[RuntimeCreated ''s1'' ''agent'' sample_provider 0 None context_token_stats_default,
      TextAppended ''a'', CallStarted 1, TextAppended ''b'']"
  obtain a where a: "replay ''r1'' ?es = Inr a"
    by (simp add: replay_def validate_fallback_source_def apply_committed_def created_aggregate_def
        require_transition_def require_live_command_def state_defs runtime_event_eq_def)
  from runtime_text_from_stream [OF a] have "ra_text a = ''ab''" by simp
  with a show ?thesis by blast
qed

text \<open>
  Acknowledging events one at a time until none is left hands over exactly the events that
  taking the whole buffer hands over, in order, and leaves the same aggregate.
\<close>

theorem runtime_drain_complete: "drain a = take_uncommitted_events a"
proof (induction a rule: drain.induct)
  case (1 a)
  show ?case
  proof (cases "ra_uncommitted_events a")
    case Nil
    then have "a\<lparr>ra_uncommitted_events := []\<rparr> = a" by (cases a) simp
    moreover have "acknowledge_uncommitted_event a = (a, None)"
      by (simp add: acknowledge_uncommitted_event_def Nil)
    ultimately show ?thesis
      by (subst drain.simps) (simp add: take_uncommitted_events_def Nil)
  next
    case (Cons e es)
    let ?b = "a\<lparr>ra_uncommitted_events := es\<rparr>"
    have ack: "acknowledge_uncommitted_event a = (?b, Some e)"
      by (simp add: acknowledge_uncommitted_event_def Cons)
    then have "drain ?b = take_uncommitted_events ?b" using 1 [OF ack [symmetric]] by simp
    then show ?thesis
      by (subst drain.simps) (simp add: ack take_uncommitted_events_def Cons)
  qed
qed

text \<open>
  A lifecycle projection read from the wire is accepted exactly when it is the projection of
  its runtime identity and state, so no wire can claim a liveness or a result its state does not have.
\<close>

theorem runtime_projection_wire:
  "projection_from_wire w = Inr v \<longleftrightarrow> w = projection_new (rj_runtime_id w) (rj_state w) \<and> v = w"
  by (cases w) (auto simp: projection_from_wire_def projection_new_def Let_def)

end
