(* ===== verification/Task_Contracts.thy ===== *)
theory Task_Contracts
  imports Json_Value
begin

text \<open>
  Scheduling contracts, dispatch claims and acknowledged callback identities
  (\<open>lifecycle/src/session.rs\<close>): their validation and the digests that bind them.
\<close>

section \<open>Bounds and canonical values\<close>

definition MAX_TASK_SCHEDULING_DEPENDENCIES :: nat where
  [validate_defs]: "MAX_TASK_SCHEDULING_DEPENDENCIES = 64"

definition MAX_TASK_SCHEDULING_SCOPE_ENTRIES :: nat where
  [validate_defs]: "MAX_TASK_SCHEDULING_SCOPE_ENTRIES = 1024"

definition MAX_TASK_SCHEDULING_INPUTS :: nat where
  [validate_defs]: "MAX_TASK_SCHEDULING_INPUTS = 128"

definition MAX_TASK_SCHEDULING_CONFLICT_IDENTITIES :: nat where
  [validate_defs]: "MAX_TASK_SCHEDULING_CONFLICT_IDENTITIES = 128"

definition MAX_TASK_SCHEDULING_VALUE_CHARS :: nat where
  [validate_defs]: "MAX_TASK_SCHEDULING_VALUE_CHARS = 1024"

definition MAX_TASK_SCHEDULING_PARALLEL_RUNTIME_WORKERS :: u64 where
  [validate_defs]: "MAX_TASK_SCHEDULING_PARALLEL_RUNTIME_WORKERS = 128"

definition TASK_SCHEDULING_CONTRACT_SCHEMA_VERSION :: string where
  [validate_defs]: "TASK_SCHEDULING_CONTRACT_SCHEMA_VERSION = ''tura_task_scheduling_contract_v1''"

definition TASK_DISPATCH_CLAIM_SCHEMA_VERSION :: string where
  [validate_defs]: "TASK_DISPATCH_CLAIM_SCHEMA_VERSION = ''tura_task_dispatch_claim_v1''"

definition ACKNOWLEDGED_CHILD_CALLBACK_IDENTITY_SCHEMA_VERSION :: string where
  [validate_defs]: "ACKNOWLEDGED_CHILD_CALLBACK_IDENTITY_SCHEMA_VERSION =
     ''tura_acknowledged_child_callback_identity_v1''"

definition is_lower_sha256 :: "string \<Rightarrow> bool" where
  "is_lower_sha256 v = (length v = 64 \<and>
     list_all (\<lambda>b. (CHR ''0'' \<le> b \<and> b \<le> CHR ''9'') \<or> (CHR ''a'' \<le> b \<and> b \<le> CHR ''f'')) v)"

fun strictly_increasing :: "string list \<Rightarrow> bool" where
  "strictly_increasing (x # y # ys) = (x < y \<and> strictly_increasing (y # ys))"
| "strictly_increasing _ = True"

definition canonical_values :: "string list \<Rightarrow> bool" where
  "canonical_values values =
     (list_all (\<lambda>v. \<not> blank v \<and> length v \<le> MAX_TASK_SCHEDULING_VALUE_CHARS \<and> trim v = v) values \<and>
      strictly_increasing values)"

text \<open>An identity string of a claim or an acknowledgment.\<close>

definition identity_invalid :: "string \<Rightarrow> bool" where
  "identity_invalid v = (blank v \<or> trim v \<noteq> v \<or> length v > MAX_TASK_SCHEDULING_VALUE_CHARS)"

section \<open>The records\<close>

record task_scheduling_contract =
  sc_schema_version :: string
  sc_mission_id :: string
  sc_semantic_dispatch_key :: string
  sc_authority_mission_revision_sha256 :: string
  sc_delegated_input_sha256 :: string
  sc_task_context_capsule_semantic_sha256 :: string
  sc_dependency_task_ids :: "string list"
  sc_exact_input_sha256s :: "string list"
  sc_jspace_authorization_semantic_sha256 :: string
  sc_read_scopes :: "string list"
  sc_write_scopes :: "string list"
  sc_declared_targets :: "string list"
  sc_conflict_identities :: "string list"
  sc_maximum_parallel_runtime_workers :: u64

record task_dispatch_claim =
  dc_schema_version :: string
  dc_mission_id :: string
  dc_task_id :: string
  dc_child_session_id :: string
  dc_child_runtime_id :: string
  dc_child_lease_id :: string
  dc_child_transaction_id :: string
  dc_semantic_dispatch_key :: string
  dc_authority_mission_revision_sha256 :: string
  dc_delegated_input_sha256 :: string
  dc_task_context_capsule_semantic_sha256 :: string
  dc_parent_task_plan_sha256 :: string
  dc_task_scheduling_contract_sha256 :: string
  dc_scope_claim_sha256 :: string

record acknowledged_child_callback_identity =
  ak_schema_version :: string
  ak_parent_mission_revision_sha256 :: string
  ak_commander_thread_id :: string
  ak_child_session_id :: string
  ak_child_runtime_id :: string
  ak_child_lease_id :: string
  ak_child_transaction_id :: string
  ak_event_id :: string
  ak_callback_payload_sha256 :: string
  ak_effect_identity_sha256 :: string

section \<open>Validation\<close>

definition validate_ack :: "acknowledged_child_callback_identity \<Rightarrow> (string, unit) result" where
  [validate_defs]: "validate_ack a =
     and_then (reject_if (ak_schema_version a \<noteq> ACKNOWLEDGED_CHILD_CALLBACK_IDENTITY_SCHEMA_VERSION)
         ''ACKNOWLEDGED_CHILD_CALLBACK_IDENTITY_SCHEMA_UNSUPPORTED'')
     (\<lambda>_. and_then (reject_if (list_ex identity_invalid
           [ak_commander_thread_id a, ak_child_session_id a, ak_child_runtime_id a,
            ak_child_lease_id a, ak_child_transaction_id a, ak_event_id a])
         ''ACKNOWLEDGED_CHILD_CALLBACK_IDENTITY_INVALID'')
     (\<lambda>_. reject_if (list_ex (\<lambda>v. \<not> is_lower_sha256 v)
           [ak_parent_mission_revision_sha256 a, ak_callback_payload_sha256 a, ak_effect_identity_sha256 a])
         ''ACKNOWLEDGED_CHILD_CALLBACK_DIGEST_INVALID''))"

definition validate_claim :: "task_dispatch_claim \<Rightarrow> (string, unit) result" where
  [validate_defs]: "validate_claim c =
     and_then (reject_if (dc_schema_version c \<noteq> TASK_DISPATCH_CLAIM_SCHEMA_VERSION)
         ''TASK_DISPATCH_CLAIM_SCHEMA_UNSUPPORTED'')
     (\<lambda>_. and_then (reject_if (list_ex identity_invalid
           [dc_mission_id c, dc_task_id c, dc_child_session_id c, dc_child_runtime_id c,
            dc_child_lease_id c, dc_child_transaction_id c])
         ''TASK_DISPATCH_CLAIM_IDENTITY_INVALID'')
     (\<lambda>_. reject_if (list_ex (\<lambda>v. \<not> is_lower_sha256 v)
           [dc_semantic_dispatch_key c, dc_authority_mission_revision_sha256 c,
            dc_delegated_input_sha256 c, dc_task_context_capsule_semantic_sha256 c,
            dc_parent_task_plan_sha256 c, dc_task_scheduling_contract_sha256 c,
            dc_scope_claim_sha256 c])
         ''TASK_DISPATCH_CLAIM_DIGEST_INVALID''))"

definition validate_contract :: "task_scheduling_contract \<Rightarrow> string \<Rightarrow> (string, unit) result" where
  [validate_defs]: "validate_contract c task_id =
     and_then (reject_if (sc_schema_version c \<noteq> TASK_SCHEDULING_CONTRACT_SCHEMA_VERSION)
         ''TASK_SCHEDULING_SCHEMA_UNSUPPORTED'')
     (\<lambda>_. and_then (reject_if (\<not> is_lower_sha256 (sc_semantic_dispatch_key c))
         ''TASK_SCHEDULING_SEMANTIC_DISPATCH_KEY_INVALID'')
     (\<lambda>_. and_then (reject_if (blank (sc_mission_id c)
           \<or> length (sc_mission_id c) > MAX_TASK_SCHEDULING_VALUE_CHARS)
         ''TASK_SCHEDULING_MISSION_ID_INVALID'')
     (\<lambda>_. and_then (reject_if (\<not> is_lower_sha256 (sc_authority_mission_revision_sha256 c))
         ''TASK_SCHEDULING_AUTHORITY_REVISION_INVALID'')
     (\<lambda>_. and_then (reject_if (\<not> is_lower_sha256 (sc_jspace_authorization_semantic_sha256 c))
         ''TASK_SCHEDULING_JSPACE_IDENTITY_INVALID'')
     (\<lambda>_. and_then (reject_if (\<not> is_lower_sha256 (sc_delegated_input_sha256 c))
         ''TASK_SCHEDULING_DELEGATED_INPUT_INVALID'')
     (\<lambda>_. and_then (reject_if (\<not> is_lower_sha256 (sc_task_context_capsule_semantic_sha256 c))
         ''TASK_SCHEDULING_CAPSULE_IDENTITY_INVALID'')
     (\<lambda>_. and_then (reject_if (length (sc_dependency_task_ids c) > MAX_TASK_SCHEDULING_DEPENDENCIES
           \<or> \<not> canonical_values (sc_dependency_task_ids c)
           \<or> list_ex (\<lambda>d. d = task_id) (sc_dependency_task_ids c))
         ''TASK_SCHEDULING_DEPENDENCIES_INVALID'')
     (\<lambda>_. and_then (reject_if (length (sc_exact_input_sha256s c) > MAX_TASK_SCHEDULING_INPUTS
           \<or> \<not> canonical_values (sc_exact_input_sha256s c)
           \<or> list_ex (\<lambda>v. \<not> is_lower_sha256 v) (sc_exact_input_sha256s c))
         ''TASK_SCHEDULING_EXACT_INPUTS_INVALID'')
     (\<lambda>_. and_then (reject_if (list_ex (\<lambda>scopes. length scopes > MAX_TASK_SCHEDULING_SCOPE_ENTRIES
             \<or> \<not> canonical_values scopes)
           [sc_read_scopes c, sc_write_scopes c, sc_declared_targets c])
         ''TASK_SCHEDULING_SCOPE_INVALID'')
     (\<lambda>_. and_then (reject_if (length (sc_conflict_identities c) > MAX_TASK_SCHEDULING_CONFLICT_IDENTITIES
           \<or> \<not> canonical_values (sc_conflict_identities c))
         ''TASK_SCHEDULING_CONFLICT_IDENTITIES_INVALID'')
     (\<lambda>_. reject_if (sc_maximum_parallel_runtime_workers c = 0
           \<or> sc_maximum_parallel_runtime_workers c > MAX_TASK_SCHEDULING_PARALLEL_RUNTIME_WORKERS)
         ''TASK_SCHEDULING_PARALLEL_RUNTIME_LIMIT_INVALID'')))))))))))"

definition matches_dispatch_claim :: "acknowledged_child_callback_identity \<Rightarrow> task_dispatch_claim \<Rightarrow> bool" where
  "matches_dispatch_claim a c =
     (is_ok (validate_claim c) \<and> dc_child_session_id c = ak_child_session_id a \<and>
      dc_child_runtime_id c = ak_child_runtime_id a \<and> dc_child_lease_id c = ak_child_lease_id a \<and>
      dc_child_transaction_id c = ak_child_transaction_id a \<and>
      dc_authority_mission_revision_sha256 c = ak_parent_mission_revision_sha256 a)"

section \<open>Serialised forms and digests\<close>

definition contract_to_value :: "task_scheduling_contract \<Rightarrow> json" where
  "contract_to_value c = JObject
     [(''schema_version'', JString (sc_schema_version c)),
      (''mission_id'', JString (sc_mission_id c)),
      (''semantic_dispatch_key'', JString (sc_semantic_dispatch_key c)),
      (''authority_mission_revision_sha256'', JString (sc_authority_mission_revision_sha256 c)),
      (''delegated_input_sha256'', JString (sc_delegated_input_sha256 c)),
      (''task_context_capsule_semantic_sha256'', JString (sc_task_context_capsule_semantic_sha256 c)),
      (''dependency_task_ids'', json_strings (sc_dependency_task_ids c)),
      (''exact_input_sha256s'', json_strings (sc_exact_input_sha256s c)),
      (''jspace_authorization_semantic_sha256'', JString (sc_jspace_authorization_semantic_sha256 c)),
      (''read_scopes'', json_strings (sc_read_scopes c)),
      (''write_scopes'', json_strings (sc_write_scopes c)),
      (''declared_targets'', json_strings (sc_declared_targets c)),
      (''conflict_identities'', json_strings (sc_conflict_identities c)),
      (''maximum_parallel_runtime_workers'', json_u64 (sc_maximum_parallel_runtime_workers c))]"

definition claim_to_value :: "task_dispatch_claim \<Rightarrow> json" where
  "claim_to_value c = JObject
     [(''schema_version'', JString (dc_schema_version c)),
      (''mission_id'', JString (dc_mission_id c)),
      (''task_id'', JString (dc_task_id c)),
      (''child_session_id'', JString (dc_child_session_id c)),
      (''child_runtime_id'', JString (dc_child_runtime_id c)),
      (''child_lease_id'', JString (dc_child_lease_id c)),
      (''child_transaction_id'', JString (dc_child_transaction_id c)),
      (''semantic_dispatch_key'', JString (dc_semantic_dispatch_key c)),
      (''authority_mission_revision_sha256'', JString (dc_authority_mission_revision_sha256 c)),
      (''delegated_input_sha256'', JString (dc_delegated_input_sha256 c)),
      (''task_context_capsule_semantic_sha256'', JString (dc_task_context_capsule_semantic_sha256 c)),
      (''parent_task_plan_sha256'', JString (dc_parent_task_plan_sha256 c)),
      (''task_scheduling_contract_sha256'', JString (dc_task_scheduling_contract_sha256 c)),
      (''scope_claim_sha256'', JString (dc_scope_claim_sha256 c))]"

definition ack_to_value :: "acknowledged_child_callback_identity \<Rightarrow> json" where
  "ack_to_value a = JObject
     [(''schema_version'', JString (ak_schema_version a)),
      (''parent_mission_revision_sha256'', JString (ak_parent_mission_revision_sha256 a)),
      (''commander_thread_id'', JString (ak_commander_thread_id a)),
      (''child_session_id'', JString (ak_child_session_id a)),
      (''child_runtime_id'', JString (ak_child_runtime_id a)),
      (''child_lease_id'', JString (ak_child_lease_id a)),
      (''child_transaction_id'', JString (ak_child_transaction_id a)),
      (''event_id'', JString (ak_event_id a)),
      (''callback_payload_sha256'', JString (ak_callback_payload_sha256 a)),
      (''effect_identity_sha256'', JString (ak_effect_identity_sha256 a))]"

definition receipt_command_id :: "externals \<Rightarrow> acknowledged_child_callback_identity \<Rightarrow> string \<Rightarrow> string" where
  "receipt_command_id X a parent_session_id =
     ''acknowledged-child-callback:'' @ canonical_value_sha256 X (JObject
       [(''command'', JString ''converge_acknowledged_child_callback''),
        (''parent_session_id'', JString parent_session_id),
        (''acknowledgment'', ack_to_value a)])"

definition semantic_dispatch_identity :: "task_scheduling_contract \<Rightarrow> string \<Rightarrow> json" where
  "semantic_dispatch_identity c task_id = JObject
     [(''schema_version'', JString ''tura_task_semantic_dispatch_identity_v1''),
      (''contract_schema_version'', JString (sc_schema_version c)),
      (''mission_id'', JString (sc_mission_id c)),
      (''authority_mission_revision_sha256'', JString (sc_authority_mission_revision_sha256 c)),
      (''task_id'', JString task_id),
      (''delegated_input_sha256'', JString (sc_delegated_input_sha256 c)),
      (''task_context_capsule_semantic_sha256'', JString (sc_task_context_capsule_semantic_sha256 c)),
      (''dependency_task_ids'', json_strings (sc_dependency_task_ids c)),
      (''exact_input_sha256s'', json_strings (sc_exact_input_sha256s c)),
      (''jspace_authorization_semantic_sha256'', JString (sc_jspace_authorization_semantic_sha256 c)),
      (''read_scopes'', json_strings (sc_read_scopes c)),
      (''write_scopes'', json_strings (sc_write_scopes c)),
      (''declared_targets'', json_strings (sc_declared_targets c)),
      (''conflict_identities'', json_strings (sc_conflict_identities c)),
      (''maximum_parallel_runtime_workers'', json_u64 (sc_maximum_parallel_runtime_workers c))]"

definition semantic_dispatch_sha256 :: "externals \<Rightarrow> task_scheduling_contract \<Rightarrow> string \<Rightarrow> string" where
  "semantic_dispatch_sha256 X c task_id = canonical_value_sha256 X (semantic_dispatch_identity c task_id)"

definition contract_sha256 :: "externals \<Rightarrow> task_scheduling_contract \<Rightarrow> string" where
  "contract_sha256 X c = canonical_value_sha256 X (contract_to_value c)"

definition scope_claim_value :: "task_scheduling_contract \<Rightarrow> json" where
  "scope_claim_value c = JObject
     [(''jspace_authorization_semantic_sha256'', JString (sc_jspace_authorization_semantic_sha256 c)),
      (''read_scopes'', json_strings (sc_read_scopes c)),
      (''write_scopes'', json_strings (sc_write_scopes c)),
      (''declared_targets'', json_strings (sc_declared_targets c)),
      (''conflict_identities'', json_strings (sc_conflict_identities c))]"

definition scope_claim_sha256 :: "externals \<Rightarrow> task_scheduling_contract \<Rightarrow> string" where
  "scope_claim_sha256 X c = canonical_value_sha256 X (scope_claim_value c)"

section \<open>Canonical lists\<close>

lemma strictly_increasing_sorted: "strictly_increasing xs \<longleftrightarrow> sorted_wrt (<) xs"
proof (induction xs rule: strictly_increasing.induct)
  case (1 x y ys)
  show ?case
  proof
    assume "strictly_increasing (x # y # ys)"
    then have "x < y" "sorted_wrt (<) (y # ys)" using 1 by auto
    then show "sorted_wrt (<) (x # y # ys)" by (auto intro: less_trans)
  qed (use 1 in auto)
qed auto

lemma sorted_wrt_less_distinct: "sorted_wrt (<) xs \<Longrightarrow> distinct (xs :: 'a :: order list)"
  by (induction xs) auto

lemma canonical_values_distinct: "canonical_values xs \<Longrightarrow> distinct xs"
  by (simp add: canonical_values_def strictly_increasing_sorted sorted_wrt_less_distinct)

lemma sorted_wrt_less_unique:
  fixes xs ys :: "'a :: linorder list"
  assumes "sorted_wrt (<) xs" "sorted_wrt (<) ys" "set xs = set ys"
  shows "xs = ys"
proof -
  have "sorted xs" "distinct xs" "sorted ys" "distinct ys"
    using assms by (auto simp: strict_sorted_iff)
  then show ?thesis using assms(3) by (rule sorted_distinct_set_unique)
qed

lemma canonical_values_unique:
  "canonical_values xs \<Longrightarrow> canonical_values ys \<Longrightarrow> set xs = set ys \<Longrightarrow> xs = ys"
  by (simp add: canonical_values_def strictly_increasing_sorted sorted_wrt_less_unique)

lemma validate_contract_ok:
  assumes "validate_contract c task_id = Inr u"
  shows "is_lower_sha256 (sc_semantic_dispatch_key c)" "canonical_values (sc_dependency_task_ids c)"
    "task_id \<notin> set (sc_dependency_task_ids c)" "canonical_values (sc_exact_input_sha256s c)"
    "0 < sc_maximum_parallel_runtime_workers c" "sc_maximum_parallel_runtime_workers c \<le> 128"
    "length (sc_dependency_task_ids c) \<le> 64"
  using assms
  unfolding validate_contract_def and_then_Inr_iff reject_if_Inr de_Morgan_disj
    MAX_TASK_SCHEDULING_PARALLEL_RUNTIME_WORKERS_def MAX_TASK_SCHEDULING_DEPENDENCIES_def
  by (simp_all add: list_ex_iff not_less word_gt_0)

section \<open>Digests bind what they cover\<close>

lemma sorted_json_leaf [simp]:
  "sorted_json (json_u64 n) = json_u64 n" "sorted_json (json_strings xs) = json_strings xs"
  by (simp_all add: json_u64_def json_strings_def)

lemma json_leaf_inj [simp]:
  "json_u64 m = json_u64 n \<longleftrightarrow> m = n" "json_strings xs = json_strings ys \<longleftrightarrow> xs = ys"
  by (simp_all add: json_u64_def json_strings_def inj_map_eq_map inj_def)

lemma json_leaf_valid [simp]:
  "json_valid (json_u64 n)" "json_valid (json_strings xs)"
  by (simp_all add: json_u64_def json_strings_def)

lemma object_values_eq:
  assumes eq: "sorted_json (JObject kvs) = sorted_json (JObject lws)"
    and keys: "map fst kvs = map fst lws" and dist: "distinct (map fst lws)"
  shows "map (sorted_json \<circ> snd) kvs = map (sorted_json \<circ> snd) lws"
proof (rule nth_equalityI)
  show "length (map (sorted_json \<circ> snd) kvs) = length (map (sorted_json \<circ> snd) lws)"
    using arg_cong [OF keys, of length] by simp
next
  fix i assume i: "i < length (map (sorted_json \<circ> snd) kvs)"
  then have l: "i < length lws" using arg_cong [OF keys, of length] by simp
  have k: "fst (kvs ! i) = fst (lws ! i)" using arg_cong [OF keys, of "\<lambda>xs. xs ! i"] i l by simp
  have m1: "map_of kvs (fst (lws ! i)) = Some (snd (kvs ! i))"
    unfolding k [symmetric] using i keys dist by (intro map_of_is_SomeI) simp_all
  have m2: "map_of lws (fst (lws ! i)) = Some (snd (lws ! i))"
    using l dist by (intro map_of_is_SomeI) simp_all
  have "map_option sorted_json (map_of kvs (fst (lws ! i))) =
        map_option sorted_json (map_of lws (fst (lws ! i)))"
    by (rule sorted_json_object_map [OF eq]) (simp_all only: keys dist)
  then have "sorted_json (snd (kvs ! i)) = sorted_json (snd (lws ! i))"
    unfolding m1 m2 by simp
  then show "map (sorted_json \<circ> snd) kvs ! i = map (sorted_json \<circ> snd) lws ! i" using i l by simp
qed

lemma contract_to_value_valid: "json_valid (contract_to_value c)"
  by (simp add: contract_to_value_def)

lemma semantic_dispatch_identity_valid: "json_valid (semantic_dispatch_identity c t)"
  by (simp add: semantic_dispatch_identity_def)

lemma contract_to_value_inj:
  assumes "sorted_json (contract_to_value c) = sorted_json (contract_to_value d)"
  shows "c = d"
proof -
  note eq = object_values_eq [OF assms [unfolded contract_to_value_def]]
  show ?thesis using eq by simp
qed

end
