(* ===== verification/Task_Steps.thy ===== *)
theory Task_Steps
  imports Task_Contracts
begin

text \<open>
  Planned tasks (\<open>TaskStep\<close> and \<open>TaskPlan\<close> of \<open>lifecycle/src/session.rs\<close>): when a task may
  start, how a polling task moves its start time, the identities a plan must have and the digest
  of a plan.
\<close>

datatype plan_status = Todo | WaitingUser | Doing | Question | Done | Archived

datatype start_condition = SessionIdle | UserAction | ScheduledTask | PollingTask

record poll_interval =
  pi_m :: u64
  pi_d :: u64
  pi_h :: u64
  pi_s :: u64

definition poll_interval_default :: poll_interval where
  "poll_interval_default = \<lparr>pi_m = 0, pi_d = 0, pi_h = 0, pi_s = 0\<rparr>"

record task_step =
  ts_task_id :: string
  ts_step :: u64
  ts_sub_session_id :: string
  ts_start_at :: datetime
  ts_poll_interval :: poll_interval
  ts_start_condition :: start_condition
  ts_status :: plan_status
  ts_scheduling_contract :: "task_scheduling_contract option"
  ts_dispatch_claim :: "task_dispatch_claim option"
  ts_task_summary :: string
  ts_step_task :: string
  ts_step_turn :: u64
  ts_step_tool :: string
  ts_step_context :: string
  ts_step_agent_name :: string
  ts_step_deliverable_description :: string
  ts_step_deliverable_path :: string

text \<open>\<open>TaskStep::default()\<close> reads the clock for \<open>start_at\<close>: the instant is an argument.\<close>

definition task_step_default :: "datetime \<Rightarrow> task_step" where
  "task_step_default now =
     \<lparr>ts_task_id = [], ts_step = 0, ts_sub_session_id = [], ts_start_at = now,
      ts_poll_interval = poll_interval_default, ts_start_condition = UserAction, ts_status = Todo,
      ts_scheduling_contract = None, ts_dispatch_claim = None, ts_task_summary = [],
      ts_step_task = [], ts_step_turn = 0, ts_step_tool = [], ts_step_context = [],
      ts_step_agent_name = [], ts_step_deliverable_description = [], ts_step_deliverable_path = []\<rparr>"

record task_plan =
  tp_plan_summary :: string
  tp_detailed_tasks :: "task_step list"

definition task_plan_default :: task_plan where
  "task_plan_default = \<lparr>tp_plan_summary = [], tp_detailed_tasks = []\<rparr>"

section \<open>When a task may start\<close>

definition scheduler_eligible :: "task_step \<Rightarrow> datetime \<Rightarrow> bool" where
  "scheduler_eligible t now =
     (if ts_status t \<in> {WaitingUser, Done, Archived} then False
      else case ts_start_condition t of
        ScheduledTask \<Rightarrow> ts_status t \<in> {Todo, Question} \<and> ts_start_at t \<le> now
      | PollingTask \<Rightarrow> ts_status t \<in> {Todo, Question} \<and> ts_start_at t \<le> now
      | SessionIdle \<Rightarrow> ts_status t \<in> {Todo, Question}
      | UserAction \<Rightarrow> False)"

definition direct_dispatch_eligible :: "task_step \<Rightarrow> datetime \<Rightarrow> bool" where
  "direct_dispatch_eligible t now =
     (case ts_start_condition t of
        UserAction \<Rightarrow> ts_status t \<in> {Todo, Question}
      | _ \<Rightarrow> scheduler_eligible t now)"

definition display_summary :: "task_step \<Rightarrow> string \<Rightarrow> string" where
  "display_summary t plan_summary =
     (case find (\<lambda>v. v \<noteq> []) (map trim [ts_task_summary t, ts_step_task t, plan_summary]) of
        Some v \<Rightarrow> v
      | None \<Rightarrow> ''Continue planned task'')"

section \<open>Polling\<close>

definition poll_seconds :: "poll_interval \<Rightarrow> u64" where
  "poll_seconds p =
     max (saturating_add (saturating_add (saturating_add (pi_s p) (saturating_mul (pi_m p) 60))
            (saturating_mul (pi_h p) (60 * 60)))
          (saturating_mul (pi_d p) (24 * 60 * 60))) 1"

text \<open>\<open>Duration::seconds(seconds.min(i64::MAX as u64) as i64)\<close>; \<open>None\<close> is chrono's panic.\<close>

definition poll_step :: "externals \<Rightarrow> poll_interval \<Rightarrow> int option" where
  "poll_step X p = duration_seconds X (min (uint (poll_seconds p)) (2 ^ 63 - 1))"

text \<open>The loop \<open>while next <= now { next += step }\<close>; \<open>None\<close> is a panic of the addition.\<close>

partial_function (option) poll_until :: "externals \<Rightarrow> datetime \<Rightarrow> int \<Rightarrow> datetime \<Rightarrow> datetime option" where
  "poll_until X next step now =
     (if next \<le> now
      then (case datetime_add X next step of
              None \<Rightarrow> None
            | Some n \<Rightarrow> poll_until X n step now)
      else Some next)"

declare poll_until.simps [code]

definition advance_polling_start :: "externals \<Rightarrow> task_step \<Rightarrow> datetime \<Rightarrow> task_step option" where
  "advance_polling_start X t now =
     (case poll_step X (ts_poll_interval t) of
        None \<Rightarrow> None
      | Some step \<Rightarrow>
          (case datetime_add X (ts_start_at t) step of
             None \<Rightarrow> None
           | Some next \<Rightarrow>
               (case poll_until X next step now of
                  None \<Rightarrow> None
                | Some n \<Rightarrow> Some (t\<lparr>ts_start_at := n\<rparr>))))"

section \<open>Identities and digests of a plan\<close>

fun identities_valid_from :: "string set \<Rightarrow> task_step list \<Rightarrow> bool" where
  "identities_valid_from seen [] = True"
| "identities_valid_from seen (t # ts) =
     (\<not> blank (ts_task_id t) \<and> trim (ts_task_id t) = ts_task_id t \<and> ts_task_id t \<notin> seen \<and>
      identities_valid_from (insert (ts_task_id t) seen) ts)"

definition scheduling_identities_valid :: "task_plan \<Rightarrow> bool" where
  "scheduling_identities_valid p = identities_valid_from {} (tp_detailed_tasks p)"

fun plan_status_json :: "plan_status \<Rightarrow> json" where
  "plan_status_json Todo = JString ''todo''"
| "plan_status_json WaitingUser = JString ''waiting_user''"
| "plan_status_json Doing = JString ''doing''"
| "plan_status_json Question = JString ''question''"
| "plan_status_json Done = JString ''done''"
| "plan_status_json Archived = JString ''archived''"

fun start_condition_json :: "start_condition \<Rightarrow> json" where
  "start_condition_json SessionIdle = JString ''session_idle''"
| "start_condition_json UserAction = JString ''user_action''"
| "start_condition_json ScheduledTask = JString ''scheduled_task''"
| "start_condition_json PollingTask = JString ''polling_task''"

definition poll_interval_json :: "poll_interval \<Rightarrow> json" where
  "poll_interval_json p = JObject
     [(''m'', json_u64 (pi_m p)), (''d'', json_u64 (pi_d p)), (''h'', json_u64 (pi_h p)), (''s'', json_u64 (pi_s p))]"

definition optional_field :: "string \<Rightarrow> json option \<Rightarrow> (string \<times> json) list" where
  "optional_field k v = (case v of None \<Rightarrow> [] | Some x \<Rightarrow> [(k, x)])"

definition task_to_value :: "externals \<Rightarrow> task_step \<Rightarrow> json" where
  "task_to_value X t = JObject
     ([(''task_id'', JString (ts_task_id t)), (''step'', json_u64 (ts_step t)),
       (''sub_session_id'', JString (ts_sub_session_id t)),
       (''start_at'', JString (datetime_text X (ts_start_at t))),
       (''poll_interval'', poll_interval_json (ts_poll_interval t)),
       (''start_condition'', start_condition_json (ts_start_condition t)),
       (''status'', plan_status_json (ts_status t))] @
      optional_field ''scheduling_contract'' (map_option contract_to_value (ts_scheduling_contract t)) @
      optional_field ''dispatch_claim'' (map_option claim_to_value (ts_dispatch_claim t)) @
      [(''task_summary'', JString (ts_task_summary t)), (''step_task'', JString (ts_step_task t)),
       (''step_turn'', json_u64 (ts_step_turn t)), (''step_tool'', JString (ts_step_tool t)),
       (''step_context'', JString (ts_step_context t)),
       (''step_agent_name'', JString (ts_step_agent_name t)),
       (''step_deliverable_description'', JString (ts_step_deliverable_description t)),
       (''step_deliverable_path'', JString (ts_step_deliverable_path t))])"

definition task_plan_ready_set_sha256 :: "externals \<Rightarrow> task_plan \<Rightarrow> string" where
  "task_plan_ready_set_sha256 X p = canonical_value_sha256 X (JObject
     [(''schema_version'', JString ''tura_task_plan_ready_set_identity_v1''),
      (''plan_summary'', JString (tp_plan_summary p)),
      (''tasks'', JArray (map (task_to_value X) (tp_detailed_tasks p)))])"

section \<open>Facts\<close>

lemma identities_valid_from_iff:
  "identities_valid_from seen ts \<longleftrightarrow>
   (\<forall>t\<in>set ts. \<not> blank (ts_task_id t) \<and> trim (ts_task_id t) = ts_task_id t) \<and>
   distinct (map ts_task_id ts) \<and> set (map ts_task_id ts) \<inter> seen = {}"
  by (induction ts arbitrary: seen) auto

lemma scheduling_identities_valid_iff:
  "scheduling_identities_valid p \<longleftrightarrow>
   (\<forall>t\<in>set (tp_detailed_tasks p). \<not> blank (ts_task_id t) \<and> trim (ts_task_id t) = ts_task_id t) \<and>
   distinct (map ts_task_id (tp_detailed_tasks p))"
  by (simp add: scheduling_identities_valid_def identities_valid_from_iff)

lemma scheduler_eligible_status: "scheduler_eligible t now \<Longrightarrow> ts_status t \<in> {Todo, Question}"
  by (auto simp: scheduler_eligible_def split: if_splits start_condition.splits)

lemma direct_dispatch_eligible_status: "direct_dispatch_eligible t now \<Longrightarrow> ts_status t \<in> {Todo, Question}"
  using scheduler_eligible_status
  by (auto simp: direct_dispatch_eligible_def split: start_condition.splits)

lemma poll_seconds_pos: "1 \<le> uint (poll_seconds p)"
proof -
  have "1 \<le> poll_seconds p" by (simp add: poll_seconds_def)
  then show ?thesis by (simp add: word_le_def)
qed

lemma poll_until_stop: "\<not> next \<le> now \<Longrightarrow> poll_until X next step now = Some next"
  by (simp add: poll_until.simps)

lemma poll_until_unfold:
  "next \<le> now \<Longrightarrow> poll_until X next step now =
   Option.bind (datetime_add X next step) (\<lambda>n. poll_until X n step now)"
  by (subst poll_until.simps) (simp split: option.split)

context chrono_laws
begin

lemma poll_step_pos: "poll_step X p = Some d \<Longrightarrow> 0 < d"
proof -
  assume "poll_step X p = Some d"
  then have "d = nanos (min (uint (poll_seconds p)) (2 ^ 63 - 1))"
    unfolding poll_step_def by (rule seconds_exact)
  moreover have "1 \<le> min (uint (poll_seconds p)) (2 ^ 63 - 1)"
    using poll_seconds_pos [of p] by simp
  ultimately show "0 < d" by (simp add: nanos_def)
qed

text \<open>The loop stops at the first instant after \<open>now\<close>, a whole number of steps ahead.\<close>

lemma poll_until_result:
  assumes "0 < step" "poll_until X next step now = Some r"
  shows "(\<exists>k. r = next + int k * step \<and> (\<forall>j<k. next + int j * step \<le> now)) \<and> now < r"
  using assms(2)
proof (induction "nat (now - next + 1)" arbitrary: "next" rule: less_induct)
  case less
  show ?case
  proof (cases "next \<le> now")
    case False
    with less.prems have "r = next" by (simp add: poll_until_stop)
    then have "r = next + int 0 * step \<and> (\<forall>j<0. next + int j * step \<le> now)" by simp
    then show ?thesis using False \<open>r = next\<close> by (metis not_le)
  next
    case True
    with less.prems obtain n where n: "datetime_add X next step = Some n" "poll_until X n step now = Some r"
      by (auto simp: poll_until_unfold bind_eq_Some_conv)
    then have eq: "n = next + step" using add_exact by blast
    with True assms(1) have "nat (now - n + 1) < nat (now - next + 1)" by simp
    from less.hyps [OF this n(2)] obtain k where
      k: "r = n + int k * step" "\<forall>j<k. n + int j * step \<le> now" "now < r" by blast
    have "r = next + int (Suc k) * step" using k(1) eq by (simp add: algebra_simps)
    moreover have "\<forall>j<Suc k. next + int j * step \<le> now"
    proof (intro allI impI)
      fix j assume "j < Suc k"
      then show "next + int j * step \<le> now"
        using k(2) True eq by (cases j) (auto simp: algebra_simps)
    qed
    ultimately show ?thesis using k(3) by blast
  qed
qed

lemma poll_until_total:
  assumes "0 < step" "\<And>t. next \<le> t \<Longrightarrow> t \<le> now \<Longrightarrow> datetime_add X t step \<noteq> None"
  shows "\<exists>r. poll_until X next step now = Some r"
  using assms(2)
proof (induction "nat (now - next + 1)" arbitrary: "next" rule: less_induct)
  case less
  show ?case
  proof (cases "next \<le> now")
    case False
    then show ?thesis by (simp add: poll_until_stop)
  next
    case True
    with less.prems obtain n where n: "datetime_add X next step = Some n" by fastforce
    then have eq: "n = next + step" using add_exact by blast
    with True assms(1) have "nat (now - n + 1) < nat (now - next + 1)" by simp
    moreover have "\<And>t. n \<le> t \<Longrightarrow> t \<le> now \<Longrightarrow> datetime_add X t step \<noteq> None"
      using less.prems eq assms(1) by simp
    ultimately have "\<exists>r. poll_until X n step now = Some r" by (rule less.hyps)
    with n True show ?thesis by (simp add: poll_until_unfold)
  qed
qed

text \<open>
  Restarting the loop from the instant one step before its result gives the same result: what
  the replay of a polling claim relies on.
\<close>

lemma poll_until_replay:
  assumes "0 < step" "poll_until X next step now = Some r"
  shows "poll_until X next step (r - step) = Some r"
  using assms(2)
proof (induction "nat (now - next + 1)" arbitrary: "next" rule: less_induct)
  case less
  show ?case
  proof (cases "next \<le> now")
    case False
    with less.prems have "r = next" by (simp add: poll_until_stop)
    with assms(1) show ?thesis by (simp add: poll_until_stop)
  next
    case True
    with less.prems obtain n where n: "datetime_add X next step = Some n" "poll_until X n step now = Some r"
      by (auto simp: poll_until_unfold bind_eq_Some_conv)
    then have eq: "n = next + step" using add_exact by blast
    with True assms(1) have "nat (now - n + 1) < nat (now - next + 1)" by simp
    then have IH: "poll_until X n step (r - step) = Some r" using n(2) by (rule less.hyps)
    obtain k where "r = n + int k * step" using poll_until_result [OF assms(1) n(2)] by blast
    with eq assms(1) have "next \<le> r - step" by simp
    then show ?thesis using n(1) IH by (simp add: poll_until_unfold)
  qed
qed

lemma poll_until_last_add:
  assumes "0 < step" "datetime_add X start step = Some next" "poll_until X next step now = Some r"
  shows "datetime_checked_sub X r step = Some (r - step) \<and> start \<le> r - step"
  using assms(2,3)
proof (induction "nat (now - next + 1)" arbitrary: start "next" rule: less_induct)
  case less
  have eq: "next = start + step" using less.prems(1) add_exact by blast
  show ?case
  proof (cases "next \<le> now")
    case False
    with less.prems have "r = next" by (simp add: poll_until_stop)
    with eq sub_undoes_add [OF less.prems(1)] show ?thesis by simp
  next
    case True
    with less.prems obtain n where n: "datetime_add X next step = Some n" "poll_until X n step now = Some r"
      by (auto simp: poll_until_unfold bind_eq_Some_conv)
    then have "n = next + step" using add_exact by blast
    with True assms(1) have "nat (now - n + 1) < nat (now - next + 1)" by simp
    from less.hyps [OF this n] eq assms(1) show ?thesis by auto
  qed
qed

text \<open>The new start time is the first instant of the polling grid after \<open>now\<close>.\<close>

lemma advance_polling_start_result:
  assumes "advance_polling_start X t now = Some t'"
  obtains step n where "poll_step X (ts_poll_interval t) = Some step" "0 < step"
    "t' = t\<lparr>ts_start_at := n\<rparr>" "now < n" "\<exists>k\<ge>1. n = ts_start_at t + int k * step"
    "\<forall>m. now < ts_start_at t + int m * step \<longrightarrow> 1 \<le> m \<longrightarrow> n \<le> ts_start_at t + int m * step"
proof -
  from assms obtain step nx n where p: "poll_step X (ts_poll_interval t) = Some step"
    "datetime_add X (ts_start_at t) step = Some nx" "poll_until X nx step now = Some n"
    "t' = t\<lparr>ts_start_at := n\<rparr>"
    by (auto simp: advance_polling_start_def split: option.splits)
  have pos: "0 < step" using p(1) by (rule poll_step_pos)
  have nx: "nx = ts_start_at t + step" using p(2) add_exact by blast
  obtain k where k: "n = nx + int k * step" "\<forall>j<k. nx + int j * step \<le> now" "now < n"
    using poll_until_result [OF pos p(3)] by blast
  have "n = ts_start_at t + int (Suc k) * step" using k(1) nx by (simp add: algebra_simps)
  then have ex: "\<exists>k\<ge>1. n = ts_start_at t + int k * step" by (metis Suc_eq_plus1 le_add2)
  have "n \<le> ts_start_at t + int m * step" if m: "now < ts_start_at t + int m * step" "1 \<le> m" for m
  proof (rule ccontr)
    assume "\<not> n \<le> ts_start_at t + int m * step"
    with k(1) nx m(2) have "int (m - 1) * step < int k * step" by (simp add: algebra_simps of_nat_diff)
    with pos have "m - 1 < k" by simp
    with k(2) have "nx + int (m - 1) * step \<le> now" by blast
    with nx m show False by (simp add: algebra_simps of_nat_diff)
  qed
  then show ?thesis using that p(1,4) pos k(3) ex by blast
qed

end

end
