(* ===== verification/Ready_Set.thy ===== *)
theory Ready_Set
  imports Task_Steps
begin

text \<open>
  The ready-set classifier (\<open>classify_task_ready_set\<close> of \<open>lifecycle/src/session.rs\<close>): whether a
  planned task may be dispatched now, and if not, which check refused it. The code returns at
  the first failing check; each group of checks is a definition whose error value is the decision
  returned. A \<open>BTreeSet\<close> is a list read in ascending order.
\<close>

datatype task_ready_set_state =
  Ready | BlockedState | BlockedDependency | BlockedScope | BlockedLease | BlockedCapacity | TypedUnknown

record task_ready_set_decision =
  rd_state :: task_ready_set_state
  rd_reason_codes :: "string list"
  rd_blocking_task_ids :: "string list"

definition decision_new :: "task_ready_set_state \<Rightarrow> string \<Rightarrow> string list \<Rightarrow> task_ready_set_decision" where
  "decision_new state reason blocking_task_ids =
     \<lparr>rd_state = state, rd_reason_codes = [reason],
      rd_blocking_task_ids = remdups_adj (sort blocking_task_ids)\<rparr>"

definition typed_unknown :: "string \<Rightarrow> task_ready_set_decision" where
  "typed_unknown reason = decision_new TypedUnknown reason []"

record task_lease_readiness_evidence =
  tl_task_id :: string
  tl_lease_id :: string
  tl_lease_active :: bool
  tl_terminal :: bool

record task_ready_set_evidence =
  re_evaluated_at_ms :: int
  re_parent_session_can_transition_to_running :: bool
  re_authority_mission_revision_sha256 :: string
  re_execution_terminal_task_ids :: "string list"
  re_available_exact_input_sha256s :: "string list option"
  re_semantic_dispatch_identity_valid :: bool
  re_candidate_scope_identity_valid :: bool
  re_parallel_runtime_limit_supported :: bool
  re_task_leases :: "task_lease_readiness_evidence list"
  re_lease_unknown_task_ids :: "string list"
  re_scope_evaluated_task_ids :: "string list"
  re_scope_conflicting_task_ids :: "string list"
  re_scope_unknown_task_ids :: "string list"
  re_active_runtime_workers :: u64
  re_requested_lease_id :: "string option"
  re_claimed_task_id :: "string option"

type_synonym 'a check = "(task_ready_set_decision, 'a) result"

definition ready_task :: "task_plan \<Rightarrow> string \<Rightarrow> (task_step \<times> task_scheduling_contract) check" where
  "ready_task p task_id =
     (if \<not> scheduling_identities_valid p
      then Inl (decision_new TypedUnknown ''TASK_READY_SET_TASK_IDENTITIES_INVALID'' [])
      else case find (\<lambda>t. ts_task_id t = task_id) (tp_detailed_tasks p) of
        None \<Rightarrow> Inl (decision_new TypedUnknown ''TASK_READY_SET_TASK_NOT_FOUND'' [])
      | Some t \<Rightarrow>
          (case ts_scheduling_contract t of
             None \<Rightarrow> Inl (decision_new TypedUnknown ''TASK_READY_SET_SCHEDULING_CONTRACT_MISSING'' [])
           | Some c \<Rightarrow>
               (case validate_contract c task_id of
                  Inl reason \<Rightarrow> Inl (decision_new TypedUnknown reason [])
                | Inr _ \<Rightarrow> Inr (t, c))))"

definition ready_identities :: "task_scheduling_contract \<Rightarrow> task_ready_set_evidence \<Rightarrow> unit check" where
  "ready_identities c ev =
     and_then (reject_if (sc_authority_mission_revision_sha256 c \<noteq> re_authority_mission_revision_sha256 ev)
         (decision_new TypedUnknown ''TASK_READY_SET_AUTHORITY_REVISION_MISMATCH'' []))
     (\<lambda>_. and_then (reject_if (\<not> re_semantic_dispatch_identity_valid ev)
         (decision_new TypedUnknown ''TASK_READY_SET_SEMANTIC_DISPATCH_IDENTITY_MISMATCH'' []))
     (\<lambda>_. and_then (reject_if (\<not> re_candidate_scope_identity_valid ev)
         (decision_new TypedUnknown ''TASK_READY_SET_SCOPE_IDENTITY_INVALID'' []))
     (\<lambda>_. and_then (reject_if (\<not> re_parallel_runtime_limit_supported ev)
         (decision_new TypedUnknown ''TASK_READY_SET_PARALLEL_RUNTIME_LIMIT_UNSUPPORTED'' []))
     (\<lambda>_. reject_if (\<not> re_parent_session_can_transition_to_running ev)
         (decision_new BlockedState ''TASK_READY_SET_PARENT_SESSION_TERMINAL'' [])))))"

definition ready_inputs :: "task_scheduling_contract \<Rightarrow> task_ready_set_evidence \<Rightarrow> unit check" where
  "ready_inputs c ev =
     (case re_available_exact_input_sha256s ev of
        Some available \<Rightarrow>
          if set available = set (sc_exact_input_sha256s c) then Inr ()
          else Inl (decision_new TypedUnknown ''TASK_READY_SET_EXACT_INPUT_IDENTITY_MISSING'' [])
      | None \<Rightarrow>
          if sc_exact_input_sha256s c = [] then Inr ()
          else Inl (decision_new TypedUnknown ''TASK_READY_SET_EXACT_INPUT_AVAILABILITY_UNKNOWN'' []))"

definition execution_eligible :: "externals \<Rightarrow> task_step \<Rightarrow> string \<Rightarrow> task_ready_set_evidence \<Rightarrow> bool" where
  "execution_eligible X t task_id ev =
     (let claimed_by_this_admission = (ts_status t = Doing \<and> re_claimed_task_id ev = Some task_id);
          direct_dispatch = (ts_start_condition t = UserAction \<and> re_requested_lease_id ev \<noteq> None \<and>
            ts_status t \<in> {Todo, Question})
      in claimed_by_this_admission \<or> direct_dispatch \<or>
         (case ts_start_condition t of
            ScheduledTask \<Rightarrow> ts_status t \<in> {Todo, Question} \<and>
              timestamp_millis X (ts_start_at t) \<le> re_evaluated_at_ms ev
          | PollingTask \<Rightarrow> ts_status t \<in> {Todo, Question} \<and>
              timestamp_millis X (ts_start_at t) \<le> re_evaluated_at_ms ev
          | SessionIdle \<Rightarrow> ts_status t \<in> {Todo, Question}
          | UserAction \<Rightarrow> False))"

definition ineligible_reason :: "externals \<Rightarrow> task_step \<Rightarrow> task_ready_set_evidence \<Rightarrow> string" where
  "ineligible_reason X t ev =
     (if ts_status t \<in> {Done, Archived} then ''TASK_READY_SET_TASK_TERMINAL''
      else if ts_status t = WaitingUser then ''TASK_READY_SET_WAITING_USER''
      else if ts_status t = Doing then ''TASK_READY_SET_TASK_ALREADY_RUNNING''
      else if ts_start_condition t = UserAction then ''TASK_READY_SET_USER_ACTION_REQUIRED''
      else if ts_start_condition t \<in> {ScheduledTask, PollingTask} \<and>
              timestamp_millis X (ts_start_at t) > re_evaluated_at_ms ev
           then ''TASK_READY_SET_NOT_DUE''
      else ''TASK_READY_SET_TASK_STATE_BLOCKED'')"

definition ready_eligibility :: "externals \<Rightarrow> task_step \<Rightarrow> string \<Rightarrow> task_ready_set_evidence \<Rightarrow> unit check" where
  "ready_eligibility X t task_id ev =
     reject_if (\<not> execution_eligible X t task_id ev)
       (decision_new BlockedState (ineligible_reason X t ev) [])"

fun ready_dependencies :: "task_plan \<Rightarrow> task_ready_set_evidence \<Rightarrow> string list \<Rightarrow> unit check" where
  "ready_dependencies p ev [] = Inr ()"
| "ready_dependencies p ev (d # ds) =
     (case find (\<lambda>t. ts_task_id t = d) (tp_detailed_tasks p) of
        None \<Rightarrow> Inl (decision_new TypedUnknown ''TASK_READY_SET_DEPENDENCY_NOT_FOUND'' [d])
      | Some dependency \<Rightarrow>
          if ts_status dependency \<in> {Done, Archived} \<or> d \<in> set (re_execution_terminal_task_ids ev)
          then ready_dependencies p ev ds
          else Inl (decision_new BlockedDependency ''TASK_READY_SET_DEPENDENCY_NOT_TERMINAL'' [d]))"

definition ready_leases :: "task_scheduling_contract \<Rightarrow> string \<Rightarrow> task_ready_set_evidence \<Rightarrow> unit check" where
  "ready_leases c task_id ev =
     and_then (reject_if (task_id \<in> set (re_lease_unknown_task_ids ev))
         (decision_new TypedUnknown ''TASK_READY_SET_LEASE_EVIDENCE_UNKNOWN'' [task_id]))
     (\<lambda>_. and_then
       (case find (\<lambda>u. u \<noteq> task_id) (sort (re_lease_unknown_task_ids ev)) of
          Some u \<Rightarrow> Inl (decision_new TypedUnknown ''TASK_READY_SET_ACTIVE_LEASE_SET_UNKNOWN'' [u])
        | None \<Rightarrow> Inr ())
     (\<lambda>_. and_then
       (case find (\<lambda>l. tl_task_id l = task_id \<and> tl_lease_active l \<and> \<not> tl_terminal l \<and>
                     re_requested_lease_id ev \<noteq> Some (tl_lease_id l)) (re_task_leases ev) of
          Some active \<Rightarrow> Inl (decision_new BlockedLease ''TASK_READY_SET_LEASE_CONFLICT'' [tl_task_id active])
        | None \<Rightarrow> Inr ())
     (\<lambda>_. reject_if (re_active_runtime_workers ev \<ge> sc_maximum_parallel_runtime_workers c)
         (decision_new BlockedCapacity ''TASK_READY_SET_CAPACITY_EXHAUSTED'' []))))"

fun ready_scopes :: "task_ready_set_evidence \<Rightarrow> task_lease_readiness_evidence list \<Rightarrow> unit check" where
  "ready_scopes ev [] = Inr ()"
| "ready_scopes ev (l # ls) =
     (if tl_task_id l \<in> set (re_scope_unknown_task_ids ev) \<or>
         tl_task_id l \<notin> set (re_scope_evaluated_task_ids ev)
      then Inl (decision_new TypedUnknown ''TASK_READY_SET_ACTIVE_SCOPE_UNKNOWN'' [tl_task_id l])
      else if tl_task_id l \<in> set (re_scope_conflicting_task_ids ev)
      then Inl (decision_new BlockedScope ''TASK_READY_SET_SCOPE_CONFLICT'' [tl_task_id l])
      else ready_scopes ev ls)"

definition other_active_leases :: "string \<Rightarrow> task_ready_set_evidence \<Rightarrow> task_lease_readiness_evidence list" where
  "other_active_leases task_id ev =
     filter (\<lambda>l. tl_task_id l \<noteq> task_id \<and> tl_lease_active l \<and> \<not> tl_terminal l) (re_task_leases ev)"

definition ready_checks :: "externals \<Rightarrow> task_plan \<Rightarrow> string \<Rightarrow> task_ready_set_evidence \<Rightarrow> unit check" where
  "ready_checks X p task_id ev =
     and_then (ready_task p task_id) (\<lambda>(t, c).
     and_then (ready_identities c ev) (\<lambda>_.
     and_then (ready_inputs c ev) (\<lambda>_.
     and_then (ready_eligibility X t task_id ev) (\<lambda>_.
     and_then (ready_dependencies p ev (sc_dependency_task_ids c)) (\<lambda>_.
     and_then (ready_leases c task_id ev) (\<lambda>_.
     ready_scopes ev (other_active_leases task_id ev)))))))"

definition classify_task_ready_set ::
  "externals \<Rightarrow> task_plan \<Rightarrow> string \<Rightarrow> task_ready_set_evidence \<Rightarrow> task_ready_set_decision" where
  "classify_task_ready_set X p task_id ev =
     (case ready_checks X p task_id ev of
        Inl decision \<Rightarrow> decision
      | Inr _ \<Rightarrow> decision_new Ready ''TASK_READY_SET_READY'' [])"

section \<open>Specification\<close>

text \<open>What the evidence must say for a task to be ready, independent of the order of the checks.\<close>

definition ready_spec :: "externals \<Rightarrow> task_plan \<Rightarrow> string \<Rightarrow> task_ready_set_evidence \<Rightarrow> bool" where
  "ready_spec X p task_id ev \<longleftrightarrow>
     scheduling_identities_valid p \<and>
     (\<exists>t c. t \<in> set (tp_detailed_tasks p) \<and> ts_task_id t = task_id \<and> ts_scheduling_contract t = Some c \<and>
        is_ok (validate_contract c task_id) \<and>
        sc_authority_mission_revision_sha256 c = re_authority_mission_revision_sha256 ev \<and>
        set (case re_available_exact_input_sha256s ev of None \<Rightarrow> [] | Some a \<Rightarrow> a) = set (sc_exact_input_sha256s c) \<and>
        execution_eligible X t task_id ev \<and>
        (\<forall>d\<in>set (sc_dependency_task_ids c). \<exists>u\<in>set (tp_detailed_tasks p). ts_task_id u = d \<and>
           (ts_status u \<in> {Done, Archived} \<or> d \<in> set (re_execution_terminal_task_ids ev))) \<and>
        re_active_runtime_workers ev < sc_maximum_parallel_runtime_workers c) \<and>
     re_semantic_dispatch_identity_valid ev \<and> re_candidate_scope_identity_valid ev \<and>
     re_parallel_runtime_limit_supported ev \<and> re_parent_session_can_transition_to_running ev \<and>
     re_lease_unknown_task_ids ev = [] \<and>
     (\<forall>l\<in>set (re_task_leases ev). tl_lease_active l \<and> \<not> tl_terminal l \<longrightarrow>
        (if tl_task_id l = task_id then re_requested_lease_id ev = Some (tl_lease_id l)
         else tl_task_id l \<in> set (re_scope_evaluated_task_ids ev) \<and>
              tl_task_id l \<notin> set (re_scope_unknown_task_ids ev) \<and>
              tl_task_id l \<notin> set (re_scope_conflicting_task_ids ev)))"

lemma decision_state [simp]: "rd_state (decision_new s r ids) = s"
  by (simp add: decision_new_def)

lemma find_task:
  assumes "distinct (map ts_task_id ts)"
  shows "find (\<lambda>t. ts_task_id t = k) ts = Some t \<longleftrightarrow> t \<in> set ts \<and> ts_task_id t = k"
  using assms by (induction ts) (auto simp: image_iff)

lemma ready_task_ok:
  "ready_task p task_id = Inr (t, c) \<longleftrightarrow>
   scheduling_identities_valid p \<and> t \<in> set (tp_detailed_tasks p) \<and> ts_task_id t = task_id \<and>
   ts_scheduling_contract t = Some c \<and> is_ok (validate_contract c task_id)"
proof (cases "scheduling_identities_valid p")
  case True
  then have f: "find (\<lambda>t. ts_task_id t = task_id) (tp_detailed_tasks p) = Some u \<longleftrightarrow>
      u \<in> set (tp_detailed_tasks p) \<and> ts_task_id u = task_id" for u
    by (simp add: find_task scheduling_identities_valid_iff)
  show ?thesis
  proof (cases "find (\<lambda>t. ts_task_id t = task_id) (tp_detailed_tasks p)")
    case None
    then show ?thesis using f [of t] True by (auto simp: ready_task_def)
  next
    case (Some u)
    then have "t \<in> set (tp_detailed_tasks p) \<and> ts_task_id t = task_id \<longleftrightarrow> t = u" using f [of t] by auto
    with Some True show ?thesis
      by (auto simp: ready_task_def is_ok_iff split: option.splits sum.splits)
  qed
qed (simp add: ready_task_def)

lemma ready_dependencies_ok:
  assumes "distinct (map ts_task_id (tp_detailed_tasks p))"
  shows "ready_dependencies p ev ds = Inr () \<longleftrightarrow>
   (\<forall>d\<in>set ds. \<exists>u\<in>set (tp_detailed_tasks p). ts_task_id u = d \<and>
      (ts_status u \<in> {Done, Archived} \<or> d \<in> set (re_execution_terminal_task_ids ev)))"
proof (induction ds)
  case (Cons d ds)
  note f = find_task [OF assms, of d]
  show ?case
  proof (cases "find (\<lambda>t. ts_task_id t = d) (tp_detailed_tasks p)")
    case None
    then have "\<forall>u\<in>set (tp_detailed_tasks p). ts_task_id u \<noteq> d" by (auto simp: find_None_iff)
    with None show ?thesis by auto
  next
    case (Some u)
    have u: "v \<in> set (tp_detailed_tasks p) \<and> ts_task_id v = d \<longleftrightarrow> v = u" for v
      unfolding f [of v, symmetric] Some by auto
    have "(\<exists>v\<in>set (tp_detailed_tasks p). ts_task_id v = d \<and> Q v) \<longleftrightarrow> Q u" for Q
      by (simp only: Bex_def conj_assoc [symmetric] u) simp
    with Some Cons.IH show ?thesis by simp
  qed
qed simp

lemma ready_scopes_ok:
  "ready_scopes ev ls = Inr () \<longleftrightarrow>
   (\<forall>l\<in>set ls. tl_task_id l \<in> set (re_scope_evaluated_task_ids ev) \<and>
      tl_task_id l \<notin> set (re_scope_unknown_task_ids ev) \<and>
      tl_task_id l \<notin> set (re_scope_conflicting_task_ids ev))"
  by (induction ls) auto

lemma ready_leases_ok:
  "ready_leases c task_id ev = Inr () \<longleftrightarrow>
   re_lease_unknown_task_ids ev = [] \<and>
   (\<forall>l\<in>set (re_task_leases ev). tl_task_id l = task_id \<and> tl_lease_active l \<and> \<not> tl_terminal l \<longrightarrow>
      re_requested_lease_id ev = Some (tl_lease_id l)) \<and>
   re_active_runtime_workers ev < sc_maximum_parallel_runtime_workers c"
proof -
  have "task_id \<notin> set (re_lease_unknown_task_ids ev) \<and>
      find (\<lambda>u. u \<noteq> task_id) (sort (re_lease_unknown_task_ids ev)) = None \<longleftrightarrow>
      re_lease_unknown_task_ids ev = []"
    by (auto simp: find_None_iff) (metis list.set_intros(1) neq_Nil_conv)
  moreover have "find (\<lambda>l. tl_task_id l = task_id \<and> tl_lease_active l \<and> \<not> tl_terminal l \<and>
          re_requested_lease_id ev \<noteq> Some (tl_lease_id l)) (re_task_leases ev) = None \<longleftrightarrow>
      (\<forall>l\<in>set (re_task_leases ev). tl_task_id l = task_id \<and> tl_lease_active l \<and> \<not> tl_terminal l \<longrightarrow>
        re_requested_lease_id ev = Some (tl_lease_id l))"
    by (auto simp: find_None_iff)
  ultimately show ?thesis
    unfolding ready_leases_def and_then_Inr_iff reject_if_Inr
    by (auto simp: not_le split: option.splits)
qed

lemma ready_identities_ok:
  "ready_identities c ev = Inr () \<longleftrightarrow>
   sc_authority_mission_revision_sha256 c = re_authority_mission_revision_sha256 ev \<and>
   re_semantic_dispatch_identity_valid ev \<and> re_candidate_scope_identity_valid ev \<and>
   re_parallel_runtime_limit_supported ev \<and> re_parent_session_can_transition_to_running ev"
  by (simp add: ready_identities_def and_then_Inr_iff)

lemma ready_inputs_ok:
  "ready_inputs c ev = Inr () \<longleftrightarrow>
   set (case re_available_exact_input_sha256s ev of None \<Rightarrow> [] | Some a \<Rightarrow> a) = set (sc_exact_input_sha256s c)"
  by (auto simp: ready_inputs_def split: option.splits)

lemma ready_checks_iff: "ready_checks X p task_id ev = Inr () \<longleftrightarrow> ready_spec X p task_id ev"
proof (cases "scheduling_identities_valid p")
  case True
  then have d: "distinct (map ts_task_id (tp_detailed_tasks p))" by (simp add: scheduling_identities_valid_iff)
  have "ready_checks X p task_id ev = Inr () \<longleftrightarrow>
      (\<exists>t c. ready_task p task_id = Inr (t, c) \<and> ready_identities c ev = Inr () \<and>
        ready_inputs c ev = Inr () \<and> ready_eligibility X t task_id ev = Inr () \<and>
        ready_dependencies p ev (sc_dependency_task_ids c) = Inr () \<and> ready_leases c task_id ev = Inr () \<and>
        ready_scopes ev (other_active_leases task_id ev) = Inr ())"
    by (auto simp: ready_checks_def and_then_Inr_iff)
  also have "\<dots> \<longleftrightarrow> ready_spec X p task_id ev"
    unfolding ready_task_ok ready_identities_ok ready_inputs_ok ready_dependencies_ok [OF d]
      ready_leases_ok ready_scopes_ok ready_eligibility_def reject_if_Inr ready_spec_def other_active_leases_def
    by (auto split: if_splits)
  finally show ?thesis .
next
  case False
  then show ?thesis by (simp add: ready_checks_def ready_task_def ready_spec_def)
qed

lemma ready_checks_not_ready: "ready_checks X p task_id ev = Inl d \<Longrightarrow> rd_state d \<noteq> Ready"
proof -
  assume a: "ready_checks X p task_id ev = Inl d"
  have dep: "ready_dependencies p ev ds = Inl d \<Longrightarrow> rd_state d \<noteq> Ready" for ds
    by (induction ds) (auto split: option.splits if_splits)
  have scp: "ready_scopes ev ls = Inl d \<Longrightarrow> rd_state d \<noteq> Ready" for ls
    by (induction ls) (auto split: if_splits)
  have tsk: "ready_task p task_id = Inl d \<Longrightarrow> rd_state d \<noteq> Ready"
    by (auto simp: ready_task_def split: if_splits option.splits sum.splits)
  have ids: "ready_identities c ev = Inl d \<Longrightarrow> rd_state d \<noteq> Ready" for c
    by (auto simp: ready_identities_def and_then_def reject_if_def split: if_splits sum.splits)
  have inp: "ready_inputs c ev = Inl d \<Longrightarrow> rd_state d \<noteq> Ready" for c
    by (auto simp: ready_inputs_def split: if_splits option.splits)
  have elg: "ready_eligibility X t task_id ev = Inl d \<Longrightarrow> rd_state d \<noteq> Ready" for t
    by (auto simp: ready_eligibility_def reject_if_def split: if_splits)
  have lea: "ready_leases c task_id ev = Inl d \<Longrightarrow> rd_state d \<noteq> Ready" for c
    by (auto simp: ready_leases_def and_then_def reject_if_def split: if_splits sum.splits option.splits)
  show ?thesis
    using a unfolding ready_checks_def and_then_def
    by (auto split: sum.splits dest: dep scp tsk ids inp elg lea)
qed

text \<open>
  C20: The classifier answers \<open>Ready\<close> exactly when the specification holds: the order in which the
  code checks and returns early does not change which tasks are ready.
\<close>

theorem classify_ready_iff_spec: "rd_state (classify_task_ready_set X p task_id ev) = Ready \<longleftrightarrow> ready_spec X p task_id ev"
proof (cases "ready_checks X p task_id ev")
  case (Inl d)
  then show ?thesis
    using ready_checks_not_ready [OF Inl] ready_checks_iff [of X p task_id ev]
    by (simp add: classify_task_ready_set_def)
next
  case (Inr u)
  then show ?thesis using ready_checks_iff [of X p task_id ev] by (simp add: classify_task_ready_set_def)
qed

end
