(* ===== verification/Task_Patching.thy ===== *)
theory Task_Patching
  imports Task_Steps
begin

text \<open>
  The session states, and patching a task plan (\<open>patch_one_task\<close>, \<open>patch_task_list\<close>, \<open>apply_task_plan_patch\<close> and
  \<open>apply_task_patch\<close> of \<open>lifecycle/src/session.rs\<close>). The code mutates a clone of the plan; here
  each operation returns the patched plan or the error.
\<close>

section \<open>Session states\<close>

text \<open>
  The session states of \<open>lifecycle/src/session.rs\<close>, the transition table and the transition
  error. An operation of the session fails with the transition error the code returns, or panics.
\<close>

datatype session_state =
  SCreated | SRunning | SPaused | SCompleted | SFailed | SCancelled | SInterrupted

definition session_can_transition_to :: "session_state \<Rightarrow> session_state \<Rightarrow> bool" where
  [state_defs]: "session_can_transition_to self next =
     (case self of
        SCreated \<Rightarrow> next \<in> {SRunning, SCancelled} \<or> self = next
      | SRunning \<Rightarrow> next \<in> {SPaused, SCompleted, SFailed, SCancelled, SInterrupted} \<or> self = next
      | SPaused \<Rightarrow> next \<in> {SRunning, SCancelled, SFailed, SInterrupted} \<or> self = next
      | SCompleted \<Rightarrow> next \<in> {SCreated, SRunning} \<or> self = next
      | _ \<Rightarrow> False)"

fun ui_status :: "session_state \<Rightarrow> string" where
  "ui_status SCreated = ''idle''"
| "ui_status SCompleted = ''idle''"
| "ui_status SRunning = ''busy''"
| "ui_status SPaused = ''busy''"
| "ui_status SFailed = ''error''"
| "ui_status SCancelled = ''error''"
| "ui_status SInterrupted = ''error''"

definition is_recoverable_running :: "session_state \<Rightarrow> bool" where
  [state_defs]: "is_recoverable_running s = (s \<in> {SRunning, SPaused})"

definition session_is_terminal :: "session_state \<Rightarrow> bool" where
  [state_defs]: "session_is_terminal s = (s \<in> {SCompleted, SFailed, SCancelled, SInterrupted})"

record session_transition_error =
  se_previous :: session_state
  se_next :: session_state

datatype session_failure = Rejected session_transition_error | Panicked

abbreviation reject_transition :: "session_state \<Rightarrow> session_state \<Rightarrow> session_failure" where
  "reject_transition previous next \<equiv> Rejected \<lparr>se_previous = previous, se_next = next\<rparr>"

fun debug_session_state :: "session_state \<Rightarrow> string" where
  "debug_session_state SCreated = ''Created''"
| "debug_session_state SRunning = ''Running''"
| "debug_session_state SPaused = ''Paused''"
| "debug_session_state SCompleted = ''Completed''"
| "debug_session_state SFailed = ''Failed''"
| "debug_session_state SCancelled = ''Cancelled''"
| "debug_session_state SInterrupted = ''Interrupted''"

definition display_session_transition_error :: "session_transition_error \<Rightarrow> string" where
  "display_session_transition_error e =
     ''invalid session state transition: '' @ debug_session_state (se_previous e) @ '' -> '' @
     debug_session_state (se_next e)"

lemma busy_cases: "is_recoverable_running s \<longleftrightarrow> s = SRunning \<or> s = SPaused"
  by (simp add: is_recoverable_running_def)

lemma can_run_iff: "session_can_transition_to s SRunning \<longleftrightarrow> s \<in> {SCreated, SRunning, SPaused, SCompleted}"
  by (cases s) (simp_all add: session_can_transition_to_def)

section \<open>Patches\<close>

record session_task_patch =
  sp_task_id :: "string option"
  sp_step :: "u64 option"
  sp_task_summary :: "string option"
  sp_deliverable :: "string option"
  sp_sub_session_id :: "string option"
  sp_start_condition :: "start_condition option"
  sp_start_at :: "datetime option"
  sp_poll_interval :: "poll_interval option"
  sp_status :: "plan_status option"
  sp_scheduling_contract :: "task_scheduling_contract option"

record session_task_plan_patch =
  pp_plan_summary :: "string option"
  pp_tasks :: "session_task_patch list option"
  pp_task :: "session_task_patch option"
  pp_generated_task_ids :: "string list"
  pp_generated_task_id :: string
  pp_now :: datetime

definition task_patch_error :: session_failure where
  "task_patch_error = reject_transition SCreated SCreated"

text \<open>\<open>option.filter(|v| !v.trim().is_empty())\<close> and \<open>option.map(str::trim).filter(|v| !v.is_empty())\<close>.\<close>

definition nonblank :: "string option \<Rightarrow> string option" where
  "nonblank v = (case v of Some x \<Rightarrow> if blank x then None else Some x | None \<Rightarrow> None)"

definition trimmed_nonblank :: "string option \<Rightarrow> string option" where
  "trimmed_nonblank v = (case v of Some x \<Rightarrow> if blank x then None else Some (trim x) | None \<Rightarrow> None)"

definition changes_claimed_identity :: "task_step \<Rightarrow> session_task_patch \<Rightarrow> bool" where
  "changes_claimed_identity t patch =
     (case ts_dispatch_claim t of
        None \<Rightarrow> False
      | Some claim \<Rightarrow>
          (case nonblank (sp_task_id patch) of Some v \<Rightarrow> v \<noteq> ts_task_id t | None \<Rightarrow> False) \<or>
          (case nonblank (sp_sub_session_id patch) of
             Some v \<Rightarrow> v \<noteq> dc_child_session_id claim | None \<Rightarrow> False) \<or>
          (case sp_scheduling_contract patch of
             Some c \<Rightarrow> Some c \<noteq> ts_scheduling_contract t | None \<Rightarrow> False))"

text \<open>The field updates, in the order of the code.\<close>

definition patch_identity :: "session_task_patch \<Rightarrow> task_step \<Rightarrow> task_step" where
  "patch_identity patch t =
     (let t1 = (case nonblank (sp_task_id patch) of Some v \<Rightarrow> t\<lparr>ts_task_id := v\<rparr> | None \<Rightarrow> t)
      in case sp_step patch of Some n \<Rightarrow> t1\<lparr>ts_step := n\<rparr> | None \<Rightarrow> t1)"

definition patch_texts :: "session_task_patch \<Rightarrow> task_step \<Rightarrow> task_step" where
  "patch_texts patch t =
     (let t1 = (case nonblank (sp_task_summary patch) of
                  Some v \<Rightarrow> (let u = t\<lparr>ts_task_summary := v\<rparr>
                            in if blank (ts_step_task u) then u\<lparr>ts_step_task := v\<rparr> else u)
                | None \<Rightarrow> t);
          t2 = (case nonblank (sp_deliverable patch) of
                  Some v \<Rightarrow> t1\<lparr>ts_step_deliverable_description := v\<rparr> | None \<Rightarrow> t1)
      in case nonblank (sp_sub_session_id patch) of
           Some v \<Rightarrow> t2\<lparr>ts_sub_session_id := v\<rparr> | None \<Rightarrow> t2)"

definition patch_status :: "session_task_patch \<Rightarrow> task_step \<Rightarrow> task_step" where
  "patch_status patch t =
     (let t1 = (case sp_status patch of Some v \<Rightarrow> t\<lparr>ts_status := v\<rparr> | None \<Rightarrow> t)
      in case sp_scheduling_contract patch of
           Some c \<Rightarrow> t1\<lparr>ts_scheduling_contract := Some c\<rparr> | None \<Rightarrow> t1)"

definition patch_timing :: "session_task_patch \<Rightarrow> task_step \<Rightarrow> task_step" where
  "patch_timing patch t =
     (let t1 = (case sp_poll_interval patch of
                  Some p \<Rightarrow>
                    (let u = t\<lparr>ts_poll_interval := p\<rparr>
                     in if p \<noteq> poll_interval_default then u\<lparr>ts_start_condition := PollingTask\<rparr>
                        else if ts_start_condition u = PollingTask then u\<lparr>ts_start_condition := UserAction\<rparr>
                        else u)
                | None \<Rightarrow> t);
          t2 = (case sp_start_at patch of
                  Some a \<Rightarrow>
                    (let u = t1\<lparr>ts_start_at := a\<rparr>
                     in if ts_start_condition u \<noteq> PollingTask then u\<lparr>ts_start_condition := ScheduledTask\<rparr>
                        else u)
                | None \<Rightarrow> t1)
      in case sp_start_condition patch of
           Some c \<Rightarrow> t2\<lparr>ts_start_condition := c\<rparr> | None \<Rightarrow> t2)"

definition apply_task_patch :: "task_step \<Rightarrow> session_task_patch \<Rightarrow> (session_failure, task_step) result" where
  "apply_task_patch t patch =
     (if changes_claimed_identity t patch then Inl task_patch_error
      else Inr (patch_timing patch (patch_status patch (patch_texts patch (patch_identity patch t)))))"

section \<open>One task\<close>

definition new_task :: "string \<Rightarrow> u64 \<Rightarrow> datetime \<Rightarrow> task_step" where
  "new_task task_id step now =
     (task_step_default now)\<lparr>ts_task_id := task_id, ts_step := step, ts_start_at := now\<rparr>"

definition next_step_number :: "session_task_patch \<Rightarrow> task_step list \<Rightarrow> u64" where
  "next_step_number patch tasks =
     (case sp_step patch of Some n \<Rightarrow> n | None \<Rightarrow> of_nat (length tasks) + 1)"

definition contract_without_id :: "session_task_patch \<Rightarrow> bool" where
  "contract_without_id patch = (sp_scheduling_contract patch \<noteq> None \<and> nonblank (sp_task_id patch) = None)"

text \<open>The task a patch addresses: an existing one, or one pushed for it.\<close>

definition locate_one_task ::
  "task_plan \<Rightarrow> session_task_patch \<Rightarrow> string \<Rightarrow> datetime \<Rightarrow> task_step list \<times> nat" where
  "locate_one_task p patch generated_task_id now =
     (let tasks = tp_detailed_tasks p
      in case trimmed_nonblank (sp_task_id patch) of
           Some tid \<Rightarrow>
             (case position (\<lambda>t. ts_task_id t = tid) tasks of
                Some i \<Rightarrow> (tasks, i)
              | None \<Rightarrow> (tasks @ [new_task tid (next_step_number patch tasks) now], length tasks))
         | None \<Rightarrow>
             if tasks = []
             then ([(new_task generated_task_id 1 now)
                      \<lparr>ts_task_summary := tp_plan_summary p, ts_step_task := tp_plan_summary p\<rparr>], 0)
             else (tasks, 0))"

definition patch_one_task ::
  "task_plan \<Rightarrow> session_task_patch \<Rightarrow> string \<Rightarrow> datetime \<Rightarrow> (session_failure, task_plan) result" where
  "patch_one_task p patch generated_task_id now =
     and_then (reject_if (contract_without_id patch) task_patch_error) (\<lambda>_.
     and_then (reject_if (trimmed_nonblank (sp_task_id patch) = None \<and> length (tp_detailed_tasks p) > 1)
         task_patch_error) (\<lambda>_.
     let (tasks, i) = locate_one_task p patch generated_task_id now
     in and_then (apply_task_patch (tasks ! i) patch) (\<lambda>t.
          Inr (p\<lparr>tp_detailed_tasks := tasks[i := t],
                 tp_plan_summary := (if blank (tp_plan_summary p) then ts_task_summary t
                                     else tp_plan_summary p)\<rparr>))))"

section \<open>A list of patches\<close>

definition patch_into ::
  "task_step list \<Rightarrow> string list \<Rightarrow> session_task_patch \<Rightarrow> string \<Rightarrow> datetime \<Rightarrow>
   (session_failure, task_step list \<times> string list) result" where
  "patch_into tasks requested patch generated_task_id now =
     and_then (reject_if (contract_without_id patch) task_patch_error) (\<lambda>_.
     let tid = (case trimmed_nonblank (sp_task_id patch) of Some v \<Rightarrow> v | None \<Rightarrow> generated_task_id);
         existing = position (\<lambda>t. ts_task_id t = tid) tasks;
         requested' = (if existing \<noteq> None then push_unique tid requested else requested);
         (tasks', i) = (case existing of
             Some i \<Rightarrow> (tasks, i)
           | None \<Rightarrow> (tasks @ [new_task tid (next_step_number patch tasks) now], length tasks))
     in and_then (apply_task_patch (tasks' ! i) patch) (\<lambda>t. Inr (tasks'[i := t], requested')))"

fun patch_each ::
  "task_step list \<Rightarrow> string list \<Rightarrow> (session_task_patch \<times> string) list \<Rightarrow> datetime \<Rightarrow>
   (session_failure, task_step list \<times> string list) result" where
  "patch_each tasks requested [] now = Inr (tasks, requested)"
| "patch_each tasks requested ((patch, gen) # rest) now =
     and_then (patch_into tasks requested patch gen now) (\<lambda>(tasks', requested').
       patch_each tasks' requested' rest now)"

definition requested_rank :: "string list \<Rightarrow> task_step \<Rightarrow> nat" where
  "requested_rank requested t =
     (case position (\<lambda>tid. tid = ts_task_id t) requested of Some i \<Rightarrow> i | None \<Rightarrow> 2 ^ 64 - 1)"

definition renumber :: "task_step list \<Rightarrow> task_step list" where
  "renumber tasks = map (\<lambda>(i, t). t\<lparr>ts_step := of_nat i + 1\<rparr>) (List.enumerate 0 tasks)"

definition patch_task_list ::
  "task_plan \<Rightarrow> session_task_patch list \<Rightarrow> string list \<Rightarrow> datetime \<Rightarrow> (session_failure, task_plan) result" where
  "patch_task_list p patches generated_task_ids now =
     and_then (reject_if (length generated_task_ids \<noteq> length patches) task_patch_error) (\<lambda>_.
     and_then (patch_each (tp_detailed_tasks p) [] (zip patches generated_task_ids) now) (\<lambda>(tasks, requested).
       Inr (p\<lparr>tp_detailed_tasks := renumber (sort_key (requested_rank requested) tasks)\<rparr>)))"

section \<open>A plan patch\<close>

definition restore_doing :: "string list \<Rightarrow> task_step \<Rightarrow> task_step" where
  "restore_doing doing_ids t =
     (if ts_task_id t \<in> set doing_ids \<and> ts_status t \<in> {Todo, Question} then t\<lparr>ts_status := Doing\<rparr> else t)"

definition hold_new_idle :: "string list \<Rightarrow> task_step \<Rightarrow> task_step" where
  "hold_new_idle existing_ids t =
     (if ts_task_id t \<notin> set existing_ids \<and> ts_start_condition t = SessionIdle \<and> ts_status t \<in> {Todo, Question}
      then t\<lparr>ts_status := WaitingUser\<rparr> else t)"

definition apply_task_plan_patch ::
  "task_plan \<Rightarrow> session_state \<Rightarrow> session_task_plan_patch \<Rightarrow> (session_failure, task_plan) result" where
  "apply_task_plan_patch p state patch =
     (let existing_ids = map ts_task_id (tp_detailed_tasks p);
          doing_ids = map ts_task_id (filter (\<lambda>t. ts_status t = Doing) (tp_detailed_tasks p))
      in and_then (case pp_tasks patch of
             Some tasks \<Rightarrow> patch_task_list p tasks (pp_generated_task_ids patch) (pp_now patch)
           | None \<Rightarrow> Inr p) (\<lambda>p1.
         let p2 = (case trimmed_nonblank (pp_plan_summary patch) of
                     Some s \<Rightarrow> p1\<lparr>tp_plan_summary := s\<rparr> | None \<Rightarrow> p1)
         in and_then (case pp_task patch of
                Some task \<Rightarrow> patch_one_task p2 task (pp_generated_task_id patch) (pp_now patch)
              | None \<Rightarrow> Inr p2) (\<lambda>p3.
            Inr (p3\<lparr>tp_detailed_tasks :=
              map (if state \<in> {SRunning, SPaused} then restore_doing doing_ids else hold_new_idle existing_ids)
                (tp_detailed_tasks p3)\<rparr>))))"

section \<open>Facts\<close>

lemma nonblank_Some: "nonblank v = Some x \<longleftrightarrow> v = Some x \<and> \<not> blank x"
  by (auto simp: nonblank_def split: option.splits)

lemma patch_timing_keeps:
  "ts_task_id (patch_timing patch t) = ts_task_id t"
  "ts_scheduling_contract (patch_timing patch t) = ts_scheduling_contract t"
  "ts_sub_session_id (patch_timing patch t) = ts_sub_session_id t"
  "ts_dispatch_claim (patch_timing patch t) = ts_dispatch_claim t"
  unfolding patch_timing_def Let_def
  by (cases "sp_poll_interval patch"; cases "sp_start_at patch"; cases "sp_start_condition patch"; simp)+

lemma patch_status_keeps:
  "ts_task_id (patch_status patch t) = ts_task_id t"
  "ts_sub_session_id (patch_status patch t) = ts_sub_session_id t"
  "ts_dispatch_claim (patch_status patch t) = ts_dispatch_claim t"
  unfolding patch_status_def Let_def
  by (cases "sp_status patch"; cases "sp_scheduling_contract patch"; simp)+

lemma patch_texts_keeps:
  "ts_task_id (patch_texts patch t) = ts_task_id t"
  "ts_scheduling_contract (patch_texts patch t) = ts_scheduling_contract t"
  "ts_dispatch_claim (patch_texts patch t) = ts_dispatch_claim t"
  unfolding patch_texts_def Let_def
  by (cases "nonblank (sp_task_summary patch)"; cases "nonblank (sp_deliverable patch)";
      cases "nonblank (sp_sub_session_id patch)"; simp)+

lemma patch_identity_keeps:
  "ts_scheduling_contract (patch_identity patch t) = ts_scheduling_contract t"
  "ts_sub_session_id (patch_identity patch t) = ts_sub_session_id t"
  "ts_dispatch_claim (patch_identity patch t) = ts_dispatch_claim t"
  unfolding patch_identity_def Let_def
  by (cases "nonblank (sp_task_id patch)"; cases "sp_step patch"; simp)+

lemmas patch_fields = patch_timing_keeps patch_status_keeps patch_texts_keeps patch_identity_keeps

lemma apply_task_patch_claim:
  assumes "apply_task_patch t patch = Inr t'"
  shows "ts_dispatch_claim t' = ts_dispatch_claim t"
  using assms by (auto simp: apply_task_patch_def patch_fields split: if_splits)

text \<open>Patching a claimed task keeps the identities its claim was made for.\<close>

definition claim_identity :: "task_step \<Rightarrow> string \<times> task_dispatch_claim option \<times> task_scheduling_contract option" where
  "claim_identity t = (ts_task_id t, ts_dispatch_claim t, ts_scheduling_contract t)"

lemma apply_task_patch_claimed:
  assumes ok: "apply_task_patch t patch = Inr t'" and claim: "ts_dispatch_claim t = Some claim"
  shows "claim_identity t' = claim_identity t"
    and "ts_sub_session_id t' = ts_sub_session_id t \<or> ts_sub_session_id t' = dc_child_session_id claim"
proof -
  let ?t1 = "patch_identity patch t"
  have t': "t' = patch_timing patch (patch_status patch (patch_texts patch ?t1))"
    and keep: "\<not> changes_claimed_identity t patch"
    using ok by (auto simp: apply_task_patch_def split: if_splits)
  from keep claim have id: "\<And>v. nonblank (sp_task_id patch) = Some v \<Longrightarrow> v = ts_task_id t"
    and sub: "\<And>v. nonblank (sp_sub_session_id patch) = Some v \<Longrightarrow> v = dc_child_session_id claim"
    and con: "\<And>c. sp_scheduling_contract patch = Some c \<Longrightarrow> Some c = ts_scheduling_contract t"
    by (auto simp: changes_claimed_identity_def)
  have "ts_task_id t' = ts_task_id t"
    using id unfolding t' patch_fields patch_identity_def Let_def
    by (cases "nonblank (sp_task_id patch)"; cases "sp_step patch"; simp)
  moreover have "ts_scheduling_contract t' = ts_scheduling_contract t"
    using con unfolding t' patch_fields patch_status_def Let_def
    by (cases "sp_status patch"; cases "sp_scheduling_contract patch"; auto simp: patch_fields split: option.split)
  ultimately show "claim_identity t' = claim_identity t"
    by (simp add: claim_identity_def apply_task_patch_claim [OF ok])
  show "ts_sub_session_id t' = ts_sub_session_id t \<or> ts_sub_session_id t' = dc_child_session_id claim"
    using sub unfolding t' patch_fields patch_texts_def Let_def
    by (cases "nonblank (sp_task_summary patch)"; cases "nonblank (sp_deliverable patch)";
        cases "nonblank (sp_sub_session_id patch)"; simp add: patch_fields)
qed

text \<open>The claims of a plan: the identities of its claimed tasks, in order.\<close>

definition claims :: "task_step list \<Rightarrow> (string \<times> task_dispatch_claim option \<times> task_scheduling_contract option) list" where
  "claims ts = map claim_identity (filter (\<lambda>t. ts_dispatch_claim t \<noteq> None) ts)"

lemma claims_simps [simp]:
  "claims [] = []"
  "claims (t # ts) = (if ts_dispatch_claim t \<noteq> None then claim_identity t # claims ts else claims ts)"
  "claims (ts @ us) = claims ts @ claims us"
  by (simp_all add: claims_def)

lemma new_task_unclaimed [simp]: "ts_dispatch_claim (new_task tid n now) = None"
  by (simp add: new_task_def task_step_default_def)

lemma claims_update:
  "i < length ts \<Longrightarrow> apply_task_patch (ts ! i) patch = Inr t \<Longrightarrow> claims (ts[i := t]) = claims ts"
proof (induction ts arbitrary: i)
  case (Cons u ts)
  show ?case
  proof (cases i)
    case 0
    with Cons.prems have "apply_task_patch u patch = Inr t" by simp
    with 0 show ?thesis
      using apply_task_patch_claim [of u patch t] apply_task_patch_claimed(1) [of u patch t] by auto
  next
    case (Suc k)
    with Cons show ?thesis by simp
  qed
qed simp

lemma patch_into_claims:
  assumes "patch_into tasks requested patch gen now = Inr (tasks', requested')"
  shows "claims tasks' = claims tasks"
proof -
  define tid where "tid = (case trimmed_nonblank (sp_task_id patch) of Some v \<Rightarrow> v | None \<Rightarrow> gen)"
  define loc where "loc = (case position (\<lambda>t. ts_task_id t = tid) tasks of
      Some i \<Rightarrow> (tasks, i)
    | None \<Rightarrow> (tasks @ [new_task tid (next_step_number patch tasks) now], length tasks))"
  obtain base i where l: "loc = (base, i)" by fastforce
  have "claims base = claims tasks" "i < length base"
    using l by (auto simp: loc_def dest!: position_less split: option.splits)
  moreover from assms obtain t where "apply_task_patch (base ! i) patch = Inr t" "tasks' = base[i := t]"
    unfolding patch_into_def Let_def tid_def [symmetric] loc_def [symmetric] l
    by (auto simp: result_simps)
  ultimately show ?thesis by (simp add: claims_update)
qed

lemma patch_each_claims:
  "patch_each tasks requested ps now = Inr (tasks', requested') \<Longrightarrow> claims tasks' = claims tasks"
proof (induction tasks requested ps now rule: patch_each.induct)
  case (2 tasks requested patch gen rest now)
  from "2.prems" obtain ts rs where s: "patch_into tasks requested patch gen now = Inr (ts, rs)"
    "patch_each ts rs rest now = Inr (tasks', requested')"
    by (auto simp: result_simps)
  then have "claims tasks' = claims ts" by (intro "2.IH")
  with patch_into_claims [OF s(1)] show ?case by simp
qed simp

lemma mset_claims: "mset (claims ts) = image_mset claim_identity (filter_mset (\<lambda>t. ts_dispatch_claim t \<noteq> None) (mset ts))"
  by (simp add: claims_def flip: mset_filter)

lemma claims_map:
  assumes "\<And>t. claim_identity (f t) = claim_identity t"
  shows "claims (map f ts) = claims ts"
proof -
  have "ts_dispatch_claim (f t) = ts_dispatch_claim t" for t
    using assms [of t] by (simp add: claim_identity_def)
  then show ?thesis by (induction ts) (auto simp: assms)
qed

lemma renumber_claims: "claims (renumber ts) = claims ts"
proof -
  have "claims (map (\<lambda>(i, t). t\<lparr>ts_step := of_nat i + 1\<rparr>) (List.enumerate n ts)) = claims ts" for n
    by (induction ts arbitrary: n) (auto simp: claim_identity_def)
  then show ?thesis by (simp add: renumber_def)
qed

lemma patch_task_list_claims:
  assumes "patch_task_list p patches gens now = Inr p'"
  shows "mset (claims (tp_detailed_tasks p')) = mset (claims (tp_detailed_tasks p))"
proof -
  from assms obtain ts rs where "patch_each (tp_detailed_tasks p) [] (zip patches gens) now = Inr (ts, rs)"
    and p': "tp_detailed_tasks p' = renumber (sort_key (requested_rank rs) ts)"
    by (auto simp: patch_task_list_def result_simps)
  then have "claims ts = claims (tp_detailed_tasks p)" by (simp add: patch_each_claims)
  moreover have "mset (claims (sort_key (requested_rank rs) ts)) = mset (claims ts)"
    by (simp add: mset_claims)
  ultimately show ?thesis by (simp add: p' renumber_claims)
qed

lemma locate_one_task_props:
  assumes "locate_one_task p patch gen now = (tasks, i)"
  shows "claims tasks = claims (tp_detailed_tasks p) \<and> i < length tasks"
  using assms
  by (auto simp: locate_one_task_def Let_def dest!: position_less split: option.splits if_splits)

lemma patch_one_task_claims:
  assumes "patch_one_task p patch gen now = Inr p'"
  shows "claims (tp_detailed_tasks p') = claims (tp_detailed_tasks p)"
proof -
  obtain tasks i where l: "locate_one_task p patch gen now = (tasks, i)" by fastforce
  with assms obtain t where "apply_task_patch (tasks ! i) patch = Inr t" "tp_detailed_tasks p' = tasks[i := t]"
    by (auto simp: patch_one_task_def result_simps)
  then show ?thesis using locate_one_task_props [OF l] by (simp add: claims_update)
qed

lemma apply_task_plan_patch_claims:
  assumes "apply_task_plan_patch p state patch = Inr p'"
  shows "mset (claims (tp_detailed_tasks p')) = mset (claims (tp_detailed_tasks p))"
proof -
  define p2 where "p2 q = (case trimmed_nonblank (pp_plan_summary patch) of
      Some s \<Rightarrow> q\<lparr>tp_plan_summary := s\<rparr> | None \<Rightarrow> q)" for q :: task_plan
  define f where "f = (if state \<in> {SRunning, SPaused}
      then restore_doing (map ts_task_id (filter (\<lambda>t. ts_status t = Doing) (tp_detailed_tasks p)))
      else hold_new_idle (map ts_task_id (tp_detailed_tasks p)))"
  have p2: "tp_detailed_tasks (p2 q) = tp_detailed_tasks q" for q
    by (simp add: p2_def split: option.split)
  have f: "claim_identity (f t) = claim_identity t" for t
    by (simp add: f_def restore_doing_def hold_new_idle_def claim_identity_def)
  from assms obtain p1 p3 where
    1: "(case pp_tasks patch of
           Some tasks \<Rightarrow> patch_task_list p tasks (pp_generated_task_ids patch) (pp_now patch)
         | None \<Rightarrow> Inr p) = Inr p1" and
    3: "(case pp_task patch of
           Some task \<Rightarrow> patch_one_task (p2 p1) task (pp_generated_task_id patch) (pp_now patch)
         | None \<Rightarrow> Inr (p2 p1)) = Inr p3" and
    p': "p' = p3\<lparr>tp_detailed_tasks := map f (tp_detailed_tasks p3)\<rparr>"
    unfolding apply_task_plan_patch_def Let_def p2_def [symmetric] f_def [symmetric]
    by (auto simp only: and_then_Inr_iff sum.inject)
  have "mset (claims (tp_detailed_tasks p1)) = mset (claims (tp_detailed_tasks p))"
    using 1 patch_task_list_claims by (auto split: option.splits)
  moreover have "claims (tp_detailed_tasks p3) = claims (tp_detailed_tasks p1)"
    using 3 patch_one_task_claims p2 by (fastforce split: option.splits)
  ultimately show ?thesis using f by (simp add: p' claims_map)
qed

section \<open>Order and numbering\<close>

lemma renumber_length [simp]: "length (renumber ts) = length ts"
  by (simp add: renumber_def)

lemma renumber_nth:
  "i < length ts \<Longrightarrow> renumber ts ! i = (ts ! i)\<lparr>ts_step := of_nat i + 1\<rparr>"
  by (simp add: renumber_def nth_enumerate_eq)

lemma patch_task_list_shape:
  assumes "patch_task_list p patches gens now = Inr p'"
  obtains ts rs where
    "patch_each (tp_detailed_tasks p) [] (zip patches gens) now = Inr (ts, rs)"
    "tp_detailed_tasks p' = renumber (sort_key (requested_rank rs) ts)"
    "tp_plan_summary p' = tp_plan_summary p"
  using assms by (auto simp: patch_task_list_def result_simps)

lemma requested_rank_step [simp]: "requested_rank rs (t\<lparr>ts_step := n\<rparr>) = requested_rank rs t"
  by (simp add: requested_rank_def)

lemma map_renumber:
  assumes "\<And>t n. f (t\<lparr>ts_step := n\<rparr>) = f t"
  shows "map f (renumber ts) = map f ts"
  by (rule nth_equalityI) (simp_all add: renumber_nth assms)

lemma filter_renumber:
  assumes "\<And>t n. P (t\<lparr>ts_step := n\<rparr>) = P t"
  shows "map (\<lambda>t. t\<lparr>ts_step := 0\<rparr>) (filter P (renumber ts)) = map (\<lambda>t. t\<lparr>ts_step := 0\<rparr>) (filter P ts)"
proof -
  have "map (\<lambda>t. t\<lparr>ts_step := 0\<rparr>) (filter P (map (\<lambda>(i, t). t\<lparr>ts_step := of_nat i + 1\<rparr>) (List.enumerate n ts))) =
      map (\<lambda>t. t\<lparr>ts_step := 0\<rparr>) (filter P ts)" for n
    by (induction ts arbitrary: n) (simp_all add: assms)
  then show ?thesis by (simp add: renumber_def)
qed

end
