(* ===== verification/Task_Samples.thy ===== *)
theory Task_Samples
  imports Task_Patching Reference_Externals
begin

text \<open>
  A concrete scheduling contract, task and plan. The dispatch key of the contract is the digest of
  its semantic identity, as the code requires.
\<close>

abbreviation ref :: externals where
  "ref \<equiv> reference_externals"

definition zeros :: string where
  "zeros = replicate 64 (CHR ''0'')"

definition sample_draft :: task_scheduling_contract where
  "sample_draft =
     \<lparr>sc_schema_version = TASK_SCHEDULING_CONTRACT_SCHEMA_VERSION, sc_mission_id = ''mission'',
      sc_semantic_dispatch_key = [], sc_authority_mission_revision_sha256 = zeros,
      sc_delegated_input_sha256 = zeros, sc_task_context_capsule_semantic_sha256 = zeros,
      sc_dependency_task_ids = [], sc_exact_input_sha256s = [],
      sc_jspace_authorization_semantic_sha256 = zeros, sc_read_scopes = [''src''], sc_write_scopes = [],
      sc_declared_targets = [], sc_conflict_identities = [], sc_maximum_parallel_runtime_workers = 2\<rparr>"

definition sample_contract :: task_scheduling_contract where
  "sample_contract = sample_draft\<lparr>sc_semantic_dispatch_key := semantic_dispatch_sha256 ref sample_draft ''t1''\<rparr>"

definition sample_task :: task_step where
  "sample_task = (task_step_default 0)\<lparr>ts_task_id := ''t1'', ts_step := 1, ts_task_summary := ''first'',
     ts_start_condition := SessionIdle, ts_scheduling_contract := Some sample_contract\<rparr>"

definition sample_polling_task :: task_step where
  "sample_polling_task = (task_step_default 0)\<lparr>ts_task_id := ''poll'', ts_task_summary := ''poll'',
     ts_start_condition := PollingTask, ts_poll_interval := \<lparr>pi_m = 1, pi_d = 0, pi_h = 0, pi_s = 30\<rparr>\<rparr>"

definition sample_plan :: task_plan where
  "sample_plan = \<lparr>tp_plan_summary = ''plan'', tp_detailed_tasks = [sample_task]\<rparr>"

definition empty_patch :: session_task_patch where
  "empty_patch = \<lparr>sp_task_id = None, sp_step = None, sp_task_summary = None, sp_deliverable = None,
     sp_sub_session_id = None, sp_start_condition = None, sp_start_at = None, sp_poll_interval = None,
     sp_status = None, sp_scheduling_contract = None\<rparr>"

lemma reference_digest_sha256: "is_lower_sha256 (reference_digest s)"
  by (simp add: reference_digest_def is_lower_sha256_def list_all_iff)

lemma zeros_sha256: "is_lower_sha256 zeros"
  by (simp add: zeros_def is_lower_sha256_def list_all_iff)

lemma ref_digest: "is_lower_sha256 (canonical_value_sha256 ref v)"
  by (simp add: canonical_value_sha256_def reference_externals_def reference_digest_sha256)

lemma trim_samples: "trim ''mission'' = ''mission''" "trim ''src'' = ''src''" "trim ''t1'' = ''t1''"
  "trim ''first'' = ''first''" "trim ''poll'' = ''poll''" "trim ''c1'' = ''c1''"
  by code_simp+

lemma sample_contract_valid: "validate_contract sample_contract ''t1'' = Inr ()"
proof -
  have "is_lower_sha256 (sc_semantic_dispatch_key sample_contract)"
    by (simp add: sample_contract_def semantic_dispatch_sha256_def ref_digest)
  then show ?thesis
    by (simp add: validate_contract_def sample_contract_def sample_draft_def zeros_sha256 canonical_values_def
        trim_samples MAX_TASK_SCHEDULING_VALUE_CHARS_def MAX_TASK_SCHEDULING_DEPENDENCIES_def
        MAX_TASK_SCHEDULING_INPUTS_def MAX_TASK_SCHEDULING_SCOPE_ENTRIES_def
        MAX_TASK_SCHEDULING_CONFLICT_IDENTITIES_def MAX_TASK_SCHEDULING_PARALLEL_RUNTIME_WORKERS_def)
qed

lemma sample_dispatch_key: "semantic_dispatch_sha256 ref sample_contract ''t1'' = sc_semantic_dispatch_key sample_contract"
  by (simp add: sample_contract_def semantic_dispatch_sha256_def semantic_dispatch_identity_def)

lemma sample_plan_identities: "scheduling_identities_valid sample_plan"
  by (simp add: scheduling_identities_valid_iff sample_plan_def sample_task_def trim_samples)

end
