(* ===== verification/Task_Properties.thy ===== *)
theory Task_Properties
  imports Ready_Set Task_Samples
begin

text \<open>
  The properties of scheduling contracts, of planned tasks and of the patches of a plan.
\<close>

section \<open>Digests bind what they name\<close>

text \<open>
  The digest of a scheduling contract binds it: two contracts with the same digest are equal,
  or their two canonical texts are a collision of the hash function.
\<close>

theorem contract_digest_binding:
  assumes "json_text_laws X" "contract_sha256 X c = contract_sha256 X d"
  shows "c = d \<or>
    (let u = canonical X (contract_to_value c); v = canonical X (contract_to_value d)
     in u \<noteq> v \<and> sha256_hex X u = sha256_hex X v)"
proof (cases "canonical X (contract_to_value c) = canonical X (contract_to_value d)")
  case True
  have "sorted_json (contract_to_value c) = sorted_json (contract_to_value d)"
    by (rule json_text_laws.canonical_inj [OF assms(1) contract_to_value_valid contract_to_value_valid True])
  then show ?thesis using contract_to_value_inj by blast
next
  case False
  then show ?thesis using assms(2) by (simp add: contract_sha256_def canonical_value_sha256_def)
qed

lemma sample_digest_collision:
  "contract_sha256 ref sample_draft = contract_sha256 ref (sample_draft\<lparr>sc_mission_id := ''missiox''\<rparr>)"
  by code_simp

text \<open>An instance: the stand-in digest collides on two drafts, whose texts differ.\<close>

theorem contract_digest_binding_witness:
  "sample_draft \<noteq> sample_draft\<lparr>sc_mission_id := ''missiox''\<rparr> \<and>
   (let u = canonical ref (contract_to_value sample_draft);
        v = canonical ref (contract_to_value (sample_draft\<lparr>sc_mission_id := ''missiox''\<rparr>))
     in u \<noteq> v \<and> sha256_hex ref u = sha256_hex ref v)"
proof -
  have "sample_draft \<noteq> sample_draft\<lparr>sc_mission_id := ''missiox''\<rparr>" by (simp add: sample_draft_def)
  with contract_digest_binding [OF ref_text.json_text_laws_axioms sample_digest_collision] show ?thesis by blast
qed

lemma semantic_dispatch_identity_inj:
  assumes "sorted_json (semantic_dispatch_identity c t) = sorted_json (semantic_dispatch_identity d u)"
  shows "t = u \<and> c\<lparr>sc_semantic_dispatch_key := k\<rparr> = d\<lparr>sc_semantic_dispatch_key := k\<rparr>"
proof -
  note eq = object_values_eq [OF assms [unfolded semantic_dispatch_identity_def]]
  show ?thesis using eq by (cases c; cases d) simp
qed

text \<open>
  The semantic dispatch digest binds the task and every field of the contract except the
  dispatch key itself, up to a collision of the hash function.
\<close>

theorem semantic_dispatch_binding:
  assumes "json_text_laws X" "semantic_dispatch_sha256 X c t = semantic_dispatch_sha256 X d u"
  shows "(t = u \<and> c = d\<lparr>sc_semantic_dispatch_key := sc_semantic_dispatch_key c\<rparr>) \<or>
    (let x = canonical X (semantic_dispatch_identity c t); y = canonical X (semantic_dispatch_identity d u)
     in x \<noteq> y \<and> sha256_hex X x = sha256_hex X y)"
proof (cases "canonical X (semantic_dispatch_identity c t) = canonical X (semantic_dispatch_identity d u)")
  case True
  have "sorted_json (semantic_dispatch_identity c t) = sorted_json (semantic_dispatch_identity d u)"
    by (rule json_text_laws.canonical_inj
        [OF assms(1) semantic_dispatch_identity_valid semantic_dispatch_identity_valid True])
  then have "t = u \<and> c\<lparr>sc_semantic_dispatch_key := sc_semantic_dispatch_key c\<rparr> =
      d\<lparr>sc_semantic_dispatch_key := sc_semantic_dispatch_key c\<rparr>"
    by (rule semantic_dispatch_identity_inj)
  then show ?thesis by (cases c) simp
next
  case False
  then show ?thesis using assms(2) by (simp add: semantic_dispatch_sha256_def canonical_value_sha256_def)
qed

text \<open>An instance: the sample contract and its draft, which differ in the key only.\<close>

theorem semantic_dispatch_binding_witness:
  "(''t1'' = ''t1'' \<and> sample_contract = sample_draft\<lparr>sc_semantic_dispatch_key := sc_semantic_dispatch_key sample_contract\<rparr>) \<or>
    (let x = canonical ref (semantic_dispatch_identity sample_contract ''t1'');
         y = canonical ref (semantic_dispatch_identity sample_draft ''t1'')
     in x \<noteq> y \<and> sha256_hex ref x = sha256_hex ref y)"
proof (rule semantic_dispatch_binding [OF ref_text.json_text_laws_axioms])
  show "semantic_dispatch_sha256 ref sample_contract ''t1'' = semantic_dispatch_sha256 ref sample_draft ''t1''"
    by (simp add: sample_contract_def semantic_dispatch_sha256_def semantic_dispatch_identity_def)
qed

section \<open>Polling\<close>

text \<open>
  Claiming a polling task moves its start to the first instant after now on the grid its start
  time and its interval span: a positive number of steps ahead, strictly after now, and no earlier
  such instant exists. Nothing else of the task changes.
\<close>

theorem polling_next_start:
  assumes "chrono_laws X" "advance_polling_start X t now = Some t'"
  shows "\<exists>step. step = nanos (min (uint (poll_seconds (ts_poll_interval t))) (2 ^ 63 - 1)) \<and> 0 < step \<and>
    t' = t\<lparr>ts_start_at := ts_start_at t'\<rparr> \<and> now < ts_start_at t' \<and>
    (\<exists>k\<ge>1. ts_start_at t' = ts_start_at t + int k * step) \<and>
    (\<forall>m\<ge>1. now < ts_start_at t + int m * step \<longrightarrow> ts_start_at t' \<le> ts_start_at t + int m * step)"
proof -
  obtain step n where r: "poll_step X (ts_poll_interval t) = Some step" "0 < step"
    "t' = t\<lparr>ts_start_at := n\<rparr>" "now < n" "\<exists>k\<ge>1. n = ts_start_at t + int k * step"
    "\<forall>m. now < ts_start_at t + int m * step \<longrightarrow> 1 \<le> m \<longrightarrow> n \<le> ts_start_at t + int m * step"
    using chrono_laws.advance_polling_start_result [OF assms] by blast
  have "step = nanos (min (uint (poll_seconds (ts_poll_interval t))) (2 ^ 63 - 1))"
    using chrono_laws.seconds_exact [OF assms(1)] r(1) by (simp add: poll_step_def)
  with r show ?thesis by (intro exI [of _ step]) auto
qed

lemma sample_poll_seconds: "poll_seconds (ts_poll_interval sample_polling_task) = 90"
  by (simp add: sample_polling_task_def poll_seconds_def saturating_add_def saturating_mul_def task_step_default_def)

lemma sample_poll_step: "poll_step ref (ts_poll_interval sample_polling_task) = Some 90000000000"
  by (simp add: poll_step_def sample_poll_seconds reference_externals_def nanos_def)

lemma sample_advance:
  "advance_polling_start ref sample_polling_task 100000000000 =
     Some (sample_polling_task\<lparr>ts_start_at := 180000000000\<rparr>)"
  unfolding advance_polling_start_def sample_poll_step
  by (simp add: sample_polling_task_def task_step_default_def reference_externals_def utc_in_range_def
      poll_until.simps)

text \<open>An instance: polling every 90 seconds from 0, claimed at 100 seconds, starts at 180.\<close>

theorem polling_next_start_witness:
  "\<exists>t'. advance_polling_start ref sample_polling_task 100000000000 = Some t' \<and> 100000000000 < ts_start_at t'"
  using polling_next_start [OF ref_chrono.chrono_laws_axioms sample_advance] sample_advance by auto

text \<open>
  C38: The polling loop ends: when chrono can represent the interval and every instant the loop
  passes, claiming a polling task returns.
\<close>

theorem polling_terminates:
  assumes "chrono_laws X" "poll_step X (ts_poll_interval t) = Some step"
    and "\<And>u. ts_start_at t \<le> u \<Longrightarrow> u \<le> max now (ts_start_at t) \<Longrightarrow> datetime_add X u step \<noteq> None"
  shows "\<exists>t'. advance_polling_start X t now = Some t'"
proof -
  obtain nx where nx: "datetime_add X (ts_start_at t) step = Some nx" using assms(3) by fastforce
  have pos: "0 < step" using chrono_laws.poll_step_pos [OF assms(1,2)] .
  have "nx = ts_start_at t + step" using chrono_laws.add_exact [OF assms(1) nx] .
  then have "\<And>u. nx \<le> u \<Longrightarrow> u \<le> now \<Longrightarrow> datetime_add X u step \<noteq> None" using assms(3) pos by simp
  then obtain r where "poll_until X nx step now = Some r"
    using chrono_laws.poll_until_total [OF assms(1) pos] by blast
  with assms(2) nx show ?thesis by (simp add: advance_polling_start_def)
qed

text \<open>Witness of C38.\<close>

theorem polling_terminates_witness:
  "\<exists>t'. advance_polling_start ref sample_polling_task 1000000000000 = Some t'"
proof (rule polling_terminates [OF ref_chrono.chrono_laws_axioms sample_poll_step])
  fix u assume "ts_start_at sample_polling_task \<le> u" "u \<le> max 1000000000000 (ts_start_at sample_polling_task)"
  then show "datetime_add ref u 90000000000 \<noteq> None"
    by (simp add: sample_polling_task_def task_step_default_def reference_externals_def utc_in_range_def)
qed

section \<open>Patches\<close>

text \<open>
  Patching a list of tasks keeps every patched task and orders the plan: the steps are numbered
  1 to n, the tasks the patches addressed come first in the order they were requested, and tasks
  of the same rank keep their relative order.
\<close>

theorem patch_list_order:
  assumes "patch_task_list p patches gens now = Inr p'"
  shows "\<exists>patched requested. patch_each (tp_detailed_tasks p) [] (zip patches gens) now = Inr (patched, requested) \<and>
    map ts_step (tp_detailed_tasks p') = map (\<lambda>i. of_nat i + 1) [0..<length patched] \<and>
    sorted (map (requested_rank requested) (tp_detailed_tasks p')) \<and>
    (\<forall>k. map (\<lambda>t. t\<lparr>ts_step := 0\<rparr>) (filter (\<lambda>t. requested_rank requested t = k) (tp_detailed_tasks p')) =
         map (\<lambda>t. t\<lparr>ts_step := 0\<rparr>) (filter (\<lambda>t. requested_rank requested t = k) patched))"
proof -
  from assms obtain ts rs where each: "patch_each (tp_detailed_tasks p) [] (zip patches gens) now = Inr (ts, rs)"
    and p': "tp_detailed_tasks p' = renumber (sort_key (requested_rank rs) ts)"
    by (rule patch_task_list_shape)
  let ?s = "sort_key (requested_rank rs) ts"
  have "map ts_step (renumber ?s) = map (\<lambda>i. of_nat i + 1) [0..<length ts]"
    by (rule nth_equalityI) (simp_all add: renumber_nth)
  moreover have "sorted (map (requested_rank rs) (renumber ?s))" by (simp add: map_renumber)
  moreover have "map (\<lambda>t. t\<lparr>ts_step := 0\<rparr>) (filter (\<lambda>t. requested_rank rs t = k) (renumber ?s)) =
      map (\<lambda>t. t\<lparr>ts_step := 0\<rparr>) (filter (\<lambda>t. requested_rank rs t = k) ts)" for k
    using filter_renumber [of "\<lambda>t. requested_rank rs t = k" ?s] by (simp add: sort_key_stable)
  ultimately show ?thesis using each p' by auto
qed

text \<open>An instance: a new task, then the existing one, which is moved to the front.\<close>

theorem patch_list_order_witness:
  "\<exists>p'. patch_task_list sample_plan [empty_patch\<lparr>sp_task_id := Some ''c1''\<rparr>, empty_patch\<lparr>sp_task_id := Some ''t1''\<rparr>]
      [''g1'', ''g2''] 5 = Inr p' \<and> map ts_step (tp_detailed_tasks p') = [1, 2]"
proof -
  have "\<exists>p'. patch_task_list sample_plan [empty_patch\<lparr>sp_task_id := Some ''c1''\<rparr>, empty_patch\<lparr>sp_task_id := Some ''t1''\<rparr>]
      [''g1'', ''g2''] 5 = Inr p' \<and> length (tp_detailed_tasks p') = 2"
    by (simp add: patch_task_list_def patch_into_def sample_plan_def sample_task_def empty_patch_def
        contract_without_id_def nonblank_def trimmed_nonblank_def trim_samples apply_task_patch_def
        changes_claimed_identity_def new_task_def task_step_default_def Let_def and_then_def)
  then obtain p' where p': "patch_task_list sample_plan
      [empty_patch\<lparr>sp_task_id := Some ''c1''\<rparr>, empty_patch\<lparr>sp_task_id := Some ''t1''\<rparr>] [''g1'', ''g2''] 5 = Inr p'"
    and len: "length (tp_detailed_tasks p') = 2" by blast
  from patch_list_order [OF p'] obtain n where "map ts_step (tp_detailed_tasks p') = map (\<lambda>i. of_nat i + 1) [0..<n]"
    by blast
  moreover from arg_cong [OF this, of length] have "n = 2" using len by simp
  ultimately show ?thesis using p' by (simp add: numeral_2_eq_2)
qed

text \<open>
  A patch addresses a task by its trimmed identity but stores the identity as given: with
  surrounding white space the task it creates is not found again, and every repetition of the same
  patch creates another task.
\<close>

theorem padded_patch_duplicates:
  assumes "\<not> blank tid" "trim tid \<noteq> tid" "\<forall>t\<in>set (tp_detailed_tasks p). ts_task_id t \<noteq> trim tid"
  shows "\<exists>p1 p2. patch_one_task p (empty_patch\<lparr>sp_task_id := Some tid\<rparr>) g now = Inr p1 \<and>
    length (tp_detailed_tasks p1) = length (tp_detailed_tasks p) + 1 \<and>
    patch_one_task p1 (empty_patch\<lparr>sp_task_id := Some tid\<rparr>) g now = Inr p2 \<and>
    length (tp_detailed_tasks p2) = length (tp_detailed_tasks p) + 2"
proof -
  let ?patch = "empty_patch\<lparr>sp_task_id := Some tid\<rparr>"
  have step: "\<exists>q' t. patch_one_task q ?patch g now = Inr q' \<and> tp_detailed_tasks q' = tp_detailed_tasks q @ [t] \<and>
      ts_task_id t = tid" if "\<forall>t\<in>set (tp_detailed_tasks q). ts_task_id t \<noteq> trim tid" for q
  proof -
    have pos: "position (\<lambda>t. ts_task_id t = trim tid) (tp_detailed_tasks q) = None"
      using that by (simp add: position_None_iff)
    let ?new = "new_task (trim tid) (next_step_number ?patch (tp_detailed_tasks q)) now"
    have id: "trimmed_nonblank (sp_task_id ?patch) = Some (trim tid)" "nonblank (sp_task_id ?patch) = Some tid"
      using assms(1) by (simp_all add: trimmed_nonblank_def nonblank_def)
    have loc: "locate_one_task q ?patch g now = (tp_detailed_tasks q @ [?new], length (tp_detailed_tasks q))"
      unfolding locate_one_task_def Let_def id by (simp add: pos)
    have "apply_task_patch ?new ?patch = Inr (?new\<lparr>ts_task_id := tid\<rparr>)"
      unfolding apply_task_patch_def changes_claimed_identity_def patch_timing_def patch_status_def
        patch_texts_def patch_identity_def Let_def id
      by (simp add: empty_patch_def nonblank_def)
    then show ?thesis
      unfolding patch_one_task_def loc contract_without_id_def id by (simp add: Let_def)
  qed
  obtain p1 t where p1: "patch_one_task p ?patch g now = Inr p1" "tp_detailed_tasks p1 = tp_detailed_tasks p @ [t]"
    "ts_task_id t = tid" using step [of p] assms(3) by blast
  then have "\<forall>t\<in>set (tp_detailed_tasks p1). ts_task_id t \<noteq> trim tid" using assms(2,3) by auto
  then obtain p2 u where "patch_one_task p1 ?patch g now = Inr p2" "tp_detailed_tasks p2 = tp_detailed_tasks p1 @ [u]"
    using step by blast
  with p1 show ?thesis by auto
qed

text \<open>An instance.\<close>

theorem padded_patch_duplicates_witness:
  "\<exists>p1 p2. patch_one_task sample_plan (empty_patch\<lparr>sp_task_id := Some '' c1 ''\<rparr>) ''g'' 5 = Inr p1 \<and>
    length (tp_detailed_tasks p1) = 2 \<and>
    patch_one_task p1 (empty_patch\<lparr>sp_task_id := Some '' c1 ''\<rparr>) ''g'' 5 = Inr p2 \<and>
    length (tp_detailed_tasks p2) = 3"
proof -
  have t: "trim '' c1 '' = ''c1''" by code_simp
  show ?thesis
    using padded_patch_duplicates [of "'' c1 ''" sample_plan "''g''" 5]
    by (simp add: t sample_plan_def sample_task_def numeral_2_eq_2 numeral_3_eq_3)
qed

end
