(* ===== verification/Session_Lifecycle.thy ===== *)
theory Session_Lifecycle
  imports Task_Patching Event_Sourcing
begin

text \<open>
  The session aggregate (\<open>SessionAggregate\<close> of \<open>lifecycle/src/session.rs\<close>): commands decided
  into events, events applied to the state, the replay of an event stream and the projection a
  query returns. Where chrono may panic while a polling task moves on, the result is
  \<open>Panicked\<close>; the errors of a replay are the strings the code returns, or its panic.
\<close>

section \<open>The aggregate, its commands and its events\<close>

record session_aggregate =
  ss_session_id :: string
  ss_state :: session_state
  ss_parent_id :: "string option"
  ss_task_plan :: task_plan
  ss_pending_user_inputs :: "string list"
  ss_cancelled :: bool
  ss_runtime_ids :: "string list"
  ss_active_runtime_id :: "string option"

definition session_new :: "string \<Rightarrow> session_aggregate" where
  "session_new session_id =
     \<lparr>ss_session_id = session_id, ss_state = SCreated, ss_parent_id = None,
      ss_task_plan = task_plan_default, ss_pending_user_inputs = [], ss_cancelled = False,
      ss_runtime_ids = [], ss_active_runtime_id = None\<rparr>"

datatype session_command =
    CreateSession task_plan
  | SubmitUserInput
  | StartUserTurn
  | QueueUserInputWhileBusy string
  | ConsumeQueuedUserInputs
  | CmdRuntimeStarted string
  | CmdRuntimeRetried string string
  | CmdRuntimeCompleted string
  | CmdRuntimeFailed string
  | CmdRuntimeCancelled string
  | CmdRuntimeEnded string
  | ApplyRuntimeState session_state
  | InterruptSession
  | CancelSession
  | RegisterChildSession string
  | ForkSession string
  | ApplyTaskStatus task_plan
  | ApplyTaskPatch session_task_patch string datetime
  | ApplyTaskPatches "session_task_patch list" "string list" datetime
  | ApplyTaskPlanPatch session_task_plan_patch
  | StartScheduledTask string string start_condition datetime
  | ClaimScheduledChildTask task_plan task_dispatch_claim datetime
  | ConvergeAcknowledgedChildCallback acknowledged_child_callback_identity
  | DeleteSession

datatype session_event =
    SessionCreated task_plan
  | UserInputAccepted session_state
  | UserTurnStarted session_state
  | UserInputQueued string
  | QueuedUserInputsConsumed "string list"
  | EvRuntimeStarted string session_state
  | EvRuntimeCompleted string session_state
  | EvRuntimeFailed string session_state
  | EvRuntimeCancelled string session_state
  | EvRuntimeEnded string session_state
  | RuntimeStateApplied session_state
  | SessionInterrupted session_state task_plan
  | SessionCancelled session_state
  | ChildSessionRegistered string session_state
  | SessionForked string
  | TaskPlanChanged task_plan
  | ScheduledTaskClaimed task_plan string string start_condition session_state
  | ScheduledChildTaskClaimed task_plan task_dispatch_claim datetime session_state
  | AcknowledgedChildCallbackConverged acknowledged_child_callback_identity task_plan session_state
  | SessionDeleted

section \<open>Acknowledged child callbacks\<close>

text \<open>A task whose dispatch claim the acknowledgment names.\<close>

definition acknowledges :: "acknowledged_child_callback_identity \<Rightarrow> task_step \<Rightarrow> bool" where
  "acknowledges ack t =
     (case ts_dispatch_claim t of
        None \<Rightarrow> False
      | Some claim \<Rightarrow> dc_task_id claim = ts_task_id t \<and> ts_sub_session_id t = ak_child_session_id ack \<and>
          matches_dispatch_claim ack claim)"

definition mentions_child :: "acknowledged_child_callback_identity \<Rightarrow> task_step \<Rightarrow> bool" where
  "mentions_child ack t =
     (ts_sub_session_id t = ak_child_session_id ack \<or>
      (case ts_dispatch_claim t of
         None \<Rightarrow> False | Some claim \<Rightarrow> dc_child_session_id claim = ak_child_session_id ack))"

definition acknowledged_child_callback_task_index ::
  "session_aggregate \<Rightarrow> acknowledged_child_callback_identity \<Rightarrow> (string, nat) result" where
  "acknowledged_child_callback_task_index s ack =
     and_then (validate_ack ack) (\<lambda>_.
     let tasks = tp_detailed_tasks (ss_task_plan s);
         matching = filter (\<lambda>i. acknowledges ack (tasks ! i)) [0..<length tasks]
     in case matching of
          [i] \<Rightarrow>
            (if ts_status (tasks ! i) \<in> {Doing, Done, Archived} then Inr i
             else Inl ''ACKNOWLEDGED_CHILD_CALLBACK_TASK_STATUS_CONFLICT'')
        | [] \<Rightarrow>
            (if list_ex (mentions_child ack) tasks
             then Inl ''ACKNOWLEDGED_CHILD_CALLBACK_DISPATCH_CLAIM_MISMATCH''
             else Inl ''ACKNOWLEDGED_CHILD_CALLBACK_DISPATCH_CLAIM_MISSING'')
        | _ \<Rightarrow> Inl ''ACKNOWLEDGED_CHILD_CALLBACK_DISPATCH_CLAIM_AMBIGUOUS'')"

definition validate_acknowledged_child_callback ::
  "session_aggregate \<Rightarrow> acknowledged_child_callback_identity \<Rightarrow> (string, unit) result" where
  "validate_acknowledged_child_callback s ack =
     and_then (acknowledged_child_callback_task_index s ack) (\<lambda>_. Inr ())"

section \<open>Deciding commands\<close>

definition runtime_terminal_matches :: "session_aggregate \<Rightarrow> string \<Rightarrow> session_state \<Rightarrow> bool" where
  "runtime_terminal_matches s runtime_id next =
     (if blank runtime_id then False
      else case ss_active_runtime_id s of
             Some active \<Rightarrow> active = runtime_id
           | None \<Rightarrow> runtime_id \<in> set (ss_runtime_ids s) \<and> ss_state s = next)"

definition runtime_state_refused :: "session_aggregate \<Rightarrow> session_state \<Rightarrow> bool" where
  "runtime_state_refused s next =
     (let previous = ss_state s;
          active = (ss_active_runtime_id s \<noteq> None);
          active_runtime_state_transition =
            (active \<and> previous \<in> {SRunning, SPaused} \<and> next \<in> {SRunning, SPaused});
          execution_terminal_transition =
            (active \<and> previous \<in> {SRunning, SPaused} \<and> session_is_terminal next)
      in (active \<and> \<not> active_runtime_state_transition \<and> \<not> execution_terminal_transition) \<or>
         \<not> session_can_transition_to previous next)"

definition interrupt_tasks :: "session_state \<Rightarrow> task_plan \<Rightarrow> task_plan" where
  "interrupt_tasks previous p =
     (if session_is_terminal previous then p
      else p\<lparr>tp_detailed_tasks := map (\<lambda>t. if ts_status t = Doing then t\<lparr>ts_status := WaitingUser\<rparr> else t)
             (tp_detailed_tasks p)\<rparr>)"

text \<open>\<open>if PollingTask { task.advance_polling_start(now) }\<close>; a panic of chrono is \<open>Panicked\<close>.\<close>

definition advance_if_polling :: "externals \<Rightarrow> task_step \<Rightarrow> datetime \<Rightarrow> (session_failure, task_step) result" where
  "advance_if_polling X t now =
     (if ts_start_condition t = PollingTask
      then (case advance_polling_start X t now of None \<Rightarrow> Inl Panicked | Some t' \<Rightarrow> Inr t')
      else Inr t)"

definition set_task :: "task_plan \<Rightarrow> nat \<Rightarrow> task_step \<Rightarrow> task_plan" where
  "set_task p i t = p\<lparr>tp_detailed_tasks := (tp_detailed_tasks p)[i := t]\<rparr>"

definition startable :: "task_plan \<Rightarrow> string \<Rightarrow> string \<Rightarrow> start_condition \<Rightarrow> datetime \<Rightarrow> task_step \<Rightarrow> bool" where
  "startable p task_id task_summary condition now t =
     (ts_task_id t = task_id \<and> ts_start_condition t = condition \<and>
      display_summary t (tp_plan_summary p) = task_summary \<and> scheduler_eligible t now)"

definition start_scheduled_task ::
  "externals \<Rightarrow> session_aggregate \<Rightarrow> string \<Rightarrow> string \<Rightarrow> start_condition \<Rightarrow> datetime \<Rightarrow>
   (session_failure, session_event) result" where
  "start_scheduled_task X s task_id task_summary condition now =
     (let previous = ss_state s; p = ss_task_plan s
      in case position (startable p task_id task_summary condition now) (tp_detailed_tasks p) of
           None \<Rightarrow> Inl (reject_transition previous previous)
         | Some i \<Rightarrow>
             and_then (reject_if (\<not> session_can_transition_to previous SRunning)
                 (reject_transition previous SRunning)) (\<lambda>_.
             let t = tp_detailed_tasks p ! i
             in and_then (advance_if_polling X (t\<lparr>ts_status := Doing\<rparr>) now) (\<lambda>t'.
                  Inr (ScheduledTaskClaimed (set_task p i t') (ts_task_id t)
                    (display_summary t (tp_plan_summary p)) (ts_start_condition t) SRunning))))"

text \<open>The identities a dispatch claim must have for the task it claims.\<close>

definition claim_conflicts ::
  "externals \<Rightarrow> task_plan \<Rightarrow> task_step \<Rightarrow> task_scheduling_contract \<Rightarrow> task_dispatch_claim \<Rightarrow> bool" where
  "claim_conflicts X p t contract claim =
     (ts_dispatch_claim t \<noteq> None \<or> ts_sub_session_id t \<noteq> [] \<or>
      \<not> is_ok (validate_contract contract (ts_task_id t)) \<or>
      sc_mission_id contract \<noteq> dc_mission_id claim \<or>
      sc_semantic_dispatch_key contract \<noteq> dc_semantic_dispatch_key claim \<or>
      semantic_dispatch_sha256 X contract (ts_task_id t) \<noteq> dc_semantic_dispatch_key claim \<or>
      sc_authority_mission_revision_sha256 contract \<noteq> dc_authority_mission_revision_sha256 claim \<or>
      sc_delegated_input_sha256 contract \<noteq> dc_delegated_input_sha256 claim \<or>
      sc_task_context_capsule_semantic_sha256 contract \<noteq> dc_task_context_capsule_semantic_sha256 claim \<or>
      task_plan_ready_set_sha256 X p \<noteq> dc_parent_task_plan_sha256 claim \<or>
      contract_sha256 X contract \<noteq> dc_task_scheduling_contract_sha256 claim \<or>
      scope_claim_sha256 X contract \<noteq> dc_scope_claim_sha256 claim)"

definition claim_scheduled_child_task ::
  "externals \<Rightarrow> session_aggregate \<Rightarrow> task_plan \<Rightarrow> task_dispatch_claim \<Rightarrow> datetime \<Rightarrow>
   (session_failure, session_event) result" where
  "claim_scheduled_child_task X s expected claim now =
     (let previous = ss_state s; p = ss_task_plan s
      in and_then (reject_if (\<not> is_ok (validate_claim claim) \<or> p \<noteq> expected \<or>
             \<not> scheduling_identities_valid p) (reject_transition previous previous)) (\<lambda>_.
         case position (\<lambda>t. ts_task_id t = dc_task_id claim \<and> direct_dispatch_eligible t now)
             (tp_detailed_tasks p) of
           None \<Rightarrow> Inl (reject_transition previous previous)
         | Some i \<Rightarrow>
             (let t = tp_detailed_tasks p ! i
              in case ts_scheduling_contract t of
                   None \<Rightarrow> Inl (reject_transition previous previous)
                 | Some contract \<Rightarrow>
                     and_then (reject_if (claim_conflicts X p t contract claim)
                         (reject_transition previous previous)) (\<lambda>_.
                     and_then (reject_if (\<not> session_can_transition_to previous SRunning)
                         (reject_transition previous SRunning)) (\<lambda>_.
                     and_then (advance_if_polling X
                         (t\<lparr>ts_status := Doing, ts_sub_session_id := dc_child_session_id claim,
                            ts_dispatch_claim := Some claim\<rparr>) now) (\<lambda>t'.
                       Inr (ScheduledChildTaskClaimed (set_task p i t') claim now SRunning)))))))"

definition converge_acknowledged_child_callback ::
  "session_aggregate \<Rightarrow> acknowledged_child_callback_identity \<Rightarrow> (session_failure, session_event) result" where
  "converge_acknowledged_child_callback s ack =
     (let previous = ss_state s; p = ss_task_plan s
      in case acknowledged_child_callback_task_index s ack of
           Inl _ \<Rightarrow> Inl (reject_transition previous previous)
         | Inr i \<Rightarrow>
             (let t = tp_detailed_tasks p ! i
              in and_then (case ts_status t of
                     Doing \<Rightarrow> Inr (t\<lparr>ts_status := Done\<rparr>)
                   | Done \<Rightarrow> Inr t
                   | Archived \<Rightarrow> Inr t
                   | _ \<Rightarrow> Inl (reject_transition previous previous)) (\<lambda>t'.
                 let p' = set_task p i t';
                     all_terminal = list_all (\<lambda>u. ts_status u \<in> {Done, Archived}) (tp_detailed_tasks p');
                     state = (if previous = SRunning \<and> ss_active_runtime_id s = None \<and> all_terminal
                              then SCompleted else previous)
                 in Inr (AcknowledgedChildCallbackConverged ack p' state))))"

fun session_decide ::
  "externals \<Rightarrow> session_aggregate \<Rightarrow> session_command \<Rightarrow> (session_failure, session_event) result" where
  "session_decide X s (CreateSession p) = Inr (SessionCreated p)"
| "session_decide X s (ApplyRuntimeState next) =
     and_then (reject_if (runtime_state_refused s next) (reject_transition (ss_state s) next))
       (\<lambda>_. Inr (RuntimeStateApplied next))"
| "session_decide X s SubmitUserInput =
     Inr (UserInputAccepted (if session_is_terminal (ss_state s) then SCreated else ss_state s))"
| "session_decide X s StartUserTurn =
     and_then (reject_if (ss_state s \<in> {SRunning, SPaused}) (reject_transition (ss_state s) SRunning))
       (\<lambda>_. Inr (UserTurnStarted SRunning))"
| "session_decide X s (QueueUserInputWhileBusy input) =
     and_then (reject_if (ss_state s \<notin> {SRunning, SPaused} \<or> blank input)
         (reject_transition (ss_state s) (ss_state s)))
       (\<lambda>_. Inr (UserInputQueued (trim input)))"
| "session_decide X s ConsumeQueuedUserInputs = Inr (QueuedUserInputsConsumed (ss_pending_user_inputs s))"
| "session_decide X s (CmdRuntimeStarted rid) =
     and_then (reject_if (blank rid \<or>
           (case ss_active_runtime_id s of Some active \<Rightarrow> active \<noteq> rid | None \<Rightarrow> False) \<or>
           \<not> session_can_transition_to (ss_state s) SRunning) (reject_transition (ss_state s) SRunning))
       (\<lambda>_. Inr (EvRuntimeStarted rid SRunning))"
| "session_decide X s (CmdRuntimeRetried rid fallback_from_id) =
     and_then (reject_if (ss_state s \<noteq> SFailed \<or> blank rid \<or> blank fallback_from_id \<or>
           rid = fallback_from_id \<or> ss_active_runtime_id s \<noteq> None \<or>
           (ss_runtime_ids s = [] \<or> last (ss_runtime_ids s) \<noteq> fallback_from_id))
         (reject_transition (ss_state s) SRunning))
       (\<lambda>_. Inr (EvRuntimeStarted rid SRunning))"
| "session_decide X s (CmdRuntimeCompleted rid) =
     and_then (reject_if (\<not> runtime_terminal_matches s rid SCompleted \<or>
           \<not> session_can_transition_to (ss_state s) SCompleted) (reject_transition (ss_state s) SCompleted))
       (\<lambda>_. Inr (EvRuntimeCompleted rid SCompleted))"
| "session_decide X s (CmdRuntimeFailed rid) =
     and_then (reject_if (\<not> runtime_terminal_matches s rid SFailed \<or>
           (ss_state s \<noteq> SFailed \<and> \<not> session_can_transition_to (ss_state s) SFailed))
         (reject_transition (ss_state s) SFailed))
       (\<lambda>_. Inr (EvRuntimeFailed rid SFailed))"
| "session_decide X s (CmdRuntimeCancelled rid) =
     and_then (reject_if (\<not> runtime_terminal_matches s rid SCancelled \<or>
           (ss_state s \<noteq> SCancelled \<and> \<not> session_can_transition_to (ss_state s) SCancelled))
         (reject_transition (ss_state s) SCancelled))
       (\<lambda>_. Inr (EvRuntimeCancelled rid SCancelled))"
| "session_decide X s (CmdRuntimeEnded rid) =
     and_then (reject_if (blank rid \<or> ss_active_runtime_id s \<noteq> Some rid \<or> ss_state s \<notin> {SRunning, SPaused})
         (reject_transition (ss_state s) (ss_state s)))
       (\<lambda>_. Inr (EvRuntimeEnded rid (ss_state s)))"
| "session_decide X s InterruptSession =
     Inr (SessionInterrupted (if session_is_terminal (ss_state s) then ss_state s else SInterrupted)
       (interrupt_tasks (ss_state s) (ss_task_plan s)))"
| "session_decide X s CancelSession = Inr (SessionCancelled SCancelled)"
| "session_decide X s (RegisterChildSession parent_id) =
     and_then (reject_if (\<not> session_can_transition_to (ss_state s) SRunning)
         (reject_transition (ss_state s) SRunning))
       (\<lambda>_. Inr (ChildSessionRegistered parent_id SRunning))"
| "session_decide X s (ForkSession parent_id) = Inr (SessionForked parent_id)"
| "session_decide X s (ApplyTaskStatus p) = Inr (TaskPlanChanged p)"
| "session_decide X s (ApplyTaskPatch patch generated_task_id now) =
     and_then (patch_one_task (ss_task_plan s) patch generated_task_id now) (\<lambda>p. Inr (TaskPlanChanged p))"
| "session_decide X s (ApplyTaskPatches tasks generated_task_ids now) =
     and_then (patch_task_list (ss_task_plan s) tasks generated_task_ids now) (\<lambda>p. Inr (TaskPlanChanged p))"
| "session_decide X s (ApplyTaskPlanPatch patch) =
     Inr (TaskPlanChanged (case apply_task_plan_patch (ss_task_plan s) (ss_state s) patch of
       Inl _ \<Rightarrow> ss_task_plan s | Inr p \<Rightarrow> p))"
| "session_decide X s (StartScheduledTask task_id task_summary condition now) =
     start_scheduled_task X s task_id task_summary condition now"
| "session_decide X s (ClaimScheduledChildTask expected claim now) =
     claim_scheduled_child_task X s expected claim now"
| "session_decide X s (ConvergeAcknowledgedChildCallback ack) = converge_acknowledged_child_callback s ack"
| "session_decide X s DeleteSession = Inr SessionDeleted"

section \<open>Applying events\<close>

fun session_apply :: "session_aggregate \<Rightarrow> session_event \<Rightarrow> session_aggregate" where
  "session_apply s (SessionCreated p) = s\<lparr>ss_task_plan := p\<rparr>"
| "session_apply s SessionDeleted = s"
| "session_apply s (UserInputAccepted state) = s\<lparr>ss_state := state, ss_cancelled := False\<rparr>"
| "session_apply s (UserTurnStarted state) = s\<lparr>ss_state := state, ss_cancelled := False\<rparr>"
| "session_apply s (EvRuntimeStarted rid state) =
     s\<lparr>ss_state := state, ss_runtime_ids := push_unique rid (ss_runtime_ids s), ss_active_runtime_id := Some rid\<rparr>"
| "session_apply s (EvRuntimeCompleted rid state) =
     s\<lparr>ss_state := state, ss_runtime_ids := push_unique rid (ss_runtime_ids s), ss_active_runtime_id := None\<rparr>"
| "session_apply s (EvRuntimeFailed rid state) =
     s\<lparr>ss_state := state, ss_runtime_ids := push_unique rid (ss_runtime_ids s), ss_active_runtime_id := None\<rparr>"
| "session_apply s (EvRuntimeCancelled rid state) =
     s\<lparr>ss_state := state, ss_runtime_ids := push_unique rid (ss_runtime_ids s), ss_active_runtime_id := None,
       ss_cancelled := True, ss_pending_user_inputs := []\<rparr>"
| "session_apply s (EvRuntimeEnded rid state) =
     s\<lparr>ss_state := state, ss_runtime_ids := push_unique rid (ss_runtime_ids s), ss_active_runtime_id := None\<rparr>"
| "session_apply s (RuntimeStateApplied state) =
     s\<lparr>ss_state := state,
       ss_active_runtime_id := (if session_is_terminal state then None else ss_active_runtime_id s)\<rparr>"
| "session_apply s (SessionInterrupted state p) =
     s\<lparr>ss_state := state, ss_task_plan := p, ss_pending_user_inputs := [], ss_active_runtime_id := None\<rparr>"
| "session_apply s (SessionCancelled state) =
     s\<lparr>ss_state := state, ss_cancelled := True, ss_pending_user_inputs := [], ss_active_runtime_id := None\<rparr>"
| "session_apply s (ChildSessionRegistered parent_id state) =
     s\<lparr>ss_parent_id := Some parent_id, ss_state := state\<rparr>"
| "session_apply s (SessionForked parent_id) = s\<lparr>ss_parent_id := Some parent_id\<rparr>"
| "session_apply s (TaskPlanChanged p) = s\<lparr>ss_task_plan := p\<rparr>"
| "session_apply s (UserInputQueued input) =
     s\<lparr>ss_pending_user_inputs := ss_pending_user_inputs s @ [input], ss_cancelled := False\<rparr>"
| "session_apply s (QueuedUserInputsConsumed inputs) = s\<lparr>ss_pending_user_inputs := []\<rparr>"
| "session_apply s (ScheduledTaskClaimed p task_id task_summary condition state) =
     s\<lparr>ss_task_plan := p, ss_state := state\<rparr>"
| "session_apply s (ScheduledChildTaskClaimed p claim claimed_at state) =
     s\<lparr>ss_task_plan := p, ss_state := state\<rparr>"
| "session_apply s (AcknowledgedChildCallbackConverged ack p state) =
     s\<lparr>ss_task_plan := p, ss_state := state\<rparr>"

definition session_execute ::
  "externals \<Rightarrow> session_aggregate \<Rightarrow> session_command \<Rightarrow> (session_failure, session_aggregate \<times> session_event) result" where
  "session_execute X s c = and_then (session_decide X s c) (\<lambda>e. Inr (session_apply s e, e))"

section \<open>Replaying events\<close>

datatype commit_failure = Refused string | ReplayPanicked

fun commit_failure_of :: "session_failure \<Rightarrow> commit_failure" where
  "commit_failure_of (Rejected e) = Refused (display_session_transition_error e)"
| "commit_failure_of Panicked = ReplayPanicked"

text \<open>The instant \<open>scheduled_replay_command\<close> replays the claim at; \<open>None\<close> where it returns \<open>None\<close>.\<close>

definition replay_instant ::
  "externals \<Rightarrow> task_step \<Rightarrow> task_plan \<Rightarrow> string \<Rightarrow> (commit_failure, datetime option) result" where
  "replay_instant X t result_plan task_id =
     (case ts_start_condition t of
        ScheduledTask \<Rightarrow> Inr (Some (ts_start_at t))
      | PollingTask \<Rightarrow>
          (case find (\<lambda>u. ts_task_id u = task_id) (tp_detailed_tasks result_plan) of
             None \<Rightarrow> Inr None
           | Some result_task \<Rightarrow>
               (case poll_step X (ts_poll_interval t) of
                  None \<Rightarrow> Inl ReplayPanicked
                | Some step \<Rightarrow> Inr (datetime_checked_sub X (ts_start_at result_task) step)))
      | SessionIdle \<Rightarrow> Inr (Some (min_utc X))
      | UserAction \<Rightarrow> Inr None)"

definition scheduled_replay_command ::
  "externals \<Rightarrow> session_aggregate \<Rightarrow> session_event \<Rightarrow> (commit_failure, session_command option) result" where
  "scheduled_replay_command X s e =
     (case e of
        ScheduledTaskClaimed result_plan task_id task_summary condition state \<Rightarrow>
          (case find (\<lambda>t. ts_task_id t = task_id) (tp_detailed_tasks (ss_task_plan s)) of
             None \<Rightarrow> Inr None
           | Some t \<Rightarrow>
               and_then (replay_instant X t result_plan task_id) (\<lambda>instant.
                 case instant of
                   None \<Rightarrow> Inr None
                 | Some now \<Rightarrow>
                     (let command = StartScheduledTask task_id
                            (display_summary t (tp_plan_summary (ss_task_plan s))) (ts_start_condition t) now
                      in case session_decide X s command of
                           Inl Panicked \<Rightarrow> Inl ReplayPanicked
                         | Inl _ \<Rightarrow> Inr None
                         | Inr expected \<Rightarrow> Inr (if expected = e then Some command else None))))
      | _ \<Rightarrow> Inr None)"

definition runtime_started_command :: "externals \<Rightarrow> session_aggregate \<Rightarrow> string \<Rightarrow> session_event \<Rightarrow> session_command" where
  "runtime_started_command X s rid e =
     (if session_decide X s (CmdRuntimeStarted rid) = Inr e then CmdRuntimeStarted rid
      else if ss_runtime_ids s \<noteq> [] then CmdRuntimeRetried rid (last (ss_runtime_ids s))
      else CmdRuntimeStarted rid)"

fun session_as_command ::
  "externals \<Rightarrow> session_aggregate \<Rightarrow> session_event \<Rightarrow> (commit_failure, session_command option) result" where
  "session_as_command X s (SessionCreated p) = Inr None"
| "session_as_command X s (SessionForked parent_id) = Inr None"
| "session_as_command X s (UserInputAccepted state) = Inr (Some SubmitUserInput)"
| "session_as_command X s (UserTurnStarted state) = Inr (Some StartUserTurn)"
| "session_as_command X s (UserInputQueued input) = Inr (Some (QueueUserInputWhileBusy input))"
| "session_as_command X s (QueuedUserInputsConsumed inputs) = Inr (Some ConsumeQueuedUserInputs)"
| "session_as_command X s (EvRuntimeStarted rid state) =
     Inr (Some (runtime_started_command X s rid (EvRuntimeStarted rid state)))"
| "session_as_command X s (EvRuntimeCompleted rid state) = Inr (Some (CmdRuntimeCompleted rid))"
| "session_as_command X s (EvRuntimeFailed rid state) = Inr (Some (CmdRuntimeFailed rid))"
| "session_as_command X s (EvRuntimeCancelled rid state) = Inr (Some (CmdRuntimeCancelled rid))"
| "session_as_command X s (EvRuntimeEnded rid state) = Inr (Some (CmdRuntimeEnded rid))"
| "session_as_command X s (RuntimeStateApplied state) = Inr (Some (ApplyRuntimeState state))"
| "session_as_command X s (SessionInterrupted state p) = Inr (Some InterruptSession)"
| "session_as_command X s (SessionCancelled state) = Inr (Some CancelSession)"
| "session_as_command X s (ChildSessionRegistered parent_id state) = Inr (Some (RegisterChildSession parent_id))"
| "session_as_command X s (TaskPlanChanged p) = Inr (Some (ApplyTaskStatus p))"
| "session_as_command X s (ScheduledTaskClaimed p task_id task_summary condition state) =
     and_then (scheduled_replay_command X s (ScheduledTaskClaimed p task_id task_summary condition state))
       (\<lambda>c. case c of
          Some command \<Rightarrow> Inr (Some command)
        | None \<Rightarrow> Inl (Refused ''scheduled_task_claimed does not match a canonical scheduler result''))"
| "session_as_command X s (ScheduledChildTaskClaimed p claim claimed_at state) =
     Inr (Some (ClaimScheduledChildTask (ss_task_plan s) claim claimed_at))"
| "session_as_command X s (AcknowledgedChildCallbackConverged ack p state) =
     Inr (Some (ConvergeAcknowledgedChildCallback ack))"
| "session_as_command X s SessionDeleted = Inr (Some DeleteSession)"

definition session_apply_committed ::
  "externals \<Rightarrow> session_aggregate \<Rightarrow> session_event \<Rightarrow> (commit_failure, session_aggregate) result" where
  "session_apply_committed X s e =
     and_then (reject_if (e = SessionDeleted)
         (Refused ''session_deleted cannot appear in a retained session event stream'')) (\<lambda>_.
     and_then (session_as_command X s e) (\<lambda>c.
       case c of
         None \<Rightarrow> Inl (Refused ''session creation events may only be the first session event'')
       | Some command \<Rightarrow>
           and_then (map_err commit_failure_of (session_decide X s command)) (\<lambda>expected.
           and_then (reject_if (expected \<noteq> e)
               (Refused ''session event does not match the canonical reducer result'')) (\<lambda>_.
             Inr (session_apply s e)))))"

fun creation_command :: "session_event \<Rightarrow> session_command option" where
  "creation_command (SessionCreated p) = Some (CreateSession p)"
| "creation_command (ChildSessionRegistered parent_id state) = Some (RegisterChildSession parent_id)"
| "creation_command (SessionForked parent_id) = Some (ForkSession parent_id)"
| "creation_command e = None"

definition session_replay ::
  "externals \<Rightarrow> string \<Rightarrow> session_event list \<Rightarrow> (commit_failure, session_aggregate) result" where
  "session_replay X session_id events =
     (case events of
        [] \<Rightarrow> Inl (Refused (''session '' @ session_id @ '' has no creation event''))
      | first # rest \<Rightarrow>
          (case creation_command first of
             None \<Rightarrow> Inl (Refused ''first session event is not a creation event'')
           | Some command \<Rightarrow>
               and_then (map_err commit_failure_of (session_decide X (session_new session_id) command)) (\<lambda>expected.
               and_then (reject_if (expected \<noteq> first)
                   (Refused ''session creation event does not match the canonical reducer result'')) (\<lambda>_.
               commit_all (session_apply_committed X) (session_apply (session_new session_id) first) rest))))"

section \<open>Queries\<close>

datatype session_query = SessionLifecycle

record session_projection =
  sv_session_id :: string
  sv_state :: session_state
  sv_parent_id :: "string option"
  sv_task_plan :: task_plan
  sv_pending_user_inputs :: "string list"
  sv_cancelled :: bool
  sv_runtime_ids :: "string list"
  sv_active_runtime_id :: "string option"

definition session_query_projection :: "session_aggregate \<Rightarrow> session_query \<Rightarrow> session_projection" where
  "session_query_projection s q =
     (case q of SessionLifecycle \<Rightarrow>
        \<lparr>sv_session_id = ss_session_id s, sv_state = ss_state s, sv_parent_id = ss_parent_id s,
         sv_task_plan = ss_task_plan s, sv_pending_user_inputs = ss_pending_user_inputs s,
         sv_cancelled = ss_cancelled s, sv_runtime_ids = ss_runtime_ids s,
         sv_active_runtime_id = ss_active_runtime_id s\<rparr>)"

end
