(* ===== verification/Session_Facts.thy ===== *)
theory Session_Facts
  imports Session_Lifecycle Reference_Externals
begin

text \<open>
  What holds of the session aggregate: it keeps the contract of an event-sourced aggregate, at
  most one runtime is active and only while the session runs, queued inputs are never blank,
  and every event it produces is accepted on replay (for a scheduled task: when no other task of
  the plan has its identity).
\<close>

section \<open>Committed events\<close>

lemma session_apply_committed_iff:
  "session_apply_committed X s e = Inr t \<longleftrightarrow>
   e \<noteq> SessionDeleted \<and>
   (\<exists>c. session_as_command X s e = Inr (Some c) \<and> session_decide X s c = Inr e) \<and> t = session_apply s e"
  unfolding session_apply_committed_def
  by (cases "session_as_command X s e") (auto simp: result_simps split: option.splits)

section \<open>The invariant\<close>

definition session_inv :: "session_aggregate \<Rightarrow> bool" where
  "session_inv s \<longleftrightarrow>
     (\<forall>r. ss_active_runtime_id s = Some r \<longrightarrow> r \<in> set (ss_runtime_ids s) \<and> ss_state s \<in> {SRunning, SPaused}) \<and>
     distinct (ss_runtime_ids s) \<and> (\<forall>r\<in>set (ss_runtime_ids s). \<not> blank r) \<and>
     (\<forall>i\<in>set (ss_pending_user_inputs s). trim i = i \<and> i \<noteq> []) \<and>
     (ss_cancelled s \<longrightarrow> ss_state s = SCancelled)"

lemma session_inv_new: "session_inv (session_new sid)"
  by (simp add: session_inv_def session_new_def)

lemma runtime_matches_nonblank: "runtime_terminal_matches s rid next \<Longrightarrow> \<not> blank rid"
  by (simp add: runtime_terminal_matches_def split: if_splits)

lemma start_scheduled_task_ok:
  assumes "start_scheduled_task X s task_id summary condition now = Inr e"
  obtains i t' where
    "position (startable (ss_task_plan s) task_id summary condition now) (tp_detailed_tasks (ss_task_plan s)) = Some i"
    "session_can_transition_to (ss_state s) SRunning"
    "advance_if_polling X ((tp_detailed_tasks (ss_task_plan s) ! i)\<lparr>ts_status := Doing\<rparr>) now = Inr t'"
    "e = ScheduledTaskClaimed (set_task (ss_task_plan s) i t') task_id summary condition SRunning"
proof -
  let ?p = "ss_task_plan s"
  from assms obtain i t' where i: "position (startable ?p task_id summary condition now) (tp_detailed_tasks ?p) = Some i"
    and rest: "session_can_transition_to (ss_state s) SRunning"
      "advance_if_polling X ((tp_detailed_tasks ?p ! i)\<lparr>ts_status := Doing\<rparr>) now = Inr t'"
    and e: "e = ScheduledTaskClaimed (set_task ?p i t') (ts_task_id (tp_detailed_tasks ?p ! i))
        (display_summary (tp_detailed_tasks ?p ! i) (tp_plan_summary ?p))
        (ts_start_condition (tp_detailed_tasks ?p ! i)) SRunning"
    unfolding start_scheduled_task_def Let_def
    by (auto simp: result_simps split: option.splits)
  have "startable ?p task_id summary condition now (tp_detailed_tasks ?p ! i)"
    using i by (rule position_nth)
  then show ?thesis using that i rest e by (auto simp: startable_def)
qed

lemma claim_scheduled_child_task_ok:
  assumes "claim_scheduled_child_task X s expected claim now = Inr e"
  obtains i contract t' where
    "is_ok (validate_claim claim)" "ss_task_plan s = expected" "scheduling_identities_valid (ss_task_plan s)"
    "position (\<lambda>t. ts_task_id t = dc_task_id claim \<and> direct_dispatch_eligible t now)
       (tp_detailed_tasks (ss_task_plan s)) = Some i"
    "ts_scheduling_contract (tp_detailed_tasks (ss_task_plan s) ! i) = Some contract"
    "\<not> claim_conflicts X (ss_task_plan s) (tp_detailed_tasks (ss_task_plan s) ! i) contract claim"
    "session_can_transition_to (ss_state s) SRunning"
    "advance_if_polling X ((tp_detailed_tasks (ss_task_plan s) ! i)
       \<lparr>ts_status := Doing, ts_sub_session_id := dc_child_session_id claim, ts_dispatch_claim := Some claim\<rparr>) now = Inr t'"
    "e = ScheduledChildTaskClaimed (set_task (ss_task_plan s) i t') claim now SRunning"
  using assms unfolding claim_scheduled_child_task_def Let_def
  by (auto simp: result_simps split: option.splits)

lemma acknowledged_index_ok:
  assumes "acknowledged_child_callback_task_index s ack = Inr i"
  shows "validate_ack ack = Inr ()" "i < length (tp_detailed_tasks (ss_task_plan s))"
    "acknowledges ack (tp_detailed_tasks (ss_task_plan s) ! i)"
    "\<And>j. j < length (tp_detailed_tasks (ss_task_plan s)) \<Longrightarrow>
       acknowledges ack (tp_detailed_tasks (ss_task_plan s) ! j) \<Longrightarrow> j = i"
    "ts_status (tp_detailed_tasks (ss_task_plan s) ! i) \<in> {Doing, Done, Archived}"
proof -
  let ?ts = "tp_detailed_tasks (ss_task_plan s)"
  let ?m = "filter (\<lambda>i. acknowledges ack (?ts ! i)) [0..<length ?ts]"
  from assms have v: "validate_ack ack = Inr ()" and m: "?m = [i]"
    and st: "ts_status (?ts ! i) \<in> {Doing, Done, Archived}"
    unfolding acknowledged_child_callback_task_index_def Let_def
    by (auto simp: result_simps split: list.splits if_splits)
  from m have "set ?m = {i}" by simp
  then have iff: "j < length ?ts \<and> acknowledges ack (?ts ! j) \<longleftrightarrow> j = i" for j
    by (auto simp: set_eq_iff)
  show "validate_ack ack = Inr ()" "ts_status (?ts ! i) \<in> {Doing, Done, Archived}" by fact+
  show "i < length ?ts" "acknowledges ack (?ts ! i)" using iff [of i] by simp_all
  show "\<And>j. j < length ?ts \<Longrightarrow> acknowledges ack (?ts ! j) \<Longrightarrow> j = i" using iff by blast
qed

lemma converge_ok:
  assumes "converge_acknowledged_child_callback s ack = Inr e"
  obtains i where "acknowledged_child_callback_task_index s ack = Inr i"
    "e = AcknowledgedChildCallbackConverged ack
       (set_task (ss_task_plan s) i (let t = tp_detailed_tasks (ss_task_plan s) ! i
          in if ts_status t = Doing then t\<lparr>ts_status := Done\<rparr> else t))
       (if ss_state s = SRunning \<and> ss_active_runtime_id s = None \<and>
           list_all (\<lambda>u. ts_status u \<in> {Done, Archived})
             (tp_detailed_tasks (set_task (ss_task_plan s) i (let t = tp_detailed_tasks (ss_task_plan s) ! i
                in if ts_status t = Doing then t\<lparr>ts_status := Done\<rparr> else t)))
        then SCompleted else ss_state s)"
  using assms unfolding converge_acknowledged_child_callback_def Let_def
  by (auto simp: result_simps split: sum.splits plan_status.splits)

lemma session_inv_runs:
  "session_inv s \<Longrightarrow> session_can_transition_to (ss_state s) SRunning \<Longrightarrow>
   session_inv (s\<lparr>ss_task_plan := p, ss_state := SRunning\<rparr>)"
  by (auto simp: session_inv_def state_defs split: session_state.splits)

lemma session_inv_plan: "session_inv s \<Longrightarrow> session_inv (s\<lparr>ss_task_plan := p\<rparr>)"
  by (simp add: session_inv_def)

lemma session_inv_parent: "session_inv s \<Longrightarrow> session_inv (s\<lparr>ss_parent_id := p\<rparr>)"
  by (simp add: session_inv_def)

lemma session_inv_ends:
  assumes "session_inv s" "runtime_terminal_matches s rid next" "st \<noteq> SCancelled \<longrightarrow> \<not> ss_cancelled s"
  shows "session_inv (s\<lparr>ss_state := st, ss_runtime_ids := push_unique rid (ss_runtime_ids s),
            ss_active_runtime_id := None\<rparr>)"
  using assms runtime_matches_nonblank [OF assms(2)] by (auto simp: session_inv_def)

lemma terminal_match_not_cancelled:
  assumes "session_inv s" "runtime_terminal_matches s rid next" "next \<noteq> SCancelled"
  shows "\<not> ss_cancelled s"
  using assms by (auto simp: session_inv_def runtime_terminal_matches_def split: if_splits option.splits)

lemma session_inv_start:
  assumes "session_inv s" "\<not> blank rid" "ss_state s \<noteq> SCancelled"
  shows "session_inv (s\<lparr>ss_state := SRunning, ss_runtime_ids := push_unique rid (ss_runtime_ids s),
            ss_active_runtime_id := Some rid\<rparr>)"
  using assms by (auto simp: session_inv_def)

lemma session_inv_step:
  assumes inv: "session_inv s" and d: "session_decide X s c = Inr e"
  shows "session_inv (session_apply s e)"
proof (cases c)
  case (CmdRuntimeStarted rid)
  with d have "\<not> blank rid" "ss_state s \<noteq> SCancelled" "e = EvRuntimeStarted rid SRunning"
    by (auto simp: result_simps state_defs)
  then show ?thesis using session_inv_start [OF inv] by simp
next
  case (CmdRuntimeRetried rid f)
  with d have "\<not> blank rid" "ss_state s \<noteq> SCancelled" "e = EvRuntimeStarted rid SRunning"
    by (auto simp: result_simps)
  then show ?thesis using session_inv_start [OF inv] by simp
next
  case (CmdRuntimeCompleted rid)
  with d have "runtime_terminal_matches s rid SCompleted" "e = EvRuntimeCompleted rid SCompleted"
    by (auto simp: result_simps)
  then show ?thesis using session_inv_ends [OF inv] terminal_match_not_cancelled [OF inv] by simp
next
  case (CmdRuntimeFailed rid)
  with d have "runtime_terminal_matches s rid SFailed" "e = EvRuntimeFailed rid SFailed"
    by (auto simp: result_simps)
  then show ?thesis using session_inv_ends [OF inv] terminal_match_not_cancelled [OF inv] by simp
next
  case (CmdRuntimeCancelled rid)
  with d have m: "runtime_terminal_matches s rid SCancelled" "e = EvRuntimeCancelled rid SCancelled"
    by (auto simp: result_simps)
  then show ?thesis
    using inv runtime_matches_nonblank [OF m(1)] by (auto simp: session_inv_def)
next
  case (CmdRuntimeEnded rid)
  with d have "\<not> blank rid" "ss_state s \<in> {SRunning, SPaused}" "e = EvRuntimeEnded rid (ss_state s)"
    by (auto simp: result_simps)
  then show ?thesis using inv by (auto simp: session_inv_def)
next
  case (ApplyRuntimeState st)
  with d have "\<not> runtime_state_refused s st" "e = RuntimeStateApplied st" by (auto simp: result_simps)
  then show ?thesis
    using inv by (auto simp: session_inv_def runtime_state_refused_def Let_def state_defs)
next
  case (StartScheduledTask tid summary cond now)
  then show ?thesis using d session_inv_runs [OF inv] by (auto elim!: start_scheduled_task_ok)
next
  case (ClaimScheduledChildTask p claim now)
  then show ?thesis using d session_inv_runs [OF inv] by (auto elim!: claim_scheduled_child_task_ok)
next
  case (ConvergeAcknowledgedChildCallback ack)
  then obtain p st where "e = AcknowledgedChildCallbackConverged ack p st"
    "st = ss_state s \<or> (st = SCompleted \<and> ss_state s = SRunning \<and> ss_active_runtime_id s = None)"
    using d by (auto elim!: converge_ok)
  then show ?thesis using inv by (auto simp: session_inv_def)
next
  case (QueueUserInputWhileBusy input)
  then have "e = UserInputQueued (trim input)" "\<not> blank input" using d by (auto simp: result_simps)
  then show ?thesis using inv by (auto simp: session_inv_def)
qed (use inv d in \<open>auto simp: result_simps session_inv_plan session_inv_parent session_inv_def state_defs
      split: session_state.splits\<close>)

section \<open>Events the aggregate produces are accepted on replay\<close>

text \<open>
  A creation event is accepted only at the head of the stream and a deletion never; a claim of a
  scheduled task is replayed from the first task with the claimed identity, so no other task may
  have it.
\<close>

definition unique_task_id :: "task_plan \<Rightarrow> string \<Rightarrow> bool" where
  "unique_task_id p tid = (length (filter (\<lambda>t. ts_task_id t = tid) (tp_detailed_tasks p)) = 1)"

definition session_replayable :: "session_aggregate \<Rightarrow> session_event \<Rightarrow> bool" where
  "session_replayable s e =
     (case e of
        SessionCreated _ \<Rightarrow> False
      | SessionForked _ \<Rightarrow> False
      | SessionDeleted \<Rightarrow> False
      | ScheduledTaskClaimed _ tid _ _ _ \<Rightarrow> unique_task_id (ss_task_plan s) tid
      | _ \<Rightarrow> True)"

lemma filter_length_1_position:
  assumes "length (filter P xs) = 1" "i < length xs" "P (xs ! i)"
  shows "position P xs = Some i"
  using assms
proof (induction xs arbitrary: i)
  case (Cons x xs)
  show ?case
  proof (cases "P x")
    case True
    with Cons.prems have "filter P xs = []" by simp
    then have "\<not> P (xs ! j)" if "j < length xs" for j using that by (auto simp: filter_empty_conv)
    with True Cons.prems show ?thesis by (cases i) auto
  next
    case False
    with Cons.prems obtain k where "i = Suc k" by (cases i) auto
    with False Cons show ?thesis by simp
  qed
qed simp

lemma startable_position:
  assumes "unique_task_id p tid" "i < length (tp_detailed_tasks p)"
    "startable p tid summary cond now (tp_detailed_tasks p ! i)"
  shows "position (startable p tid summary cond now) (tp_detailed_tasks p) = Some i"
    and "find (\<lambda>t. ts_task_id t = tid) (tp_detailed_tasks p) = Some (tp_detailed_tasks p ! i)"
proof -
  have id: "ts_task_id (tp_detailed_tasks p ! i) = tid" using assms(3) by (simp add: startable_def)
  then have pos: "position (\<lambda>t. ts_task_id t = tid) (tp_detailed_tasks p) = Some i"
    using assms(1,2) by (simp add: unique_task_id_def filter_length_1_position)
  then show "find (\<lambda>t. ts_task_id t = tid) (tp_detailed_tasks p) = Some (tp_detailed_tasks p ! i)"
    by (simp add: find_position)
  show "position (startable p tid summary cond now) (tp_detailed_tasks p) = Some i"
    using assms(2,3) position_Some_D [OF pos] by (intro position_eqI) (auto simp: startable_def)
qed

text \<open>The same claim, made again at another instant at which the task may start.\<close>

lemma start_scheduled_task_again:
  assumes "unique_task_id (ss_task_plan s) tid" "i < length (tp_detailed_tasks (ss_task_plan s))"
    "startable (ss_task_plan s) tid summary cond now' (tp_detailed_tasks (ss_task_plan s) ! i)"
    "session_can_transition_to (ss_state s) SRunning"
    "advance_if_polling X ((tp_detailed_tasks (ss_task_plan s) ! i)\<lparr>ts_status := Doing\<rparr>) now' = Inr t'"
  shows "start_scheduled_task X s tid summary cond now' =
     Inr (ScheduledTaskClaimed (set_task (ss_task_plan s) i t') tid summary cond SRunning)"
  using assms startable_position(1) [OF assms(1-3)]
  by (simp add: start_scheduled_task_def startable_def)

lemma runtime_started_replays:
  assumes "session_decide X s c = Inr (EvRuntimeStarted rid st)"
    "c = CmdRuntimeStarted r \<or> c = CmdRuntimeRetried r f"
  shows "session_decide X s (runtime_started_command X s rid (EvRuntimeStarted rid st)) =
     Inr (EvRuntimeStarted rid st)"
proof (cases "session_decide X s (CmdRuntimeStarted rid) = Inr (EvRuntimeStarted rid st)")
  case True
  then show ?thesis by (simp add: runtime_started_command_def)
next
  case False
  from assms False have c: "c = CmdRuntimeRetried rid f" by (auto simp: result_simps)
  with assms(1) have "ss_runtime_ids s \<noteq> []" "last (ss_runtime_ids s) = f" by (auto simp: result_simps)
  then have "runtime_started_command X s rid (EvRuntimeStarted rid st) = c"
    using False c by (simp only: runtime_started_command_def if_False simp_thms if_True)
  with assms(1) show ?thesis by simp
qed

context chrono_laws
begin

text \<open>A polling claim made at \<open>now\<close> is the claim made one step before the new start time.\<close>

lemma advance_polling_replay:
  assumes "advance_polling_start X t now = Some t'"
  obtains step where "poll_step X (ts_poll_interval t) = Some step"
    "datetime_checked_sub X (ts_start_at t') step = Some (ts_start_at t' - step)"
    "ts_start_at t \<le> ts_start_at t' - step"
    "advance_polling_start X t (ts_start_at t' - step) = Some t'" "ts_task_id t' = ts_task_id t"
proof -
  from assms obtain step nx n where p: "poll_step X (ts_poll_interval t) = Some step"
    "datetime_add X (ts_start_at t) step = Some nx" "poll_until X nx step now = Some n"
    "t' = t\<lparr>ts_start_at := n\<rparr>"
    by (auto simp: advance_polling_start_def split: option.splits)
  have pos: "0 < step" using p(1) by (rule poll_step_pos)
  have sub: "datetime_checked_sub X n step = Some (n - step)" "ts_start_at t \<le> n - step"
    using poll_until_last_add [OF pos p(2,3)] by simp_all
  have "advance_polling_start X t (n - step) = Some t'"
    using poll_until_replay [OF pos p(3)] p by (simp add: advance_polling_start_def)
  then show ?thesis using that p(1,4) sub by simp
qed

lemma scheduled_claim_replays:
  assumes d: "start_scheduled_task X s tid summary cond now = Inr e"
    and uniq: "unique_task_id (ss_task_plan s) tid"
  shows "\<exists>c. session_as_command X s e = Inr (Some c) \<and> session_decide X s c = Inr e"
proof -
  let ?p = "ss_task_plan s"
  let ?ts = "tp_detailed_tasks ?p"
  from d obtain i t' where i: "position (startable ?p tid summary cond now) ?ts = Some i"
    and run: "session_can_transition_to (ss_state s) SRunning"
    and adv: "advance_if_polling X ((?ts ! i)\<lparr>ts_status := Doing\<rparr>) now = Inr t'"
    and e: "e = ScheduledTaskClaimed (set_task ?p i t') tid summary cond SRunning"
    by (rule start_scheduled_task_ok)
  define t where "t = ?ts ! i"
  have len: "i < length ?ts" and st: "startable ?p tid summary cond now t"
    using position_Some_D [OF i] by (simp_all add: t_def)
  have find: "find (\<lambda>t. ts_task_id t = tid) ?ts = Some t"
    using startable_position(2) [OF uniq len] st by (simp add: t_def)
  have "\<exists>now'. replay_instant X t (set_task ?p i t') tid = Inr (Some now') \<and>
      startable ?p tid summary cond now' t \<and> advance_if_polling X (t\<lparr>ts_status := Doing\<rparr>) now' = Inr t'"
  proof (cases "ts_start_condition t")
    case PollingTask
    then have "advance_polling_start X (t\<lparr>ts_status := Doing\<rparr>) now = Some t'"
      using adv by (auto simp: advance_if_polling_def t_def split: option.splits)
    then obtain step where s0: "poll_step X (ts_poll_interval (t\<lparr>ts_status := Doing\<rparr>)) = Some step"
      "datetime_checked_sub X (ts_start_at t') step = Some (ts_start_at t' - step)"
      "ts_start_at (t\<lparr>ts_status := Doing\<rparr>) \<le> ts_start_at t' - step"
      "advance_polling_start X (t\<lparr>ts_status := Doing\<rparr>) (ts_start_at t' - step) = Some t'"
      "ts_task_id t' = ts_task_id (t\<lparr>ts_status := Doing\<rparr>)"
      by (rule advance_polling_replay)
    have s: "poll_step X (ts_poll_interval t) = Some step"
      "datetime_checked_sub X (ts_start_at t') step = Some (ts_start_at t' - step)"
      "ts_start_at t \<le> ts_start_at t' - step"
      "advance_polling_start X (t\<lparr>ts_status := Doing\<rparr>) (ts_start_at t' - step) = Some t'" "ts_task_id t' = tid"
      using s0 st by (simp_all add: startable_def)
    have "length (filter (\<lambda>u. ts_task_id u = tid) (?ts[i := t'])) = 1"
    proof -
      have "map ts_task_id (?ts[i := t']) = map ts_task_id ?ts"
        using s(5) st len by (simp add: map_update startable_def t_def list_update_same_conv)
      then have "filter (\<lambda>x. x = tid) (map ts_task_id (?ts[i := t'])) = filter (\<lambda>x. x = tid) (map ts_task_id ?ts)"
        by simp
      then have "length (filter (\<lambda>u. ts_task_id u = tid) (?ts[i := t'])) =
          length (filter (\<lambda>u. ts_task_id u = tid) ?ts)"
        by (metis (mono_tags, lifting) comp_def filter_cong filter_map length_map)
      with uniq show ?thesis by (simp add: unique_task_id_def)
    qed
    then have "find (\<lambda>u. ts_task_id u = tid) (?ts[i := t']) = Some t'"
      using filter_length_1_position [of _ "?ts[i := t']" i] len s(5) by (simp add: find_position)
    then have "replay_instant X t (set_task ?p i t') tid = Inr (Some (ts_start_at t' - step))"
      using PollingTask s by (simp add: replay_instant_def set_task_def)
    moreover have "startable ?p tid summary cond (ts_start_at t' - step) t"
      using st s(3) PollingTask by (auto simp: startable_def scheduler_eligible_def)
    ultimately show ?thesis using s(4) PollingTask by (auto simp: advance_if_polling_def)
  next
    case ScheduledTask
    then show ?thesis using st adv
      by (auto simp: replay_instant_def startable_def scheduler_eligible_def advance_if_polling_def t_def)
  next
    case SessionIdle
    then show ?thesis using st adv
      by (auto simp: replay_instant_def startable_def scheduler_eligible_def advance_if_polling_def t_def)
  next
    case UserAction
    then show ?thesis using st by (simp add: startable_def scheduler_eligible_def split: if_splits)
  qed
  then obtain now' where n: "replay_instant X t (set_task ?p i t') tid = Inr (Some now')"
    "startable ?p tid summary cond now' t" "advance_if_polling X (t\<lparr>ts_status := Doing\<rparr>) now' = Inr t'"
    by blast
  have again: "start_scheduled_task X s tid summary cond now' = Inr e"
    using start_scheduled_task_again [OF uniq len _ run, of summary cond now' X t'] n(2,3) e by (simp add: t_def)
  moreover have "display_summary t (tp_plan_summary ?p) = summary" "ts_start_condition t = cond"
    using st by (simp_all add: startable_def)
  ultimately show ?thesis using find n(1) by (simp add: e scheduled_replay_command_def)
qed

lemma session_commit_accepts:
  assumes d: "session_decide X s c = Inr e" and r: "session_replayable s e"
  shows "session_apply_committed X s e = Inr (session_apply s e)"
proof -
  have "\<exists>c. session_as_command X s e = Inr (Some c) \<and> session_decide X s c = Inr e"
  proof (cases c)
    case (CmdRuntimeStarted rid)
    moreover from this d have "e = EvRuntimeStarted rid SRunning" by (auto simp: result_simps)
    ultimately show ?thesis using runtime_started_replays d by fastforce
  next
    case (CmdRuntimeRetried rid f)
    moreover from this d have "e = EvRuntimeStarted rid SRunning" by (auto simp: result_simps)
    ultimately show ?thesis using runtime_started_replays d by fastforce
  next
    case (StartScheduledTask tid summary cond now)
    then have d': "start_scheduled_task X s tid summary cond now = Inr e" using d by simp
    moreover have "unique_task_id (ss_task_plan s) tid"
      using r d' by (auto simp: session_replayable_def elim!: start_scheduled_task_ok)
    ultimately show ?thesis by (rule scheduled_claim_replays)
  next
    case (ClaimScheduledChildTask p claim now)
    then have d': "claim_scheduled_child_task X s p claim now = Inr e" using d by simp
    then obtain q st where e: "e = ScheduledChildTaskClaimed q claim now st" "p = ss_task_plan s"
      by (auto elim!: claim_scheduled_child_task_ok)
    with d' show ?thesis by auto
  next
    case (ConvergeAcknowledgedChildCallback ack)
    then have d': "converge_acknowledged_child_callback s ack = Inr e" using d by simp
    then obtain q st where "e = AcknowledgedChildCallbackConverged ack q st" by (auto elim!: converge_ok)
    with d' show ?thesis by auto
  qed (use d r in \<open>auto simp: result_simps session_replayable_def\<close>)
  moreover have "e \<noteq> SessionDeleted" using r by (auto simp: session_replayable_def)
  ultimately show ?thesis by (auto simp: session_apply_committed_iff)
qed

end

text \<open>Whatever the libraries do, the reducer keeps the invariant and replay is sound.\<close>

interpretation sr: committed_reducer "session_decide X" session_apply session_inv "session_apply_committed X" for X
proof
  show "session_inv s \<Longrightarrow> session_decide X s c = Inr e \<Longrightarrow> session_inv (session_apply s e)" for s c e
    by (rule session_inv_step)
  show "session_apply_committed X s e = Inr t \<Longrightarrow> t = session_apply s e" for s e t
    by (simp add: session_apply_committed_iff)
  show "session_apply_committed X s e = Inr t \<Longrightarrow> \<exists>c. session_decide X s c = Inr e" for s e t
    by (auto simp: session_apply_committed_iff)
qed

text \<open>With chrono's laws, what was decided is accepted.\<close>

sublocale chrono_laws \<subseteq> sess: event_sourced "session_decide X" session_apply session_inv
  "session_apply_committed X" session_replayable
  by unfold_locales (rule session_commit_accepts)

context chrono_laws
begin

lemma session_stream_rebuilds:
  assumes "drive (session_decide X) session_apply s0 cs = (s, es)" "along session_replayable session_apply s0 es"
  shows "commit_all (session_apply_committed X) s0 es = Inr s"
  using sess.commit_all_drive [of s0 cs] assms by simp

end

end
