(* ===== verification/Session_Protocol.thy ===== *)
theory Session_Protocol
  imports Session_Facts
begin

text \<open>
  What the session keeps across sequences of commands: dispatch claims stay on their tasks, a
  claimed task cannot be claimed again, one runtime holds the session until an event releases
  it, and acknowledged callbacks converge to the same state however often they are delivered.
\<close>

abbreviation plan_tasks :: "session_aggregate \<Rightarrow> task_step list" where
  "plan_tasks s \<equiv> tp_detailed_tasks (ss_task_plan s)"

abbreviation session_drive :: "externals \<Rightarrow> session_aggregate \<Rightarrow> session_command list \<Rightarrow> session_aggregate \<times> session_event list" where
  "session_drive X \<equiv> drive (session_decide X) session_apply"

section \<open>Dispatch claims\<close>

lemma claims_update_same:
  "i < length ts \<Longrightarrow> claim_identity t = claim_identity (ts ! i) \<Longrightarrow> claims (ts[i := t]) = claims ts"
proof (induction ts arbitrary: i)
  case (Cons u ts)
  then show ?case by (cases i) (auto simp: claim_identity_def)
qed simp

lemma claims_update_new:
  "i < length ts \<Longrightarrow> ts_dispatch_claim (ts ! i) = None \<Longrightarrow>
   mset (claims ts) \<subseteq># mset (claims (ts[i := t]))"
proof (induction ts arbitrary: i)
  case (Cons u ts)
  then show ?case by (cases i) auto
qed simp

lemma advance_if_polling_keeps:
  "advance_if_polling X t now = Inr t' \<Longrightarrow> claim_identity t' = claim_identity t \<and> ts_status t' = ts_status t \<and>
     ts_sub_session_id t' = ts_sub_session_id t"
  by (auto simp: advance_if_polling_def advance_polling_start_def claim_identity_def
      split: if_splits option.splits)

lemma set_task_tasks [simp]: "tp_detailed_tasks (set_task p i t) = (tp_detailed_tasks p)[i := t]"
  by (simp add: set_task_def)

text \<open>The commands that replace the whole plan.\<close>

fun replaces_plan :: "session_command \<Rightarrow> bool" where
  "replaces_plan (CreateSession p) = True"
| "replaces_plan (ApplyTaskStatus p) = True"
| "replaces_plan c = False"

lemma interrupt_claims: "claims (tp_detailed_tasks (interrupt_tasks st p)) = claims (tp_detailed_tasks p)"
  by (auto simp: interrupt_tasks_def claim_identity_def intro!: claims_map)

lemma decide_claims:
  assumes d: "session_decide X s c = Inr e" and c: "\<not> replaces_plan c"
  shows "mset (claims (plan_tasks s)) \<subseteq># mset (claims (plan_tasks (session_apply s e)))"
proof (cases c)
  case (ApplyTaskPatch patch g now)
  then show ?thesis using d patch_one_task_claims by (fastforce simp: result_simps)
next
  case (ApplyTaskPatches ps gs now)
  then show ?thesis using d patch_task_list_claims by (fastforce simp: result_simps)
next
  case (ApplyTaskPlanPatch patch)
  then show ?thesis
    using d apply_task_plan_patch_claims
    by (cases "apply_task_plan_patch (ss_task_plan s) (ss_state s) patch") fastforce+
next
  case (StartScheduledTask tid summary cond now)
  then have "start_scheduled_task X s tid summary cond now = Inr e" using d by simp
  then obtain i t' where i: "position (startable (ss_task_plan s) tid summary cond now) (plan_tasks s) = Some i"
    and t': "advance_if_polling X ((plan_tasks s ! i)\<lparr>ts_status := Doing\<rparr>) now = Inr t'"
    and e: "e = ScheduledTaskClaimed (set_task (ss_task_plan s) i t') tid summary cond SRunning"
    by (rule start_scheduled_task_ok)
  have "claim_identity t' = claim_identity (plan_tasks s ! i)"
    using advance_if_polling_keeps [OF t'] by (simp add: claim_identity_def)
  then show ?thesis using claims_update_same [OF position_less [OF i]] by (simp add: e)
next
  case (ClaimScheduledChildTask p claim now)
  then have "claim_scheduled_child_task X s p claim now = Inr e" using d by simp
  then obtain i k t' where
    i: "position (\<lambda>t. ts_task_id t = dc_task_id claim \<and> direct_dispatch_eligible t now) (plan_tasks s) = Some i"
    and free: "\<not> claim_conflicts X (ss_task_plan s) (plan_tasks s ! i) k claim"
    and e: "e = ScheduledChildTaskClaimed (set_task (ss_task_plan s) i t') claim now SRunning"
    by (rule claim_scheduled_child_task_ok)
  from free have "ts_dispatch_claim (plan_tasks s ! i) = None" by (simp add: claim_conflicts_def)
  then show ?thesis using claims_update_new [OF position_less [OF i]] by (simp add: e)
next
  case (ConvergeAcknowledgedChildCallback ack)
  then have "converge_acknowledged_child_callback s ack = Inr e" using d by simp
  then obtain i st where i: "acknowledged_child_callback_task_index s ack = Inr i"
    and e: "e = AcknowledgedChildCallbackConverged ack (set_task (ss_task_plan s) i
      (let t = plan_tasks s ! i in if ts_status t = Doing then t\<lparr>ts_status := Done\<rparr> else t)) st"
    by (rule converge_ok) blast
  have "claims ((plan_tasks s)[i := (let t = plan_tasks s ! i in
      if ts_status t = Doing then t\<lparr>ts_status := Done\<rparr> else t)]) = claims (plan_tasks s)"
    using acknowledged_index_ok(2) [OF i] by (intro claims_update_same) (simp_all add: Let_def claim_identity_def)
  then show ?thesis by (simp add: e)
qed (use d c in \<open>auto simp: result_simps interrupt_claims\<close>)

lemma drive_claims:
  "\<forall>c\<in>set cs. \<not> replaces_plan c \<Longrightarrow>
   mset (claims (plan_tasks s)) \<subseteq># mset (claims (plan_tasks (fst (session_drive X s cs))))"
proof (induction cs arbitrary: s)
  case (Cons c cs)
  show ?case
  proof (cases "session_decide X s c")
    case (Inr e)
    have "mset (claims (plan_tasks s)) \<subseteq># mset (claims (plan_tasks (session_apply s e)))"
      using decide_claims [OF Inr] Cons.prems by simp
    also have "\<dots> \<subseteq># mset (claims (plan_tasks (fst (session_drive X (session_apply s e) cs))))"
      using Cons by simp
    finally show ?thesis using Inr by (simp add: Let_def case_prod_unfold)
  qed (use Cons in simp)
qed simp

lemma claims_member:
  "x \<in> set (claims ts) \<longleftrightarrow> (\<exists>t\<in>set ts. ts_dispatch_claim t \<noteq> None \<and> claim_identity t = x)"
  by (auto simp: claims_def)

lemma claimed_not_reclaimed:
  assumes claimed: "(dc_task_id claim, Some c, k) \<in> set (claims (plan_tasks s))"
  shows "claim_scheduled_child_task X s expected claim now \<noteq> Inr e"
proof
  assume "claim_scheduled_child_task X s expected claim now = Inr e"
  then obtain i kk where valid: "scheduling_identities_valid (ss_task_plan s)"
    and i: "position (\<lambda>t. ts_task_id t = dc_task_id claim \<and> direct_dispatch_eligible t now) (plan_tasks s) = Some i"
    and free: "\<not> claim_conflicts X (ss_task_plan s) (plan_tasks s ! i) kk claim"
    by (rule claim_scheduled_child_task_ok)
  from claimed obtain t where t: "t \<in> set (plan_tasks s)" "ts_task_id t = dc_task_id claim"
    "ts_dispatch_claim t = Some c"
    by (auto simp: claims_member claim_identity_def)
  have "plan_tasks s ! i = t"
  proof (rule inj_onD [of ts_task_id "set (plan_tasks s)"])
    show "inj_on ts_task_id (set (plan_tasks s))"
      using valid by (simp add: scheduling_identities_valid_iff distinct_map)
    show "ts_task_id (plan_tasks s ! i) = ts_task_id t" using position_Some_D [OF i] t(2) by simp
  qed (use t(1) position_Some_D [OF i] in auto)
  with free t(3) show False by (simp add: claim_conflicts_def)
qed

lemma claim_recorded:
  assumes "claim_scheduled_child_task X s expected claim now = Inr e"
  shows "\<exists>k. (dc_task_id claim, Some claim, k) \<in> set (claims (plan_tasks (session_apply s e)))"
proof -
  from assms obtain i t' where
    i: "position (\<lambda>t. ts_task_id t = dc_task_id claim \<and> direct_dispatch_eligible t now) (plan_tasks s) = Some i"
    and t': "advance_if_polling X ((plan_tasks s ! i)\<lparr>ts_status := Doing,
        ts_sub_session_id := dc_child_session_id claim, ts_dispatch_claim := Some claim\<rparr>) now = Inr t'"
    and e: "e = ScheduledChildTaskClaimed (set_task (ss_task_plan s) i t') claim now SRunning"
    by (rule claim_scheduled_child_task_ok)
  have "claim_identity t' = (dc_task_id claim, Some claim, ts_scheduling_contract (plan_tasks s ! i))"
    using advance_if_polling_keeps [OF t'] position_Some_D [OF i] by (simp add: claim_identity_def)
  moreover have "t' \<in> set ((plan_tasks s)[i := t'])" using position_less [OF i] by (rule set_update_memI)
  ultimately have "(dc_task_id claim, Some claim, ts_scheduling_contract (plan_tasks s ! i)) \<in>
      set (claims ((plan_tasks s)[i := t']))"
    by (force simp: claims_member claim_identity_def)
  then show ?thesis by (auto simp: e)
qed

section \<open>The active runtime\<close>

fun releases_runtime :: "session_event \<Rightarrow> bool" where
  "releases_runtime (EvRuntimeCompleted r st) = True"
| "releases_runtime (EvRuntimeFailed r st) = True"
| "releases_runtime (EvRuntimeCancelled r st) = True"
| "releases_runtime (EvRuntimeEnded r st) = True"
| "releases_runtime (RuntimeStateApplied st) = session_is_terminal st"
| "releases_runtime (SessionInterrupted st p) = True"
| "releases_runtime (SessionCancelled st) = True"
| "releases_runtime e = False"

lemma active_runtime_kept:
  assumes "session_decide X s c = Inr e" "ss_active_runtime_id s = Some r" "\<not> releases_runtime e"
  shows "ss_active_runtime_id (session_apply s e) = Some r"
  using assms by (cases e; cases c) (auto simp: result_simps elim!: start_scheduled_task_ok claim_scheduled_child_task_ok converge_ok)

lemma drive_active_runtime:
  "ss_active_runtime_id s = Some r \<Longrightarrow> \<forall>e\<in>set (snd (session_drive X s cs)). \<not> releases_runtime e \<Longrightarrow>
   ss_active_runtime_id (fst (session_drive X s cs)) = Some r"
proof (induction cs arbitrary: s)
  case (Cons c cs)
  show ?case
  proof (cases "session_decide X s c")
    case (Inr e)
    with Cons.prems have "\<not> releases_runtime e"
      "\<forall>e\<in>set (snd (session_drive X (session_apply s e) cs)). \<not> releases_runtime e"
      by (simp_all add: Let_def case_prod_unfold)
    then show ?thesis
      using Cons.IH active_runtime_kept [OF Inr Cons.prems(1)] Inr by (simp add: Let_def case_prod_unfold)
  qed (use Cons in simp)
qed simp

section \<open>Acknowledged callbacks\<close>

definition settled :: "task_step \<Rightarrow> task_step" where
  "settled t = (if ts_status t = Doing then t\<lparr>ts_status := Done\<rparr> else t)"

definition all_settled :: "task_step list \<Rightarrow> bool" where
  "all_settled ts = list_all (\<lambda>u. ts_status u \<in> {Done, Archived}) ts"

lemma converge_result:
  assumes "converge_acknowledged_child_callback s ack = Inr e"
  obtains i where "acknowledged_child_callback_task_index s ack = Inr i"
    "session_apply s e = s\<lparr>ss_task_plan := set_task (ss_task_plan s) i (settled (plan_tasks s ! i)),
       ss_state := (if ss_state s = SRunning \<and> ss_active_runtime_id s = None \<and>
          all_settled ((plan_tasks s)[i := settled (plan_tasks s ! i)]) then SCompleted else ss_state s)\<rparr>"
  using assms by (rule converge_ok) (auto simp: settled_def all_settled_def Let_def)

lemma acknowledges_settled [simp]: "acknowledges ack (settled t) = acknowledges ack t"
  by (simp add: acknowledges_def settled_def split: option.split)

lemma settled_status: "ts_status t \<in> {Doing, Done, Archived} \<Longrightarrow> ts_status (settled t) \<in> {Done, Archived}"
  by (auto simp: settled_def)

lemma settled_idem: "ts_status t \<in> {Done, Archived} \<Longrightarrow> settled t = t"
  by (auto simp: settled_def)

lemma converge_from_index:
  assumes "acknowledged_child_callback_task_index s ack = Inr i"
  shows "\<exists>e. converge_acknowledged_child_callback s ack = Inr e"
  using assms acknowledged_index_ok(5) [OF assms]
  by (auto simp: converge_acknowledged_child_callback_def Let_def)

lemma acknowledged_index_iff:
  "acknowledged_child_callback_task_index s ack = Inr i \<longleftrightarrow> validate_ack ack = Inr () \<and>
   {j. j < length (plan_tasks s) \<and> acknowledges ack (plan_tasks s ! j)} = {i} \<and>
   ts_status (plan_tasks s ! i) \<in> {Doing, Done, Archived}" (is "?l \<longleftrightarrow> ?r")
proof
  assume ?l
  note ok = acknowledged_index_ok [OF this]
  then have "{j. j < length (plan_tasks s) \<and> acknowledges ack (plan_tasks s ! j)} = {i}" by blast
  with ok(1,5) show ?r by blast
next
  assume r: ?r
  let ?f = "filter (\<lambda>j. acknowledges ack (plan_tasks s ! j)) [0..<length (plan_tasks s)]"
  have "set ?f = {j. j < length (plan_tasks s) \<and> acknowledges ack (plan_tasks s ! j)}" by auto
  then have "?f = [i]" using r by (intro distinct_set_singleton) simp_all
  then show ?l unfolding acknowledged_child_callback_task_index_def Let_def using r by simp
qed

lemma index_settled:
  assumes i: "acknowledged_child_callback_task_index s ack = Inr i"
    and t: "plan_tasks t = (plan_tasks s)[i := settled (plan_tasks s ! i)]"
  shows "acknowledged_child_callback_task_index t ack = Inr i"
proof -
  note ok = acknowledged_index_ok [OF i]
  have "acknowledges ack (plan_tasks t ! j) = acknowledges ack (plan_tasks s ! j)"
    if "j < length (plan_tasks s)" for j
    using that by (cases "j = i") (simp_all add: t)
  then have "filter (\<lambda>j. acknowledges ack (plan_tasks t ! j)) [0..<length (plan_tasks t)] =
      filter (\<lambda>j. acknowledges ack (plan_tasks s ! j)) [0..<length (plan_tasks s)]"
    by (intro filter_cong) (simp_all add: t)
  also have "\<dots> = [i]"
    using i unfolding acknowledged_child_callback_task_index_def Let_def
    by (auto simp: result_simps split: list.splits if_splits)
  finally have f: "filter (\<lambda>j. acknowledges ack (plan_tasks t ! j)) [0..<length (plan_tasks t)] = [i]" .
  have "ts_status (plan_tasks t ! i) \<in> {Doing, Done, Archived}"
    using settled_status [OF ok(5)] ok(2) by (auto simp: t)
  then show ?thesis
    unfolding acknowledged_child_callback_task_index_def Let_def f using ok(1) by simp
qed

lemma converge_twice:
  assumes "converge_acknowledged_child_callback s ack = Inr e"
  shows "\<exists>e'. converge_acknowledged_child_callback (session_apply s e) ack = Inr e' \<and>
    session_apply (session_apply s e) e' = session_apply s e"
proof -
  from assms obtain i where i: "acknowledged_child_callback_task_index s ack = Inr i"
    and s': "session_apply s e = s\<lparr>ss_task_plan := set_task (ss_task_plan s) i (settled (plan_tasks s ! i)),
       ss_state := (if ss_state s = SRunning \<and> ss_active_runtime_id s = None \<and>
          all_settled ((plan_tasks s)[i := settled (plan_tasks s ! i)]) then SCompleted else ss_state s)\<rparr>"
    by (rule converge_result)
  let ?t = "session_apply s e"
  have tasks: "plan_tasks ?t = (plan_tasks s)[i := settled (plan_tasks s ! i)]" by (simp add: s')
  have i': "acknowledged_child_callback_task_index ?t ack = Inr i" using i tasks by (rule index_settled)
  then obtain e' where e': "converge_acknowledged_child_callback ?t ack = Inr e'" using converge_from_index by blast
  then obtain j where "acknowledged_child_callback_task_index ?t ack = Inr j"
    and t': "session_apply ?t e' = ?t\<lparr>ss_task_plan := set_task (ss_task_plan ?t) j (settled (plan_tasks ?t ! j)),
       ss_state := (if ss_state ?t = SRunning \<and> ss_active_runtime_id ?t = None \<and>
          all_settled ((plan_tasks ?t)[j := settled (plan_tasks ?t ! j)]) then SCompleted else ss_state ?t)\<rparr>"
    by (rule converge_result)
  with i' have j: "j = i" by simp
  have "settled (plan_tasks ?t ! i) = plan_tasks ?t ! i"
    using settled_status [OF acknowledged_index_ok(5) [OF i]] acknowledged_index_ok(2) [OF i]
    by (auto simp: tasks intro: settled_idem)
  then have same: "(plan_tasks ?t)[i := settled (plan_tasks ?t ! i)] = plan_tasks ?t" by simp
  then have "set_task (ss_task_plan ?t) i (settled (plan_tasks ?t ! i)) = ss_task_plan ?t"
    by (cases "ss_task_plan ?t") (simp add: set_task_def)
  moreover have "(if ss_state ?t = SRunning \<and> ss_active_runtime_id ?t = None \<and> all_settled (plan_tasks ?t)
      then SCompleted else ss_state ?t) = ss_state ?t"
    unfolding tasks by (simp add: s')
  ultimately have "session_apply ?t e' = ?t" unfolding t' j same by (cases ?t) simp
  with e' show ?thesis by blast
qed

end
