(* ===== verification/Session_Properties.thy ===== *)
theory Session_Properties
  imports Session_Protocol Task_Samples
begin

text \<open>
  The properties of the session aggregate: replay, the invariant, the active runtime, dispatch
  claims and acknowledged callbacks.
\<close>

section \<open>Replay and the invariant\<close>

text \<open>
  C2: A session is rebuilt from its stream: after an accepted creation event, whatever commands are
  executed, replaying the creation event and the produced events gives exactly the resulting
  session, provided every event was replayable when it was produced (no second creation, no
  deletion, and a scheduled task is claimed under an identity no other task of the plan has).
\<close>

theorem session_replay_rebuilds:
  assumes "chrono_laws X" and first: "creation_command first = Some c0"
    and d: "session_decide X (session_new sid) c0 = Inr first"
    and run: "session_drive X (session_apply (session_new sid) first) cs = (s, es)"
    and ok: "along session_replayable session_apply (session_apply (session_new sid) first) es"
  shows "session_replay X sid (first # es) = Inr s"
proof -
  have "commit_all (session_apply_committed X) (session_apply (session_new sid) first) es = Inr s"
    using chrono_laws.session_stream_rebuilds [OF assms(1) run ok] .
  then show ?thesis using first d by (simp add: session_replay_def)
qed

definition sample_session_commands :: "session_command list" where
  "sample_session_commands =
     [StartScheduledTask ''t1'' ''first'' SessionIdle 7, QueueUserInputWhileBusy '' hi '',
      CmdRuntimeStarted ''r1'', CmdRuntimeStarted ''r2'', CmdRuntimeCompleted ''r1'']"

lemma trim_session_samples: "trim '' hi '' = ''hi''" "trim ''r1'' = ''r1''" "trim ''r2'' = ''r2''"
  by code_simp+

definition sample_session :: session_aggregate where
  "sample_session = session_apply (session_new ''s1'') (SessionCreated sample_plan)"

lemmas sample_session_defs = sample_session_def session_new_def start_scheduled_task_def startable_def
  sample_plan_def sample_task_def task_step_default_def display_summary_def scheduler_eligible_def
  trim_samples trim_session_samples advance_if_polling_def runtime_terminal_matches_def state_defs

lemma sample_session_run:
  "session_drive ref sample_session sample_session_commands =
     (sample_session\<lparr>ss_task_plan := set_task sample_plan 0 (sample_task\<lparr>ts_status := Doing\<rparr>),
        ss_state := SCompleted, ss_pending_user_inputs := [''hi''], ss_runtime_ids := [''r1'']\<rparr>,
      [ScheduledTaskClaimed (set_task sample_plan 0 (sample_task\<lparr>ts_status := Doing\<rparr>)) ''t1'' ''first'' SessionIdle SRunning,
       UserInputQueued ''hi'', EvRuntimeStarted ''r1'' SRunning, EvRuntimeCompleted ''r1'' SCompleted])"
  by (simp add: sample_session_commands_def sample_session_defs push_unique_def set_task_def)

text \<open>Witness of C2: a scheduled task, a queued input and one runtime; the second start is rejected.\<close>

theorem session_replay_rebuilds_witness:
  "session_replay ref ''s1'' (SessionCreated sample_plan # snd (session_drive ref sample_session sample_session_commands)) =
   Inr (fst (session_drive ref sample_session sample_session_commands))"
proof (rule session_replay_rebuilds [OF ref_chrono.chrono_laws_axioms, where ?c0.0 = "CreateSession sample_plan"])
  show "session_drive ref (session_apply (session_new ''s1'') (SessionCreated sample_plan)) sample_session_commands =
      (fst (session_drive ref sample_session sample_session_commands),
       snd (session_drive ref sample_session sample_session_commands))"
    by (simp add: sample_session_def)
  show "along session_replayable session_apply (session_apply (session_new ''s1'') (SessionCreated sample_plan))
      (snd (session_drive ref sample_session sample_session_commands))"
    unfolding sample_session_run
    by (simp add: session_replayable_def unique_task_id_def sample_plan_def sample_task_def)
qed simp_all

text \<open>
  C32: In every session any sequence of commands leads to, the active runtime is one the session has
  registered and the session is running or paused while it has one; runtime identities are distinct
  and not blank, queued inputs are trimmed and not empty, and the cancelled flag implies the
  cancelled state.
\<close>

theorem session_invariant_reachable: "session_inv (fst (session_drive X (session_new sid) cs))"
  by (rule sr.drive_inv) (rule session_inv_new)

text \<open>
  A session replay that succeeds is sound: the stream starts with a creation event the new
  session decides, the rest is what some sequence of commands produces from there, and the result,
  which those commands lead to, satisfies the invariant.
\<close>

theorem session_replay_sound:
  assumes "session_replay X sid es = Inr s"
  shows "session_inv s \<and> (\<exists>first rest c0 cs. es = first # rest \<and> creation_command first = Some c0 \<and>
    session_decide X (session_new sid) c0 = Inr first \<and>
    session_drive X (session_apply (session_new sid) first) cs = (s, rest))"
proof -
  from assms obtain first rest c0 where es: "es = first # rest" "creation_command first = Some c0"
    "session_decide X (session_new sid) c0 = Inr first"
    and c: "commit_all (session_apply_committed X) (session_apply (session_new sid) first) rest = Inr s"
    by (auto simp: session_replay_def result_simps split: list.splits option.splits)
  have "session_inv (session_apply (session_new sid) first)"
    using session_inv_step [OF session_inv_new es(3)] .
  then have "session_inv s" using sr.commit_all_inv c by blast
  moreover obtain cs where "session_drive X (session_apply (session_new sid) first) cs = (s, rest)"
    using sr.commit_all_sound [OF c] by blast
  ultimately show ?thesis using es by blast
qed

text \<open>An instance.\<close>

theorem session_replay_sound_witness:
  "\<exists>s. session_replay ref ''s1'' [SessionForked ''p'', UserTurnStarted SRunning, EvRuntimeStarted ''r1'' SRunning] = Inr s \<and>
     session_inv s \<and> ss_active_runtime_id s = Some ''r1''"
proof -
  obtain s where s: "session_replay ref ''s1'' [SessionForked ''p'', UserTurnStarted SRunning,
      EvRuntimeStarted ''r1'' SRunning] = Inr s" and "ss_active_runtime_id s = Some ''r1''"
    by (simp add: session_replay_def session_apply_committed_def session_new_def runtime_started_command_def
        trim_session_samples state_defs)
  then show ?thesis using session_replay_sound [OF s] by blast
qed

section \<open>The active runtime\<close>

text \<open>
  One runtime at a time: if a session whose active runtime is r comes to have another active
  runtime, an event between the two released r (its completion, failure, cancellation or end, a
  terminal state, an interruption or a cancellation of the session).
\<close>

theorem one_runtime_at_a_time:
  assumes "ss_active_runtime_id s = Some r" "session_drive X s cs = (t, es)"
    "ss_active_runtime_id t \<noteq> Some r"
  shows "\<exists>e\<in>set es. releases_runtime e"
  using drive_active_runtime [OF assms(1), of X cs] assms(2,3) by auto

text \<open>An instance: the runtime r2 starts only once r1 has ended.\<close>

theorem one_runtime_at_a_time_witness:
  "\<exists>e\<in>set (snd (session_drive ref
      ((session_new ''s1'')\<lparr>ss_state := SRunning, ss_runtime_ids := [''r1''], ss_active_runtime_id := Some ''r1''\<rparr>)
      [CmdRuntimeStarted ''r2'', CmdRuntimeEnded ''r1'', CmdRuntimeStarted ''r2''])). releases_runtime e"
proof (rule one_runtime_at_a_time [where r = "''r1''", OF _ prod.collapse [symmetric]])
  show "ss_active_runtime_id (fst (session_drive ref
      ((session_new ''s1'')\<lparr>ss_state := SRunning, ss_runtime_ids := [''r1''], ss_active_runtime_id := Some ''r1''\<rparr>)
      [CmdRuntimeStarted ''r2'', CmdRuntimeEnded ''r1'', CmdRuntimeStarted ''r2''])) \<noteq> Some ''r1''"
    by (simp add: session_new_def trim_session_samples state_defs push_unique_def)
qed simp

section \<open>Dispatch claims\<close>

definition sample_claim :: task_dispatch_claim where
  "sample_claim =
     \<lparr>dc_schema_version = TASK_DISPATCH_CLAIM_SCHEMA_VERSION, dc_mission_id = ''mission'', dc_task_id = ''t1'',
      dc_child_session_id = ''c1'', dc_child_runtime_id = ''r1'', dc_child_lease_id = ''r1'',
      dc_child_transaction_id = ''r1'', dc_semantic_dispatch_key = sc_semantic_dispatch_key sample_contract,
      dc_authority_mission_revision_sha256 = zeros, dc_delegated_input_sha256 = zeros,
      dc_task_context_capsule_semantic_sha256 = zeros,
      dc_parent_task_plan_sha256 = task_plan_ready_set_sha256 ref sample_plan,
      dc_task_scheduling_contract_sha256 = contract_sha256 ref sample_contract,
      dc_scope_claim_sha256 = scope_claim_sha256 ref sample_contract\<rparr>"

definition claimed_sample_task :: task_step where
  "claimed_sample_task = sample_task\<lparr>ts_status := Doing, ts_sub_session_id := ''c1'', ts_dispatch_claim := Some sample_claim\<rparr>"

lemma sample_claim_valid: "validate_claim sample_claim = Inr ()"
proof -
  have "is_lower_sha256 (sc_semantic_dispatch_key sample_contract)"
    by (simp add: sample_contract_def semantic_dispatch_sha256_def ref_digest)
  then show ?thesis
    by (simp add: validate_claim_def sample_claim_def identity_invalid_def MAX_TASK_SCHEDULING_VALUE_CHARS_def
        trim_samples trim_session_samples zeros_sha256 ref_digest task_plan_ready_set_sha256_def
        contract_sha256_def scope_claim_sha256_def)
qed

lemma sample_claim_free: "\<not> claim_conflicts ref sample_plan sample_task sample_contract sample_claim"
proof -
  have "sc_mission_id sample_contract = ''mission''" "sc_authority_mission_revision_sha256 sample_contract = zeros"
    "sc_delegated_input_sha256 sample_contract = zeros" "sc_task_context_capsule_semantic_sha256 sample_contract = zeros"
    by (simp_all add: sample_contract_def sample_draft_def)
  moreover have "ts_dispatch_claim sample_task = None" "ts_sub_session_id sample_task = []" "ts_task_id sample_task = ''t1''"
    by (simp_all add: sample_task_def task_step_default_def)
  ultimately show ?thesis
    by (simp add: claim_conflicts_def sample_claim_def sample_contract_valid sample_dispatch_key)
qed

lemma sample_claim_ok:
  "claim_scheduled_child_task ref sample_session sample_plan sample_claim 7 =
     Inr (ScheduledChildTaskClaimed (set_task sample_plan 0 claimed_sample_task) sample_claim 7 SRunning)"
proof -
  have s: "ss_task_plan sample_session = sample_plan" "ss_state sample_session = SCreated"
    by (simp_all add: sample_session_def session_new_def)
  have t: "tp_detailed_tasks sample_plan = [sample_task]" by (simp add: sample_plan_def)
  have e: "ts_task_id sample_task = dc_task_id sample_claim" "direct_dispatch_eligible sample_task 7"
    "ts_scheduling_contract sample_task = Some sample_contract" "ts_start_condition sample_task = SessionIdle"
    by (simp_all add: sample_task_def sample_claim_def direct_dispatch_eligible_def scheduler_eligible_def
        task_step_default_def)
  have c: "dc_child_session_id sample_claim = ''c1''" by (simp add: sample_claim_def)
  show ?thesis
    unfolding claim_scheduled_child_task_def Let_def s t
    by (simp add: e c sample_claim_valid sample_plan_identities sample_claim_free state_defs
        advance_if_polling_def claimed_sample_task_def)
qed

text \<open>
  C5: A dispatch claim is exclusive: once a task is claimed for a child, no later claim for that task
  is accepted, whatever commands run in between (patches, interruptions, new turns, other claims),
  as long as none of them replaces the whole plan.
\<close>

theorem claim_is_exclusive:
  assumes "session_decide X s (ClaimScheduledChildTask expected claim now) = Inr e"
    and "\<forall>c\<in>set cs. \<not> replaces_plan c" and "dc_task_id claim2 = dc_task_id claim"
  shows "\<not> is_ok (session_decide X (fst (session_drive X (session_apply s e) cs))
    (ClaimScheduledChildTask expected2 claim2 now2))"
proof -
  obtain k where "(dc_task_id claim, Some claim, k) \<in> set (claims (plan_tasks (session_apply s e)))"
    using claim_recorded assms(1) by fastforce
  then have "(dc_task_id claim2, Some claim, k) \<in> set (claims (plan_tasks (fst (session_drive X (session_apply s e) cs))))"
    using set_mset_mono [OF drive_claims [OF assms(2), of "session_apply s e" X]] assms(3) by auto
  then show ?thesis using claimed_not_reclaimed by (simp add: is_ok_iff)
qed

text \<open>Witness of C5: the task is interrupted and a new turn started; another child cannot claim it.\<close>

theorem claim_is_exclusive_witness:
  "\<not> is_ok (session_decide ref (fst (session_drive ref
      (session_apply sample_session (ScheduledChildTaskClaimed (set_task sample_plan 0 claimed_sample_task) sample_claim 7 SRunning))
      [InterruptSession, SubmitUserInput]))
     (ClaimScheduledChildTask sample_plan (sample_claim\<lparr>dc_child_session_id := ''c2''\<rparr>) 8))"
  by (rule claim_is_exclusive [where expected = sample_plan and claim = sample_claim and now = 7])
    (simp_all add: sample_claim_ok)

text \<open>
  C6: An accepted claim binds the task to the child exactly: the plan is the one the claimant saw and
  its digest is the claim's, the task was open, unclaimed and had a valid contract whose mission,
  revision, input, capsule, scopes and dispatch key are the claim's; afterwards the session runs and
  the task is being done by that child under that claim, with no other task changed.
\<close>

theorem claim_binds:
  assumes "session_decide X s (ClaimScheduledChildTask expected claim now) = Inr e"
  shows "\<exists>i contract t'. ss_task_plan s = expected \<and> i < length (plan_tasks s) \<and>
    (let t = plan_tasks s ! i in
       ts_task_id t = dc_task_id claim \<and> ts_status t \<in> {Todo, Question} \<and> ts_dispatch_claim t = None \<and>
       ts_sub_session_id t = [] \<and> ts_scheduling_contract t = Some contract) \<and>
    is_ok (validate_claim claim) \<and> is_ok (validate_contract contract (dc_task_id claim)) \<and>
    dc_mission_id claim = sc_mission_id contract \<and>
    dc_semantic_dispatch_key claim = semantic_dispatch_sha256 X contract (dc_task_id claim) \<and>
    dc_authority_mission_revision_sha256 claim = sc_authority_mission_revision_sha256 contract \<and>
    dc_delegated_input_sha256 claim = sc_delegated_input_sha256 contract \<and>
    dc_task_context_capsule_semantic_sha256 claim = sc_task_context_capsule_semantic_sha256 contract \<and>
    dc_parent_task_plan_sha256 claim = task_plan_ready_set_sha256 X expected \<and>
    dc_task_scheduling_contract_sha256 claim = contract_sha256 X contract \<and>
    dc_scope_claim_sha256 claim = scope_claim_sha256 X contract \<and>
    session_apply s e = s\<lparr>ss_task_plan := expected\<lparr>tp_detailed_tasks := (plan_tasks s)[i := t']\<rparr>, ss_state := SRunning\<rparr> \<and>
    claim_identity t' = (dc_task_id claim, Some claim, Some contract) \<and>
    ts_status t' = Doing \<and> ts_sub_session_id t' = dc_child_session_id claim"
proof -
  from assms have "claim_scheduled_child_task X s expected claim now = Inr e" by simp
  then obtain i k t' where valid: "is_ok (validate_claim claim)" and plan: "ss_task_plan s = expected"
    and i: "position (\<lambda>t. ts_task_id t = dc_task_id claim \<and> direct_dispatch_eligible t now) (plan_tasks s) = Some i"
    and k: "ts_scheduling_contract (plan_tasks s ! i) = Some k"
    and free: "\<not> claim_conflicts X (ss_task_plan s) (plan_tasks s ! i) k claim"
    and t': "advance_if_polling X ((plan_tasks s ! i)\<lparr>ts_status := Doing,
        ts_sub_session_id := dc_child_session_id claim, ts_dispatch_claim := Some claim\<rparr>) now = Inr t'"
    and e: "e = ScheduledChildTaskClaimed (set_task (ss_task_plan s) i t') claim now SRunning"
    by (rule claim_scheduled_child_task_ok)
  note p = position_Some_D [OF i]
  have "claim_identity t' = (dc_task_id claim, Some claim, Some k)" "ts_status t' = Doing"
    "ts_sub_session_id t' = dc_child_session_id claim"
    using advance_if_polling_keeps [OF t'] p k by (simp_all add: claim_identity_def)
  moreover have "ts_status (plan_tasks s ! i) \<in> {Todo, Question}"
    using direct_dispatch_eligible_status p by blast
  ultimately show ?thesis
    using valid plan k p free e by (intro exI [of _ i] exI [of _ k] exI [of _ t']) (auto simp: claim_conflicts_def set_task_def)
qed

text \<open>Witness of C6.\<close>

theorem claim_binds_witness:
  "\<exists>i. i < length (plan_tasks sample_session) \<and> ts_task_id (plan_tasks sample_session ! i) = dc_task_id sample_claim \<and>
     dc_parent_task_plan_sha256 sample_claim = task_plan_ready_set_sha256 ref sample_plan"
proof -
  have "session_decide ref sample_session (ClaimScheduledChildTask sample_plan sample_claim 7) =
      Inr (ScheduledChildTaskClaimed (set_task sample_plan 0 claimed_sample_task) sample_claim 7 SRunning)"
    by (simp add: sample_claim_ok)
  from claim_binds [OF this] show ?thesis unfolding Let_def by blast
qed

text \<open>
  Patching a plan never fails and never loses a claim: the command is always accepted, and the
  claims of the plan (task, claim and contract of every claimed task) are the same afterwards.
\<close>

theorem plan_patch_keeps_claims:
  "\<exists>p. session_decide X s (ApplyTaskPlanPatch patch) = Inr (TaskPlanChanged p) \<and>
     mset (claims (tp_detailed_tasks p)) = mset (claims (plan_tasks s))"
  using apply_task_plan_patch_claims [of "ss_task_plan s" "ss_state s" patch]
  by (auto split: sum.split)

section \<open>Acknowledged callbacks\<close>

definition sample_ack :: acknowledged_child_callback_identity where
  "sample_ack =
     \<lparr>ak_schema_version = ACKNOWLEDGED_CHILD_CALLBACK_IDENTITY_SCHEMA_VERSION,
      ak_parent_mission_revision_sha256 = zeros, ak_commander_thread_id = ''c1'', ak_child_session_id = ''c1'',
      ak_child_runtime_id = ''r1'', ak_child_lease_id = ''r1'', ak_child_transaction_id = ''r1'',
      ak_event_id = ''e1'', ak_callback_payload_sha256 = zeros, ak_effect_identity_sha256 = zeros\<rparr>"

definition claimed_sample_session :: session_aggregate where
  "claimed_sample_session = sample_session\<lparr>ss_task_plan := set_task sample_plan 0 claimed_sample_task, ss_state := SRunning\<rparr>"

lemma trim_e1: "trim ''e1'' = ''e1''"
  by code_simp

lemma sample_ack_valid: "validate_ack sample_ack = Inr ()"
  by (simp add: validate_ack_def sample_ack_def identity_invalid_def MAX_TASK_SCHEDULING_VALUE_CHARS_def
      trim_samples trim_session_samples trim_e1 zeros_sha256)

lemma sample_acknowledges: "acknowledges sample_ack claimed_sample_task"
proof -
  have "matches_dispatch_claim sample_ack sample_claim"
    by (simp add: matches_dispatch_claim_def sample_claim_valid) (simp add: sample_ack_def sample_claim_def)
  moreover have "ts_dispatch_claim claimed_sample_task = Some sample_claim" "ts_sub_session_id claimed_sample_task = ''c1''"
    "ts_task_id claimed_sample_task = ''t1''"
    by (simp_all add: claimed_sample_task_def sample_task_def)
  ultimately show ?thesis by (simp add: acknowledges_def) (simp add: sample_ack_def sample_claim_def)
qed

lemma claimed_sample_tasks: "plan_tasks claimed_sample_session = [claimed_sample_task]"
  by (simp add: claimed_sample_session_def sample_plan_def)

lemma sample_ack_index: "acknowledged_child_callback_task_index claimed_sample_session sample_ack = Inr 0"
  unfolding acknowledged_child_callback_task_index_def Let_def claimed_sample_tasks
  by (simp add: sample_ack_valid sample_acknowledges) (simp add: claimed_sample_task_def)

text \<open>
  C26: A callback acknowledgment is accepted exactly when it is well formed, its claim is that of
  exactly one task of the plan, and that task is being done or already settled. It then settles
  that task only, and completes the session exactly when it was running without an active runtime and
  every task is settled.
\<close>

theorem callback_convergence:
  "(\<exists>e. session_decide X s (ConvergeAcknowledgedChildCallback ack) = Inr e \<and> session_apply s e = s') \<longleftrightarrow>
   validate_ack ack = Inr () \<and>
   (\<exists>i. {j. j < length (plan_tasks s) \<and> acknowledges ack (plan_tasks s ! j)} = {i} \<and>
      ts_status (plan_tasks s ! i) \<in> {Doing, Done, Archived} \<and>
      s' = s\<lparr>ss_task_plan := set_task (ss_task_plan s) i (settled (plan_tasks s ! i)),
         ss_state := (if ss_state s = SRunning \<and> ss_active_runtime_id s = None \<and>
            all_settled ((plan_tasks s)[i := settled (plan_tasks s ! i)]) then SCompleted else ss_state s)\<rparr>)"
proof -
  let ?result = "\<lambda>i. s\<lparr>ss_task_plan := set_task (ss_task_plan s) i (settled (plan_tasks s ! i)),
         ss_state := (if ss_state s = SRunning \<and> ss_active_runtime_id s = None \<and>
            all_settled ((plan_tasks s)[i := settled (plan_tasks s ! i)]) then SCompleted else ss_state s)\<rparr>"
  have result: "session_apply s e = ?result i"
    if "converge_acknowledged_child_callback s ack = Inr e" "acknowledged_child_callback_task_index s ack = Inr i" for e i
    using that(1) by (rule converge_result) (use that(2) in simp)
  have "(\<exists>e. converge_acknowledged_child_callback s ack = Inr e \<and> session_apply s e = s') \<longleftrightarrow>
      (\<exists>i. acknowledged_child_callback_task_index s ack = Inr i \<and> s' = ?result i)"
  proof
    assume "\<exists>e. converge_acknowledged_child_callback s ack = Inr e \<and> session_apply s e = s'"
    then obtain e where e: "converge_acknowledged_child_callback s ack = Inr e" "session_apply s e = s'" by blast
    obtain i where i: "acknowledged_child_callback_task_index s ack = Inr i" using e(1) by (rule converge_result)
    show "\<exists>i. acknowledged_child_callback_task_index s ack = Inr i \<and> s' = ?result i"
      using i result [OF e(1) i] unfolding e(2) by blast
  next
    assume "\<exists>i. acknowledged_child_callback_task_index s ack = Inr i \<and> s' = ?result i"
    then obtain i where i: "acknowledged_child_callback_task_index s ack = Inr i" "s' = ?result i" by blast
    obtain e where e: "converge_acknowledged_child_callback s ack = Inr e" using converge_from_index [OF i(1)] by blast
    show "\<exists>e. converge_acknowledged_child_callback s ack = Inr e \<and> session_apply s e = s'"
      using e result [OF e i(1)] unfolding i(2) by blast
  qed
  then show ?thesis unfolding session_decide.simps acknowledged_index_iff by blast
qed

text \<open>
  C25: Converging an acknowledged callback is idempotent: after it was accepted once, the same
  acknowledgment is accepted again and changes nothing.
\<close>

theorem callback_convergence_idempotent:
  assumes "session_decide X s (ConvergeAcknowledgedChildCallback ack) = Inr e"
  shows "\<exists>e'. session_decide X (session_apply s e) (ConvergeAcknowledgedChildCallback ack) = Inr e' \<and>
    session_apply (session_apply s e) e' = session_apply s e"
  using converge_twice [of s ack e] assms by simp

text \<open>Witness of C25.\<close>

theorem callback_convergence_idempotent_witness:
  "\<exists>e. session_decide ref claimed_sample_session (ConvergeAcknowledgedChildCallback sample_ack) = Inr e \<and>
    (\<exists>e'. session_decide ref (session_apply claimed_sample_session e) (ConvergeAcknowledgedChildCallback sample_ack) = Inr e' \<and>
      session_apply (session_apply claimed_sample_session e) e' = session_apply claimed_sample_session e)"
proof -
  obtain e where e: "converge_acknowledged_child_callback claimed_sample_session sample_ack = Inr e"
    using converge_from_index [OF sample_ack_index] by blast
  then have d: "session_decide ref claimed_sample_session (ConvergeAcknowledgedChildCallback sample_ack) = Inr e" by simp
  from callback_convergence_idempotent [OF d] d show ?thesis by blast
qed

section \<open>Leaving and entering states\<close>

text \<open>The commands a runtime reports its end and its state with.\<close>

fun runtime_report :: "session_command \<Rightarrow> bool" where
  "runtime_report (CmdRuntimeCompleted r) = True"
| "runtime_report (CmdRuntimeFailed r) = True"
| "runtime_report (CmdRuntimeCancelled r) = True"
| "runtime_report (CmdRuntimeEnded r) = True"
| "runtime_report (ApplyRuntimeState st) = True"
| "runtime_report c = False"

text \<open>
  Interrupting is always accepted, and an interrupted session refuses the late reports of the
  runtime it interrupted: while the session had not ended, after the interruption no completion,
  failure, cancellation, end or state of any runtime is accepted, no task is left being done, and
  no input is queued.
\<close>

theorem interrupt_refuses_late_reports:
  assumes "\<not> session_is_terminal (ss_state s)"
  shows "\<exists>s'. session_execute X s InterruptSession = Inr (s', SessionInterrupted SInterrupted (ss_task_plan s')) \<and>
    ss_state s' = SInterrupted \<and> ss_active_runtime_id s' = None \<and> ss_pending_user_inputs s' = [] \<and>
    Doing \<notin> ts_status ` set (plan_tasks s') \<and>
    (\<forall>c. runtime_report c \<longrightarrow> \<not> is_ok (session_decide X s' c))"
proof -
  let ?p = "interrupt_tasks (ss_state s) (ss_task_plan s)"
  let ?s = "s\<lparr>ss_state := SInterrupted, ss_task_plan := ?p, ss_pending_user_inputs := [], ss_active_runtime_id := None\<rparr>"
  have "\<not> is_ok (session_decide X ?s c)" if "runtime_report c" for c
    using that by (cases c)
      (auto simp: is_ok_iff result_simps runtime_terminal_matches_def runtime_state_refused_def state_defs)
  moreover have "Doing \<notin> ts_status ` set (tp_detailed_tasks ?p)"
    using assms by (auto simp: interrupt_tasks_def)
  moreover have "session_execute X s InterruptSession = Inr (?s, SessionInterrupted SInterrupted ?p)"
    using assms by (simp add: session_execute_def)
  ultimately show ?thesis by (intro exI [of _ ?s]) simp
qed

text \<open>An instance: the completion of the interrupted runtime is refused.\<close>

theorem interrupt_refuses_late_reports_witness:
  "\<exists>s'. session_execute ref claimed_sample_session InterruptSession = Inr (s', SessionInterrupted SInterrupted (ss_task_plan s')) \<and>
    \<not> is_ok (session_decide ref s' (CmdRuntimeCompleted ''r1''))"
proof -
  have "\<not> session_is_terminal (ss_state claimed_sample_session)"
    by (simp add: claimed_sample_session_def state_defs)
  from interrupt_refuses_late_reports [OF this, of ref] show ?thesis
    using runtime_report.simps(1) by blast
qed

text \<open>
  A failed, cancelled or interrupted session is made busy again only by a new user turn or, when
  it failed, by a retry that names the last runtime: no runtime start, scheduled task, child claim or
  callback can revive it.
\<close>

theorem only_user_or_retry_revives:
  assumes "session_decide X s c = Inr e" "ss_state s \<in> {SFailed, SCancelled, SInterrupted}"
    and "is_recoverable_running (ss_state (session_apply s e))"
  shows "c = StartUserTurn \<or>
    (\<exists>r. c = CmdRuntimeRetried r (last (ss_runtime_ids s)) \<and> ss_state s = SFailed \<and> ss_runtime_ids s \<noteq> [] \<and>
       r \<noteq> last (ss_runtime_ids s))"
  using assms
  by (cases c) (auto simp: result_simps state_defs runtime_state_refused_def
      elim!: start_scheduled_task_ok claim_scheduled_child_task_ok converge_ok split: if_splits)

text \<open>An instance: a failed runtime is retried with another one.\<close>

theorem only_user_or_retry_revives_witness:
  "\<exists>s c e. session_decide ref s c = Inr e \<and> ss_state s = SFailed \<and> c \<noteq> StartUserTurn \<and>
     (\<exists>r. c = CmdRuntimeRetried r (last (ss_runtime_ids s)))"
proof -
  let ?s = "(session_new ''s1'')\<lparr>ss_state := SFailed, ss_runtime_ids := [''r1'']\<rparr>"
  let ?c = "CmdRuntimeRetried ''r2'' ''r1''"
  have d: "session_decide ref ?s ?c = Inr (EvRuntimeStarted ''r2'' SRunning)"
    by (simp add: session_new_def trim_session_samples)
  have f: "ss_state ?s \<in> {SFailed, SCancelled, SInterrupted}"
    "is_recoverable_running (ss_state (session_apply ?s (EvRuntimeStarted ''r2'' SRunning)))"
    by (simp_all add: state_defs)
  have "\<exists>r. ?c = CmdRuntimeRetried r (last (ss_runtime_ids ?s))"
    using only_user_or_retry_revives [OF d f] by blast
  then show ?thesis using d by (intro exI [of _ ?s] exI [of _ ?c]) auto
qed

section \<open>Where replay and polling fail\<close>

definition sample_done_task :: task_step where
  "sample_done_task = (task_step_default 0)\<lparr>ts_task_id := ''t1'', ts_status := Done, ts_task_summary := ''poll'',
     ts_start_condition := SessionIdle\<rparr>"

definition duplicate_session :: session_aggregate where
  "duplicate_session = (session_new ''s1'')\<lparr>ss_task_plan :=
     \<lparr>tp_plan_summary = ''plan'', tp_detailed_tasks = [sample_done_task, sample_task]\<rparr>\<rparr>"

text \<open>
  The identity condition of session replay is needed: with two tasks of one identity a session that meets
  its invariant accepts a scheduled task and then refuses the event it has just produced.
\<close>

theorem duplicate_identity_breaks_replay:
  "session_inv duplicate_session \<and>
   (\<exists>e. session_decide ref duplicate_session (StartScheduledTask ''t1'' ''first'' SessionIdle 0) = Inr e \<and>
      session_apply_committed ref duplicate_session e =
        Inl (Refused ''scheduled_task_claimed does not match a canonical scheduler result''))"
proof -
  have inv: "session_inv duplicate_session" by (simp add: session_inv_def duplicate_session_def session_new_def)
  show ?thesis
    by (intro conjI inv)
      (simp add: duplicate_session_def session_new_def start_scheduled_task_def startable_def sample_done_task_def
        sample_task_def task_step_default_def display_summary_def scheduler_eligible_def trim_samples
        advance_if_polling_def state_defs session_apply_committed_def scheduled_replay_command_def replay_instant_def)
qed

text \<open>
  A polling interval longer than chrono can represent panics when the task is started: the code
  limits the seconds to \<open>i64::MAX\<close>, while chrono refuses every duration of more than
  \<open>i64::MAX\<close> milliseconds.
\<close>

theorem long_polling_interval_panics:
  assumes chrono: "\<And>n. 9223372036854775 < n \<Longrightarrow> duration_seconds X n = None"
    and t: "position (startable (ss_task_plan s) tid summary PollingTask now) (plan_tasks s) = Some i"
    and long: "9223372036854775 < uint (poll_seconds (ts_poll_interval (plan_tasks s ! i)))"
    and run: "session_can_transition_to (ss_state s) SRunning"
  shows "session_decide X s (StartScheduledTask tid summary PollingTask now) = Inl Panicked"
proof -
  have c: "ts_start_condition (plan_tasks s ! i) = PollingTask"
    using position_nth [OF t] by (simp add: startable_def)
  have "poll_step X (ts_poll_interval (plan_tasks s ! i)) = None"
    using long unfolding poll_step_def by (intro chrono) simp
  then have "advance_if_polling X ((plan_tasks s ! i)\<lparr>ts_status := Doing\<rparr>) now = Inl Panicked"
    by (simp add: advance_if_polling_def advance_polling_start_def c)
  then show ?thesis using t run by (simp add: start_scheduled_task_def)
qed

text \<open>An instance: 200 billion days.\<close>

theorem long_polling_interval_panics_witness:
  "session_decide ref ((session_new ''s1'')\<lparr>ss_task_plan := \<lparr>tp_plan_summary = [],
      tp_detailed_tasks = [sample_polling_task\<lparr>ts_poll_interval := \<lparr>pi_m = 0, pi_d = 200000000000, pi_h = 0, pi_s = 0\<rparr>\<rparr>]\<rparr>\<rparr>)
     (StartScheduledTask ''poll'' ''poll'' PollingTask 5) = Inl Panicked"
proof (rule long_polling_interval_panics [where i = 0])
  show "9223372036854775 < n \<Longrightarrow> duration_seconds ref n = None" for n
    by (simp add: reference_externals_def)
qed (simp_all add: session_new_def startable_def sample_polling_task_def task_step_default_def
    scheduler_eligible_def display_summary_def trim_samples state_defs poll_seconds_def saturating_add_def
    saturating_mul_def)

end
