(* ===== verification/Session_Management.thy ===== *)
theory Session_Management
  imports Session_Lifecycle Runtime_Types
begin

text \<open>
  The root object of a session (\<open>SessionManagement\<close> of \<open>lifecycle/src/session_management.rs\<close>):
  the session aggregate with the settings, the log and the bookkeeping around it, the delta that
  is persisted between two states, and the wire form. The environment variables and the target
  the code reads are the record \<open>environment\<close>; the clock is an argument, as in the code.
  Where the code calls \<open>expect\<close> the result \<open>None\<close> is the panic.
\<close>

section \<open>The log\<close>

text \<open>
  The retained execution history of a session (\<open>SessionLogEntry\<close>, \<open>SessionLog\<close> and the
  retention records of \<open>lifecycle/src/session_management.rs\<close>): entries keep their exact text
  beside the parsed value, and the log keeps a counter of the tool results it holds.
\<close>

record session_log_entry =
  le_raw :: string
  le_value :: json

definition log_entry :: "externals \<Rightarrow> string \<Rightarrow> session_log_entry" where
  "log_entry X raw = \<lparr>le_raw = raw, le_value = (case json_parse X raw of Some v \<Rightarrow> v | None \<Rightarrow> JString raw)\<rparr>"

record session_log =
  sl_entries :: "session_log_entry list"
  sl_tool_result_count :: u64

definition session_log_default :: session_log where
  "session_log_default = \<lparr>sl_entries = [], sl_tool_result_count = 0\<rparr>"

definition is_tool_result :: "json \<Rightarrow> bool" where
  "is_tool_result v =
     ((case json_get v ''type'' of Some t \<Rightarrow> json_as_str t | None \<Rightarrow> None) = Some ''tool_result'')"

definition count_tool_results :: "session_log_entry list \<Rightarrow> u64" where
  "count_tool_results es = of_nat (length (filter (\<lambda>e. is_tool_result (le_value e)) es))"

definition log_from_raw :: "externals \<Rightarrow> string list \<Rightarrow> session_log" where
  "log_from_raw X raws =
     (let es = map (log_entry X) raws in \<lparr>sl_entries = es, sl_tool_result_count = count_tool_results es\<rparr>)"

definition log_push :: "externals \<Rightarrow> string \<Rightarrow> session_log \<Rightarrow> session_log" where
  "log_push X raw l =
     (let e = log_entry X raw
      in \<lparr>sl_entries = sl_entries l @ [e],
          sl_tool_result_count =
            (if is_tool_result (le_value e) then saturating_add (sl_tool_result_count l) 1
             else sl_tool_result_count l)\<rparr>)"

definition log_clear :: "session_log \<Rightarrow> session_log" where
  "log_clear l = \<lparr>sl_entries = [], sl_tool_result_count = 0\<rparr>"

text \<open>\<open>Vec::drain(0..index)\<close> panics (\<open>None\<close>) when the index is past the end.\<close>

definition log_retain_from :: "nat \<Rightarrow> session_log \<Rightarrow> session_log option" where
  "log_retain_from index l =
     (if index \<le> length (sl_entries l)
      then (let es = drop index (sl_entries l)
            in Some \<lparr>sl_entries = es, sl_tool_result_count = count_tool_results es\<rparr>)
      else None)"

definition log_next_tool_result_sequence :: "session_log \<Rightarrow> u64" where
  "log_next_tool_result_sequence l = saturating_add (sl_tool_result_count l) 1"

text \<open>The wire form is the list of the exact texts.\<close>

definition log_to_wire :: "session_log \<Rightarrow> string list" where
  "log_to_wire l = map le_raw (sl_entries l)"

definition log_from_wire :: "externals \<Rightarrow> string list \<Rightarrow> session_log" where
  "log_from_wire X raws =
     (let es = map (log_entry X) raws in \<lparr>sl_entries = es, sl_tool_result_count = count_tool_results es\<rparr>)"

record session_log_compaction_point =
  cp_compact_entry_index :: u64
  cp_retained_before :: u64
  cp_retained_from_index :: u64
  cp_compacted_at :: datetime

record session_log_retention =
  lr_omitted_entries :: u64
  lr_last_compaction :: "session_log_compaction_point option"

definition session_log_retention_default :: session_log_retention where
  "session_log_retention_default = \<lparr>lr_omitted_entries = 0, lr_last_compaction = None\<rparr>"

section \<open>Facts\<close>

text \<open>Entries are parsed from their texts and the counter counts the tool results.\<close>

definition log_inv :: "externals \<Rightarrow> session_log \<Rightarrow> bool" where
  "log_inv X l \<longleftrightarrow> (\<forall>e\<in>set (sl_entries l). e = log_entry X (le_raw e)) \<and>
     sl_tool_result_count l = count_tool_results (sl_entries l)"

text \<open>A vector holds fewer than \<open>2^64\<close> entries.\<close>

abbreviation log_fits :: "session_log \<Rightarrow> bool" where
  "log_fits l \<equiv> length (sl_entries l) < 2 ^ 64 - 1"

lemma le_raw_log_entry [simp]: "le_raw (log_entry X raw) = raw"
  by (simp add: log_entry_def)

lemma log_inv_default: "log_inv X session_log_default"
  by (simp add: log_inv_def session_log_default_def count_tool_results_def)

lemma log_inv_from_raw: "log_inv X (log_from_raw X raws)"
  by (simp add: log_inv_def log_from_raw_def Let_def)

lemma unat_of_nat_u64: "n < 2 ^ 64 \<Longrightarrow> unat (of_nat n :: u64) = n"
  by (simp add: unat_of_nat)

lemma saturating_add_of_nat:
  "m + n < 2 ^ 64 \<Longrightarrow> saturating_add (of_nat m) (of_nat n) = of_nat (m + n)"
  by (simp add: saturating_add_def unat_of_nat)

lemma count_tool_results_snoc:
  assumes "length es < 2 ^ 64 - 1"
  shows "count_tool_results (es @ [e]) =
    (if is_tool_result (le_value e) then saturating_add (count_tool_results es) 1 else count_tool_results es)"
proof -
  let ?n = "length (filter (\<lambda>e. is_tool_result (le_value e)) es)"
  have "?n + 1 < 2 ^ 64" using assms length_filter_le [of "\<lambda>e. is_tool_result (le_value e)" es] by linarith
  then have "saturating_add (of_nat ?n) (of_nat 1) = (of_nat (?n + 1) :: u64)"
    by (rule saturating_add_of_nat)
  then show ?thesis by (simp add: count_tool_results_def)
qed

lemma log_inv_push: "log_inv X l \<Longrightarrow> log_fits l \<Longrightarrow> log_inv X (log_push X raw l)"
  by (auto simp: log_inv_def log_push_def Let_def count_tool_results_snoc)

lemma log_inv_retain: "log_inv X l \<Longrightarrow> log_retain_from i l = Some l' \<Longrightarrow> log_inv X l'"
  using set_drop_subset [of i "sl_entries l"]
  by (auto simp: log_inv_def log_retain_from_def Let_def split: if_splits)

lemma log_wire_roundtrip:
  assumes "log_inv X l"
  shows "log_from_wire X (log_to_wire l) = l"
proof -
  have "map (log_entry X \<circ> le_raw) (sl_entries l) = sl_entries l"
    using assms by (intro map_idI) (simp add: log_inv_def)
  then show ?thesis
    using assms by (cases l) (simp add: log_from_wire_def log_to_wire_def Let_def log_inv_def)
qed

section \<open>The environment\<close>

record environment =
  env_var :: "string \<Rightarrow> string option"
  target_windows :: bool
  target_macos :: bool

definition env_bool_flag :: "string \<Rightarrow> bool" where
  "env_bool_flag v = (to_ascii_lowercase (trim v) \<in> {''1'', ''true'', ''yes'', ''on'', ''enabled''})"

definition goal_mode_enabled_from_env :: "environment \<Rightarrow> bool" where
  "goal_mode_enabled_from_env E =
     (case env_var E ''TURA_GOAL_MODE'' of
        None \<Rightarrow> False
      | Some v \<Rightarrow> env_bool_flag v \<or> to_ascii_lowercase (trim v) = to_ascii_lowercase ''goal'')"

definition no_op_manual_enabled_from_env :: "environment \<Rightarrow> bool" where
  "no_op_manual_enabled_from_env E =
     (case env_var E ''TURA_NO_OP_MANUAL'' of None \<Rightarrow> False | Some v \<Rightarrow> env_bool_flag v)"

section \<open>Task types and capabilities\<close>

definition is_legacy_session_kind :: "string \<Rightarrow> bool" where
  "is_legacy_session_kind v =
     (v \<in> {''coding'', ''general'', ''programming'', ''development'', ''testing''})"

fun normalize_task_types :: "string list \<Rightarrow> string list \<Rightarrow> string list" where
  "normalize_task_types out [] = out"
| "normalize_task_types out (value # values) =
     (if blank value \<or> is_legacy_session_kind (trim value) then normalize_task_types out values
      else normalize_task_types (push_unique (trim value) out) values)"

definition normalize_task_type_values :: "string list \<Rightarrow> string list" where
  "normalize_task_type_values values = normalize_task_types [] values"

definition active_shell_command_name :: "environment \<Rightarrow> string" where
  "active_shell_command_name E =
     (case map_option (\<lambda>v. to_ascii_lowercase (trim v)) (env_var E ''TURA_COMMAND_RUN_SHELL'') of
        Some v \<Rightarrow>
          (if v = ''bash'' then ''bash''
           else if v = ''zsh'' then ''zsh''
           else if v \<in> {''shell'', ''shell_command'', ''shll'', ''shall''} then ''shell_command''
           else if target_windows E then ''shell_command''
           else if target_macos E then ''zsh'' else ''bash'')
      | None \<Rightarrow>
          (if target_windows E then ''shell_command'' else if target_macos E then ''zsh'' else ''bash''))"

definition canonical_capability :: "environment \<Rightarrow> string \<Rightarrow> string" where
  "canonical_capability E value =
     (let v = replace_char (CHR ''-'') (CHR ''_'') (to_ascii_lowercase (trim value))
      in if v \<in> {''bash'', ''zsh'', ''shell'', ''shells'', ''shell_command'', ''shll'', ''shall''}
         then active_shell_command_name E
         else if v \<in> {''read_media'', ''view_media'', ''inspect_media''} then ''read_media''
         else if v \<in> {''web_discover'', ''web_search'', ''web_fetch'', ''discover_web'', ''search_web''}
         then ''web_discover''
         else if v \<in> {''generate_media'', ''image_gen'', ''generate_image'', ''text_to_image'', ''t2i''}
         then ''generate_media''
         else v)"

definition normalize_session_capability :: "environment \<Rightarrow> string \<Rightarrow> string option" where
  "normalize_session_capability E value =
     (let c = canonical_capability E value
      in if c = [] \<or> c = ''command_run'' then None else Some c)"

fun collect_capabilities :: "environment \<Rightarrow> string list \<Rightarrow> string list \<Rightarrow> string list" where
  "collect_capabilities E out [] = out"
| "collect_capabilities E out (value # values) =
     (case normalize_session_capability E value of
        None \<Rightarrow> collect_capabilities E out values
      | Some c \<Rightarrow> collect_capabilities E (push_unique c out) values)"

definition normalize_session_capabilities :: "environment \<Rightarrow> string list \<Rightarrow> string list" where
  "normalize_session_capabilities E values = collect_capabilities E [] values"

section \<open>The session object\<close>

record file_input =
  fi_file_name :: string
  fi_file_path :: string
  fi_file_size_bytes :: u64
  fi_last_modified_at :: datetime
  fi_description :: "string option"

record session_input =
  si_user_input :: string
  si_file_input :: "file_input list"
  si_agent :: "string option"
  si_runtime_context :: "string option"
  si_planning_mode_override :: "bool option"

record session_management =
  sm_lifecycle :: session_aggregate
  sm_session_name :: string
  sm_auto_session_name :: bool
  sm_session_directory :: string
  sm_session_uses_docker :: bool
  sm_task_type :: "string list"
  sm_session_capabilities :: "string list"
  sm_session_current_turn :: u64
  sm_session_log :: session_log
  sm_session_log_retention :: session_log_retention
  sm_session_created_at :: datetime
  sm_session_last_update_at :: datetime
  sm_session_last_user_message_at :: datetime
  sm_session_started_at :: datetime
  sm_input :: session_input
  sm_user_goal :: string
  sm_current_objective :: string
  sm_use_last_tool_call_response :: bool
  sm_is_child_session :: bool
  sm_disable_permission_restrictions :: bool
  sm_planning_enabled :: bool
  sm_reflection_enabled :: bool
  sm_op_manual_enabled :: bool
  sm_no_op_manual :: bool
  sm_goal_mode :: bool
  sm_last_goal_user_input :: string
  sm_context_tokens :: context_token_stats
  sm_runtime_usage :: json
  sm_jspace_contract :: "json option"

text \<open>\<open>SESSION_CONTEXT_TOKEN_LIMIT\<close> is the default limit of the context token statistics.\<close>

definition SESSION_CONTEXT_TOKEN_LIMIT :: u64 where
  "SESSION_CONTEXT_TOKEN_LIMIT = DEFAULT_CONTEXT_TOKEN_LIMIT"

definition management_new ::
  "environment \<Rightarrow> string \<Rightarrow> string \<Rightarrow> string \<Rightarrow> bool \<Rightarrow> string list \<Rightarrow> session_input \<Rightarrow> string \<Rightarrow> datetime \<Rightarrow>
   session_management" where
  "management_new E session_id session_name session_directory session_uses_docker task_type input user_goal now =
     (let goal_mode = goal_mode_enabled_from_env E;
          current_objective = trim (si_user_input input)
      in \<lparr>sm_lifecycle = session_new session_id, sm_session_name = session_name,
          sm_auto_session_name = True, sm_session_directory = session_directory,
          sm_session_uses_docker = session_uses_docker,
          sm_task_type = normalize_task_type_values task_type, sm_session_capabilities = [],
          sm_session_current_turn = 0, sm_session_log = session_log_default,
          sm_session_log_retention = session_log_retention_default, sm_session_created_at = now,
          sm_session_last_update_at = now, sm_session_last_user_message_at = now,
          sm_session_started_at = now, sm_input = input, sm_user_goal = user_goal,
          sm_current_objective = current_objective, sm_use_last_tool_call_response = True,
          sm_is_child_session = False, sm_disable_permission_restrictions = False,
          sm_planning_enabled = False, sm_reflection_enabled = False, sm_op_manual_enabled = True,
          sm_no_op_manual = no_op_manual_enabled_from_env E, sm_goal_mode = goal_mode,
          sm_last_goal_user_input = (if goal_mode then current_objective else []),
          sm_context_tokens = context_token_stats_default, sm_runtime_usage = JNull,
          sm_jspace_contract = None\<rparr>)"

section \<open>The persisted delta\<close>

record session_management_delta =
  md_session_name :: "string option"
  md_auto_session_name :: "bool option"
  md_task_type :: "(string list) option"
  md_session_capabilities :: "(string list) option"
  md_session_current_turn :: "u64 option"
  md_session_log_retention :: "session_log_retention option"
  md_session_last_update_at :: "datetime option"
  md_session_last_user_message_at :: "datetime option"
  md_session_started_at :: "datetime option"
  md_input :: "session_input option"
  md_user_goal :: "string option"
  md_current_objective :: "string option"
  md_use_last_tool_call_response :: "bool option"
  md_is_child_session :: "bool option"
  md_disable_permission_restrictions :: "bool option"
  md_planning_enabled :: "bool option"
  md_reflection_enabled :: "bool option"
  md_op_manual_enabled :: "bool option"
  md_no_op_manual :: "bool option"
  md_goal_mode :: "bool option"
  md_last_goal_user_input :: "string option"
  md_context_tokens :: "context_token_stats option"
  md_runtime_usage :: "json option"
  md_jspace_contract :: "json option"

text \<open>The macro \<open>changed!\<close>: nothing where the previous state has an equal field.\<close>

definition changed :: "('a \<Rightarrow> 'a \<Rightarrow> bool) \<Rightarrow> 'm option \<Rightarrow> 'm \<Rightarrow> ('m \<Rightarrow> 'a) \<Rightarrow> 'a option" where
  "changed eq previous current field =
     (case previous of
        Some m \<Rightarrow> if eq (field m) (field current) then None else Some (field current)
      | None \<Rightarrow> Some (field current))"

definition persistence_delta ::
  "session_management option \<Rightarrow> session_management \<Rightarrow> session_management_delta" where
  "persistence_delta previous current =
     \<lparr>md_session_name = changed (=) previous current sm_session_name,
      md_auto_session_name = changed (=) previous current sm_auto_session_name,
      md_task_type = changed (=) previous current sm_task_type,
      md_session_capabilities = changed (=) previous current sm_session_capabilities,
      md_session_current_turn = changed (=) previous current sm_session_current_turn,
      md_session_log_retention = changed (=) previous current sm_session_log_retention,
      md_session_last_update_at = changed (=) previous current sm_session_last_update_at,
      md_session_last_user_message_at = changed (=) previous current sm_session_last_user_message_at,
      md_session_started_at = changed (=) previous current sm_session_started_at,
      md_input = changed (=) previous current sm_input,
      md_user_goal = changed (=) previous current sm_user_goal,
      md_current_objective = changed (=) previous current sm_current_objective,
      md_use_last_tool_call_response = changed (=) previous current sm_use_last_tool_call_response,
      md_is_child_session = changed (=) previous current sm_is_child_session,
      md_disable_permission_restrictions = changed (=) previous current sm_disable_permission_restrictions,
      md_planning_enabled = changed (=) previous current sm_planning_enabled,
      md_reflection_enabled = changed (=) previous current sm_reflection_enabled,
      md_op_manual_enabled = changed (=) previous current sm_op_manual_enabled,
      md_no_op_manual = changed (=) previous current sm_no_op_manual,
      md_goal_mode = changed (=) previous current sm_goal_mode,
      md_last_goal_user_input = changed (=) previous current sm_last_goal_user_input,
      md_context_tokens = changed (=) previous current sm_context_tokens,
      md_runtime_usage = changed json_eq previous current sm_runtime_usage,
      md_jspace_contract =
        (if (case previous of Some m \<Rightarrow> rel_option json_eq (sm_jspace_contract m) (sm_jspace_contract current) | None \<Rightarrow> False)
         then None else sm_jspace_contract current)\<rparr>"

text \<open>The macro \<open>apply!\<close>.\<close>

definition updated :: "'a option \<Rightarrow> 'a \<Rightarrow> 'a" where
  "updated change old = (case change of Some v \<Rightarrow> v | None \<Rightarrow> old)"

definition apply_persistence_delta ::
  "session_management \<Rightarrow> session_management_delta \<Rightarrow> session_management" where
  "apply_persistence_delta m delta =
     m\<lparr>sm_session_name := updated (md_session_name delta) (sm_session_name m),
      sm_auto_session_name := updated (md_auto_session_name delta) (sm_auto_session_name m),
      sm_task_type := updated (md_task_type delta) (sm_task_type m),
      sm_session_capabilities := updated (md_session_capabilities delta) (sm_session_capabilities m),
      sm_session_current_turn := updated (md_session_current_turn delta) (sm_session_current_turn m),
      sm_session_log_retention := updated (md_session_log_retention delta) (sm_session_log_retention m),
      sm_session_last_update_at := updated (md_session_last_update_at delta) (sm_session_last_update_at m),
      sm_session_last_user_message_at := updated (md_session_last_user_message_at delta) (sm_session_last_user_message_at m),
      sm_session_started_at := updated (md_session_started_at delta) (sm_session_started_at m),
      sm_input := updated (md_input delta) (sm_input m),
      sm_user_goal := updated (md_user_goal delta) (sm_user_goal m),
      sm_current_objective := updated (md_current_objective delta) (sm_current_objective m),
      sm_use_last_tool_call_response := updated (md_use_last_tool_call_response delta) (sm_use_last_tool_call_response m),
      sm_is_child_session := updated (md_is_child_session delta) (sm_is_child_session m),
      sm_disable_permission_restrictions := updated (md_disable_permission_restrictions delta) (sm_disable_permission_restrictions m),
      sm_planning_enabled := updated (md_planning_enabled delta) (sm_planning_enabled m),
      sm_reflection_enabled := updated (md_reflection_enabled delta) (sm_reflection_enabled m),
      sm_op_manual_enabled := updated (md_op_manual_enabled delta) (sm_op_manual_enabled m),
      sm_no_op_manual := updated (md_no_op_manual delta) (sm_no_op_manual m),
      sm_goal_mode := updated (md_goal_mode delta) (sm_goal_mode m),
      sm_last_goal_user_input := updated (md_last_goal_user_input delta) (sm_last_goal_user_input m),
      sm_context_tokens := updated (md_context_tokens delta) (sm_context_tokens m),
      sm_runtime_usage := updated (md_runtime_usage delta) (sm_runtime_usage m),
      sm_jspace_contract :=
        (case md_jspace_contract delta of Some v \<Rightarrow> Some v | None \<Rightarrow> sm_jspace_contract m)\<rparr>"

text \<open>
  What a delta is after serde\_json: every field is skipped when it is \<open>None\<close>, and the two fields
  that hold JSON values lose a \<open>null\<close>. The other fields have no \<open>null\<close> of their own.
\<close>

definition delta_over_wire :: "session_management_delta \<Rightarrow> session_management_delta" where
  "delta_over_wire d =
     d\<lparr>md_runtime_usage := optional_value_over_wire (md_runtime_usage d),
       md_jspace_contract := optional_value_over_wire (md_jspace_contract d)\<rparr>"

section \<open>Operations\<close>

definition lifecycle_projection :: "session_management \<Rightarrow> session_projection" where
  "lifecycle_projection m = session_query_projection (sm_lifecycle m) SessionLifecycle"

definition replace_lifecycle_projection :: "session_management \<Rightarrow> session_projection \<Rightarrow> session_management" where
  "replace_lifecycle_projection m v =
     m\<lparr>sm_lifecycle :=
        \<lparr>ss_session_id = sv_session_id v, ss_state = sv_state v, ss_parent_id = sv_parent_id v,
         ss_task_plan = sv_task_plan v, ss_pending_user_inputs = sv_pending_user_inputs v,
         ss_cancelled = sv_cancelled v, ss_runtime_ids = sv_runtime_ids v,
         ss_active_runtime_id = sv_active_runtime_id v\<rparr>\<rparr>"

definition rebind_session_id :: "session_management \<Rightarrow> string \<Rightarrow> session_management" where
  "rebind_session_id m session_id = m\<lparr>sm_lifecycle := (sm_lifecycle m)\<lparr>ss_session_id := session_id\<rparr>\<rparr>"

definition interrupt :: "externals \<Rightarrow> session_management \<Rightarrow> datetime \<Rightarrow> session_management option" where
  "interrupt X m now =
     (case session_execute X (sm_lifecycle m) InterruptSession of
        Inl _ \<Rightarrow> None
      | Inr (l, e) \<Rightarrow> Some (m\<lparr>sm_lifecycle := l, sm_session_last_update_at := now\<rparr>))"

definition management_transition ::
  "externals \<Rightarrow> session_management \<Rightarrow> session_state \<Rightarrow> datetime \<Rightarrow> (commit_failure, session_management) result" where
  "management_transition X m next now =
     and_then (map_err commit_failure_of (session_execute X (sm_lifecycle m) (ApplyRuntimeState next))) (\<lambda>(l, e).
       Inr (m\<lparr>sm_lifecycle := l, sm_session_last_update_at := now\<rparr>))"

definition replace_task_plan ::
  "externals \<Rightarrow> session_management \<Rightarrow> task_plan \<Rightarrow> datetime \<Rightarrow> session_management option" where
  "replace_task_plan X m p now =
     (case session_execute X (sm_lifecycle m) (ApplyTaskStatus p) of
        Inl _ \<Rightarrow> None
      | Inr (l, e) \<Rightarrow> Some (m\<lparr>sm_lifecycle := l, sm_session_last_update_at := now\<rparr>))"

definition prepare_for_new_user_turn ::
  "externals \<Rightarrow> environment \<Rightarrow> session_management \<Rightarrow> session_input \<Rightarrow> datetime \<Rightarrow> session_management option" where
  "prepare_for_new_user_turn X E m input now =
     (let objective = trim (si_user_input input);
          goal = goal_mode_enabled_from_env E;
          m1 = m\<lparr>sm_current_objective := objective,
                 sm_goal_mode := (if goal then True else sm_goal_mode m),
                 sm_last_goal_user_input := (if goal then objective else sm_last_goal_user_input m),
                 sm_no_op_manual := no_op_manual_enabled_from_env E,
                 sm_input := input, sm_session_last_user_message_at := now\<rparr>;
          previous = ss_state (sm_lifecycle m1)
      in case session_execute X (sm_lifecycle m1) SubmitUserInput of
           Inl _ \<Rightarrow> None
         | Inr (l, e) \<Rightarrow>
             Some (m1\<lparr>sm_lifecycle := l,
               sm_session_started_at := (if previous \<noteq> ss_state l then now else sm_session_started_at m1),
               sm_session_last_update_at := now\<rparr>))"

definition replace_task_type :: "session_management \<Rightarrow> string list \<Rightarrow> session_management \<times> string list" where
  "replace_task_type m task_type =
     (let next = normalize_task_type_values task_type
      in (m\<lparr>sm_task_type := next\<rparr>, filter (\<lambda>t. t \<notin> set (sm_task_type m)) next))"

fun record_capabilities ::
  "environment \<Rightarrow> string list \<Rightarrow> string list \<Rightarrow> string list \<Rightarrow> string list \<times> string list" where
  "record_capabilities E caps added [] = (caps, added)"
| "record_capabilities E caps added (value # values) =
     (case normalize_session_capability E value of
        None \<Rightarrow> record_capabilities E caps added values
      | Some c \<Rightarrow>
          if c \<in> set caps then record_capabilities E caps added values
          else record_capabilities E (caps @ [c]) (added @ [c]) values)"

definition record_session_capabilities_at ::
  "environment \<Rightarrow> session_management \<Rightarrow> string list \<Rightarrow> datetime \<Rightarrow> session_management \<times> string list" where
  "record_session_capabilities_at E m capabilities now =
     (let (caps, added) = record_capabilities E (sm_session_capabilities m) [] capabilities;
          m1 = m\<lparr>sm_session_capabilities := caps\<rparr>
      in (if added \<noteq> [] then m1\<lparr>sm_session_last_update_at := now\<rparr> else m1, added))"

definition reset_session_capabilities_at ::
  "environment \<Rightarrow> session_management \<Rightarrow> string list \<Rightarrow> datetime \<Rightarrow> session_management" where
  "reset_session_capabilities_at E m capabilities now =
     m\<lparr>sm_session_capabilities := normalize_session_capabilities E capabilities, sm_session_last_update_at := now\<rparr>"

definition has_session_capability :: "environment \<Rightarrow> session_management \<Rightarrow> string \<Rightarrow> bool" where
  "has_session_capability E m capability =
     (case normalize_session_capability E capability of
        None \<Rightarrow> False | Some c \<Rightarrow> c \<in> set (sm_session_capabilities m))"

definition push_log :: "externals \<Rightarrow> session_management \<Rightarrow> string \<Rightarrow> datetime \<Rightarrow> session_management" where
  "push_log X m raw now =
     m\<lparr>sm_session_log := log_push X raw (sm_session_log m), sm_session_last_update_at := now\<rparr>"

definition replace_session_log :: "externals \<Rightarrow> session_management \<Rightarrow> string list \<Rightarrow> session_management" where
  "replace_session_log X m entries = m\<lparr>sm_session_log := log_from_raw X entries\<rparr>"

definition clear_session_log :: "session_management \<Rightarrow> session_management" where
  "clear_session_log m = m\<lparr>sm_session_log := log_clear (sm_session_log m)\<rparr>"

definition next_tool_result_sequence :: "session_management \<Rightarrow> u64" where
  "next_tool_result_sequence m = log_next_tool_result_sequence (sm_session_log m)"

definition persistence_view :: "session_management \<Rightarrow> u64 \<Rightarrow> session_management" where
  "persistence_view m retained_from_sequence =
     m\<lparr>sm_session_log := session_log_default,
       sm_session_log_retention := (sm_session_log_retention m)\<lparr>lr_omitted_entries := retained_from_sequence\<rparr>\<rparr>"

definition record_context_compaction_point ::
  "session_management \<Rightarrow> nat \<Rightarrow> nat \<Rightarrow> datetime \<Rightarrow> session_management option" where
  "record_context_compaction_point m retained_from_index compact_entry_index now =
     (let len = length (sl_entries (sm_session_log m));
          retained = min retained_from_index len;
          compact = min compact_entry_index (len - 1);
          omitted = lr_omitted_entries (sm_session_log_retention m);
          retained_absolute = saturating_add omitted (of_nat retained);
          compact_absolute = saturating_add omitted (of_nat compact);
          trimmed = (if retained > 0
                     then (case log_retain_from retained (sm_session_log m) of
                             None \<Rightarrow> None
                           | Some l \<Rightarrow> Some (m\<lparr>sm_session_log := l,
                               sm_session_log_retention :=
                                 (sm_session_log_retention m)\<lparr>lr_omitted_entries := retained_absolute\<rparr>\<rparr>))
                     else Some m)
      in case trimmed of
           None \<Rightarrow> None
         | Some m1 \<Rightarrow>
             Some (m1\<lparr>sm_session_log_retention := (sm_session_log_retention m1)
                       \<lparr>lr_last_compaction := Some
                          \<lparr>cp_compact_entry_index = compact_absolute,
                           cp_retained_before = lr_omitted_entries (sm_session_log_retention m1),
                           cp_retained_from_index = retained_absolute, cp_compacted_at = now\<rparr>\<rparr>,
                     sm_session_last_update_at := now\<rparr>))"

definition absolute_session_log_index :: "session_management \<Rightarrow> nat \<Rightarrow> u64" where
  "absolute_session_log_index m local_index =
     saturating_add (lr_omitted_entries (sm_session_log_retention m)) (of_nat local_index)"

definition record_user_message_at :: "session_management \<Rightarrow> datetime \<Rightarrow> session_management" where
  "record_user_message_at m now = m\<lparr>sm_session_last_user_message_at := now, sm_session_last_update_at := now\<rparr>"

text \<open>\<open>+= 1\<close> on a \<open>u64\<close>: with overflow checks it panics (\<open>None\<close>), without them it wraps.\<close>

definition increment_turn :: "bool \<Rightarrow> session_management \<Rightarrow> datetime \<Rightarrow> session_management option" where
  "increment_turn overflow_checks m now =
     (if overflow_checks \<and> sm_session_current_turn m = - 1 then None
      else Some (m\<lparr>sm_session_current_turn := sm_session_current_turn m + 1, sm_session_last_update_at := now\<rparr>))"

section \<open>The wire form\<close>

text \<open>
  The fields in the order they are written. \<open>mw_jspace_contract\<close> is \<open>None\<close> when the field is
  absent; a \<open>null\<close> is read as an absent value.
\<close>

record management_wire =
  mw_session_id :: string
  mw_state :: session_state
  mw_session_name :: string
  mw_auto_session_name :: bool
  mw_session_directory :: string
  mw_session_uses_docker :: bool
  mw_task_type :: "string list"
  mw_session_capabilities :: "string list"
  mw_session_current_turn :: u64
  mw_session_log :: "string list"
  mw_session_log_retention :: session_log_retention
  mw_session_created_at :: datetime
  mw_session_last_update_at :: datetime
  mw_session_last_user_message_at :: datetime
  mw_session_started_at :: datetime
  mw_input :: session_input
  mw_user_goal :: string
  mw_current_objective :: string
  mw_task_plan :: task_plan
  mw_use_last_tool_call_response :: bool
  mw_is_child_session :: bool
  mw_disable_permission_restrictions :: bool
  mw_planning_enabled :: bool
  mw_reflection_enabled :: bool
  mw_op_manual_enabled :: bool
  mw_no_op_manual :: bool
  mw_goal_mode :: bool
  mw_last_goal_user_input :: string
  mw_context_tokens :: context_token_stats
  mw_runtime_usage :: json
  mw_jspace_contract :: "json option"

definition management_to_wire :: "session_management \<Rightarrow> management_wire" where
  "management_to_wire m =
     \<lparr>mw_session_id = ss_session_id (sm_lifecycle m),
      mw_state = ss_state (sm_lifecycle m),
      mw_session_name = sm_session_name m,
      mw_auto_session_name = sm_auto_session_name m,
      mw_session_directory = sm_session_directory m,
      mw_session_uses_docker = sm_session_uses_docker m,
      mw_task_type = sm_task_type m,
      mw_session_capabilities = sm_session_capabilities m,
      mw_session_current_turn = sm_session_current_turn m,
      mw_session_log = log_to_wire (sm_session_log m),
      mw_session_log_retention = sm_session_log_retention m,
      mw_session_created_at = sm_session_created_at m,
      mw_session_last_update_at = sm_session_last_update_at m,
      mw_session_last_user_message_at = sm_session_last_user_message_at m,
      mw_session_started_at = sm_session_started_at m,
      mw_input = sm_input m,
      mw_user_goal = sm_user_goal m,
      mw_current_objective = sm_current_objective m,
      mw_task_plan = ss_task_plan (sm_lifecycle m),
      mw_use_last_tool_call_response = sm_use_last_tool_call_response m,
      mw_is_child_session = sm_is_child_session m,
      mw_disable_permission_restrictions = sm_disable_permission_restrictions m,
      mw_planning_enabled = sm_planning_enabled m,
      mw_reflection_enabled = sm_reflection_enabled m,
      mw_op_manual_enabled = sm_op_manual_enabled m,
      mw_no_op_manual = sm_no_op_manual m,
      mw_goal_mode = sm_goal_mode m,
      mw_last_goal_user_input = sm_last_goal_user_input m,
      mw_context_tokens = sm_context_tokens m,
      mw_runtime_usage = sm_runtime_usage m,
      mw_jspace_contract = sm_jspace_contract m\<rparr>"

definition management_from_wire :: "externals \<Rightarrow> management_wire \<Rightarrow> session_management" where
  "management_from_wire X w =
     \<lparr>sm_lifecycle = 
        \<lparr>ss_session_id = mw_session_id w, ss_state = mw_state w, ss_parent_id = None,
         ss_task_plan = mw_task_plan w, ss_pending_user_inputs = [], ss_cancelled = False,
         ss_runtime_ids = [], ss_active_runtime_id = None\<rparr>,
      sm_session_name = mw_session_name w,
      sm_auto_session_name = mw_auto_session_name w,
      sm_session_directory = mw_session_directory w,
      sm_session_uses_docker = mw_session_uses_docker w,
      sm_task_type = mw_task_type w,
      sm_session_capabilities = mw_session_capabilities w,
      sm_session_current_turn = mw_session_current_turn w,
      sm_session_log = log_from_wire X (mw_session_log w),
      sm_session_log_retention = mw_session_log_retention w,
      sm_session_created_at = mw_session_created_at w,
      sm_session_last_update_at = mw_session_last_update_at w,
      sm_session_last_user_message_at = mw_session_last_user_message_at w,
      sm_session_started_at = mw_session_started_at w,
      sm_input = mw_input w,
      sm_user_goal = mw_user_goal w,
      sm_current_objective = mw_current_objective w,
      sm_use_last_tool_call_response = mw_use_last_tool_call_response w,
      sm_is_child_session = mw_is_child_session w,
      sm_disable_permission_restrictions = mw_disable_permission_restrictions w,
      sm_planning_enabled = mw_planning_enabled w,
      sm_reflection_enabled = mw_reflection_enabled w,
      sm_op_manual_enabled = mw_op_manual_enabled w,
      sm_no_op_manual = mw_no_op_manual w,
      sm_goal_mode = mw_goal_mode w,
      sm_last_goal_user_input = mw_last_goal_user_input w,
      sm_context_tokens = mw_context_tokens w,
      sm_runtime_usage = mw_runtime_usage w,
      sm_jspace_contract = optional_value_over_wire (mw_jspace_contract w)\<rparr>"

end
