(* ===== verification/Session_Projection.thy ===== *)
theory Session_Projection
  imports Session_Management
begin

text \<open>
  The JSON views of a task plan (\<open>lifecycle/src/session_projection.rs\<close>). \<open>json_set\<close> is the
  assignment \<open>value["key"] = v\<close> on an object.
\<close>

definition task_state_value :: "task_step \<Rightarrow> json option" where
  "task_state_value t = (if ts_status t \<noteq> Todo then Some (plan_status_json (ts_status t)) else None)"

definition with_status :: "task_step \<Rightarrow> json \<Rightarrow> json" where
  "with_status t v = (case task_state_value t of Some s \<Rightarrow> json_set ''status'' s v | None \<Rightarrow> v)"

definition with_contract :: "task_step \<Rightarrow> json \<Rightarrow> json" where
  "with_contract t v =
     (case ts_scheduling_contract t of
        Some c \<Rightarrow> json_set ''scheduling_contract'' (contract_to_value c) v | None \<Rightarrow> v)"

definition task_fields :: "externals \<Rightarrow> task_step \<Rightarrow> (string \<times> json) list" where
  "task_fields X t =
     [(''task_id'', JString (ts_task_id t)), (''step'', json_u64 (ts_step t)),
      (''task_summary'', JString (ts_task_summary t)),
      (''deliverable'', JString (ts_step_deliverable_description t)),
      (''sub_session_id'', JString (ts_sub_session_id t)),
      (''start_condition'', start_condition_json (ts_start_condition t)),
      (''start_at'', JString (datetime_text X (ts_start_at t))),
      (''poll_interval'', poll_interval_json (ts_poll_interval t))]"

definition task_plan_summary_json :: "externals \<Rightarrow> session_management \<Rightarrow> json" where
  "task_plan_summary_json X m =
     (let p = ss_task_plan (sm_lifecycle m)
      in JObject [(''plan_summary'', JString (tp_plan_summary p)),
           (''tasks'', JArray (map (\<lambda>(i, t). with_contract t (with_status t
              (JObject ((''index'', json_u64 (of_nat (i + 1))) # task_fields X t))))
              (List.enumerate 0 (tp_detailed_tasks p))))])"

definition task_plan_detail_json :: "externals \<Rightarrow> session_management \<Rightarrow> json" where
  "task_plan_detail_json X m =
     (let p = ss_task_plan (sm_lifecycle m)
      in JObject [(''plan_summary'', JString (tp_plan_summary p)),
           (''detailed_tasks'', JArray (map (task_to_value X) (tp_detailed_tasks p)))])"

text \<open>The view of a plan with at most one task, which is flat.\<close>

definition single_task_json :: "externals \<Rightarrow> task_plan \<Rightarrow> task_step option \<Rightarrow> datetime \<Rightarrow> json" where
  "single_task_json X p task session_started_at =
     (let task_summary = (case task of
            Some t \<Rightarrow> if blank (ts_task_summary t) then tp_plan_summary p else ts_task_summary t
          | None \<Rightarrow> tp_plan_summary p);
          value = JObject
            [(''task_id'', JString (case task of Some t \<Rightarrow> ts_task_id t | None \<Rightarrow> [])),
             (''step'', json_u64 (case task of Some t \<Rightarrow> ts_step t | None \<Rightarrow> 0)),
             (''plan_summary'', JString (tp_plan_summary p)),
             (''task_summary'', JString task_summary),
             (''deliverable'', JString (case task of Some t \<Rightarrow> ts_step_deliverable_description t | None \<Rightarrow> [])),
             (''sub_session_id'', JString (case task of Some t \<Rightarrow> ts_sub_session_id t | None \<Rightarrow> [])),
             (''start_condition'', start_condition_json
                (case task of Some t \<Rightarrow> ts_start_condition t | None \<Rightarrow> UserAction)),
             (''start_at'', JString (datetime_text X
                (case task of Some t \<Rightarrow> ts_start_at t | None \<Rightarrow> session_started_at))),
             (''poll_interval'', poll_interval_json
                (case task of Some t \<Rightarrow> ts_poll_interval t | None \<Rightarrow> poll_interval_default))]
      in case task of Some t \<Rightarrow> with_contract t (with_status t value) | None \<Rightarrow> value)"

definition task_management_json :: "externals \<Rightarrow> task_plan \<Rightarrow> datetime \<Rightarrow> json" where
  "task_management_json X p session_started_at =
     (case tp_detailed_tasks p of
        [] \<Rightarrow> single_task_json X p None session_started_at
      | [t] \<Rightarrow> single_task_json X p (Some t) session_started_at
      | ts \<Rightarrow> JObject [(''plan_summary'', JString (tp_plan_summary p)),
          (''tasks'', JArray (map (\<lambda>t. with_contract t (with_status t (JObject (task_fields X t)))) ts))])"

section \<open>Facts\<close>

lemma map_of_filter_key: "map_of (filter (\<lambda>p. fst p \<noteq> k) kvs) l = (if l = k then None else map_of kvs l)"
  by (induction kvs) auto

lemma json_get_set:
  "v = JObject kvs \<Longrightarrow> json_get (json_set k x v) l = (if l = k then Some x else json_get v l)"
  by (simp add: json_get_def json_set_def map_of_filter_key map_add_def split: option.split)

lemma json_get_object: "json_get (JObject kvs) k = map_of kvs k"
  by (simp add: json_get_def)

lemma with_status_object: "\<exists>lws. with_status t (JObject kvs) = JObject lws"
  by (simp add: with_status_def json_set_def split: option.split)

text \<open>The fields a view adds are read back from it, and no other field changes.\<close>

lemma json_get_with_contract:
  "json_get (with_contract t (JObject kvs)) k =
   (if k = ''scheduling_contract'' \<and> ts_scheduling_contract t \<noteq> None
    then map_option contract_to_value (ts_scheduling_contract t) else map_of kvs k)"
  by (cases "ts_scheduling_contract t") (simp_all add: with_contract_def json_get_set json_get_object)

lemma json_get_with_status:
  "json_get (with_status t (JObject kvs)) k =
   (if k = ''status'' \<and> ts_status t \<noteq> Todo then Some (plan_status_json (ts_status t)) else map_of kvs k)"
  by (simp add: with_status_def task_state_value_def json_get_set json_get_object)

lemma json_get_view:
  "json_get (with_contract t (with_status t (JObject kvs))) k =
   (if k = ''scheduling_contract'' \<and> ts_scheduling_contract t \<noteq> None
    then map_option contract_to_value (ts_scheduling_contract t)
    else if k = ''status'' \<and> ts_status t \<noteq> Todo then Some (plan_status_json (ts_status t))
    else map_of kvs k)"
proof -
  obtain lws where w: "with_status t (JObject kvs) = JObject lws" using with_status_object by blast
  have "map_of lws k = json_get (with_status t (JObject kvs)) k" by (simp add: w json_get_object)
  then show ?thesis unfolding json_get_with_status unfolding w json_get_with_contract by auto
qed

end
