(* ===== verification/Management_Facts.thy ===== *)
theory Management_Facts
  imports Session_Projection Session_Facts
begin

text \<open>
  What holds of the session object: what a persisted delta carries and what it loses, that
  compaction keeps the absolute position of every retained entry, that capabilities are kept
  canonical, and that the calls the code expects to succeed do.
\<close>

section \<open>Deltas\<close>

lemma updated_changed:
  "updated (changed (=) (Some previous) current field) (field previous) = field current"
  "updated (changed eq None current field) x = field current"
  by (simp_all add: updated_def changed_def)

lemma updated_changed_json:
  "updated (changed json_eq (Some previous) current field) (field previous) =
   (if json_eq (field previous) (field current) then field previous else field current)"
  by (simp add: updated_def changed_def)

text \<open>The part of a state no delta carries.\<close>

definition undelta :: "session_management \<Rightarrow> session_management \<Rightarrow> session_management" where
  "undelta base m =
     m\<lparr>sm_lifecycle := sm_lifecycle base, sm_session_directory := sm_session_directory base,
       sm_session_uses_docker := sm_session_uses_docker base, sm_session_log := sm_session_log base,
       sm_session_created_at := sm_session_created_at base\<rparr>"

lemma apply_delta_exact:
  "apply_persistence_delta previous (persistence_delta (Some previous) current) =
   (undelta previous current)
     \<lparr>sm_runtime_usage := (if json_eq (sm_runtime_usage previous) (sm_runtime_usage current)
         then sm_runtime_usage previous else sm_runtime_usage current),
      sm_jspace_contract :=
        (if rel_option json_eq (sm_jspace_contract previous) (sm_jspace_contract current) \<or>
            sm_jspace_contract current = None
         then sm_jspace_contract previous else sm_jspace_contract current)\<rparr>"
proof -
  have j: "(case (if rel_option json_eq (sm_jspace_contract previous) (sm_jspace_contract current) then None
        else sm_jspace_contract current) of Some v \<Rightarrow> Some v | None \<Rightarrow> sm_jspace_contract previous) =
      (if rel_option json_eq (sm_jspace_contract previous) (sm_jspace_contract current) \<or>
            sm_jspace_contract current = None
         then sm_jspace_contract previous else sm_jspace_contract current)"
    by (simp split: option.split)
  show ?thesis
    by (simp add: apply_persistence_delta_def persistence_delta_def undelta_def updated_changed
        updated_changed_json j)
qed

section \<open>Compaction\<close>

lemma saturating_add_assoc_nat:
  assumes "r \<le> i" "i < 2 ^ 64"
  shows "saturating_add (saturating_add a (of_nat r)) (of_nat (i - r)) = saturating_add a (of_nat i)"
proof -
  have "unat (of_nat r :: u64) = r" "unat (of_nat (i - r) :: u64) = i - r" "unat (of_nat i :: u64) = i"
    using assms unat_of_nat_u64 [of r] unat_of_nat_u64 [of "i - r"] unat_of_nat_u64 [of i] by linarith+
  then have "unat (saturating_add (saturating_add a (of_nat r)) (of_nat (i - r))) =
      unat (saturating_add a (of_nat i))"
    using assms by (simp only: unat_saturating_add)
  then show ?thesis by (simp only: word_unat_eq_iff)
qed

lemma saturating_add_0: "saturating_add a 0 = a"
proof -
  have "unat (saturating_add a 0) = unat a"
    using unsigned_less [of a, where 'a = nat] by (simp add: unat_saturating_add)
  then show ?thesis by (simp only: word_unat_eq_iff)
qed

lemma log_retain_from_0: "log_inv X l \<Longrightarrow> log_retain_from 0 l = Some l"
  by (cases l) (simp add: log_retain_from_def log_inv_def)

lemma compaction_result:
  assumes inv: "log_inv X (sm_session_log m)"
    and r: "r' = min r (length (sl_entries (sm_session_log m)))"
  obtains m' where "record_context_compaction_point m r c now = Some m'"
    "log_retain_from r' (sm_session_log m) = Some (sm_session_log m')"
    "lr_omitted_entries (sm_session_log_retention m') =
       saturating_add (lr_omitted_entries (sm_session_log_retention m)) (of_nat r')"
proof -
  obtain l where l: "log_retain_from r' (sm_session_log m) = Some l"
    by (simp add: log_retain_from_def r Let_def)
  define m1 where "m1 = (if r' > 0 then m\<lparr>sm_session_log := l, sm_session_log_retention :=
      (sm_session_log_retention m)\<lparr>lr_omitted_entries :=
        saturating_add (lr_omitted_entries (sm_session_log_retention m)) (of_nat r')\<rparr>\<rparr> else m)"
  have "l = sm_session_log m" if "r' = 0" using l log_retain_from_0 [OF inv] that by simp
  then have m1: "sm_session_log m1 = l" "lr_omitted_entries (sm_session_log_retention m1) =
      saturating_add (lr_omitted_entries (sm_session_log_retention m)) (of_nat r')"
    by (auto simp: m1_def saturating_add_0)
  have "\<exists>m'. record_context_compaction_point m r c now = Some m' \<and> sm_session_log m' = sm_session_log m1 \<and>
      lr_omitted_entries (sm_session_log_retention m') = lr_omitted_entries (sm_session_log_retention m1)"
    unfolding record_context_compaction_point_def Let_def r [symmetric] l m1_def by auto
  then show ?thesis using that l m1 by auto
qed

section \<open>Capabilities and task types\<close>

lemma set_collect_capabilities:
  "set (collect_capabilities E out vs) =
   set out \<union> {c. \<exists>v\<in>set vs. normalize_session_capability E v = Some c}"
  by (induction vs arbitrary: out) (auto split: option.splits)

lemma distinct_collect_capabilities: "distinct out \<Longrightarrow> distinct (collect_capabilities E out vs)"
  by (induction vs arbitrary: out) (auto split: option.splits)

lemma record_capabilities_eq:
  "record_capabilities E caps added vs = (caps', added') \<Longrightarrow>
   \<exists>new. caps' = caps @ new \<and> added' = added @ new \<and>
     set caps' = set caps \<union> {c. \<exists>v\<in>set vs. normalize_session_capability E v = Some c} \<and>
     (distinct caps \<longrightarrow> distinct caps')"
proof (induction vs arbitrary: caps added)
  case Nil
  then show ?case by auto
next
  case (Cons v vs)
  show ?case
  proof (cases "normalize_session_capability E v")
    case None
    with Cons show ?thesis by simp
  next
    case (Some c)
    show ?thesis
    proof (cases "c \<in> set caps")
      case True
      with Some Cons.prems have "record_capabilities E caps added vs = (caps', added')" by simp
      from Cons.IH [OF this] True Some show ?thesis by auto
    next
      case False
      with Some Cons.prems have "record_capabilities E (caps @ [c]) (added @ [c]) vs = (caps', added')" by simp
      from Cons.IH [OF this] False Some show ?thesis by auto
    qed
  qed
qed

lemma set_normalize_task_types:
  "set (normalize_task_types out vs) =
   set out \<union> {trim v |v. v \<in> set vs \<and> \<not> blank v \<and> \<not> is_legacy_session_kind (trim v)}"
  by (induction vs arbitrary: out) auto

lemma distinct_normalize_task_types: "distinct out \<Longrightarrow> distinct (normalize_task_types out vs)"
  by (induction vs arbitrary: out) auto

section \<open>Lifecycle calls that cannot fail\<close>

lemma management_calls_total:
  "\<exists>m'. interrupt X m now = Some m'" "\<exists>m'. replace_task_plan X m p now = Some m'"
  "\<exists>m'. prepare_for_new_user_turn X E m i now = Some m'"
  by (simp_all add: interrupt_def replace_task_plan_def prepare_for_new_user_turn_def session_execute_def Let_def)

end
