(* ===== verification/Management_Properties.thy ===== *)
theory Management_Properties
  imports Management_Facts Task_Samples
begin

text \<open>
  The properties of the session object: persistence, the log and its compaction, capabilities, the
  wire form and the JSON views.
\<close>

definition sample_env :: environment where
  "sample_env = \<lparr>env_var = (\<lambda>v. None), target_windows = False, target_macos = False\<rparr>"

definition sample_input :: session_input where
  "sample_input = \<lparr>si_user_input = '' do it '', si_file_input = [], si_agent = None, si_runtime_context = None,
     si_planning_mode_override = None\<rparr>"

definition sample_management :: session_management where
  "sample_management = management_new sample_env ''s1'' ''name'' ''/w'' False [''coding'', ''ui''] sample_input ''goal'' 0"

section \<open>Persistence\<close>

text \<open>
  Applying the delta between two states to the first gives every persisted field of the second,
  exactly: only the runtime usage may differ, and then it is equal as a JSON value, and only a
  contract that was removed stays. The fields no delta carries (lifecycle, directory, docker flag,
  log, creation time) stay those of the first state.
\<close>

theorem delta_carries_changes:
  "let after = apply_persistence_delta previous (persistence_delta (Some previous) current) in
    json_eq (sm_runtime_usage after) (sm_runtime_usage current) \<and>
    (if sm_jspace_contract current = None then sm_jspace_contract after = sm_jspace_contract previous
     else rel_option json_eq (sm_jspace_contract after) (sm_jspace_contract current)) \<and>
    after\<lparr>sm_runtime_usage := JNull, sm_jspace_contract := None\<rparr> =
    (undelta previous current)\<lparr>sm_runtime_usage := JNull, sm_jspace_contract := None\<rparr>"
  unfolding Let_def apply_delta_exact by simp

text \<open>An instance: a removed contract survives the delta.\<close>

theorem delta_carries_changes_witness:
  "sm_jspace_contract (apply_persistence_delta (sample_management\<lparr>sm_jspace_contract := Some (JBool True)\<rparr>)
     (persistence_delta (Some (sample_management\<lparr>sm_jspace_contract := Some (JBool True)\<rparr>)) sample_management)) =
   Some (JBool True)"
proof -
  have "sm_jspace_contract sample_management = None" by (simp add: sample_management_def management_new_def Let_def)
  then show ?thesis
    using delta_carries_changes [of "sample_management\<lparr>sm_jspace_contract := Some (JBool True)\<rparr>" sample_management]
    by (simp add: Let_def)
qed

text \<open>
  A usage report that was reset to \<open>null\<close> (as context compaction does) is not persisted: the
  delta carries \<open>Some null\<close>, which the wire turns into an absent field, so the receiver keeps the
  report it had.
\<close>

theorem usage_reset_lost_on_wire:
  assumes "sm_runtime_usage current = JNull"
  shows "sm_runtime_usage (apply_persistence_delta previous
      (delta_over_wire (persistence_delta (Some previous) current))) = sm_runtime_usage previous"
  using assms
  by (simp add: apply_persistence_delta_def delta_over_wire_def persistence_delta_def changed_def updated_def
      optional_value_over_wire_def)

text \<open>An instance.\<close>

theorem usage_reset_lost_on_wire_witness:
  "sm_runtime_usage (apply_persistence_delta (sample_management\<lparr>sm_runtime_usage := JBool True\<rparr>)
     (delta_over_wire (persistence_delta (Some (sample_management\<lparr>sm_runtime_usage := JBool True\<rparr>))
       sample_management))) = JBool True"
proof -
  have "sm_runtime_usage sample_management = JNull" by (simp add: sample_management_def management_new_def Let_def)
  from usage_reset_lost_on_wire [OF this] show ?thesis by simp
qed

text \<open>
  The wire form of a session object keeps everything but the lifecycle fields it leaves out:
  reading it back gives the object with the lifecycle reduced to identity, state and plan, when the log
  is well formed and the contract is not \<open>null\<close>.
\<close>

theorem management_wire_roundtrip:
  assumes "log_inv X (sm_session_log m)" "sm_jspace_contract m \<noteq> Some JNull"
  shows "management_from_wire X (management_to_wire m) =
    m\<lparr>sm_lifecycle := (session_new (ss_session_id (sm_lifecycle m)))
        \<lparr>ss_state := ss_state (sm_lifecycle m), ss_task_plan := ss_task_plan (sm_lifecycle m)\<rparr>\<rparr>"
proof -
  have "optional_value_over_wire (sm_jspace_contract m) = sm_jspace_contract m"
    using assms(2) by (simp add: optional_value_over_wire_id)
  then show ?thesis
    using log_wire_roundtrip [OF assms(1)]
    by (simp add: management_from_wire_def management_to_wire_def session_new_def)
qed

text \<open>An instance: an entry that is not JSON is kept as text.\<close>

theorem management_wire_roundtrip_witness:
  "sm_session_log (management_from_wire ref (management_to_wire (push_log ref sample_management ''note'' 5))) =
   log_push ref ''note'' session_log_default"
proof -
  let ?m = "push_log ref sample_management ''note'' 5"
  have log: "sm_session_log ?m = log_push ref ''note'' session_log_default"
    by (simp add: push_log_def sample_management_def management_new_def Let_def)
  have "log_inv ref (sm_session_log ?m)"
    unfolding log by (rule log_inv_push [OF log_inv_default]) (simp add: session_log_default_def)
  moreover have "sm_jspace_contract ?m \<noteq> Some JNull"
    by (simp add: push_log_def sample_management_def management_new_def Let_def)
  ultimately show ?thesis using management_wire_roundtrip [of ref ?m] log by simp
qed

section \<open>The log\<close>

text \<open>
  The tool result sequence follows the log: from any entries, pushing any others (fewer than a
  vector can hold) keeps every entry in order with its parsed value, and the next sequence number is
  one more than the number of tool results in the log.
\<close>

theorem log_sequence_counts_tool_results:
  assumes "length raws + length pushed < 2 ^ 64 - 1"
  shows "let l = foldl (\<lambda>l raw. log_push X raw l) (log_from_raw X raws) pushed in
    sl_entries l = map (log_entry X) (raws @ pushed) \<and> log_inv X l \<and>
    unat (log_next_tool_result_sequence l) =
      length (filter (\<lambda>raw. is_tool_result (le_value (log_entry X raw))) (raws @ pushed)) + 1"
proof -
  define l where "l = foldl (\<lambda>l raw. log_push X raw l) (log_from_raw X raws) pushed"
  have inv: "sl_entries (foldl (\<lambda>l raw. log_push X raw l) (log_from_raw X raws) ps) = map (log_entry X) (raws @ ps) \<and>
      log_inv X (foldl (\<lambda>l raw. log_push X raw l) (log_from_raw X raws) ps)"
    if "length raws + length ps < 2 ^ 64 - 1" for ps
    using that
  proof (induction ps rule: rev_induct)
    case Nil
    then show ?case using log_inv_from_raw by (simp add: log_from_raw_def Let_def)
  next
    case (snoc p ps)
    then show ?case by (auto intro!: log_inv_push) (simp add: log_push_def Let_def)
  qed
  let ?n = "length (filter (\<lambda>raw. is_tool_result (le_value (log_entry X raw))) (raws @ pushed))"
  have "?n \<le> length raws + length pushed"
    using length_filter_le [of "\<lambda>raw. is_tool_result (le_value (log_entry X raw))" "raws @ pushed"] by simp
  then have n: "?n + 1 < 2 ^ 64" using assms by linarith
  have "sl_tool_result_count l = of_nat ?n"
    using inv [OF assms] unfolding l_def [symmetric]
    by (simp add: log_inv_def count_tool_results_def filter_map comp_def)
  then have "log_next_tool_result_sequence l = of_nat (?n + 1)"
    using saturating_add_of_nat [OF n] by (simp add: log_next_tool_result_sequence_def)
  then have "unat (log_next_tool_result_sequence l) = ?n + 1" using unat_of_nat_u64 [OF n] by simp
  then show ?thesis using inv [OF assms] by (simp add: l_def Let_def)
qed

text \<open>An instance.\<close>

theorem log_sequence_counts_tool_results_witness:
  "unat (log_next_tool_result_sequence (log_push ref ''b'' (log_from_raw ref [''a'']))) = 1"
proof -
  have "\<not> is_tool_result (le_value (log_entry ref raw))" for raw
    by (simp add: is_tool_result_def log_entry_def reference_externals_def json_get_def)
  then show ?thesis
    using log_sequence_counts_tool_results [of "[''a'']" "[''b'']" ref] by (simp add: Let_def)
qed

text \<open>
  Compaction keeps positions: it never panics, it keeps the log well formed and drops exactly the
  entries before the clamped boundary, and every retained entry has the same absolute index
  afterwards as before.
\<close>

theorem compaction_keeps_positions:
  assumes "log_inv X (sm_session_log m)" "length (sl_entries (sm_session_log m)) < 2 ^ 64"
    and r: "r' = min r (length (sl_entries (sm_session_log m)))"
  shows "\<exists>m'. record_context_compaction_point m r c now = Some m' \<and> log_inv X (sm_session_log m') \<and>
    sl_entries (sm_session_log m') = drop r' (sl_entries (sm_session_log m)) \<and>
    (\<forall>i. r' \<le> i \<longrightarrow> i < length (sl_entries (sm_session_log m)) \<longrightarrow>
       sl_entries (sm_session_log m') ! (i - r') = sl_entries (sm_session_log m) ! i \<and>
       absolute_session_log_index m' (i - r') = absolute_session_log_index m i)"
proof -
  obtain m' where m': "record_context_compaction_point m r c now = Some m'"
    and l: "log_retain_from r' (sm_session_log m) = Some (sm_session_log m')"
    and o: "lr_omitted_entries (sm_session_log_retention m') =
       saturating_add (lr_omitted_entries (sm_session_log_retention m)) (of_nat r')"
    using assms(1) r by (rule compaction_result)
  have d: "sl_entries (sm_session_log m') = drop r' (sl_entries (sm_session_log m))"
    using l by (auto simp: log_retain_from_def Let_def split: if_splits) (metis session_log.select_convs(1))
  have "absolute_session_log_index m' (i - r') = absolute_session_log_index m i"
    if "r' \<le> i" "i < length (sl_entries (sm_session_log m))" for i
    using saturating_add_assoc_nat [of r' i] that assms(2) by (simp add: absolute_session_log_index_def o)
  then show ?thesis using m' d log_inv_retain [OF assms(1) l] by auto
qed

text \<open>An instance.\<close>

theorem compaction_keeps_positions_witness:
  "\<exists>m'. record_context_compaction_point (replace_session_log ref sample_management [''a'', ''b'', ''c'']) 2 1 9 = Some m' \<and>
     absolute_session_log_index m' 0 = 2"
proof -
  let ?m = "replace_session_log ref sample_management [''a'', ''b'', ''c'']"
  have "log_inv ref (sm_session_log ?m)" by (simp add: replace_session_log_def log_inv_from_raw)
  moreover have len: "length (sl_entries (sm_session_log ?m)) = 3"
    by (simp add: replace_session_log_def log_from_raw_def Let_def)
  moreover have "absolute_session_log_index ?m 2 = 2"
    by (simp add: absolute_session_log_index_def replace_session_log_def sample_management_def management_new_def
        Let_def session_log_retention_default_def saturating_add_def)
  ultimately show ?thesis
    using compaction_keeps_positions [of ref ?m 2 2 1 9] by (force simp: len)
qed

section \<open>Capabilities\<close>

text \<open>
  Recording capabilities only adds: the old list is a prefix of the new one, exactly the added names
  are returned, distinctness is kept, a capability is found afterwards exactly when it was
  there or was recorded, and the time of the last update changes only if something was added.
\<close>

theorem record_capabilities_adds:
  assumes "record_session_capabilities_at E m values now = (m', added)"
  shows "sm_session_capabilities m' = sm_session_capabilities m @ added \<and>
    (distinct (sm_session_capabilities m) \<longrightarrow> distinct (sm_session_capabilities m')) \<and>
    (has_session_capability E m' x \<longleftrightarrow> has_session_capability E m x \<or>
       normalize_session_capability E x \<in> normalize_session_capability E ` set values - {None}) \<and>
    sm_session_last_update_at m' = (if added = [] then sm_session_last_update_at m else now)"
proof -
  obtain caps where r: "record_capabilities E (sm_session_capabilities m) [] values = (caps, added)"
    and m': "sm_session_capabilities m' = caps"
      "sm_session_last_update_at m' = (if added = [] then sm_session_last_update_at m else now)"
    using assms by (auto simp: record_session_capabilities_at_def Let_def split: prod.splits if_splits)
  from record_capabilities_eq [OF r] obtain new where
    new: "caps = sm_session_capabilities m @ new" "added = new"
      "set caps = set (sm_session_capabilities m) \<union> {c. \<exists>v\<in>set values. normalize_session_capability E v = Some c}"
      "distinct (sm_session_capabilities m) \<longrightarrow> distinct caps" by auto
  have "has_session_capability E m' x \<longleftrightarrow> has_session_capability E m x \<or>
      normalize_session_capability E x \<in> normalize_session_capability E ` set values - {None}"
  proof (cases "normalize_session_capability E x")
    case None
    then show ?thesis by (simp add: has_session_capability_def)
  next
    case (Some c)
    then show ?thesis using new(3) m'(1) by (force simp: has_session_capability_def)
  qed
  then show ?thesis using new m' by simp
qed

text \<open>An instance: two names of one capability are recorded once.\<close>

theorem record_capabilities_adds_witness:
  "\<exists>m' added. record_session_capabilities_at sample_env sample_management [''web-search'', ''command_run'', ''web_fetch''] 9 =
     (m', added) \<and> sm_session_capabilities m' = added \<and> has_session_capability sample_env m' ''WEB_DISCOVER''"
proof -
  obtain m' added where r: "record_session_capabilities_at sample_env sample_management
      [''web-search'', ''command_run'', ''web_fetch''] 9 = (m', added)" by fastforce
  have "sm_session_capabilities sample_management = []" by (simp add: sample_management_def management_new_def Let_def)
  moreover have "normalize_session_capability sample_env ''WEB_DISCOVER'' = Some ''web_discover''"
    "normalize_session_capability sample_env ''web-search'' = Some ''web_discover''"
    by code_simp+
  ultimately show ?thesis
    using record_capabilities_adds [OF r, of "''WEB_DISCOVER''"] r by auto
qed

section \<open>Lifecycle calls\<close>

text \<open>
  The calls the code expects to succeed do: interrupting, replacing the plan and preparing a user
  turn never panic. Preparing a turn keeps the session invariant, restarts a session that had ended
  from the created state and leaves the state of any other as it is.
\<close>

theorem lifecycle_calls_total:
  "(\<exists>m'. interrupt X m now = Some m') \<and> (\<exists>m'. replace_task_plan X m p now = Some m') \<and>
   (\<exists>m'. prepare_for_new_user_turn X E m i now = Some m' \<and>
      ss_state (sm_lifecycle m') = (if session_is_terminal (ss_state (sm_lifecycle m)) then SCreated
        else ss_state (sm_lifecycle m)) \<and>
      sm_session_started_at m' = (if session_is_terminal (ss_state (sm_lifecycle m)) then now
        else sm_session_started_at m) \<and>
      sm_session_log m' = sm_session_log m \<and> sm_input m' = i \<and>
      sm_current_objective m' = trim (si_user_input i))"
proof -
  have "session_is_terminal SCreated = False" by (simp add: state_defs)
  then have "(session_is_terminal st \<longrightarrow> st \<noteq> SCreated)" for st by auto
  then show ?thesis
    using management_calls_total(1,2) by (auto simp: prepare_for_new_user_turn_def session_execute_def Let_def)
qed

section \<open>JSON views\<close>

text \<open>
  The flat view of a plan with one task shows the task as it is: its identity, its summary (the
  plan's when the task has none), its contract, and its status, which is absent exactly when the task
  is to do.
\<close>

theorem single_task_view:
  assumes "tp_detailed_tasks p = [t]"
  shows "json_get (task_management_json X p now) ''task_id'' = Some (JString (ts_task_id t)) \<and>
    json_get (task_management_json X p now) ''task_summary'' =
      Some (JString (if blank (ts_task_summary t) then tp_plan_summary p else ts_task_summary t)) \<and>
    json_get (task_management_json X p now) ''scheduling_contract'' =
      map_option contract_to_value (ts_scheduling_contract t) \<and>
    json_get (task_management_json X p now) ''status'' =
      (if ts_status t = Todo then None else Some (plan_status_json (ts_status t)))"
  using assms
  by (cases "ts_scheduling_contract t") (simp_all add: task_management_json_def single_task_json_def Let_def json_get_view)

text \<open>An instance.\<close>

theorem single_task_view_witness:
  "json_get (task_management_json ref sample_plan 5) ''scheduling_contract'' = Some (contract_to_value sample_contract) \<and>
   json_get (task_management_json ref sample_plan 5) ''status'' = None"
proof -
  have "tp_detailed_tasks sample_plan = [sample_task]" by (simp add: sample_plan_def)
  from single_task_view [OF this, of ref 5] show ?thesis by (simp add: sample_task_def task_step_default_def)
qed

end
