(* ===== verification/Runtime_Contract.thy ===== *)
theory Runtime_Contract
  imports Task_Contracts
begin

text \<open>
  The contracts between the router, the runtime worker and the session store,
  \<open>runtime_contract/src/lib.rs\<close>: the binding of a commander continuation and the proof that the
  commander converged on it.
\<close>

section \<open>Commander continuations\<close>

record commander_continuation_binding =
  bn_target_thread_id :: string
  bn_requested_action :: string
  bn_continuation_request_id :: string
  bn_child_session_id :: string
  bn_child_transaction_id :: string
  bn_child_runtime_id :: string
  bn_callback_payload_sha256 :: string
  bn_effect_identity_sha256 :: string
  bn_pre_revision_sha256 :: string

definition continuation_action_valid :: "string \<Rightarrow> bool" where
  "continuation_action_valid action = (action \<in> {''MISSION_VERIFICATION'', ''ROUTE_SELECTION''})"

definition binding_validate :: "commander_continuation_binding \<Rightarrow> (string, unit) result" where
  "binding_validate b =
     and_then (try_each (\<lambda>(name, value). reject_if (blank value) (''COMMANDER_CONTINUATION_IDENTITY_MISSING:'' @ name))
       [(''target_thread_id'', bn_target_thread_id b), (''requested_action'', bn_requested_action b),
        (''continuation_request_id'', bn_continuation_request_id b), (''child_session_id'', bn_child_session_id b),
        (''child_transaction_id'', bn_child_transaction_id b), (''child_runtime_id'', bn_child_runtime_id b)]) (\<lambda>_.
     and_then (reject_if (\<not> continuation_action_valid (bn_requested_action b)) ''COMMANDER_CONTINUATION_ACTION_INVALID'') (\<lambda>_.
     try_each (\<lambda>(name, value). reject_if (\<not> is_lower_sha256 value) (''COMMANDER_CONTINUATION_IDENTITY_INVALID:'' @ name))
       [(''callback_payload_sha256'', bn_callback_payload_sha256 b),
        (''effect_identity_sha256'', bn_effect_identity_sha256 b), (''pre_revision_sha256'', bn_pre_revision_sha256 b)]))"

definition COMMANDER_CONVERGENCE_PROOF_SCHEMA_VERSION :: string where
  "COMMANDER_CONVERGENCE_PROOF_SCHEMA_VERSION = ''tura_commander_convergence_proof_v1''"

record commander_convergence_proof =
  cp_schema_version :: string
  cp_request_id :: string
  cp_callback_payload_sha256 :: string
  cp_effect_identity_sha256 :: string
  cp_child_session_id :: string
  cp_child_transaction_id :: string
  cp_child_runtime_id :: string
  cp_requested_action :: string
  cp_target_thread_id :: string
  cp_pre_revision_sha256 :: string
  cp_post_revision_sha256 :: string
  cp_target_turn_id :: string
  cp_final_assistant_sha256 :: string

definition proof_binding :: "commander_convergence_proof \<Rightarrow> commander_continuation_binding" where
  "proof_binding p =
     \<lparr>bn_target_thread_id = cp_target_thread_id p, bn_requested_action = cp_requested_action p,
      bn_continuation_request_id = cp_request_id p, bn_child_session_id = cp_child_session_id p,
      bn_child_transaction_id = cp_child_transaction_id p, bn_child_runtime_id = cp_child_runtime_id p,
      bn_callback_payload_sha256 = cp_callback_payload_sha256 p,
      bn_effect_identity_sha256 = cp_effect_identity_sha256 p, bn_pre_revision_sha256 = cp_pre_revision_sha256 p\<rparr>"

definition proof_validate_shape :: "commander_convergence_proof \<Rightarrow> (string, unit) result" where
  "proof_validate_shape p =
     and_then (reject_if (cp_schema_version p \<noteq> COMMANDER_CONVERGENCE_PROOF_SCHEMA_VERSION)
         ''COMMANDER_CONVERGENCE_PROOF_SCHEMA_UNSUPPORTED'') (\<lambda>_.
     and_then (binding_validate (proof_binding p)) (\<lambda>_.
     and_then (reject_if (blank (cp_target_turn_id p))
         ''COMMANDER_CONVERGENCE_PROOF_IDENTITY_MISSING:target_turn_id'') (\<lambda>_.
     and_then (try_each (\<lambda>(name, value). reject_if (\<not> is_lower_sha256 value)
           (''COMMANDER_CONVERGENCE_PROOF_IDENTITY_INVALID:'' @ name))
         [(''post_revision_sha256'', cp_post_revision_sha256 p),
          (''final_assistant_sha256'', cp_final_assistant_sha256 p)]) (\<lambda>_.
     reject_if (cp_post_revision_sha256 p = cp_pre_revision_sha256 p)
         ''COMMANDER_CONVERGENCE_PROOF_REVISION_DID_NOT_ADVANCE''))))"

definition proof_to_value :: "commander_convergence_proof \<Rightarrow> json" where
  "proof_to_value p = JObject
     [(''schema_version'', JString (cp_schema_version p)), (''request_id'', JString (cp_request_id p)),
      (''callback_payload_sha256'', JString (cp_callback_payload_sha256 p)),
      (''effect_identity_sha256'', JString (cp_effect_identity_sha256 p)),
      (''child_session_id'', JString (cp_child_session_id p)),
      (''child_transaction_id'', JString (cp_child_transaction_id p)),
      (''child_runtime_id'', JString (cp_child_runtime_id p)),
      (''requested_action'', JString (cp_requested_action p)),
      (''target_thread_id'', JString (cp_target_thread_id p)),
      (''pre_revision_sha256'', JString (cp_pre_revision_sha256 p)),
      (''post_revision_sha256'', JString (cp_post_revision_sha256 p)),
      (''target_turn_id'', JString (cp_target_turn_id p)),
      (''final_assistant_sha256'', JString (cp_final_assistant_sha256 p))]"

end
