(* ===== verification/Store_Records.thy ===== *)
theory Store_Records
  imports Runtime_Contract
begin

text \<open>
  The durable records of the session lifecycle store, \<open>session_lifecycle/src/lib.rs\<close>: blockers,
  terminal receipts, child admissions, callbacks, continuations, acknowledgements, checkpoints and
  slot releases, with their validation that needs no store, their equality and their digests.

  \<open>PartialEq\<close> of a record that holds JSON values compares those values as \<open>serde_json\<close> does
  (\<open>json_eq\<close>); every other field is compared structurally. A \<open>BTreeMap\<close> is the list of its entries in
  key order.
\<close>

named_theorems store_defs \<open>the operations of the lifecycle store\<close>

section \<open>Blockers\<close>

record lifecycle_blocker =
  lb_code :: string
  lb_detail :: string

definition blocker :: "string \<Rightarrow> string \<Rightarrow> lifecycle_blocker" where
  "blocker code detail = \<lparr>lb_code = code, lb_detail = detail\<rparr>"

lemma blocker_sel [simp]: "lb_code (blocker c d) = c" "lb_detail (blocker c d) = d"
  by (simp_all add: blocker_def)

type_synonym id_text = string
type_synonym digest_text = string
type_synonym path_text = string
type_synonym 'a lifecycle_result = "(lifecycle_blocker, 'a) result"

definition display_blocker :: "lifecycle_blocker \<Rightarrow> string" where
  "display_blocker b = (if lb_detail b = [] then lb_code b else lb_code b @ '':'' @ lb_detail b)"

definition require_identifier :: "string \<Rightarrow> string \<Rightarrow> unit lifecycle_result" where
  "require_identifier name value = reject_if (blank value) (blocker ''LIFECYCLE_IDENTITY_MISSING'' name)"

definition require_sha256 :: "string \<Rightarrow> string \<Rightarrow> unit lifecycle_result" where
  "require_sha256 name value = reject_if (\<not> is_lower_sha256 value) (blocker ''LIFECYCLE_SHA256_INVALID'' name)"

lemma require_Inr [simp, result_simps]:
  "require_identifier name value = Inr u \<longleftrightarrow> \<not> blank value"
  "require_sha256 name value = Inr u \<longleftrightarrow> is_lower_sha256 value"
  by (simp_all add: require_identifier_def require_sha256_def)

abbreviation require_identifiers :: "(string \<times> string) list \<Rightarrow> unit lifecycle_result" where
  "require_identifiers \<equiv> try_each (\<lambda>(name, value). require_identifier name value)"

abbreviation require_sha256s :: "(string \<times> string) list \<Rightarrow> unit lifecycle_result" where
  "require_sha256s \<equiv> try_each (\<lambda>(name, value). require_sha256 name value)"

section \<open>Terminal receipts\<close>

datatype terminal_state = TCompleted | TFailed | TCancelled | TInterrupted

fun terminal_state_text :: "terminal_state \<Rightarrow> string" where
  "terminal_state_text TCompleted = ''completed''"
| "terminal_state_text TFailed = ''failed''"
| "terminal_state_text TCancelled = ''cancelled''"
| "terminal_state_text TInterrupted = ''interrupted''"

record terminal_receipt_identity =
  ti_transaction_id :: string
  ti_event_id :: string
  ti_event_seq :: u64
  ti_commander_session_id :: string
  ti_child_session_id :: string
  ti_runtime_id :: string
  ti_lease_id :: string

record terminal_receipt =
  tr_schema_version :: string
  tr_transaction_id :: string
  tr_event_id :: string
  tr_event_seq :: u64
  tr_commander_session_id :: string
  tr_child_session_id :: string
  tr_runtime_id :: string
  tr_lease_id :: string
  tr_terminal_state :: terminal_state
  tr_finished_at_ms :: int
  tr_task_id :: "string option"
  tr_goal_id :: "string option"
  tr_operator_override :: bool
  tr_history_readable :: bool
  tr_follow_up_capable :: bool
  tr_audit_metadata :: "(string \<times> json) list"

definition RECEIPT_SCHEMA :: string where "RECEIPT_SCHEMA = ''tura_terminal_receipt_v1''"
definition STORED_RECEIPT_SCHEMA :: string where "STORED_RECEIPT_SCHEMA = ''tura_stored_terminal_receipt_v1''"
definition ACK_SCHEMA :: string where "ACK_SCHEMA = ''tura_terminal_receipt_ack_v1''"
definition CALLBACK_SCHEMA :: string where "CALLBACK_SCHEMA = ''tura_durable_terminal_callback_v1''"
definition CALLBACK_ACK_SCHEMA :: string where "CALLBACK_ACK_SCHEMA = ''tura_durable_terminal_callback_ack_v1''"
definition CONTINUATION_SCHEMA :: string where "CONTINUATION_SCHEMA = ''tura_callback_continuation_dispatch_v1''"
definition CHILD_ADMISSION_SCHEMA :: string where "CHILD_ADMISSION_SCHEMA = ''tura_child_session_admission_v1''"
definition CHILD_READY_SET_IDENTITY_SCHEMA :: string where
  "CHILD_READY_SET_IDENTITY_SCHEMA = ''tura_child_ready_set_identity_v1''"
definition RELEASE_SCHEMA :: string where "RELEASE_SCHEMA = ''tura_terminal_slot_release_v1''"
definition BLOCKER_SCHEMA :: string where "BLOCKER_SCHEMA = ''tura_session_lifecycle_blocker_v1''"
definition RECONCILE_SCHEMA :: string where "RECONCILE_SCHEMA = ''tura_session_lifecycle_reconcile_v1''"
definition CHECKPOINT_EVIDENCE_SCHEMA :: string where "CHECKPOINT_EVIDENCE_SCHEMA = ''tura_native_checkpoint_evidence_v1''"
definition CONTROL_DECK_MAX_RECORDS_PER_COLLECTION :: nat where
  "CONTROL_DECK_MAX_RECORDS_PER_COLLECTION = 4096"
definition DEFAULT_WATCHDOG_INTERVAL_SECS :: u64 where "DEFAULT_WATCHDOG_INTERVAL_SECS = 1800"
definition MINIMUM_WATCHDOG_INTERVAL_SECS :: u64 where "MINIMUM_WATCHDOG_INTERVAL_SECS = 301"

definition receipt_new :: "terminal_receipt_identity \<Rightarrow> terminal_state \<Rightarrow> int \<Rightarrow> terminal_receipt" where
  "receipt_new i state finished_at_ms =
     \<lparr>tr_schema_version = RECEIPT_SCHEMA, tr_transaction_id = ti_transaction_id i, tr_event_id = ti_event_id i,
      tr_event_seq = ti_event_seq i, tr_commander_session_id = ti_commander_session_id i,
      tr_child_session_id = ti_child_session_id i, tr_runtime_id = ti_runtime_id i, tr_lease_id = ti_lease_id i,
      tr_terminal_state = state, tr_finished_at_ms = finished_at_ms, tr_task_id = None, tr_goal_id = None,
      tr_operator_override = False, tr_history_readable = True, tr_follow_up_capable = True,
      tr_audit_metadata = []\<rparr>"

definition receipt_eq :: "terminal_receipt \<Rightarrow> terminal_receipt \<Rightarrow> bool" where
  "receipt_eq a b \<longleftrightarrow>
     a\<lparr>tr_audit_metadata := []\<rparr> = b\<lparr>tr_audit_metadata := []\<rparr> \<and>
     list_all2 (\<lambda>(k, v) (l, w). k = l \<and> json_eq v w) (tr_audit_metadata a) (tr_audit_metadata b)"

lemma receipt_eq_refl [simp]: "receipt_eq r r"
  by (auto simp: receipt_eq_def list_all2_same)

text \<open>\<open>serde_json::to_vec\<close> prints the fields in declaration order, and maps in key order.\<close>

definition json_i64 :: "int \<Rightarrow> json" where
  "json_i64 i = JNumber (if 0 \<le> i then PosInt (word_of_int i) else NegInt i)"

definition some_field :: "string \<Rightarrow> string option \<Rightarrow> (string \<times> json) list" where
  "some_field name v = (case v of None \<Rightarrow> [] | Some s \<Rightarrow> [(name, JString s)])"

definition receipt_to_value :: "terminal_receipt \<Rightarrow> json" where
  "receipt_to_value r = JObject
     ([(''schema_version'', JString (tr_schema_version r)), (''transaction_id'', JString (tr_transaction_id r)),
       (''event_id'', JString (tr_event_id r)), (''event_seq'', json_u64 (tr_event_seq r)),
       (''commander_session_id'', JString (tr_commander_session_id r)),
       (''child_session_id'', JString (tr_child_session_id r)), (''runtime_id'', JString (tr_runtime_id r)),
       (''lease_id'', JString (tr_lease_id r)),
       (''terminal_state'', JString (terminal_state_text (tr_terminal_state r))),
       (''finished_at_ms'', json_i64 (tr_finished_at_ms r))] @
      some_field ''task_id'' (tr_task_id r) @ some_field ''goal_id'' (tr_goal_id r) @
      [(''operator_override'', JBool (tr_operator_override r)), (''history_readable'', JBool (tr_history_readable r)),
       (''follow_up_capable'', JBool (tr_follow_up_capable r)),
       (''audit_metadata'', sorted_json (JObject (tr_audit_metadata r)))])"

definition payload_sha256 :: "externals \<Rightarrow> terminal_receipt \<Rightarrow> string" where
  "payload_sha256 X r = sha256_hex X (render X (receipt_to_value r))"

definition terminal_receipt_sha256 :: "externals \<Rightarrow> terminal_receipt \<Rightarrow> string" where
  "terminal_receipt_sha256 X r = payload_sha256 X r"

record stored_receipt =
  sto_schema_version :: string
  sto_payload_sha256 :: string
  sto_receipt :: terminal_receipt

definition stored_receipt_eq :: "stored_receipt \<Rightarrow> stored_receipt \<Rightarrow> bool" where
  "stored_receipt_eq a b \<longleftrightarrow> sto_schema_version a = sto_schema_version b \<and>
     sto_payload_sha256 a = sto_payload_sha256 b \<and> receipt_eq (sto_receipt a) (sto_receipt b)"

lemma stored_receipt_eq_refl [simp]: "stored_receipt_eq s s"
  by (simp add: stored_receipt_eq_def)

definition stored_receipt_of :: "externals \<Rightarrow> terminal_receipt \<Rightarrow> stored_receipt" where
  "stored_receipt_of X r =
     \<lparr>sto_schema_version = STORED_RECEIPT_SCHEMA, sto_payload_sha256 = payload_sha256 X r, sto_receipt = r\<rparr>"

record receipt_acknowledgement =
  rk_schema_version :: string
  rk_transaction_id :: string
  rk_event_id :: string
  rk_event_seq :: u64
  rk_commander_session_id :: string
  rk_delivery_id :: string

section \<open>Effects and routes\<close>

datatype callback_effect_identity =
    ExactEffect string
  | ProvenZeroEffect string string
  | UnsettledEffect string string

fun effect_unsettled :: "callback_effect_identity \<Rightarrow> bool" where
  "effect_unsettled (UnsettledEffect _ _) = True"
| "effect_unsettled _ = False"

fun effect_kind :: "callback_effect_identity \<Rightarrow> string" where
  "effect_kind (ExactEffect _) = ''exact''"
| "effect_kind (ProvenZeroEffect _ _) = ''proven_zero_effect''"
| "effect_kind (UnsettledEffect _ _) = ''unsettled_effect''"

fun effect_to_value :: "callback_effect_identity \<Rightarrow> json" where
  "effect_to_value (ExactEffect effect_id) =
     JObject [(''kind'', JString ''exact''), (''effect_id'', JString effect_id)]"
| "effect_to_value (ProvenZeroEffect classification evidence) =
     JObject [(''kind'', JString ''proven_zero_effect''), (''classification'', JString classification),
       (''evidence_sha256'', JString evidence)]"
| "effect_to_value (UnsettledEffect classification evidence) =
     JObject [(''kind'', JString ''unsettled_effect''), (''classification'', JString classification),
       (''evidence_sha256'', JString evidence)]"

definition effect_sha256 :: "externals \<Rightarrow> callback_effect_identity \<Rightarrow> string" where
  "effect_sha256 X e = canonical_value_sha256 X (effect_to_value e)"

datatype callback_delivery_route = TrustedTuraDirectThreadWriter

fun route_to_value :: "callback_delivery_route \<Rightarrow> json" where
  "route_to_value TrustedTuraDirectThreadWriter = JString ''trusted_tura_direct_thread_writer''"

definition require_direct_writer_binding ::
  "string option \<Rightarrow> callback_delivery_route option \<Rightarrow> string \<Rightarrow> string \<Rightarrow> unit lifecycle_result" where
  "require_direct_writer_binding thread route code detail =
     reject_if ((case thread of None \<Rightarrow> True | Some value \<Rightarrow> blank value) \<or>
       route \<noteq> Some TrustedTuraDirectThreadWriter) (blocker code detail)"

section \<open>Child admissions\<close>

record child_ready_set_identity =
  ri_schema_version :: string
  ri_mission_id :: string
  ri_task_id :: string
  ri_semantic_dispatch_key :: string
  ri_parent_task_plan_sha256 :: string
  ri_task_scheduling_contract_sha256 :: string
  ri_scope_claim_sha256 :: string
  ri_task_context_capsule_semantic_sha256 :: string
  ri_read_scopes :: "string list"
  ri_write_scopes :: "string list"
  ri_conflict_identities :: "string list"

definition scope_values_invalid :: "string list \<Rightarrow> bool" where
  "scope_values_invalid values \<longleftrightarrow> length values > 128 \<or>
     list_ex (\<lambda>v. blank v \<or> trim v \<noteq> v \<or> length v > 1024) values \<or> \<not> strictly_increasing values"

definition validate_ready_identity :: "child_ready_set_identity \<Rightarrow> unit lifecycle_result" where
  "validate_ready_identity i =
     and_then (reject_if (ri_schema_version i \<noteq> CHILD_READY_SET_IDENTITY_SCHEMA)
         (blocker ''CHILD_READY_SET_SCHEMA_UNSUPPORTED'' (ri_schema_version i))) (\<lambda>_.
     and_then (require_identifiers [(''mission_id'', ri_mission_id i), (''task_id'', ri_task_id i)]) (\<lambda>_.
     and_then (require_sha256s
         [(''semantic_dispatch_key'', ri_semantic_dispatch_key i),
          (''parent_task_plan_sha256'', ri_parent_task_plan_sha256 i),
          (''task_scheduling_contract_sha256'', ri_task_scheduling_contract_sha256 i),
          (''scope_claim_sha256'', ri_scope_claim_sha256 i),
          (''task_context_capsule_semantic_sha256'', ri_task_context_capsule_semantic_sha256 i)]) (\<lambda>_.
     try_each (\<lambda>(field, values). reject_if (scope_values_invalid values)
         (blocker ''CHILD_READY_SET_SCOPE_IDENTITY_INVALID'' field))
       [(''read_scopes'', ri_read_scopes i), (''write_scopes'', ri_write_scopes i),
        (''conflict_identities'', ri_conflict_identities i)])))"

record child_admission_record =
  ca_schema_version :: string
  ca_parent_session_id :: string
  ca_parent_mission_revision_sha256 :: string
  ca_commander_thread_id :: "string option"
  ca_callback_delivery_route :: "callback_delivery_route option"
  ca_child_session_id :: string
  ca_child_runtime_id :: string
  ca_child_transaction_id :: string
  ca_child_lease_id :: string
  ca_callback_request_id :: string
  ca_effect_id :: string
  ca_delegated_input_sha256 :: string
  ca_execution_payload_sha256 :: string
  ca_ready_set_identity :: "child_ready_set_identity option"
  ca_session_directory :: string
  ca_session_name :: string
  ca_created_at_ms :: int

definition ready_identity_new ::
  "id_text \<Rightarrow> id_text \<Rightarrow> id_text \<Rightarrow> digest_text \<Rightarrow> digest_text \<Rightarrow> digest_text \<Rightarrow> digest_text \<Rightarrow> string list \<Rightarrow> string list \<Rightarrow> string list \<Rightarrow>
   child_ready_set_identity" where
  "ready_identity_new mission_id task_id dispatch_key plan_sha contract_sha claim_sha capsule_sha read_scopes write_scopes conflicts =
     \<lparr>ri_schema_version = CHILD_READY_SET_IDENTITY_SCHEMA, ri_mission_id = mission_id, ri_task_id = task_id,
      ri_semantic_dispatch_key = dispatch_key, ri_parent_task_plan_sha256 = plan_sha,
      ri_task_scheduling_contract_sha256 = contract_sha, ri_scope_claim_sha256 = claim_sha,
      ri_task_context_capsule_semantic_sha256 = capsule_sha, ri_read_scopes = read_scopes,
      ri_write_scopes = write_scopes, ri_conflict_identities = conflicts\<rparr>"

definition child_admission_new ::
  "id_text \<Rightarrow> digest_text \<Rightarrow> id_text option \<Rightarrow> id_text \<Rightarrow> id_text \<Rightarrow> id_text \<Rightarrow> id_text \<Rightarrow> id_text \<Rightarrow> id_text \<Rightarrow> digest_text \<Rightarrow> digest_text \<Rightarrow> path_text \<Rightarrow>
   string \<Rightarrow> int \<Rightarrow> child_admission_record" where
  "child_admission_new parent mission_sha thread child runtime transaction lease request effect input_sha payload_sha directory name created =
     \<lparr>ca_schema_version = CHILD_ADMISSION_SCHEMA, ca_parent_session_id = parent,
      ca_parent_mission_revision_sha256 = mission_sha, ca_commander_thread_id = thread,
      ca_callback_delivery_route = None, ca_child_session_id = child, ca_child_runtime_id = runtime,
      ca_child_transaction_id = transaction, ca_child_lease_id = lease, ca_callback_request_id = request,
      ca_effect_id = effect, ca_delegated_input_sha256 = input_sha, ca_execution_payload_sha256 = payload_sha,
      ca_ready_set_identity = None, ca_session_directory = directory, ca_session_name = name,
      ca_created_at_ms = created\<rparr>"

definition with_ready_set_identity :: "child_admission_record \<Rightarrow> child_ready_set_identity \<Rightarrow> child_admission_record" where
  "with_ready_set_identity a i = a\<lparr>ca_ready_set_identity := Some i\<rparr>"

definition with_callback_delivery_route :: "child_admission_record \<Rightarrow> callback_delivery_route \<Rightarrow> child_admission_record" where
  "with_callback_delivery_route a route = a\<lparr>ca_callback_delivery_route := Some route\<rparr>"

section \<open>Callbacks\<close>

record durable_callback_record =
  cb_schema_version :: string
  cb_transaction_id :: string
  cb_event_id :: string
  cb_commander_session_id :: string
  cb_child_session_id :: string
  cb_runtime_id :: string
  cb_lease_id :: string
  cb_terminal_receipt_sha256 :: string
  cb_terminal_state :: terminal_state
  cb_callback_payload :: json
  cb_callback_payload_sha256 :: string
  cb_transport_payload :: json
  cb_transport_payload_sha256 :: string
  cb_parent_mission_revision_sha256 :: string
  cb_commander_thread_id :: "string option"
  cb_callback_delivery_route :: "callback_delivery_route option"
  cb_delegated_input_sha256 :: string
  cb_effect_identity :: callback_effect_identity

definition callback_new ::
  "externals \<Rightarrow> terminal_receipt \<Rightarrow> json \<Rightarrow> json \<Rightarrow> string \<Rightarrow> string \<Rightarrow> callback_effect_identity \<Rightarrow> durable_callback_record" where
  "callback_new X r callback_payload transport_payload mission_revision delegated_input effect =
     \<lparr>cb_schema_version = CALLBACK_SCHEMA, cb_transaction_id = tr_transaction_id r, cb_event_id = tr_event_id r,
      cb_commander_session_id = tr_commander_session_id r, cb_child_session_id = tr_child_session_id r,
      cb_runtime_id = tr_runtime_id r, cb_lease_id = tr_lease_id r,
      cb_terminal_receipt_sha256 = terminal_receipt_sha256 X r, cb_terminal_state = tr_terminal_state r,
      cb_callback_payload = callback_payload,
      cb_callback_payload_sha256 = canonical_value_sha256 X callback_payload,
      cb_transport_payload = transport_payload,
      cb_transport_payload_sha256 = canonical_value_sha256 X transport_payload,
      cb_parent_mission_revision_sha256 = mission_revision, cb_commander_thread_id = None,
      cb_callback_delivery_route = None, cb_delegated_input_sha256 = delegated_input, cb_effect_identity = effect\<rparr>"

definition callback_eq :: "durable_callback_record \<Rightarrow> durable_callback_record \<Rightarrow> bool" where
  "callback_eq a b \<longleftrightarrow>
     a\<lparr>cb_callback_payload := JNull, cb_transport_payload := JNull\<rparr> =
     b\<lparr>cb_callback_payload := JNull, cb_transport_payload := JNull\<rparr> \<and>
     json_eq (cb_callback_payload a) (cb_callback_payload b) \<and>
     json_eq (cb_transport_payload a) (cb_transport_payload b)"

lemma callback_eq_refl [simp]: "callback_eq c c"
  by (simp add: callback_eq_def)

record callback_acknowledgement =
  ka_schema_version :: string
  ka_record :: durable_callback_record

definition callback_ack_eq :: "callback_acknowledgement \<Rightarrow> callback_acknowledgement \<Rightarrow> bool" where
  "callback_ack_eq a b \<longleftrightarrow> ka_schema_version a = ka_schema_version b \<and> callback_eq (ka_record a) (ka_record b)"

lemma callback_ack_eq_refl [simp]: "callback_ack_eq a a"
  by (simp add: callback_ack_eq_def)

end
