(* ===== verification/Continuation_Records.thy ===== *)
theory Continuation_Records
  imports Store_Records
begin

text \<open>
  The continuation of a callback: the record that tells the commander what a child returned, the
  identity derived from the callback, and the part of the record that never changes while it moves
  through its dispatch states.
\<close>

section \<open>Dispatch states\<close>

datatype continuation_dispatch_state = Prepared | DeliveryUnsettled | Dispatched | DCompleted | DAcknowledged

fun debug_dispatch_state :: "continuation_dispatch_state \<Rightarrow> string" where
  "debug_dispatch_state Prepared = ''Prepared''"
| "debug_dispatch_state DeliveryUnsettled = ''DeliveryUnsettled''"
| "debug_dispatch_state Dispatched = ''Dispatched''"
| "debug_dispatch_state DCompleted = ''Completed''"
| "debug_dispatch_state DAcknowledged = ''Acknowledged''"

datatype direct_delivery_result_kind = Accepted | Reconciled

record direct_delivery_result_evidence =
  de_kind :: direct_delivery_result_kind
  de_evidence_sha256 :: string

datatype continuation_write_outcome =
    OutPrepared
  | OutAcknowledged
  | AlreadyPrepared
  | AlreadyDispatched
  | AlreadyCompleted
  | AlreadyAcknowledgedContinuation

fun continuation_existing_outcome :: "continuation_dispatch_state \<Rightarrow> continuation_write_outcome" where
  "continuation_existing_outcome Prepared = AlreadyPrepared"
| "continuation_existing_outcome DeliveryUnsettled = AlreadyPrepared"
| "continuation_existing_outcome Dispatched = AlreadyDispatched"
| "continuation_existing_outcome DCompleted = AlreadyCompleted"
| "continuation_existing_outcome DAcknowledged = AlreadyAcknowledgedContinuation"

record continuation_dispatch_record =
  cd_schema_version :: string
  cd_request_id :: string
  cd_runtime_id :: string
  cd_lease_id :: string
  cd_commander_session_id :: string
  cd_child_session_id :: string
  cd_child_transaction_id :: string
  cd_child_event_id :: string
  cd_child_runtime_id :: string
  cd_callback_payload_sha256 :: string
  cd_parent_mission_revision_sha256 :: string
  cd_commander_thread_id :: "string option"
  cd_callback_delivery_route :: "callback_delivery_route option"
  cd_delegated_input_sha256 :: string
  cd_effect_identity :: callback_effect_identity
  cd_parent_input :: json
  cd_requested_action :: string
  cd_convergence_proof :: "commander_convergence_proof option"
  cd_direct_delivery_call_id :: "string option"
  cd_delivered_message_sha256 :: "string option"
  cd_direct_delivery_result :: "direct_delivery_result_evidence option"
  cd_state :: continuation_dispatch_state

section \<open>The derived identity\<close>

text \<open>Every value is fed to the hasher followed by a zero byte.\<close>

definition zero_terminated :: "string list \<Rightarrow> string" where
  "zero_terminated values = concat (map (\<lambda>v. v @ [CHR 0x00]) values)"

definition continuation_identity_sha256_from_fields ::
  "externals \<Rightarrow> id_text \<Rightarrow> id_text \<Rightarrow> callback_delivery_route \<Rightarrow> id_text \<Rightarrow> id_text \<Rightarrow> id_text \<Rightarrow> id_text \<Rightarrow> 
   digest_text \<Rightarrow> digest_text \<Rightarrow> digest_text \<Rightarrow> callback_effect_identity \<Rightarrow> digest_text" where
  "continuation_identity_sha256_from_fields X commander_session_id commander_thread_id route child_session_id
     transaction_id event_id child_runtime_id payload_sha mission_sha delegated_sha effect =
     sha256_hex X (zero_terminated
       [commander_session_id, commander_thread_id, canonical_value_sha256 X (route_to_value route),
        child_session_id, transaction_id, event_id, child_runtime_id, payload_sha, mission_sha, delegated_sha,
        effect_sha256 X effect])"

definition continuation_identity_sha256 :: "externals \<Rightarrow> durable_callback_record \<Rightarrow> string lifecycle_result" where
  "continuation_identity_sha256 X c =
     and_then (ok_or (blocker ''CONTINUATION_COMMANDER_THREAD_ID_MISSING'' (cb_event_id c)) (cb_commander_thread_id c)) (\<lambda>thread.
     and_then (ok_or (blocker ''CONTINUATION_DIRECT_WRITER_ROUTE_MISSING'' (cb_event_id c)) (cb_callback_delivery_route c)) (\<lambda>route.
     Inr (continuation_identity_sha256_from_fields X (cb_commander_session_id c) thread route
       (cb_child_session_id c) (cb_transaction_id c) (cb_event_id c) (cb_runtime_id c) (cb_callback_payload_sha256 c)
       (cb_parent_mission_revision_sha256 c) (cb_delegated_input_sha256 c) (cb_effect_identity c))))"

definition continuation_bound_identity_sha256 :: "externals \<Rightarrow> continuation_dispatch_record \<Rightarrow> string lifecycle_result" where
  "continuation_bound_identity_sha256 X r =
     and_then (ok_or (blocker ''CONTINUATION_COMMANDER_THREAD_ID_MISSING'' (cd_request_id r)) (cd_commander_thread_id r)) (\<lambda>thread.
     and_then (ok_or (blocker ''CONTINUATION_DIRECT_WRITER_ROUTE_MISSING'' (cd_request_id r)) (cd_callback_delivery_route r)) (\<lambda>route.
     Inr (continuation_identity_sha256_from_fields X (cd_commander_session_id r) thread route
       (cd_child_session_id r) (cd_child_transaction_id r) (cd_child_event_id r) (cd_child_runtime_id r)
       (cd_callback_payload_sha256 r) (cd_parent_mission_revision_sha256 r) (cd_delegated_input_sha256 r)
       (cd_effect_identity r))))"

section \<open>The record of a callback\<close>

definition requested_action_of :: "terminal_state \<Rightarrow> string" where
  "requested_action_of s = (if s = TCompleted then ''MISSION_VERIFICATION'' else ''ROUTE_SELECTION'')"

definition continuation_parent_input ::
  "durable_callback_record \<Rightarrow> callback_delivery_route \<Rightarrow> string \<Rightarrow> string \<Rightarrow> json" where
  "continuation_parent_input c route thread action = JObject
     [(''schema_version'', JString ''tura_internal_callback_continuation_v1''),
      (''authority'', JString ''none''),
      (''requested_action'', JString action),
      (''delivery'', JObject [(''route'', route_to_value route), (''target_thread_id'', JString thread)]),
      (''callback'', JObject
        [(''child_session_id'', JString (cb_child_session_id c)), (''transaction_id'', JString (cb_transaction_id c)),
         (''event_id'', JString (cb_event_id c)), (''runtime_id'', JString (cb_runtime_id c)),
         (''terminal_state'', JString (terminal_state_text (cb_terminal_state c))),
         (''result'', cb_callback_payload c),
         (''callback_payload_sha256'', JString (cb_callback_payload_sha256 c)),
         (''parent_mission_revision_sha256'', JString (cb_parent_mission_revision_sha256 c)),
         (''delegated_input_sha256'', JString (cb_delegated_input_sha256 c)),
         (''effect_identity'', effect_to_value (cb_effect_identity c))]),
      (''acknowledgement'', JObject
        [(''schema_version'', JString ''tura_commander_callback_ack_v1''),
         (''required_after'', JString action),
         (''method'', JString ''POST''),
         (''path'', JString (''/session/'' @ cb_commander_session_id c @ ''/children/'' @ cb_child_session_id c @ ''/callback/ack'')),
         (''request'', JObject
           [(''parent_session_id'', JString (cb_commander_session_id c)),
            (''parent_mission_revision_sha256'', JString (cb_parent_mission_revision_sha256 c)),
            (''commander_thread_id'', JString thread),
            (''child_session_id'', JString (cb_child_session_id c)),
            (''child_runtime_id'', JString (cb_runtime_id c)),
            (''child_lease_id'', JString (cb_lease_id c)),
            (''transaction_id'', JString (cb_transaction_id c)),
            (''event_id'', JString (cb_event_id c)),
            (''callback_payload_sha256'', JString (cb_callback_payload_sha256 c)),
            (''effect_identity'', effect_to_value (cb_effect_identity c))])])]"

definition continuation_from_callback ::
  "externals \<Rightarrow> durable_callback_record \<Rightarrow> continuation_dispatch_record lifecycle_result" where
  "continuation_from_callback X c =
     and_then (reject_if (effect_unsettled (cb_effect_identity c))
         (blocker ''CONTINUATION_UNSETTLED_EFFECT_BLOCKED'' (cb_event_id c))) (\<lambda>_.
     and_then (ok_or (blocker ''CONTINUATION_DIRECT_WRITER_ROUTE_MISSING'' (cb_event_id c)) (cb_callback_delivery_route c)) (\<lambda>route.
     and_then (ok_or (blocker ''CONTINUATION_COMMANDER_THREAD_ID_MISSING'' (cb_event_id c)) (cb_commander_thread_id c)) (\<lambda>thread.
     and_then (continuation_identity_sha256 X c) (\<lambda>digest.
       let action = requested_action_of (cb_terminal_state c)
       in Inr \<lparr>cd_schema_version = CONTINUATION_SCHEMA,
          cd_request_id = ''callback-continuation-request-'' @ digest,
          cd_runtime_id = ''callback-continuation-runtime-'' @ digest,
          cd_lease_id = ''callback-continuation-lease-'' @ digest,
          cd_commander_session_id = cb_commander_session_id c,
          cd_child_session_id = cb_child_session_id c, cd_child_transaction_id = cb_transaction_id c,
          cd_child_event_id = cb_event_id c, cd_child_runtime_id = cb_runtime_id c,
          cd_callback_payload_sha256 = cb_callback_payload_sha256 c,
          cd_parent_mission_revision_sha256 = cb_parent_mission_revision_sha256 c,
          cd_commander_thread_id = Some thread, cd_callback_delivery_route = Some route,
          cd_delegated_input_sha256 = cb_delegated_input_sha256 c, cd_effect_identity = cb_effect_identity c,
          cd_parent_input = continuation_parent_input c route thread action, cd_requested_action = action,
          cd_convergence_proof = None, cd_direct_delivery_call_id = None, cd_delivered_message_sha256 = None,
          cd_direct_delivery_result = None, cd_state = Prepared\<rparr>))))"

text \<open>What \<open>continuation_bound_fields_match\<close> compares: the record with its mutable fields reset.\<close>

definition bound_fields :: "continuation_dispatch_record \<Rightarrow> continuation_dispatch_record" where
  "bound_fields r = r\<lparr>cd_state := Prepared, cd_convergence_proof := None, cd_direct_delivery_call_id := None,
     cd_delivered_message_sha256 := None, cd_direct_delivery_result := None\<rparr>"

definition continuation_eq :: "continuation_dispatch_record \<Rightarrow> continuation_dispatch_record \<Rightarrow> bool" where
  "continuation_eq a b \<longleftrightarrow> a\<lparr>cd_parent_input := JNull\<rparr> = b\<lparr>cd_parent_input := JNull\<rparr> \<and>
     json_eq (cd_parent_input a) (cd_parent_input b)"

definition continuation_bound_fields_match ::
  "continuation_dispatch_record \<Rightarrow> continuation_dispatch_record \<Rightarrow> bool" where
  "continuation_bound_fields_match existing expected = continuation_eq (bound_fields existing) (bound_fields expected)"

section \<open>Evidence of a direct delivery\<close>

definition direct_delivery_evidence_valid :: "continuation_dispatch_record \<Rightarrow> bool" where
  "direct_delivery_evidence_valid r =
     (let call_id_matches = (cd_direct_delivery_call_id r = Some (cd_request_id r))
      in case cd_state r of
           Prepared \<Rightarrow> cd_direct_delivery_call_id r = None \<and> cd_delivered_message_sha256 r = None \<and>
             cd_direct_delivery_result r = None
         | DeliveryUnsettled \<Rightarrow> call_id_matches \<and> cd_delivered_message_sha256 r \<noteq> None \<and>
             cd_direct_delivery_result r = None
         | _ \<Rightarrow> call_id_matches \<and> cd_delivered_message_sha256 r \<noteq> None \<and> cd_direct_delivery_result r \<noteq> None)"

definition validate_direct_delivery_state :: "continuation_dispatch_record \<Rightarrow> unit lifecycle_result" where
  "validate_direct_delivery_state r =
     and_then (case cd_delivered_message_sha256 r of None \<Rightarrow> Inr ()
         | Some digest \<Rightarrow> require_sha256 ''delivered_message_sha256'' digest) (\<lambda>_.
     and_then (case cd_direct_delivery_result r of None \<Rightarrow> Inr ()
         | Some result \<Rightarrow> require_sha256 ''direct_delivery_result.evidence_sha256'' (de_evidence_sha256 result)) (\<lambda>_.
     reject_if (\<not> direct_delivery_evidence_valid r)
       (blocker ''CONTINUATION_DIRECT_DELIVERY_STATE_EVIDENCE_INVALID''
         (cd_request_id r @ '':'' @ debug_dispatch_state (cd_state r)))))"

definition validate_convergence_proof ::
  "externals \<Rightarrow> continuation_dispatch_record \<Rightarrow> commander_convergence_proof \<Rightarrow> unit lifecycle_result" where
  "validate_convergence_proof X r p =
     and_then (map_err (\<lambda>e. blocker ''COMMANDER_CONVERGENCE_PROOF_INVALID'' e) (proof_validate_shape p)) (\<lambda>_.
     and_then (ok_or (blocker ''COMMANDER_CONVERGENCE_PROOF_WITHOUT_TARGET'' (cd_request_id r)) (cd_commander_thread_id r)) (\<lambda>thread.
     reject_if
       (cp_request_id p \<noteq> cd_request_id r \<or> cp_callback_payload_sha256 p \<noteq> cd_callback_payload_sha256 r \<or>
        cp_effect_identity_sha256 p \<noteq> effect_sha256 X (cd_effect_identity r) \<or>
        cp_child_session_id p \<noteq> cd_child_session_id r \<or>
        cp_child_transaction_id p \<noteq> cd_child_transaction_id r \<or>
        cp_child_runtime_id p \<noteq> cd_child_runtime_id r \<or>
        cp_requested_action p \<noteq> cd_requested_action r \<or> cp_target_thread_id p \<noteq> thread \<or>
        cp_pre_revision_sha256 p \<noteq> cd_parent_mission_revision_sha256 r)
       (blocker ''COMMANDER_CONVERGENCE_PROOF_BINDING_MISMATCH'' (cd_request_id r))))"

end
