(* ===== verification/Store_Disk.thy ===== *)
theory Store_Disk
  imports Continuation_Records "HOL-Library.AList"
begin

text \<open>
  The directories of the lifecycle store and the durable writes on them.

  A directory is the list of its \<open>.json\<close> files by name; a file holds a record, or it cannot be read and
  reading it gives a blocker (an I/O error or text that is not the record). Temporaries of interrupted
  writes end in \<open>.tmp\<close>, which no scan reads; they matter only to the test that \<open>blockers/\<close> is empty, so
  \<open>sd_blocker_strays\<close> lists them there. Reading back what was written gives the record that was written
  (serde\_json is built with \<open>float_roundtrip\<close>).

  \<open>durable_write\<close> writes a temporary, syncs it and renames it, so a write is one atomic effect. Every
  operation first reads and decides and then writes: it is modelled as a function that returns its
  outcome and the list of the effects it performs, in order. A process that dies or meets an I/O error
  on the way has performed a prefix of that list.
\<close>

section \<open>The remaining records\<close>

datatype identity_failure_kind = CompactionFailed | TransportUncertain | CallbackPending | ReplayPending | RestartPending

record pending_identity_failure =
  pf_commander_session_id :: string
  pf_transaction_id :: string
  pf_event_id :: string
  pf_kind :: identity_failure_kind
  pf_blocker :: string

datatype checkpoint_event_kind = CloseWrite | ModifyEvent | WatchdogReconcile

record checkpoint_evidence =
  ce_schema_version :: string
  ce_commander_session_id :: string
  ce_child_session_id :: string
  ce_checkpoint_id :: string
  ce_stage :: string
  ce_next_sequence :: u64
  ce_next_management_sequence :: u64
  ce_persisted_delta_sha256 :: string

record slot_release_receipt =
  rl_schema_version :: string
  rl_transaction_id :: string
  rl_event_id :: string
  rl_commander_session_id :: string
  rl_child_session_id :: string
  rl_runtime_id :: string
  rl_lease_id :: string
  rl_history_readable :: bool
  rl_follow_up_capable :: bool

record blocker_record =
  br_schema_version :: string
  br_sequence :: u64
  br_code :: string
  br_detail :: string
  br_commander_session_id :: string
  br_transaction_id :: "string option"
  br_event_id :: "string option"

record reconcile_record =
  rr_schema_version :: string
  rr_source :: checkpoint_event_kind
  rr_commander_session_id :: string
  rr_checkpoint_id :: string
  rr_blocker :: "string option"

section \<open>Files and directories\<close>

datatype 'a stored_file = Record 'a | Unreadable lifecycle_blocker

type_synonym 'a directory = "(string \<times> 'a stored_file) list"

definition io_blocker :: "string \<Rightarrow> lifecycle_blocker" where
  "io_blocker error = blocker ''LIFECYCLE_IO_FAILED'' error"

definition os_not_found :: string where
  "os_not_found = ''No such file or directory (os error 2)''"

fun read_file :: "'a stored_file option \<Rightarrow> 'a lifecycle_result" where
  "read_file None = Inl (io_blocker os_not_found)"
| "read_file (Some (Record r)) = Inr r"
| "read_file (Some (Unreadable b)) = Inl b"

definition read_json :: "'a directory \<Rightarrow> string \<Rightarrow> 'a lifecycle_result" where
  "read_json d key = read_file (map_of d key)"

definition exists_file :: "'a directory \<Rightarrow> string \<Rightarrow> bool" where
  "exists_file d key = (map_of d key \<noteq> None)"

text \<open>The file names of a directory in order.\<close>

definition json_files :: "'a directory \<Rightarrow> string list" where
  "json_files d = sort (map fst d)"

definition json_files_bounded :: "'a directory \<Rightarrow> string \<Rightarrow> nat \<Rightarrow> string list lifecycle_result" where
  "json_files_bounded d shown limit =
     (if length d > limit then Inl (blocker ''CONTROL_DECK_COLLECTION_LIMIT_EXCEEDED'' (shown @ '':'' @ decimal limit))
      else Inr (sort (map fst d)))"

definition write_file :: "string \<Rightarrow> 'a \<Rightarrow> 'a directory \<Rightarrow> 'a directory" where
  "write_file key r d = AList.update key (Record r) d"

definition remove_file :: "string \<Rightarrow> 'a directory \<Rightarrow> 'a directory" where
  "remove_file key d = AList.delete key d"

lemma read_file_Inr [simp]: "read_file f = Inr r \<longleftrightarrow> f = Some (Record r)"
  by (cases f rule: read_file.cases) simp_all

lemma read_json_Inr: "read_json d key = Inr r \<longleftrightarrow> map_of d key = Some (Record r)"
  by (simp add: read_json_def)

lemma map_of_write [simp]: "map_of (write_file key r d) = (map_of d)(key \<mapsto> Record r)"
  by (simp add: write_file_def update_conv')

lemma map_of_remove [simp]: "map_of (remove_file key d) = (map_of d)(key := None)"
  by (simp add: remove_file_def delete_conv')

lemma set_json_files [simp]: "set (json_files d) = dom (map_of d)"
  by (simp add: json_files_def dom_map_of_conv_image_fst)

lemma distinct_write [simp]: "distinct (map fst d) \<Longrightarrow> distinct (map fst (write_file key r d))"
  by (simp add: write_file_def distinct_update)

lemma distinct_remove [simp]: "distinct (map fst d) \<Longrightarrow> distinct (map fst (remove_file key d))"
  by (simp add: remove_file_def distinct_delete)

section \<open>The store\<close>

record store_disk =
  sd_admissions :: "child_admission_record directory"
  sd_pending_receipts :: "stored_receipt directory"
  sd_applied_receipts :: "stored_receipt directory"
  sd_acknowledged_receipts :: "receipt_acknowledgement directory"
  sd_pending_callbacks :: "durable_callback_record directory"
  sd_intaken_callbacks :: "durable_callback_record directory"
  sd_acknowledged_callbacks :: "callback_acknowledgement directory"
  sd_continuations :: "continuation_dispatch_record directory"
  sd_identity_pending :: "pending_identity_failure directory"
  sd_checkpoints :: "checkpoint_evidence directory"
  sd_released :: "slot_release_receipt directory"
  sd_blockers :: "blocker_record directory"
  sd_blocker_strays :: "string list"
  sd_last_blocker :: "blocker_record stored_file option"
  sd_last_reconcile :: "reconcile_record stored_file option"

text \<open>What \<open>ensure_layout\<close> leaves behind for a new root: empty directories.\<close>

definition empty_disk :: store_disk where
  "empty_disk = \<lparr>sd_admissions = [], sd_pending_receipts = [], sd_applied_receipts = [],
     sd_acknowledged_receipts = [], sd_pending_callbacks = [], sd_intaken_callbacks = [],
     sd_acknowledged_callbacks = [], sd_continuations = [], sd_identity_pending = [], sd_checkpoints = [],
     sd_released = [], sd_blockers = [], sd_blocker_strays = [], sd_last_blocker = None, sd_last_reconcile = None\<rparr>"

datatype store_effect =
    WriteAdmission string child_admission_record
  | WritePendingReceipt string stored_receipt
  | WriteAppliedReceipt string stored_receipt
  | RemovePendingReceipt string
  | WriteReceiptAck string receipt_acknowledgement
  | WritePendingCallback string durable_callback_record
  | WriteIntakenCallback string durable_callback_record
  | RemovePendingCallback string
  | WriteCallbackAck string callback_acknowledgement
  | WriteContinuation string continuation_dispatch_record
  | WriteIdentityPending string pending_identity_failure
  | WriteCheckpoint string checkpoint_evidence
  | WriteRelease string slot_release_receipt
  | WriteBlocker string blocker_record
  | WriteLastBlocker blocker_record
  | WriteLastReconcile reconcile_record

fun apply_effect :: "store_effect \<Rightarrow> store_disk \<Rightarrow> store_disk" where
  "apply_effect (WriteAdmission k r) d = d\<lparr>sd_admissions := write_file k r (sd_admissions d)\<rparr>"
| "apply_effect (WritePendingReceipt k r) d = d\<lparr>sd_pending_receipts := write_file k r (sd_pending_receipts d)\<rparr>"
| "apply_effect (WriteAppliedReceipt k r) d = d\<lparr>sd_applied_receipts := write_file k r (sd_applied_receipts d)\<rparr>"
| "apply_effect (RemovePendingReceipt k) d = d\<lparr>sd_pending_receipts := remove_file k (sd_pending_receipts d)\<rparr>"
| "apply_effect (WriteReceiptAck k r) d = d\<lparr>sd_acknowledged_receipts := write_file k r (sd_acknowledged_receipts d)\<rparr>"
| "apply_effect (WritePendingCallback k r) d = d\<lparr>sd_pending_callbacks := write_file k r (sd_pending_callbacks d)\<rparr>"
| "apply_effect (WriteIntakenCallback k r) d = d\<lparr>sd_intaken_callbacks := write_file k r (sd_intaken_callbacks d)\<rparr>"
| "apply_effect (RemovePendingCallback k) d = d\<lparr>sd_pending_callbacks := remove_file k (sd_pending_callbacks d)\<rparr>"
| "apply_effect (WriteCallbackAck k r) d = d\<lparr>sd_acknowledged_callbacks := write_file k r (sd_acknowledged_callbacks d)\<rparr>"
| "apply_effect (WriteContinuation k r) d = d\<lparr>sd_continuations := write_file k r (sd_continuations d)\<rparr>"
| "apply_effect (WriteIdentityPending k r) d = d\<lparr>sd_identity_pending := write_file k r (sd_identity_pending d)\<rparr>"
| "apply_effect (WriteCheckpoint k r) d = d\<lparr>sd_checkpoints := write_file k r (sd_checkpoints d)\<rparr>"
| "apply_effect (WriteRelease k r) d = d\<lparr>sd_released := write_file k r (sd_released d)\<rparr>"
| "apply_effect (WriteBlocker k r) d = d\<lparr>sd_blockers := write_file k r (sd_blockers d)\<rparr>"
| "apply_effect (WriteLastBlocker r) d = d\<lparr>sd_last_blocker := Some (Record r)\<rparr>"
| "apply_effect (WriteLastReconcile r) d = d\<lparr>sd_last_reconcile := Some (Record r)\<rparr>"

definition perform :: "store_effect list \<Rightarrow> store_disk \<Rightarrow> store_disk" where
  "perform es d = fold apply_effect es d"

lemma perform_simps [simp]: "perform [] d = d" "perform (e # es) d = perform es (apply_effect e d)"
  by (simp_all add: perform_def)

lemma perform_append [simp]: "perform (es @ fs) d = perform fs (perform es d)"
  by (simp add: perform_def)

type_synonym 'a operation_result = "('a \<times> store_effect list) lifecycle_result"

section \<open>The handle\<close>

record lifecycle_config =
  lc_watchdog_interval_secs :: u64
  lc_event_channel_capacity :: nat

definition config_default :: lifecycle_config where
  "config_default = \<lparr>lc_watchdog_interval_secs = DEFAULT_WATCHDOG_INTERVAL_SECS, lc_event_channel_capacity = 64\<rparr>"

definition config_validate :: "lifecycle_config \<Rightarrow> lifecycle_config lifecycle_result" where
  "config_validate c =
     and_then (reject_if (lc_watchdog_interval_secs c < MINIMUM_WATCHDOG_INTERVAL_SECS)
         (blocker ''WATCHDOG_INTERVAL_NOT_DEMOTED'' (decimal (unat (lc_watchdog_interval_secs c))))) (\<lambda>_.
     and_then (reject_if (lc_event_channel_capacity c = 0)
         (blocker ''NATIVE_EVENT_CHANNEL_UNBOUNDED_OR_EMPTY'' ''capacity must be positive'')) (\<lambda>_.
     Inr c))"

record session_lifecycle_store =
  st_root :: string
  st_commander_session_id :: string
  st_config :: lifecycle_config

text \<open>\<open>Path::join\<close> of a relative path, on Unix.\<close>

definition path_join :: "string \<Rightarrow> string \<Rightarrow> string" where
  "path_join base rel = (if base = [] then rel else if last base = CHR ''/'' then base @ rel else base @ ''/'' @ rel)"

definition store_path :: "session_lifecycle_store \<Rightarrow> string \<Rightarrow> string \<Rightarrow> string" where
  "store_path self directory key = path_join (path_join (st_root self) directory) key"

definition commander_store_path :: "externals \<Rightarrow> string \<Rightarrow> string \<Rightarrow> string lifecycle_result" where
  "commander_store_path X base commander_session_id =
     and_then (require_identifier ''commander_session_id'' commander_session_id) (\<lambda>_.
     Inr (path_join base (sha256_hex X commander_session_id)))"

text \<open>\<open>open\<close> creates the layout where it is missing and leaves what is there.\<close>

definition store_open ::
  "string \<Rightarrow> string \<Rightarrow> lifecycle_config \<Rightarrow> store_disk option \<Rightarrow> (session_lifecycle_store \<times> store_disk) lifecycle_result" where
  "store_open root commander_session_id config disk =
     and_then (require_identifier ''commander_session_id'' commander_session_id) (\<lambda>_.
     and_then (config_validate config) (\<lambda>c.
     Inr (\<lparr>st_root = root, st_commander_session_id = commander_session_id, st_config = c\<rparr>,
       (case disk of None \<Rightarrow> empty_disk | Some d \<Rightarrow> d))))"

text \<open>What \<open>open_existing\<close> can find at the root.\<close>

datatype root_entry = RootMissing | RootNotDirectory | RootDirectory bool

definition store_open_existing ::
  "string \<Rightarrow> string \<Rightarrow> lifecycle_config \<Rightarrow> root_entry \<Rightarrow> session_lifecycle_store option lifecycle_result" where
  "store_open_existing root commander_session_id config entry =
     (case entry of
        RootMissing \<Rightarrow> Inr None
      | RootNotDirectory \<Rightarrow> Inl (blocker ''LIFECYCLE_STORE_NOT_DIRECTORY'' root)
      | RootDirectory lock_is_file \<Rightarrow>
          and_then (require_identifier ''commander_session_id'' commander_session_id) (\<lambda>_.
          and_then (config_validate config) (\<lambda>c.
          and_then (reject_if (\<not> lock_is_file)
              (blocker ''LIFECYCLE_READ_LOCK_MISSING'' (path_join root ''lifecycle.lock''))) (\<lambda>_.
          Inr (Some \<lparr>st_root = root, st_commander_session_id = commander_session_id, st_config = c\<rparr>)))))"

section \<open>Keys\<close>

definition receipt_key :: "externals \<Rightarrow> string \<Rightarrow> string \<Rightarrow> string" where
  "receipt_key X transaction_id event_id = sha256_hex X (transaction_id @ [CHR 0x00] @ event_id) @ ''.json''"

definition child_admission_key :: "externals \<Rightarrow> string \<Rightarrow> string" where
  "child_admission_key X child_session_id = sha256_hex X child_session_id @ ''.json''"

end
