(* ===== verification/Store_Receipts.thy ===== *)
theory Store_Receipts
  imports Store_Disk
begin

text \<open>
  Terminal receipts in the store: writing, intake in sequence order, acknowledgement, the blocker log,
  and the release of a terminal slot.
\<close>

section \<open>Validation and reading\<close>

definition validate_receipt :: "session_lifecycle_store \<Rightarrow> terminal_receipt \<Rightarrow> unit lifecycle_result" where
  "validate_receipt self r =
     and_then (reject_if (tr_schema_version r \<noteq> RECEIPT_SCHEMA)
         (blocker ''RECEIPT_SCHEMA_UNSUPPORTED'' (tr_schema_version r))) (\<lambda>_.
     and_then (require_identifiers
         [(''transaction_id'', tr_transaction_id r), (''event_id'', tr_event_id r),
          (''commander_session_id'', tr_commander_session_id r), (''child_session_id'', tr_child_session_id r),
          (''runtime_id'', tr_runtime_id r), (''lease_id'', tr_lease_id r)]) (\<lambda>_.
     and_then (reject_if (tr_commander_session_id r \<noteq> st_commander_session_id self)
         (blocker ''COMMANDER_IDENTITY_MISMATCH'' (tr_commander_session_id r))) (\<lambda>_.
     reject_if (\<not> tr_history_readable r \<or> \<not> tr_follow_up_capable r)
         (blocker ''HISTORY_OR_FOLLOW_UP_NOT_PRESERVED'' (tr_event_id r)))))"

definition read_stored_receipt ::
  "externals \<Rightarrow> string \<Rightarrow> stored_receipt directory \<Rightarrow> string \<Rightarrow> stored_receipt lifecycle_result" where
  "read_stored_receipt X path dir key =
     and_then (read_json dir key) (\<lambda>stored.
     and_then (reject_if (sto_schema_version stored \<noteq> STORED_RECEIPT_SCHEMA)
         (blocker ''STORED_RECEIPT_SCHEMA_UNSUPPORTED'' (sto_schema_version stored))) (\<lambda>_.
     and_then (reject_if (payload_sha256 X (sto_receipt stored) \<noteq> sto_payload_sha256 stored)
         (blocker ''RECEIPT_CORRUPT'' path)) (\<lambda>_.
     Inr stored)))"

abbreviation applied_path :: "session_lifecycle_store \<Rightarrow> string \<Rightarrow> string" where
  "applied_path self key \<equiv> store_path self ''receipts/applied'' key"

abbreviation pending_path :: "session_lifecycle_store \<Rightarrow> string \<Rightarrow> string" where
  "pending_path self key \<equiv> store_path self ''receipts/pending'' key"

definition read_applied :: "externals \<Rightarrow> session_lifecycle_store \<Rightarrow> store_disk \<Rightarrow> string \<Rightarrow> stored_receipt lifecycle_result" where
  "read_applied X self d key = read_stored_receipt X (applied_path self key) (sd_applied_receipts d) key"

definition read_pending :: "externals \<Rightarrow> session_lifecycle_store \<Rightarrow> store_disk \<Rightarrow> string \<Rightarrow> stored_receipt lifecycle_result" where
  "read_pending X self d key = read_stored_receipt X (pending_path self key) (sd_pending_receipts d) key"

section \<open>Writing a receipt\<close>

datatype receipt_write_outcome = ReceiptWritten string | ReceiptAlreadyDurable string

definition existing_receipt_outcome ::
  "string \<Rightarrow> string \<Rightarrow> terminal_receipt \<Rightarrow> stored_receipt \<Rightarrow> receipt_write_outcome operation_result" where
  "existing_receipt_outcome path key r existing =
     (if receipt_eq (sto_receipt existing) r then Inr (ReceiptAlreadyDurable path, [])
      else Inl (blocker ''RECEIPT_IDENTITY_CONFLICT'' key))"

definition write_terminal_receipt ::
  "externals \<Rightarrow> session_lifecycle_store \<Rightarrow> terminal_receipt \<Rightarrow> store_disk \<Rightarrow> receipt_write_outcome operation_result" where
  "write_terminal_receipt X self r d =
     and_then (validate_receipt self r) (\<lambda>_.
     let key = receipt_key X (tr_transaction_id r) (tr_event_id r)
     in if exists_file (sd_applied_receipts d) key
        then and_then (read_applied X self d key) (existing_receipt_outcome (applied_path self key) key r)
        else if exists_file (sd_pending_receipts d) key
        then and_then (read_pending X self d key) (existing_receipt_outcome (pending_path self key) key r)
        else Inr (ReceiptWritten (pending_path self key), [WritePendingReceipt key (stored_receipt_of X r)]))"

definition terminal_receipt_unlocked ::
  "externals \<Rightarrow> session_lifecycle_store \<Rightarrow> string \<Rightarrow> string \<Rightarrow> store_disk \<Rightarrow> terminal_receipt lifecycle_result" where
  "terminal_receipt_unlocked X self transaction_id event_id d =
     (let key = receipt_key X transaction_id event_id;
          validated = (\<lambda>stored. and_then (validate_receipt self (sto_receipt stored)) (\<lambda>_. Inr (sto_receipt stored)))
      in if exists_file (sd_applied_receipts d) key then and_then (read_applied X self d key) validated
         else if exists_file (sd_pending_receipts d) key then and_then (read_pending X self d key) validated
         else Inl (blocker ''TERMINAL_RECEIPT_NOT_FOUND'' key))"

definition lookup_terminal_receipt ::
  "externals \<Rightarrow> session_lifecycle_store \<Rightarrow> string \<Rightarrow> string \<Rightarrow> store_disk \<Rightarrow> terminal_receipt lifecycle_result" where
  "lookup_terminal_receipt X self transaction_id event_id d =
     and_then (require_identifier ''transaction_id'' transaction_id) (\<lambda>_.
     and_then (require_identifier ''event_id'' event_id) (\<lambda>_.
     terminal_receipt_unlocked X self transaction_id event_id d))"

section \<open>Blockers\<close>

definition blocker_key :: "u64 \<Rightarrow> string" where
  "blocker_key sequence = padded 20 (unat sequence) @ ''.json''"

text \<open>The last blocker, which the log must hold under its sequence number.\<close>

definition read_last_blocker ::
  "session_lifecycle_store \<Rightarrow> store_disk \<Rightarrow> blocker_record option lifecycle_result" where
  "read_last_blocker self d =
     (case sd_last_blocker d of
        Some f \<Rightarrow>
          and_then (read_file (Some f)) (\<lambda>previous.
          let key = blocker_key (br_sequence previous); durable_path = store_path self ''blockers'' key
          in and_then (map_err (\<lambda>error. blocker ''BLOCKER_HIGH_WATER_MISMATCH'' (durable_path @ '':'' @ display_blocker error))
               (read_json (sd_blockers d) key)) (\<lambda>durable.
             and_then (reject_if (durable \<noteq> previous) (blocker ''BLOCKER_HIGH_WATER_MISMATCH'' durable_path)) (\<lambda>_.
             Inr (Some previous))))
      | None \<Rightarrow>
          and_then (reject_if (sd_blockers d \<noteq> [] \<or> sd_blocker_strays d \<noteq> [])
              (blocker ''BLOCKER_HIGH_WATER_MISSING'' (path_join (st_root self) ''blockers''))) (\<lambda>_.
          Inr None))"

definition same_blocker ::
  "session_lifecycle_store \<Rightarrow> lifecycle_blocker \<Rightarrow> string option \<Rightarrow> string option \<Rightarrow> blocker_record \<Rightarrow> bool" where
  "same_blocker self b transaction_id event_id r \<longleftrightarrow>
     br_code r = lb_code b \<and> br_detail r = lb_detail b \<and>
     br_commander_session_id r = st_commander_session_id self \<and>
     br_transaction_id r = transaction_id \<and> br_event_id r = event_id"

definition next_blocker_sequence :: "blocker_record option \<Rightarrow> u64 lifecycle_result" where
  "next_blocker_sequence previous =
     (case previous of
        None \<Rightarrow> Inr 0
      | Some r \<Rightarrow> if br_sequence r = - 1 then Inl (blocker ''BLOCKER_SEQUENCE_EXHAUSTED'' ''u64'')
          else Inr (br_sequence r + 1))"

definition write_blocker_unlocked ::
  "session_lifecycle_store \<Rightarrow> lifecycle_blocker \<Rightarrow> string option \<Rightarrow> string option \<Rightarrow> store_disk \<Rightarrow>
   store_effect list lifecycle_result" where
  "write_blocker_unlocked self b transaction_id event_id d =
     and_then (read_last_blocker self d) (\<lambda>previous.
     if (case previous of None \<Rightarrow> False | Some r \<Rightarrow> same_blocker self b transaction_id event_id r) then Inr []
     else and_then (next_blocker_sequence previous) (\<lambda>sequence.
       let record = \<lparr>br_schema_version = BLOCKER_SCHEMA, br_sequence = sequence, br_code = lb_code b,
             br_detail = lb_detail b, br_commander_session_id = st_commander_session_id self,
             br_transaction_id = transaction_id, br_event_id = event_id\<rparr>;
           key = blocker_key sequence
       in if exists_file (sd_blockers d) key
          then and_then (read_json (sd_blockers d) key) (\<lambda>existing.
               and_then (reject_if (existing \<noteq> record)
                 (blocker ''BLOCKER_SEQUENCE_CONFLICT'' (store_path self ''blockers'' key))) (\<lambda>_.
               Inr [WriteLastBlocker record]))
          else Inr [WriteBlocker key record, WriteLastBlocker record]))"

section \<open>The next sequence number of a transaction\<close>

fun collect_sequences ::
  "externals \<Rightarrow> session_lifecycle_store \<Rightarrow> store_disk \<Rightarrow> string \<Rightarrow> u64 list \<Rightarrow> string list \<Rightarrow> u64 list lifecycle_result" where
  "collect_sequences X self d transaction_id sequences [] = Inr sequences"
| "collect_sequences X self d transaction_id sequences (key # keys) =
     and_then (read_applied X self d key) (\<lambda>stored.
       if tr_transaction_id (sto_receipt stored) = transaction_id
       then if tr_event_seq (sto_receipt stored) \<in> set sequences
         then Inl (blocker ''APPLIED_EVENT_SEQUENCE_DUPLICATE'' (decimal (unat (tr_event_seq (sto_receipt stored)))))
         else collect_sequences X self d transaction_id (tr_event_seq (sto_receipt stored) # sequences) keys
       else collect_sequences X self d transaction_id sequences keys)"

fun check_gaps :: "u64 \<Rightarrow> u64 list \<Rightarrow> u64 lifecycle_result" where
  "check_gaps expected [] = Inr expected"
| "check_gaps expected (sequence # rest) =
     and_then (reject_if (sequence \<noteq> expected) (blocker ''APPLIED_EVENT_SEQUENCE_GAP''
         (''expected='' @ decimal (unat expected) @ '',received='' @ decimal (unat sequence)))) (\<lambda>_.
     check_gaps (expected + 1) rest)"

definition next_receipt_event_sequence_unlocked ::
  "externals \<Rightarrow> session_lifecycle_store \<Rightarrow> string \<Rightarrow> store_disk \<Rightarrow> u64 lifecycle_result" where
  "next_receipt_event_sequence_unlocked X self transaction_id d =
     and_then (collect_sequences X self d transaction_id [] (json_files (sd_applied_receipts d))) (\<lambda>sequences.
     check_gaps 0 (sort sequences))"

definition next_receipt_event_sequence ::
  "externals \<Rightarrow> session_lifecycle_store \<Rightarrow> string \<Rightarrow> store_disk \<Rightarrow> u64 lifecycle_result" where
  "next_receipt_event_sequence X self transaction_id d =
     and_then (require_identifier ''transaction_id'' transaction_id) (\<lambda>_.
     next_receipt_event_sequence_unlocked X self transaction_id d)"

section \<open>Intake\<close>

datatype intake_outcome = IntakeApplied u64 | IntakeDuplicate u64 | IntakePending lifecycle_blocker

definition intake_duplicate ::
  "externals \<Rightarrow> session_lifecycle_store \<Rightarrow> string \<Rightarrow> store_disk \<Rightarrow> intake_outcome operation_result" where
  "intake_duplicate X self key d =
     and_then (read_applied X self d key) (\<lambda>stored.
     if exists_file (sd_pending_receipts d) key
     then and_then (read_pending X self d key) (\<lambda>pending.
          and_then (reject_if (\<not> stored_receipt_eq pending stored) (blocker ''RECEIPT_REPLAY_CONFLICT'' key)) (\<lambda>_.
          Inr (IntakeDuplicate (tr_event_seq (sto_receipt stored)), [RemovePendingReceipt key])))
     else Inr (IntakeDuplicate (tr_event_seq (sto_receipt stored)), []))"

definition intake_pending ::
  "externals \<Rightarrow> session_lifecycle_store \<Rightarrow> string \<Rightarrow> string \<Rightarrow> string \<Rightarrow> store_disk \<Rightarrow> intake_outcome operation_result" where
  "intake_pending X self transaction_id event_id key d =
     and_then (reject_if (\<not> exists_file (sd_pending_receipts d) key) (blocker ''PENDING_RECEIPT_NOT_FOUND'' key)) (\<lambda>_.
     and_then (read_pending X self d key) (\<lambda>stored.
     and_then (validate_receipt self (sto_receipt stored)) (\<lambda>_.
     and_then (next_receipt_event_sequence_unlocked X self transaction_id d) (\<lambda>expected.
     let received = tr_event_seq (sto_receipt stored)
     in if received \<noteq> expected
        then let b = blocker (if received > expected then ''RECEIPT_EVENT_OUT_OF_ORDER'' else ''RECEIPT_EVENT_SEQUENCE_CONFLICT'')
               (''expected='' @ decimal (unat expected) @ '',received='' @ decimal (unat received))
             in and_then (write_blocker_unlocked self b (Some transaction_id) (Some event_id) d) (\<lambda>effects.
                Inr (IntakePending b, effects))
        else Inr (IntakeApplied received, [WriteAppliedReceipt key stored, RemovePendingReceipt key])))))"

definition intake ::
  "externals \<Rightarrow> session_lifecycle_store \<Rightarrow> string \<Rightarrow> string \<Rightarrow> store_disk \<Rightarrow> intake_outcome operation_result" where
  "intake X self transaction_id event_id d =
     and_then (require_identifier ''transaction_id'' transaction_id) (\<lambda>_.
     and_then (require_identifier ''event_id'' event_id) (\<lambda>_.
     let key = receipt_key X transaction_id event_id
     in if exists_file (sd_applied_receipts d) key then intake_duplicate X self key d
        else intake_pending X self transaction_id event_id key d))"

fun intake_all ::
  "externals \<Rightarrow> session_lifecycle_store \<Rightarrow> (string \<times> string) list \<Rightarrow> store_disk \<Rightarrow>
   (string \<times> string \<times> intake_outcome) list lifecycle_result \<times> store_disk" where
  "intake_all X self [] d = (Inr [], d)"
| "intake_all X self ((transaction_id, event_id) # rest) d =
     (case intake X self transaction_id event_id d of
        Inl b \<Rightarrow> (Inl b, d)
      | Inr (outcome, effects) \<Rightarrow>
          (case intake_all X self rest (perform effects d) of
             (Inl b, d') \<Rightarrow> (Inl b, d')
           | (Inr outcomes, d') \<Rightarrow> (Inr ((transaction_id, event_id, outcome) # outcomes), d')))"

definition replay_pending ::
  "externals \<Rightarrow> session_lifecycle_store \<Rightarrow> store_disk \<Rightarrow>
   (string \<times> string \<times> intake_outcome) list lifecycle_result \<times> store_disk" where
  "replay_pending X self d =
     (case try_map (read_pending X self d) (json_files (sd_pending_receipts d)) of
        Inl b \<Rightarrow> (Inl b, d)
      | Inr stored \<Rightarrow>
          intake_all X self (map (\<lambda>r. (tr_transaction_id r, tr_event_id r))
            (sort_key tr_event_seq (map sto_receipt stored))) d)"

section \<open>Acknowledgement and release\<close>

datatype ack_outcome = AckAcknowledged | AckAlreadyAcknowledged

definition acknowledge ::
  "externals \<Rightarrow> session_lifecycle_store \<Rightarrow> string \<Rightarrow> string \<Rightarrow> string \<Rightarrow> store_disk \<Rightarrow> ack_outcome operation_result" where
  "acknowledge X self transaction_id event_id delivery_id d =
     and_then (require_identifier ''delivery_id'' delivery_id) (\<lambda>_.
     let key = receipt_key X transaction_id event_id
     in and_then (read_applied X self d key) (\<lambda>applied.
        let acknowledgement = \<lparr>rk_schema_version = ACK_SCHEMA, rk_transaction_id = transaction_id, rk_event_id = event_id,
              rk_event_seq = tr_event_seq (sto_receipt applied),
              rk_commander_session_id = st_commander_session_id self, rk_delivery_id = delivery_id\<rparr>
        in if exists_file (sd_acknowledged_receipts d) key
           then and_then (read_json (sd_acknowledged_receipts d) key) (\<lambda>existing.
                if existing = acknowledgement then Inr (AckAlreadyAcknowledged, [])
                else Inl (blocker ''RECEIPT_ACK_CONFLICT'' (store_path self ''receipts/acknowledged'' key)))
           else Inr (AckAcknowledged, [WriteReceiptAck key acknowledgement])))"

record live_effect_evidence =
  le_runtime_worker_alive :: bool
  le_active_tool_calls :: nat
  le_active_command_runs :: nat
  le_live_effect_processes :: nat
  le_pending_init :: bool

definition reclaim_blocker :: "live_effect_evidence \<Rightarrow> lifecycle_blocker option" where
  "reclaim_blocker e =
     (if le_runtime_worker_alive e then Some (blocker ''LIVE_RUNTIME_WORKER_REMAINS'' ''runtime_worker_alive=true'')
      else if le_active_tool_calls e > 0 then Some (blocker ''LIVE_TOOL_CALL_REMAINS'' (decimal (le_active_tool_calls e)))
      else if le_active_command_runs e > 0 then Some (blocker ''LIVE_COMMAND_RUN_REMAINS'' (decimal (le_active_command_runs e)))
      else if le_live_effect_processes e > 0 then Some (blocker ''LIVE_EFFECT_PROCESS_REMAINS'' (decimal (le_live_effect_processes e)))
      else if le_pending_init e then Some (blocker ''PENDING_INIT_REMAINS'' ''pending_init=true'')
      else None)"

datatype reclaim_outcome = Released | AlreadyReleased | Retained lifecycle_blocker

definition release_of :: "string \<Rightarrow> string \<Rightarrow> terminal_receipt \<Rightarrow> slot_release_receipt" where
  "release_of transaction_id event_id r =
     \<lparr>rl_schema_version = RELEASE_SCHEMA, rl_transaction_id = transaction_id, rl_event_id = event_id,
      rl_commander_session_id = tr_commander_session_id r, rl_child_session_id = tr_child_session_id r,
      rl_runtime_id = tr_runtime_id r, rl_lease_id = tr_lease_id r,
      rl_history_readable = tr_history_readable r, rl_follow_up_capable = tr_follow_up_capable r\<rparr>"

definition reclaim_terminal_slot ::
  "externals \<Rightarrow> session_lifecycle_store \<Rightarrow> string \<Rightarrow> string \<Rightarrow> live_effect_evidence \<Rightarrow> store_disk \<Rightarrow> reclaim_outcome operation_result" where
  "reclaim_terminal_slot X self transaction_id event_id evidence d =
     (let key = receipt_key X transaction_id event_id
      in and_then (read_applied X self d key) (\<lambda>stored.
         case reclaim_blocker evidence of
           Some b \<Rightarrow>
             and_then (write_blocker_unlocked self b (Some transaction_id) (Some event_id) d) (\<lambda>effects.
             Inr (Retained b, effects))
         | None \<Rightarrow>
             (let release = release_of transaction_id event_id (sto_receipt stored)
              in if exists_file (sd_released d) key
                 then and_then (read_json (sd_released d) key) (\<lambda>existing.
                      if existing = release then Inr (AlreadyReleased, [])
                      else Inl (blocker ''SLOT_RELEASE_IDENTITY_CONFLICT'' (store_path self ''slots/released'' key)))
                 else Inr (Released, [WriteRelease key release]))))"

end
