(* ===== verification/Store_Callbacks.thy ===== *)
theory Store_Callbacks
  imports Store_Receipts "HOL-Library.Product_Lexorder"
begin

text \<open>
  Child admissions and durable callbacks in the store: a child is admitted once, its terminal callback
  is published against the durable receipt of the same terminal event, taken in, and acknowledged.
\<close>

section \<open>Child admissions\<close>

definition validate_child_admission :: "session_lifecycle_store \<Rightarrow> child_admission_record \<Rightarrow> unit lifecycle_result" where
  "validate_child_admission self a =
     and_then (reject_if (ca_schema_version a \<noteq> CHILD_ADMISSION_SCHEMA)
         (blocker ''CHILD_ADMISSION_SCHEMA_UNSUPPORTED'' (ca_schema_version a))) (\<lambda>_.
     and_then (require_identifiers
         [(''parent_session_id'', ca_parent_session_id a), (''child_session_id'', ca_child_session_id a),
          (''child_runtime_id'', ca_child_runtime_id a), (''child_transaction_id'', ca_child_transaction_id a),
          (''child_lease_id'', ca_child_lease_id a), (''callback_request_id'', ca_callback_request_id a),
          (''effect_id'', ca_effect_id a), (''session_directory'', ca_session_directory a),
          (''session_name'', ca_session_name a)]) (\<lambda>_.
     and_then (require_sha256s
         [(''parent_mission_revision_sha256'', ca_parent_mission_revision_sha256 a),
          (''delegated_input_sha256'', ca_delegated_input_sha256 a),
          (''execution_payload_sha256'', ca_execution_payload_sha256 a)]) (\<lambda>_.
     and_then (case ca_ready_set_identity a of None \<Rightarrow> Inr () | Some i \<Rightarrow> validate_ready_identity i) (\<lambda>_.
     and_then (reject_if (ca_parent_session_id a \<noteq> st_commander_session_id self)
         (blocker ''CHILD_ADMISSION_PARENT_IDENTITY_MISMATCH'' (ca_parent_session_id a))) (\<lambda>_.
     and_then (reject_if (ca_parent_session_id a = ca_child_session_id a)
         (blocker ''CHILD_ADMISSION_IDENTITY_CONFLICT'' ''parent_equals_child'')) (\<lambda>_.
     and_then (reject_if (ca_callback_request_id a \<noteq> ca_child_transaction_id a)
         (blocker ''CHILD_ADMISSION_CALLBACK_IDENTITY_CONFLICT'' (ca_callback_request_id a))) (\<lambda>_.
     let canonical_effect_id = ca_child_runtime_id a @ ''.message''
     in and_then (reject_if (ca_effect_id a \<noteq> canonical_effect_id)
         (blocker ''CHILD_ADMISSION_EFFECT_IDENTITY_CONFLICT''
           (''expected='' @ canonical_effect_id @ '',actual='' @ ca_effect_id a))) (\<lambda>_.
     reject_if (ca_created_at_ms a \<le> 0) (blocker ''CHILD_ADMISSION_IDENTITY_INVALID'' ''created_at_ms'')))))))))"

datatype child_admission_outcome = Admitted | AlreadyAdmitted

definition admit_child ::
  "externals \<Rightarrow> session_lifecycle_store \<Rightarrow> child_admission_record \<Rightarrow> store_disk \<Rightarrow> child_admission_outcome operation_result" where
  "admit_child X self a d =
     and_then (validate_child_admission self a) (\<lambda>_.
     and_then (require_direct_writer_binding (ca_commander_thread_id a) (ca_callback_delivery_route a)
         ''CHILD_ADMISSION_DIRECT_WRITER_BINDING_REQUIRED'' (ca_child_session_id a)) (\<lambda>_.
     let key = child_admission_key X (ca_child_session_id a)
     in if exists_file (sd_admissions d) key
        then and_then (read_json (sd_admissions d) key) (\<lambda>existing.
             and_then (validate_child_admission self existing) (\<lambda>_.
             if existing = a then Inr (AlreadyAdmitted, [])
             else Inl (blocker ''CHILD_ADMISSION_IDENTITY_CONFLICT'' (ca_child_session_id a))))
        else Inr (Admitted, [WriteAdmission key a])))"

definition child_admission ::
  "externals \<Rightarrow> session_lifecycle_store \<Rightarrow> string \<Rightarrow> store_disk \<Rightarrow> child_admission_record option lifecycle_result" where
  "child_admission X self child_session_id d =
     and_then (require_identifier ''child_session_id'' child_session_id) (\<lambda>_.
     let key = child_admission_key X child_session_id
     in if \<not> exists_file (sd_admissions d) key then Inr None
        else and_then (read_json (sd_admissions d) key) (\<lambda>a.
             and_then (validate_child_admission self a) (\<lambda>_. Inr (Some a))))"

section \<open>Validation of a callback\<close>

fun validate_effect :: "callback_effect_identity \<Rightarrow> unit lifecycle_result" where
  "validate_effect (ExactEffect effect_id) = require_identifier ''effect_id'' effect_id"
| "validate_effect (ProvenZeroEffect classification evidence) =
     and_then (require_identifier ''effect_classification'' classification)
       (\<lambda>_. require_sha256 ''effect_evidence_sha256'' evidence)"
| "validate_effect (UnsettledEffect classification evidence) =
     and_then (require_identifier ''effect_classification'' classification)
       (\<lambda>_. require_sha256 ''effect_evidence_sha256'' evidence)"

text \<open>The checks that need no receipt.\<close>

definition validate_callback_shape :: "externals \<Rightarrow> session_lifecycle_store \<Rightarrow> durable_callback_record \<Rightarrow> unit lifecycle_result" where
  "validate_callback_shape X self c =
     and_then (reject_if (cb_schema_version c \<noteq> CALLBACK_SCHEMA)
         (blocker ''CALLBACK_SCHEMA_UNSUPPORTED'' (cb_schema_version c))) (\<lambda>_.
     and_then (require_identifiers
         [(''transaction_id'', cb_transaction_id c), (''event_id'', cb_event_id c),
          (''commander_session_id'', cb_commander_session_id c), (''child_session_id'', cb_child_session_id c),
          (''runtime_id'', cb_runtime_id c), (''lease_id'', cb_lease_id c)]) (\<lambda>_.
     and_then (require_sha256s
         [(''terminal_receipt_sha256'', cb_terminal_receipt_sha256 c),
          (''callback_payload_sha256'', cb_callback_payload_sha256 c),
          (''transport_payload_sha256'', cb_transport_payload_sha256 c),
          (''parent_mission_revision_sha256'', cb_parent_mission_revision_sha256 c),
          (''delegated_input_sha256'', cb_delegated_input_sha256 c)]) (\<lambda>_.
     and_then (reject_if (cb_commander_session_id c \<noteq> st_commander_session_id self)
         (blocker ''COMMANDER_IDENTITY_MISMATCH'' (cb_commander_session_id c))) (\<lambda>_.
     and_then (reject_if (canonical_value_sha256 X (cb_callback_payload c) \<noteq> cb_callback_payload_sha256 c \<or>
           canonical_value_sha256 X (cb_transport_payload c) \<noteq> cb_transport_payload_sha256 c)
         (blocker ''CALLBACK_PAYLOAD_DIGEST_MISMATCH'' (cb_event_id c))) (\<lambda>_.
     and_then (reject_if (cb_callback_payload_sha256 c = cb_delegated_input_sha256 c)
         (blocker ''PROMPT_ECHO_REJECTED'' (cb_event_id c))) (\<lambda>_.
     validate_effect (cb_effect_identity c)))))))"

definition receipt_conflicts :: "externals \<Rightarrow> durable_callback_record \<Rightarrow> terminal_receipt \<Rightarrow> bool" where
  "receipt_conflicts X c r \<longleftrightarrow>
     tr_commander_session_id r \<noteq> cb_commander_session_id c \<or> tr_child_session_id r \<noteq> cb_child_session_id c \<or>
     tr_runtime_id r \<noteq> cb_runtime_id c \<or> tr_lease_id r \<noteq> cb_lease_id c \<or>
     tr_terminal_state r \<noteq> cb_terminal_state c \<or> terminal_receipt_sha256 X r \<noteq> cb_terminal_receipt_sha256 c"

text \<open>
  With the lock held the receipt is read directly, otherwise through the operation that takes the
  lock; that one checks the two identifiers again, which \<open>validate_callback_shape\<close> has checked.
\<close>

definition validate_callback_with_lock_state ::
  "externals \<Rightarrow> session_lifecycle_store \<Rightarrow> durable_callback_record \<Rightarrow> bool \<Rightarrow> store_disk \<Rightarrow> unit lifecycle_result" where
  "validate_callback_with_lock_state X self c store_locked d =
     and_then (validate_callback_shape X self c) (\<lambda>_.
     and_then (if store_locked then terminal_receipt_unlocked X self (cb_transaction_id c) (cb_event_id c) d
         else lookup_terminal_receipt X self (cb_transaction_id c) (cb_event_id c) d) (\<lambda>r.
     reject_if (receipt_conflicts X c r) (blocker ''CALLBACK_TERMINAL_RECEIPT_IDENTITY_CONFLICT'' (cb_event_id c))))"

abbreviation validate_callback ::
  "externals \<Rightarrow> session_lifecycle_store \<Rightarrow> durable_callback_record \<Rightarrow> store_disk \<Rightarrow> unit lifecycle_result" where
  "validate_callback X self c \<equiv> validate_callback_with_lock_state X self c False"

abbreviation validate_callback_unlocked ::
  "externals \<Rightarrow> session_lifecycle_store \<Rightarrow> durable_callback_record \<Rightarrow> store_disk \<Rightarrow> unit lifecycle_result" where
  "validate_callback_unlocked X self c \<equiv> validate_callback_with_lock_state X self c True"

definition callback_writer_binding :: "durable_callback_record \<Rightarrow> unit lifecycle_result" where
  "callback_writer_binding c = require_direct_writer_binding (cb_commander_thread_id c) (cb_callback_delivery_route c)
     ''CALLBACK_DIRECT_WRITER_BINDING_REQUIRED'' (cb_event_id c)"

section \<open>Publishing, intake and acknowledgement\<close>

datatype callback_write_outcome = CallbackWritten string | CallbackAlreadyDurable string

text \<open>The part of \<open>publish_callback\<close> that holds the lock.\<close>

definition publish_callback_locked ::
  "externals \<Rightarrow> session_lifecycle_store \<Rightarrow> durable_callback_record \<Rightarrow> store_disk \<Rightarrow> callback_write_outcome operation_result" where
  "publish_callback_locked X self c d =
     (let key = receipt_key X (cb_transaction_id c) (cb_event_id c);
          durable = (\<lambda>directory same. if same then Inr (CallbackAlreadyDurable (store_path self directory key), [])
            else Inl (blocker ''CALLBACK_IDENTITY_CONFLICT'' key))
      in if exists_file (sd_acknowledged_callbacks d) key
         then and_then (read_json (sd_acknowledged_callbacks d) key)
           (\<lambda>ack. durable ''callbacks/acknowledged'' (callback_eq (ka_record ack) c))
         else if exists_file (sd_intaken_callbacks d) key
         then and_then (read_json (sd_intaken_callbacks d) key)
           (\<lambda>existing. durable ''callbacks/intaken'' (callback_eq existing c))
         else if exists_file (sd_pending_callbacks d) key
         then and_then (read_json (sd_pending_callbacks d) key)
           (\<lambda>existing. durable ''callbacks/pending'' (callback_eq existing c))
         else Inr (CallbackWritten (store_path self ''callbacks/pending'' key), [WritePendingCallback key c]))"

definition publish_callback_checks ::
  "externals \<Rightarrow> session_lifecycle_store \<Rightarrow> durable_callback_record \<Rightarrow> store_disk \<Rightarrow> unit lifecycle_result" where
  "publish_callback_checks X self c d = and_then (validate_callback X self c d) (\<lambda>_. callback_writer_binding c)"

definition publish_callback ::
  "externals \<Rightarrow> session_lifecycle_store \<Rightarrow> durable_callback_record \<Rightarrow> store_disk \<Rightarrow> callback_write_outcome operation_result" where
  "publish_callback X self c d =
     and_then (publish_callback_checks X self c d) (\<lambda>_. publish_callback_locked X self c d)"

datatype callback_intake_outcome = Intaken | AlreadyIntaken

definition mark_callback_intaken ::
  "externals \<Rightarrow> session_lifecycle_store \<Rightarrow> string \<Rightarrow> string \<Rightarrow> string \<Rightarrow> store_disk \<Rightarrow> callback_intake_outcome operation_result" where
  "mark_callback_intaken X self transaction_id event_id payload_sha d =
     and_then (require_sha256 ''callback_payload_sha256'' payload_sha) (\<lambda>_.
     let key = receipt_key X transaction_id event_id
     in if exists_file (sd_intaken_callbacks d) key
        then and_then (read_json (sd_intaken_callbacks d) key) (\<lambda>c.
             and_then (callback_writer_binding c) (\<lambda>_.
             if cb_callback_payload_sha256 c = payload_sha then Inr (AlreadyIntaken, [])
             else Inl (blocker ''CALLBACK_INTAKE_CONFLICT'' key)))
        else and_then (read_json (sd_pending_callbacks d) key) (\<lambda>c.
             and_then (callback_writer_binding c) (\<lambda>_.
             and_then (reject_if (cb_callback_payload_sha256 c \<noteq> payload_sha) (blocker ''CALLBACK_INTAKE_CONFLICT'' key)) (\<lambda>_.
             Inr (Intaken, [WriteIntakenCallback key c, RemovePendingCallback key])))))"

definition acknowledge_callback ::
  "externals \<Rightarrow> session_lifecycle_store \<Rightarrow> string \<Rightarrow> string \<Rightarrow> string \<Rightarrow> callback_effect_identity \<Rightarrow> store_disk \<Rightarrow>
   ack_outcome operation_result" where
  "acknowledge_callback X self transaction_id event_id payload_sha effect d =
     and_then (require_sha256 ''callback_payload_sha256'' payload_sha) (\<lambda>_.
     and_then (reject_if (effect_unsettled effect) (blocker ''CALLBACK_UNSETTLED_EFFECT_ACK_BLOCKED'' event_id)) (\<lambda>_.
     let key = receipt_key X transaction_id event_id
     in and_then (read_json (sd_intaken_callbacks d) key) (\<lambda>c.
        and_then (callback_writer_binding c) (\<lambda>_.
        and_then (reject_if (cb_callback_payload_sha256 c \<noteq> payload_sha \<or> cb_effect_identity c \<noteq> effect)
            (blocker ''CALLBACK_ACK_CONFLICT'' key)) (\<lambda>_.
        let acknowledgement = \<lparr>ka_schema_version = CALLBACK_ACK_SCHEMA, ka_record = c\<rparr>
        in if exists_file (sd_acknowledged_callbacks d) key
           then and_then (read_json (sd_acknowledged_callbacks d) key) (\<lambda>existing.
                if callback_ack_eq existing acknowledgement then Inr (AckAlreadyAcknowledged, [])
                else Inl (blocker ''CALLBACK_ACK_CONFLICT'' key))
           else Inr (AckAcknowledged, [WriteCallbackAck key acknowledgement]))))))"

section \<open>Reading back\<close>

definition intaken_callback ::
  "externals \<Rightarrow> session_lifecycle_store \<Rightarrow> string \<Rightarrow> string \<Rightarrow> store_disk \<Rightarrow> durable_callback_record option lifecycle_result" where
  "intaken_callback X self transaction_id event_id d =
     and_then (require_identifier ''transaction_id'' transaction_id) (\<lambda>_.
     and_then (require_identifier ''event_id'' event_id) (\<lambda>_.
     let key = receipt_key X transaction_id event_id
     in if \<not> exists_file (sd_intaken_callbacks d) key then Inr None
        else and_then (read_json (sd_intaken_callbacks d) key) (\<lambda>c.
             and_then (validate_callback X self c d) (\<lambda>_. Inr (Some c)))))"

type_synonym callback_index = "((string \<times> string) \<times> durable_callback_record) list"

definition collect_callback ::
  "externals \<Rightarrow> session_lifecycle_store \<Rightarrow> store_disk \<Rightarrow> string \<Rightarrow> durable_callback_record directory \<Rightarrow> callback_index \<Rightarrow> string \<Rightarrow>
   callback_index lifecycle_result" where
  "collect_callback X self d directory files callbacks file =
     and_then (read_json files file) (\<lambda>c.
     if exists_file (sd_acknowledged_callbacks d) (receipt_key X (cb_transaction_id c) (cb_event_id c)) then Inr callbacks
     else and_then (validate_callback X self c d) (\<lambda>_.
          and_then (callback_writer_binding c) (\<lambda>_.
          case map_of callbacks (cb_transaction_id c, cb_event_id c) of
            Some existing \<Rightarrow> if callback_eq existing c then Inr callbacks
              else Inl (blocker ''CALLBACK_IDENTITY_CONFLICT'' (store_path self directory file))
          | None \<Rightarrow> Inr (((cb_transaction_id c, cb_event_id c), c) # callbacks))))"

definition callbacks_for_replay ::
  "externals \<Rightarrow> session_lifecycle_store \<Rightarrow> store_disk \<Rightarrow> durable_callback_record list lifecycle_result" where
  "callbacks_for_replay X self d =
     and_then (try_fold (collect_callback X self d ''callbacks/pending'' (sd_pending_callbacks d)) []
         (json_files (sd_pending_callbacks d))) (\<lambda>pending.
     and_then (try_fold (collect_callback X self d ''callbacks/intaken'' (sd_intaken_callbacks d)) pending
         (json_files (sd_intaken_callbacks d))) (\<lambda>callbacks.
     Inr (map snd (sort_key fst callbacks))))"

end
