(* ===== verification/Store_Continuations.thy ===== *)
theory Store_Continuations
  imports Store_Callbacks
begin

text \<open>
  Callback continuations in the store. A continuation is prepared from an intaken callback, its direct
  delivery is begun once, the result of the delivery is recorded, and it is completed and acknowledged.
  Every operation validates the record it is given before it takes the lock; the part that holds the
  lock has the suffix \<open>_locked\<close>.
\<close>

section \<open>Validation\<close>

fun json_path :: "json \<Rightarrow> string list \<Rightarrow> json option" where
  "json_path v [] = Some v"
| "json_path v (k # ks) = Option.bind (json_get v k) (\<lambda>w. json_path w ks)"

definition validate_continuation_identity ::
  "session_lifecycle_store \<Rightarrow> continuation_dispatch_record \<Rightarrow> unit lifecycle_result" where
  "validate_continuation_identity self r =
     and_then (reject_if (cd_schema_version r \<noteq> CONTINUATION_SCHEMA)
         (blocker ''CONTINUATION_SCHEMA_UNSUPPORTED'' (cd_schema_version r))) (\<lambda>_.
     and_then (require_identifiers
         [(''request_id'', cd_request_id r), (''runtime_id'', cd_runtime_id r), (''lease_id'', cd_lease_id r),
          (''commander_session_id'', cd_commander_session_id r), (''child_session_id'', cd_child_session_id r),
          (''child_transaction_id'', cd_child_transaction_id r), (''child_event_id'', cd_child_event_id r),
          (''child_runtime_id'', cd_child_runtime_id r)]) (\<lambda>_.
     and_then (require_sha256s
         [(''callback_payload_sha256'', cd_callback_payload_sha256 r),
          (''parent_mission_revision_sha256'', cd_parent_mission_revision_sha256 r),
          (''delegated_input_sha256'', cd_delegated_input_sha256 r)]) (\<lambda>_.
     and_then (reject_if (cd_commander_session_id r \<noteq> st_commander_session_id self)
         (blocker ''COMMANDER_IDENTITY_MISMATCH'' (cd_commander_session_id r))) (\<lambda>_.
     reject_if (cd_requested_action r \<noteq>
           (case Option.bind (json_get (cd_parent_input r) ''requested_action'') json_as_str of None \<Rightarrow> [] | Some s \<Rightarrow> s) \<or>
         \<not> continuation_action_valid (cd_requested_action r))
       (blocker ''CONTINUATION_REQUESTED_ACTION_INVALID'' (cd_request_id r))))))"

definition validate_continuation_delivery :: "continuation_dispatch_record \<Rightarrow> unit lifecycle_result" where
  "validate_continuation_delivery r =
     and_then (reject_if (case cd_commander_thread_id r of None \<Rightarrow> False | Some value \<Rightarrow> blank value)
         (blocker ''COMMANDER_THREAD_IDENTITY_INVALID'' (cd_request_id r))) (\<lambda>_.
     and_then (ok_or (blocker ''CONTINUATION_COMMANDER_THREAD_ID_MISSING'' (cd_request_id r)) (cd_commander_thread_id r)) (\<lambda>thread.
     and_then (ok_or (blocker ''CONTINUATION_DIRECT_WRITER_ROUTE_MISSING'' (cd_request_id r)) (cd_callback_delivery_route r)) (\<lambda>route.
     reject_if (json_path (cd_parent_input r) [''delivery'', ''route''] \<noteq> Some (route_to_value route) \<or>
         Option.bind (json_path (cd_parent_input r) [''delivery'', ''target_thread_id'']) json_as_str \<noteq> Some thread)
       (blocker ''CONTINUATION_DIRECT_WRITER_BINDING_CONFLICT'' (cd_request_id r)))))"

definition validate_continuation_result :: "externals \<Rightarrow> continuation_dispatch_record \<Rightarrow> unit lifecycle_result" where
  "validate_continuation_result X r =
     and_then (reject_if (effect_unsettled (cd_effect_identity r))
         (blocker ''CONTINUATION_UNSETTLED_EFFECT_BLOCKED'' (cd_child_event_id r))) (\<lambda>_.
     and_then (ok_or (blocker ''CONTINUATION_CALLBACK_RESULT_MISSING'' (cd_child_event_id r))
         (json_path (cd_parent_input r) [''callback'', ''result''])) (\<lambda>result.
     reject_if (canonical_value_sha256 X result \<noteq> cd_callback_payload_sha256 r)
       (blocker ''CONTINUATION_CALLBACK_RESULT_HASH_MISMATCH'' (cd_child_event_id r))))"

definition validate_derived_identity :: "externals \<Rightarrow> continuation_dispatch_record \<Rightarrow> unit lifecycle_result" where
  "validate_derived_identity X r =
     and_then (continuation_bound_identity_sha256 X r) (\<lambda>digest.
     try_each (\<lambda>(name, actual, expected). reject_if (actual \<noteq> expected)
         (blocker ''CONTINUATION_DERIVED_IDENTITY_MISMATCH'' name))
       [(''request_id'', cd_request_id r, ''callback-continuation-request-'' @ digest),
        (''runtime_id'', cd_runtime_id r, ''callback-continuation-runtime-'' @ digest),
        (''lease_id'', cd_lease_id r, ''callback-continuation-lease-'' @ digest)])"

definition validate_continuation_callback ::
  "externals \<Rightarrow> session_lifecycle_store \<Rightarrow> continuation_dispatch_record \<Rightarrow> bool \<Rightarrow> store_disk \<Rightarrow> unit lifecycle_result" where
  "validate_continuation_callback X self r store_locked d =
     (let key = receipt_key X (cd_child_transaction_id r) (cd_child_event_id r)
      in and_then (reject_if (\<not> exists_file (sd_intaken_callbacks d) key)
           (blocker ''CONTINUATION_INTAKEN_CALLBACK_NOT_FOUND'' (cd_child_event_id r))) (\<lambda>_.
         and_then (read_json (sd_intaken_callbacks d) key) (\<lambda>c.
         and_then (validate_callback_with_lock_state X self c store_locked d) (\<lambda>_.
         and_then (continuation_from_callback X c) (\<lambda>expected.
         reject_if (\<not> continuation_bound_fields_match expected r)
           (blocker ''CONTINUATION_CALLBACK_BINDING_CONFLICT'' (cd_child_event_id r)))))))"

definition validate_continuation_with_lock_state ::
  "externals \<Rightarrow> session_lifecycle_store \<Rightarrow> continuation_dispatch_record \<Rightarrow> bool \<Rightarrow> store_disk \<Rightarrow> unit lifecycle_result" where
  "validate_continuation_with_lock_state X self r store_locked d =
     and_then (validate_continuation_identity self r) (\<lambda>_.
     and_then (validate_continuation_delivery r) (\<lambda>_.
     and_then (validate_direct_delivery_state r) (\<lambda>_.
     and_then (case cd_convergence_proof r of None \<Rightarrow> Inr () | Some p \<Rightarrow> validate_convergence_proof X r p) (\<lambda>_.
     and_then (validate_continuation_result X r) (\<lambda>_.
     and_then (validate_continuation_callback X self r store_locked d) (\<lambda>_.
     validate_derived_identity X r))))))"

abbreviation validate_continuation ::
  "externals \<Rightarrow> session_lifecycle_store \<Rightarrow> continuation_dispatch_record \<Rightarrow> store_disk \<Rightarrow> unit lifecycle_result" where
  "validate_continuation X self r \<equiv> validate_continuation_with_lock_state X self r False"

abbreviation validate_continuation_unlocked ::
  "externals \<Rightarrow> session_lifecycle_store \<Rightarrow> continuation_dispatch_record \<Rightarrow> store_disk \<Rightarrow> unit lifecycle_result" where
  "validate_continuation_unlocked X self r \<equiv> validate_continuation_with_lock_state X self r True"

section \<open>Operations\<close>

definition continuation_writer_binding :: "continuation_dispatch_record \<Rightarrow> unit lifecycle_result" where
  "continuation_writer_binding r = require_direct_writer_binding (cd_commander_thread_id r) (cd_callback_delivery_route r)
     ''CONTINUATION_DIRECT_WRITER_BINDING_REQUIRED'' (cd_request_id r)"

definition continuation_key :: "externals \<Rightarrow> continuation_dispatch_record \<Rightarrow> string" where
  "continuation_key X r = receipt_key X (cd_child_transaction_id r) (cd_child_event_id r)"

definition continuation_path :: "externals \<Rightarrow> session_lifecycle_store \<Rightarrow> continuation_dispatch_record \<Rightarrow> string" where
  "continuation_path X self r = store_path self ''continuations'' (continuation_key X r)"

text \<open>The durable record for \<open>expected\<close>: read, valid, and equal to it in its bound fields.\<close>

definition existing_continuation ::
  "externals \<Rightarrow> session_lifecycle_store \<Rightarrow> continuation_dispatch_record \<Rightarrow> store_disk \<Rightarrow> continuation_dispatch_record lifecycle_result" where
  "existing_continuation X self expected d =
     and_then (read_json (sd_continuations d) (continuation_key X expected)) (\<lambda>existing.
     and_then (validate_continuation_unlocked X self existing d) (\<lambda>_.
     and_then (reject_if (\<not> continuation_bound_fields_match existing expected)
         (blocker ''CONTINUATION_IDENTITY_CONFLICT'' (continuation_path X self expected))) (\<lambda>_.
     Inr existing)))"

definition unsettled_blocker :: "continuation_dispatch_record \<Rightarrow> lifecycle_blocker" where
  "unsettled_blocker r = blocker ''CONTINUATION_DELIVERY_UNSETTLED_NO_BLIND_RETRY'' (cd_request_id r)"

definition prepare_callback_continuation_locked ::
  "externals \<Rightarrow> session_lifecycle_store \<Rightarrow> continuation_dispatch_record \<Rightarrow> store_disk \<Rightarrow> continuation_write_outcome operation_result" where
  "prepare_callback_continuation_locked X self r d =
     (if exists_file (sd_continuations d) (continuation_key X r)
      then and_then (existing_continuation X self r d) (\<lambda>existing.
           if cd_state existing = DeliveryUnsettled then Inl (unsettled_blocker existing)
           else Inr (continuation_existing_outcome (cd_state existing), []))
      else Inr (OutPrepared, [WriteContinuation (continuation_key X r) r]))"

definition prepare_callback_continuation ::
  "externals \<Rightarrow> session_lifecycle_store \<Rightarrow> continuation_dispatch_record \<Rightarrow> store_disk \<Rightarrow> continuation_write_outcome operation_result" where
  "prepare_callback_continuation X self r d =
     and_then (validate_continuation X self r d) (\<lambda>_.
     and_then (continuation_writer_binding r) (\<lambda>_.
     prepare_callback_continuation_locked X self r d))"

definition begin_direct_delivery_locked ::
  "externals \<Rightarrow> session_lifecycle_store \<Rightarrow> continuation_dispatch_record \<Rightarrow> string \<Rightarrow> store_disk \<Rightarrow> continuation_write_outcome operation_result" where
  "begin_direct_delivery_locked X self expected delivered_message d =
     and_then (existing_continuation X self expected d) (\<lambda>existing.
     let message_sha = sha256_hex X delivered_message;
         attempt_matches = (cd_direct_delivery_call_id existing = Some (cd_request_id existing) \<and>
           cd_delivered_message_sha256 existing = Some message_sha)
     in if cd_state existing = Prepared
        then Inr (OutPrepared, [WriteContinuation (continuation_key X expected)
          (existing\<lparr>cd_direct_delivery_call_id := Some (cd_request_id existing),
             cd_delivered_message_sha256 := Some message_sha, cd_state := DeliveryUnsettled\<rparr>)])
        else if cd_state existing = DeliveryUnsettled then Inl (unsettled_blocker existing)
        else if attempt_matches then Inr (continuation_existing_outcome (cd_state existing), [])
        else Inl (blocker ''CONTINUATION_DIRECT_DELIVERY_ATTEMPT_CONFLICT'' (cd_request_id existing)))"

definition begin_callback_continuation_direct_delivery ::
  "externals \<Rightarrow> session_lifecycle_store \<Rightarrow> continuation_dispatch_record \<Rightarrow> string \<Rightarrow> store_disk \<Rightarrow> continuation_write_outcome operation_result" where
  "begin_callback_continuation_direct_delivery X self expected delivered_message d =
     and_then (validate_continuation X self expected d) (\<lambda>_.
     begin_direct_delivery_locked X self expected delivered_message d)"

definition result_kind_is :: "direct_delivery_result_kind \<Rightarrow> continuation_dispatch_record \<Rightarrow> bool" where
  "result_kind_is kind r = (case cd_direct_delivery_result r of None \<Rightarrow> False | Some result \<Rightarrow> de_kind result = kind)"

definition settle_direct_delivery_locked ::
  "externals \<Rightarrow> session_lifecycle_store \<Rightarrow> continuation_dispatch_record \<Rightarrow> direct_delivery_result_kind \<Rightarrow> json \<Rightarrow> store_disk \<Rightarrow>
   continuation_write_outcome operation_result" where
  "settle_direct_delivery_locked X self expected kind result d =
     and_then (existing_continuation X self expected d) (\<lambda>existing.
     let evidence = \<lparr>de_kind = kind, de_evidence_sha256 = canonical_value_sha256 X result\<rparr>;
         settled = (cd_state existing \<in> {Dispatched, DCompleted, DAcknowledged})
     in if cd_state existing = DeliveryUnsettled
        then Inr (AlreadyDispatched, [WriteContinuation (continuation_key X expected)
          (existing\<lparr>cd_direct_delivery_result := Some evidence, cd_state := Dispatched\<rparr>)])
        else if cd_state existing = Dispatched \<and> result_kind_is Accepted existing \<and> kind = Reconciled
        then Inr (AlreadyDispatched, [WriteContinuation (continuation_key X expected)
          (existing\<lparr>cd_direct_delivery_result := Some evidence\<rparr>)])
        else if settled \<and> result_kind_is Reconciled existing \<and> kind = Reconciled
        then Inr (continuation_existing_outcome (cd_state existing), [])
        else if settled \<and> cd_direct_delivery_result existing = Some evidence
        then Inr (continuation_existing_outcome (cd_state existing), [])
        else Inl (blocker ''CONTINUATION_DIRECT_DELIVERY_RESULT_CONFLICT''
          (cd_request_id existing @ '':'' @ debug_dispatch_state (cd_state existing))))"

definition settle_callback_continuation_direct_delivery ::
  "externals \<Rightarrow> session_lifecycle_store \<Rightarrow> continuation_dispatch_record \<Rightarrow> direct_delivery_result_kind \<Rightarrow> json \<Rightarrow> store_disk \<Rightarrow>
   continuation_write_outcome operation_result" where
  "settle_callback_continuation_direct_delivery X self expected kind result d =
     and_then (validate_continuation X self expected d) (\<lambda>_.
     settle_direct_delivery_locked X self expected kind result d)"

definition mark_callback_continuation_delivery_accepted where
  "mark_callback_continuation_delivery_accepted X self expected accepted_result d =
     settle_callback_continuation_direct_delivery X self expected Accepted accepted_result d"

definition mark_callback_continuation_delivery_reconciled where
  "mark_callback_continuation_delivery_reconciled X self expected reconciled_result d =
     settle_callback_continuation_direct_delivery X self expected Reconciled reconciled_result d"

definition bind_convergence_proof_locked ::
  "externals \<Rightarrow> session_lifecycle_store \<Rightarrow> continuation_dispatch_record \<Rightarrow> commander_convergence_proof \<Rightarrow> store_disk \<Rightarrow>
   continuation_write_outcome operation_result" where
  "bind_convergence_proof_locked X self expected p d =
     and_then (existing_continuation X self expected d) (\<lambda>existing.
     case cd_convergence_proof existing of
       Some bound \<Rightarrow> if bound = p then Inr (continuation_existing_outcome (cd_state existing), [])
         else Inl (blocker ''COMMANDER_CONVERGENCE_PROOF_CONFLICT'' (cd_request_id existing))
     | None \<Rightarrow> Inr (continuation_existing_outcome (cd_state existing),
         [WriteContinuation (continuation_key X expected) (existing\<lparr>cd_convergence_proof := Some p\<rparr>)]))"

definition bind_callback_continuation_convergence_proof ::
  "externals \<Rightarrow> session_lifecycle_store \<Rightarrow> continuation_dispatch_record \<Rightarrow> commander_convergence_proof \<Rightarrow> store_disk \<Rightarrow>
   continuation_write_outcome operation_result" where
  "bind_callback_continuation_convergence_proof X self expected p d =
     and_then (validate_continuation X self expected d) (\<lambda>_.
     and_then (validate_convergence_proof X expected p) (\<lambda>_.
     bind_convergence_proof_locked X self expected p d))"

text \<open>What completion demands where the delivery was not reconciled: the same durable proof.\<close>

definition completion_proof_check ::
  "continuation_dispatch_record \<Rightarrow> continuation_dispatch_record \<Rightarrow> continuation_dispatch_state \<Rightarrow> unit lifecycle_result" where
  "completion_proof_check existing expected target =
     (if target = DCompleted \<and> cd_commander_thread_id existing \<noteq> None \<and> \<not> result_kind_is Reconciled existing
      then and_then (ok_or (blocker ''COMMANDER_CONVERGENCE_PROOF_MISSING'' (cd_request_id expected)) (cd_convergence_proof expected)) (\<lambda>expected_proof.
           and_then (ok_or (blocker ''COMMANDER_CONVERGENCE_PROOF_NOT_DURABLE'' (cd_request_id expected)) (cd_convergence_proof existing)) (\<lambda>persisted_proof.
           reject_if (persisted_proof \<noteq> expected_proof) (blocker ''COMMANDER_CONVERGENCE_PROOF_CONFLICT'' (cd_request_id expected))))
      else Inr ())"

definition transition_continuation_locked ::
  "externals \<Rightarrow> session_lifecycle_store \<Rightarrow> continuation_dispatch_record \<Rightarrow> continuation_dispatch_state \<Rightarrow> store_disk \<Rightarrow>
   continuation_write_outcome operation_result" where
  "transition_continuation_locked X self expected target d =
     and_then (existing_continuation X self expected d) (\<lambda>existing.
     and_then (completion_proof_check existing expected target) (\<lambda>_.
     if cd_state existing = DAcknowledged then Inr (AlreadyAcknowledgedContinuation, [])
     else if target = DAcknowledged \<and> cd_state existing \<noteq> DCompleted
     then Inl (blocker ''CONTINUATION_ACK_BEFORE_COMPLETION_BLOCKED'' (cd_request_id existing))
     else if target = Dispatched \<and> cd_state existing \<noteq> Dispatched
     then Inl (blocker ''CONTINUATION_DIRECT_DELIVERY_RESULT_REQUIRED'' (cd_request_id existing))
     else if cd_state existing = target then Inr (continuation_existing_outcome target, [])
     else if (cd_state existing, target) \<notin> {(Dispatched, DCompleted), (DCompleted, DAcknowledged)}
     then Inl (blocker ''CONTINUATION_STATE_TRANSITION_BLOCKED''
       (cd_request_id existing @ '':'' @ debug_dispatch_state (cd_state existing) @ '':'' @ debug_dispatch_state target))
     else Inr (if target = DAcknowledged then OutAcknowledged else continuation_existing_outcome target,
       [WriteContinuation (continuation_key X expected) (existing\<lparr>cd_state := target\<rparr>)])))"

definition transition_callback_continuation ::
  "externals \<Rightarrow> session_lifecycle_store \<Rightarrow> continuation_dispatch_record \<Rightarrow> continuation_dispatch_state \<Rightarrow> store_disk \<Rightarrow>
   continuation_write_outcome operation_result" where
  "transition_callback_continuation X self expected target d =
     and_then (validate_continuation X self expected d) (\<lambda>_.
     transition_continuation_locked X self expected target d)"

definition mark_callback_continuation_dispatched where
  "mark_callback_continuation_dispatched X self expected d = transition_callback_continuation X self expected Dispatched d"

definition mark_callback_continuation_completed where
  "mark_callback_continuation_completed X self expected d = transition_callback_continuation X self expected DCompleted d"

definition mark_callback_continuation_acknowledged where
  "mark_callback_continuation_acknowledged X self expected d = transition_callback_continuation X self expected DAcknowledged d"

section \<open>Reading back\<close>

definition callback_continuation ::
  "externals \<Rightarrow> session_lifecycle_store \<Rightarrow> string \<Rightarrow> string \<Rightarrow> store_disk \<Rightarrow> continuation_dispatch_record option lifecycle_result" where
  "callback_continuation X self transaction_id event_id d =
     and_then (require_identifier ''transaction_id'' transaction_id) (\<lambda>_.
     and_then (require_identifier ''event_id'' event_id) (\<lambda>_.
     let key = receipt_key X transaction_id event_id
     in if \<not> exists_file (sd_continuations d) key then Inr None
        else and_then (read_json (sd_continuations d) key) (\<lambda>r.
             and_then (validate_continuation X self r d) (\<lambda>_.
             and_then (continuation_writer_binding r) (\<lambda>_. Inr (Some r))))))"

definition replayable_continuation ::
  "externals \<Rightarrow> session_lifecycle_store \<Rightarrow> store_disk \<Rightarrow> string \<Rightarrow> continuation_dispatch_record lifecycle_result" where
  "replayable_continuation X self d key =
     and_then (read_json (sd_continuations d) key) (\<lambda>r.
     and_then (validate_continuation X self r d) (\<lambda>_.
     and_then (continuation_writer_binding r) (\<lambda>_. Inr r)))"

definition callback_continuations_for_replay ::
  "externals \<Rightarrow> session_lifecycle_store \<Rightarrow> store_disk \<Rightarrow> continuation_dispatch_record list lifecycle_result" where
  "callback_continuations_for_replay X self d =
     and_then (try_map (replayable_continuation X self d) (json_files (sd_continuations d))) (\<lambda>records.
     Inr (filter (\<lambda>r. cd_state r \<noteq> DAcknowledged) records))"

section \<open>Proof of completion\<close>

definition metadata_is :: "terminal_receipt \<Rightarrow> string \<Rightarrow> string \<Rightarrow> bool" where
  "metadata_is receipt name value = (map_of (tr_audit_metadata receipt) name = Some (JString value))"

text \<open>The receipt of the runtime that the continuation started, or of its fallback.\<close>

definition continuation_receipt :: "continuation_dispatch_record \<Rightarrow> terminal_receipt \<Rightarrow> bool" where
  "continuation_receipt r receipt =
     (let normal_runtime_identity = (tr_runtime_id receipt = cd_runtime_id r \<and> tr_lease_id receipt = cd_lease_id r);
          fallback_runtime_identity = (case cd_commander_thread_id r of None \<Rightarrow> False
            | Some target_thread_id \<Rightarrow> tr_runtime_id receipt \<noteq> cd_runtime_id r \<and>
                metadata_is receipt ''commander_continuation_request_id'' (cd_request_id r) \<and>
                metadata_is receipt ''commander_continuation_target_thread_id'' target_thread_id \<and>
                metadata_is receipt ''commander_continuation_origin_runtime_id'' (cd_runtime_id r) \<and>
                metadata_is receipt ''commander_continuation_origin_lease_id'' (cd_lease_id r))
      in tr_transaction_id receipt = cd_request_id r \<and> tr_commander_session_id receipt = cd_commander_session_id r \<and>
         tr_child_session_id receipt = cd_commander_session_id r \<and>
         (normal_runtime_identity \<or> fallback_runtime_identity) \<and> tr_terminal_state receipt = TCompleted)"

definition released_for :: "slot_release_receipt \<Rightarrow> terminal_receipt \<Rightarrow> bool" where
  "released_for release r \<longleftrightarrow>
     rl_transaction_id release = tr_transaction_id r \<and> rl_event_id release = tr_event_id r \<and>
     rl_commander_session_id release = tr_commander_session_id r \<and>
     rl_child_session_id release = tr_child_session_id r \<and> rl_runtime_id release = tr_runtime_id r \<and>
     rl_lease_id release = tr_lease_id r"

fun receipt_proves_completion ::
  "externals \<Rightarrow> session_lifecycle_store \<Rightarrow> continuation_dispatch_record \<Rightarrow> store_disk \<Rightarrow> string list \<Rightarrow> bool lifecycle_result" where
  "receipt_proves_completion X self r d [] = Inr False"
| "receipt_proves_completion X self r d (file # files) =
     and_then (read_applied X self d file) (\<lambda>stored.
     let receipt = sto_receipt stored
     in if \<not> continuation_receipt r receipt then receipt_proves_completion X self r d files
        else and_then (validate_receipt self receipt) (\<lambda>_.
          let key = receipt_key X (tr_transaction_id receipt) (tr_event_id receipt)
          in if \<not> exists_file (sd_released d) key then Inr False
             else and_then (read_json (sd_released d) key) (\<lambda>release. Inr (released_for release receipt))))"

definition direct_delivery_reconciled :: "continuation_dispatch_record \<Rightarrow> bool" where
  "direct_delivery_reconciled r \<longleftrightarrow>
     cd_callback_delivery_route r = Some TrustedTuraDirectThreadWriter \<and>
     cd_state r \<in> {Dispatched, DCompleted, DAcknowledged} \<and>
     cd_direct_delivery_call_id r = Some (cd_request_id r) \<and> cd_delivered_message_sha256 r \<noteq> None \<and>
     result_kind_is Reconciled r"

definition callback_continuation_completion_proven ::
  "externals \<Rightarrow> session_lifecycle_store \<Rightarrow> continuation_dispatch_record \<Rightarrow> store_disk \<Rightarrow> bool lifecycle_result" where
  "callback_continuation_completion_proven X self r d =
     and_then (validate_continuation X self r d) (\<lambda>_.
     and_then (existing_continuation X self r d) (\<lambda>persisted.
     if direct_delivery_reconciled persisted then Inr True
     else if cd_commander_thread_id persisted \<noteq> None \<and> cd_convergence_proof persisted = None then Inr False
     else receipt_proves_completion X self r d (json_files (sd_applied_receipts d))))"

end
