(* ===== verification/Store_Checkpoints.thy ===== *)
theory Store_Checkpoints
  imports Store_Continuations
begin

text \<open>
  Identity failures and checkpoints of the store: checkpoint evidence is a durable file named by its
  digest, and a checkpoint is admitted when two observations of the file agree.
\<close>

section \<open>Identity failures\<close>

definition record_identity_failure ::
  "externals \<Rightarrow> session_lifecycle_store \<Rightarrow> pending_identity_failure \<Rightarrow> store_disk \<Rightarrow> unit operation_result" where
  "record_identity_failure X self f d =
     and_then (reject_if (pf_commander_session_id f \<noteq> st_commander_session_id self)
         (blocker ''COMMANDER_IDENTITY_MISMATCH'' (pf_commander_session_id f))) (\<lambda>_.
     and_then (require_identifier ''transaction_id'' (pf_transaction_id f)) (\<lambda>_.
     and_then (require_identifier ''event_id'' (pf_event_id f)) (\<lambda>_.
     Inr ((), [WriteIdentityPending (receipt_key X (pf_transaction_id f) (pf_event_id f)) f]))))"

section \<open>Checkpoint evidence\<close>

definition checkpoint_evidence_id ::
  "externals \<Rightarrow> string \<Rightarrow> string \<Rightarrow> string \<Rightarrow> u64 \<Rightarrow> u64 \<Rightarrow> string \<Rightarrow> string" where
  "checkpoint_evidence_id X commander_session_id child_session_id stage next_sequence next_management_sequence delta_sha =
     sha256_hex X (zero_terminated [commander_session_id, child_session_id, stage, decimal (unat next_sequence),
       decimal (unat next_management_sequence), delta_sha])"

definition checkpoint_key :: "string \<Rightarrow> string" where
  "checkpoint_key checkpoint_id = checkpoint_id @ ''.json''"

definition checkpoint_evidence_of ::
  "externals \<Rightarrow> session_lifecycle_store \<Rightarrow> string \<Rightarrow> string \<Rightarrow> u64 \<Rightarrow> u64 \<Rightarrow> string \<Rightarrow> checkpoint_evidence" where
  "checkpoint_evidence_of X self child_session_id stage next_sequence next_management_sequence persisted_delta =
     (let delta_sha = sha256_hex X persisted_delta
      in \<lparr>ce_schema_version = CHECKPOINT_EVIDENCE_SCHEMA, ce_commander_session_id = st_commander_session_id self,
          ce_child_session_id = child_session_id,
          ce_checkpoint_id = checkpoint_evidence_id X (st_commander_session_id self) child_session_id stage
            next_sequence next_management_sequence delta_sha,
          ce_stage = stage, ce_next_sequence = next_sequence, ce_next_management_sequence = next_management_sequence,
          ce_persisted_delta_sha256 = delta_sha\<rparr>)"

definition publish_checkpoint_evidence ::
  "externals \<Rightarrow> session_lifecycle_store \<Rightarrow> string \<Rightarrow> string \<Rightarrow> u64 \<Rightarrow> u64 \<Rightarrow> string \<Rightarrow> store_disk \<Rightarrow> string operation_result" where
  "publish_checkpoint_evidence X self child_session_id stage next_sequence next_management_sequence persisted_delta d =
     and_then (require_identifier ''child_session_id'' child_session_id) (\<lambda>_.
     and_then (require_identifier ''checkpoint_stage'' stage) (\<lambda>_.
     let evidence = checkpoint_evidence_of X self child_session_id stage next_sequence next_management_sequence persisted_delta;
         key = checkpoint_key (ce_checkpoint_id evidence);
         path = store_path self ''checkpoints'' key
     in if exists_file (sd_checkpoints d) key
        then and_then (read_json (sd_checkpoints d) key) (\<lambda>existing.
             if existing = evidence then Inr (path, [])
             else Inl (blocker ''CHECKPOINT_EVIDENCE_IDENTITY_CONFLICT'' (ce_checkpoint_id evidence)))
        else Inr (path, [WriteCheckpoint key evidence])))"

section \<open>Observations of a checkpoint file\<close>

record checkpoint_identity =
  ci_commander_session_id :: string
  ci_checkpoint_id :: string
  ci_source_path :: string
  ci_inode :: u64
  ci_size :: u64
  ci_modified_ns :: nat
  ci_sha256 :: string
  ci_complete_write :: bool
  ci_event_kind :: checkpoint_event_kind

text \<open>What the file system reports of a file besides the record it parses to.\<close>

record observed_file =
  of_bytes :: "string lifecycle_result"
  of_inode :: u64
  of_size :: u64
  of_modified_ns :: "nat lifecycle_result"

definition checkpoint_identity_from_path ::
  "externals \<Rightarrow> string \<Rightarrow> checkpoint_evidence lifecycle_result \<Rightarrow> observed_file \<Rightarrow> checkpoint_event_kind \<Rightarrow> checkpoint_identity lifecycle_result" where
  "checkpoint_identity_from_path X path parsed observed kind =
     and_then parsed (\<lambda>evidence.
     and_then (reject_if (ce_schema_version evidence \<noteq> CHECKPOINT_EVIDENCE_SCHEMA)
         (blocker ''CHECKPOINT_EVIDENCE_SCHEMA_UNSUPPORTED'' (ce_schema_version evidence))) (\<lambda>_.
     let expected_id = checkpoint_evidence_id X (ce_commander_session_id evidence) (ce_child_session_id evidence)
           (ce_stage evidence) (ce_next_sequence evidence) (ce_next_management_sequence evidence)
           (ce_persisted_delta_sha256 evidence)
     in and_then (reject_if (ce_checkpoint_id evidence \<noteq> expected_id)
          (blocker ''CHECKPOINT_EVIDENCE_DIGEST_MISMATCH'' (ce_checkpoint_id evidence))) (\<lambda>_.
        and_then (of_bytes observed) (\<lambda>bytes.
        and_then (of_modified_ns observed) (\<lambda>modified_ns.
        Inr \<lparr>ci_commander_session_id = ce_commander_session_id evidence, ci_checkpoint_id = expected_id,
             ci_source_path = path, ci_inode = of_inode observed, ci_size = of_size observed,
             ci_modified_ns = modified_ns, ci_sha256 = sha256_hex X bytes, ci_complete_write = True,
             ci_event_kind = kind\<rparr>)))))"

fun debug_event_kind :: "checkpoint_event_kind \<Rightarrow> string" where
  "debug_event_kind CloseWrite = ''CloseWrite''"
| "debug_event_kind ModifyEvent = ''Modify''"
| "debug_event_kind WatchdogReconcile = ''WatchdogReconcile''"

definition validate_checkpoint_pair ::
  "session_lifecycle_store \<Rightarrow> checkpoint_identity \<Rightarrow> checkpoint_identity \<Rightarrow> bool \<Rightarrow> checkpoint_identity lifecycle_result" where
  "validate_checkpoint_pair self first second watchdog =
     and_then (reject_if (ci_commander_session_id first \<noteq> st_commander_session_id self \<or>
           ci_commander_session_id second \<noteq> st_commander_session_id self)
         (blocker ''CHECKPOINT_SESSION_IDENTITY_MISMATCH'' (ci_commander_session_id second))) (\<lambda>_.
     and_then (reject_if (blank (ci_checkpoint_id first) \<or> blank (ci_checkpoint_id second))
         (blocker ''CHECKPOINT_IDENTITY_MISSING'' ''checkpoint_id'')) (\<lambda>_.
     and_then (reject_if (\<not> watchdog \<and> ci_event_kind first \<notin> {CloseWrite, ModifyEvent})
         (blocker ''CHECKPOINT_NATIVE_EVENT_REQUIRED'' (debug_event_kind (ci_event_kind first)))) (\<lambda>_.
     and_then (reject_if (\<not> ci_complete_write first \<or> \<not> ci_complete_write second)
         (blocker ''CHECKPOINT_WRITE_INCOMPLETE'' (ci_checkpoint_id second))) (\<lambda>_.
     and_then (reject_if (ci_checkpoint_id first \<noteq> ci_checkpoint_id second \<or>
           ci_source_path first \<noteq> ci_source_path second \<or> ci_inode first \<noteq> ci_inode second \<or>
           ci_size first \<noteq> ci_size second \<or> ci_modified_ns first \<noteq> ci_modified_ns second \<or>
           ci_sha256 first \<noteq> ci_sha256 second)
         (blocker ''CHECKPOINT_SOURCE_NOT_STABLE'' (ci_checkpoint_id second))) (\<lambda>_.
     and_then (reject_if (length (ci_sha256 second) \<noteq> 64)
         (blocker ''CHECKPOINT_SHA256_INVALID'' (ci_sha256 second))) (\<lambda>_.
     Inr second))))))"

definition admit_checkpoint ::
  "session_lifecycle_store \<Rightarrow> checkpoint_identity \<Rightarrow> checkpoint_identity \<Rightarrow> checkpoint_identity lifecycle_result" where
  "admit_checkpoint self first second = validate_checkpoint_pair self first second False"

text \<open>A reconciliation leaves its record whether the pair is admitted or refused.\<close>

definition reconcile_checkpoint ::
  "session_lifecycle_store \<Rightarrow> checkpoint_identity \<Rightarrow> checkpoint_identity \<Rightarrow> checkpoint_identity lifecycle_result \<times> store_effect list" where
  "reconcile_checkpoint self first second =
     (let result = validate_checkpoint_pair self first second True
      in (result, [WriteLastReconcile
           \<lparr>rr_schema_version = RECONCILE_SCHEMA, rr_source = WatchdogReconcile,
            rr_commander_session_id = st_commander_session_id self, rr_checkpoint_id = ci_checkpoint_id second,
            rr_blocker = (case result of Inl b \<Rightarrow> Some (lb_code b) | Inr _ \<Rightarrow> None)\<rparr>]))"

section \<open>Native events\<close>

text \<open>The kinds of \<open>notify\<close> events, and what the adapter hands on.\<close>

datatype notify_kind =
    AccessCloseWrite
  | AccessOther
  | ModifyData
  | ModifyAny
  | ModifyOther
  | OtherKind

definition is_checkpoint_write_event :: "notify_kind \<Rightarrow> bool" where
  "is_checkpoint_write_event k = (k \<in> {AccessCloseWrite, ModifyData, ModifyAny})"

datatype channel_read = Received notify_kind | ReceivedError | Timeout | ChannelDisconnected

datatype native_event_read = NativeEvent notify_kind | NativeIgnored | NativeChannelFull | NativeDisconnected

fun native_receive :: "channel_read \<Rightarrow> native_event_read" where
  "native_receive (Received k) = (if is_checkpoint_write_event k then NativeEvent k else NativeIgnored)"
| "native_receive ReceivedError = NativeIgnored"
| "native_receive Timeout = NativeIgnored"
| "native_receive ChannelDisconnected = NativeDisconnected"

text \<open>The bounded channel between the watcher and the adapter: a full channel drops the event.\<close>

record 'e event_channel =
  ec_capacity :: nat
  ec_queue :: "'e list"

definition native_watch :: "nat \<Rightarrow> 'e event_channel lifecycle_result" where
  "native_watch capacity =
     and_then (reject_if (capacity = 0)
         (blocker ''NATIVE_EVENT_CHANNEL_UNBOUNDED_OR_EMPTY'' ''capacity must be positive'')) (\<lambda>_.
     Inr \<lparr>ec_capacity = capacity, ec_queue = []\<rparr>)"

definition send_native_event :: "'e \<Rightarrow> 'e event_channel \<Rightarrow> 'e event_channel" where
  "send_native_event e c = (if length (ec_queue c) < ec_capacity c then c\<lparr>ec_queue := ec_queue c @ [e]\<rparr> else c)"

end
