(* ===== verification/Store_Protocol.thy ===== *)
theory Store_Protocol
  imports Store_Checkpoints
begin

text \<open>
  The store as a transition system. A call first makes the checks that run without the lock, then its
  locked part decides on the effects, and the effects are performed in order; a process that dies or
  fails on the way has performed a prefix of them. \<open>store_run\<close> are the sequences of such calls by any
  number of processes: the lock makes the locked parts exclude each other.

  In \<open>store_run\<close> the checks and the locked part of a call see the same disk. \<open>interleaved_run\<close> separates
  them, as the code does; \<open>Store_Facts\<close> shows that this adds no behaviour.
\<close>

datatype store_call =
    CallWriteReceipt terminal_receipt
  | CallAdmitChild child_admission_record
  | CallIntake string string
  | CallAcknowledge string string string
  | CallPublish durable_callback_record
  | CallMarkIntaken string string string
  | CallAcknowledgeCallback string string string callback_effect_identity
  | CallPrepare continuation_dispatch_record
  | CallBeginDelivery continuation_dispatch_record string
  | CallSettleDelivery continuation_dispatch_record direct_delivery_result_kind json
  | CallBindProof continuation_dispatch_record commander_convergence_proof
  | CallTransition continuation_dispatch_record continuation_dispatch_state
  | CallIdentityFailure pending_identity_failure
  | CallCheckpoint string string u64 u64 string
  | CallReclaim string string live_effect_evidence
  | CallReconcile checkpoint_identity checkpoint_identity

definition effects_of :: "'a operation_result \<Rightarrow> store_effect list lifecycle_result" where
  "effects_of r = and_then r (\<lambda>(_, effects). Inr effects)"

lemma effects_of_simps [simp]: "effects_of (Inl b) = Inl b" "effects_of (Inr (a, es)) = Inr es"
  by (simp_all add: effects_of_def)

lemma effects_of_Inr: "effects_of r = Inr es \<longleftrightarrow> (\<exists>a. r = Inr (a, es))"
  by (cases r) auto

fun call_checks :: "externals \<Rightarrow> session_lifecycle_store \<Rightarrow> store_call \<Rightarrow> store_disk \<Rightarrow> unit lifecycle_result" where
  "call_checks X self (CallPublish c) d = publish_callback_checks X self c d"
| "call_checks X self (CallPrepare r) d =
     and_then (validate_continuation X self r d) (\<lambda>_. continuation_writer_binding r)"
| "call_checks X self (CallBeginDelivery r m) d = validate_continuation X self r d"
| "call_checks X self (CallSettleDelivery r k v) d = validate_continuation X self r d"
| "call_checks X self (CallBindProof r p) d =
     and_then (validate_continuation X self r d) (\<lambda>_. validate_convergence_proof X r p)"
| "call_checks X self (CallTransition r s) d = validate_continuation X self r d"
| "call_checks X self _ d = Inr ()"

fun call_locked :: "externals \<Rightarrow> session_lifecycle_store \<Rightarrow> store_call \<Rightarrow> store_disk \<Rightarrow> store_effect list lifecycle_result" where
  "call_locked X self (CallWriteReceipt r) d = effects_of (write_terminal_receipt X self r d)"
| "call_locked X self (CallAdmitChild a) d = effects_of (admit_child X self a d)"
| "call_locked X self (CallIntake t e) d = effects_of (intake X self t e d)"
| "call_locked X self (CallAcknowledge t e i) d = effects_of (acknowledge X self t e i d)"
| "call_locked X self (CallPublish c) d = effects_of (publish_callback_locked X self c d)"
| "call_locked X self (CallMarkIntaken t e h) d = effects_of (mark_callback_intaken X self t e h d)"
| "call_locked X self (CallAcknowledgeCallback t e h f) d = effects_of (acknowledge_callback X self t e h f d)"
| "call_locked X self (CallPrepare r) d = effects_of (prepare_callback_continuation_locked X self r d)"
| "call_locked X self (CallBeginDelivery r m) d = effects_of (begin_direct_delivery_locked X self r m d)"
| "call_locked X self (CallSettleDelivery r k v) d = effects_of (settle_direct_delivery_locked X self r k v d)"
| "call_locked X self (CallBindProof r p) d = effects_of (bind_convergence_proof_locked X self r p d)"
| "call_locked X self (CallTransition r s) d = effects_of (transition_continuation_locked X self r s d)"
| "call_locked X self (CallIdentityFailure f) d = effects_of (record_identity_failure X self f d)"
| "call_locked X self (CallCheckpoint c s m n b) d = effects_of (publish_checkpoint_evidence X self c s m n b d)"
| "call_locked X self (CallReclaim t e v) d = effects_of (reclaim_terminal_slot X self t e v d)"
| "call_locked X self (CallReconcile first second) d = Inr (snd (reconcile_checkpoint self first second))"

definition call_effects ::
  "externals \<Rightarrow> session_lifecycle_store \<Rightarrow> store_call \<Rightarrow> store_disk \<Rightarrow> store_effect list lifecycle_result" where
  "call_effects X self c d = and_then (call_checks X self c d) (\<lambda>_. call_locked X self c d)"

lemma call_effects_operations:
  "call_effects X self (CallPublish c) d = effects_of (publish_callback X self c d)"
  "call_effects X self (CallPrepare r) d = effects_of (prepare_callback_continuation X self r d)"
  "call_effects X self (CallBeginDelivery r m) d = effects_of (begin_callback_continuation_direct_delivery X self r m d)"
  "call_effects X self (CallSettleDelivery r k v) d = effects_of (settle_callback_continuation_direct_delivery X self r k v d)"
  "call_effects X self (CallBindProof r p) d = effects_of (bind_callback_continuation_convergence_proof X self r p d)"
  "call_effects X self (CallTransition r s) d = effects_of (transition_callback_continuation X self r s d)"
  by (simp_all add: call_effects_def publish_callback_def prepare_callback_continuation_def
      begin_callback_continuation_direct_delivery_def settle_callback_continuation_direct_delivery_def
      bind_callback_continuation_convergence_proof_def transition_callback_continuation_def
      effects_of_def and_then_def split: sum.split)

fun writes_blocker :: "store_effect \<Rightarrow> bool" where
  "writes_blocker (WriteBlocker _ _) = True"
| "writes_blocker _ = False"

text \<open>A write that is cut inside \<open>blockers/\<close> can leave its temporary there.\<close>

inductive effects_cut :: "store_effect list \<Rightarrow> store_disk \<Rightarrow> store_disk \<Rightarrow> bool" where
  cut: "k \<le> length es \<Longrightarrow> effects_cut es d (perform (take k es) d)"
| stray: "k < length es \<Longrightarrow> writes_blocker (es ! k) \<Longrightarrow> d' = perform (take k es) d \<Longrightarrow>
    effects_cut es d (d'\<lparr>sd_blocker_strays := temporary # sd_blocker_strays d'\<rparr>)"

lemma effects_cut_full: "effects_cut es d (perform es d)"
  using effects_cut.cut [of "length es" es d] by simp

inductive store_step :: "externals \<Rightarrow> session_lifecycle_store \<Rightarrow> store_call \<Rightarrow> store_disk \<Rightarrow> store_disk \<Rightarrow> bool"
  for X self where
  step: "call_effects X self c d = Inr es \<Longrightarrow> effects_cut es d d' \<Longrightarrow> store_step X self c d d'"

inductive store_run :: "externals \<Rightarrow> session_lifecycle_store \<Rightarrow> store_disk \<Rightarrow> store_call list \<Rightarrow> store_disk \<Rightarrow> bool"
  for X self where
  run_nil: "store_run X self d [] d"
| run_snoc: "store_run X self d cs d' \<Longrightarrow> store_step X self c d' d'' \<Longrightarrow> store_run X self d (cs @ [c]) d''"

inductive_cases store_stepE: "store_step X self c d d'"
inductive_cases effects_cutE: "effects_cut es d d'"

lemma store_run_trans:
  assumes "store_run X self d cs d'" "store_run X self d' cs' d''"
  shows "store_run X self d (cs @ cs') d''"
  using assms(2,1)
proof (induction rule: store_run.induct)
  case (run_snoc d1 cs1 d2 c d3)
  then show ?case using store_run.run_snoc [of X self d "cs @ cs1" d2 c d3] by simp
qed simp

lemma store_run_single: "store_step X self c d d' \<Longrightarrow> store_run X self d [c] d'"
  using store_run.run_snoc [OF store_run.run_nil, of X self c d d'] by simp

text \<open>An invariant of single steps holds along runs.\<close>

lemma store_run_invariant:
  assumes "store_run X self d cs d'" "Q d"
    and "\<And>c d d'. c \<in> set cs \<Longrightarrow> Q d \<Longrightarrow> store_step X self c d d' \<Longrightarrow> Q d'"
  shows "Q d'"
  using assms by (induction rule: store_run.induct) auto

section \<open>Checks that were made earlier\<close>

text \<open>A configuration also holds the calls whose checks have succeeded and that wait for the lock.\<close>

inductive interleaved_step ::
  "externals \<Rightarrow> session_lifecycle_store \<Rightarrow> store_disk \<times> store_call set \<Rightarrow> store_call option \<Rightarrow> store_disk \<times> store_call set \<Rightarrow> bool"
  for X self where
  checked: "call_checks X self c d = Inr () \<Longrightarrow> interleaved_step X self (d, waiting) None (d, insert c waiting)"
| locked: "c \<in> waiting \<Longrightarrow> call_locked X self c d = Inr es \<Longrightarrow> effects_cut es d d' \<Longrightarrow>
    interleaved_step X self (d, waiting) (Some c) (d', waiting)"

inductive interleaved_run ::
  "externals \<Rightarrow> session_lifecycle_store \<Rightarrow> store_disk \<times> store_call set \<Rightarrow> store_call list \<Rightarrow> store_disk \<times> store_call set \<Rightarrow> bool"
  for X self where
  i_nil: "interleaved_run X self s [] s"
| i_check: "interleaved_run X self s cs s' \<Longrightarrow> interleaved_step X self s' None s'' \<Longrightarrow> interleaved_run X self s cs s''"
| i_lock: "interleaved_run X self s cs s' \<Longrightarrow> interleaved_step X self s' (Some c) s'' \<Longrightarrow> interleaved_run X self s (cs @ [c]) s''"

end
