(* ===== verification/Store_Facts.thy ===== *)
theory Store_Facts
  imports Store_Protocol Reference_Externals
begin

text \<open>
  What every effect of the store does, stated once: \<open>effect_ok\<close> says when an effect may be performed, each
  call performs only such effects, also when it is cut short, and such effects keep the invariant of the
  store. The properties of \<open>Store_Properties\<close> follow from these three facts by induction on runs.
\<close>

section \<open>What sha2 documents\<close>

text \<open>A digest printed with \<open>{:x}\<close> is 64 lower-case hexadecimal characters.\<close>

locale digest_laws =
  fixes X :: externals
  assumes digest_shape: "is_lower_sha256 (sha256_hex X s)"

interpretation ref_digest: digest_laws reference_externals
  by unfold_locales
    (auto simp: reference_externals_def reference_digest_def is_lower_sha256_def list_all_iff)

section \<open>Lock state\<close>

lemma validate_callback_lock_state:
  "validate_callback_with_lock_state X self c b d = validate_callback_unlocked X self c d"
proof (cases "validate_callback_shape X self c")
  case (Inr u)
  then have "\<not> blank (cb_transaction_id c)" "\<not> blank (cb_event_id c)"
    by (auto simp: validate_callback_shape_def result_simps)
  then have "lookup_terminal_receipt X self (cb_transaction_id c) (cb_event_id c) d =
      terminal_receipt_unlocked X self (cb_transaction_id c) (cb_event_id c) d"
    by (simp add: lookup_terminal_receipt_def require_identifier_def)
  then show ?thesis by (simp add: validate_callback_with_lock_state_def)
qed (simp add: validate_callback_with_lock_state_def)

lemma validate_continuation_lock_state:
  "validate_continuation_with_lock_state X self r b d = validate_continuation_unlocked X self r d"
  by (simp add: validate_continuation_with_lock_state_def validate_continuation_callback_def
      validate_callback_lock_state [of X self _ b])

section \<open>Reading a well-formed directory\<close>

definition receipt_file_ok :: "externals \<Rightarrow> session_lifecycle_store \<Rightarrow> string \<Rightarrow> stored_receipt stored_file \<Rightarrow> bool" where
  "receipt_file_ok X self key f \<longleftrightarrow>
     (\<exists>r. f = Record (stored_receipt_of X r) \<and> validate_receipt self r = Inr () \<and>
        key = receipt_key X (tr_transaction_id r) (tr_event_id r))"

lemma read_stored_receipt_iff:
  "read_stored_receipt X path dir key = Inr s \<longleftrightarrow>
     map_of dir key = Some (Record s) \<and> s = stored_receipt_of X (sto_receipt s)"
  by (cases s) (auto simp: read_stored_receipt_def result_simps read_json_Inr stored_receipt_of_def)

lemma stored_receipt_of_sel [simp]: "sto_receipt (stored_receipt_of X r) = r"
  by (simp add: stored_receipt_of_def)

lemma read_receipt_iff:
  "read_applied X self d key = Inr s \<longleftrightarrow>
     map_of (sd_applied_receipts d) key = Some (Record s) \<and> s = stored_receipt_of X (sto_receipt s)"
  "read_pending X self d key = Inr s \<longleftrightarrow>
     map_of (sd_pending_receipts d) key = Some (Record s) \<and> s = stored_receipt_of X (sto_receipt s)"
  by (simp_all add: read_applied_def read_pending_def read_stored_receipt_iff)

section \<open>The invariant\<close>

definition receipts_inv :: "externals \<Rightarrow> session_lifecycle_store \<Rightarrow> store_disk \<Rightarrow> bool" where
  "receipts_inv X self d \<longleftrightarrow>
     distinct (map fst (sd_applied_receipts d)) \<and>
     (\<forall>k f. map_of (sd_pending_receipts d) k = Some f \<longrightarrow> receipt_file_ok X self k f) \<and>
     (\<forall>k f. map_of (sd_applied_receipts d) k = Some f \<longrightarrow> receipt_file_ok X self k f) \<and>
     (\<forall>k f g. map_of (sd_pending_receipts d) k = Some f \<longrightarrow> map_of (sd_applied_receipts d) k = Some g \<longrightarrow> f = g) \<and>
     (\<forall>k f. map_of (sd_acknowledged_receipts d) k = Some f \<longrightarrow>
        (\<exists>a s. f = Record a \<and> map_of (sd_applied_receipts d) k = Some (Record s) \<and>
           rk_event_seq a = tr_event_seq (sto_receipt s) \<and> rk_commander_session_id a = st_commander_session_id self)) \<and>
     (\<forall>k f. map_of (sd_released d) k = Some f \<longrightarrow>
        (\<exists>t e s. f = Record (release_of t e (sto_receipt s)) \<and> map_of (sd_applied_receipts d) k = Some (Record s)))"

definition callback_file_ok ::
  "externals \<Rightarrow> session_lifecycle_store \<Rightarrow> store_disk \<Rightarrow> string \<Rightarrow> durable_callback_record stored_file \<Rightarrow> bool" where
  "callback_file_ok X self d key f \<longleftrightarrow>
     (\<exists>c. f = Record c \<and> key = receipt_key X (cb_transaction_id c) (cb_event_id c) \<and>
        validate_callback_unlocked X self c d = Inr () \<and> callback_writer_binding c = Inr ())"

definition callbacks_inv :: "externals \<Rightarrow> session_lifecycle_store \<Rightarrow> store_disk \<Rightarrow> bool" where
  "callbacks_inv X self d \<longleftrightarrow>
     (\<forall>k f. map_of (sd_pending_callbacks d) k = Some f \<longrightarrow> callback_file_ok X self d k f) \<and>
     (\<forall>k f. map_of (sd_intaken_callbacks d) k = Some f \<longrightarrow> callback_file_ok X self d k f) \<and>
     (\<forall>k f g. map_of (sd_pending_callbacks d) k = Some f \<longrightarrow> map_of (sd_intaken_callbacks d) k = Some g \<longrightarrow> f = g) \<and>
     (\<forall>k f. map_of (sd_acknowledged_callbacks d) k = Some f \<longrightarrow>
        (\<exists>a. f = Record a \<and> map_of (sd_intaken_callbacks d) k = Some (Record (ka_record a)) \<and>
           \<not> effect_unsettled (cb_effect_identity (ka_record a))))"

definition continuations_inv :: "externals \<Rightarrow> session_lifecycle_store \<Rightarrow> store_disk \<Rightarrow> bool" where
  "continuations_inv X self d \<longleftrightarrow>
     (\<forall>k f. map_of (sd_continuations d) k = Some f \<longrightarrow>
        (\<exists>r. f = Record r \<and> k = continuation_key X r \<and> validate_continuation_unlocked X self r d = Inr () \<and>
           continuation_writer_binding r = Inr ()))"

definition admissions_inv :: "externals \<Rightarrow> session_lifecycle_store \<Rightarrow> store_disk \<Rightarrow> bool" where
  "admissions_inv X self d \<longleftrightarrow>
     (\<forall>k f. map_of (sd_admissions d) k = Some f \<longrightarrow>
        (\<exists>a. f = Record a \<and> k = child_admission_key X (ca_child_session_id a) \<and> validate_child_admission self a = Inr ()))"

definition store_inv :: "externals \<Rightarrow> session_lifecycle_store \<Rightarrow> store_disk \<Rightarrow> bool" where
  "store_inv X self d \<longleftrightarrow>
     receipts_inv X self d \<and> callbacks_inv X self d \<and> continuations_inv X self d \<and> admissions_inv X self d"

lemma store_inv_empty: "store_inv X self empty_disk"
  by (simp add: store_inv_def receipts_inv_def callbacks_inv_def continuations_inv_def admissions_inv_def empty_disk_def)

section \<open>Steps of a continuation\<close>

text \<open>The lifecycle of a continuation, as a specification of what its operations may write.\<close>

inductive continuation_step ::
  "externals \<Rightarrow> continuation_dispatch_record \<Rightarrow> continuation_dispatch_record \<Rightarrow> bool" for X where
  delivery_begun: "cd_state r = Prepared \<Longrightarrow> continuation_step X r
    (r\<lparr>cd_direct_delivery_call_id := Some (cd_request_id r),
       cd_delivered_message_sha256 := Some (sha256_hex X m), cd_state := DeliveryUnsettled\<rparr>)"
| delivery_settled: "cd_state r = DeliveryUnsettled \<Longrightarrow> continuation_step X r
    (r\<lparr>cd_direct_delivery_result := Some \<lparr>de_kind = k, de_evidence_sha256 = canonical_value_sha256 X v\<rparr>,
       cd_state := Dispatched\<rparr>)"
| delivery_reconciled: "cd_state r = Dispatched \<Longrightarrow> result_kind_is Accepted r \<Longrightarrow> continuation_step X r
    (r\<lparr>cd_direct_delivery_result := Some \<lparr>de_kind = Reconciled, de_evidence_sha256 = canonical_value_sha256 X v\<rparr>\<rparr>)"
| proof_bound: "cd_convergence_proof r = None \<Longrightarrow> validate_convergence_proof X r p = Inr () \<Longrightarrow>
    continuation_step X r (r\<lparr>cd_convergence_proof := Some p\<rparr>)"
| completed: "cd_state r = Dispatched \<Longrightarrow>
    cd_commander_thread_id r = None \<or> result_kind_is Reconciled r \<or> cd_convergence_proof r \<noteq> None \<Longrightarrow>
    continuation_step X r (r\<lparr>cd_state := DCompleted\<rparr>)"
| acknowledged: "cd_state r = DCompleted \<Longrightarrow> continuation_step X r (r\<lparr>cd_state := DAcknowledged\<rparr>)"

inductive_cases continuation_stepE: "continuation_step X r r'"

lemma continuation_step_bound: "continuation_step X r r' \<Longrightarrow> bound_fields r' = bound_fields r"
  by (erule continuation_stepE) (simp_all add: bound_fields_def)

section \<open>Effects that may be performed\<close>

fun effect_ok :: "externals \<Rightarrow> session_lifecycle_store \<Rightarrow> store_disk \<Rightarrow> store_effect \<Rightarrow> bool" where
  "effect_ok X self d (WritePendingReceipt k s) \<longleftrightarrow>
     map_of (sd_pending_receipts d) k = None \<and> map_of (sd_applied_receipts d) k = None \<and> receipt_file_ok X self k (Record s)"
| "effect_ok X self d (WriteAppliedReceipt k s) \<longleftrightarrow>
     map_of (sd_applied_receipts d) k = None \<and> map_of (sd_pending_receipts d) k = Some (Record s)"
| "effect_ok X self d (RemovePendingReceipt k) \<longleftrightarrow> map_of (sd_applied_receipts d) k \<noteq> None"
| "effect_ok X self d (WriteReceiptAck k a) \<longleftrightarrow>
     map_of (sd_acknowledged_receipts d) k = None \<and>
     (\<exists>s. map_of (sd_applied_receipts d) k = Some (Record s) \<and> rk_event_seq a = tr_event_seq (sto_receipt s) \<and>
        rk_commander_session_id a = st_commander_session_id self)"
| "effect_ok X self d (WriteRelease k l) \<longleftrightarrow>
     map_of (sd_released d) k = None \<and>
     (\<exists>t e s. map_of (sd_applied_receipts d) k = Some (Record s) \<and> l = release_of t e (sto_receipt s))"
| "effect_ok X self d (WriteAdmission k a) \<longleftrightarrow>
     map_of (sd_admissions d) k = None \<and> k = child_admission_key X (ca_child_session_id a) \<and>
     validate_child_admission self a = Inr ()"
| "effect_ok X self d (WritePendingCallback k c) \<longleftrightarrow>
     map_of (sd_pending_callbacks d) k = None \<and> map_of (sd_intaken_callbacks d) k = None \<and> callback_file_ok X self d k (Record c)"
| "effect_ok X self d (WriteIntakenCallback k c) \<longleftrightarrow>
     map_of (sd_intaken_callbacks d) k = None \<and> map_of (sd_pending_callbacks d) k = Some (Record c)"
| "effect_ok X self d (RemovePendingCallback k) \<longleftrightarrow> map_of (sd_intaken_callbacks d) k \<noteq> None"
| "effect_ok X self d (WriteCallbackAck k a) \<longleftrightarrow>
     map_of (sd_acknowledged_callbacks d) k = None \<and>
     map_of (sd_intaken_callbacks d) k = Some (Record (ka_record a)) \<and> \<not> effect_unsettled (cb_effect_identity (ka_record a))"
| "effect_ok X self d (WriteContinuation k r) \<longleftrightarrow>
     (map_of (sd_continuations d) k = None \<and> k = continuation_key X r \<and>
        validate_continuation_unlocked X self r d = Inr () \<and> continuation_writer_binding r = Inr ()) \<or>
     (\<exists>r0. map_of (sd_continuations d) k = Some (Record r0) \<and> continuation_step X r0 r)"
| "effect_ok X self d _ \<longleftrightarrow> True"

fun effects_ok :: "externals \<Rightarrow> session_lifecycle_store \<Rightarrow> store_disk \<Rightarrow> store_effect list \<Rightarrow> bool" where
  "effects_ok X self d [] \<longleftrightarrow> True"
| "effects_ok X self d (e # es) \<longleftrightarrow> effect_ok X self d e \<and> effects_ok X self (apply_effect e d) es"


lemma effects_ok_append:
  "effects_ok X self d (es @ fs) \<longleftrightarrow> effects_ok X self d es \<and> effects_ok X self (perform es d) fs"
  by (induction es arbitrary: d) auto

section \<open>What was validated stays valid\<close>

lemma terminal_receipt_iff:
  "terminal_receipt_unlocked X self t e d = Inr r \<longleftrightarrow>
     validate_receipt self r = Inr () \<and>
     (let k = receipt_key X t e; f = Some (Record (stored_receipt_of X r))
      in map_of (sd_applied_receipts d) k = f \<or>
         map_of (sd_applied_receipts d) k = None \<and> map_of (sd_pending_receipts d) k = f)"
proof -
  have "Inr r = Inr (sto_receipt s) \<and> s = stored_receipt_of X (sto_receipt s) \<longleftrightarrow> s = stored_receipt_of X r"
    for s :: stored_receipt by (auto simp: stored_receipt_of_def)
  then show ?thesis
    by (auto simp: terminal_receipt_unlocked_def Let_def exists_file_def result_simps read_receipt_iff)
qed

lemma terminal_receipt_stable:
  assumes "receipts_inv X self d" "effect_ok X self d e" "terminal_receipt_unlocked X self t v d = Inr r"
  shows "terminal_receipt_unlocked X self t v (apply_effect e d) = Inr r"
  using assms by (cases e) (auto simp: terminal_receipt_iff Let_def receipts_inv_def)

lemma validate_callback_iff:
  "validate_callback_unlocked X self c d = Inr () \<longleftrightarrow>
     validate_callback_shape X self c = Inr () \<and>
     (\<exists>r. terminal_receipt_unlocked X self (cb_transaction_id c) (cb_event_id c) d = Inr r \<and> \<not> receipt_conflicts X c r)"
  by (simp add: validate_callback_with_lock_state_def result_simps)

lemma validate_callback_stable:
  assumes "receipts_inv X self d" "effect_ok X self d e" "validate_callback_unlocked X self c d = Inr ()"
  shows "validate_callback_unlocked X self c (apply_effect e d) = Inr ()"
  using assms terminal_receipt_stable unfolding validate_callback_iff by blast

lemma intaken_stable:
  assumes "effect_ok X self d e" "map_of (sd_intaken_callbacks d) k = Some f"
  shows "map_of (sd_intaken_callbacks (apply_effect e d)) k = Some f"
  using assms by (cases e) auto

text \<open>What the validation of a continuation says without the store.\<close>

definition continuation_shape :: "externals \<Rightarrow> session_lifecycle_store \<Rightarrow> continuation_dispatch_record \<Rightarrow> bool" where
  "continuation_shape X self r \<longleftrightarrow>
     validate_continuation_identity self r = Inr () \<and> validate_continuation_delivery r = Inr () \<and>
     validate_direct_delivery_state r = Inr () \<and>
     (\<forall>p. cd_convergence_proof r = Some p \<longrightarrow> validate_convergence_proof X r p = Inr ()) \<and>
     validate_continuation_result X r = Inr () \<and> validate_derived_identity X r = Inr ()"

lemma validate_continuation_iff:
  "validate_continuation_unlocked X self r d = Inr () \<longleftrightarrow>
     continuation_shape X self r \<and>
     (\<exists>c expected. map_of (sd_intaken_callbacks d) (continuation_key X r) = Some (Record c) \<and>
        validate_callback_unlocked X self c d = Inr () \<and> continuation_from_callback X c = Inr expected \<and>
        continuation_bound_fields_match expected r)"
proof -
  have "(case cd_convergence_proof r of None \<Rightarrow> Inr () | Some p \<Rightarrow> validate_convergence_proof X r p) = Inr () \<longleftrightarrow>
      (\<forall>p. cd_convergence_proof r = Some p \<longrightarrow> validate_convergence_proof X r p = Inr ())"
    by (simp split: option.split)
  then show ?thesis
    unfolding validate_continuation_with_lock_state_def continuation_shape_def validate_continuation_callback_def
      Let_def continuation_key_def [symmetric] and_then_Inr_iff
    by (auto simp: exists_file_def read_json_Inr)
qed

lemma validate_continuation_stable:
  assumes "receipts_inv X self d" "effect_ok X self d e" "validate_continuation_unlocked X self r d = Inr ()"
  shows "validate_continuation_unlocked X self r (apply_effect e d) = Inr ()"
  using assms(3) validate_callback_stable [OF assms(1,2)] intaken_stable [OF assms(2)]
  unfolding validate_continuation_iff by blast

section \<open>Effects keep the invariant\<close>

lemma receipts_inv_effect:
  assumes "receipts_inv X self d" "effect_ok X self d e"
  shows "receipts_inv X self (apply_effect e d)"
proof (cases e)
  case (RemovePendingReceipt k)
  then show ?thesis using assms by (auto simp: receipts_inv_def)
next
  case (WriteAppliedReceipt k s)
  let ?m = "map_of (sd_applied_receipts d)"
  from assms WriteAppliedReceipt have k: "?m k = None" and p: "map_of (sd_pending_receipts d) k = Some (Record s)"
    by auto
  then have other: "(?m(k \<mapsto> Record s)) k' = Some f" if "?m k' = Some f" for k' f
    using that by auto
  have ok: "receipt_file_ok X self k (Record s)" using p assms(1) by (auto simp: receipts_inv_def)
  have "(\<forall>k' f. (?m(k \<mapsto> Record s)) k' = Some f \<longrightarrow> receipt_file_ok X self k' f)"
    using assms(1) ok by (simp add: receipts_inv_def)
  moreover have "\<forall>k' f g. map_of (sd_pending_receipts d) k' = Some f \<longrightarrow> (?m(k \<mapsto> Record s)) k' = Some g \<longrightarrow> f = g"
    using assms(1) p by (simp add: receipts_inv_def)
  moreover have "\<forall>k' f. map_of (sd_acknowledged_receipts d) k' = Some f \<longrightarrow>
        (\<exists>a s'. f = Record a \<and> (?m(k \<mapsto> Record s)) k' = Some (Record s') \<and>
           rk_event_seq a = tr_event_seq (sto_receipt s') \<and> rk_commander_session_id a = st_commander_session_id self)"
    using assms(1) other unfolding receipts_inv_def by blast
  moreover have "\<forall>k' f. map_of (sd_released d) k' = Some f \<longrightarrow>
        (\<exists>t e s'. f = Record (release_of t e (sto_receipt s')) \<and> (?m(k \<mapsto> Record s)) k' = Some (Record s'))"
    using assms(1) other unfolding receipts_inv_def by blast
  ultimately show ?thesis
    using assms(1) WriteAppliedReceipt unfolding receipts_inv_def by (simp del: fun_upd_apply)
next
  case (WriteReceiptAck k a)
  then show ?thesis using assms unfolding receipts_inv_def by auto
next
  case (WriteRelease k l)
  then show ?thesis using assms unfolding receipts_inv_def by auto
qed (use assms in \<open>auto simp: receipts_inv_def\<close>)

lemma callback_file_stable:
  assumes "receipts_inv X self d" "effect_ok X self d e" "callback_file_ok X self d k f"
  shows "callback_file_ok X self (apply_effect e d) k f"
  using assms(3) validate_callback_stable [OF assms(1,2)] unfolding callback_file_ok_def by blast

lemma callbacks_inv_effect:
  assumes "receipts_inv X self d" "callbacks_inv X self d" "effect_ok X self d e"
  shows "callbacks_inv X self (apply_effect e d)"
proof -
  note stable = callback_file_stable [OF assms(1,3)]
  show ?thesis
  proof (cases e)
    case (WriteIntakenCallback k c)
    let ?m = "map_of (sd_intaken_callbacks d)"
    from assms(3) WriteIntakenCallback have k: "?m k = None" and p: "map_of (sd_pending_callbacks d) k = Some (Record c)"
      by auto
    then have other: "(?m(k \<mapsto> Record c)) k' = Some f" if "?m k' = Some f" for k' f
      using that by auto
    have "\<forall>k' f. map_of (sd_acknowledged_callbacks d) k' = Some f \<longrightarrow>
        (\<exists>a. f = Record a \<and> (?m(k \<mapsto> Record c)) k' = Some (Record (ka_record a)) \<and>
           \<not> effect_unsettled (cb_effect_identity (ka_record a)))"
      using assms(2) other unfolding callbacks_inv_def by blast
    then show ?thesis
      using assms(2) p stable WriteIntakenCallback unfolding callbacks_inv_def by simp
  qed (use assms(2,3) stable in \<open>auto simp: callbacks_inv_def split: if_splits\<close>)
qed

lemma admissions_inv_effect:
  assumes "admissions_inv X self d" "effect_ok X self d e"
  shows "admissions_inv X self (apply_effect e d)"
  using assms by (cases e) (auto simp: admissions_inv_def split: if_splits)

lemma bound_fields_eqD:
  assumes "bound_fields r = bound_fields r'"
  shows "cd_schema_version r = cd_schema_version r'" "cd_request_id r = cd_request_id r'"
    "cd_runtime_id r = cd_runtime_id r'" "cd_lease_id r = cd_lease_id r'"
    "cd_commander_session_id r = cd_commander_session_id r'" "cd_child_session_id r = cd_child_session_id r'"
    "cd_child_transaction_id r = cd_child_transaction_id r'" "cd_child_event_id r = cd_child_event_id r'"
    "cd_child_runtime_id r = cd_child_runtime_id r'" "cd_callback_payload_sha256 r = cd_callback_payload_sha256 r'"
    "cd_parent_mission_revision_sha256 r = cd_parent_mission_revision_sha256 r'"
    "cd_commander_thread_id r = cd_commander_thread_id r'"
    "cd_callback_delivery_route r = cd_callback_delivery_route r'"
    "cd_delegated_input_sha256 r = cd_delegated_input_sha256 r'" "cd_effect_identity r = cd_effect_identity r'"
    "cd_parent_input r = cd_parent_input r'" "cd_requested_action r = cd_requested_action r'"
  using assms by (cases r; cases r'; simp add: bound_fields_def)+

lemma bound_validations:
  assumes "bound_fields r = bound_fields r'"
  shows "validate_continuation_identity self r = validate_continuation_identity self r'"
    "validate_continuation_delivery r = validate_continuation_delivery r'"
    "validate_continuation_result X r = validate_continuation_result X r'"
    "validate_derived_identity X r = validate_derived_identity X r'"
    "validate_convergence_proof X r p = validate_convergence_proof X r' p"
    "continuation_writer_binding r = continuation_writer_binding r'"
    "continuation_key X r = continuation_key X r'"
  by (simp_all add: bound_fields_eqD [OF assms] validate_continuation_identity_def validate_continuation_delivery_def
      validate_continuation_result_def validate_derived_identity_def continuation_bound_identity_sha256_def
      validate_convergence_proof_def continuation_writer_binding_def continuation_key_def)

context digest_laws
begin

lemma canonical_digest_shape: "is_lower_sha256 (canonical_value_sha256 X v)"
  by (simp add: canonical_value_sha256_def digest_shape)

lemma continuation_step_delivery_state:
  assumes "continuation_step X r r'" "validate_direct_delivery_state r = Inr ()"
  shows "validate_direct_delivery_state r' = Inr ()"
  using assms
  by (elim continuation_stepE)
    (auto simp: validate_direct_delivery_state_def direct_delivery_evidence_valid_def Let_def
      result_simps digest_shape canonical_digest_shape
      split: option.splits continuation_dispatch_state.splits)

lemma continuation_step_shape:
  assumes "continuation_step X r r'" "continuation_shape X self r"
  shows "continuation_shape X self r'"
proof -
  note same = bound_validations [OF continuation_step_bound [OF assms(1)]]
  have "validate_convergence_proof X r p = Inr ()" if "cd_convergence_proof r' = Some p" for p
    using assms that by (elim continuation_stepE) (auto simp: continuation_shape_def)
  then show ?thesis
    using assms(2) continuation_step_delivery_state [OF assms(1)] by (simp add: continuation_shape_def same)
qed

lemma continuation_step_match:
  assumes "continuation_step X r r'"
  shows "continuation_bound_fields_match a r' = continuation_bound_fields_match a r"
    "continuation_bound_fields_match r' a = continuation_bound_fields_match r a"
  using continuation_step_bound [OF assms] by (simp_all add: continuation_bound_fields_match_def)

lemma continuation_step_valid:
  assumes "continuation_step X r r'" "validate_continuation_unlocked X self r d = Inr ()"
  shows "validate_continuation_unlocked X self r' d = Inr ()"
  using assms(2) continuation_step_shape [OF assms(1)] continuation_step_match [OF assms(1)]
    bound_validations(7) [OF continuation_step_bound [OF assms(1)]]
  unfolding validate_continuation_iff by auto

lemma continuations_inv_effect:
  assumes "receipts_inv X self d" "continuations_inv X self d" "effect_ok X self d e"
  shows "continuations_inv X self (apply_effect e d)"
proof -
  note stable = validate_continuation_stable [OF assms(1,3)]
  show ?thesis
  proof (cases "\<exists>k r. e = WriteContinuation k r")
    case True
    then obtain k r where WriteContinuation: "e = WriteContinuation k r" by blast
    have "k = continuation_key X r \<and> validate_continuation_unlocked X self r d = Inr () \<and> continuation_writer_binding r = Inr ()"
    proof (cases "map_of (sd_continuations d) k = None")
      case True
      then show ?thesis using assms(3) WriteContinuation by auto
    next
      case False
      then obtain r0 where r0: "map_of (sd_continuations d) k = Some (Record r0)" "continuation_step X r0 r"
        using assms(3) WriteContinuation by auto
      with assms(2) have "k = continuation_key X r0" "validate_continuation_unlocked X self r0 d = Inr ()"
        "continuation_writer_binding r0 = Inr ()" by (auto simp: continuations_inv_def)
      with continuation_step_valid [OF r0(2)] bound_validations [OF continuation_step_bound [OF r0(2)]]
      show ?thesis by simp
    qed
    then show ?thesis using assms(2) stable WriteContinuation unfolding continuations_inv_def by simp blast
  next
    case False
    then have "sd_continuations (apply_effect e d) = sd_continuations d" by (cases e) auto
    then show ?thesis using assms(2) stable unfolding continuations_inv_def by metis
  qed
qed

lemma store_inv_effect:
  "store_inv X self d \<Longrightarrow> effect_ok X self d e \<Longrightarrow> store_inv X self (apply_effect e d)"
  unfolding store_inv_def
  using receipts_inv_effect callbacks_inv_effect continuations_inv_effect admissions_inv_effect by blast

lemma store_inv_effects:
  "store_inv X self d \<Longrightarrow> effects_ok X self d es \<Longrightarrow> store_inv X self (perform es d)"
  by (induction es arbitrary: d) (auto simp: store_inv_effect)

end

end
