(* ===== verification/Store_Calls.thy ===== *)
theory Store_Calls
  imports Store_Facts
begin

text \<open>
  Every call of the store performs only effects that \<open>effect_ok\<close> allows, so the invariant holds along
  every run; the checks a call made before it took the lock still hold when it has it.
\<close>

section \<open>The effects of each operation\<close>

lemma effects_ok_free:
  "(\<And>e d. e \<in> set es \<Longrightarrow> effect_ok X self d e) \<Longrightarrow> effects_ok X self d es"
  by (induction es arbitrary: d) auto

lemma write_blocker_effects:
  assumes "write_blocker_unlocked self b t e d = Inr es" "v \<in> set es"
  shows "\<exists>k r. v = WriteBlocker k r \<or> v = WriteLastBlocker r"
  using assms by (auto simp: write_blocker_unlocked_def result_simps Let_def split: if_splits)

lemma write_blocker_effects_ok:
  "write_blocker_unlocked self b t e d = Inr es \<Longrightarrow> effects_ok X self d es"
  by (rule effects_ok_free) (auto dest!: write_blocker_effects)

lemma write_terminal_receipt_ok:
  assumes "write_terminal_receipt X self r d = Inr (out, es)"
  shows "effects_ok X self d es"
  using assms
  by (auto simp: write_terminal_receipt_def existing_receipt_outcome_def result_simps Let_def exists_file_def
      receipt_file_ok_def split: if_splits)

lemma intake_ok:
  assumes "intake X self t e d = Inr (out, es)"
  shows "effects_ok X self d es"
  using assms
  by (auto simp: intake_def intake_duplicate_def intake_pending_def result_simps Let_def exists_file_def
      read_receipt_iff write_blocker_effects_ok split: if_splits)

lemma acknowledge_ok:
  assumes "acknowledge X self t e i d = Inr (out, es)"
  shows "effects_ok X self d es"
  using assms
  by (auto simp: acknowledge_def result_simps Let_def exists_file_def read_receipt_iff split: if_splits)

lemma reclaim_terminal_slot_ok:
  assumes "reclaim_terminal_slot X self t e v d = Inr (out, es)"
  shows "effects_ok X self d es"
  using assms
  by (auto simp: reclaim_terminal_slot_def result_simps Let_def exists_file_def read_receipt_iff
      write_blocker_effects_ok split: if_splits option.splits) blast

lemma admit_child_ok:
  assumes "admit_child X self a d = Inr (out, es)"
  shows "effects_ok X self d es"
  using assms by (auto simp: admit_child_def result_simps Let_def exists_file_def split: if_splits)

lemma publish_callback_ok:
  assumes "publish_callback X self c d = Inr (out, es)" "callbacks_inv X self d"
  shows "effects_ok X self d es"
  using assms
  by (auto simp: publish_callback_def publish_callback_checks_def publish_callback_locked_def result_simps Let_def
      exists_file_def callback_file_ok_def validate_callback_lock_state [of X self c False] split: if_splits)

lemma mark_callback_intaken_ok:
  assumes "mark_callback_intaken X self t e h d = Inr (out, es)"
  shows "effects_ok X self d es"
  using assms
  by (auto simp: mark_callback_intaken_def result_simps Let_def exists_file_def read_json_Inr split: if_splits)

lemma acknowledge_callback_ok:
  assumes "acknowledge_callback X self t e h f d = Inr (out, es)"
  shows "effects_ok X self d es"
  using assms
  by (auto simp: acknowledge_callback_def result_simps Let_def exists_file_def read_json_Inr split: if_splits)

section \<open>The effects on continuations\<close>

lemma existing_continuation_iff:
  "existing_continuation X self expected d = Inr existing \<longleftrightarrow>
     map_of (sd_continuations d) (continuation_key X expected) = Some (Record existing) \<and>
     validate_continuation_unlocked X self existing d = Inr () \<and> continuation_bound_fields_match existing expected"
  by (auto simp: existing_continuation_def result_simps read_json_Inr)

lemma match_proof:
  assumes "continuation_bound_fields_match a b"
  shows "validate_convergence_proof X a p = validate_convergence_proof X b p"
proof -
  have "(bound_fields a)\<lparr>cd_parent_input := JNull\<rparr> = (bound_fields b)\<lparr>cd_parent_input := JNull\<rparr>"
    using assms by (simp add: continuation_bound_fields_match_def continuation_eq_def)
  then have "cd_request_id a = cd_request_id b" "cd_callback_payload_sha256 a = cd_callback_payload_sha256 b"
    "cd_effect_identity a = cd_effect_identity b" "cd_child_session_id a = cd_child_session_id b"
    "cd_child_transaction_id a = cd_child_transaction_id b" "cd_child_runtime_id a = cd_child_runtime_id b"
    "cd_requested_action a = cd_requested_action b" "cd_commander_thread_id a = cd_commander_thread_id b"
    "cd_parent_mission_revision_sha256 a = cd_parent_mission_revision_sha256 b"
    by (cases a; cases b; simp add: bound_fields_def)+
  then show ?thesis by (simp add: validate_convergence_proof_def)
qed

lemma prepare_continuation_ok:
  assumes "prepare_callback_continuation X self r d = Inr (out, es)"
  shows "effects_ok X self d es"
  using assms
  by (auto simp: prepare_callback_continuation_def prepare_callback_continuation_locked_def result_simps
      exists_file_def validate_continuation_lock_state [of X self r False] split: if_splits)

lemma begin_delivery_ok:
  assumes "begin_direct_delivery_locked X self r m d = Inr (out, es)"
  shows "effects_ok X self d es"
  using assms
  by (auto simp: begin_direct_delivery_locked_def result_simps Let_def existing_continuation_iff
      intro: delivery_begun split: if_splits)

lemma settle_delivery_ok:
  assumes "settle_direct_delivery_locked X self r k v d = Inr (out, es)"
  shows "effects_ok X self d es"
  using assms
  by (auto simp: settle_direct_delivery_locked_def result_simps Let_def existing_continuation_iff
      intro: delivery_settled delivery_reconciled split: if_splits)

lemma bind_proof_ok:
  assumes "bind_convergence_proof_locked X self r p d = Inr (out, es)" "validate_convergence_proof X r p = Inr ()"
  shows "effects_ok X self d es"
proof -
  from assms(1) obtain r0 where r0: "existing_continuation X self r d = Inr r0"
    by (auto simp: bind_convergence_proof_locked_def result_simps)
  then have "es = [] \<or> cd_convergence_proof r0 = None \<and>
      es = [WriteContinuation (continuation_key X r) (r0\<lparr>cd_convergence_proof := Some p\<rparr>)]"
    using assms(1) by (cases "cd_convergence_proof r0") (auto simp: bind_convergence_proof_locked_def split: if_splits)
  moreover have "validate_convergence_proof X r0 p = Inr ()"
    using assms(2) match_proof [of r0 r X p] r0 by (simp add: existing_continuation_iff)
  ultimately show ?thesis using r0 by (auto simp: existing_continuation_iff intro: proof_bound)
qed

lemma transition_continuation_ok:
  assumes "transition_continuation_locked X self r s d = Inr (out, es)"
  shows "effects_ok X self d es"
proof -
  from assms obtain r0 where r0: "existing_continuation X self r d = Inr r0"
    and c: "completion_proof_check r0 r s = Inr ()"
    by (auto simp: transition_continuation_locked_def result_simps)
  then have "es = [] \<or> (cd_state r0, s) \<in> {(Dispatched, DCompleted), (DCompleted, DAcknowledged)} \<and>
      es = [WriteContinuation (continuation_key X r) (r0\<lparr>cd_state := s\<rparr>)]"
    using assms by (auto simp: transition_continuation_locked_def result_simps split: if_splits)
  moreover have "cd_commander_thread_id r0 = None \<or> result_kind_is Reconciled r0 \<or> cd_convergence_proof r0 \<noteq> None"
    if "s = DCompleted" using c that by (auto simp: completion_proof_check_def result_simps split: if_splits)
  ultimately have "es = [] \<or> continuation_step X r0 (r0\<lparr>cd_state := s\<rparr>) \<and>
      es = [WriteContinuation (continuation_key X r) (r0\<lparr>cd_state := s\<rparr>)]"
    using completed [of r0 X] acknowledged [of r0 X] by blast
  then show ?thesis using r0 by (auto simp: existing_continuation_iff)
qed

section \<open>Calls\<close>

lemma call_effects_ok:
  assumes "store_inv X self d" "call_effects X self c d = Inr es"
  shows "effects_ok X self d es"
proof -
  from assms(1) have cb: "callbacks_inv X self d" by (simp add: store_inv_def)
  show ?thesis
  proof (cases c)
    case (CallPublish x)
    then show ?thesis using assms(2) publish_callback_ok [OF _ cb]
      by (auto simp: call_effects_operations effects_of_Inr)
  next
    case (CallPrepare r)
    then show ?thesis using assms(2) prepare_continuation_ok
      by (auto simp: call_effects_operations effects_of_Inr)
  next
    case (CallCheckpoint x1 x2 x3 x4 x5)
    with assms(2) show ?thesis
      by (auto simp: call_effects_def effects_of_Inr publish_checkpoint_evidence_def Let_def result_simps split: if_splits)
  next
    case (CallIdentityFailure f)
    with assms(2) show ?thesis by (auto simp: call_effects_def effects_of_Inr record_identity_failure_def result_simps)
  next
    case (CallReconcile a b)
    with assms(2) show ?thesis by (auto simp: call_effects_def reconcile_checkpoint_def Let_def)
  qed (use assms(2) in \<open>auto simp: call_effects_def effects_of_Inr result_simps dest: write_terminal_receipt_ok
      admit_child_ok intake_ok acknowledge_ok mark_callback_intaken_ok acknowledge_callback_ok begin_delivery_ok
      settle_delivery_ok bind_proof_ok transition_continuation_ok reclaim_terminal_slot_ok\<close>)
qed

lemma effects_ok_take: "effects_ok X self d es \<Longrightarrow> effects_ok X self d (take k es)"
  using effects_ok_append [of X self d "take k es" "drop k es"] by simp

text \<open>Temporaries in \<open>blockers/\<close> are outside the invariant.\<close>

lemma validate_strays [simp]:
  "validate_callback_unlocked X self c (d\<lparr>sd_blocker_strays := s\<rparr>) = validate_callback_unlocked X self c d"
  "validate_continuation_unlocked X self r (d\<lparr>sd_blocker_strays := s\<rparr>) = validate_continuation_unlocked X self r d"
proof -
  have t: "terminal_receipt_unlocked X self a b (d\<lparr>sd_blocker_strays := s\<rparr>) = terminal_receipt_unlocked X self a b d" for a b
    by (simp add: terminal_receipt_unlocked_def read_applied_def read_pending_def Let_def)
  then show c: "validate_callback_unlocked X self c (d\<lparr>sd_blocker_strays := s\<rparr>) = validate_callback_unlocked X self c d" for c
    by (simp add: validate_callback_with_lock_state_def)
  show "validate_continuation_unlocked X self r (d\<lparr>sd_blocker_strays := s\<rparr>) = validate_continuation_unlocked X self r d"
    by (simp add: validate_continuation_with_lock_state_def validate_continuation_callback_def c)
qed

lemma store_inv_strays [simp]: "store_inv X self (d\<lparr>sd_blocker_strays := s\<rparr>) \<longleftrightarrow> store_inv X self d"
  by (simp add: store_inv_def receipts_inv_def callbacks_inv_def callback_file_ok_def continuations_inv_def
      admissions_inv_def)

section \<open>Runs\<close>

context digest_laws
begin

lemma effects_cut_inv:
  assumes "effects_cut es d d'" "store_inv X self d" "effects_ok X self d es"
  shows "store_inv X self d'"
  using assms by (elim effects_cutE) (auto intro: store_inv_effects effects_ok_take)

lemma store_step_inv:
  assumes "store_inv X self d" "store_step X self c d d'"
  shows "store_inv X self d'"
  using assms(2) call_effects_ok [OF assms(1)] effects_cut_inv [OF _ assms(1)] by (auto elim!: store_stepE)

lemma store_run_inv:
  assumes "store_run X self d cs d'" "store_inv X self d"
  shows "store_inv X self d'"
  using assms store_run_invariant [of X self d cs d' "store_inv X self"] store_step_inv by blast

text \<open>A relation between disks that every allowed effect keeps holds between the ends of a run.\<close>

lemma effects_cut_rel:
  assumes "effects_cut es d d'" "store_inv X self d" "effects_ok X self d es"
    and refl: "\<And>d. R d d" and trans: "\<And>a b c. R a b \<Longrightarrow> R b c \<Longrightarrow> R a c"
    and effect: "\<And>d e. store_inv X self d \<Longrightarrow> effect_ok X self d e \<Longrightarrow> R d (apply_effect e d)"
    and strays: "\<And>d s. R d (d\<lparr>sd_blocker_strays := s\<rparr>)"
  shows "R d d'"
proof -
  have all: "R d (perform es d)" if "store_inv X self d" "effects_ok X self d es" for d es
    using that by (induction es arbitrary: d) (auto intro: refl trans effect store_inv_effect)
  have part: "R d (perform (take k es) d)" for k
    using all [of d "take k es"] assms(2,3) effects_ok_take by blast
  from assms(1) show ?thesis
    by (elim effects_cutE) (auto intro: part trans [OF part strays])
qed

lemma store_run_rel:
  assumes "store_run X self d cs d'" "store_inv X self d"
    and refl: "\<And>d. R d d" and trans: "\<And>a b c. R a b \<Longrightarrow> R b c \<Longrightarrow> R a c"
    and effect: "\<And>d e. store_inv X self d \<Longrightarrow> effect_ok X self d e \<Longrightarrow> R d (apply_effect e d)"
    and strays: "\<And>d s. R d (d\<lparr>sd_blocker_strays := s\<rparr>)"
  shows "R d d'"
  using assms(1,2)
proof (induction rule: store_run.induct)
  case (run_nil d)
  show ?case by (rule refl)
next
  case (run_snoc d cs d' c d'')
  have inv: "store_inv X self d'" using run_snoc.hyps(1) run_snoc.prems by (rule store_run_inv)
  from run_snoc.hyps(2) obtain es where "call_effects X self c d' = Inr es" "effects_cut es d' d''"
    by (auto elim: store_stepE)
  then have "R d' d''"
    using effects_cut_rel [of es d' d'' self R] inv call_effects_ok refl trans effect strays by blast
  with run_snoc show ?case using trans by blast
qed

section \<open>Checks made before the lock\<close>

lemma validations_run:
  assumes "store_run X self d cs d'" "store_inv X self d"
  shows validate_callback_run: "validate_callback_unlocked X self c d = Inr () \<Longrightarrow> validate_callback_unlocked X self c d' = Inr ()"
    and validate_continuation_run: "validate_continuation_unlocked X self r d = Inr () \<Longrightarrow> validate_continuation_unlocked X self r d' = Inr ()"
proof -
  have "(validate_callback_unlocked X self c d = Inr () \<longrightarrow> validate_callback_unlocked X self c d' = Inr ()) \<and>
      (validate_continuation_unlocked X self r d = Inr () \<longrightarrow> validate_continuation_unlocked X self r d' = Inr ())"
    by (rule store_run_rel [OF assms])
      (auto simp: store_inv_def intro: validate_callback_stable validate_continuation_stable)
  then show "validate_callback_unlocked X self c d = Inr () \<Longrightarrow> validate_callback_unlocked X self c d' = Inr ()"
    and "validate_continuation_unlocked X self r d = Inr () \<Longrightarrow> validate_continuation_unlocked X self r d' = Inr ()"
    by blast+
qed

lemma call_checks_run:
  assumes "store_run X self d cs d'" "store_inv X self d" "call_checks X self c d = Inr ()"
  shows "call_checks X self c d' = Inr ()"
  using assms(3) validations_run [OF assms(1,2)]
  by (cases c) (auto simp: publish_callback_checks_def result_simps validate_callback_lock_state [of X self _ False]
      validate_continuation_lock_state [of X self _ False])

lemma interleaved_refines:
  assumes "interleaved_run X self s cs s'" "store_inv X self (fst s)" "snd s = {}"
  shows "store_run X self (fst s) cs (fst s') \<and> (\<forall>c\<in>snd s'. call_checks X self c (fst s') = Inr ())"
  using assms
proof (induction rule: interleaved_run.induct)
  case (i_nil s)
  then show ?case by (simp add: store_run.run_nil)
next
  case (i_check s cs s' s'')
  then show ?case by (auto elim!: interleaved_step.cases)
next
  case (i_lock s cs s' c s'')
  then have run: "store_run X self (fst s) cs (fst s')" and ok: "\<forall>c\<in>snd s'. call_checks X self c (fst s') = Inr ()"
    by auto
  from i_lock.hyps(2) obtain es where c: "c \<in> snd s'" "call_locked X self c (fst s') = Inr es"
      "effects_cut es (fst s') (fst s'')" "snd s'' = snd s'"
    by (auto elim!: interleaved_step.cases)
  then have step: "store_step X self c (fst s') (fst s'')"
    using ok by (auto simp: call_effects_def intro!: store_step.step)
  have "store_inv X self (fst s')" using run i_lock.prems store_run_inv by blast
  then have "\<forall>c\<in>snd s''. call_checks X self c (fst s'') = Inr ()"
    using ok c(4) call_checks_run [OF store_run_single [OF step]] by simp
  with run step show ?case using store_run.run_snoc by blast
qed

end

end
