(* ===== verification/Store_Sequences.thy ===== *)
theory Store_Sequences
  imports Store_Calls
begin

text \<open>
  The sequence numbers of applied receipts. Along a run whose receipt identities have distinct file
  names, the applied receipts of every transaction are numbered 0, 1, 2 and so on without a gap.
\<close>

section \<open>The applied sequence numbers\<close>

definition sequence_of :: "string \<Rightarrow> stored_receipt stored_file \<Rightarrow> u64 option" where
  "sequence_of t f = (case f of
     Record s \<Rightarrow> if tr_transaction_id (sto_receipt s) = t then Some (tr_event_seq (sto_receipt s)) else None
   | Unreadable _ \<Rightarrow> None)"

definition applied_sequences :: "store_disk \<Rightarrow> string \<Rightarrow> u64 list" where
  "applied_sequences d t = List.map_filter (\<lambda>(k, f). sequence_of t f) (sd_applied_receipts d)"

definition key_sequences :: "store_disk \<Rightarrow> string \<Rightarrow> string list \<Rightarrow> u64 list" where
  "key_sequences d t keys = List.map_filter (\<lambda>k. Option.bind (map_of (sd_applied_receipts d) k) (sequence_of t)) keys"

lemma map_filter_mset: "mset (List.map_filter g xs) = image_mset (the \<circ> g) {#x \<in># mset xs. g x \<noteq> None#}"
  by (simp add: map_filter_def mset_filter)

lemma key_sequences_applied:
  assumes "distinct (map fst (sd_applied_receipts d))"
  shows "mset (key_sequences d t (json_files (sd_applied_receipts d))) = mset (applied_sequences d t)"
proof -
  let ?l = "sd_applied_receipts d"
  let ?g = "\<lambda>k. Option.bind (map_of ?l k) (sequence_of t)"
  have "List.map_filter ?g (map fst ?l) = List.map_filter (\<lambda>(k, f). sequence_of t f) ?l"
  proof -
    have "?g (fst p) = sequence_of t (snd p)" if "p \<in> set ?l" for p
      using map_of_is_SomeI [OF assms, of "fst p" "snd p"] that by simp
    then show ?thesis by (auto simp: map_filter_def filter_map comp_def split_def cong: filter_cong)
  qed
  moreover have "mset (json_files ?l) = mset (map fst ?l)" by (simp add: json_files_def)
  ultimately show ?thesis
    by (simp only: key_sequences_def applied_sequences_def map_filter_mset [of ?g "json_files ?l"]
        map_filter_mset [of ?g "map fst ?l", symmetric])
qed

lemma collect_sequences_ok:
  assumes "\<And>k. k \<in> set keys \<Longrightarrow> \<exists>s. read_applied X self d k = Inr s"
    and "distinct (key_sequences d t keys @ acc)"
  shows "\<exists>seqs. collect_sequences X self d t acc keys = Inr seqs \<and> mset seqs = mset (key_sequences d t keys @ acc)"
  using assms
proof (induction keys arbitrary: acc)
  case Nil
  then show ?case by (simp add: key_sequences_def map_filter_simps)
next
  case (Cons k keys)
  from Cons.prems(1) [of k] obtain s where s: "read_applied X self d k = Inr s" by auto
  then have m: "map_of (sd_applied_receipts d) k = Some (Record s)" by (simp add: read_receipt_iff)
  let ?r = "sto_receipt s"
  show ?case
  proof (cases "tr_transaction_id ?r = t")
    case True
    with m have ks: "key_sequences d t (k # keys) = tr_event_seq ?r # key_sequences d t keys"
      by (simp add: key_sequences_def map_filter_simps sequence_of_def)
    with Cons.prems(2) have "distinct (key_sequences d t keys @ tr_event_seq ?r # acc)" by auto
    with Cons.IH [of "tr_event_seq ?r # acc"] Cons.prems obtain seqs where
      "collect_sequences X self d t (tr_event_seq ?r # acc) keys = Inr seqs"
      "mset seqs = mset (key_sequences d t keys @ tr_event_seq ?r # acc)" by auto
    with True s ks Cons.prems(2) show ?thesis by auto
  next
    case False
    with m have "key_sequences d t (k # keys) = key_sequences d t keys"
      by (simp add: key_sequences_def map_filter_simps sequence_of_def)
    with Cons s False show ?thesis by auto
  qed
qed

section \<open>Counting without gaps\<close>

lemma check_gaps_upt:
  "m \<le> n \<Longrightarrow> check_gaps (of_nat m) (map of_nat [m..<n]) = Inr (of_nat n)"
proof (induction "n - m" arbitrary: m)
  case (Suc k)
  then have "m < n" by simp
  then have "[m..<n] = m # [Suc m..<n]" by (simp add: upt_conv_Cons)
  with Suc(1) [of "Suc m"] Suc(2) show ?case by (simp add: add.commute)
qed simp

lemma of_nat_u64_le: "m \<le> n \<Longrightarrow> n < 2 ^ 64 \<Longrightarrow> (of_nat m :: u64) \<le> of_nat n"
  by (simp add: word_le_nat_alt unat_of_nat)

lemma of_nat_u64_inj: "m < 2 ^ 64 \<Longrightarrow> n < 2 ^ 64 \<Longrightarrow> (of_nat m :: u64) = of_nat n \<longleftrightarrow> m = n"
  by (simp add: word_unat_eq_iff unat_of_nat)

lemma sorted_upt_u64: "n \<le> 2 ^ 64 \<Longrightarrow> sorted (map (of_nat :: nat \<Rightarrow> u64) [0..<n])"
  by (auto simp: sorted_iff_nth_mono intro: of_nat_u64_le)

lemma distinct_upt_u64: "n \<le> 2 ^ 64 \<Longrightarrow> distinct (map (of_nat :: nat \<Rightarrow> u64) [0..<n])"
  by (auto simp: distinct_map inj_on_def of_nat_u64_inj)

definition gap_free :: "u64 list \<Rightarrow> bool" where
  "gap_free xs \<longleftrightarrow> mset xs = mset (map of_nat [0..<length xs])"

lemma gap_free_sort:
  assumes "gap_free xs" "length xs \<le> 2 ^ 64"
  shows "sort xs = map of_nat [0..<length xs]" "distinct xs"
proof -
  show "sort xs = map of_nat [0..<length xs]"
    using assms by (intro properties_for_sort) (simp_all add: gap_free_def sorted_upt_u64)
  show "distinct xs"
    using assms distinct_upt_u64 by (metis gap_free_def mset_eq_imp_distinct_iff)
qed

lemma gap_free_snoc: "gap_free xs \<Longrightarrow> gap_free (xs @ [of_nat (length xs)])"
  by (simp add: gap_free_def)

lemma length_applied_sequences: "length (applied_sequences d t) \<le> length (sd_applied_receipts d)"
  by (simp add: applied_sequences_def map_filter_def)

lemma next_sequence_gap_free:
  assumes inv: "receipts_inv X self d" and gf: "gap_free (applied_sequences d t)"
    and bound: "length (sd_applied_receipts d) < 2 ^ 64"
  shows "next_receipt_event_sequence_unlocked X self t d = Inr (of_nat (length (applied_sequences d t)))"
proof -
  let ?keys = "json_files (sd_applied_receipts d)"
  let ?n = "length (applied_sequences d t)"
  have n: "?n \<le> 2 ^ 64" using length_applied_sequences [of d t] bound by simp
  have ms: "mset (key_sequences d t ?keys) = mset (applied_sequences d t)"
    using inv by (intro key_sequences_applied) (simp add: receipts_inv_def)
  have "\<exists>s. read_applied X self d k = Inr s" if "k \<in> set ?keys" for k
    using that inv by (fastforce simp: receipts_inv_def receipt_file_ok_def read_receipt_iff dom_def)
  moreover have "distinct (key_sequences d t ?keys @ [])"
    using gap_free_sort(2) [OF gf n] ms by (metis append_Nil2 mset_eq_imp_distinct_iff)
  ultimately obtain seqs where seqs: "collect_sequences X self d t [] ?keys = Inr seqs"
      "mset seqs = mset (applied_sequences d t)"
    using collect_sequences_ok [of ?keys X self d t "[]"] ms by auto
  then have "sort seqs = map of_nat [0..<?n]"
    using gap_free_sort(1) [OF gf n] by (metis sorted_list_of_multiset_mset)
  with seqs(1) show ?thesis
    using check_gaps_upt [of 0 ?n] by (simp add: next_receipt_event_sequence_unlocked_def)
qed

section \<open>Runs\<close>

definition receipt_identity :: "terminal_receipt \<Rightarrow> string \<times> string" where
  "receipt_identity r = (tr_transaction_id r, tr_event_id r)"

fun call_receipt_identities :: "store_call \<Rightarrow> (string \<times> string) set" where
  "call_receipt_identities (CallWriteReceipt r) = {receipt_identity r}"
| "call_receipt_identities (CallIntake t e) = {(t, e)}"
| "call_receipt_identities _ = {}"

definition run_receipt_identities :: "store_call list \<Rightarrow> (string \<times> string) set" where
  "run_receipt_identities cs = (\<Union>c\<in>set cs. call_receipt_identities c)"

text \<open>No two receipt identities of a run have the same file name.\<close>

definition distinct_keys :: "externals \<Rightarrow> (string \<times> string) set \<Rightarrow> bool" where
  "distinct_keys X I \<longleftrightarrow> inj_on (\<lambda>(t, e). receipt_key X t e) I"

lemma distinct_keys_subset: "distinct_keys X I \<Longrightarrow> J \<subseteq> I \<Longrightarrow> distinct_keys X J"
  unfolding distinct_keys_def by (rule inj_on_subset)

definition sequences_inv :: "externals \<Rightarrow> (string \<times> string) set \<Rightarrow> store_disk \<Rightarrow> bool" where
  "sequences_inv X I d \<longleftrightarrow>
     (\<forall>t. gap_free (applied_sequences d t)) \<and>
     (\<forall>k s. map_of (sd_pending_receipts d) k = Some (Record s) \<longrightarrow> receipt_identity (sto_receipt s) \<in> I)"

fun quiet :: "store_effect \<Rightarrow> bool" where
  "quiet (WritePendingReceipt _ _) = False"
| "quiet (WriteAppliedReceipt _ _) = False"
| "quiet _ = True"

lemma quiet_applied: "quiet e \<Longrightarrow> sd_applied_receipts (apply_effect e d) = sd_applied_receipts d"
  by (cases e) simp_all

lemma quiet_keeps: "quiet e \<Longrightarrow> sequences_inv X I d \<Longrightarrow> sequences_inv X I (apply_effect e d)"
  by (cases e) (auto simp: sequences_inv_def applied_sequences_def split: if_splits)

lemma quiet_keeps_all:
  "\<forall>e\<in>set es. quiet e \<Longrightarrow> sequences_inv X I d \<Longrightarrow> sequences_inv X I (perform es d)"
  by (induction es arbitrary: d) (auto simp: quiet_keeps)

lemma applied_sequences_write:
  assumes "map_of (sd_applied_receipts d) k = None"
  shows "applied_sequences (d\<lparr>sd_applied_receipts := write_file k s (sd_applied_receipts d)\<rparr>) t =
    applied_sequences d t @ (if tr_transaction_id (sto_receipt s) = t then [tr_event_seq (sto_receipt s)] else [])"
proof -
  have "write_file k s l = l @ [(k, Record s)]" if "map_of l k = None" for l :: "stored_receipt directory"
    using that by (induction l) (auto simp: write_file_def split: if_splits)
  then show ?thesis using assms by (simp add: applied_sequences_def map_filter_def sequence_of_def)
qed

text \<open>The writes of receipts, which are the first effect of a call and its only one besides quiet ones.\<close>

lemma call_effects_sequence:
  assumes "call_effects X self c d = Inr es"
  shows "(\<forall>e\<in>set es. quiet e) \<or>
    (\<exists>r. c = CallWriteReceipt r \<and> es = [WritePendingReceipt (receipt_key X (tr_transaction_id r) (tr_event_id r)) (stored_receipt_of X r)]) \<or>
    (\<exists>t e s. c = CallIntake t e \<and> es = [WriteAppliedReceipt (receipt_key X t e) s, RemovePendingReceipt (receipt_key X t e)] \<and>
       map_of (sd_pending_receipts d) (receipt_key X t e) = Some (Record s) \<and>
       map_of (sd_applied_receipts d) (receipt_key X t e) = None \<and>
       next_receipt_event_sequence_unlocked X self t d = Inr (tr_event_seq (sto_receipt s)))"
proof (cases c)
  case (CallWriteReceipt r)
  then show ?thesis using assms
    by (auto simp: call_effects_def effects_of_Inr write_terminal_receipt_def existing_receipt_outcome_def
        result_simps Let_def split: if_splits)
next
  case (CallIntake t e)
  have "quiet v" if "write_blocker_unlocked self b (Some t) (Some e) d = Inr fs" "v \<in> set fs" for b fs v
    using write_blocker_effects [OF that] by auto
  then show ?thesis using assms CallIntake
    by (auto simp: call_effects_def effects_of_Inr intake_def intake_duplicate_def intake_pending_def
        result_simps Let_def exists_file_def read_receipt_iff split: if_splits)
next
  case (CallReclaim t e v)
  have "quiet w" if "write_blocker_unlocked self b (Some t) (Some e) d = Inr fs" "w \<in> set fs" for b fs w
    using write_blocker_effects [OF that] by auto
  then show ?thesis using assms CallReclaim
    by (auto simp: call_effects_def effects_of_Inr reclaim_terminal_slot_def result_simps Let_def
        split: if_splits option.splits)
qed (use assms in \<open>auto simp: call_effects_def effects_of_Inr result_simps Let_def admit_child_def acknowledge_def
    publish_callback_locked_def mark_callback_intaken_def acknowledge_callback_def prepare_callback_continuation_locked_def
    begin_direct_delivery_locked_def settle_direct_delivery_locked_def bind_convergence_proof_locked_def
    transition_continuation_locked_def record_identity_failure_def publish_checkpoint_evidence_def reconcile_checkpoint_def
    split: if_splits option.splits\<close>)

lemma applied_grows: "length (sd_applied_receipts d) \<le> length (sd_applied_receipts (apply_effect e d))"
proof -
  have "length l \<le> length (AList.update k v l)" for k v and l :: "stored_receipt directory"
    by (induction l) auto
  then show ?thesis by (cases e) (simp_all add: write_file_def)
qed

lemma applied_grows_cut: "effects_cut es d d' \<Longrightarrow> length (sd_applied_receipts d) \<le> length (sd_applied_receipts d')"
proof -
  have "length (sd_applied_receipts d) \<le> length (sd_applied_receipts (perform es d))" for es d
    by (induction es arbitrary: d) (auto intro: order_trans applied_grows)
  then show "effects_cut es d d' \<Longrightarrow> length (sd_applied_receipts d) \<le> length (sd_applied_receipts d')"
    by (auto elim!: effects_cutE)
qed

lemma applied_write_keeps:
  assumes inv: "receipts_inv X self d" and seq: "sequences_inv X I d" and keys: "distinct_keys X I"
    and te: "(t, e) \<in> I" and p: "map_of (sd_pending_receipts d) (receipt_key X t e) = Some (Record s)"
    and a: "map_of (sd_applied_receipts d) (receipt_key X t e) = None"
    and nxt: "next_receipt_event_sequence_unlocked X self t d = Inr (tr_event_seq (sto_receipt s))"
    and bound: "length (sd_applied_receipts d) < 2 ^ 64"
  shows "sequences_inv X I (apply_effect (WriteAppliedReceipt (receipt_key X t e) s) d)"
proof -
  let ?r = "sto_receipt s"
  have "receipt_identity ?r \<in> I" using seq p by (auto simp: sequences_inv_def)
  moreover have "receipt_key X (tr_transaction_id ?r) (tr_event_id ?r) = receipt_key X t e"
  proof -
    have "receipt_file_ok X self (receipt_key X t e) (Record s)" using inv p by (simp add: receipts_inv_def)
    then show ?thesis by (auto simp: receipt_file_ok_def)
  qed
  ultimately have "receipt_identity ?r = (t, e)"
    using keys te by (auto simp: distinct_keys_def receipt_identity_def inj_on_def)
  then have t: "tr_transaction_id ?r = t" by (simp add: receipt_identity_def)
  have "tr_event_seq ?r = of_nat (length (applied_sequences d t))"
    using nxt next_sequence_gap_free [OF inv _ bound, of t] seq by (auto simp: sequences_inv_def)
  then show ?thesis using seq t gap_free_snoc [of "applied_sequences d t"]
    by (auto simp: sequences_inv_def applied_sequences_write [OF a])
qed

lemma sequences_inv_strays [simp]: "sequences_inv X I (d\<lparr>sd_blocker_strays := z\<rparr>) = sequences_inv X I d"
  by (simp add: sequences_inv_def applied_sequences_def)

lemma sequences_step:
  assumes inv: "store_inv X self d" and seq: "sequences_inv X I d" and keys: "distinct_keys X I"
    and c: "call_effects X self c d = Inr es" "call_receipt_identities c \<subseteq> I" and cut: "effects_cut es d d'"
    and bound: "length (sd_applied_receipts d') < 2 ^ 64"
  shows "sequences_inv X I d'"
proof -
  have r: "receipts_inv X self d" using inv by (simp add: store_inv_def)
  have b: "length (sd_applied_receipts d) < 2 ^ 64" using applied_grows_cut [OF cut] bound by simp
  consider (quiet) "\<forall>e\<in>set es. quiet e"
    | (recorded) r where "c = CallWriteReceipt r"
        "es = [WritePendingReceipt (receipt_key X (tr_transaction_id r) (tr_event_id r)) (stored_receipt_of X r)]"
    | (taken) t e s where "c = CallIntake t e"
        "es = [WriteAppliedReceipt (receipt_key X t e) s, RemovePendingReceipt (receipt_key X t e)]"
        "map_of (sd_pending_receipts d) (receipt_key X t e) = Some (Record s)"
        "map_of (sd_applied_receipts d) (receipt_key X t e) = None"
        "next_receipt_event_sequence_unlocked X self t d = Inr (tr_event_seq (sto_receipt s))"
    using call_effects_sequence [OF c(1)] by blast
  then show ?thesis
  proof cases
    case quiet
    then have "sequences_inv X I (perform (take k es) d)" for k
      by (intro quiet_keeps_all seq) (auto dest: in_set_takeD)
    with cut show ?thesis by (auto elim!: effects_cutE)
  next
    case recorded
    then have "sequences_inv X I (perform es d)"
      using seq c(2) by (auto simp: sequences_inv_def applied_sequences_def)
    with cut seq recorded show ?thesis
      by (auto elim!: effects_cutE simp: take_Cons' split: if_splits)
  next
    case taken
    then have "sequences_inv X I (apply_effect (hd es) d)"
      using applied_write_keeps [OF r seq keys] c(2) b by simp
    moreover have "sequences_inv X I (perform es d)"
      using calculation taken(2) quiet_keeps [of "es ! 1" X I "apply_effect (hd es) d"] by simp
    ultimately show ?thesis
      using cut seq taken(2)
      by (auto elim!: effects_cutE simp: take_Cons' less_Suc_eq nth_Cons' split: if_splits)
  qed
qed

lemma sequences_inv_empty: "sequences_inv X I empty_disk"
  by (simp add: sequences_inv_def applied_sequences_def empty_disk_def map_filter_simps gap_free_def)

context digest_laws
begin

lemma store_run_sequences:
  assumes "store_run X self d0 cs d" "store_inv X self d0" "sequences_inv X I d0" "distinct_keys X I"
    and "run_receipt_identities cs \<subseteq> I" "length (sd_applied_receipts d) < 2 ^ 64"
  shows "sequences_inv X I d"
  using assms
proof (induction rule: store_run.induct)
  case (run_snoc d0 cs d' c d'')
  have inv: "store_inv X self d'" using run_snoc.hyps(1) run_snoc.prems(1) by (rule store_run_inv)
  from run_snoc.hyps(2) obtain es where es: "call_effects X self c d' = Inr es" "effects_cut es d' d''"
    by (auto elim: store_stepE)
  have ids: "run_receipt_identities cs \<subseteq> I" "call_receipt_identities c \<subseteq> I"
    using run_snoc.prems(4) by (auto simp: run_receipt_identities_def)
  have "length (sd_applied_receipts d') < 2 ^ 64" using applied_grows_cut [OF es(2)] run_snoc.prems(5) by simp
  then have "sequences_inv X I d'" using run_snoc.IH run_snoc.prems(1-3) ids by blast
  then show ?case using sequences_step [OF inv _ run_snoc.prems(3) es(1) ids(2) es(2) run_snoc.prems(5)] by blast
qed

end

end
