(* ===== verification/Store_Delivery.thy ===== *)
theory Store_Delivery
  imports Store_Sequences
begin

text \<open>
  What runs do to single records: which calls write a continuation, what a begun delivery and a completed
  continuation rest on, which files never change again, and what an interrupted intake leaves behind.
\<close>

section \<open>Who writes a continuation\<close>

text \<open>Every call that writes a continuation writes nothing else; only a preparation writes a new one.\<close>

lemma call_effects_continuation:
  assumes "call_effects X self c d = Inr es" "WriteContinuation k r \<in> set es"
  shows "es = [WriteContinuation k r] \<and> (map_of (sd_continuations d) k = None \<longrightarrow> c = CallPrepare r)"
proof -
  have blockers: "WriteContinuation k r \<notin> set fs" if "write_blocker_unlocked self b t e d = Inr fs" for b t e fs
    using write_blocker_effects [OF that] by auto
  show ?thesis
  proof (cases c)
    case (CallBindProof q p)
    with assms show ?thesis
      by (auto simp: call_effects_def effects_of_Inr result_simps bind_convergence_proof_locked_def
          existing_continuation_iff split: if_splits option.splits)
  next
    case (CallTransition q s)
    with assms show ?thesis
      by (auto simp: call_effects_def effects_of_Inr result_simps transition_continuation_locked_def
          existing_continuation_iff split: if_splits)
  qed (use assms blockers in \<open>auto simp: call_effects_def effects_of_Inr result_simps Let_def existing_continuation_iff
      write_terminal_receipt_def existing_receipt_outcome_def intake_def intake_duplicate_def intake_pending_def
      reclaim_terminal_slot_def admit_child_def acknowledge_def publish_callback_locked_def mark_callback_intaken_def
      acknowledge_callback_def prepare_callback_continuation_locked_def begin_direct_delivery_locked_def
      settle_direct_delivery_locked_def record_identity_failure_def publish_checkpoint_evidence_def
      reconcile_checkpoint_def split: if_splits option.splits\<close>)
qed

lemma continuations_other_effect:
  "(\<And>k r. e \<noteq> WriteContinuation k r) \<Longrightarrow> sd_continuations (apply_effect e d) = sd_continuations d"
  by (cases e) auto

lemma continuations_other_effects:
  "(\<And>k r. WriteContinuation k r \<notin> set es) \<Longrightarrow> sd_continuations (perform es d) = sd_continuations d"
proof (induction es arbitrary: d)
  case (Cons e es)
  then have "\<And>k r. WriteContinuation k r \<notin> set es" "\<And>k r. e \<noteq> WriteContinuation k r" by auto
  with Cons.IH show ?case by (simp add: continuations_other_effect)
qed simp

text \<open>What one step of a run does to the continuations.\<close>

lemma store_step_continuations:
  assumes inv: "store_inv X self d" and step: "store_step X self c d d'"
  shows "map_of (sd_continuations d') = map_of (sd_continuations d) \<or>
    (\<exists>k r. map_of (sd_continuations d') = (map_of (sd_continuations d))(k \<mapsto> Record r) \<and>
       (map_of (sd_continuations d) k = None \<and> c = CallPrepare r \<or>
        (\<exists>r0. map_of (sd_continuations d) k = Some (Record r0) \<and> continuation_step X r0 r)))"
proof -
  from step obtain es where es: "call_effects X self c d = Inr es" and cut: "effects_cut es d d'"
    by (auto elim: store_stepE)
  show ?thesis
  proof (cases "\<exists>k r. WriteContinuation k r \<in> set es")
    case True
    then obtain k r where "WriteContinuation k r \<in> set es" by blast
    from call_effects_continuation [OF es this] have w: "es = [WriteContinuation k r]"
      "map_of (sd_continuations d) k = None \<longrightarrow> c = CallPrepare r" by auto
    have "effect_ok X self d (WriteContinuation k r)" using call_effects_ok [OF inv es] w(1) by simp
    then have s: "map_of (sd_continuations d) k = None \<and> c = CallPrepare r \<or>
        (\<exists>r0. map_of (sd_continuations d) k = Some (Record r0) \<and> continuation_step X r0 r)"
      using w(2) by auto
    have "d' = d \<or> d' = perform es d"
      using cut w(1) by (auto elim!: effects_cutE simp: take_Cons' split: if_splits)
    then have "d' = d \<or> map_of (sd_continuations d') = (map_of (sd_continuations d))(k \<mapsto> Record r)"
      using w(1) by auto
    then show ?thesis using s by blast
  next
    case False
    then have "sd_continuations (perform (take n es) d) = sd_continuations d" for n
      by (intro continuations_other_effects) (auto dest: in_set_takeD)
    with cut show ?thesis by (auto elim!: effects_cutE)
  qed
qed

section \<open>A delivery that has begun\<close>

definition begun_at :: "string \<Rightarrow> store_disk \<Rightarrow> bool" where
  "begun_at k d \<longleftrightarrow> (\<exists>r. map_of (sd_continuations d) k = Some (Record r) \<and> cd_state r \<noteq> Prepared)"

lemma continuation_step_begun: "continuation_step X r r' \<Longrightarrow> cd_state r \<noteq> Prepared \<Longrightarrow> cd_state r' \<noteq> Prepared"
  by (erule continuation_stepE) simp_all

lemma begun_at_effect:
  "effect_ok X self d e \<Longrightarrow> begun_at k d \<Longrightarrow> begun_at k (apply_effect e d)"
  by (cases e) (auto simp: begun_at_def dest: continuation_step_begun)

lemma begun_at_strays: "begun_at k (d\<lparr>sd_blocker_strays := s\<rparr>) = begun_at k d"
  by (simp add: begun_at_def)

lemma begin_not_again:
  "begun_at (continuation_key X r) d \<Longrightarrow> begin_callback_continuation_direct_delivery X self r m d \<noteq> Inr (OutPrepared, es)"
  by (auto simp: begun_at_def begin_callback_continuation_direct_delivery_def begin_direct_delivery_locked_def
      result_simps existing_continuation_iff Let_def split: if_splits elim!: continuation_existing_outcome.elims)

lemma begin_begins:
  "begin_callback_continuation_direct_delivery X self r m d = Inr (OutPrepared, es) \<Longrightarrow>
     begun_at (continuation_key X r) (perform es d)"
  by (auto simp: begun_at_def begin_callback_continuation_direct_delivery_def begin_direct_delivery_locked_def
      result_simps existing_continuation_iff Let_def split: if_splits elim!: continuation_existing_outcome.elims)

context digest_laws
begin

lemma begun_at_run:
  assumes "store_run X self d cs d'" "store_inv X self d" "begun_at k d"
  shows "begun_at k d'"
proof -
  have "begun_at k d \<longrightarrow> begun_at k d'"
    by (rule store_run_rel [OF assms(1,2)]) (auto dest: begun_at_effect simp: begun_at_strays)
  with assms(3) show ?thesis by blast
qed

end

section \<open>A completed continuation\<close>

text \<open>
  What completion rests on: the message was delivered under the request's own identity, and the delivery was
  seen by the commander or a proof of convergence bound to this request was recorded.
\<close>

definition completion_grounded :: "externals \<Rightarrow> continuation_dispatch_record \<Rightarrow> bool" where
  "completion_grounded X r \<longleftrightarrow>
     cd_direct_delivery_call_id r = Some (cd_request_id r) \<and> cd_delivered_message_sha256 r \<noteq> None \<and>
     (result_kind_is Reconciled r \<or> (\<exists>p. cd_convergence_proof r = Some p \<and> validate_convergence_proof X r p = Inr ()))"

definition grounded :: "externals \<Rightarrow> store_disk \<Rightarrow> bool" where
  "grounded X d \<longleftrightarrow> (\<forall>k r. map_of (sd_continuations d) k = Some (Record r) \<longrightarrow>
     cd_state r \<in> {DCompleted, DAcknowledged} \<longrightarrow> completion_grounded X r)"

lemma shape_thread: "continuation_shape X self r \<Longrightarrow> cd_commander_thread_id r \<noteq> None"
  by (auto simp: continuation_shape_def validate_continuation_delivery_def result_simps)

lemma shape_delivered:
  assumes "continuation_shape X self r" "cd_state r \<in> {Dispatched, DCompleted, DAcknowledged}"
  shows "cd_direct_delivery_call_id r = Some (cd_request_id r)" "cd_delivered_message_sha256 r \<noteq> None"
  using assms
  by (auto simp: continuation_shape_def validate_direct_delivery_state_def direct_delivery_evidence_valid_def
      result_simps Let_def)

lemma continuation_step_grounded:
  assumes "continuation_step X r r'" "continuation_shape X self r"
    and "cd_state r \<in> {DCompleted, DAcknowledged} \<longrightarrow> completion_grounded X r"
    and "cd_state r' \<in> {DCompleted, DAcknowledged}"
  shows "completion_grounded X r'"
  using assms(1)
proof (cases rule: continuation_step.cases)
  case (proof_bound p)
  then show ?thesis
    using assms(3,4) bound_validations(5) [OF continuation_step_bound [OF assms(1)], of X p]
    by (auto simp: completion_grounded_def result_kind_is_def)
next
  case completed
  have "\<exists>p. cd_convergence_proof r = Some p \<and> validate_convergence_proof X r p = Inr ()"
    if "cd_convergence_proof r \<noteq> None" using that assms(2) by (auto simp: continuation_shape_def)
  then show ?thesis
    using completed shape_thread [OF assms(2)] shape_delivered [OF assms(2)]
      bound_validations(5) [OF continuation_step_bound [OF assms(1)], of X]
    by (auto simp: completion_grounded_def result_kind_is_def)
next
  case acknowledged
  then show ?thesis
    using assms(3) bound_validations(5) [OF continuation_step_bound [OF assms(1)], of X]
    by (auto simp: completion_grounded_def result_kind_is_def)
qed (use assms(4) in auto)

context digest_laws
begin

lemma grounded_step:
  assumes "store_inv X self d" "grounded X d" "store_step X self c d d'"
    and "\<And>r. c = CallPrepare r \<Longrightarrow> cd_state r = Prepared"
  shows "grounded X d'"
proof -
  from store_step_continuations [OF assms(1,3)] consider
      (same) "map_of (sd_continuations d') = map_of (sd_continuations d)"
    | (fresh) k r where "map_of (sd_continuations d') = (map_of (sd_continuations d))(k \<mapsto> Record r)" "c = CallPrepare r"
    | (moved) k r r0 where "map_of (sd_continuations d') = (map_of (sd_continuations d))(k \<mapsto> Record r)"
        "map_of (sd_continuations d) k = Some (Record r0)" "continuation_step X r0 r"
    by blast
  then show ?thesis
  proof cases
    case same
    then show ?thesis using assms(2) by (simp add: grounded_def)
  next
    case fresh
    then show ?thesis using assms(2,4) by (auto simp: grounded_def)
  next
    case moved
    then have "continuation_shape X self r0"
      using assms(1) by (fastforce simp: store_inv_def continuations_inv_def validate_continuation_iff)
    from continuation_step_grounded [OF moved(3) this] have "cd_state r \<in> {DCompleted, DAcknowledged} \<longrightarrow> completion_grounded X r"
      using assms(2) moved(2) by (auto simp: grounded_def)
    then show ?thesis using assms(2) moved(1) by (auto simp: grounded_def)
  qed
qed

lemma grounded_run:
  assumes "store_run X self empty_disk cs d" "\<And>r. CallPrepare r \<in> set cs \<Longrightarrow> cd_state r = Prepared"
  shows "grounded X d"
proof -
  have "store_inv X self d \<and> grounded X d"
  proof (rule store_run_invariant [OF assms(1)])
    show "store_inv X self empty_disk \<and> grounded X empty_disk"
      using store_inv_empty by (simp add: grounded_def empty_disk_def)
    show "store_inv X self d' \<and> grounded X d'"
      if "c \<in> set cs" "store_inv X self d \<and> grounded X d" "store_step X self c d d'" for c d d'
      using that assms(2) store_step_inv grounded_step by blast
  qed
  then show ?thesis by blast
qed

end

section \<open>Files that never change\<close>

definition durable_kept :: "store_disk \<Rightarrow> store_disk \<Rightarrow> bool" where
  "durable_kept d d' \<longleftrightarrow>
     map_of (sd_applied_receipts d) \<subseteq>\<^sub>m map_of (sd_applied_receipts d') \<and>
     map_of (sd_acknowledged_receipts d) \<subseteq>\<^sub>m map_of (sd_acknowledged_receipts d') \<and>
     map_of (sd_admissions d) \<subseteq>\<^sub>m map_of (sd_admissions d') \<and>
     map_of (sd_intaken_callbacks d) \<subseteq>\<^sub>m map_of (sd_intaken_callbacks d') \<and>
     map_of (sd_acknowledged_callbacks d) \<subseteq>\<^sub>m map_of (sd_acknowledged_callbacks d') \<and>
     map_of (sd_released d) \<subseteq>\<^sub>m map_of (sd_released d')"

lemma map_le_update_new: "m k = None \<Longrightarrow> m \<subseteq>\<^sub>m m(k \<mapsto> v)"
  by (auto simp: map_le_def)

lemma durable_kept_refl [simp]: "durable_kept d d"
  by (simp add: durable_kept_def)

lemma durable_kept_trans: "durable_kept a b \<Longrightarrow> durable_kept b c \<Longrightarrow> durable_kept a c"
  by (auto simp: durable_kept_def intro: map_le_trans)

lemma terminal_receipt_strays:
  "terminal_receipt_unlocked X self t e (d\<lparr>sd_blocker_strays := s\<rparr>) = terminal_receipt_unlocked X self t e d"
  by (simp add: terminal_receipt_unlocked_def read_applied_def read_pending_def Let_def)

lemma durable_kept_strays: "durable_kept d (d\<lparr>sd_blocker_strays := s\<rparr>)"
  by (simp add: durable_kept_def)

lemma durable_kept_effect: "effect_ok X self d e \<Longrightarrow> durable_kept d (apply_effect e d)"
  by (cases e) (auto simp: durable_kept_def map_le_update_new simp del: fun_upd_apply)

context digest_laws
begin

lemma durable_kept_run: "store_run X self d cs d' \<Longrightarrow> store_inv X self d \<Longrightarrow> durable_kept d d'"
  by (erule store_run_rel) (auto intro: durable_kept_effect durable_kept_trans durable_kept_strays)

lemma terminal_receipt_run:
  assumes "store_run X self d cs d'" "store_inv X self d" "terminal_receipt_unlocked X self t e d = Inr r"
  shows "terminal_receipt_unlocked X self t e d' = Inr r"
proof -
  have "terminal_receipt_unlocked X self t e d = Inr r \<longrightarrow> terminal_receipt_unlocked X self t e d' = Inr r"
    by (rule store_run_rel [OF assms(1,2)])
      (auto simp: store_inv_def terminal_receipt_strays intro: terminal_receipt_stable)
  with assms(3) show ?thesis by blast
qed

end

end
