(* ===== verification/Store_Replay.thy ===== *)
theory Store_Replay
  imports Store_Sequences
begin

text \<open>
  Restart and replay of receipts: an intake that was cut short is finished by repeating it, replaying the
  pending receipts applies all of them when no sequence number is missing, and the blocker log stays
  unusable once a write to it was cut short.
\<close>

section \<open>Repeating an intake\<close>

lemma intake_AppliedD:
  assumes "intake X self t e d = Inr (IntakeApplied n, es)"
  shows "\<not> blank t" "\<not> blank e"
    "\<exists>s. map_of (sd_pending_receipts d) (receipt_key X t e) = Some (Record s) \<and> s = stored_receipt_of X (sto_receipt s) \<and>
       map_of (sd_applied_receipts d) (receipt_key X t e) = None \<and> n = tr_event_seq (sto_receipt s) \<and>
       es = [WriteAppliedReceipt (receipt_key X t e) s, RemovePendingReceipt (receipt_key X t e)]"
  using assms
  by (auto simp: intake_def intake_duplicate_def intake_pending_def result_simps Let_def exists_file_def read_receipt_iff
      split: if_splits)

lemma intake_restart:
  assumes "intake X self t e d = Inr (IntakeApplied n, es)" "k \<le> length es"
  shows "\<exists>es'. intake X self t e (perform (take k es) d) = Inr (if k = 0 then IntakeApplied n else IntakeDuplicate n, es') \<and>
    perform es' (perform (take k es) d) = perform es d"
proof -
  let ?key = "receipt_key X t e"
  from intake_AppliedD [OF assms(1)] obtain s where s: "map_of (sd_pending_receipts d) ?key = Some (Record s)"
      "s = stored_receipt_of X (sto_receipt s)" "n = tr_event_seq (sto_receipt s)"
      "es = [WriteAppliedReceipt ?key s, RemovePendingReceipt ?key]" and ids: "\<not> blank t" "\<not> blank e"
    by blast
  have dup: "intake X self t e d' = intake_duplicate X self ?key d'"
    if "map_of (sd_applied_receipts d') ?key = Some (Record s)" for d'
    using that ids by (simp add: intake_def Let_def exists_file_def require_identifier_def)
  have read: "read_applied X self d' ?key = Inr s" if "map_of (sd_applied_receipts d') ?key = Some (Record s)" for d'
    using that s(2) by (simp add: read_receipt_iff)
  from assms(2) s(4) consider "k = 0" | "k = 1" | "k = 2" by force
  then show ?thesis
  proof cases
    case 1
    then show ?thesis using assms(1) by simp
  next
    case 2
    let ?d = "apply_effect (WriteAppliedReceipt ?key s) d"
    have a: "map_of (sd_applied_receipts ?d) ?key = Some (Record s)" by simp
    have "read_pending X self ?d ?key = Inr s" using s(1,2) by (simp add: read_receipt_iff)
    then have "intake X self t e ?d = Inr (IntakeDuplicate n, [RemovePendingReceipt ?key])"
      using s(1,3) by (simp add: dup [OF a] intake_duplicate_def read [OF a] exists_file_def del: apply_effect.simps) simp
    then show ?thesis using 2 s(4) by simp
  next
    case 3
    let ?d = "perform es d"
    have a: "map_of (sd_applied_receipts ?d) ?key = Some (Record s)" by (simp add: s(4))
    have "map_of (sd_pending_receipts ?d) ?key = None" by (simp add: s(4))
    then have "intake X self t e ?d = Inr (IntakeDuplicate n, [])"
      using s(3) by (simp add: dup [OF a] intake_duplicate_def read [OF a] exists_file_def)
    then show ?thesis using 3 s(4) by simp
  qed
qed

section \<open>Replaying the pending receipts\<close>

text \<open>The sequence numbers of the receipts of a list that are not applied yet.\<close>

abbreviation key_of :: "externals \<Rightarrow> terminal_receipt \<Rightarrow> string" where
  "key_of X r \<equiv> receipt_key X (tr_transaction_id r) (tr_event_id r)"

definition unapplied :: "externals \<Rightarrow> store_disk \<Rightarrow> string \<Rightarrow> terminal_receipt list \<Rightarrow> u64 list" where
  "unapplied X d t rs = map tr_event_seq
     [r \<leftarrow> rs. tr_transaction_id r = t \<and> map_of (sd_applied_receipts d) (key_of X r) = None]"

lemma sorted_unapplied: "sorted (map tr_event_seq rs) \<Longrightarrow> sorted (unapplied X d t rs)"
  by (simp add: unapplied_def sorted_filter)

lemma gap_free_rest:
  assumes "gap_free a" "gap_free (a @ w)" "sorted w" "length (a @ w) \<le> 2 ^ 64"
  shows "w = map of_nat [length a..<length a + length w]"
proof -
  let ?n = "length a" and ?m = "length w"
  have "mset (map of_nat [0..<?n + ?m] :: u64 list) = mset (map of_nat [0..<?n]) + mset (map of_nat [?n..<?n + ?m])"
    using upt_add_eq_append [of 0 ?n ?m] by simp
  then have "mset w = mset (map of_nat [?n..<?n + ?m])"
    using assms(1,2) by (simp add: gap_free_def)
  moreover have "sorted (map of_nat [?n..<?n + ?m] :: u64 list)"
    using sorted_upt_u64 [of "?n + ?m"] assms(4) upt_add_eq_append [of 0 ?n ?m] by (simp add: sorted_append)
  ultimately show ?thesis using assms(3) by (metis properties_for_sort sorted_sort_id)
qed

definition replayable :: "externals \<Rightarrow> session_lifecycle_store \<Rightarrow> store_disk \<Rightarrow> terminal_receipt list \<Rightarrow> bool" where
  "replayable X self d rs \<longleftrightarrow>
     receipts_inv X self d \<and> sorted (map tr_event_seq rs) \<and> distinct (map (key_of X) rs) \<and>
     dom (map_of (sd_pending_receipts d)) = key_of X ` set rs \<and>
     (\<forall>r\<in>set rs. map_of (sd_pending_receipts d) (key_of X r) = Some (Record (stored_receipt_of X r)) \<and>
        validate_receipt self r = Inr ()) \<and>
     (\<forall>t. gap_free (applied_sequences d t) \<and> gap_free (applied_sequences d t @ unapplied X d t rs)) \<and>
     length (sd_applied_receipts d) + length rs < 2 ^ 64"

lemma validate_receipt_ids: "validate_receipt self r = Inr () \<Longrightarrow> \<not> blank (tr_transaction_id r) \<and> \<not> blank (tr_event_id r)"
  by (auto simp: validate_receipt_def result_simps)

fun settled_outcome :: "intake_outcome \<Rightarrow> bool" where
  "settled_outcome (IntakePending _) = False"
| "settled_outcome _ = True"

lemma unapplied_head:
  assumes "replayable X self d (r # rs)" "map_of (sd_applied_receipts d) (key_of X r) = None"
  shows "tr_event_seq r = of_nat (length (applied_sequences d (tr_transaction_id r)))"
proof -
  let ?t = "tr_transaction_id r" and ?w = "unapplied X d (tr_transaction_id r) (r # rs)"
  have w: "?w = tr_event_seq r # unapplied X d ?t rs" using assms(2) by (simp add: unapplied_def)
  have "length ?w \<le> length (r # rs)" unfolding unapplied_def length_map by (rule length_filter_le)
  then have "length (applied_sequences d ?t @ ?w) \<le> 2 ^ 64"
    using assms(1) length_applied_sequences [of d ?t] by (simp add: replayable_def)
  moreover have "sorted ?w" using assms(1) by (intro sorted_unapplied) (simp add: replayable_def)
  ultimately have "?w = map of_nat [length (applied_sequences d ?t)..<length (applied_sequences d ?t) + length ?w]"
    using assms(1) by (intro gap_free_rest) (auto simp: replayable_def)
  then have "hd ?w = hd (map of_nat [length (applied_sequences d ?t)..<length (applied_sequences d ?t) + length ?w])"
    by simp
  then show ?thesis by (simp add: w upt_rec)
qed

lemma pending_ok:
  assumes "replayable X self d (r # rs)"
  shows "read_pending X self d (key_of X r) = Inr (stored_receipt_of X r)"
  using assms by (simp add: replayable_def read_receipt_iff)

lemma replay_duplicate:
  assumes rep: "replayable X self d (r # rs)" and a: "map_of (sd_applied_receipts d) (key_of X r) \<noteq> None"
  shows "intake X self (tr_transaction_id r) (tr_event_id r) d =
      Inr (IntakeDuplicate (tr_event_seq r), [RemovePendingReceipt (key_of X r)])"
    and "replayable X self (apply_effect (RemovePendingReceipt (key_of X r)) d) rs"
proof -
  let ?s = "Record (stored_receipt_of X r)"
  have p: "map_of (sd_pending_receipts d) (key_of X r) = Some ?s" using rep by (simp add: replayable_def)
  then have m: "map_of (sd_applied_receipts d) (key_of X r) = Some ?s"
    using rep a unfolding replayable_def receipts_inv_def by (metis option.exhaust)
  have ids: "\<not> blank (tr_transaction_id r)" "\<not> blank (tr_event_id r)"
    using rep validate_receipt_ids by (auto simp: replayable_def)
  have "read_applied X self d (key_of X r) = Inr (stored_receipt_of X r)" using m by (simp add: read_receipt_iff)
  then show "intake X self (tr_transaction_id r) (tr_event_id r) d =
      Inr (IntakeDuplicate (tr_event_seq r), [RemovePendingReceipt (key_of X r)])"
    using p m ids pending_ok [OF rep]
    by (simp add: intake_def intake_duplicate_def exists_file_def require_identifier_def Let_def)
  let ?d = "apply_effect (RemovePendingReceipt (key_of X r)) d"
  have "unapplied X ?d t rs = unapplied X d t (r # rs)" for t using m by (simp add: unapplied_def)
  moreover have "receipts_inv X self ?d" using rep m by (intro receipts_inv_effect) (auto simp: replayable_def)
  moreover have "applied_sequences ?d t = applied_sequences d t" for t by (simp add: applied_sequences_def)
  ultimately show "replayable X self ?d rs"
    using rep by (auto simp: replayable_def dom_def image_def split: if_splits)
qed

lemma replay_applied:
  assumes rep: "replayable X self d (r # rs)" and a: "map_of (sd_applied_receipts d) (key_of X r) = None"
  defines "d' \<equiv> perform [WriteAppliedReceipt (key_of X r) (stored_receipt_of X r), RemovePendingReceipt (key_of X r)] d"
  shows "intake X self (tr_transaction_id r) (tr_event_id r) d =
      Inr (IntakeApplied (tr_event_seq r),
        [WriteAppliedReceipt (key_of X r) (stored_receipt_of X r), RemovePendingReceipt (key_of X r)])"
    and "replayable X self d' rs" and "applied_sequences d' t = applied_sequences d t @ (if tr_transaction_id r = t then [tr_event_seq r] else [])"
    and "unapplied X d t (r # rs) = (if tr_transaction_id r = t then [tr_event_seq r] else []) @ unapplied X d' t rs"
proof -
  have p: "map_of (sd_pending_receipts d) (key_of X r) = Some (Record (stored_receipt_of X r))"
    and v: "validate_receipt self r = Inr ()" and bound: "length (sd_applied_receipts d) < 2 ^ 64"
    and inv: "receipts_inv X self d" and gf: "gap_free (applied_sequences d t)" for t
    using rep by (simp_all add: replayable_def)
  have nxt: "next_receipt_event_sequence_unlocked X self (tr_transaction_id r) d = Inr (tr_event_seq r)"
    using next_sequence_gap_free [OF inv gf bound] unapplied_head [OF rep a] by simp
  show "intake X self (tr_transaction_id r) (tr_event_id r) d =
      Inr (IntakeApplied (tr_event_seq r),
        [WriteAppliedReceipt (key_of X r) (stored_receipt_of X r), RemovePendingReceipt (key_of X r)])"
    using p a v nxt validate_receipt_ids [OF v] pending_ok [OF rep]
    by (simp add: intake_def intake_pending_def exists_file_def require_identifier_def Let_def)
  show seqs: "applied_sequences d' t = applied_sequences d t @ (if tr_transaction_id r = t then [tr_event_seq r] else [])" for t
    using applied_sequences_write [OF a, of "stored_receipt_of X r" t] by (simp add: d'_def applied_sequences_def)
  have fresh: "key_of X r \<notin> key_of X ` set rs" using rep by (simp add: replayable_def)
  have keys: "key_of X q \<noteq> key_of X r" if "q \<in> set rs" for q
  proof
    assume "key_of X q = key_of X r"
    with imageI [OF that, of "key_of X"] have "key_of X r \<in> key_of X ` set rs" by simp
    with fresh show False ..
  qed
  show un: "unapplied X d t (r # rs) = (if tr_transaction_id r = t then [tr_event_seq r] else []) @ unapplied X d' t rs" for t
    using a keys by (auto simp: unapplied_def d'_def intro!: arg_cong [where f = "map tr_event_seq"] filter_cong)
  have "receipts_inv X self d'"
    using p a unfolding d'_def perform_simps by (intro receipts_inv_effect inv) simp_all
  moreover have "length (sd_applied_receipts d') \<le> Suc (length (sd_applied_receipts d))"
  proof -
    have "length (AList.update k f l) \<le> Suc (length l)" for k f and l :: "stored_receipt directory"
      by (induction l) auto
    then show ?thesis by (simp add: d'_def write_file_def)
  qed
  moreover have "gap_free (applied_sequences d' t)" for t
    using gf [of t] gap_free_snoc [OF gf, of t] unapplied_head [OF rep a] by (auto simp: seqs)
  moreover have "gap_free (applied_sequences d' t @ unapplied X d' t rs)" for t
  proof -
    have "gap_free (applied_sequences d t @ unapplied X d t (r # rs))" using rep unfolding replayable_def by blast
    then show ?thesis unfolding un seqs by simp
  qed
  moreover have "dom (map_of (sd_pending_receipts d')) = key_of X ` set rs"
    using rep keys by (auto simp: replayable_def d'_def dom_def image_def split: if_splits)
  ultimately show "replayable X self d' rs"
    using rep keys by (auto simp: replayable_def d'_def)
qed

lemma applied_all:
  assumes "map_of d k = None \<or> map_of d k = Some f" "(map_of d)(k \<mapsto> f) \<subseteq>\<^sub>m map_of d'"
  shows "map_of d \<subseteq>\<^sub>m map_of d' \<and> map_of d' k = Some f"
proof -
  have "map_of d \<subseteq>\<^sub>m (map_of d)(k \<mapsto> f)" using assms(1) by (auto simp: map_le_def)
  moreover have "map_of d' k = Some f" using assms(2) by (auto simp: map_le_def dom_def dest: spec [of _ k])
  ultimately show ?thesis using assms(2) map_le_trans by blast
qed

definition replayed :: "externals \<Rightarrow> store_disk \<Rightarrow> terminal_receipt list \<Rightarrow> store_disk \<Rightarrow> bool" where
  "replayed X d rs d' \<longleftrightarrow>
     sd_pending_receipts d' = [] \<and> map_of (sd_applied_receipts d) \<subseteq>\<^sub>m map_of (sd_applied_receipts d') \<and>
     (\<forall>r\<in>set rs. map_of (sd_applied_receipts d') (key_of X r) = Some (Record (stored_receipt_of X r)))"

lemma intake_all_drains:
  assumes "replayable X self d rs"
  shows "\<exists>outs d'. intake_all X self (map receipt_identity rs) d = (Inr outs, d') \<and>
    map (\<lambda>(t, e, out). (t, e)) outs = map receipt_identity rs \<and> (\<forall>(t, e, out)\<in>set outs. settled_outcome out) \<and>
    replayed X d rs d'"
  using assms
proof (induction rs arbitrary: d)
  case Nil
  then show ?case by (simp add: replayable_def replayed_def)
next
  case (Cons r rs)
  let ?f = "Record (stored_receipt_of X r)"
  have p: "map_of (sd_pending_receipts d) (key_of X r) = Some ?f" using Cons.prems by (simp add: replayable_def)
  show ?case
  proof (cases "map_of (sd_applied_receipts d) (key_of X r) = None")
    case True
    let ?d = "perform [WriteAppliedReceipt (key_of X r) (stored_receipt_of X r), RemovePendingReceipt (key_of X r)] d"
    note step = replay_applied [OF Cons.prems True]
    from Cons.IH [OF step(2)] obtain outs d' where ih: "intake_all X self (map receipt_identity rs) ?d = (Inr outs, d')"
      "map (\<lambda>(t, e, out). (t, e)) outs = map receipt_identity rs"
      "\<forall>(t, e, out)\<in>set outs. settled_outcome out" "replayed X ?d rs d'" by blast
    moreover have "replayed X d (r # rs) d'"
      using ih(4) True applied_all [of "sd_applied_receipts d" "key_of X r" ?f "sd_applied_receipts d'"]
      by (simp add: replayed_def)
    ultimately show ?thesis
      by (simp add: step(1) receipt_identity_def [of r] del: perform_simps apply_effect.simps)
  next
    case False
    let ?d = "apply_effect (RemovePendingReceipt (key_of X r)) d"
    note step = replay_duplicate [OF Cons.prems False]
    have "map_of (sd_applied_receipts d) (key_of X r) = Some ?f"
      using False p Cons.prems unfolding replayable_def receipts_inv_def by (metis option.exhaust)
    with Cons.IH [OF step(2)] obtain outs d' where "intake_all X self (map receipt_identity rs) ?d = (Inr outs, d')"
      "map (\<lambda>(t, e, out). (t, e)) outs = map receipt_identity rs"
      "\<forall>(t, e, out)\<in>set outs. settled_outcome out" "replayed X d (r # rs) d'"
      by (fastforce simp: replayed_def map_le_def dom_def)
    then show ?thesis by (simp add: step(1) receipt_identity_def [of r] del: apply_effect.simps) 
  qed
qed

section \<open>All pending receipts\<close>

definition pending_receipts :: "store_disk \<Rightarrow> terminal_receipt list" where
  "pending_receipts d =
     List.map_filter (\<lambda>(k, f). case f of Record s \<Rightarrow> Some (sto_receipt s) | Unreadable _ \<Rightarrow> None) (sd_pending_receipts d)"

lemma try_map_all: "(\<And>x. x \<in> set xs \<Longrightarrow> f x = Inr (g x)) \<Longrightarrow> try_map f xs = Inr (map g xs)"
  by (induction xs) simp_all

definition pending_at :: "store_disk \<Rightarrow> string \<Rightarrow> terminal_receipt" where
  "pending_at d k = (case map_of (sd_pending_receipts d) k of Some (Record s) \<Rightarrow> sto_receipt s)"

lemma pending_file:
  assumes "receipts_inv X self d" "k \<in> fst ` set (sd_pending_receipts d)"
  shows "map_of (sd_pending_receipts d) k = Some (Record (stored_receipt_of X (pending_at d k)))"
    "validate_receipt self (pending_at d k) = Inr ()" "key_of X (pending_at d k) = k"
proof -
  from assms(2) obtain f where "map_of (sd_pending_receipts d) k = Some f"
    by (metis map_of_eq_None_iff not_None_eq)
  moreover from this assms(1) obtain r where "f = Record (stored_receipt_of X r)" "validate_receipt self r = Inr ()" "k = key_of X r"
    by (auto simp: receipts_inv_def receipt_file_ok_def)
  ultimately show "map_of (sd_pending_receipts d) k = Some (Record (stored_receipt_of X (pending_at d k)))"
    "validate_receipt self (pending_at d k) = Inr ()" "key_of X (pending_at d k) = k"
    by (simp_all add: pending_at_def)
qed

lemma pending_receipts_at:
  assumes "receipts_inv X self d" "distinct (map fst (sd_pending_receipts d))"
  shows "pending_receipts d = map (pending_at d) (map fst (sd_pending_receipts d))"
proof -
  have "snd p = Record (stored_receipt_of X (pending_at d (fst p)))" if "p \<in> set (sd_pending_receipts d)" for p
    using pending_file(1) [OF assms(1), of "fst p"] map_of_is_SomeI [OF assms(2), of "fst p" "snd p"] that by simp
  then have "(case p of (k, f) \<Rightarrow> case f of Record s \<Rightarrow> Some (sto_receipt s) | Unreadable _ \<Rightarrow> None) =
      Some (pending_at d (fst p))" if "p \<in> set (sd_pending_receipts d)" for p
    using that by (cases p) fastforce
  then show ?thesis
    unfolding pending_receipts_def by (induction "sd_pending_receipts d" rule: rev_induct) (auto simp: map_filter_def)
qed

lemma mset_unapplied: "mset rs = mset rs' \<Longrightarrow> mset (unapplied X d t rs) = mset (unapplied X d t rs')"
  by (simp add: unapplied_def mset_filter)

lemma gap_free_mset: "mset a = mset b \<Longrightarrow> gap_free a = gap_free b"
  by (metis gap_free_def size_mset)

lemma replay_pending_drains:
  assumes inv: "receipts_inv X self d" and dist: "distinct (map fst (sd_pending_receipts d))"
    and gf: "\<And>t. gap_free (applied_sequences d t)"
    and all: "\<And>t. gap_free (applied_sequences d t @ unapplied X d t (pending_receipts d))"
    and bound: "length (sd_applied_receipts d) + length (sd_pending_receipts d) < 2 ^ 64"
  shows "\<exists>outs d'. replay_pending X self d = (Inr outs, d') \<and>
    mset (map (\<lambda>(t, e, out). (t, e)) outs) = mset (map receipt_identity (pending_receipts d)) \<and>
    (\<forall>(t, e, out)\<in>set outs. settled_outcome out) \<and> replayed X d (pending_receipts d) d'"
proof -
  let ?keys = "map fst (sd_pending_receipts d)"
  let ?rs = "sort_key tr_event_seq (map (pending_at d) (json_files (sd_pending_receipts d)))"
  have perm: "mset ?rs = mset (pending_receipts d)"
    by (simp add: pending_receipts_at [OF inv dist] json_files_def multiset.map_comp)
  have "read_pending X self d k = Inr (stored_receipt_of X (pending_at d k))"
    if "k \<in> set (json_files (sd_pending_receipts d))" for k
    using pending_file(1) [OF inv, of k] that by (simp add: read_receipt_iff json_files_def)
  from try_map_all [OF this] have stored:
    "try_map (read_pending X self d) (json_files (sd_pending_receipts d)) =
       Inr (map (\<lambda>k. stored_receipt_of X (pending_at d k)) (json_files (sd_pending_receipts d)))" .
  have "replayable X self d ?rs"
    unfolding replayable_def
  proof (intro conjI allI ballI)
    have keys: "map (key_of X) (map (pending_at d) ?keys) = ?keys"
      by (simp add: pending_file(3) [OF inv] cong: map_cong)
    have "mset (map (key_of X) ?rs) = mset (map (key_of X) (map (pending_at d) ?keys))"
      by (simp add: json_files_def multiset.map_comp comp_assoc)
    then show "distinct (map (key_of X) ?rs)" using dist unfolding keys by (metis mset_eq_imp_distinct_iff)
    show "dom (map_of (sd_pending_receipts d)) = key_of X ` set ?rs"
      by (force simp: json_files_def dom_map_of_conv_image_fst image_image pending_file(3) [OF inv])
    show "gap_free (applied_sequences d t @ unapplied X d t ?rs)" for t
      using all [of t] gap_free_mset [of "applied_sequences d t @ unapplied X d t ?rs"
          "applied_sequences d t @ unapplied X d t (pending_receipts d)"] mset_unapplied [OF perm, of X d t]
      by simp
    fix r assume "r \<in> set ?rs"
    then obtain k where "k \<in> fst ` set (sd_pending_receipts d)" "r = pending_at d k" by (auto simp: json_files_def)
    with pending_file [OF inv this(1)] show "map_of (sd_pending_receipts d) (key_of X r) = Some (Record (stored_receipt_of X r))"
      "validate_receipt self r = Inr ()" by simp_all
  next
    show "length (sd_applied_receipts d) + length ?rs < 2 ^ 64" using bound by (simp add: json_files_def)
  qed (use inv gf in simp_all)
  from intake_all_drains [OF this] obtain outs d' where o: "intake_all X self (map receipt_identity ?rs) d = (Inr outs, d')"
    "map (\<lambda>(t, e, out). (t, e)) outs = map receipt_identity ?rs" "\<forall>(t, e, out)\<in>set outs. settled_outcome out" "replayed X d ?rs d'"
    by blast
  have "replay_pending X self d = (Inr outs, d')"
    using o(1) by (simp add: replay_pending_def stored receipt_identity_def [abs_def] comp_def)
  moreover have "mset (map (\<lambda>(t, e, out). (t, e)) outs) = mset (map receipt_identity (pending_receipts d))"
    using o(2) perm by (metis mset_map)
  moreover have "replayed X d (pending_receipts d) d'"
    using o(4) perm by (metis replayed_def set_mset_mset)
  ultimately show ?thesis using o(3) by blast
qed

lemma pending_distinct_run:
  assumes "store_run X self d cs d'" "distinct (map fst (sd_pending_receipts d))"
  shows "distinct (map fst (sd_pending_receipts d'))"
proof (rule store_run_invariant [where Q = "\<lambda>d. distinct (map fst (sd_pending_receipts d))", OF assms])
  have "distinct (map fst (sd_pending_receipts (apply_effect e d)))" if "distinct (map fst (sd_pending_receipts d))" for e d
    using that by (cases e) simp_all
  then have "distinct (map fst (sd_pending_receipts (perform es d)))" if "distinct (map fst (sd_pending_receipts d))" for es d
    using that by (induction es arbitrary: d) simp_all
  then show "distinct (map fst (sd_pending_receipts d'))"
    if "distinct (map fst (sd_pending_receipts d))" "store_step X self c d d'" for c d d'
    using that by (auto elim!: store_stepE effects_cutE)
qed

section \<open>The blocker log\<close>

definition blocker_log_broken :: "store_disk \<Rightarrow> bool" where
  "blocker_log_broken d \<longleftrightarrow> sd_last_blocker d = None \<and> (sd_blockers d \<noteq> [] \<or> sd_blocker_strays d \<noteq> [])"

lemma broken_log_refuses:
  "blocker_log_broken d \<Longrightarrow> write_blocker_unlocked self b t e d =
     Inl (blocker ''BLOCKER_HIGH_WATER_MISSING'' (path_join (st_root self) ''blockers''))"
  by (simp add: blocker_log_broken_def write_blocker_unlocked_def read_last_blocker_def)

fun touches_blockers :: "store_effect \<Rightarrow> bool" where
  "touches_blockers (WriteBlocker _ _) = True"
| "touches_blockers (WriteLastBlocker _) = True"
| "touches_blockers _ = False"

lemma broken_log_untouched:
  assumes "blocker_log_broken d" "call_effects X self c d = Inr es" "e \<in> set es"
  shows "\<not> touches_blockers e"
proof (cases c)
  case (CallIntake t v)
  with assms show ?thesis
    by (auto simp: call_effects_def effects_of_Inr intake_def intake_duplicate_def intake_pending_def result_simps Let_def
        broken_log_refuses split: if_splits)
next
  case (CallReclaim t v w)
  with assms show ?thesis
    by (auto simp: call_effects_def effects_of_Inr reclaim_terminal_slot_def result_simps Let_def
        broken_log_refuses split: if_splits option.splits)
qed (use assms in \<open>auto simp: call_effects_def effects_of_Inr result_simps Let_def write_terminal_receipt_def
    existing_receipt_outcome_def admit_child_def acknowledge_def
    publish_callback_locked_def mark_callback_intaken_def acknowledge_callback_def prepare_callback_continuation_locked_def
    begin_direct_delivery_locked_def settle_direct_delivery_locked_def bind_convergence_proof_locked_def
    transition_continuation_locked_def record_identity_failure_def publish_checkpoint_evidence_def reconcile_checkpoint_def
    split: if_splits option.splits\<close>)

lemma broken_log_effect: "\<not> touches_blockers e \<Longrightarrow> blocker_log_broken d \<Longrightarrow> blocker_log_broken (apply_effect e d)"
  by (cases e) (simp_all add: blocker_log_broken_def)

lemma broken_log_run:
  assumes "store_run X self d cs d'" "blocker_log_broken d"
  shows "blocker_log_broken d'"
proof (rule store_run_invariant [where Q = blocker_log_broken, OF assms])
  fix c d d'
  assume broken: "blocker_log_broken d" and "store_step X self c d d'"
  then obtain es where es: "call_effects X self c d = Inr es" "effects_cut es d d'" by (auto elim: store_stepE)
  have "blocker_log_broken (perform fs d)" if "blocker_log_broken d" "\<forall>e\<in>set fs. \<not> touches_blockers e" for fs d
    using that by (induction fs arbitrary: d) (simp_all add: broken_log_effect)
  then have "blocker_log_broken (perform (take k es) d)" for k
    using broken broken_log_untouched [OF broken es(1)] by (meson in_set_takeD)
  with es(2) show "blocker_log_broken d'" by (auto elim!: effects_cutE simp: blocker_log_broken_def)
qed

end
