(* ===== verification/Store_Projection.thy ===== *)
theory Store_Projection
  imports Store_Checkpoints
begin

text \<open>
  The read-only views of the store: the counters of \<open>readback\<close> and the control deck projection, which shows
  every record by its identities and digests. A \<open>BTreeMap\<close> is a list of entries with distinct keys; its values
  are taken in key order.
\<close>

section \<open>Readback\<close>

fun event_kind_text :: "checkpoint_event_kind \<Rightarrow> string" where
  "event_kind_text CloseWrite = ''close_write''"
| "event_kind_text ModifyEvent = ''modify''"
| "event_kind_text WatchdogReconcile = ''watchdog_reconcile''"

fun nullable :: "string option \<Rightarrow> json" where
  "nullable None = JNull"
| "nullable (Some s) = JString s"

definition blocker_to_value :: "blocker_record \<Rightarrow> json" where
  "blocker_to_value b = JObject
     [(''schema_version'', JString (br_schema_version b)), (''sequence'', json_u64 (br_sequence b)),
      (''code'', JString (br_code b)), (''detail'', JString (br_detail b)),
      (''commander_session_id'', JString (br_commander_session_id b)),
      (''transaction_id'', nullable (br_transaction_id b)), (''event_id'', nullable (br_event_id b))]"

definition reconcile_to_value :: "reconcile_record \<Rightarrow> json" where
  "reconcile_to_value r = JObject
     [(''schema_version'', JString (rr_schema_version r)), (''source'', JString (event_kind_text (rr_source r))),
      (''commander_session_id'', JString (rr_commander_session_id r)), (''checkpoint_id'', JString (rr_checkpoint_id r)),
      (''blocker'', nullable (rr_blocker r))]"

text \<open>A file that is not there is no value; one that cannot be read is a blocker.\<close>

definition read_optional_value :: "('a \<Rightarrow> 'b) \<Rightarrow> 'a stored_file option \<Rightarrow> 'b option lifecycle_result" where
  "read_optional_value encode f =
     (case f of None \<Rightarrow> Inr None | Some _ \<Rightarrow> and_then (read_file f) (\<lambda>r. Inr (Some (encode r))))"

record lifecycle_readback =
  lr_commander_session_id :: string
  lr_primary_trigger :: string
  lr_watchdog_interval_secs :: u64
  lr_pending_receipts :: nat
  lr_applied_receipts :: nat
  lr_acknowledged_receipts :: nat
  lr_pending_callbacks :: nat
  lr_intaken_callbacks :: nat
  lr_acknowledged_callbacks :: nat
  lr_released_slots :: nat
  lr_last_reconcile :: "json option"
  lr_last_blocker :: "json option"

definition readback :: "session_lifecycle_store \<Rightarrow> store_disk \<Rightarrow> lifecycle_readback lifecycle_result" where
  "readback self d =
     and_then (read_optional_value reconcile_to_value (sd_last_reconcile d)) (\<lambda>last_reconcile.
     and_then (read_optional_value blocker_to_value (sd_last_blocker d)) (\<lambda>last_blocker.
     Inr \<lparr>lr_commander_session_id = st_commander_session_id self, lr_primary_trigger = ''native_checkpoint_event'',
        lr_watchdog_interval_secs = lc_watchdog_interval_secs (st_config self),
        lr_pending_receipts = length (json_files (sd_pending_receipts d)),
        lr_applied_receipts = length (json_files (sd_applied_receipts d)),
        lr_acknowledged_receipts = length (json_files (sd_acknowledged_receipts d)),
        lr_pending_callbacks = length (json_files (sd_pending_callbacks d)),
        lr_intaken_callbacks = length (json_files (sd_intaken_callbacks d)),
        lr_acknowledged_callbacks = length (json_files (sd_acknowledged_callbacks d)),
        lr_released_slots = length (json_files (sd_released d)),
        lr_last_reconcile = last_reconcile, lr_last_blocker = last_blocker\<rparr>))"

section \<open>Projected records\<close>

datatype lifecycle_record_stage = StPending | StApplied | StIntaken | StAcknowledged

fun stage_text :: "lifecycle_record_stage \<Rightarrow> string" where
  "stage_text StPending = ''pending''"
| "stage_text StApplied = ''applied''"
| "stage_text StIntaken = ''intaken''"
| "stage_text StAcknowledged = ''acknowledged''"

record lifecycle_receipt_projection =
  rp_stage :: lifecycle_record_stage
  rp_payload_sha256 :: string
  rp_transaction_id :: string
  rp_event_id :: string
  rp_event_seq :: u64
  rp_child_session_id :: string
  rp_runtime_id :: string
  rp_lease_id :: string
  rp_terminal_state :: terminal_state
  rp_finished_at_ms :: int
  rp_task_id :: "string option"
  rp_goal_id :: "string option"
  rp_history_readable :: bool
  rp_follow_up_capable :: bool
  rp_delivery_id :: "string option"

definition receipt_projection :: "lifecycle_record_stage \<Rightarrow> stored_receipt \<Rightarrow> lifecycle_receipt_projection" where
  "receipt_projection stage s =
     (let r = sto_receipt s
      in \<lparr>rp_stage = stage, rp_payload_sha256 = sto_payload_sha256 s, rp_transaction_id = tr_transaction_id r,
          rp_event_id = tr_event_id r, rp_event_seq = tr_event_seq r, rp_child_session_id = tr_child_session_id r,
          rp_runtime_id = tr_runtime_id r, rp_lease_id = tr_lease_id r, rp_terminal_state = tr_terminal_state r,
          rp_finished_at_ms = tr_finished_at_ms r, rp_task_id = tr_task_id r, rp_goal_id = tr_goal_id r,
          rp_history_readable = tr_history_readable r, rp_follow_up_capable = tr_follow_up_capable r,
          rp_delivery_id = None\<rparr>)"

definition receipt_projection_to_value :: "lifecycle_receipt_projection \<Rightarrow> json" where
  "receipt_projection_to_value p = JObject
     ([(''stage'', JString (stage_text (rp_stage p))), (''payload_sha256'', JString (rp_payload_sha256 p)),
       (''transaction_id'', JString (rp_transaction_id p)), (''event_id'', JString (rp_event_id p)),
       (''event_seq'', json_u64 (rp_event_seq p)), (''child_session_id'', JString (rp_child_session_id p)),
       (''runtime_id'', JString (rp_runtime_id p)), (''lease_id'', JString (rp_lease_id p)),
       (''terminal_state'', JString (terminal_state_text (rp_terminal_state p))),
       (''finished_at_ms'', json_i64 (rp_finished_at_ms p))] @
      some_field ''task_id'' (rp_task_id p) @ some_field ''goal_id'' (rp_goal_id p) @
      [(''history_readable'', JBool (rp_history_readable p)), (''follow_up_capable'', JBool (rp_follow_up_capable p))] @
      some_field ''delivery_id'' (rp_delivery_id p))"

record lifecycle_callback_projection =
  cj_stage :: lifecycle_record_stage
  cj_transaction_id :: string
  cj_event_id :: string
  cj_child_session_id :: string
  cj_runtime_id :: string
  cj_lease_id :: string
  cj_terminal_receipt_sha256 :: string
  cj_terminal_state :: terminal_state
  cj_callback_payload_sha256 :: string
  cj_transport_payload_sha256 :: string
  cj_parent_mission_revision_sha256 :: string
  cj_commander_thread_id :: "string option"
  cj_callback_delivery_route :: "callback_delivery_route option"
  cj_delegated_input_sha256 :: string
  cj_effect_kind :: string
  cj_effect_identity_sha256 :: string

definition projected_effect_identity :: "externals \<Rightarrow> callback_effect_identity \<Rightarrow> string \<times> string" where
  "projected_effect_identity X effect = (effect_kind effect, canonical_value_sha256 X (effect_to_value effect))"

definition callback_projection ::
  "externals \<Rightarrow> lifecycle_record_stage \<Rightarrow> durable_callback_record \<Rightarrow> lifecycle_callback_projection" where
  "callback_projection X stage c =
     (let (kind, effect_sha) = projected_effect_identity X (cb_effect_identity c)
      in \<lparr>cj_stage = stage, cj_transaction_id = cb_transaction_id c, cj_event_id = cb_event_id c,
          cj_child_session_id = cb_child_session_id c, cj_runtime_id = cb_runtime_id c, cj_lease_id = cb_lease_id c,
          cj_terminal_receipt_sha256 = cb_terminal_receipt_sha256 c, cj_terminal_state = cb_terminal_state c,
          cj_callback_payload_sha256 = cb_callback_payload_sha256 c,
          cj_transport_payload_sha256 = cb_transport_payload_sha256 c,
          cj_parent_mission_revision_sha256 = cb_parent_mission_revision_sha256 c,
          cj_commander_thread_id = cb_commander_thread_id c, cj_callback_delivery_route = cb_callback_delivery_route c,
          cj_delegated_input_sha256 = cb_delegated_input_sha256 c,
          cj_effect_kind = kind, cj_effect_identity_sha256 = effect_sha\<rparr>)"

definition route_field :: "callback_delivery_route option \<Rightarrow> (string \<times> json) list" where
  "route_field route = (case route of None \<Rightarrow> [] | Some r \<Rightarrow> [(''callback_delivery_route'', route_to_value r)])"

definition callback_projection_to_value :: "lifecycle_callback_projection \<Rightarrow> json" where
  "callback_projection_to_value p = JObject
     ([(''stage'', JString (stage_text (cj_stage p))), (''transaction_id'', JString (cj_transaction_id p)),
       (''event_id'', JString (cj_event_id p)), (''child_session_id'', JString (cj_child_session_id p)),
       (''runtime_id'', JString (cj_runtime_id p)), (''lease_id'', JString (cj_lease_id p)),
       (''terminal_receipt_sha256'', JString (cj_terminal_receipt_sha256 p)),
       (''terminal_state'', JString (terminal_state_text (cj_terminal_state p))),
       (''callback_payload_sha256'', JString (cj_callback_payload_sha256 p)),
       (''transport_payload_sha256'', JString (cj_transport_payload_sha256 p)),
       (''parent_mission_revision_sha256'', JString (cj_parent_mission_revision_sha256 p))] @
      some_field ''commander_thread_id'' (cj_commander_thread_id p) @ route_field (cj_callback_delivery_route p) @
      [(''delegated_input_sha256'', JString (cj_delegated_input_sha256 p)), (''effect_kind'', JString (cj_effect_kind p)),
       (''effect_identity_sha256'', JString (cj_effect_identity_sha256 p))])"

record lifecycle_continuation_projection =
  np_request_id :: string
  np_runtime_id :: string
  np_lease_id :: string
  np_child_session_id :: string
  np_child_transaction_id :: string
  np_child_event_id :: string
  np_child_runtime_id :: string
  np_callback_payload_sha256 :: string
  np_parent_mission_revision_sha256 :: string
  np_commander_thread_id :: "string option"
  np_callback_delivery_route :: "callback_delivery_route option"
  np_delegated_input_sha256 :: string
  np_effect_kind :: string
  np_effect_identity_sha256 :: string
  np_requested_action :: string
  np_state :: continuation_dispatch_state
  np_direct_delivery_call_id :: "string option"
  np_delivered_message_sha256 :: "string option"
  np_direct_delivery_result_kind :: "direct_delivery_result_kind option"
  np_direct_delivery_result_evidence_sha256 :: "string option"
  np_convergence_proof_sha256 :: "string option"

definition continuation_projection ::
  "externals \<Rightarrow> continuation_dispatch_record \<Rightarrow> lifecycle_continuation_projection" where
  "continuation_projection X r =
     (let (kind, effect_sha) = projected_effect_identity X (cd_effect_identity r)
      in \<lparr>np_request_id = cd_request_id r, np_runtime_id = cd_runtime_id r, np_lease_id = cd_lease_id r,
          np_child_session_id = cd_child_session_id r, np_child_transaction_id = cd_child_transaction_id r,
          np_child_event_id = cd_child_event_id r, np_child_runtime_id = cd_child_runtime_id r,
          np_callback_payload_sha256 = cd_callback_payload_sha256 r,
          np_parent_mission_revision_sha256 = cd_parent_mission_revision_sha256 r,
          np_commander_thread_id = cd_commander_thread_id r, np_callback_delivery_route = cd_callback_delivery_route r,
          np_delegated_input_sha256 = cd_delegated_input_sha256 r, np_effect_kind = kind,
          np_effect_identity_sha256 = effect_sha, np_requested_action = cd_requested_action r, np_state = cd_state r,
          np_direct_delivery_call_id = cd_direct_delivery_call_id r,
          np_delivered_message_sha256 = cd_delivered_message_sha256 r,
          np_direct_delivery_result_kind = map_option de_kind (cd_direct_delivery_result r),
          np_direct_delivery_result_evidence_sha256 = map_option de_evidence_sha256 (cd_direct_delivery_result r),
          np_convergence_proof_sha256 =
            map_option (\<lambda>p. canonical_value_sha256 X (proof_to_value p)) (cd_convergence_proof r)\<rparr>)"

fun dispatch_state_text :: "continuation_dispatch_state \<Rightarrow> string" where
  "dispatch_state_text Prepared = ''prepared''"
| "dispatch_state_text DeliveryUnsettled = ''delivery_unsettled''"
| "dispatch_state_text Dispatched = ''dispatched''"
| "dispatch_state_text DCompleted = ''completed''"
| "dispatch_state_text DAcknowledged = ''acknowledged''"

fun delivery_kind_text :: "direct_delivery_result_kind \<Rightarrow> string" where
  "delivery_kind_text Accepted = ''accepted''"
| "delivery_kind_text Reconciled = ''reconciled''"

definition continuation_projection_to_value :: "lifecycle_continuation_projection \<Rightarrow> json" where
  "continuation_projection_to_value p = JObject
     ([(''request_id'', JString (np_request_id p)), (''runtime_id'', JString (np_runtime_id p)),
       (''lease_id'', JString (np_lease_id p)), (''child_session_id'', JString (np_child_session_id p)),
       (''child_transaction_id'', JString (np_child_transaction_id p)), (''child_event_id'', JString (np_child_event_id p)),
       (''child_runtime_id'', JString (np_child_runtime_id p)),
       (''callback_payload_sha256'', JString (np_callback_payload_sha256 p)),
       (''parent_mission_revision_sha256'', JString (np_parent_mission_revision_sha256 p))] @
      some_field ''commander_thread_id'' (np_commander_thread_id p) @ route_field (np_callback_delivery_route p) @
      [(''delegated_input_sha256'', JString (np_delegated_input_sha256 p)), (''effect_kind'', JString (np_effect_kind p)),
       (''effect_identity_sha256'', JString (np_effect_identity_sha256 p)),
       (''requested_action'', JString (np_requested_action p)), (''state'', JString (dispatch_state_text (np_state p)))] @
      some_field ''direct_delivery_call_id'' (np_direct_delivery_call_id p) @
      some_field ''delivered_message_sha256'' (np_delivered_message_sha256 p) @
      some_field ''direct_delivery_result_kind'' (map_option delivery_kind_text (np_direct_delivery_result_kind p)) @
      some_field ''direct_delivery_result_evidence_sha256'' (np_direct_delivery_result_evidence_sha256 p) @
      some_field ''convergence_proof_sha256'' (np_convergence_proof_sha256 p))"

record lifecycle_blocker_projection =
  bp_sequence :: u64
  bp_code :: string
  bp_detail_sha256 :: string
  bp_transaction_id :: "string option"
  bp_event_id :: "string option"

definition blocker_projection :: "externals \<Rightarrow> blocker_record \<Rightarrow> lifecycle_blocker_projection" where
  "blocker_projection X b =
     \<lparr>bp_sequence = br_sequence b, bp_code = br_code b,
      bp_detail_sha256 = canonical_value_sha256 X (JString (br_detail b)),
      bp_transaction_id = br_transaction_id b, bp_event_id = br_event_id b\<rparr>"

definition blocker_projection_to_value :: "lifecycle_blocker_projection \<Rightarrow> json" where
  "blocker_projection_to_value b = JObject
     ([(''sequence'', json_u64 (bp_sequence b)), (''code'', JString (bp_code b)),
       (''detail_sha256'', JString (bp_detail_sha256 b))] @
      some_field ''transaction_id'' (bp_transaction_id b) @ some_field ''event_id'' (bp_event_id b))"

record child_ready_set_identity_projection =
  rj_schema_version :: string
  rj_mission_id :: string
  rj_task_id :: string
  rj_semantic_dispatch_key :: string
  rj_parent_task_plan_sha256 :: string
  rj_task_scheduling_contract_sha256 :: string
  rj_scope_claim_sha256 :: string
  rj_task_context_capsule_semantic_sha256 :: string

definition ready_identity_projection :: "child_ready_set_identity \<Rightarrow> child_ready_set_identity_projection" where
  "ready_identity_projection i =
     \<lparr>rj_schema_version = ri_schema_version i, rj_mission_id = ri_mission_id i, rj_task_id = ri_task_id i,
      rj_semantic_dispatch_key = ri_semantic_dispatch_key i, rj_parent_task_plan_sha256 = ri_parent_task_plan_sha256 i,
      rj_task_scheduling_contract_sha256 = ri_task_scheduling_contract_sha256 i,
      rj_scope_claim_sha256 = ri_scope_claim_sha256 i,
      rj_task_context_capsule_semantic_sha256 = ri_task_context_capsule_semantic_sha256 i\<rparr>"

definition ready_identity_projection_to_value :: "child_ready_set_identity_projection \<Rightarrow> json" where
  "ready_identity_projection_to_value i = JObject
     [(''schema_version'', JString (rj_schema_version i)), (''mission_id'', JString (rj_mission_id i)),
      (''task_id'', JString (rj_task_id i)), (''semantic_dispatch_key'', JString (rj_semantic_dispatch_key i)),
      (''parent_task_plan_sha256'', JString (rj_parent_task_plan_sha256 i)),
      (''task_scheduling_contract_sha256'', JString (rj_task_scheduling_contract_sha256 i)),
      (''scope_claim_sha256'', JString (rj_scope_claim_sha256 i)),
      (''task_context_capsule_semantic_sha256'', JString (rj_task_context_capsule_semantic_sha256 i))]"

record lifecycle_admission_projection =
  ap_parent_session_id :: string
  ap_parent_mission_revision_sha256 :: string
  ap_commander_thread_id :: "string option"
  ap_callback_delivery_route :: "callback_delivery_route option"
  ap_child_session_id :: string
  ap_child_runtime_id :: string
  ap_child_transaction_id :: string
  ap_child_lease_id :: string
  ap_callback_request_id :: string
  ap_effect_id :: string
  ap_delegated_input_sha256 :: string
  ap_execution_payload_sha256 :: string
  ap_ready_set_identity :: "child_ready_set_identity_projection option"
  ap_session_directory_sha256 :: string
  ap_session_name_sha256 :: string
  ap_created_at_ms :: int

definition admission_projection :: "externals \<Rightarrow> child_admission_record \<Rightarrow> lifecycle_admission_projection" where
  "admission_projection X a =
     \<lparr>ap_parent_session_id = ca_parent_session_id a,
      ap_parent_mission_revision_sha256 = ca_parent_mission_revision_sha256 a,
      ap_commander_thread_id = ca_commander_thread_id a, ap_callback_delivery_route = ca_callback_delivery_route a,
      ap_child_session_id = ca_child_session_id a, ap_child_runtime_id = ca_child_runtime_id a,
      ap_child_transaction_id = ca_child_transaction_id a, ap_child_lease_id = ca_child_lease_id a,
      ap_callback_request_id = ca_callback_request_id a, ap_effect_id = ca_effect_id a,
      ap_delegated_input_sha256 = ca_delegated_input_sha256 a,
      ap_execution_payload_sha256 = ca_execution_payload_sha256 a,
      ap_ready_set_identity = map_option ready_identity_projection (ca_ready_set_identity a),
      ap_session_directory_sha256 = sha256_hex X (ca_session_directory a),
      ap_session_name_sha256 = sha256_hex X (ca_session_name a), ap_created_at_ms = ca_created_at_ms a\<rparr>"

definition admission_projection_to_value :: "lifecycle_admission_projection \<Rightarrow> json" where
  "admission_projection_to_value a = JObject
     ([(''parent_session_id'', JString (ap_parent_session_id a)),
       (''parent_mission_revision_sha256'', JString (ap_parent_mission_revision_sha256 a))] @
      some_field ''commander_thread_id'' (ap_commander_thread_id a) @ route_field (ap_callback_delivery_route a) @
      [(''child_session_id'', JString (ap_child_session_id a)), (''child_runtime_id'', JString (ap_child_runtime_id a)),
       (''child_transaction_id'', JString (ap_child_transaction_id a)), (''child_lease_id'', JString (ap_child_lease_id a)),
       (''callback_request_id'', JString (ap_callback_request_id a)), (''effect_id'', JString (ap_effect_id a)),
       (''delegated_input_sha256'', JString (ap_delegated_input_sha256 a)),
       (''execution_payload_sha256'', JString (ap_execution_payload_sha256 a))] @
      (case ap_ready_set_identity a of None \<Rightarrow> []
       | Some i \<Rightarrow> [(''ready_set_identity'', ready_identity_projection_to_value i)]) @
      [(''session_directory_sha256'', JString (ap_session_directory_sha256 a)),
       (''session_name_sha256'', JString (ap_session_name_sha256 a)), (''created_at_ms'', json_i64 (ap_created_at_ms a))])"

section \<open>The control deck\<close>

type_synonym 'p projection_index = "((string \<times> string) \<times> 'p) list"

definition index_values :: "'p projection_index \<Rightarrow> 'p list" where
  "index_values m = map snd (sort_key fst m)"

definition deck_files :: "session_lifecycle_store \<Rightarrow> string \<Rightarrow> 'a directory \<Rightarrow> string list lifecycle_result" where
  "deck_files self directory files =
     json_files_bounded files (path_join (st_root self) directory) CONTROL_DECK_MAX_RECORDS_PER_COLLECTION"

definition stage_conflict :: "string \<Rightarrow> string \<times> string \<Rightarrow> lifecycle_blocker" where
  "stage_conflict code key = blocker code (fst key @ '':'' @ snd key)"

definition project_receipt ::
  "externals \<Rightarrow> session_lifecycle_store \<Rightarrow> string \<Rightarrow> stored_receipt directory \<Rightarrow> lifecycle_record_stage \<Rightarrow>
   lifecycle_receipt_projection projection_index \<Rightarrow> string \<Rightarrow> lifecycle_receipt_projection projection_index lifecycle_result" where
  "project_receipt X self directory files stage receipts file =
     and_then (read_stored_receipt X (store_path self directory file) files file) (\<lambda>stored.
     and_then (validate_receipt self (sto_receipt stored)) (\<lambda>_.
     let key = (tr_transaction_id (sto_receipt stored), tr_event_id (sto_receipt stored));
         projection = receipt_projection stage stored
     in if (case map_of receipts key of None \<Rightarrow> False
            | Some existing \<Rightarrow> rp_payload_sha256 existing \<noteq> rp_payload_sha256 projection)
        then Inl (stage_conflict ''CONTROL_DECK_RECEIPT_STAGE_CONFLICT'' key)
        else Inr (AList.update key projection receipts)))"

definition project_receipt_ack ::
  "session_lifecycle_store \<Rightarrow> store_disk \<Rightarrow> lifecycle_receipt_projection projection_index \<Rightarrow> string \<Rightarrow>
   lifecycle_receipt_projection projection_index lifecycle_result" where
  "project_receipt_ack self d receipts file =
     and_then (read_json (sd_acknowledged_receipts d) file) (\<lambda>acknowledgement.
     let key = (rk_transaction_id acknowledgement, rk_event_id acknowledgement)
     in and_then (ok_or (blocker ''CONTROL_DECK_ACK_RECEIPT_MISSING'' (store_path self ''receipts/acknowledged'' file))
          (map_of receipts key)) (\<lambda>projection.
        Inr (AList.update key (projection\<lparr>rp_stage := StAcknowledged, rp_delivery_id := Some (rk_delivery_id acknowledgement)\<rparr>)
          (AList.delete key receipts))))"

definition project_receipts ::
  "externals \<Rightarrow> session_lifecycle_store \<Rightarrow> store_disk \<Rightarrow> lifecycle_receipt_projection projection_index lifecycle_result" where
  "project_receipts X self d =
     and_then (deck_files self ''receipts/pending'' (sd_pending_receipts d)) (\<lambda>pending_files.
     and_then (try_fold (project_receipt X self ''receipts/pending'' (sd_pending_receipts d) StPending) [] pending_files) (\<lambda>pending.
     and_then (deck_files self ''receipts/applied'' (sd_applied_receipts d)) (\<lambda>applied_files.
     and_then (try_fold (project_receipt X self ''receipts/applied'' (sd_applied_receipts d) StApplied) pending applied_files) (\<lambda>applied.
     and_then (deck_files self ''receipts/acknowledged'' (sd_acknowledged_receipts d)) (\<lambda>ack_files.
     try_fold (project_receipt_ack self d) applied ack_files)))))"

definition insert_callback_projection ::
  "lifecycle_callback_projection projection_index \<Rightarrow> string \<times> string \<Rightarrow> lifecycle_callback_projection \<Rightarrow>
   lifecycle_callback_projection projection_index lifecycle_result" where
  "insert_callback_projection callbacks key projection =
     (if (case map_of callbacks key of None \<Rightarrow> False
          | Some existing \<Rightarrow>
              cj_terminal_receipt_sha256 existing \<noteq> cj_terminal_receipt_sha256 projection \<or>
              cj_callback_payload_sha256 existing \<noteq> cj_callback_payload_sha256 projection \<or>
              cj_transport_payload_sha256 existing \<noteq> cj_transport_payload_sha256 projection \<or>
              cj_effect_identity_sha256 existing \<noteq> cj_effect_identity_sha256 projection)
      then Inl (stage_conflict ''CONTROL_DECK_CALLBACK_STAGE_CONFLICT'' key)
      else Inr (AList.update key projection callbacks))"

definition project_callback ::
  "externals \<Rightarrow> session_lifecycle_store \<Rightarrow> store_disk \<Rightarrow> ('a \<Rightarrow> durable_callback_record) \<Rightarrow> 'a directory \<Rightarrow> lifecycle_record_stage \<Rightarrow>
   lifecycle_callback_projection projection_index \<Rightarrow> string \<Rightarrow> lifecycle_callback_projection projection_index lifecycle_result" where
  "project_callback X self d record_of files stage callbacks file =
     and_then (read_json files file) (\<lambda>stored.
     and_then (validate_callback_unlocked X self (record_of stored) d) (\<lambda>_.
     insert_callback_projection callbacks (cb_transaction_id (record_of stored), cb_event_id (record_of stored))
       (callback_projection X stage (record_of stored))))"

definition project_callbacks ::
  "externals \<Rightarrow> session_lifecycle_store \<Rightarrow> store_disk \<Rightarrow> lifecycle_callback_projection projection_index lifecycle_result" where
  "project_callbacks X self d =
     and_then (deck_files self ''callbacks/pending'' (sd_pending_callbacks d)) (\<lambda>pending_files.
     and_then (try_fold (project_callback X self d id (sd_pending_callbacks d) StPending) [] pending_files) (\<lambda>pending.
     and_then (deck_files self ''callbacks/intaken'' (sd_intaken_callbacks d)) (\<lambda>intaken_files.
     and_then (try_fold (project_callback X self d id (sd_intaken_callbacks d) StIntaken) pending intaken_files) (\<lambda>intaken.
     and_then (deck_files self ''callbacks/acknowledged'' (sd_acknowledged_callbacks d)) (\<lambda>ack_files.
     try_fold (project_callback X self d ka_record (sd_acknowledged_callbacks d) StAcknowledged) intaken ack_files)))))"

definition project_admissions ::
  "externals \<Rightarrow> session_lifecycle_store \<Rightarrow> store_disk \<Rightarrow> lifecycle_admission_projection list lifecycle_result" where
  "project_admissions X self d =
     and_then (deck_files self ''admissions/children'' (sd_admissions d)) (\<lambda>files.
     and_then (try_map (read_json (sd_admissions d)) files) (\<lambda>records.
     and_then (try_each (validate_child_admission self) records) (\<lambda>_.
     Inr (map (admission_projection X) (sort_key ca_child_session_id records)))))"

definition project_continuations ::
  "externals \<Rightarrow> session_lifecycle_store \<Rightarrow> store_disk \<Rightarrow> lifecycle_continuation_projection list lifecycle_result" where
  "project_continuations X self d =
     and_then (deck_files self ''continuations'' (sd_continuations d)) (\<lambda>files.
     and_then (try_map (read_json (sd_continuations d)) files) (\<lambda>records.
     and_then (try_each (\<lambda>r. validate_continuation_unlocked X self r d) records) (\<lambda>_.
     Inr (map (continuation_projection X) (sort_key cd_request_id records)))))"

record lifecycle_control_deck_projection =
  lp_schema_version :: string
  lp_commander_session_id :: string
  lp_state_head :: string
  lp_admissions :: "lifecycle_admission_projection list"
  lp_receipts :: "lifecycle_receipt_projection list"
  lp_callbacks :: "lifecycle_callback_projection list"
  lp_continuations :: "lifecycle_continuation_projection list"
  lp_last_blocker :: "lifecycle_blocker_projection option"

definition generation_value ::
  "session_lifecycle_store \<Rightarrow> lifecycle_admission_projection list \<Rightarrow> lifecycle_receipt_projection list \<Rightarrow>
   lifecycle_callback_projection list \<Rightarrow> lifecycle_continuation_projection list \<Rightarrow> lifecycle_blocker_projection option \<Rightarrow> json" where
  "generation_value self admissions receipts callbacks continuations last_blocker = JObject
     [(''commander_session_id'', JString (st_commander_session_id self)),
      (''admissions'', JArray (map admission_projection_to_value admissions)),
      (''receipts'', JArray (map receipt_projection_to_value receipts)),
      (''callbacks'', JArray (map callback_projection_to_value callbacks)),
      (''continuations'', JArray (map continuation_projection_to_value continuations)),
      (''last_blocker'', (case last_blocker of None \<Rightarrow> JNull | Some b \<Rightarrow> blocker_projection_to_value b))]"

definition control_deck_projection ::
  "externals \<Rightarrow> session_lifecycle_store \<Rightarrow> store_disk \<Rightarrow> lifecycle_control_deck_projection lifecycle_result" where
  "control_deck_projection X self d =
     and_then (project_admissions X self d) (\<lambda>admissions.
     and_then (project_receipts X self d) (\<lambda>receipt_index.
     and_then (project_callbacks X self d) (\<lambda>callback_index.
     and_then (project_continuations X self d) (\<lambda>continuations.
     and_then (read_optional_value (blocker_projection X) (sd_last_blocker d)) (\<lambda>last_blocker.
     let receipts = index_values receipt_index; callbacks = index_values callback_index
     in Inr \<lparr>lp_schema_version = ''tura_lifecycle_control_deck_projection_v2'',
          lp_commander_session_id = st_commander_session_id self,
          lp_state_head = canonical_value_sha256 X (generation_value self admissions receipts callbacks continuations last_blocker),
          lp_admissions = admissions, lp_receipts = receipts, lp_callbacks = callbacks,
          lp_continuations = continuations, lp_last_blocker = last_blocker\<rparr>)))))"

end
