(* ===== verification/Store_Deck.thy ===== *)
theory Store_Deck
  imports Store_Projection Store_Replay
begin

text \<open>
  The control deck of a store that runs have built never fails while no directory holds more files than its
  bound, and it shows every receipt and every callback exactly once.
\<close>

section \<open>Identities of acknowledgements\<close>

fun call_identities :: "store_call \<Rightarrow> (string \<times> string) set" where
  "call_identities (CallWriteReceipt r) = {receipt_identity r}"
| "call_identities (CallAcknowledge t e i) = {(t, e)}"
| "call_identities _ = {}"

definition run_identities :: "store_call list \<Rightarrow> (string \<times> string) set" where
  "run_identities cs = (\<Union>c\<in>set cs. call_identities c)"

definition ack_identity :: "receipt_acknowledgement \<Rightarrow> string \<times> string" where
  "ack_identity a = (rk_transaction_id a, rk_event_id a)"

definition identities_inv :: "(string \<times> string) set \<Rightarrow> store_disk \<Rightarrow> bool" where
  "identities_inv I d \<longleftrightarrow>
     (\<forall>k s. map_of (sd_pending_receipts d) k = Some (Record s) \<longrightarrow> receipt_identity (sto_receipt s) \<in> I) \<and>
     (\<forall>k s. map_of (sd_applied_receipts d) k = Some (Record s) \<longrightarrow> receipt_identity (sto_receipt s) \<in> I) \<and>
     (\<forall>k a s. map_of (sd_acknowledged_receipts d) k = Some (Record a) \<longrightarrow> map_of (sd_applied_receipts d) k = Some (Record s) \<longrightarrow>
        ack_identity a = receipt_identity (sto_receipt s))"

lemma call_effects_receipts:
  assumes "call_effects X self c d = Inr es" "e \<in> set es"
  shows "(\<forall>k s. e = WritePendingReceipt k s \<longrightarrow> receipt_identity (sto_receipt s) \<in> call_identities c) \<and>
    (\<forall>k a. e = WriteReceiptAck k a \<longrightarrow> es = [e] \<and> ack_identity a \<in> call_identities c \<and> k = receipt_key X (rk_transaction_id a) (rk_event_id a))"
proof (cases c)
  case (CallIntake t v)
  have "\<exists>k r. w = WriteBlocker k r \<or> w = WriteLastBlocker r"
    if "write_blocker_unlocked self b (Some t) (Some v) d = Inr fs" "w \<in> set fs" for b fs w
    using write_blocker_effects [OF that] .
  then show ?thesis using assms CallIntake
    by (fastforce simp: call_effects_def effects_of_Inr intake_def intake_duplicate_def intake_pending_def
        result_simps Let_def split: if_splits)
next
  case (CallReclaim t v w)
  have "\<exists>k r. w = WriteBlocker k r \<or> w = WriteLastBlocker r"
    if "write_blocker_unlocked self b (Some t) (Some v) d = Inr fs" "w \<in> set fs" for b fs w
    using write_blocker_effects [OF that] .
  then show ?thesis using assms CallReclaim
    by (fastforce simp: call_effects_def effects_of_Inr reclaim_terminal_slot_def result_simps Let_def
        split: if_splits option.splits)
qed (use assms in \<open>auto simp: call_effects_def effects_of_Inr result_simps Let_def write_terminal_receipt_def
    existing_receipt_outcome_def admit_child_def acknowledge_def ack_identity_def
    publish_callback_locked_def mark_callback_intaken_def acknowledge_callback_def prepare_callback_continuation_locked_def
    begin_direct_delivery_locked_def settle_direct_delivery_locked_def bind_convergence_proof_locked_def
    transition_continuation_locked_def record_identity_failure_def publish_checkpoint_evidence_def reconcile_checkpoint_def
    split: if_splits option.splits\<close>)

lemma distinct_keysD:
  "distinct_keys X I \<Longrightarrow> (t, e) \<in> I \<Longrightarrow> (t', e') \<in> I \<Longrightarrow> receipt_key X t e = receipt_key X t' e' \<Longrightarrow> (t, e) = (t', e')"
  using inj_onD [of "\<lambda>(t, e). receipt_key X t e" I "(t, e)" "(t', e')"] by (auto simp: distinct_keys_def)

lemma identities_effect:
  assumes inv: "receipts_inv X self d" and ids: "identities_inv I d" and ok: "effect_ok X self d e"
    and keys: "distinct_keys X I"
    and p: "\<And>k s. e = WritePendingReceipt k s \<Longrightarrow> receipt_identity (sto_receipt s) \<in> I"
    and a: "\<And>k a. e = WriteReceiptAck k a \<Longrightarrow> ack_identity a \<in> I \<and> k = receipt_key X (rk_transaction_id a) (rk_event_id a)"
  shows "identities_inv I (apply_effect e d)"
proof (cases e)
  case (WriteReceiptAck k q)
  from ok WriteReceiptAck obtain s where s: "map_of (sd_applied_receipts d) k = Some (Record s)" by auto
  then have "receipt_file_ok X self k (Record s)" using inv by (simp add: receipts_inv_def)
  then have k: "k = key_of X (sto_receipt s)" by (auto simp: receipt_file_ok_def)
  have "receipt_identity (sto_receipt s) \<in> I" using ids s by (auto simp: identities_inv_def)
  then have "ack_identity q = receipt_identity (sto_receipt s)"
    using a [OF WriteReceiptAck] k unfolding ack_identity_def receipt_identity_def
    by (intro distinct_keysD [OF keys]) simp_all
  then show ?thesis using WriteReceiptAck ids s by (auto simp: identities_inv_def)
next
  case (WriteAppliedReceipt k s)
  then have n: "map_of (sd_applied_receipts d) k = None" and m: "map_of (sd_pending_receipts d) k = Some (Record s)"
    using ok by auto
  have "map_of (sd_acknowledged_receipts d) k = None"
  proof (rule ccontr)
    assume "map_of (sd_acknowledged_receipts d) k \<noteq> None"
    then obtain f where "map_of (sd_acknowledged_receipts d) k = Some f" by auto
    with inv obtain s' where "map_of (sd_applied_receipts d) k = Some (Record s')"
      unfolding receipts_inv_def by blast
    with n show False by simp
  qed
  then show ?thesis using WriteAppliedReceipt ids m by (auto simp: identities_inv_def)
qed (use ids p in \<open>auto simp: identities_inv_def split: if_splits\<close>)

context digest_laws
begin

lemma identities_step:
  assumes inv: "store_inv X self d" and ids: "identities_inv I d" and keys: "distinct_keys X I"
    and c: "call_effects X self c d = Inr es" "call_identities c \<subseteq> I" and cut: "effects_cut es d d'"
  shows "identities_inv I d'"
proof -
  have all: "identities_inv I (perform fs d)"
    if "store_inv X self d" "identities_inv I d" "effects_ok X self d fs" "set fs \<subseteq> set es" for fs d
    using that
  proof (induction fs arbitrary: d)
    case (Cons e fs)
    have "identities_inv I (apply_effect e d)"
      using Cons.prems c call_effects_receipts [OF c(1), of e]
      by (intro identities_effect [OF _ _ _ keys, of self]) (auto simp: store_inv_def)
    moreover have "store_inv X self (apply_effect e d)" using Cons.prems store_inv_effect by simp
    ultimately show ?case using Cons by simp
  qed simp
  have "identities_inv I (perform (take k es) d)" for k
    using all [OF inv ids effects_ok_take [OF call_effects_ok [OF inv c(1)]]] set_take_subset by metis
  with cut show ?thesis by (auto elim!: effects_cutE simp: identities_inv_def)
qed

lemma identities_run:
  assumes "store_run X self empty_disk cs d" "distinct_keys X (run_identities cs)"
  shows "identities_inv (run_identities cs) d"
proof -
  have "store_inv X self d \<and> identities_inv (run_identities cs) d"
  proof (rule store_run_invariant [OF assms(1)])
    show "store_inv X self empty_disk \<and> identities_inv (run_identities cs) empty_disk"
      using store_inv_empty by (simp add: identities_inv_def empty_disk_def)
    show "store_inv X self d' \<and> identities_inv (run_identities cs) d'"
      if "c \<in> set cs" "store_inv X self d \<and> identities_inv (run_identities cs) d" "store_step X self c d d'" for c d d'
    proof -
      from that(3) obtain es where es: "call_effects X self c d = Inr es" "effects_cut es d d'" by (auto elim: store_stepE)
      have "call_identities c \<subseteq> run_identities cs" using that(1) by (auto simp: run_identities_def)
      then show ?thesis using that(2,3) identities_step [OF _ _ assms(2) es(1) _ es(2)] store_step_inv by blast
    qed
  qed
  then show ?thesis by blast
qed

end

section \<open>Folding files into an index\<close>

lemma try_fold_index:
  assumes "P m"
    and "\<And>m x. x \<in> set xs \<Longrightarrow> P m \<Longrightarrow> \<exists>m'. f m x = Inr m' \<and> P m' \<and> dom (map_of m') = insert (g x) (dom (map_of m))"
  shows "\<exists>m'. try_fold f m xs = Inr m' \<and> P m' \<and> dom (map_of m') = dom (map_of m) \<union> g ` set xs"
  using assms
proof (induction xs arbitrary: m)
  case (Cons x xs)
  from Cons.prems(2) [of x m] Cons.prems(1) obtain m1 where m1: "f m x = Inr m1" "P m1"
    "dom (map_of m1) = insert (g x) (dom (map_of m))" by auto
  from Cons.IH [OF m1(2)] Cons.prems(2) obtain m2 where "try_fold f m1 xs = Inr m2" "P m2"
    "dom (map_of m2) = dom (map_of m1) \<union> g ` set xs" by auto
  with m1 show ?case by auto
qed simp

lemma dom_update: "dom (map_of (AList.update k v m)) = insert k (dom (map_of m))"
  by (simp add: update_conv')

lemma dom_replace: "dom (map_of (AList.update k v (AList.delete k m))) = insert k (dom (map_of m))"
  by (auto simp: update_conv' delete_conv')

lemma deck_files_ok:
  "length files \<le> CONTROL_DECK_MAX_RECORDS_PER_COLLECTION \<Longrightarrow> deck_files self directory files = Inr (json_files files)"
  by (simp add: deck_files_def json_files_bounded_def json_files_def)

section \<open>Receipts\<close>

definition receipt_at :: "externals \<Rightarrow> store_disk \<Rightarrow> string \<Rightarrow> terminal_receipt \<Rightarrow> bool" where
  "receipt_at X d k r \<longleftrightarrow> Some (Record (stored_receipt_of X r)) \<in> {map_of (sd_pending_receipts d) k, map_of (sd_applied_receipts d) k}"

lemma receipt_at_unique:
  assumes "receipts_inv X self d" "receipt_at X d k r" "receipt_at X d k r'"
  shows "r = r'"
proof -
  have "Record (stored_receipt_of X r) = Record (stored_receipt_of X r')"
    using assms unfolding receipt_at_def receipts_inv_def by (metis (no_types, opaque_lifting) insert_iff option.inject singletonD)
  then show ?thesis by (simp add: stored_receipt_of_def)
qed

definition receipt_index_ok :: "externals \<Rightarrow> store_disk \<Rightarrow> lifecycle_receipt_projection projection_index \<Rightarrow> bool" where
  "receipt_index_ok X d m \<longleftrightarrow> distinct (map fst m) \<and>
     (\<forall>t e p. map_of m (t, e) = Some p \<longrightarrow> rp_transaction_id p = t \<and> rp_event_id p = e \<and>
        (\<exists>r. receipt_at X d (receipt_key X t e) r \<and> rp_payload_sha256 p = payload_sha256 X r))"

lemma receipt_index_okD:
  assumes "receipt_index_ok X d m" "map_of m (t, e) = Some p"
  shows "rp_transaction_id p = t \<and> rp_event_id p = e \<and>
    (\<exists>r. receipt_at X d (receipt_key X t e) r \<and> rp_payload_sha256 p = payload_sha256 X r)"
  using assms unfolding receipt_index_ok_def by blast

lemma receipt_index_update:
  assumes "receipt_index_ok X d m" "rp_transaction_id p = t" "rp_event_id p = e"
    and "\<exists>r. receipt_at X d (receipt_key X t e) r \<and> rp_payload_sha256 p = payload_sha256 X r"
  shows "receipt_index_ok X d (AList.update (t, e) p m)"
  unfolding receipt_index_ok_def
proof (intro conjI allI impI)
  show "distinct (map fst (AList.update (t, e) p m))"
    using assms(1) by (simp add: receipt_index_ok_def distinct_update)
  fix t' e' q assume "map_of (AList.update (t, e) p m) (t', e') = Some q"
  then have "(t', e') = (t, e) \<and> q = p \<or> map_of m (t', e') = Some q" by (auto simp: update_conv' split: if_splits)
  then show "rp_transaction_id q = t'" "rp_event_id q = e'"
    "\<exists>r. receipt_at X d (receipt_key X t' e') r \<and> rp_payload_sha256 q = payload_sha256 X r"
    using assms receipt_index_okD [OF assms(1)] by blast+
qed

lemma receipt_index_delete: "receipt_index_ok X d m \<Longrightarrow> receipt_index_ok X d (AList.delete k m)"
  by (auto simp: receipt_index_ok_def delete_conv' distinct_delete simp del: map_of_eq_Some_iff split: if_splits)

lemma project_receipt_ok:
  assumes inv: "receipts_inv X self d" and f: "map_of files k = Some (Record (stored_receipt_of X r))"
    and v: "validate_receipt self r = Inr ()" "receipt_at X d (key_of X r) r" and m: "receipt_index_ok X d m"
  shows "\<exists>m'. project_receipt X self directory files stage m k = Inr m' \<and> receipt_index_ok X d m' \<and>
    dom (map_of m') = insert (receipt_identity r) (dom (map_of m))"
proof -
  have "read_stored_receipt X (store_path self directory k) files k = Inr (stored_receipt_of X r)"
    using f by (simp add: read_stored_receipt_iff)
  moreover have "rp_payload_sha256 p = payload_sha256 X r" if "map_of m (tr_transaction_id r, tr_event_id r) = Some p" for p
    using receipt_index_okD [OF m that] receipt_at_unique [OF inv _ v(2)] by blast
  ultimately have "project_receipt X self directory files stage m k =
      Inr (AList.update (receipt_identity r) (receipt_projection stage (stored_receipt_of X r)) m)"
    using v(1) by (auto simp: project_receipt_def Let_def receipt_projection_def stored_receipt_of_def receipt_identity_def
        split: option.split)
  moreover have "receipt_index_ok X d (AList.update (receipt_identity r) (receipt_projection stage (stored_receipt_of X r)) m)"
    unfolding receipt_identity_def using m v(2)
    by (intro receipt_index_update) (auto simp: receipt_projection_def Let_def stored_receipt_of_def)
  ultimately show ?thesis by (simp add: dom_update)
qed

definition identity_at :: "'a directory \<Rightarrow> ('a \<Rightarrow> string \<times> string) \<Rightarrow> string \<Rightarrow> string \<times> string" where
  "identity_at files identity k = (case map_of files k of Some (Record x) \<Rightarrow> identity x)"

lemma project_receipt_fold:
  assumes inv: "receipts_inv X self d" and files: "files \<in> {sd_pending_receipts d, sd_applied_receipts d}"
    and m: "receipt_index_ok X d m"
  shows "\<exists>m'. try_fold (project_receipt X self directory files stage) m (json_files files) = Inr m' \<and>
    receipt_index_ok X d m' \<and>
    dom (map_of m') = dom (map_of m) \<union> identity_at files (\<lambda>s. receipt_identity (sto_receipt s)) ` set (json_files files)"
proof (rule try_fold_index [where P = "receipt_index_ok X d", OF m])
  fix m k assume k: "k \<in> set (json_files files)" and m: "receipt_index_ok X d m"
  then obtain f where f: "map_of files k = Some f" by auto
  then have "receipt_file_ok X self k f" using inv files by (auto simp: receipts_inv_def)
  then obtain r where r: "f = Record (stored_receipt_of X r)" "validate_receipt self r = Inr ()" "k = key_of X r"
    by (auto simp: receipt_file_ok_def)
  have "receipt_at X d (key_of X r) r" using f r files by (auto simp: receipt_at_def)
  from project_receipt_ok [OF inv f [unfolded r(1)] r(2) this m] f r(1)
  show "\<exists>m'. project_receipt X self directory files stage m k = Inr m' \<and> receipt_index_ok X d m' \<and>
      dom (map_of m') = insert (identity_at files (\<lambda>s. receipt_identity (sto_receipt s)) k) (dom (map_of m))"
    by (simp add: identity_at_def)
qed

lemma project_ack_ok:
  assumes "map_of (sd_acknowledged_receipts d) k = Some (Record a)" "ack_identity a \<in> dom (map_of m)" "receipt_index_ok X d m"
  shows "\<exists>m'. project_receipt_ack self d m k = Inr m' \<and> receipt_index_ok X d m' \<and> dom (map_of m') = insert (ack_identity a) (dom (map_of m))"
proof -
  from assms(2) obtain p where p: "map_of m (ack_identity a) = Some p" by auto
  let ?q = "p\<lparr>rp_stage := StAcknowledged, rp_delivery_id := Some (rk_delivery_id a)\<rparr>"
  have "project_receipt_ack self d m k = Inr (AList.update (ack_identity a) ?q (AList.delete (ack_identity a) m))"
    using assms(1) p by (simp add: project_receipt_ack_def read_json_def ack_identity_def Let_def)
  moreover have "receipt_index_ok X d (AList.update (ack_identity a) ?q (AList.delete (ack_identity a) m))"
    using receipt_index_okD [OF assms(3), of "rk_transaction_id a" "rk_event_id a" p] p
    unfolding ack_identity_def by (intro receipt_index_update receipt_index_delete assms(3)) simp_all
  ultimately show ?thesis by (simp add: dom_replace)
qed

definition disk_receipts :: "store_disk \<Rightarrow> (string \<times> string) set" where
  "disk_receipts d =
     identity_at (sd_pending_receipts d) (\<lambda>s. receipt_identity (sto_receipt s)) ` set (json_files (sd_pending_receipts d)) \<union>
     identity_at (sd_applied_receipts d) (\<lambda>s. receipt_identity (sto_receipt s)) ` set (json_files (sd_applied_receipts d))"

definition deck_bounded :: "store_disk \<Rightarrow> bool" where
  "deck_bounded d \<longleftrightarrow> (\<forall>n\<in>{length (sd_admissions d), length (sd_pending_receipts d), length (sd_applied_receipts d),
     length (sd_acknowledged_receipts d), length (sd_pending_callbacks d), length (sd_intaken_callbacks d),
     length (sd_acknowledged_callbacks d), length (sd_continuations d)}. n \<le> CONTROL_DECK_MAX_RECORDS_PER_COLLECTION)"

lemma acked_receipt:
  assumes "receipts_inv X self d" "k \<in> set (json_files (sd_acknowledged_receipts d))"
  shows "\<exists>a s. map_of (sd_acknowledged_receipts d) k = Some (Record a) \<and> map_of (sd_applied_receipts d) k = Some (Record s)"
proof -
  from assms(2) obtain f where "map_of (sd_acknowledged_receipts d) k = Some f" by auto
  with assms(1) show ?thesis unfolding receipts_inv_def by blast
qed

lemma project_receipts_total:
  assumes inv: "receipts_inv X self d" and ids: "identities_inv I d" and bound: "deck_bounded d"
  shows "\<exists>m. project_receipts X self d = Inr m \<and> receipt_index_ok X d m \<and> dom (map_of m) = disk_receipts d"
proof -
  let ?id = "\<lambda>s. receipt_identity (sto_receipt s)"
  have "receipt_index_ok X d []" by (simp add: receipt_index_ok_def)
  from project_receipt_fold [OF inv _ this, of "sd_pending_receipts d" "''receipts/pending''" StPending] obtain m1 where m1:
    "try_fold (project_receipt X self ''receipts/pending'' (sd_pending_receipts d) StPending) [] (json_files (sd_pending_receipts d)) = Inr m1"
    "receipt_index_ok X d m1" "dom (map_of m1) = identity_at (sd_pending_receipts d) ?id ` set (json_files (sd_pending_receipts d))"
    by auto
  from project_receipt_fold [OF inv _ m1(2), of "sd_applied_receipts d" "''receipts/applied''" StApplied] obtain m2 where m2:
    "try_fold (project_receipt X self ''receipts/applied'' (sd_applied_receipts d) StApplied) m1 (json_files (sd_applied_receipts d)) = Inr m2"
    "receipt_index_ok X d m2" "dom (map_of m2) = disk_receipts d"
    using m1(3) by (auto simp: disk_receipts_def)
  have "\<exists>m'. try_fold (project_receipt_ack self d) m2 (json_files (sd_acknowledged_receipts d)) = Inr m' \<and>
      (receipt_index_ok X d m' \<and> disk_receipts d \<subseteq> dom (map_of m')) \<and>
      dom (map_of m') = dom (map_of m2) \<union> identity_at (sd_acknowledged_receipts d) ack_identity ` set (json_files (sd_acknowledged_receipts d))"
  proof (rule try_fold_index [where P = "\<lambda>m. receipt_index_ok X d m \<and> disk_receipts d \<subseteq> dom (map_of m)"])
    fix m k assume k: "k \<in> set (json_files (sd_acknowledged_receipts d))"
      and m: "receipt_index_ok X d m \<and> disk_receipts d \<subseteq> dom (map_of m)"
    then obtain a s where a: "map_of (sd_acknowledged_receipts d) k = Some (Record a)" "map_of (sd_applied_receipts d) k = Some (Record s)"
      using acked_receipt [OF inv] by blast
    then have "ack_identity a = identity_at (sd_applied_receipts d) ?id k" using ids by (simp add: identities_inv_def identity_at_def)
    with a(2) have "ack_identity a \<in> disk_receipts d" by (auto simp: disk_receipts_def)
    then have "ack_identity a \<in> dom (map_of m)" using m by blast
    with project_ack_ok [OF a(1), of m X self] m obtain m' where "project_receipt_ack self d m k = Inr m'" "receipt_index_ok X d m'"
      "dom (map_of m') = insert (ack_identity a) (dom (map_of m))" by blast
    with m a(1) show "\<exists>m'. project_receipt_ack self d m k = Inr m' \<and> (receipt_index_ok X d m' \<and> disk_receipts d \<subseteq> dom (map_of m')) \<and>
        dom (map_of m') = insert (identity_at (sd_acknowledged_receipts d) ack_identity k) (dom (map_of m))"
      by (auto simp: identity_at_def)
  qed (use m2 in simp)
  then obtain m3 where m3: "try_fold (project_receipt_ack self d) m2 (json_files (sd_acknowledged_receipts d)) = Inr m3"
    "receipt_index_ok X d m3"
    "dom (map_of m3) = dom (map_of m2) \<union> identity_at (sd_acknowledged_receipts d) ack_identity ` set (json_files (sd_acknowledged_receipts d))"
    by blast
  have "identity_at (sd_acknowledged_receipts d) ack_identity k \<in> disk_receipts d"
    if "k \<in> set (json_files (sd_acknowledged_receipts d))" for k
  proof -
    from that obtain a s where a: "map_of (sd_acknowledged_receipts d) k = Some (Record a)" "map_of (sd_applied_receipts d) k = Some (Record s)"
      using acked_receipt [OF inv] by blast
    then have "identity_at (sd_acknowledged_receipts d) ack_identity k = identity_at (sd_applied_receipts d) ?id k"
      using ids by (simp add: identities_inv_def identity_at_def)
    with a(2) show ?thesis by (auto simp: disk_receipts_def)
  qed
  then have "dom (map_of m3) = disk_receipts d" using m3(3) m2(3) by blast
  with m1(1) m2(1) m3(1,2) bound show ?thesis by (simp add: project_receipts_def deck_files_ok deck_bounded_def)
qed

section \<open>Callbacks\<close>

definition callback_at :: "store_disk \<Rightarrow> string \<Rightarrow> durable_callback_record \<Rightarrow> bool" where
  "callback_at d k c \<longleftrightarrow> Some (Record c) \<in> {map_of (sd_pending_callbacks d) k, map_of (sd_intaken_callbacks d) k}"

definition callback_index_ok :: "externals \<Rightarrow> store_disk \<Rightarrow> lifecycle_callback_projection projection_index \<Rightarrow> bool" where
  "callback_index_ok X d m \<longleftrightarrow> distinct (map fst m) \<and>
     (\<forall>t e p. map_of m (t, e) = Some p \<longrightarrow> (\<exists>stage c. callback_at d (receipt_key X t e) c \<and> p = callback_projection X stage c \<and>
        cb_transaction_id c = t \<and> cb_event_id c = e))"

definition callback_identity :: "durable_callback_record \<Rightarrow> string \<times> string" where
  "callback_identity c = (cb_transaction_id c, cb_event_id c)"

lemma callback_at_unique: "callbacks_inv X self d \<Longrightarrow> callback_at d k c \<Longrightarrow> callback_at d k c' \<Longrightarrow> c = c'"
  unfolding callback_at_def callbacks_inv_def
  by (metis (no_types, opaque_lifting) insert_iff option.inject singletonD stored_file.inject(1))

lemma project_callback_ok:
  assumes inv: "callbacks_inv X self d" and f: "map_of files k = Some (Record x)"
    and c: "callback_at d (receipt_key X (cb_transaction_id (record_of x)) (cb_event_id (record_of x))) (record_of x)"
    and v: "validate_callback_unlocked X self (record_of x) d = Inr ()" and m: "callback_index_ok X d m"
  shows "\<exists>m'. project_callback X self d record_of files stage m k = Inr m' \<and> callback_index_ok X d m' \<and>
    dom (map_of m') = insert (callback_identity (record_of x)) (dom (map_of m))"
proof -
  let ?c = "record_of x"
  let ?m' = "AList.update (callback_identity ?c) (callback_projection X stage ?c) m"
  have "\<exists>stage. p = callback_projection X stage ?c" if "map_of m (callback_identity ?c) = Some p" for p
    using m that callback_at_unique [OF inv _ c] unfolding callback_index_ok_def callback_identity_def by blast
  then have "project_callback X self d record_of files stage m k = Inr ?m'"
    using f v by (auto simp: project_callback_def read_json_def insert_callback_projection_def callback_identity_def
        callback_projection_def Let_def split_def split: option.split)
  moreover have "callback_index_ok X d ?m'"
    unfolding callback_index_ok_def
  proof (intro conjI allI impI)
    show "distinct (map fst ?m')" using m by (simp add: callback_index_ok_def distinct_update)
    fix t e p assume "map_of ?m' (t, e) = Some p"
    then have "(t, e) = callback_identity ?c \<and> p = callback_projection X stage ?c \<or> map_of m (t, e) = Some p"
      by (auto simp: update_conv' split: if_splits)
    then show "\<exists>stage c. callback_at d (receipt_key X t e) c \<and> p = callback_projection X stage c \<and>
        cb_transaction_id c = t \<and> cb_event_id c = e"
      using m c unfolding callback_index_ok_def callback_identity_def by blast
  qed
  ultimately show ?thesis by (simp add: dom_update)
qed

lemma project_callback_fold:
  assumes inv: "callbacks_inv X self d" and m: "callback_index_ok X d m"
    and files: "\<And>k f. map_of files k = Some f \<Longrightarrow> \<exists>x. f = Record x \<and> callback_at d k (record_of x) \<and> callback_file_ok X self d k (Record (record_of x))"
  shows "\<exists>m'. try_fold (project_callback X self d record_of files stage) m (json_files files) = Inr m' \<and> callback_index_ok X d m' \<and>
    dom (map_of m') = dom (map_of m) \<union> identity_at files (\<lambda>x. callback_identity (record_of x)) ` set (json_files files)"
proof (rule try_fold_index [where P = "callback_index_ok X d", OF m])
  fix m k assume k: "k \<in> set (json_files files)" and m: "callback_index_ok X d m"
  then obtain x where x: "map_of files k = Some (Record x)" "callback_at d k (record_of x)" "callback_file_ok X self d k (Record (record_of x))"
    using files by auto
  then have "k = receipt_key X (cb_transaction_id (record_of x)) (cb_event_id (record_of x))"
    "validate_callback_unlocked X self (record_of x) d = Inr ()" by (auto simp: callback_file_ok_def)
  with project_callback_ok [OF inv x(1) _ _ m] x
  show "\<exists>m'. project_callback X self d record_of files stage m k = Inr m' \<and> callback_index_ok X d m' \<and>
      dom (map_of m') = insert (identity_at files (\<lambda>x. callback_identity (record_of x)) k) (dom (map_of m))"
    by (simp add: identity_at_def)
qed

definition disk_callbacks :: "store_disk \<Rightarrow> (string \<times> string) set" where
  "disk_callbacks d =
     identity_at (sd_pending_callbacks d) callback_identity ` set (json_files (sd_pending_callbacks d)) \<union>
     identity_at (sd_intaken_callbacks d) callback_identity ` set (json_files (sd_intaken_callbacks d))"

lemma project_callbacks_total:
  assumes inv: "callbacks_inv X self d" and bound: "deck_bounded d"
  shows "\<exists>m. project_callbacks X self d = Inr m \<and> callback_index_ok X d m \<and> dom (map_of m) = disk_callbacks d"
proof -
  have ok: "\<exists>c. f = Record c \<and> callback_at d k c \<and> callback_file_ok X self d k (Record c)"
    if "map_of files k = Some f" "files \<in> {sd_pending_callbacks d, sd_intaken_callbacks d}" for files k f
    using that inv unfolding callbacks_inv_def callback_at_def callback_file_ok_def by fastforce
  have "callback_index_ok X d []" by (simp add: callback_index_ok_def)
  from project_callback_fold [OF inv this, of "sd_pending_callbacks d" id StPending] ok obtain m1 where m1:
    "try_fold (project_callback X self d id (sd_pending_callbacks d) StPending) [] (json_files (sd_pending_callbacks d)) = Inr m1"
    "callback_index_ok X d m1" "dom (map_of m1) = identity_at (sd_pending_callbacks d) callback_identity ` set (json_files (sd_pending_callbacks d))"
    by fastforce
  from project_callback_fold [OF inv m1(2), of "sd_intaken_callbacks d" id StIntaken] ok m1(3) obtain m2 where m2:
    "try_fold (project_callback X self d id (sd_intaken_callbacks d) StIntaken) m1 (json_files (sd_intaken_callbacks d)) = Inr m2"
    "callback_index_ok X d m2" "dom (map_of m2) = disk_callbacks d"
    unfolding disk_callbacks_def by fastforce
  have acked: "\<exists>a. f = Record a \<and> map_of (sd_intaken_callbacks d) k = Some (Record (ka_record a))"
    if "map_of (sd_acknowledged_callbacks d) k = Some f" for k f
    using that inv unfolding callbacks_inv_def by blast
  then have "\<exists>a. f = Record a \<and> callback_at d k (ka_record a) \<and> callback_file_ok X self d k (Record (ka_record a))"
    if "map_of (sd_acknowledged_callbacks d) k = Some f" for k f
    using that inv by (fastforce simp: callbacks_inv_def callback_at_def)
  from project_callback_fold [OF inv m2(2), of "sd_acknowledged_callbacks d" ka_record StAcknowledged] this obtain m3 where m3:
    "try_fold (project_callback X self d ka_record (sd_acknowledged_callbacks d) StAcknowledged) m2 (json_files (sd_acknowledged_callbacks d)) = Inr m3"
    "callback_index_ok X d m3"
    "dom (map_of m3) = disk_callbacks d \<union> identity_at (sd_acknowledged_callbacks d) (\<lambda>a. callback_identity (ka_record a)) ` set (json_files (sd_acknowledged_callbacks d))"
    using m2(3) by auto
  have "identity_at (sd_acknowledged_callbacks d) (\<lambda>a. callback_identity (ka_record a)) k \<in> disk_callbacks d"
    if "k \<in> set (json_files (sd_acknowledged_callbacks d))" for k
  proof -
    from that acked obtain a where a: "map_of (sd_acknowledged_callbacks d) k = Some (Record a)"
      "map_of (sd_intaken_callbacks d) k = Some (Record (ka_record a))" by fastforce
    then have "identity_at (sd_acknowledged_callbacks d) (\<lambda>a. callback_identity (ka_record a)) k =
        identity_at (sd_intaken_callbacks d) callback_identity k" by (simp add: identity_at_def)
    with a(2) show ?thesis by (auto simp: disk_callbacks_def)
  qed
  then have "dom (map_of m3) = disk_callbacks d" using m3(3) by blast
  with m1 m2 m3 bound show ?thesis by (simp add: project_callbacks_def deck_files_ok deck_bounded_def)
qed

section \<open>The whole deck\<close>

lemma read_all:
  assumes "\<And>k f. map_of files k = Some f \<Longrightarrow> \<exists>x. f = Record x \<and> Q x"
  shows "\<exists>xs. try_map (read_json files) (json_files files) = Inr xs \<and> (\<forall>x\<in>set xs. Q x)"
proof -
  have "\<exists>xs. try_map (read_json files) ks = Inr xs \<and> (\<forall>x\<in>set xs. Q x)" if "set ks \<subseteq> dom (map_of files)" for ks
    using that
  proof (induction ks)
    case (Cons k ks)
    then obtain f where "map_of files k = Some f" by auto
    moreover from assms [OF this] obtain x where "f = Record x" "Q x" by blast
    ultimately show ?case using Cons by (auto simp: read_json_def)
  qed simp
  then show ?thesis by simp
qed

lemma try_each_all: "\<forall>x\<in>set xs. f x = Inr () \<Longrightarrow> try_each f xs = Inr ()"
  by (simp add: try_each_Inr)

definition last_blocker_readable :: "store_disk \<Rightarrow> bool" where
  "last_blocker_readable d \<longleftrightarrow> (\<forall>f. sd_last_blocker d = Some f \<longrightarrow> (\<exists>b. f = Record b))"

lemma last_blocker_run:
  assumes "store_run X self empty_disk cs d"
  shows "\<exists>b. read_optional_value enc (sd_last_blocker d) = Inr b"
proof -
  have "last_blocker_readable d"
  proof (rule store_run_invariant [where Q = last_blocker_readable, OF assms])
    have "last_blocker_readable (apply_effect e d)" if "last_blocker_readable d" for e d
      using that by (cases e) (simp_all add: last_blocker_readable_def)
    then have "last_blocker_readable (perform es d)" if "last_blocker_readable d" for es d
      using that by (induction es arbitrary: d) simp_all
    then show "last_blocker_readable d'" if "last_blocker_readable d" "store_step X self c d d'" for c d d'
      using that by (fastforce elim!: store_stepE effects_cutE simp: last_blocker_readable_def)
  qed (simp add: last_blocker_readable_def empty_disk_def)
  then show ?thesis
    by (cases "sd_last_blocker d") (auto simp: read_optional_value_def last_blocker_readable_def)
qed

lemma index_values_identities:
  assumes "distinct (map fst m)" "\<And>k p. map_of m k = Some p \<Longrightarrow> identity p = k"
  shows "distinct (map identity (index_values m))" "identity ` set (index_values m) = dom (map_of m)"
proof -
  have "identity (snd x) = fst x" if "x \<in> set m" for x
    using that assms(2) [of "fst x" "snd x"] assms(1) by simp
  then have ids: "map identity (index_values m) = map fst (sort_key fst m)"
    by (simp add: index_values_def comp_def cong: map_cong)
  have "mset (map fst (sort_key fst m)) = mset (map fst m)" by simp
  then show "distinct (map identity (index_values m))" using assms(1) ids by (metis mset_eq_imp_distinct_iff)
  show "identity ` set (index_values m) = dom (map_of m)"
    using ids by (metis dom_map_of_conv_image_fst list.set_map set_sort)
qed

context digest_laws
begin

lemma control_deck_total:
  assumes "store_run X self empty_disk cs d" "distinct_keys X (run_identities cs)" "deck_bounded d"
  shows "\<exists>p. control_deck_projection X self d = Inr p \<and>
    distinct (map (\<lambda>r. (rp_transaction_id r, rp_event_id r)) (lp_receipts p)) \<and>
    (\<lambda>r. (rp_transaction_id r, rp_event_id r)) ` set (lp_receipts p) = disk_receipts d \<and>
    distinct (map (\<lambda>c. (cj_transaction_id c, cj_event_id c)) (lp_callbacks p)) \<and>
    (\<lambda>c. (cj_transaction_id c, cj_event_id c)) ` set (lp_callbacks p) = disk_callbacks d"
proof -
  have inv: "store_inv X self d" using store_run_inv [OF assms(1) store_inv_empty] .
  obtain m where m: "project_receipts X self d = Inr m" "receipt_index_ok X d m" "dom (map_of m) = disk_receipts d"
    using project_receipts_total [OF _ identities_run [OF assms(1,2)] assms(3), of X self] inv
    by (auto simp: store_inv_def)
  obtain n where n: "project_callbacks X self d = Inr n" "callback_index_ok X d n" "dom (map_of n) = disk_callbacks d"
    using project_callbacks_total [OF _ assms(3), of X self] inv by (auto simp: store_inv_def)
  have "\<exists>xs. try_map (read_json (sd_admissions d)) (json_files (sd_admissions d)) = Inr xs \<and>
      (\<forall>a\<in>set xs. validate_child_admission self a = Inr ())"
    using inv by (intro read_all) (auto simp: store_inv_def admissions_inv_def)
  then obtain as where "project_admissions X self d = Inr as"
    using assms(3) by (auto simp: project_admissions_def deck_files_ok deck_bounded_def try_each_all)
  moreover have "\<exists>xs. try_map (read_json (sd_continuations d)) (json_files (sd_continuations d)) = Inr xs \<and>
      (\<forall>r\<in>set xs. validate_continuation_unlocked X self r d = Inr ())"
    using inv by (intro read_all) (auto simp: store_inv_def continuations_inv_def)
  then obtain ns where "project_continuations X self d = Inr ns"
    using assms(3) by (auto simp: project_continuations_def deck_files_ok deck_bounded_def try_each_all)
  moreover obtain b where "read_optional_value (blocker_projection X) (sd_last_blocker d) = Inr b"
    using last_blocker_run [OF assms(1)] by blast
  ultimately have "\<exists>p. control_deck_projection X self d = Inr p \<and> lp_receipts p = index_values m \<and> lp_callbacks p = index_values n"
    using m(1) n(1) by (simp add: control_deck_projection_def Let_def)
  moreover have "distinct (map (\<lambda>r. (rp_transaction_id r, rp_event_id r)) (index_values m))"
    "(\<lambda>r. (rp_transaction_id r, rp_event_id r)) ` set (index_values m) = disk_receipts d"
    using index_values_identities [of m "\<lambda>r. (rp_transaction_id r, rp_event_id r)"] m(2,3)
    unfolding receipt_index_ok_def by fastforce+
  moreover have "distinct (map (\<lambda>c. (cj_transaction_id c, cj_event_id c)) (index_values n))"
    "(\<lambda>c. (cj_transaction_id c, cj_event_id c)) ` set (index_values n) = disk_callbacks d"
  proof -
    have "(cj_transaction_id p, cj_event_id p) = k" if "map_of n k = Some p" for k p
      using n(2) that unfolding callback_index_ok_def by (cases k) (fastforce simp: callback_projection_def Let_def split_def)
    from index_values_identities [of n "\<lambda>c. (cj_transaction_id c, cj_event_id c)", OF _ this] n(2,3)
    show "distinct (map (\<lambda>c. (cj_transaction_id c, cj_event_id c)) (index_values n))"
      "(\<lambda>c. (cj_transaction_id c, cj_event_id c)) ` set (index_values n) = disk_callbacks d"
      by (simp_all add: callback_index_ok_def)
  qed
  ultimately show ?thesis by auto
qed

end

end
