(* ===== verification/Store_Samples.thy ===== *)
theory Store_Samples
  imports Store_Sequences
begin

text \<open>
  A concrete store on the reference parameters: two receipts of one transaction, a callback and its
  continuation, and the disks that a sequence of completed calls leaves. The step lemmas evaluate one call
  each, so that a witness only composes them.
\<close>

section \<open>Runs of completed calls\<close>

fun complete_run :: "externals \<Rightarrow> session_lifecycle_store \<Rightarrow> store_call list \<Rightarrow> store_disk \<Rightarrow> store_disk option" where
  "complete_run X self [] d = Some d"
| "complete_run X self (c # cs) d =
     (case call_effects X self c d of Inl _ \<Rightarrow> None | Inr es \<Rightarrow> complete_run X self cs (perform es d))"

lemma complete_run_store_run:
  "complete_run X self cs d = Some d' \<Longrightarrow> store_run X self d cs d'"
proof (induction cs arbitrary: d)
  case Nil
  then show ?case by (simp add: store_run.run_nil)
next
  case (Cons c cs)
  then obtain es where es: "call_effects X self c d = Inr es" "complete_run X self cs (perform es d) = Some d'"
    by (auto split: sum.splits)
  from store_run_trans [OF store_run_single [OF store_step.step [OF es(1) effects_cut_full]] Cons.IH [OF es(2)]]
  show ?case by simp
qed

lemma complete_run_append:
  "complete_run X self (cs @ cs') d = Option.bind (complete_run X self cs d) (complete_run X self cs')"
  by (induction cs arbitrary: d) (simp_all split: sum.split)

section \<open>The sample\<close>

abbreviation rx :: externals where
  "rx \<equiv> reference_externals"

definition sample_store :: session_lifecycle_store where
  "sample_store = \<lparr>st_root = ''/s'', st_commander_session_id = ''cmd'', st_config = config_default\<rparr>"

definition sample_receipt :: "string \<Rightarrow> u64 \<Rightarrow> terminal_receipt" where
  "sample_receipt event_id sequence = receipt_new
     \<lparr>ti_transaction_id = ''t'', ti_event_id = event_id, ti_event_seq = sequence, ti_commander_session_id = ''cmd'',
      ti_child_session_id = ''child'', ti_runtime_id = ''rt'', ti_lease_id = ''ls''\<rparr> TCompleted 1"

definition zero_digest :: string where
  "zero_digest = replicate 64 (CHR ''0'')"

definition sample_callback :: durable_callback_record where
  "sample_callback = (callback_new rx (sample_receipt ''e'' 0) (JString ''done'') JNull zero_digest zero_digest
     (ExactEffect ''rt.message''))\<lparr>cb_commander_thread_id := Some ''th'',
        cb_callback_delivery_route := Some TrustedTuraDirectThreadWriter\<rparr>"

definition sample_continuation :: continuation_dispatch_record where
  "sample_continuation = (case continuation_from_callback rx sample_callback of Inr r \<Rightarrow> r | Inl _ \<Rightarrow> undefined)"

text \<open>The digests of the sample, by the parity of what is hashed.\<close>

definition even_digest :: string where
  "even_digest = replicate 60 (CHR ''0'') @ ''a100''"

definition odd_digest :: string where
  "odd_digest = replicate 60 (CHR ''0'') @ ''a1ff''"

lemma sample_callback_code [code]:
  "sample_callback = \<lparr>cb_schema_version = CALLBACK_SCHEMA, cb_transaction_id = ''t'', cb_event_id = ''e'',
     cb_commander_session_id = ''cmd'', cb_child_session_id = ''child'', cb_runtime_id = ''rt'', cb_lease_id = ''ls'',
     cb_terminal_receipt_sha256 = even_digest, cb_terminal_state = TCompleted,
     cb_callback_payload = JString ''done'', cb_callback_payload_sha256 = even_digest,
     cb_transport_payload = JNull, cb_transport_payload_sha256 = even_digest,
     cb_parent_mission_revision_sha256 = zero_digest, cb_commander_thread_id = Some ''th'',
     cb_callback_delivery_route = Some TrustedTuraDirectThreadWriter, cb_delegated_input_sha256 = zero_digest,
     cb_effect_identity = ExactEffect ''rt.message''\<rparr>"
  by code_simp

lemma sample_continuation_code [code]:
  "sample_continuation = \<lparr>cd_schema_version = CONTINUATION_SCHEMA,
     cd_request_id = ''callback-continuation-request-'' @ odd_digest,
     cd_runtime_id = ''callback-continuation-runtime-'' @ odd_digest,
     cd_lease_id = ''callback-continuation-lease-'' @ odd_digest,
     cd_commander_session_id = ''cmd'', cd_child_session_id = ''child'', cd_child_transaction_id = ''t'',
     cd_child_event_id = ''e'', cd_child_runtime_id = ''rt'', cd_callback_payload_sha256 = even_digest,
     cd_parent_mission_revision_sha256 = zero_digest, cd_commander_thread_id = Some ''th'',
     cd_callback_delivery_route = Some TrustedTuraDirectThreadWriter, cd_delegated_input_sha256 = zero_digest,
     cd_effect_identity = ExactEffect ''rt.message'',
     cd_parent_input = continuation_parent_input sample_callback TrustedTuraDirectThreadWriter ''th'' ''MISSION_VERIFICATION'',
     cd_requested_action = ''MISSION_VERIFICATION'', cd_convergence_proof = None,
     cd_direct_delivery_call_id = None, cd_delivered_message_sha256 = None,
     cd_direct_delivery_result = None, cd_state = Prepared\<rparr>"
  by code_simp


section \<open>The disks\<close>

definition sample_key :: string where
  "sample_key = odd_digest @ ''.json''"

definition sample_stored :: "string \<Rightarrow> u64 \<Rightarrow> string \<Rightarrow> stored_receipt stored_file" where
  "sample_stored event_id sequence digest = Record
     \<lparr>sto_schema_version = STORED_RECEIPT_SCHEMA, sto_payload_sha256 = digest, sto_receipt = sample_receipt event_id sequence\<rparr>"

definition applied_disk :: store_disk where
  "applied_disk = empty_disk\<lparr>sd_applied_receipts := [(sample_key, sample_stored ''e'' 0 even_digest)]\<rparr>"

definition receipts_disk :: store_disk where
  "receipts_disk = empty_disk\<lparr>sd_applied_receipts :=
     [(sample_key, sample_stored ''e'' 0 even_digest), (even_digest @ ''.json'', sample_stored ''ev'' 1 odd_digest)]\<rparr>"

definition published_disk :: store_disk where
  "published_disk = applied_disk\<lparr>sd_pending_callbacks := [(sample_key, Record sample_callback)]\<rparr>"

definition intaken_disk :: store_disk where
  "intaken_disk = applied_disk\<lparr>sd_intaken_callbacks := [(sample_key, Record sample_callback)]\<rparr>"

definition continuation_disk :: "continuation_dispatch_record \<Rightarrow> store_disk" where
  "continuation_disk r = intaken_disk\<lparr>sd_continuations := [(sample_key, Record r)]\<rparr>"

definition begun_continuation :: continuation_dispatch_record where
  "begun_continuation = sample_continuation\<lparr>cd_direct_delivery_call_id := Some (cd_request_id sample_continuation),
     cd_delivered_message_sha256 := Some odd_digest, cd_state := DeliveryUnsettled\<rparr>"

definition settled_continuation :: continuation_dispatch_record where
  "settled_continuation = begun_continuation\<lparr>cd_direct_delivery_result :=
     Some \<lparr>de_kind = Reconciled, de_evidence_sha256 = even_digest\<rparr>, cd_state := Dispatched\<rparr>"

definition acknowledged_disk :: store_disk where
  "acknowledged_disk = (continuation_disk (settled_continuation\<lparr>cd_state := DAcknowledged\<rparr>))\<lparr>sd_acknowledged_callbacks :=
     [(sample_key, Record \<lparr>ka_schema_version = CALLBACK_ACK_SCHEMA, ka_record = sample_callback\<rparr>)]\<rparr>"

section \<open>The steps\<close>

definition sample_receipt_calls :: "store_call list" where
  "sample_receipt_calls =
     [CallWriteReceipt (sample_receipt ''ev'' 1), CallWriteReceipt (sample_receipt ''e'' 0),
      CallIntake ''t'' ''e'', CallIntake ''t'' ''ev'']"

abbreviation payload_digest :: string where
  "payload_digest \<equiv> cb_callback_payload_sha256 sample_callback"

lemma run_receipts: "complete_run rx sample_store sample_receipt_calls empty_disk = Some receipts_disk"
  by code_simp

lemma run_applied:
  "complete_run rx sample_store [CallWriteReceipt (sample_receipt ''e'' 0), CallIntake ''t'' ''e''] empty_disk = Some applied_disk"
  by code_simp

lemma run_published: "complete_run rx sample_store [CallPublish sample_callback] applied_disk = Some published_disk"
  by code_simp

lemma run_intaken:
  "complete_run rx sample_store [CallMarkIntaken ''t'' ''e'' payload_digest] published_disk = Some intaken_disk"
  by code_simp

lemma sample_valid: "validate_continuation_unlocked rx sample_store sample_continuation intaken_disk = Inr ()"
  by code_simp

lemma sample_continuation_key: "continuation_key rx sample_continuation = sample_key"
  by code_simp

lemma run_prepared:
  "complete_run rx sample_store [CallPrepare sample_continuation] intaken_disk = Some (continuation_disk sample_continuation)"
proof -
  have "continuation_writer_binding sample_continuation = Inr ()" by code_simp
  moreover have "sd_continuations intaken_disk = []" by (simp add: intaken_disk_def applied_disk_def empty_disk_def)
  ultimately show ?thesis
    by (simp add: call_effects_def validate_continuation_lock_state [of rx sample_store _ False] sample_valid
        prepare_callback_continuation_locked_def exists_file_def sample_continuation_key continuation_disk_def write_file_def)
qed

text \<open>
  The further calls on the continuation are evaluated over the facts of the specification: the record stays
  valid along its steps, so no digest is computed again.
\<close>

lemma continuation_disk_sel [simp]:
  "sd_intaken_callbacks (continuation_disk r) = sd_intaken_callbacks intaken_disk"
  "sd_applied_receipts (continuation_disk r) = sd_applied_receipts intaken_disk"
  "sd_pending_receipts (continuation_disk r) = sd_pending_receipts intaken_disk"
  "sd_continuations (continuation_disk r) = [(sample_key, Record r)]"
  by (simp_all add: continuation_disk_def)

lemma valid_on_continuation_disk:
  "validate_continuation_unlocked rx sample_store q (continuation_disk r) =
     validate_continuation_unlocked rx sample_store q intaken_disk"
proof -
  have "terminal_receipt_unlocked rx sample_store a b (continuation_disk r) = terminal_receipt_unlocked rx sample_store a b intaken_disk" for a b
    by (simp add: terminal_receipt_unlocked_def read_applied_def read_pending_def Let_def)
  then have "validate_callback_unlocked rx sample_store c (continuation_disk r) = validate_callback_unlocked rx sample_store c intaken_disk" for c
    by (simp add: validate_callback_with_lock_state_def)
  then show ?thesis by (simp add: validate_continuation_with_lock_state_def validate_continuation_callback_def)
qed

lemma begun_step: "continuation_step rx sample_continuation begun_continuation"
proof -
  have "sha256_hex rx ''hello'' = odd_digest" "cd_state sample_continuation = Prepared" by code_simp+
  then show ?thesis using delivery_begun [of sample_continuation rx "''hello''"] by (simp add: begun_continuation_def)
qed

lemma settled_step: "continuation_step rx begun_continuation settled_continuation"
proof -
  have "canonical_value_sha256 rx (JString ''seen'') = even_digest" by code_simp
  then show ?thesis using delivery_settled [of begun_continuation rx Reconciled "JString ''seen''"]
    by (simp add: settled_continuation_def begun_continuation_def)
qed

lemma completed_step: "continuation_step rx settled_continuation (settled_continuation\<lparr>cd_state := DCompleted\<rparr>)"
  by (rule completed) (simp_all add: settled_continuation_def result_kind_is_def)

lemmas sample_steps = begun_step settled_step completed_step

lemmas sample_step_valid =
  sample_valid
  ref_digest.continuation_step_valid [OF begun_step sample_valid]
  ref_digest.continuation_step_valid [OF settled_step ref_digest.continuation_step_valid [OF begun_step sample_valid]]
  ref_digest.continuation_step_valid [OF completed_step
    ref_digest.continuation_step_valid [OF settled_step ref_digest.continuation_step_valid [OF begun_step sample_valid]]]

lemmas sample_bound = begun_step [THEN continuation_step_bound] settled_step [THEN continuation_step_bound]
  completed_step [THEN continuation_step_bound]

lemma match_bound: "bound_fields a = bound_fields b \<Longrightarrow> continuation_bound_fields_match a b"
  by (simp add: continuation_bound_fields_match_def continuation_eq_def)

lemma sample_existing:
  assumes "validate_continuation_unlocked rx sample_store r intaken_disk = Inr ()"
    and "bound_fields r = bound_fields sample_continuation"
  shows "existing_continuation rx sample_store sample_continuation (continuation_disk r) = Inr r"
  by (simp add: existing_continuation_iff sample_continuation_key valid_on_continuation_disk assms(1) match_bound [OF assms(2)])

lemmas sample_existings =
  sample_existing [OF sample_step_valid(1) refl]
  sample_existing [OF sample_step_valid(2), unfolded sample_bound, OF refl]
  sample_existing [OF sample_step_valid(3), unfolded sample_bound, OF refl]
  sample_existing [OF sample_step_valid(4), unfolded sample_bound, OF refl]

lemmas sample_call_simps = call_effects_def validate_continuation_lock_state [of rx sample_store _ False]
  valid_on_continuation_disk sample_valid sample_existings sample_continuation_key

lemma continuation_disk_write:
  "(continuation_disk r)\<lparr>sd_continuations := write_file sample_key q [(sample_key, Record r)]\<rparr> = continuation_disk q"
  by (simp add: continuation_disk_def write_file_def)

lemma run_begun:
  "complete_run rx sample_store [CallBeginDelivery sample_continuation ''hello''] (continuation_disk sample_continuation) =
     Some (continuation_disk begun_continuation)"
proof -
  have "sha256_hex rx ''hello'' = odd_digest" "cd_state sample_continuation = Prepared" by code_simp+
  then show ?thesis
    by (simp add: sample_call_simps begin_direct_delivery_locked_def continuation_disk_write begun_continuation_def)
qed

lemma run_settled:
  "complete_run rx sample_store [CallSettleDelivery sample_continuation Reconciled (JString ''seen'')]
     (continuation_disk begun_continuation) = Some (continuation_disk settled_continuation)"
proof -
  have "canonical_value_sha256 rx (JString ''seen'') = even_digest" "cd_state begun_continuation = DeliveryUnsettled"
    by code_simp+
  then show ?thesis
    by (simp add: sample_call_simps settle_direct_delivery_locked_def continuation_disk_write settled_continuation_def Let_def)
qed

lemma run_completed:
  "complete_run rx sample_store [CallTransition sample_continuation DCompleted] (continuation_disk settled_continuation) =
     Some (continuation_disk (settled_continuation\<lparr>cd_state := DCompleted\<rparr>))"
proof -
  have "cd_state settled_continuation = Dispatched" "result_kind_is Reconciled settled_continuation"
    by (simp_all add: settled_continuation_def result_kind_is_def)
  then show ?thesis
    by (simp add: sample_call_simps transition_continuation_locked_def completion_proof_check_def continuation_disk_write)
qed

lemma run_acknowledged:
  "complete_run rx sample_store [CallTransition sample_continuation DAcknowledged]
     (continuation_disk (settled_continuation\<lparr>cd_state := DCompleted\<rparr>)) =
     Some (continuation_disk (settled_continuation\<lparr>cd_state := DAcknowledged\<rparr>))"
  by (simp add: sample_call_simps transition_continuation_locked_def completion_proof_check_def continuation_disk_write)

lemma run_callback_acknowledged:
  "complete_run rx sample_store [CallAcknowledgeCallback ''t'' ''e'' payload_digest (ExactEffect ''rt.message'')]
     (continuation_disk (settled_continuation\<lparr>cd_state := DAcknowledged\<rparr>)) = Some acknowledged_disk"
  by code_simp

definition sample_callback_calls :: "store_call list" where
  "sample_callback_calls =
     [CallWriteReceipt (sample_receipt ''e'' 0), CallIntake ''t'' ''e'', CallPublish sample_callback,
      CallMarkIntaken ''t'' ''e'' payload_digest]"

definition sample_begin_calls :: "store_call list" where
  "sample_begin_calls = [CallPrepare sample_continuation, CallBeginDelivery sample_continuation ''hello'']"

definition sample_settle_calls :: "store_call list" where
  "sample_settle_calls =
     [CallSettleDelivery sample_continuation Reconciled (JString ''seen''),
      CallTransition sample_continuation DCompleted, CallTransition sample_continuation DAcknowledged,
      CallAcknowledgeCallback ''t'' ''e'' payload_digest (ExactEffect ''rt.message'')]"

lemma complete_run_Cons:
  "complete_run X self [c] d = Some d' \<Longrightarrow> complete_run X self (c # cs) d = complete_run X self cs d'"
  using complete_run_append [of X self "[c]" cs d] by simp

lemma sample_complete_runs:
  "complete_run rx sample_store sample_callback_calls empty_disk = Some intaken_disk"
  "complete_run rx sample_store sample_begin_calls intaken_disk = Some (continuation_disk begun_continuation)"
  "complete_run rx sample_store sample_settle_calls (continuation_disk begun_continuation) = Some acknowledged_disk"
proof -
  have "complete_run rx sample_store sample_callback_calls empty_disk =
      Option.bind (Some applied_disk) (complete_run rx sample_store [CallPublish sample_callback, CallMarkIntaken ''t'' ''e'' payload_digest])"
    using complete_run_append [of rx sample_store "[CallWriteReceipt (sample_receipt ''e'' 0), CallIntake ''t'' ''e'']" _ empty_disk]
    by (simp add: sample_callback_calls_def run_applied del: complete_run.simps)
  then show "complete_run rx sample_store sample_callback_calls empty_disk = Some intaken_disk"
    by (simp add: complete_run_Cons [OF run_published] run_intaken del: complete_run.simps(2))
  show "complete_run rx sample_store sample_begin_calls intaken_disk = Some (continuation_disk begun_continuation)"
    by (simp add: sample_begin_calls_def complete_run_Cons [OF run_prepared] run_begun del: complete_run.simps(2))
  show "complete_run rx sample_store sample_settle_calls (continuation_disk begun_continuation) = Some acknowledged_disk"
    by (simp add: sample_settle_calls_def complete_run_Cons [OF run_settled] complete_run_Cons [OF run_completed]
        complete_run_Cons [OF run_acknowledged] run_callback_acknowledged del: complete_run.simps(2))
qed

lemmas sample_runs = run_receipts [THEN complete_run_store_run] sample_complete_runs [THEN complete_run_store_run]

end
