(* ===== verification/Store_Properties.thy ===== *)
theory Store_Properties
  imports Store_Delivery Store_Replay Store_Deck Store_Samples
begin

text \<open>
  The promises of the lifecycle store, over every sequence of calls by any number of processes in which any
  call may be cut short after any of its writes. \<open>digest_laws X\<close> is the shape of a printed SHA-256 digest.
\<close>

section \<open>Receipts\<close>

text \<open>
  C7: along every run the applied receipts of each transaction are numbered 0, 1, 2 and so on without a gap or
  a duplicate, and the next number the store expects is their count, provided no two receipts of the run have
  the same file name.
\<close>

theorem receipts_gap_free:
  assumes "digest_laws X" "store_run X self empty_disk cs d" "distinct_keys X (run_receipt_identities cs)"
    and "length (sd_applied_receipts d) < 2 ^ 64"
  shows "sort (applied_sequences d t) = map of_nat [0..<length (applied_sequences d t)] \<and>
    next_receipt_event_sequence_unlocked X self t d = Inr (of_nat (length (applied_sequences d t)))"
proof
  have inv: "store_inv X self d" using digest_laws.store_run_inv [OF assms(1,2) store_inv_empty] .
  have "sequences_inv X (run_receipt_identities cs) d"
    using digest_laws.store_run_sequences [OF assms(1,2) store_inv_empty sequences_inv_empty assms(3) order_refl assms(4)] .
  then have gf: "gap_free (applied_sequences d t)" by (simp add: sequences_inv_def)
  show "sort (applied_sequences d t) = map of_nat [0..<length (applied_sequences d t)]"
    using gap_free_sort(1) [OF gf] length_applied_sequences [of d t] assms(4) by simp
  show "next_receipt_event_sequence_unlocked X self t d = Inr (of_nat (length (applied_sequences d t)))"
    using inv gf assms(4) by (intro next_sequence_gap_free) (simp_all add: store_inv_def)
qed

text \<open>The receipts of the sample, written in the wrong order.\<close>

lemma sample_distinct_keys: "distinct_keys rx (run_receipt_identities sample_receipt_calls)"
proof -
  have "receipt_key rx ''t'' ''e'' \<noteq> receipt_key rx ''t'' ''ev''" by code_simp
  moreover have "run_receipt_identities sample_receipt_calls = {(''t'', ''e''), (''t'', ''ev'')}"
    by (auto simp: run_receipt_identities_def sample_receipt_calls_def receipt_identity_def sample_receipt_def receipt_new_def)
  ultimately show ?thesis by (simp add: distinct_keys_def)
qed

theorem receipts_gap_free_witness:
  "sort (applied_sequences receipts_disk ''t'') = map of_nat [0..<length (applied_sequences receipts_disk ''t'')] \<and>
   next_receipt_event_sequence_unlocked rx sample_store ''t'' receipts_disk = Inr (of_nat (length (applied_sequences receipts_disk ''t''))) \<and>
   length (applied_sequences receipts_disk ''t'') = 2"
proof -
  have "length (sd_applied_receipts receipts_disk) < 2 ^ 64" by (simp add: receipts_disk_def)
  note facts = receipts_gap_free [OF ref_digest.digest_laws_axioms sample_runs(1) sample_distinct_keys this, of "''t''"]
  have "length (applied_sequences receipts_disk ''t'') = 2" by code_simp
  with facts show ?thesis by simp
qed

text \<open>
  C29: replaying the pending receipts applies every one of them and leaves none pending, whatever crashes left
  some of them in both places, when the receipts that are not applied yet continue the numbering without a gap.
\<close>

theorem replay_applies_all:
  assumes "digest_laws X" "store_run X self empty_disk cs d" "distinct_keys X (run_receipt_identities cs)"
    and "\<And>t. gap_free (applied_sequences d t @ unapplied X d t (pending_receipts d))"
    and "length (sd_applied_receipts d) + length (sd_pending_receipts d) < 2 ^ 64"
  shows "\<exists>outs d'. replay_pending X self d = (Inr outs, d') \<and>
    mset (map (\<lambda>(t, e, out). (t, e)) outs) = mset (map receipt_identity (pending_receipts d)) \<and>
    (\<forall>(t, e, out)\<in>set outs. settled_outcome out) \<and> replayed X d (pending_receipts d) d'"
proof (rule replay_pending_drains)
  show "receipts_inv X self d"
    using digest_laws.store_run_inv [OF assms(1,2) store_inv_empty] by (simp add: store_inv_def)
  show "distinct (map fst (sd_pending_receipts d))"
    by (rule pending_distinct_run [OF assms(2)]) (simp add: empty_disk_def)
  show "gap_free (applied_sequences d t)" for t
    using digest_laws.store_run_sequences [OF assms(1,2) store_inv_empty sequences_inv_empty assms(3) order_refl] assms(5)
    by (simp add: sequences_inv_def)
qed (use assms(4,5) in blast)+

definition written_disk :: store_disk where
  "written_disk = empty_disk\<lparr>sd_pending_receipts :=
     [(even_digest @ ''.json'', sample_stored ''ev'' 1 odd_digest), (sample_key, sample_stored ''e'' 0 even_digest)]\<rparr>"

lemma run_written:
  "complete_run rx sample_store [CallWriteReceipt (sample_receipt ''ev'' 1), CallWriteReceipt (sample_receipt ''e'' 0)] empty_disk =
     Some written_disk"
  by code_simp

theorem replay_applies_all_witness:
  "\<exists>outs d'. replay_pending rx sample_store written_disk = (Inr outs, d') \<and>
    mset (map (\<lambda>(t, e, out). (t, e)) outs) = mset (map receipt_identity (pending_receipts written_disk)) \<and>
    (\<forall>(t, e, out)\<in>set outs. settled_outcome out) \<and> replayed rx written_disk (pending_receipts written_disk) d'"
proof (rule replay_applies_all [OF ref_digest.digest_laws_axioms complete_run_store_run [OF run_written]])
  show "distinct_keys rx (run_receipt_identities [CallWriteReceipt (sample_receipt ''ev'' 1), CallWriteReceipt (sample_receipt ''e'' 0)])"
    using sample_distinct_keys by (rule distinct_keys_subset) (auto simp: run_receipt_identities_def sample_receipt_calls_def)
  show "length (sd_applied_receipts written_disk) + length (sd_pending_receipts written_disk) < 2 ^ 64"
    by (simp add: written_disk_def empty_disk_def)
  have p: "pending_receipts written_disk = [sample_receipt ''ev'' 1, sample_receipt ''e'' 0]" by code_simp
  have a: "sd_applied_receipts written_disk = []" by (simp add: written_disk_def empty_disk_def)
  then have "unapplied rx written_disk t (pending_receipts written_disk) = (if t = ''t'' then [1, 0] else [])" for t
    unfolding p by (simp add: unapplied_def sample_receipt_def receipt_new_def)
  moreover have "gap_free [1, 0]" "gap_free []" by (simp_all add: gap_free_def upt_rec)
  ultimately show "gap_free (applied_sequences written_disk t @ unapplied rx written_disk t (pending_receipts written_disk))" for t
    by (simp add: applied_sequences_def a map_filter_simps)
qed




section \<open>Every file\<close>

text \<open>
  C27: the receipts, callbacks, continuations and admissions that a run can leave behind are well-formed: they are
  readable, stored under the name of their identity and pass the validation of their kind; a pending copy of an applied
  receipt or an intaken callback is equal to it; an acknowledgement of a receipt and a slot release belong to the applied
  receipt of the same name and repeat its number or its identities; and an acknowledgement of a callback holds the
  intaken callback, whose effect is settled. Checkpoints, identity failures, blockers and the readback files are not
  covered.
\<close>

theorem store_well_formed:
  assumes "digest_laws X" "store_run X self empty_disk cs d"
  shows "store_inv X self d"
  using digest_laws.store_run_inv [OF assms store_inv_empty] .

theorem store_well_formed_witness: "store_inv rx sample_store intaken_disk"
  using store_well_formed [OF ref_digest.digest_laws_axioms sample_runs(2)] .

text \<open>
  C28: nothing durable is lost or rewritten: along every run the applied receipts, acknowledgements, admissions,
  intaken callbacks and slot releases are kept as they are, and a receipt that can be looked up stays the same.
\<close>

theorem durable_records_kept:
  assumes "digest_laws X" "store_run X self empty_disk cs d" "store_run X self d cs' d'"
  shows "durable_kept d d' \<and>
    (terminal_receipt_unlocked X self t e d = Inr r \<longrightarrow> terminal_receipt_unlocked X self t e d' = Inr r)"
proof (intro conjI impI)
  have inv: "store_inv X self d" using digest_laws.store_run_inv [OF assms(1,2) store_inv_empty] .
  show "durable_kept d d'" using digest_laws.durable_kept_run [OF assms(1,3) inv] .
  show "terminal_receipt_unlocked X self t e d' = Inr r" if "terminal_receipt_unlocked X self t e d = Inr r"
    using digest_laws.terminal_receipt_run [OF assms(1,3) inv that] .
qed

theorem durable_records_kept_witness:
  "durable_kept intaken_disk (continuation_disk begun_continuation) \<and>
   terminal_receipt_unlocked rx sample_store ''t'' ''e'' (continuation_disk begun_continuation) = Inr (sample_receipt ''e'' 0)"
proof -
  have "terminal_receipt_unlocked rx sample_store ''t'' ''e'' intaken_disk = Inr (sample_receipt ''e'' 0)" by code_simp
  then show ?thesis using durable_records_kept [OF ref_digest.digest_laws_axioms sample_runs(2,3)] by blast
qed

text \<open>
  C31: taking the checks of a call before the lock is safe: every interleaving in which calls make their checks
  at one time and their locked part at a later one is a run in which each call does both at once.
\<close>

theorem checks_before_lock_safe:
  assumes "digest_laws X" "interleaved_run X self (empty_disk, {}) cs (d, waiting)"
  shows "store_run X self empty_disk cs d"
  using digest_laws.interleaved_refines [OF assms] store_inv_empty by simp

theorem checks_before_lock_safe_witness:
  "store_run rx sample_store empty_disk [CallWriteReceipt (sample_receipt ''e'' 0)]
     (perform [WritePendingReceipt sample_key (stored_receipt_of rx (sample_receipt ''e'' 0))] empty_disk)"
proof -
  let ?c = "CallWriteReceipt (sample_receipt ''e'' 0)"
  let ?es = "[WritePendingReceipt sample_key (stored_receipt_of rx (sample_receipt ''e'' 0))]"
  have "call_locked rx sample_store ?c empty_disk = Inr ?es" by code_simp
  then have "interleaved_step rx sample_store (empty_disk, {?c}) (Some ?c) (perform ?es empty_disk, {?c})"
    by (rule interleaved_step.locked [OF insertI1 _ effects_cut_full])
  moreover have "interleaved_step rx sample_store (empty_disk, {}) None (empty_disk, {?c})"
    by (rule interleaved_step.checked) simp
  ultimately have "interleaved_run rx sample_store (empty_disk, {}) ([] @ [?c]) (perform ?es empty_disk, {?c})"
    by (blast intro: interleaved_run.intros)
  from checks_before_lock_safe [OF ref_digest.digest_laws_axioms this] show ?thesis by simp
qed

section \<open>Callbacks and continuations\<close>

text \<open>
  C19: an acknowledged callback was taken in as the same record, its effect is settled, its payload has the
  digest it names and is not the delegated input echoed back, and the durable terminal receipt of the same
  event names the same commander, child, runtime, lease and terminal state and has the digest the callback names.
\<close>

theorem acknowledged_callback_sound:
  assumes "digest_laws X" "store_run X self empty_disk cs d"
    and "map_of (sd_acknowledged_callbacks d) k = Some (Record a)"
  defines "c \<equiv> ka_record a"
  shows "map_of (sd_intaken_callbacks d) k = Some (Record c) \<and> k = receipt_key X (cb_transaction_id c) (cb_event_id c) \<and>
    \<not> effect_unsettled (cb_effect_identity c) \<and>
    canonical_value_sha256 X (cb_callback_payload c) = cb_callback_payload_sha256 c \<and>
    cb_callback_payload_sha256 c \<noteq> cb_delegated_input_sha256 c \<and>
    (\<exists>r. terminal_receipt_unlocked X self (cb_transaction_id c) (cb_event_id c) d = Inr r \<and>
       tr_commander_session_id r = cb_commander_session_id c \<and> tr_child_session_id r = cb_child_session_id c \<and>
       tr_runtime_id r = cb_runtime_id c \<and> tr_lease_id r = cb_lease_id c \<and>
       tr_terminal_state r = cb_terminal_state c \<and> payload_sha256 X r = cb_terminal_receipt_sha256 c)"
proof -
  have inv: "callbacks_inv X self d"
    using digest_laws.store_run_inv [OF assms(1,2) store_inv_empty] by (simp add: store_inv_def)
  then have i: "map_of (sd_intaken_callbacks d) k = Some (Record c)" "\<not> effect_unsettled (cb_effect_identity c)"
    using assms(3) unfolding callbacks_inv_def c_def by fastforce+
  then have ok: "callback_file_ok X self d k (Record c)" using inv by (simp add: callbacks_inv_def)
  then have "validate_callback_shape X self c = Inr ()"
    by (simp add: callback_file_ok_def validate_callback_iff)
  then have "canonical_value_sha256 X (cb_callback_payload c) = cb_callback_payload_sha256 c"
    "cb_callback_payload_sha256 c \<noteq> cb_delegated_input_sha256 c"
    by (auto simp: validate_callback_shape_def result_simps)
  with i ok show ?thesis
    by (auto simp: callback_file_ok_def validate_callback_iff receipt_conflicts_def terminal_receipt_sha256_def)
qed

lemma sample_full_run:
  "store_run rx sample_store empty_disk (sample_callback_calls @ sample_begin_calls @ sample_settle_calls) acknowledged_disk"
  using store_run_trans [OF sample_runs(2) store_run_trans [OF sample_runs(3,4)]] .

theorem acknowledged_callback_sound_witness:
  "map_of (sd_acknowledged_callbacks acknowledged_disk) sample_key =
     Some (Record \<lparr>ka_schema_version = CALLBACK_ACK_SCHEMA, ka_record = sample_callback\<rparr>) \<and>
   (\<exists>r. terminal_receipt_unlocked rx sample_store (cb_transaction_id sample_callback) (cb_event_id sample_callback) acknowledged_disk = Inr r \<and>
      tr_child_session_id r = cb_child_session_id sample_callback)"
proof -
  have "map_of (sd_acknowledged_callbacks acknowledged_disk) sample_key =
      Some (Record \<lparr>ka_schema_version = CALLBACK_ACK_SCHEMA, ka_record = sample_callback\<rparr>)"
    by (simp add: acknowledged_disk_def)
  from acknowledged_callback_sound [OF ref_digest.digest_laws_axioms sample_full_run this] this show ?thesis by auto
qed

text \<open>
  C8: a continuation is sent at most once: after the store has once answered that a delivery may begin and that
  answer was recorded, no later call for the same callback is told so again, whatever calls, crashes and
  restarts come between.
\<close>

theorem delivery_begun_once:
  assumes "digest_laws X" "store_run X self empty_disk cs d"
    and "begin_callback_continuation_direct_delivery X self r m d = Inr (OutPrepared, es)"
    and "store_run X self (perform es d) cs' d'" "continuation_key X r' = continuation_key X r"
  shows "begin_callback_continuation_direct_delivery X self r' m' d' \<noteq> Inr (OutPrepared, es')"
proof -
  have "store_step X self (CallBeginDelivery r m) d (perform es d)"
    by (rule store_step.step [OF _ effects_cut_full]) (simp add: call_effects_operations assms(3))
  then have inv: "store_inv X self (perform es d)"
    using digest_laws.store_step_inv [OF assms(1)] digest_laws.store_run_inv [OF assms(1,2) store_inv_empty] by blast
  have "begun_at (continuation_key X r') d'"
    using digest_laws.begun_at_run [OF assms(1,4) inv begin_begins [OF assms(3)]] assms(5) by simp
  then show ?thesis by (rule begin_not_again)
qed

theorem delivery_begun_once_witness:
  "begin_callback_continuation_direct_delivery rx sample_store sample_continuation ''again'' acknowledged_disk \<noteq> Inr (OutPrepared, [])"
proof -
  let ?d = "continuation_disk sample_continuation"
  have run: "store_run rx sample_store empty_disk (sample_callback_calls @ [CallPrepare sample_continuation]) ?d"
    using store_run_trans [OF sample_runs(2) complete_run_store_run [OF run_prepared]] .
  have step: "begin_callback_continuation_direct_delivery rx sample_store sample_continuation ''hello'' ?d =
      Inr (OutPrepared, [WriteContinuation sample_key begun_continuation])"
  proof -
    have "sha256_hex rx ''hello'' = odd_digest" "cd_state sample_continuation = Prepared" by code_simp+
    then show ?thesis
      by (simp add: begin_callback_continuation_direct_delivery_def sample_call_simps begin_direct_delivery_locked_def
          begun_continuation_def)
  qed
  have "perform [WriteContinuation sample_key begun_continuation] ?d = continuation_disk begun_continuation"
    by (simp add: continuation_disk_write)
  then have "store_run rx sample_store (perform [WriteContinuation sample_key begun_continuation] ?d) sample_settle_calls acknowledged_disk"
    using sample_runs(4) by simp
  from delivery_begun_once [OF ref_digest.digest_laws_axioms run step this refl] show ?thesis .
qed

text \<open>
  C18: a continuation is completed or acknowledged only on evidence: its message was delivered under its own
  request identity, and the delivery was reconciled with the commander or a valid convergence proof bound to
  this request was recorded, provided every continuation was handed to the store in its initial state.
\<close>

theorem completed_continuation_grounded:
  assumes "digest_laws X" "store_run X self empty_disk cs d"
    and "\<And>r. CallPrepare r \<in> set cs \<Longrightarrow> cd_state r = Prepared"
    and "map_of (sd_continuations d) k = Some (Record r)" "cd_state r \<in> {DCompleted, DAcknowledged}"
  shows "cd_direct_delivery_call_id r = Some (cd_request_id r) \<and> cd_delivered_message_sha256 r \<noteq> None \<and>
    (result_kind_is Reconciled r \<or> (\<exists>p. cd_convergence_proof r = Some p \<and> validate_convergence_proof X r p = Inr ()))"
  using digest_laws.grounded_run [OF assms(1-3)] assms(4,5) by (auto simp: grounded_def completion_grounded_def)

theorem completed_continuation_grounded_witness:
  "result_kind_is Reconciled (settled_continuation\<lparr>cd_state := DAcknowledged\<rparr>) \<or>
   (\<exists>p. cd_convergence_proof (settled_continuation\<lparr>cd_state := DAcknowledged\<rparr>) = Some p)"
proof -
  have "cd_state r = Prepared" if "CallPrepare r \<in> set (sample_callback_calls @ sample_begin_calls @ sample_settle_calls)" for r
  proof -
    have "r = sample_continuation"
      using that by (auto simp: sample_callback_calls_def sample_begin_calls_def sample_settle_calls_def)
    moreover have "cd_state sample_continuation = Prepared" by code_simp
    ultimately show ?thesis by simp
  qed
  moreover have "map_of (sd_continuations acknowledged_disk) sample_key = Some (Record (settled_continuation\<lparr>cd_state := DAcknowledged\<rparr>))"
    by (simp add: acknowledged_disk_def)
  moreover have "cd_state (settled_continuation\<lparr>cd_state := DAcknowledged\<rparr>) \<in> {DCompleted, DAcknowledged}" by simp
  ultimately show ?thesis
    using completed_continuation_grounded [OF ref_digest.digest_laws_axioms sample_full_run] by blast
qed

text \<open>
  the store does not demand the initial state: preparing a continuation that claims to be delivered and
  completed already is answered as prepared, and the record is stored as it was given.
\<close>

theorem prepare_accepts_any_state:
  assumes "validate_continuation X self r d = Inr ()" "continuation_writer_binding r = Inr ()"
    and "map_of (sd_continuations d) (continuation_key X r) = None"
  shows "prepare_callback_continuation X self r d = Inr (OutPrepared, [WriteContinuation (continuation_key X r) r])"
  using assms
  by (simp add: prepare_callback_continuation_def prepare_callback_continuation_locked_def exists_file_def)

theorem prepare_accepts_any_state_witness:
  "\<exists>r. cd_state r = DCompleted \<and> prepare_callback_continuation rx sample_store r intaken_disk =
     Inr (OutPrepared, [WriteContinuation (continuation_key rx r) r])"
proof -
  let ?r = "settled_continuation\<lparr>cd_state := DCompleted\<rparr>"
  have b: "bound_fields ?r = bound_fields sample_continuation"
    using continuation_step_bound [OF completed_step] continuation_step_bound [OF settled_step]
      continuation_step_bound [OF begun_step] by simp
  have "continuation_writer_binding sample_continuation = Inr ()" by code_simp
  then have "continuation_writer_binding ?r = Inr ()" using bound_validations(6) [OF b] by simp
  moreover have "validate_continuation rx sample_store ?r intaken_disk = Inr ()"
    using sample_step_valid(4) validate_continuation_lock_state by metis
  moreover have "map_of (sd_continuations intaken_disk) (continuation_key rx ?r) = None"
    by (simp add: intaken_disk_def applied_disk_def empty_disk_def)
  ultimately have "prepare_callback_continuation rx sample_store ?r intaken_disk =
      Inr (OutPrepared, [WriteContinuation (continuation_key rx ?r) ?r])" using prepare_accepts_any_state by blast
  then show ?thesis by (intro exI [of _ ?r]) simp
qed

section \<open>Blockers, slots and checkpoints\<close>

text \<open>
  a blocker write that is cut short between the log and its high-water mark breaks the log for good: no
  later run repairs it, no receipt that is out of order is answered as pending, and no slot with live work is
  answered as retained; both calls fail.
\<close>

theorem blocker_log_stays_broken:
  assumes "blocker_log_broken d" "store_run X self d cs d'"
  shows "blocker_log_broken d' \<and> intake X self t e d' \<noteq> Inr (IntakePending b, es) \<and>
    reclaim_terminal_slot X self t e v d' \<noteq> Inr (Retained b, es)"
proof (intro conjI)
  show broken: "blocker_log_broken d'" using broken_log_run [OF assms(2,1)] .
  show "intake X self t e d' \<noteq> Inr (IntakePending b, es)"
    by (auto simp: intake_def intake_duplicate_def intake_pending_def result_simps Let_def broken_log_refuses [OF broken]
        split: if_splits)
  show "reclaim_terminal_slot X self t e v d' \<noteq> Inr (Retained b, es)"
    by (auto simp: reclaim_terminal_slot_def result_simps Let_def broken_log_refuses [OF broken]
        split: if_splits option.splits)
qed

definition early_disk :: store_disk where
  "early_disk = empty_disk\<lparr>sd_pending_receipts := [(even_digest @ ''.json'', sample_stored ''ev'' 1 odd_digest)]\<rparr>"

definition early_blocker :: blocker_record where
  "early_blocker = \<lparr>br_schema_version = BLOCKER_SCHEMA, br_sequence = 0, br_code = ''RECEIPT_EVENT_OUT_OF_ORDER'',
     br_detail = ''expected=0,received=1'', br_commander_session_id = ''cmd'', br_transaction_id = Some ''t'',
     br_event_id = Some ''ev''\<rparr>"

lemma run_early: "complete_run rx sample_store [CallWriteReceipt (sample_receipt ''ev'' 1)] empty_disk = Some early_disk"
  by code_simp

lemma early_intake:
  "call_effects rx sample_store (CallIntake ''t'' ''ev'') early_disk =
     Inr [WriteBlocker (blocker_key 0) early_blocker, WriteLastBlocker early_blocker]"
  by code_simp

theorem blocker_log_stays_broken_witness:
  "\<exists>d. store_run rx sample_store empty_disk [CallWriteReceipt (sample_receipt ''ev'' 1), CallIntake ''t'' ''ev''] d \<and>
     blocker_log_broken d \<and> (\<forall>b es. intake rx sample_store ''t'' ''ev'' d \<noteq> Inr (IntakePending b, es))"
proof -
  let ?es = "[WriteBlocker (blocker_key 0) early_blocker, WriteLastBlocker early_blocker]"
  let ?d = "perform (take 1 ?es) early_disk"
  have "effects_cut ?es early_disk ?d" by (rule effects_cut.cut) simp
  then have "store_run rx sample_store early_disk [CallIntake ''t'' ''ev''] ?d"
    by (rule store_run_single [OF store_step.step [OF early_intake]])
  from store_run_trans [OF complete_run_store_run [OF run_early] this]
  have run: "store_run rx sample_store empty_disk [CallWriteReceipt (sample_receipt ''ev'' 1), CallIntake ''t'' ''ev''] ?d"
    by simp
  have broken: "blocker_log_broken ?d"
    by (simp add: blocker_log_broken_def early_disk_def empty_disk_def write_file_def)
  from blocker_log_stays_broken [OF broken store_run.run_nil] run broken show ?thesis by blast
qed

text \<open>
  a terminal slot is released exactly when its receipt is applied, nothing of the runtime is alive and no
  other release was recorded; the release repeats the identities of the receipt and no live evidence ever
  writes a release.
\<close>

theorem slot_released_iff:
  "reclaim_terminal_slot X self t e v d = Inr (Released, es) \<longleftrightarrow>
     (\<exists>s. read_applied X self d (receipt_key X t e) = Inr s \<and> \<not> le_runtime_worker_alive v \<and> le_active_tool_calls v = 0 \<and>
        le_active_command_runs v = 0 \<and> le_live_effect_processes v = 0 \<and> \<not> le_pending_init v \<and>
        map_of (sd_released d) (receipt_key X t e) = None \<and>
        es = [WriteRelease (receipt_key X t e) (release_of t e (sto_receipt s))])"
  by (auto simp: reclaim_terminal_slot_def reclaim_blocker_def Let_def result_simps exists_file_def split: if_splits)

lemma white_space_not_hex:
  assumes "w \<in> set white_space" "c \<in> {hd w, last w}"
  shows "\<not> ((CHR ''0'' \<le> c \<and> c \<le> CHR ''9'') \<or> (CHR ''a'' \<le> c \<and> c \<le> CHR ''f''))"
  using assms by (auto simp: white_space_def less_eq_char_def)

lemma starts_with_hd: "w \<noteq> [] \<Longrightarrow> starts_with s w \<Longrightarrow> s \<noteq> [] \<and> hd s = hd w"
  by (cases w; cases s) (auto simp: starts_with_def)

lemma lower_sha256_not_blank:
  assumes "is_lower_sha256 s"
  shows "\<not> blank s"
proof -
  have hex: "(CHR ''0'' \<le> c \<and> c \<le> CHR ''9'') \<or> (CHR ''a'' \<le> c \<and> c \<le> CHR ''f'')" if "c \<in> set s" for c
    using assms that by (simp add: is_lower_sha256_def list_all_iff)
  have "\<not> starts_with s w" if "w \<in> set white_space" "w \<noteq> []" for w
    using starts_with_hd [OF that(2), of s] white_space_not_hex [OF that(1), of "hd w"] hex [of "hd s"] hd_in_set [of s]
    by (metis insertI1)
  moreover have "\<not> starts_with (rev s) (rev w)" if "w \<in> set white_space" "w \<noteq> []" for w
    using starts_with_hd [of "rev w" "rev s"] white_space_not_hex [OF that(1), of "last w"] hex [of "last s"] last_in_set [of s] that(2)
    by (metis hd_rev insertI1 insertI2 rev_is_Nil_conv)
  ultimately have "no_prefix white_space s" "no_prefix (map rev white_space) (rev s)"
    by (auto simp: no_prefix_def)
  then have "trim s = s" by (simp add: trim_def trim_start_def trim_end_def strip_any_id)
  then show ?thesis using assms by (auto simp: is_lower_sha256_def)
qed

text \<open>
  checkpoint evidence that was published is recognised: reading the file back and observing it twice
  without a change gives an identity that the store admits, under the digest the file is named by.
\<close>

theorem checkpoint_roundtrip:
  assumes "digest_laws X" "publish_checkpoint_evidence X self child stage n m delta d = Inr (path, es)"
    and "of_bytes observed = Inr bytes" "of_modified_ns observed = Inr modified"
    and "kind \<in> {CloseWrite, ModifyEvent}"
  defines "parsed \<equiv> read_json (sd_checkpoints (perform es d)) (checkpoint_key (ce_checkpoint_id (checkpoint_evidence_of X self child stage n m delta)))"
  shows "\<exists>i. checkpoint_identity_from_path X path parsed observed kind = Inr i \<and> admit_checkpoint self i i = Inr i \<and>
    path = store_path self ''checkpoints'' (checkpoint_key (ci_checkpoint_id i))"
proof -
  let ?e = "checkpoint_evidence_of X self child stage n m delta"
  have parsed: "parsed = Inr ?e" and path: "path = store_path self ''checkpoints'' (checkpoint_key (ce_checkpoint_id ?e))"
    using assms(2) unfolding parsed_def
    by (auto simp: publish_checkpoint_evidence_def result_simps Let_def read_json_Inr exists_file_def split: if_splits)
  have shape: "length (sha256_hex X s) = 64" "\<not> blank (sha256_hex X s)" for s
    using digest_laws.digest_shape [OF assms(1), of s] lower_sha256_not_blank by (auto simp: is_lower_sha256_def)
  have "checkpoint_identity_from_path X path parsed observed kind =
      Inr \<lparr>ci_commander_session_id = st_commander_session_id self, ci_checkpoint_id = ce_checkpoint_id ?e,
        ci_source_path = path, ci_inode = of_inode observed, ci_size = of_size observed, ci_modified_ns = modified,
        ci_sha256 = sha256_hex X bytes, ci_complete_write = True, ci_event_kind = kind\<rparr>" (is "_ = Inr ?i")
    unfolding parsed using assms(3,4) by (simp add: checkpoint_identity_from_path_def checkpoint_evidence_of_def Let_def)
  moreover have "admit_checkpoint self ?i ?i = Inr ?i"
    using assms(5) shape by (auto simp: admit_checkpoint_def validate_checkpoint_pair_def checkpoint_evidence_of_def
        checkpoint_evidence_id_def Let_def result_simps)
  ultimately show ?thesis using path by simp
qed

theorem checkpoint_roundtrip_witness:
  "\<exists>path es i. publish_checkpoint_evidence rx sample_store ''child'' ''turn'' 3 4 ''delta'' empty_disk = Inr (path, es) \<and>
     admit_checkpoint sample_store i i = Inr i \<and> path = store_path sample_store ''checkpoints'' (checkpoint_key (ci_checkpoint_id i))"
proof -
  let ?o = "\<lparr>of_bytes = Inr ''bytes'', of_inode = 7, of_size = 5, of_modified_ns = Inr 9\<rparr>"
  have "publish_checkpoint_evidence rx sample_store ''child'' ''turn'' 3 4 ''delta'' empty_disk \<noteq> Inl b" for b
  proof -
    have "\<not> blank ''child''" "\<not> blank ''turn''" by code_simp+
    then show ?thesis
      by (simp add: publish_checkpoint_evidence_def Let_def exists_file_def empty_disk_def require_identifier_def)
  qed
  then obtain path es where p: "publish_checkpoint_evidence rx sample_store ''child'' ''turn'' 3 4 ''delta'' empty_disk = Inr (path, es)"
    by (cases "publish_checkpoint_evidence rx sample_store ''child'' ''turn'' 3 4 ''delta'' empty_disk") auto
  have "of_bytes ?o = Inr ''bytes''" "of_modified_ns ?o = Inr 9" "CloseWrite \<in> {CloseWrite, ModifyEvent}" by simp_all
  from checkpoint_roundtrip [OF ref_digest.digest_laws_axioms p this] p show ?thesis by blast
qed

section \<open>The control deck\<close>

text \<open>
  the control deck of a store that a run has built is always available while no collection exceeds its
  bound: no stage conflict and no missing receipt can occur, and it shows every receipt and every callback of
  the store exactly once.
\<close>

theorem control_deck_available:
  assumes "digest_laws X" "store_run X self empty_disk cs d" "distinct_keys X (run_identities cs)" "deck_bounded d"
  shows "\<exists>p. control_deck_projection X self d = Inr p \<and>
    distinct (map (\<lambda>r. (rp_transaction_id r, rp_event_id r)) (lp_receipts p)) \<and>
    (\<lambda>r. (rp_transaction_id r, rp_event_id r)) ` set (lp_receipts p) = disk_receipts d \<and>
    distinct (map (\<lambda>c. (cj_transaction_id c, cj_event_id c)) (lp_callbacks p)) \<and>
    (\<lambda>c. (cj_transaction_id c, cj_event_id c)) ` set (lp_callbacks p) = disk_callbacks d"
  using assms by (rule digest_laws.control_deck_total)

theorem control_deck_available_witness:
  "\<exists>p. control_deck_projection rx sample_store intaken_disk = Inr p \<and>
     (\<lambda>c. (cj_transaction_id c, cj_event_id c)) ` set (lp_callbacks p) = {(''t'', ''e'')}"
proof -
  have "run_identities sample_callback_calls = {(''t'', ''e'')}"
    by (simp add: run_identities_def sample_callback_calls_def receipt_identity_def sample_receipt_def receipt_new_def)
  then have keys: "distinct_keys rx (run_identities sample_callback_calls)" by (simp add: distinct_keys_def)
  have bound: "deck_bounded intaken_disk"
    by (simp add: deck_bounded_def intaken_disk_def applied_disk_def empty_disk_def CONTROL_DECK_MAX_RECORDS_PER_COLLECTION_def)
  have "disk_callbacks intaken_disk = {(''t'', ''e'')}"
    by (simp add: disk_callbacks_def intaken_disk_def applied_disk_def empty_disk_def json_files_def identity_at_def
        callback_identity_def sample_callback_def callback_new_def sample_receipt_def receipt_new_def)
  with control_deck_available [OF ref_digest.digest_laws_axioms sample_runs(2) keys bound] show ?thesis by auto
qed

end
