(* ===== verification/Rust_Text.thy ===== *)
theory Rust_Text
  imports Prelude
begin

text \<open>
  The operations of Rust's \<open>str\<close> on whole texts that the tools use: prefixes and suffixes, physical lines
  (\<open>split_inclusive\<close>, \<open>lines\<close>), characters of UTF-8 text, and substring search.
\<close>

definition LF :: char where "LF = CHR 0x0A"
definition CR :: char where "CR = CHR 0x0D"

lemma LF_CR [simp]: "LF \<noteq> CR" "CR \<noteq> LF"
  by (simp_all add: LF_def CR_def)

definition strip_prefix :: "string \<Rightarrow> string \<Rightarrow> string option" where
  "strip_prefix w s = (if starts_with s w then Some (drop (length w) s) else None)"

definition ends_with :: "string \<Rightarrow> string \<Rightarrow> bool" where
  "ends_with s w = starts_with (rev s) (rev w)"

definition strip_suffix :: "string \<Rightarrow> string \<Rightarrow> string option" where
  "strip_suffix w s = (if ends_with s w then Some (take (length s - length w) s) else None)"

lemma starts_with_append [simp]: "starts_with (w @ s) w"
  by (simp add: starts_with_def)

lemma starts_with_iff: "starts_with s w \<longleftrightarrow> (\<exists>r. s = w @ r)"
  by (metis append_take_drop_id starts_with_append starts_with_def)

lemma starts_with_Nil [simp]: "starts_with s []"
  by (simp add: starts_with_def)

lemma starts_with_Cons [simp]:
  "starts_with (c # s) (d # w) \<longleftrightarrow> c = d \<and> starts_with s w" "\<not> starts_with [] (d # w)"
  by (auto simp: starts_with_def)

lemma strip_prefix_append [simp]: "strip_prefix w (w @ s) = Some s"
  by (simp add: strip_prefix_def)

lemma strip_prefix_Some: "strip_prefix w s = Some r \<longleftrightarrow> s = w @ r"
  by (auto simp: strip_prefix_def starts_with_iff)

lemma ends_with_append [simp]: "ends_with (s @ w) w"
  by (simp add: ends_with_def)

lemma ends_with_iff: "ends_with s w \<longleftrightarrow> (\<exists>r. s = r @ w)"
  by (auto simp: ends_with_def starts_with_iff) (metis rev_append rev_rev_ident)

lemma ends_with_snoc: "ends_with (s @ [c]) [d] \<longleftrightarrow> c = d"
  by (simp add: ends_with_def)

lemma strip_suffix_append [simp]: "strip_suffix w (s @ w) = Some s"
  by (simp add: strip_suffix_def)

lemma strip_suffix_Some: "strip_suffix w s = Some r \<longleftrightarrow> s = r @ w"
  by (auto simp: strip_suffix_def ends_with_iff)

text \<open>\<open>str::contains\<close> on a substring.\<close>

fun contains :: "string \<Rightarrow> string \<Rightarrow> bool" where
  "contains [] w = (w = [])"
| "contains (c # s) w = (starts_with (c # s) w \<or> contains s w)"

lemma contains_iff: "contains s w \<longleftrightarrow> (\<exists>p q. s = p @ w @ q)"
proof (induction s)
  case (Cons c s)
  show ?case
  proof
    assume "contains (c # s) w"
    then consider "starts_with (c # s) w" | p q where "s = p @ w @ q" using Cons by auto
    then show "\<exists>p q. c # s = p @ w @ q"
    proof cases
      case 1
      then obtain q where "c # s = [] @ w @ q" by (auto simp: starts_with_iff)
      then show ?thesis by blast
    next
      case (2 p q)
      then have "c # s = (c # p) @ w @ q" by simp
      then show ?thesis by blast
    qed
  next
    assume "\<exists>p q. c # s = p @ w @ q"
    then obtain p q where "c # s = p @ w @ q" by blast
    then have "starts_with (c # s) w \<or> contains s w"
      using Cons unfolding starts_with_iff by (cases p) auto
    then show "contains (c # s) w" by simp
  qed
qed auto

section \<open>Physical lines\<close>

fun split_inclusive :: "string \<Rightarrow> string list" where
  "split_inclusive [] = []"
| "split_inclusive (c # s) =
     (if c = LF then [c] # split_inclusive s
      else case split_inclusive s of [] \<Rightarrow> [[c]] | l # ls \<Rightarrow> (c # l) # ls)"

definition strip_line_ending :: "string \<Rightarrow> string" where
  "strip_line_ending l =
     (case strip_suffix [LF] l of None \<Rightarrow> l
      | Some b \<Rightarrow> (case strip_suffix [CR] b of None \<Rightarrow> b | Some a \<Rightarrow> a))"

definition str_lines :: "string \<Rightarrow> string list" where
  "str_lines s = map strip_line_ending (split_inclusive s)"

lemma concat_split_inclusive [simp]: "concat (split_inclusive s) = s"
  by (induction s) (auto split: list.splits)

lemma split_inclusive_nonempty: "l \<in> set (split_inclusive s) \<Longrightarrow> l \<noteq> []"
  by (induction s arbitrary: l) (auto split: if_splits list.splits)

lemma split_inclusive_Nil [simp]: "split_inclusive s = [] \<longleftrightarrow> s = []"
  by (cases s) (auto split: list.splits)

lemma split_inclusive_line: "LF \<notin> set l \<Longrightarrow> split_inclusive (l @ LF # s) = (l @ [LF]) # split_inclusive s"
  by (induction l) auto

lemma split_inclusive_last: "LF \<notin> set l \<Longrightarrow> l \<noteq> [] \<Longrightarrow> split_inclusive l = [l]"
proof (induction l)
  case (Cons c l)
  then show ?case by (cases l) auto
qed simp

lemma split_inclusive_app:
  assumes "s = [] \<or> last s = LF"
  shows "split_inclusive (s @ t) = split_inclusive s @ split_inclusive t"
  using assms
proof (induction s)
  case (Cons c s)
  show ?case
  proof (cases "s = []")
    case True
    with Cons.prems show ?thesis by simp
  next
    case False
    with Cons have "split_inclusive (s @ t) = split_inclusive s @ split_inclusive t" by simp
    with False show ?thesis by (auto split: list.splits)
  qed
qed simp

text \<open>Every line but the last ends with a line feed, and none has one inside.\<close>

lemma split_inclusive_shape:
  "l \<in> set (split_inclusive s) \<Longrightarrow> LF \<notin> set (butlast l)"
proof (induction s arbitrary: l)
  case (Cons c s)
  show ?case
  proof (cases "c = LF")
    case True
    with Cons show ?thesis by auto
  next
    case False
    show ?thesis
    proof (cases "split_inclusive s")
      case Nil
      with Cons False show ?thesis by auto
    next
      case (Cons m ms)
      then have "m \<noteq> []" using split_inclusive_nonempty [of m s] by simp
      with Cons \<open>l \<in> set (split_inclusive (c # s))\<close> False Cons.IH [of m] Cons.IH [of l] show ?thesis by auto
    qed
  qed
qed simp

text \<open>A line that \<open>lines\<close> can return and a writer can print: no line feed, no carriage return at the end.\<close>

definition plain_line :: "string \<Rightarrow> bool" where
  "plain_line l = (LF \<notin> set l \<and> (l = [] \<or> last l \<noteq> CR))"

lemma strip_line_ending_LF: "plain_line l \<Longrightarrow> strip_line_ending (l @ [LF]) = l"
  by (cases l rule: rev_cases)
    (auto simp: plain_line_def strip_line_ending_def strip_suffix_def ends_with_def split: option.splits)

lemma strip_line_ending_plain: "LF \<notin> set l \<Longrightarrow> strip_line_ending l = l"
  by (cases l rule: rev_cases)
    (auto simp: strip_line_ending_def strip_suffix_def ends_with_def)

lemma str_lines_line: "plain_line l \<Longrightarrow> str_lines (l @ LF # s) = l # str_lines s"
  by (simp add: str_lines_def plain_line_def split_inclusive_line)
     (simp add: plain_line_def strip_line_ending_LF)

lemma str_lines_last: "plain_line l \<Longrightarrow> l \<noteq> [] \<Longrightarrow> str_lines l = [l]"
  by (simp add: str_lines_def plain_line_def split_inclusive_last strip_line_ending_plain)

definition terminated :: "string list \<Rightarrow> string" where
  "terminated ls = concat (map (\<lambda>l. l @ [LF]) ls)"

lemma terminated_simps [simp]: "terminated [] = []" "terminated (l # ls) = l @ LF # terminated ls"
  "terminated (ls @ ms) = terminated ls @ terminated ms"
  by (simp_all add: terminated_def)

lemma str_lines_terminated:
  "(\<And>l. l \<in> set ls \<Longrightarrow> plain_line l) \<Longrightarrow> str_lines (terminated ls @ s) = ls @ str_lines s"
  by (induction ls) (simp_all add: str_lines_line)

lemma str_lines_plain: "l \<in> set (str_lines s) \<Longrightarrow> LF \<notin> set l"
proof -
  assume "l \<in> set (str_lines s)"
  then obtain m where m: "m \<in> set (split_inclusive s)" "l = strip_line_ending m" by (auto simp: str_lines_def)
  note shape = split_inclusive_shape [OF m(1)]
  show ?thesis
  proof (cases m rule: rev_cases)
    case (snoc b c)
    with shape have "LF \<notin> set b" by simp
    with snoc m(2) show ?thesis
      by (cases "c = LF"; cases b rule: rev_cases)
        (auto simp: strip_line_ending_def strip_suffix_def ends_with_def)
  qed (use m in \<open>simp add: strip_line_ending_def strip_suffix_def ends_with_def\<close>)
qed

section \<open>Characters\<close>

text \<open>The characters of a UTF-8 text: a byte with the continuation bytes that follow it.\<close>

definition continuation_byte :: "char \<Rightarrow> bool" where
  "continuation_byte c = (of_char c \<in> {0x80..0xBF :: nat})"

fun str_chars :: "string \<Rightarrow> string list" where
  "str_chars [] = []"
| "str_chars (c # s) =
     (case str_chars s of [] \<Rightarrow> [[c]]
      | g # gs \<Rightarrow> if continuation_byte (hd g) then (c # g) # gs else [c] # g # gs)"

lemma concat_str_chars [simp]: "concat (str_chars s) = s"
  by (induction s) (auto split: list.splits)

end
