(* ===== verification/Patch_Parser.thy ===== *)
theory Patch_Parser
  imports Rust_Text Json_Value
begin

text \<open>
  The text side of the \<open>apply_patch\<close> command (\<open>tools/src/commands/apply_patch/mod.rs\<close>): finding the patch in a
  tool payload and parsing it into file changes.
\<close>

section \<open>Finding the patch\<close>

datatype tool_payload = Freeform string | FunctionCall json

definition BEGIN_PATCH :: string where "BEGIN_PATCH = ''*** Begin Patch''"
definition END_PATCH :: string where "END_PATCH = ''*** End Patch''"

text \<open>The byte range of the first physical line that is exactly the marker.\<close>

fun marker_from :: "nat \<Rightarrow> string \<Rightarrow> string list \<Rightarrow> (nat \<times> nat) option" where
  "marker_from start marker [] = None"
| "marker_from start marker (physical # rest) =
     (let line = (case strip_suffix [CR, LF] physical of Some l \<Rightarrow> l
          | None \<Rightarrow> (case strip_suffix [LF] physical of Some l \<Rightarrow> l | None \<Rightarrow> physical))
      in if line = marker then Some (start, start + length line)
         else marker_from (start + length physical) marker rest)"

definition patch_marker_range :: "string \<Rightarrow> string \<Rightarrow> (nat \<times> nat) option" where
  "patch_marker_range text marker = marker_from 0 marker (split_inclusive text)"

definition trim_start_matches :: "char list \<Rightarrow> string \<Rightarrow> string" where
  "trim_start_matches cs s = dropWhile (\<lambda>c. c \<in> set cs) s"

definition command_prefixes :: "string list" where
  "command_prefixes =
     [''apply_patch <<'' @ [CHR 0x27] @ ''PATCH'' @ [CHR 0x27],
      ''apply_patch <<'' @ [CHR 0x22] @ ''PATCH'' @ [CHR 0x22], ''apply_patch'']"

definition strip_apply_patch_command_line :: "string \<Rightarrow> string" where
  "strip_apply_patch_command_line text =
     (case find (starts_with text) command_prefixes of
        Some p \<Rightarrow> trim_start_matches [CR, LF, CHR '' '', CHR 0x09] (drop (length p) text)
      | None \<Rightarrow> text)"

definition starts_with_patch_hunk :: "string \<Rightarrow> bool" where
  "starts_with_patch_hunk text =
     (let body = trim_start text
      in starts_with body ''*** Add File: '' \<or> starts_with body ''*** Delete File: '' \<or>
         starts_with body ''*** Update File: '')"

definition normalize_apply_patch_body_without_begin :: "string \<Rightarrow> string option" where
  "normalize_apply_patch_body_without_begin text =
     (let body = strip_apply_patch_command_line (trim_start text)
      in if \<not> starts_with_patch_hunk body then None
         else let b = (case patch_marker_range body END_PATCH of
                Some (_, e) \<Rightarrow> take e body
              | None \<Rightarrow> body @ (if ends_with body [LF] then [] else [LF]) @ END_PATCH)
              in Some (BEGIN_PATCH @ [LF] @ b))"

definition extract_apply_patch_body :: "string \<Rightarrow> string option" where
  "extract_apply_patch_body text =
     (case patch_marker_range text BEGIN_PATCH of
        Some (b, _) \<Rightarrow>
          (let patch = drop b text
           in map_option (\<lambda>(_, e). take e patch) (patch_marker_range patch END_PATCH))
      | None \<Rightarrow> normalize_apply_patch_body_without_begin text)"

text \<open>\<open>Iterator::find_map\<close>.\<close>

fun find_map :: "('a \<Rightarrow> 'b option) \<Rightarrow> 'a list \<Rightarrow> 'b option" where
  "find_map f [] = None"
| "find_map f (x # xs) = (case f x of Some y \<Rightarrow> Some y | None \<Rightarrow> find_map f xs)"

lemma find_map_cong [fundef_cong]:
  "xs = ys \<Longrightarrow> (\<And>x. x \<in> set ys \<Longrightarrow> f x = g x) \<Longrightarrow> find_map f xs = find_map g ys"
  by (induction xs arbitrary: ys) (auto split: option.splits)

definition or_else :: "'a option \<Rightarrow> 'a option \<Rightarrow> 'a option" where
  "or_else a b = (case a of Some x \<Rightarrow> Some x | None \<Rightarrow> b)"

lemma size_json_values: "v \<in> snd ` set kvs \<Longrightarrow> size v < Suc (size_list (size_prod (\<lambda>_. 0) size) kvs)"
  using size_json_member by fastforce

lemma map_of_snd: "Some v = map_of kvs k \<Longrightarrow> v \<in> snd ` set kvs"
  by (metis image_eqI map_of_SomeD snd_conv)

text \<open>
  The named fields first, then every field in key order, as the \<open>BTreeMap\<close> of an object yields them.
\<close>

function extract_apply_patch_body_from_value :: "json \<Rightarrow> string option" where
  "extract_apply_patch_body_from_value (JString text) = extract_apply_patch_body text"
| "extract_apply_patch_body_from_value (JObject kvs) =
     or_else
       (find_map (\<lambda>v. extract_apply_patch_body_from_value v)
         (concat (map (\<lambda>key. case map_of kvs key of Some v \<Rightarrow> [v] | None \<Rightarrow> [])
           [''patch'', ''command'', ''command_line'', ''input'', ''payload'', ''content''])))
       (find_map (\<lambda>v. extract_apply_patch_body_from_value v) (map snd (sort_key fst kvs)))"
| "extract_apply_patch_body_from_value (JArray vs) = find_map (\<lambda>v. extract_apply_patch_body_from_value v) vs"
| "extract_apply_patch_body_from_value JNull = None"
| "extract_apply_patch_body_from_value (JBool b) = None"
| "extract_apply_patch_body_from_value (JNumber n) = None"
  by pat_completeness auto
termination
proof (relation "measure size", goal_cases)
  case (2 kvs v)
  then have "v \<in> snd ` set kvs" by (auto split: option.splits dest!: map_of_snd)
  then show ?case using size_json_values [of v kvs] by simp
next
  case (3 kvs v)
  then have "v \<in> snd ` set kvs" by auto
  then show ?case using size_json_values [of v kvs] by simp
qed (auto simp: size_json_item)

definition extract_apply_patch_body_from_json_wrapper :: "externals \<Rightarrow> string \<Rightarrow> string option" where
  "extract_apply_patch_body_from_json_wrapper X text =
     Option.bind (json_parse X (trim text)) extract_apply_patch_body_from_value"

definition normalize_apply_patch_text :: "externals \<Rightarrow> string \<Rightarrow> string" where
  "normalize_apply_patch_text X text =
     (case or_else (extract_apply_patch_body_from_json_wrapper X text)
        (or_else (extract_apply_patch_body text) (normalize_apply_patch_body_without_begin text)) of
        Some t \<Rightarrow> t | None \<Rightarrow> text)"

definition patch_text_from_payload :: "externals \<Rightarrow> tool_payload \<Rightarrow> string" where
  "patch_text_from_payload X payload =
     normalize_apply_patch_text X
       (case payload of
          Freeform input \<Rightarrow> input
        | FunctionCall arguments \<Rightarrow>
            (case extract_apply_patch_body_from_value arguments of
               Some patch \<Rightarrow> patch
             | None \<Rightarrow>
                 (case Option.bind
                    (find_map (json_get arguments) [''patch'', ''command'', ''command_line'', ''input'', ''payload''])
                    json_as_str of
                    Some s \<Rightarrow> s
                  | None \<Rightarrow> (case json_as_str arguments of Some s \<Rightarrow> s | None \<Rightarrow> []))))"

section \<open>Parsing\<close>

record patch_change =
  pc_kind :: string
  pc_path :: string
  pc_move_path :: "string option"
  pc_hunks :: "string list list"
  pc_lines :: "string list"

definition new_change :: "string \<Rightarrow> string \<Rightarrow> patch_change" where
  "new_change kind path =
     \<lparr>pc_kind = kind, pc_path = path, pc_move_path = None, pc_hunks = [], pc_lines = []\<rparr>"

text \<open>The variables of the parsing loop.\<close>

record parse_state =
  ps_changes :: "patch_change list"
  ps_current :: "patch_change option"
  ps_hunk :: "string list option"
  ps_started :: bool
  ps_ended :: bool

definition parse_start :: parse_state where
  "parse_start = \<lparr>ps_changes = [], ps_current = None, ps_hunk = None, ps_started = False, ps_ended = False\<rparr>"

definition finish_change :: "parse_state \<Rightarrow> parse_state" where
  "finish_change p =
     (case ps_current p of
        None \<Rightarrow> p\<lparr>ps_hunk := None\<rparr>
      | Some c \<Rightarrow>
          p\<lparr>ps_hunk := None, ps_current := None,
            ps_changes := ps_changes p @
              [case ps_hunk p of Some h \<Rightarrow> c\<lparr>pc_hunks := pc_hunks c @ [h]\<rparr> | None \<Rightarrow> c]\<rparr>)"

definition start_change :: "string \<Rightarrow> string \<Rightarrow> parse_state \<Rightarrow> parse_state" where
  "start_change kind path p = (finish_change p)\<lparr>ps_current := Some (new_change kind path)\<rparr>"

definition parse_move :: "string \<Rightarrow> parse_state \<Rightarrow> (string, parse_state) result" where
  "parse_move path p =
     (case ps_current p of
        None \<Rightarrow> Inl ''move target without file''
      | Some c \<Rightarrow>
          if pc_kind c \<noteq> ''update'' then Inl ''move target is only valid for update file changes''
          else Inr (p\<lparr>ps_current := Some (c\<lparr>pc_move_path := Some path\<rparr>)\<rparr>))"

definition parse_hunk_header :: "parse_state \<Rightarrow> (string, parse_state) result" where
  "parse_hunk_header p =
     (case ps_current p of
        None \<Rightarrow> Inl ''hunk without file''
      | Some c \<Rightarrow>
          if pc_kind c \<noteq> ''update'' then Inl ''hunk is only valid for update file changes''
          else Inr (p\<lparr>ps_current := Some (case ps_hunk p of
                        Some h \<Rightarrow> c\<lparr>pc_hunks := pc_hunks c @ [h]\<rparr> | None \<Rightarrow> c),
                      ps_hunk := Some []\<rparr>))"

definition line_error :: "nat \<Rightarrow> string \<Rightarrow> string" where
  "line_error n what = ''invalid patch line '' @ decimal n @ '': '' @ what"

definition parse_content :: "nat \<Rightarrow> string \<Rightarrow> parse_state \<Rightarrow> (string, parse_state) result" where
  "parse_content n line p =
     (case ps_current p of
        Some c \<Rightarrow>
          if pc_kind c = ''add'' \<and> starts_with line ''+''
          then Inr (p\<lparr>ps_current := Some (c\<lparr>pc_lines := pc_lines c @ [drop 1 line]\<rparr>)\<rparr>)
          else (case ps_hunk p of
             Some h \<Rightarrow>
               if line \<noteq> [] \<and> hd line \<in> {CHR '' '', CHR ''+'', CHR ''-''}
               then Inr (p\<lparr>ps_hunk := Some (h @ [line])\<rparr>)
               else if blank line then Inr (p\<lparr>ps_hunk := Some (h @ ['' '' @ line])\<rparr>)
               else Inl (line_error n ''hunk lines must start with space, +, or -'')
           | None \<Rightarrow> if blank line then Inr p
               else Inl (line_error n ''content must be inside a hunk''))
      | None \<Rightarrow> if blank line then Inr p else Inl (line_error n ''expected file operation''))"

definition parse_line :: "nat \<Rightarrow> string \<Rightarrow> parse_state \<Rightarrow> (string, parse_state) result" where
  "parse_line n line p =
     (if \<not> ps_started p then
        if blank line then Inr p
        else if line = BEGIN_PATCH then Inr (p\<lparr>ps_started := True\<rparr>)
        else Inl (''invalid patch: expected *** Begin Patch at line '' @ decimal n)
      else case strip_prefix ''*** Update File: '' line of
        Some path \<Rightarrow> Inr (start_change ''update'' path p)
      | None \<Rightarrow> (case strip_prefix ''*** Add File: '' line of
        Some path \<Rightarrow> Inr (start_change ''add'' path p)
      | None \<Rightarrow> (case strip_prefix ''*** Delete File: '' line of
        Some path \<Rightarrow> Inr (start_change ''delete'' path p)
      | None \<Rightarrow> (case strip_prefix ''*** Move to: '' line of
        Some path \<Rightarrow> parse_move path p
      | None \<Rightarrow>
          if starts_with line ''@@'' then parse_hunk_header p
          else if line = END_PATCH then Inr ((finish_change p)\<lparr>ps_ended := True\<rparr>)
          else if line = ''*** End of File'' then Inr p
          else parse_content n line p))))"

fun parse_lines :: "nat \<Rightarrow> string list \<Rightarrow> parse_state \<Rightarrow> (string, parse_state) result" where
  "parse_lines n [] p = Inr p"
| "parse_lines n (line # rest) p =
     and_then (parse_line (n + 1) line p) (\<lambda>p'.
     if ps_ended p' then Inr p' else parse_lines (n + 1) rest p')"

definition validate_change :: "patch_change \<Rightarrow> (string, unit) result" where
  "validate_change c =
     and_then (reject_if (blank (pc_path c)) ''invalid patch: file path must not be empty'') (\<lambda>_.
     if pc_kind c = ''add'' then
       and_then (reject_if (pc_move_path c \<noteq> None) ''invalid patch: add file cannot have move target'') (\<lambda>_.
       reject_if (pc_hunks c \<noteq> []) ''invalid patch: add file cannot contain hunks'')
     else if pc_kind c = ''delete'' then
       and_then (reject_if (pc_move_path c \<noteq> None) ''invalid patch: delete file cannot have move target'') (\<lambda>_.
       reject_if (pc_hunks c \<noteq> [] \<or> pc_lines c \<noteq> []) ''invalid patch: delete file cannot contain content'')
     else if pc_kind c = ''update'' then
       reject_if ([] \<in> set (pc_hunks c)) (''invalid patch: update file '' @ pc_path c @ '' contains an empty hunk'')
     else Inl (''unsupported patch change kind: '' @ pc_kind c))"

definition validate_changes :: "patch_change list \<Rightarrow> (string, unit) result" where
  "validate_changes changes = try_each validate_change changes"

definition empty_patch_message :: string where
  "empty_patch_message = ''invalid patch: command_line is empty; put the complete patch text, '' @
     ''from *** Begin Patch to *** End Patch, in command_line''"

definition parse_patch :: "string \<Rightarrow> (string, patch_change list) result" where
  "parse_patch patch_text =
     and_then (parse_lines 0 (str_lines patch_text) parse_start) (\<lambda>p.
     and_then (reject_if (\<not> ps_started p)
       (if blank patch_text then empty_patch_message else ''invalid patch: missing *** Begin Patch'')) (\<lambda>_.
     and_then (reject_if (\<not> ps_ended p) ''invalid patch: missing *** End Patch'') (\<lambda>_.
     and_then (reject_if (ps_changes p = []) ''no file changes found in patch'') (\<lambda>_.
     and_then (validate_changes (ps_changes p)) (\<lambda>_.
     Inr (ps_changes p))))))"

text \<open>What the router's admission reads of a patch.\<close>

definition jspace_changes :: "externals \<Rightarrow> string \<Rightarrow> (string, (string \<times> string \<times> string option) list) result" where
  "jspace_changes X patch_text =
     and_then (parse_patch (normalize_apply_patch_text X patch_text)) (\<lambda>changes.
     Inr (map (\<lambda>c. (pc_kind c, pc_path c, pc_move_path c)) changes))"

end
