(* ===== verification/Patch_Parser_Facts.thy ===== *)
theory Patch_Parser_Facts
  imports Patch_Parser
begin

text \<open>
  Facts on the patch parser: what every parsed change looks like, and that a printed list of changes is
  parsed back.
\<close>

section \<open>The shape of parsed changes\<close>

definition hunk_line :: "string \<Rightarrow> bool" where
  "hunk_line l = (l \<noteq> [] \<and> hd l \<in> {CHR '' '', CHR ''+'', CHR ''-''} \<and> LF \<notin> set l)"

definition text_line :: "string \<Rightarrow> bool" where
  "text_line l = (LF \<notin> set l)"

text \<open>A change while it is being parsed, and a change that \<open>parse_patch\<close> returns.\<close>

definition change_shape :: "patch_change \<Rightarrow> bool" where
  "change_shape c =
     (text_line (pc_path c) \<and> list_all text_line (pc_lines c) \<and> list_all (list_all hunk_line) (pc_hunks c) \<and>
      (case pc_move_path c of Some m \<Rightarrow> text_line m | None \<Rightarrow> True) \<and>
      (pc_kind c = ''add'' \<and> pc_move_path c = None \<and> pc_hunks c = [] \<or>
       pc_kind c = ''delete'' \<and> pc_move_path c = None \<and> pc_hunks c = [] \<and> pc_lines c = [] \<or>
       pc_kind c = ''update'' \<and> pc_lines c = []))"

definition change_valid :: "patch_change \<Rightarrow> bool" where
  "change_valid c = (change_shape c \<and> \<not> blank (pc_path c) \<and> [] \<notin> set (pc_hunks c))"

definition parse_inv :: "parse_state \<Rightarrow> bool" where
  "parse_inv p =
     (list_all change_shape (ps_changes p) \<and>
      (case ps_current p of Some c \<Rightarrow> change_shape c | None \<Rightarrow> True) \<and>
      (case ps_hunk p of
         Some h \<Rightarrow> list_all hunk_line h \<and> (\<exists>c. ps_current p = Some c \<and> pc_kind c = ''update'')
       | None \<Rightarrow> True))"

lemma parse_inv_start: "parse_inv parse_start"
  by (simp add: parse_inv_def parse_start_def)

lemma parse_inv_finish: "parse_inv p \<Longrightarrow> parse_inv (finish_change p)"
  by (auto simp: parse_inv_def finish_change_def change_shape_def split: option.splits)

lemma finish_change_simps [simp]:
  "ps_current (finish_change p) = None" "ps_hunk (finish_change p) = None"
  "ps_started (finish_change p) = ps_started p" "ps_ended (finish_change p) = ps_ended p"
  by (auto simp: finish_change_def split: option.splits)

lemma parse_inv_start_change:
  assumes "parse_inv p" "text_line path" "kind \<in> {''add'', ''delete'', ''update''}"
  shows "parse_inv (start_change kind path p)"
  using parse_inv_finish [OF assms(1)] assms(2,3)
  by (auto simp: parse_inv_def start_change_def new_change_def change_shape_def)

lemma text_line_suffix: "text_line (a @ b) \<Longrightarrow> text_line b"
  by (simp add: text_line_def)

lemma parse_inv_move: "parse_inv p \<Longrightarrow> text_line path \<Longrightarrow> parse_move path p = Inr p' \<Longrightarrow> parse_inv p'"
  by (auto simp: parse_inv_def parse_move_def change_shape_def split: option.splits if_splits)

lemma parse_inv_hunk_header: "parse_inv p \<Longrightarrow> parse_hunk_header p = Inr p' \<Longrightarrow> parse_inv p'"
  by (auto simp: parse_inv_def parse_hunk_header_def change_shape_def split: option.splits if_splits)

lemma parse_inv_content:
  assumes inv: "parse_inv p" and line: "text_line line" and eq: "parse_content n line p = Inr p'"
  shows "parse_inv p'"
proof -
  have tail: "text_line (drop 1 line)" using line by (auto simp: text_line_def dest: in_set_dropD)
  have blank: "hunk_line (CHR '' '' # line)" using line by (simp add: hunk_line_def text_line_def LF_def)
  show ?thesis
    using inv eq tail blank line
    by (auto simp: parse_inv_def parse_content_def change_shape_def hunk_line_def text_line_def
        split: option.splits if_splits)
qed

lemma strip_prefix_text_line: "strip_prefix w line = Some path \<Longrightarrow> text_line line \<Longrightarrow> text_line path"
  by (metis strip_prefix_Some text_line_suffix)

lemma parse_line_started:
  assumes started: "ps_started p" and line: "text_line line" and eq: "parse_line n line p = Inr p'"
  shows "(\<exists>kind path. kind \<in> {''add'', ''delete'', ''update''} \<and> text_line path \<and> p' = start_change kind path p) \<or>
    (\<exists>path. text_line path \<and> parse_move path p = Inr p') \<or> parse_hunk_header p = Inr p' \<or>
    p' = (finish_change p)\<lparr>ps_ended := True\<rparr> \<or> p' = p \<or> parse_content n line p = Inr p'"
proof (cases "strip_prefix ''*** Update File: '' line")
  case (Some path)
  then have "p' = start_change ''update'' path p" using started eq by (simp add: parse_line_def)
  then show ?thesis using strip_prefix_text_line [OF Some line] by blast
next
  case update: None
  show ?thesis
  proof (cases "strip_prefix ''*** Add File: '' line")
    case (Some path)
    then have "p' = start_change ''add'' path p" using started eq update by (simp add: parse_line_def)
    then show ?thesis using strip_prefix_text_line [OF Some line] by blast
  next
    case add: None
    show ?thesis
    proof (cases "strip_prefix ''*** Delete File: '' line")
      case (Some path)
      then have "p' = start_change ''delete'' path p" using started eq update add by (simp add: parse_line_def)
      then show ?thesis using strip_prefix_text_line [OF Some line] by blast
    next
      case delete: None
      show ?thesis
      proof (cases "strip_prefix ''*** Move to: '' line")
        case (Some path)
        then have "parse_move path p = Inr p'" using started eq update add delete by (simp add: parse_line_def)
        then show ?thesis using strip_prefix_text_line [OF Some line] by blast
      next
        case None
        with started eq update add delete show ?thesis by (simp add: parse_line_def split: if_splits)
      qed
    qed
  qed
qed

lemma parse_inv_ended: "parse_inv p \<Longrightarrow> parse_inv ((finish_change p)\<lparr>ps_ended := True\<rparr>)"
  using parse_inv_finish [of p] by (simp add: parse_inv_def)

lemma parse_inv_line:
  assumes "parse_inv p" "text_line line" "parse_line n line p = Inr p'"
  shows "parse_inv p'"
proof (cases "ps_started p")
  case False
  with assms show ?thesis by (auto simp: parse_line_def parse_inv_def split: if_splits option.splits)
next
  case True
  show ?thesis
    using parse_line_started [OF True assms(2,3)]
  proof (elim disjE exE conjE)
    fix kind path assume "kind \<in> {''add'', ''delete'', ''update''}" "text_line path" "p' = start_change kind path p"
    then show ?thesis using parse_inv_start_change [OF assms(1)] by simp
  next
    fix path assume "text_line path" "parse_move path p = Inr p'"
    then show ?thesis by (rule parse_inv_move [OF assms(1)])
  next
    assume "parse_hunk_header p = Inr p'"
    then show ?thesis by (rule parse_inv_hunk_header [OF assms(1)])
  next
    assume "parse_content n line p = Inr p'"
    then show ?thesis by (rule parse_inv_content [OF assms(1,2)])
  qed (use assms(1) parse_inv_ended in simp_all)
qed

lemma parse_inv_lines:
  "parse_inv p \<Longrightarrow> list_all text_line ls \<Longrightarrow> parse_lines n ls p = Inr p' \<Longrightarrow> parse_inv p'"
proof (induction ls arbitrary: n p)
  case (Cons l ls)
  then obtain q where q: "parse_line (n + 1) l p = Inr q" "(if ps_ended q then Inr q else parse_lines (n + 1) ls q) = Inr p'"
    by (auto simp: and_then_Inr_iff)
  then have "parse_inv q" using Cons.prems parse_inv_line by (metis list.pred_inject(2))
  with q Cons show ?case by (auto split: if_splits)
qed simp

lemma validate_change_ok:
  "validate_change c = Inr u \<Longrightarrow> change_shape c \<Longrightarrow> change_valid c"
  by (auto simp: validate_change_def change_valid_def change_shape_def and_then_Inr_iff split: if_splits)

lemma parse_patch_valid:
  assumes "parse_patch text = Inr changes"
  shows "changes \<noteq> []" "\<And>c. c \<in> set changes \<Longrightarrow> change_valid c"
proof -
  obtain p where p: "parse_lines 0 (str_lines text) parse_start = Inr p" "ps_changes p = changes" "changes \<noteq> []"
      "validate_changes changes = Inr ()"
    using assms by (auto simp: parse_patch_def and_then_Inr_iff)
  have "list_all text_line (str_lines text)" by (auto simp: list_all_iff text_line_def dest: str_lines_plain)
  then have inv: "parse_inv p" using parse_inv_lines [OF parse_inv_start _ p(1)] by blast
  show "changes \<noteq> []" by (fact p(3))
  show "change_valid c" if "c \<in> set changes" for c
    using that inv p(2,4) validate_change_ok by (auto simp: parse_inv_def validate_changes_def try_each_Inr list_all_iff)
qed

section \<open>Printing\<close>

definition print_change :: "patch_change \<Rightarrow> string list" where
  "print_change c =
     (if pc_kind c = ''add'' then (''*** Add File: '' @ pc_path c) # map ((#) (CHR ''+'')) (pc_lines c)
      else if pc_kind c = ''delete'' then [''*** Delete File: '' @ pc_path c]
      else (''*** Update File: '' @ pc_path c) #
        (case pc_move_path c of Some m \<Rightarrow> [''*** Move to: '' @ m] | None \<Rightarrow> []) @
        concat (map (\<lambda>h. ''@@'' # h) (pc_hunks c)))"

definition print_patch :: "patch_change list \<Rightarrow> string" where
  "print_patch changes = terminated (BEGIN_PATCH # concat (map print_change changes)) @ END_PATCH"

text \<open>A change whose texts can stand on a physical line: none ends with a carriage return.\<close>

definition printable :: "patch_change \<Rightarrow> bool" where
  "printable c =
     (change_valid c \<and> plain_line (pc_path c) \<and> list_all plain_line (pc_lines c) \<and>
      list_all (list_all plain_line) (pc_hunks c) \<and>
      (case pc_move_path c of Some m \<Rightarrow> plain_line m | None \<Rightarrow> True))"

lemma plain_line_append: "plain_line b \<Longrightarrow> plain_line a \<Longrightarrow> plain_line (a @ b)"
  by (auto simp: plain_line_def last_append)

lemma plain_markers [simp]:
  "plain_line BEGIN_PATCH" "plain_line END_PATCH" "plain_line ''*** Add File: ''" "plain_line ''*** Delete File: ''"
  "plain_line ''*** Update File: ''" "plain_line ''*** Move to: ''" "plain_line ''@@''" "plain_line ''+''"
  by (simp_all add: plain_line_def BEGIN_PATCH_def END_PATCH_def LF_def CR_def)

lemma plain_line_Cons: "c \<noteq> LF \<Longrightarrow> c \<noteq> CR \<Longrightarrow> plain_line (c # x) \<longleftrightarrow> plain_line x"
  by (auto simp: plain_line_def)

lemma print_change_plain:
  assumes "printable c" "l \<in> set (print_change c)"
  shows "plain_line l"
proof -
  have ascii: "plain_line (c # x) \<longleftrightarrow> plain_line x" if "of_char c \<in> {32..126 :: nat}" for c x
    using that by (intro plain_line_Cons) (auto simp: LF_def CR_def)
  show ?thesis
    using assms
    by (auto simp: printable_def print_change_def list_all_iff ascii plain_line_def [of "[]"]
        split: if_splits option.splits)
qed

lemma str_lines_print_patch:
  assumes "\<And>c. c \<in> set changes \<Longrightarrow> printable c"
  shows "str_lines (print_patch changes) = BEGIN_PATCH # concat (map print_change changes) @ [END_PATCH]"
proof -
  have "plain_line l" if "l \<in> set (BEGIN_PATCH # concat (map print_change changes))" for l
    using that print_change_plain assms by auto
  then have "str_lines (print_patch changes) = (BEGIN_PATCH # concat (map print_change changes)) @ str_lines END_PATCH"
    unfolding print_patch_def by (rule str_lines_terminated)
  moreover have "str_lines END_PATCH = [END_PATCH]" by (rule str_lines_last) (simp_all add: END_PATCH_def plain_line_def LF_def CR_def)
  ultimately show ?thesis by simp
qed

section \<open>Reading back\<close>

lemma parse_lines_append:
  "parse_lines n xs p = Inr q \<Longrightarrow> \<not> ps_ended q \<Longrightarrow> parse_lines n (xs @ ys) p = parse_lines (n + length xs) ys q"
proof (induction xs arbitrary: n p)
  case (Cons x xs)
  then obtain r where "parse_line (n + 1) x p = Inr r" "(if ps_ended r then Inr r else parse_lines (n + 1) xs r) = Inr q"
    by (auto simp: and_then_Inr_iff)
  with Cons show ?case by (auto split: if_splits)
qed simp

text \<open>A state inside a patch, with the changes it would have if it ended here.\<close>

definition inside :: "parse_state \<Rightarrow> patch_change list \<Rightarrow> bool" where
  "inside p changes = (ps_started p \<and> \<not> ps_ended p \<and> ps_changes (finish_change p) = changes)"

lemma finish_change_idem: "ps_current p = None \<Longrightarrow> ps_changes (finish_change p) = ps_changes p"
  by (simp add: finish_change_def)

lemma parse_header:
  assumes "inside p changes"
  shows "parse_line n (''*** Update File: '' @ path) p = Inr (start_change ''update'' path p)"
    "parse_line n (''*** Add File: '' @ path) p = Inr (start_change ''add'' path p)"
    "parse_line n (''*** Delete File: '' @ path) p = Inr (start_change ''delete'' path p)"
  using assms by (simp_all add: inside_def parse_line_def strip_prefix_def)

lemma parse_add_lines:
  assumes "ps_current p = Some c" "pc_kind c = ''add''" "ps_started p" "\<not> ps_ended p"
  shows "parse_lines n (map ((#) (CHR ''+'')) ls) p = Inr (p\<lparr>ps_current := Some (c\<lparr>pc_lines := pc_lines c @ ls\<rparr>)\<rparr>)"
  using assms
proof (induction ls arbitrary: n p c)
  case (Cons l ls)
  have "parse_line (n + 1) (CHR ''+'' # l) p = Inr (p\<lparr>ps_current := Some (c\<lparr>pc_lines := pc_lines c @ [l]\<rparr>)\<rparr>)"
    using Cons.prems by (simp add: parse_line_def strip_prefix_def parse_content_def END_PATCH_def)
  with Cons.IH [of "p\<lparr>ps_current := Some (c\<lparr>pc_lines := pc_lines c @ [l]\<rparr>)\<rparr>" "c\<lparr>pc_lines := pc_lines c @ [l]\<rparr>"] Cons.prems
  show ?case by simp
qed simp

lemma parse_hunk_lines:
  assumes "ps_current p = Some c" "pc_kind c = ''update''" "ps_hunk p = Some h" "ps_started p" "\<not> ps_ended p"
    and "list_all hunk_line ls"
  shows "parse_lines n ls p = Inr (p\<lparr>ps_hunk := Some (h @ ls)\<rparr>)"
  using assms
proof (induction ls arbitrary: n p h)
  case (Cons l ls)
  then obtain a r where l: "l = a # r" "a \<in> {CHR '' '', CHR ''+'', CHR ''-''}" by (cases l) (auto simp: hunk_line_def)
  have "parse_line (n + 1) l p = Inr (p\<lparr>ps_hunk := Some (h @ [l])\<rparr>)"
    using Cons.prems l by (auto simp: parse_line_def strip_prefix_def parse_content_def END_PATCH_def)
  with Cons.IH [of "p\<lparr>ps_hunk := Some (h @ [l])\<rparr>" "h @ [l]"] Cons.prems show ?case by simp
qed simp

definition closed_change :: "parse_state \<Rightarrow> patch_change \<Rightarrow> patch_change" where
  "closed_change p c = (case ps_hunk p of Some h \<Rightarrow> c\<lparr>pc_hunks := pc_hunks c @ [h]\<rparr> | None \<Rightarrow> c)"

lemma parse_hunks:
  assumes "ps_current p = Some c" "pc_kind c = ''update''" "ps_started p" "\<not> ps_ended p"
    and "list_all (list_all hunk_line) hs"
  shows "\<exists>q d. parse_lines n (concat (map (\<lambda>h. ''@@'' # h) hs)) p = Inr q \<and> ps_current q = Some d \<and>
    closed_change q d = (closed_change p c)\<lparr>pc_hunks := pc_hunks (closed_change p c) @ hs\<rparr> \<and>
    ps_changes q = ps_changes p \<and> ps_started q \<and> \<not> ps_ended q"
  using assms
proof (induction hs arbitrary: n p c)
  case Nil
  then show ?case by (cases "ps_hunk p") (auto simp: closed_change_def)
next
  case (Cons h hs)
  let ?c = "closed_change p c"
  let ?p = "p\<lparr>ps_current := Some ?c, ps_hunk := Some []\<rparr>"
  let ?q = "?p\<lparr>ps_hunk := Some h\<rparr>"
  have kind: "pc_kind ?c = ''update''" using Cons.prems(2) by (simp add: closed_change_def split: option.splits)
  have "parse_line (n + 1) ''@@'' p = Inr ?p"
    using Cons.prems by (simp add: parse_line_def strip_prefix_def parse_hunk_header_def closed_change_def)
  moreover have "parse_lines (n + 1) h ?p = Inr ?q"
    using parse_hunk_lines [of ?p ?c "[]" h "n + 1"] Cons.prems kind by simp
  ultimately have "parse_lines n (''@@'' # h) p = Inr ?q" using Cons.prems by simp
  then have step: "parse_lines n ((''@@'' # h) @ concat (map (\<lambda>h. ''@@'' # h) hs)) p =
      parse_lines (n + length (''@@'' # h)) (concat (map (\<lambda>h. ''@@'' # h) hs)) ?q"
    by (rule parse_lines_append) (use Cons.prems in simp)
  obtain q d where q: "parse_lines (n + length (''@@'' # h)) (concat (map (\<lambda>h. ''@@'' # h) hs)) ?q = Inr q"
      "ps_current q = Some d" "closed_change q d = (closed_change ?q ?c)\<lparr>pc_hunks := pc_hunks (closed_change ?q ?c) @ hs\<rparr>"
      "ps_changes q = ps_changes ?q" "ps_started q" "\<not> ps_ended q"
    using Cons.IH [of ?q ?c "n + length (''@@'' # h)"] Cons.prems kind by auto
  have "closed_change ?q ?c = ?c\<lparr>pc_hunks := pc_hunks ?c @ [h]\<rparr>" by (simp add: closed_change_def)
  with step q show ?case by (auto intro!: exI [of _ q] exI [of _ d])
qed

lemma inside_closed: "ps_current p = Some c \<Longrightarrow> ps_changes (finish_change p) = ps_changes p @ [closed_change p c]"
  by (simp add: finish_change_def closed_change_def)

lemma parse_move_line:
  assumes "ps_current p = Some c" "pc_kind c = ''update''" "ps_started p"
  shows "parse_line n (''*** Move to: '' @ m) p = Inr (p\<lparr>ps_current := Some (c\<lparr>pc_move_path := Some m\<rparr>)\<rparr>)"
  using assms by (simp add: parse_line_def strip_prefix_def parse_move_def)

lemma parse_printed_update:
  assumes p: "inside p changes" and c: "change_valid c" "pc_kind c = ''update''"
  shows "\<exists>q. parse_lines n (print_change c) p = Inr q \<and> inside q (changes @ [c])"
proof -
  let ?d = "new_change ''update'' (pc_path c)"
  let ?q = "start_change ''update'' (pc_path c) p"
  let ?e = "?d\<lparr>pc_move_path := pc_move_path c\<rparr>"
  let ?r = "?q\<lparr>ps_current := Some ?e\<rparr>"
  let ?move = "case pc_move_path c of Some m \<Rightarrow> [''*** Move to: '' @ m] | None \<Rightarrow> []"
  let ?hunks = "concat (map (\<lambda>h. ''@@'' # h) (pc_hunks c))"
  have started: "ps_started ?q" "\<not> ps_ended ?q" "ps_current ?q = Some ?d" "ps_hunk ?q = None" "ps_changes ?q = changes"
    using p by (simp_all add: inside_def start_change_def)
  have "parse_lines n ((''*** Update File: '' @ pc_path c) # ?move) p = Inr ?r"
    using parse_header(1) [OF p] parse_move_line [of ?q ?d] started
    by (cases "pc_move_path c") (simp_all add: new_change_def start_change_def)
  then have "parse_lines n (((''*** Update File: '' @ pc_path c) # ?move) @ ?hunks) p =
      parse_lines (n + length ((''*** Update File: '' @ pc_path c) # ?move)) ?hunks ?r"
    by (rule parse_lines_append) (use started in simp)
  moreover have "print_change c = ((''*** Update File: '' @ pc_path c) # ?move) @ ?hunks"
    using c(2) by (simp add: print_change_def)
  moreover have "list_all (list_all hunk_line) (pc_hunks c)" using c by (simp add: change_valid_def change_shape_def)
  then obtain q d where q: "parse_lines (n + length ((''*** Update File: '' @ pc_path c) # ?move)) ?hunks ?r = Inr q"
      "ps_current q = Some d" "closed_change q d = (closed_change ?r ?e)\<lparr>pc_hunks := pc_hunks (closed_change ?r ?e) @ pc_hunks c\<rparr>"
      "ps_changes q = ps_changes ?r" "ps_started q" "\<not> ps_ended q"
    using parse_hunks [of ?r ?e "pc_hunks c" "n + length ((''*** Update File: '' @ pc_path c) # ?move)"] started
    by (auto simp: new_change_def)
  moreover have "pc_lines c = []" using c by (auto simp: change_valid_def change_shape_def)
  then have "closed_change q d = c"
    using q(3) c(2) started(4) by (simp add: closed_change_def new_change_def)
  ultimately show ?thesis using started inside_closed [OF q(2)] by (auto simp: inside_def)
qed

lemma parse_printed_change:
  assumes p: "inside p changes" and c: "change_valid c"
  shows "\<exists>q. parse_lines n (print_change c) p = Inr q \<and> inside q (changes @ [c])"
proof -
  have started: "ps_started (start_change k x p)" "\<not> ps_ended (start_change k x p)" "ps_hunk (start_change k x p) = None"
      "ps_current (start_change k x p) = Some (new_change k x)" "ps_changes (start_change k x p) = changes" for k x
    using p by (simp_all add: inside_def start_change_def)
  consider (add) "pc_kind c = ''add''" "pc_move_path c = None" "pc_hunks c = []"
    | (delete) "pc_kind c = ''delete''" "pc_move_path c = None" "pc_hunks c = []" "pc_lines c = []"
    | (update) "pc_kind c = ''update''"
    using c by (auto simp: change_valid_def change_shape_def)
  then show ?thesis
  proof cases
    case add
    let ?q = "(start_change ''add'' (pc_path c) p)\<lparr>ps_current := Some ((new_change ''add'' (pc_path c))\<lparr>pc_lines := pc_lines c\<rparr>)\<rparr>"
    have "parse_lines n (print_change c) p = Inr ?q"
      using parse_header(2) [OF p] parse_add_lines [OF started(4) _ started(1,2)] started add(1)
      by (simp add: print_change_def new_change_def)
    moreover have "closed_change ?q ((new_change ''add'' (pc_path c))\<lparr>pc_lines := pc_lines c\<rparr>) = c"
      using add started by (simp add: closed_change_def new_change_def)
    ultimately show ?thesis using inside_closed [of ?q] started by (auto simp: inside_def)
  next
    case delete
    have "closed_change (start_change ''delete'' (pc_path c) p) (new_change ''delete'' (pc_path c)) = c"
      using delete started by (simp add: closed_change_def new_change_def)
    then show ?thesis
      using parse_header(3) [OF p] delete(1) inside_closed [OF started(4)] started
      by (simp add: print_change_def inside_def)
  next
    case update
    then show ?thesis using parse_printed_update [OF p c] by blast
  qed
qed

lemma parse_printed_changes:
  "inside p done \<Longrightarrow> (\<And>c. c \<in> set changes \<Longrightarrow> change_valid c) \<Longrightarrow>
   \<exists>q. parse_lines n (concat (map print_change changes)) p = Inr q \<and> inside q (done @ changes)"
proof (induction changes arbitrary: n p "done")
  case Nil
  then show ?case by simp
next
  case (Cons c cs)
  obtain q where q: "parse_lines n (print_change c) p = Inr q" "inside q (done @ [c])"
    using parse_printed_change [OF Cons.prems(1)] Cons.prems(2) by (metis list.set_intros(1))
  obtain r where r: "parse_lines (n + length (print_change c)) (concat (map print_change cs)) q = Inr r"
      "inside r ((done @ [c]) @ cs)"
    using Cons.IH [OF q(2)] Cons.prems(2) by (meson list.set_intros(2))
  have "parse_lines n (print_change c @ concat (map print_change cs)) p = Inr r"
    using parse_lines_append [OF q(1)] q(2) r(1) by (simp add: inside_def)
  with r(2) show ?case by auto
qed

lemma validate_valid: "change_valid c \<Longrightarrow> validate_change c = Inr ()"
  by (auto simp: change_valid_def change_shape_def validate_change_def)

lemma parse_print:
  assumes "changes \<noteq> []" "\<And>c. c \<in> set changes \<Longrightarrow> printable c"
  shows "parse_patch (print_patch changes) = Inr changes"
proof -
  let ?p = "parse_start\<lparr>ps_started := True\<rparr>"
  have valid: "\<And>c. c \<in> set changes \<Longrightarrow> change_valid c" using assms(2) by (simp add: printable_def)
  have first_line: "parse_line 1 BEGIN_PATCH parse_start = Inr ?p"
  proof -
    have "\<not> blank BEGIN_PATCH" by code_simp
    then show ?thesis by (simp add: parse_line_def parse_start_def)
  qed
  have "inside ?p []" by (simp add: inside_def parse_start_def finish_change_def)
  then obtain q where q: "parse_lines 1 (concat (map print_change changes)) ?p = Inr q" "inside q changes"
    using parse_printed_changes [of ?p "[]" changes 1] valid by auto
  have last_line: "parse_line m END_PATCH q = Inr ((finish_change q)\<lparr>ps_ended := True\<rparr>)" for m
    using q(2) by (simp add: inside_def parse_line_def strip_prefix_def END_PATCH_def)
  have "parse_lines 1 (concat (map print_change changes) @ [END_PATCH]) ?p = Inr ((finish_change q)\<lparr>ps_ended := True\<rparr>)"
    using parse_lines_append [OF q(1)] q(2) last_line by (simp add: inside_def)
  then have "parse_lines 0 (str_lines (print_patch changes)) parse_start = Inr ((finish_change q)\<lparr>ps_ended := True\<rparr>)"
    using first_line str_lines_print_patch [OF assms(2)] by (simp add: parse_start_def)
  moreover have "validate_changes changes = Inr ()" using valid validate_valid by (simp add: validate_changes_def try_each_Inr)
  ultimately show ?thesis using q(2) assms(1) by (simp add: parse_patch_def inside_def)
qed

end
