(* ===== verification/Patch_Hunks.thy ===== *)
theory Patch_Hunks
  imports Patch_Parser
begin

text \<open>
  Applying the hunks of an update to the text of a file (\<open>apply_hunks_with_delta\<close> of
  \<open>tools/src/commands/apply_patch/mod.rs\<close>), the record of what was applied (\<open>postimage.rs\<close>) and the
  diagnostic excerpt of a failed match (\<open>failure_context.rs\<close>).
\<close>

section \<open>Matching\<close>

datatype match_mode = Exact | TrimEnd | Trim | Normalized

text \<open>The typographic characters that match their ASCII counterparts.\<close>

definition normalize_char :: "string \<Rightarrow> string" where
  "normalize_char ch =
     (if ch \<in> {[CHR 0xC2, CHR 0xA0], [CHR 0xE2, CHR 0x80, CHR 0x87], [CHR 0xE2, CHR 0x80, CHR 0xAF]} then '' ''
      else if ch \<in> {[CHR 0xE2, CHR 0x80, CHR 0x90], [CHR 0xE2, CHR 0x80, CHR 0x91], [CHR 0xE2, CHR 0x80, CHR 0x92],
          [CHR 0xE2, CHR 0x80, CHR 0x93], [CHR 0xE2, CHR 0x80, CHR 0x94], [CHR 0xE2, CHR 0x88, CHR 0x92]} then ''-''
      else if ch \<in> {[CHR 0xE2, CHR 0x80, CHR 0x98], [CHR 0xE2, CHR 0x80, CHR 0x99],
          [CHR 0xE2, CHR 0x80, CHR 0x9A], [CHR 0xE2, CHR 0x80, CHR 0x9B]} then [CHR 0x27]
      else if ch \<in> {[CHR 0xE2, CHR 0x80, CHR 0x9C], [CHR 0xE2, CHR 0x80, CHR 0x9D],
          [CHR 0xE2, CHR 0x80, CHR 0x9E], [CHR 0xE2, CHR 0x80, CHR 0x9F]} then [CHR 0x22]
      else ch)"

definition normalize_match_text :: "string \<Rightarrow> string" where
  "normalize_match_text text = concat (map normalize_char (str_chars (trim text)))"

fun line_matches :: "match_mode \<Rightarrow> string \<Rightarrow> string \<Rightarrow> bool" where
  "line_matches Exact l r = (l = r)"
| "line_matches TrimEnd l r = (trim_end l = trim_end r)"
| "line_matches Trim l r = (trim l = trim r)"
| "line_matches Normalized l r = (normalize_match_text l = normalize_match_text r)"

definition sequence_matches :: "string list \<Rightarrow> string list \<Rightarrow> match_mode \<Rightarrow> bool" where
  "sequence_matches candidate pattern mode =
     list_all (\<lambda>(l, r). line_matches mode l r) (zip candidate pattern)"

definition candidate_matches :: "string list \<Rightarrow> string list \<Rightarrow> bool" where
  "candidate_matches candidate pattern =
     (sequence_matches candidate pattern Exact \<or> sequence_matches candidate pattern TrimEnd \<or>
      sequence_matches candidate pattern Trim \<or> sequence_matches candidate pattern Normalized)"

definition seek_sequence :: "string list \<Rightarrow> string list \<Rightarrow> nat \<Rightarrow> nat option" where
  "seek_sequence lines pattern start =
     (if pattern = [] then Some (min start (length lines))
      else if length pattern > length lines \<or> start > length lines - length pattern then None
      else find (\<lambda>i. candidate_matches (take (length pattern) (drop i lines)) pattern)
             [start..<Suc (length lines - length pattern)])"

section \<open>Replacements\<close>

definition hunk_old :: "string list \<Rightarrow> string list" where
  "hunk_old hunk = map (drop 1) (filter (\<lambda>l. starts_with l '' '' \<or> starts_with l ''-'') hunk)"

definition hunk_new :: "string list \<Rightarrow> string list" where
  "hunk_new hunk = map (drop 1) (filter (\<lambda>l. starts_with l '' '' \<or> starts_with l ''+'') hunk)"

text \<open>
  The lines that replace a match: a context line is kept as the file has it, not as the patch spells it.
  The list \<open>actual\<close> is what \<open>actual_old_lines\<close> has left at \<open>actual_index\<close>.
\<close>

fun replacement_lines_for_hunk :: "string list \<Rightarrow> string list \<Rightarrow> string list" where
  "replacement_lines_for_hunk [] actual = []"
| "replacement_lines_for_hunk (line # rest) actual =
     (if starts_with line '' ''
      then (case actual of a # _ \<Rightarrow> a | [] \<Rightarrow> drop 1 line) # replacement_lines_for_hunk rest (tl actual)
      else if starts_with line ''-'' then replacement_lines_for_hunk rest (tl actual)
      else if starts_with line ''+'' then drop 1 line # replacement_lines_for_hunk rest actual
      else replacement_lines_for_hunk rest actual)"

type_synonym replacement = "nat \<times> nat \<times> string list"

section \<open>The excerpt of a failed match\<close>

fun common_prefix :: "nat \<Rightarrow> string list \<Rightarrow> string list \<Rightarrow> nat" where
  "common_prefix (Suc k) (a # as) (b # bs) = (if a = b then Suc (common_prefix k as bs) else 0)"
| "common_prefix _ _ _ = 0"

text \<open>The line with the longest common prefix, if only one has it.\<close>

fun unique_best :: "string \<Rightarrow> nat \<Rightarrow> string list \<Rightarrow> nat \<times> nat option \<Rightarrow> nat \<times> nat option" where
  "unique_best expected i [] acc = acc"
| "unique_best expected i (line # lines) (best, index) =
     (let common = common_prefix 120 (str_chars (trim line)) (str_chars expected)
      in unique_best expected (Suc i) lines
           (if common > best then (common, Some i) else if common = best then (best, None) else (best, index)))"

definition excerpt :: "string \<Rightarrow> string \<Rightarrow> (nat \<times> string) option" where
  "excerpt original expected_line =
     (let expected = trim expected_line
      in if length (str_chars expected) < 16 then None
         else let lines = split_inclusive original;
                  (best, found) = unique_best expected 0 lines (0, None)
              in if best < 16 then None
                 else Option.bind found (\<lambda>index.
                   let start = index - 3; end = min (index + 4) (length lines);
                       text = concat (take (end - start) (drop start lines))
                   in if length text > 4096 then None else Some (start + 1, text)))"

section \<open>The applied delta\<close>

definition MAX_BYTES :: nat where "MAX_BYTES = 32768"
definition MAX_LINES :: nat where "MAX_LINES = 600"
definition MAX_FILE_BYTES :: nat where "MAX_FILE_BYTES = 1024 * 1024"

record delta_hunk =
  dh_before_start_line :: nat
  dh_before_line_count :: nat
  dh_after_start_line :: nat
  dh_after_line_count :: nat
  dh_before_text :: string
  dh_after_text :: string

text \<open>The variables of the loop of \<open>from_applied_buffers\<close>.\<close>

record delta_loop =
  dl_hunks :: "delta_hunk list"
  dl_removed :: nat
  dl_added :: nat
  dl_previous_end :: nat
  dl_count :: nat
  dl_reconstructed :: string

definition sub_range :: "nat \<Rightarrow> nat \<Rightarrow> 'a list \<Rightarrow> 'a list" where
  "sub_range i j xs = take (j - i) (drop i xs)"

fun delta_steps :: "string list \<Rightarrow> string list \<Rightarrow> replacement list \<Rightarrow> delta_loop \<Rightarrow> delta_loop option" where
  "delta_steps old new [] s = Some s"
| "delta_steps old new ((start, end, replacement) # rest) s =
     (if start > end \<or> end > length old \<or> start < dl_previous_end s then None
      else if dl_removed s > start then None
      else let new_start = start - dl_removed s + dl_added s;
               new_end = new_start + length replacement
           in if new_end > length new then None
              else let before_text = concat (sub_range start end old);
                       after_text = concat (sub_range new_start new_end new);
                       changed = dl_count s + (end - start) + (new_end - new_start)
                   in if changed > MAX_LINES then None
                      else delta_steps old new rest
                        \<lparr>dl_hunks = dl_hunks s @ [\<lparr>dh_before_start_line = start + 1, dh_before_line_count = end - start,
                           dh_after_start_line = new_start + 1, dh_after_line_count = new_end - new_start,
                           dh_before_text = before_text, dh_after_text = after_text\<rparr>],
                         dl_removed = dl_removed s + (end - start), dl_added = dl_added s + length replacement,
                         dl_previous_end = end, dl_count = changed,
                         dl_reconstructed = dl_reconstructed s @ concat (sub_range (dl_previous_end s) start old) @ after_text\<rparr>)"

definition json_nat :: "nat \<Rightarrow> json" where
  "json_nat n = JNumber (PosInt (of_nat n))"

definition delta_hunk_to_value :: "delta_hunk \<Rightarrow> json" where
  "delta_hunk_to_value h = JObject
     [(''before_start_line'', json_nat (dh_before_start_line h)),
      (''before_line_count'', json_nat (dh_before_line_count h)),
      (''after_start_line'', json_nat (dh_after_start_line h)),
      (''after_line_count'', json_nat (dh_after_line_count h)),
      (''before_text'', JString (dh_before_text h)), (''after_text'', JString (dh_after_text h))]"

definition delta_notice :: string where
  "delta_notice = ''Exact applied buffers bound by this change'' @ [CHR 0x27] @
     ''s preimage/postimage SHA and terminal receipt. Reuse only matching prior source plus these hunks; '' @
     ''unseen surrounding context is not supplied. Not verifier facts, acceptance or current state after later edits.''"

definition delta_to_value :: "nat \<Rightarrow> delta_hunk list \<Rightarrow> json" where
  "delta_to_value changed hunks = JObject
     [(''schema_version'', JString ''nokiy_applied_source_delta_v1''),
      (''coverage'', JString ''all_text_changes''), (''line_count'', json_nat changed),
      (''hunks'', JArray (map delta_hunk_to_value hunks)), (''notice'', JString delta_notice)]"

definition applied_delta :: "string \<Rightarrow> string \<Rightarrow> replacement list \<Rightarrow> (nat \<times> delta_hunk list) option" where
  "applied_delta before after replacements =
     (if length before > MAX_FILE_BYTES \<or> length after > MAX_FILE_BYTES then None
      else let old = split_inclusive before
           in Option.bind (delta_steps old (split_inclusive after) replacements
                \<lparr>dl_hunks = [], dl_removed = 0, dl_added = 0, dl_previous_end = 0, dl_count = 0, dl_reconstructed = []\<rparr>)
                (\<lambda>s. if dl_hunks s = [] \<or> dl_reconstructed s @ concat (drop (dl_previous_end s) old) \<noteq> after then None
                     else Some (dl_count s, dl_hunks s)))"

definition from_applied_buffers :: "externals \<Rightarrow> string \<Rightarrow> string \<Rightarrow> replacement list \<Rightarrow> json option" where
  "from_applied_buffers X before after replacements =
     Option.bind (applied_delta before after replacements) (\<lambda>(changed, hunks).
       let value = delta_to_value changed hunks
       in if length (canonical X value) \<le> MAX_BYTES then Some value else None)"

section \<open>Applying hunks\<close>

definition join_lines :: "string list \<Rightarrow> string \<Rightarrow> bool \<Rightarrow> string" where
  "join_lines lines line_ending final_newline =
     (let text = join_with line_ending lines
      in if final_newline \<and> text \<noteq> [] then text @ line_ending else text)"

definition dominant_line_ending :: "string \<Rightarrow> string" where
  "dominant_line_ending text = (if contains text [CR, LF] then [CR, LF] else [LF])"

definition splice :: "string list \<Rightarrow> replacement \<Rightarrow> string list" where
  "splice lines r = (case r of (start, end, new) \<Rightarrow> take start lines @ new @ drop end lines)"

definition mismatch_message :: "externals \<Rightarrow> string \<Rightarrow> string list \<Rightarrow> bool \<Rightarrow> string" where
  "mismatch_message X original old readback =
     ''patch context not found: '' @ concat (take 120 (str_chars (join_with [LF] old))) @
     (case (if readback then excerpt original (hd old) else None) of
        Some (start_line, text) \<Rightarrow>
          [LF] @ ''Read-only preimage context: '' @ canonical X (JObject
            [(''kind'', JString ''diagnostic_candidate_not_patch_match''),
             (''preimage_sha256'', JString (sha256_hex X original)),
             (''start_line'', json_nat start_line), (''text'', JString text)])
      | None \<Rightarrow> [])"

fun find_replacements ::
  "externals \<Rightarrow> string \<Rightarrow> bool \<Rightarrow> string list \<Rightarrow> nat \<Rightarrow> string list list \<Rightarrow> (string, replacement list) result" where
  "find_replacements X original readback lines search_start [] = Inr []"
| "find_replacements X original readback lines search_start (hunk # hunks) =
     (if hunk_old hunk = []
      then and_then (find_replacements X original readback lines (length lines) hunks) (\<lambda>rs.
           Inr ((length lines, length lines, hunk_new hunk) # rs))
      else case seek_sequence lines (hunk_old hunk) search_start of
        Some start \<Rightarrow>
          (let end = start + length (hunk_old hunk)
           in and_then (find_replacements X original readback lines end hunks) (\<lambda>rs.
              Inr ((start, end, replacement_lines_for_hunk hunk (sub_range start end lines)) # rs)))
      | None \<Rightarrow> Inl (mismatch_message X original (hunk_old hunk) readback))"

definition apply_hunks_with_delta ::
  "externals \<Rightarrow> string \<Rightarrow> string list list \<Rightarrow> bool \<Rightarrow> (string, string \<times> json option) result" where
  "apply_hunks_with_delta X original hunks readback =
     (let lines = str_lines original;
          line_ending = dominant_line_ending original;
          original_had_final_newline = (ends_with original [LF] \<or> ends_with original [CR])
      in and_then (find_replacements X original readback lines 0 hunks) (\<lambda>replacements.
         let updated = join_lines (foldl splice lines (rev replacements)) line_ending original_had_final_newline
         in Inr (updated, if readback then from_applied_buffers X original updated replacements else None)))"

end
