(* ===== verification/Patch_Hunk_Facts.thy ===== *)
theory Patch_Hunk_Facts
  imports Patch_Hunks
begin

text \<open>
  The application of hunks against its specification. The code collects replacements and splices them in from
  the back; \<open>rebuild\<close> is the single pass from the front that gives the same lines, and \<open>patched\<close> says what a
  list of hunks makes of a list of lines.
\<close>

section \<open>Splicing from the back\<close>

fun rebuild :: "nat \<Rightarrow> 'a list \<Rightarrow> (nat \<times> nat \<times> 'a list) list \<Rightarrow> 'a list" where
  "rebuild pos lines [] = drop pos lines"
| "rebuild pos lines ((start, end, new) # rs) = sub_range pos start lines @ new @ rebuild end lines rs"

fun ascending :: "nat \<Rightarrow> nat \<Rightarrow> (nat \<times> nat \<times> 'a) list \<Rightarrow> bool" where
  "ascending pos n [] = (pos \<le> n)"
| "ascending pos n ((start, end, new) # rs) = (pos \<le> start \<and> start \<le> end \<and> end \<le> n \<and> ascending end n rs)"

lemma take_sub_range: "i \<le> j \<Longrightarrow> take i xs @ sub_range i j xs = take j xs"
  by (metis le_add_diff_inverse sub_range_def take_add)

lemma length_sub_range [simp]: "length (sub_range i j xs) = min (j - i) (length xs - i)"
  by (simp add: sub_range_def min.commute)

lemma sub_range_append_drop: "i \<le> j \<Longrightarrow> sub_range i j xs @ drop j xs = drop i xs"
  by (metis append_take_drop_id drop_drop le_add_diff_inverse2 sub_range_def)

lemma splice_all_rebuild:
  "ascending pos (length lines) rs \<Longrightarrow> foldl splice lines (rev rs) = take pos lines @ rebuild pos lines rs"
proof (induction rs arbitrary: pos)
  case (Cons r rs)
  obtain start "end" new where r: "r = (start, end, new)" by (cases r)
  with Cons.prems have b: "pos \<le> start" "start \<le> end" "end \<le> length lines" "ascending end (length lines) rs" by auto
  have "foldl splice lines (rev (r # rs)) = splice (take end lines @ rebuild end lines rs) r"
    using Cons.IH [OF b(4)] by simp
  also have "\<dots> = take start lines @ new @ rebuild end lines rs"
    using b by (simp add: splice_def r min_absorb1)
  also have "\<dots> = take pos lines @ rebuild pos lines (r # rs)"
    using take_sub_range [OF b(1), of lines] by (simp add: r flip: append_assoc)
  finally show ?case .
qed simp

section \<open>Finding the places\<close>

lemma seek_sequence_Some:
  assumes "seek_sequence lines pattern start = Some i" "pattern \<noteq> []"
  shows "start \<le> i" "i + length pattern \<le> length lines"
    "candidate_matches (sub_range i (i + length pattern) lines) pattern"
    "\<And>k. start \<le> k \<Longrightarrow> k < i \<Longrightarrow> \<not> candidate_matches (sub_range k (k + length pattern) lines) pattern"
proof -
  let ?P = "\<lambda>i. candidate_matches (take (length pattern) (drop i lines)) pattern"
  let ?is = "[start..<Suc (length lines - length pattern)]"
  have f: "find ?P ?is = Some i" and len: "length pattern \<le> length lines"
    using assms by (auto simp: seek_sequence_def split: if_splits)
  then obtain j where j: "j < length ?is" "?P (?is ! j)" "i = ?is ! j" "\<forall>k<j. \<not> ?P (?is ! k)"
    by (auto simp: find_Some_iff simp del: upt_Suc)
  then have i: "i = start + j" by (simp add: nth_upt del: upt_Suc)
  with j(1) len show "start \<le> i" "i + length pattern \<le> length lines" by (auto simp del: upt_Suc)
  show "candidate_matches (sub_range i (i + length pattern) lines) pattern" using j(2,3) by (simp add: sub_range_def)
  fix k assume k: "start \<le> k" "k < i"
  then have "?is ! (k - start) = k" "k - start < j" using i j(1) by (auto simp del: upt_Suc)
  with j(4) show "\<not> candidate_matches (sub_range k (k + length pattern) lines) pattern" by (auto simp: sub_range_def)
qed

lemma seek_sequence_None:
  assumes "seek_sequence lines pattern start = None" "start \<le> k" "k + length pattern \<le> length lines"
  shows "\<not> candidate_matches (sub_range k (k + length pattern) lines) pattern"
proof -
  have "pattern \<noteq> []" "\<not> (length pattern > length lines \<or> start > length lines - length pattern)"
    using assms by (auto simp: seek_sequence_def)
  then have "\<forall>i\<in>{start..length lines - length pattern}. \<not> candidate_matches (take (length pattern) (drop i lines)) pattern"
    using assms(1) by (auto simp: seek_sequence_def find_None_iff atLeastLessThanSuc_atLeastAtMost simp del: upt_Suc)
  moreover have "k \<in> {start..length lines - length pattern}" using assms(2,3) by simp
  ultimately show ?thesis by (simp add: sub_range_def)
qed

lemma find_replacements_ascending:
  "find_replacements X original readback lines pos hunks = Inr rs \<Longrightarrow> pos \<le> length lines \<Longrightarrow>
   ascending pos (length lines) rs"
proof (induction hunks arbitrary: pos rs)
  case (Cons h hunks)
  show ?case
  proof (cases "hunk_old h = []")
    case True
    with Cons.prems obtain rest where "find_replacements X original readback lines (length lines) hunks = Inr rest"
        "rs = (length lines, length lines, hunk_new h) # rest" by (auto simp: and_then_Inr_iff)
    with Cons.IH Cons.prems(2) show ?thesis by simp
  next
    case False
    with Cons.prems obtain i rest where i: "seek_sequence lines (hunk_old h) pos = Some i"
        "find_replacements X original readback lines (i + length (hunk_old h)) hunks = Inr rest"
        "rs = (i, i + length (hunk_old h), replacement_lines_for_hunk h (sub_range i (i + length (hunk_old h)) lines)) # rest"
      by (auto simp: and_then_Inr_iff Let_def split: option.splits)
    with seek_sequence_Some [OF i(1) False] Cons.IH show ?thesis by simp
  qed
qed simp

section \<open>What a list of hunks means\<close>

text \<open>
  Hunk by hunk from the front: lines are kept up to the first place where the lines the hunk expects stand,
  those are replaced, and the next hunk continues after them; a hunk that expects nothing adds at the end.
\<close>

inductive patched :: "string list \<Rightarrow> string list list \<Rightarrow> string list \<Rightarrow> bool" where
  no_hunk: "patched lines [] lines"
| replace_match: "\<lbrakk>hunk_old h \<noteq> []; length actual = length (hunk_old h); candidate_matches actual (hunk_old h);
     \<And>k. k < length keep \<Longrightarrow> \<not> candidate_matches (sub_range k (k + length (hunk_old h)) (keep @ actual @ rest)) (hunk_old h);
     patched rest hs out\<rbrakk> \<Longrightarrow>
   patched (keep @ actual @ rest) (h # hs) (keep @ replacement_lines_for_hunk h actual @ out)"
| append_lines: "\<lbrakk>hunk_old h = []; patched [] hs out\<rbrakk> \<Longrightarrow> patched lines (h # hs) (lines @ hunk_new h @ out)"

lemma sub_range_drop: "sub_range k (k + n) (drop pos xs) = sub_range (pos + k) (pos + k + n) xs"
  by (simp add: sub_range_def add.commute)

lemma find_replacements_patched:
  "find_replacements X original readback lines pos hunks = Inr rs \<Longrightarrow> pos \<le> length lines \<Longrightarrow>
   patched (drop pos lines) hunks (rebuild pos lines rs)"
proof (induction hunks arbitrary: pos rs)
  case Nil
  then show ?case by (auto intro: patched.no_hunk)
next
  case (Cons h hunks)
  show ?case
  proof (cases "hunk_old h = []")
    case True
    with Cons.prems obtain rest where rest: "find_replacements X original readback lines (length lines) hunks = Inr rest"
        "rs = (length lines, length lines, hunk_new h) # rest" by (auto simp: and_then_Inr_iff)
    have "sub_range pos (length lines) lines = drop pos lines" by (simp add: sub_range_def)
    moreover have "patched [] hunks (rebuild (length lines) lines rest)" using Cons.IH [OF rest(1)] by simp
    ultimately show ?thesis using True rest(2) patched.append_lines by auto
  next
    case False
    let ?n = "length (hunk_old h)"
    from False Cons.prems obtain i rest where i: "seek_sequence lines (hunk_old h) pos = Some i"
        "find_replacements X original readback lines (i + ?n) hunks = Inr rest"
        "rs = (i, i + ?n, replacement_lines_for_hunk h (sub_range i (i + ?n) lines)) # rest"
      by (auto simp: and_then_Inr_iff Let_def split: option.splits)
    note s = seek_sequence_Some [OF i(1) False]
    let ?keep = "sub_range pos i lines" and ?actual = "sub_range i (i + ?n) lines"
    have split: "drop pos lines = ?keep @ ?actual @ drop (i + ?n) lines"
      using s(1) by (simp add: sub_range_append_drop)
    have "patched (drop (i + ?n) lines) hunks (rebuild (i + ?n) lines rest)" using Cons.IH [OF i(2)] s(2) by simp
    moreover have "\<not> candidate_matches (sub_range k (k + ?n) (?keep @ ?actual @ drop (i + ?n) lines)) (hunk_old h)"
      if "k < length ?keep" for k
    proof -
      have "pos + k < i" using that by auto
      then show ?thesis using s(4) [of "pos + k"] unfolding split [symmetric] sub_range_drop by simp
    qed
    ultimately have "patched (?keep @ ?actual @ drop (i + ?n) lines) (h # hunks)
        (?keep @ replacement_lines_for_hunk h ?actual @ rebuild (i + ?n) lines rest)"
      using False s(2,3) by (intro patched.replace_match) auto
    then show ?thesis unfolding split using i(3) by simp
  qed
qed

text \<open>Conversely, whatever the hunks mean is found.\<close>

lemma patched_found:
  "patched ls hunks out \<Longrightarrow> ls = drop pos lines \<Longrightarrow> pos \<le> length lines \<Longrightarrow>
   \<exists>rs. find_replacements X original readback lines pos hunks = Inr rs"
proof (induction arbitrary: pos rule: patched.induct)
  case (no_hunk ls)
  then show ?case by simp
next
  case (replace_match h actual keep rest hs out)
  let ?n = "length (hunk_old h)"
  let ?i = "pos + length keep"
  have len: "?i + ?n + length rest = length lines"
  proof -
    have "length (keep @ actual @ rest) = length lines - pos" unfolding replace_match.prems(1) by simp
    then show ?thesis using replace_match.prems(2) replace_match.hyps(2) by simp
  qed
  have at: "sub_range ?i (?i + ?n) lines = actual"
    using sub_range_drop [of "length keep" ?n pos lines] replace_match.prems(1) [symmetric] replace_match.hyps(2)
    by (simp add: sub_range_def)
  have "seek_sequence lines (hunk_old h) pos \<noteq> None"
    using seek_sequence_None [of lines "hunk_old h" pos ?i] at len replace_match.hyps(3) by auto
  then obtain i where i: "seek_sequence lines (hunk_old h) pos = Some i" by blast
  note s = seek_sequence_Some [OF i replace_match.hyps(1)]
  have "i = ?i"
  proof (rule ccontr)
    assume "i \<noteq> ?i"
    then consider "?i < i" | "i < ?i" by linarith
    then show False
    proof cases
      case 1
      then show False using s(4) [of ?i] at replace_match.hyps(3) by simp
    next
      case 2
      then have "i - pos < length keep" "pos + (i - pos) = i" using s(1) by simp_all
      then show False
        using replace_match.hyps(4) [of "i - pos"] s(3) sub_range_drop [of "i - pos" ?n pos lines] replace_match.prems(1)
        by simp
    qed
  qed
  moreover have "rest = drop (?i + ?n) lines"
  proof -
    have "drop (length keep + ?n) (keep @ actual @ rest) = rest" using replace_match.hyps(2) by simp
    then show ?thesis unfolding replace_match.prems(1) by (simp add: add.commute add.left_commute)
  qed
  ultimately obtain rs where "find_replacements X original readback lines (i + ?n) hs = Inr rs"
    using replace_match.IH [of "?i + ?n"] len by auto
  with i replace_match.hyps(1) show ?case by (simp add: Let_def)
next
  case (append_lines h hs out ls)
  then obtain rs where "find_replacements X original readback lines (length lines) hs = Inr rs"
    using append_lines.IH [of "length lines"] by auto
  with append_lines.hyps(1) show ?case by simp
qed

text \<open>Where the file has exactly the lines the hunk expects, they become exactly the lines it gives.\<close>

lemma replacement_exact:
  "(\<And>l. l \<in> set h \<Longrightarrow> l \<noteq> [] \<and> hd l \<in> {CHR '' '', CHR ''+'', CHR ''-''}) \<Longrightarrow>
   replacement_lines_for_hunk h (hunk_old h @ beyond) = hunk_new h"
proof (induction h)
  case (Cons l h)
  then have IH: "replacement_lines_for_hunk h (hunk_old h @ beyond) = hunk_new h" by simp
  obtain c r where l: "l = c # r" "c \<in> {CHR '' '', CHR ''+'', CHR ''-''}" using Cons.prems [of l] by (cases l) auto
  then show ?case using IH by (auto simp: hunk_old_def hunk_new_def)
qed (simp add: hunk_old_def hunk_new_def)

section \<open>The delta\<close>

definition delta_replacement :: "delta_hunk \<Rightarrow> nat \<times> nat \<times> string list" where
  "delta_replacement h = (dh_before_start_line h - 1, dh_before_start_line h - 1 + dh_before_line_count h, [dh_after_text h])"

lemma delta_steps_reconstruct:
  assumes "delta_steps old new rs s = Some t" "dl_previous_end s \<le> length old" "dl_count s \<le> MAX_LINES"
  shows "\<exists>hs. dl_hunks t = dl_hunks s @ hs \<and>
    dl_reconstructed t @ concat (drop (dl_previous_end t) old) =
      dl_reconstructed s @ concat (rebuild (dl_previous_end s) old (map delta_replacement hs)) \<and>
    ascending (dl_previous_end s) (length old) (map delta_replacement hs) \<and>
    (\<forall>h\<in>set hs. dh_before_text h = concat (sub_range (dh_before_start_line h - 1)
        (dh_before_start_line h - 1 + dh_before_line_count h) old)) \<and> dl_count t \<le> MAX_LINES"
  using assms
proof (induction rs arbitrary: s)
  case Nil
  then show ?case by auto
next
  case (Cons r rs)
  obtain start "end" new_lines where r: "r = (start, end, new_lines)" by (cases r)
  let ?ns = "start - dl_removed s + dl_added s"
  let ?after = "concat (sub_range ?ns (?ns + length new_lines) new)"
  let ?h = "\<lparr>dh_before_start_line = start + 1, dh_before_line_count = end - start, dh_after_start_line = ?ns + 1,
    dh_after_line_count = length new_lines, dh_before_text = concat (sub_range start end old), dh_after_text = ?after\<rparr>"
  let ?s = "\<lparr>dl_hunks = dl_hunks s @ [?h], dl_removed = dl_removed s + (end - start), dl_added = dl_added s + length new_lines,
    dl_previous_end = end, dl_count = dl_count s + (end - start) + length new_lines,
    dl_reconstructed = dl_reconstructed s @ concat (sub_range (dl_previous_end s) start old) @ ?after\<rparr>"
  have b: "start \<le> end" "end \<le> length old" "dl_previous_end s \<le> start" "dl_count ?s \<le> MAX_LINES"
    and next_step: "delta_steps old new rs ?s = Some t"
    using Cons.prems(1) by (auto simp: r Let_def split: if_splits)
  obtain hs where hs: "dl_hunks t = dl_hunks ?s @ hs"
      "dl_reconstructed t @ concat (drop (dl_previous_end t) old) =
        dl_reconstructed ?s @ concat (rebuild end old (map delta_replacement hs))"
      "ascending end (length old) (map delta_replacement hs)"
      "\<forall>h\<in>set hs. dh_before_text h = concat (sub_range (dh_before_start_line h - 1)
        (dh_before_start_line h - 1 + dh_before_line_count h) old)" "dl_count t \<le> MAX_LINES"
    using Cons.IH [OF next_step] b(2,4) by auto
  have "delta_replacement ?h = (start, end, [?after])" using b(1) by (simp add: delta_replacement_def)
  then show ?case using hs b by (intro exI [of _ "?h # hs"]) simp
qed

text \<open>Applying the recorded hunks to the lines of the preimage, last hunk first.\<close>

definition reconstruct :: "string \<Rightarrow> delta_hunk list \<Rightarrow> string" where
  "reconstruct before hunks =
     concat (foldl splice (split_inclusive before) (rev (map delta_replacement hunks)))"

lemma applied_delta_reconstruct:
  assumes "applied_delta before after rs = Some (n, hunks)"
  shows "reconstruct before hunks = after" "hunks \<noteq> []" "n \<le> MAX_LINES"
    "\<And>h. h \<in> set hunks \<Longrightarrow> dh_before_text h = concat (sub_range (dh_before_start_line h - 1)
        (dh_before_start_line h - 1 + dh_before_line_count h) (split_inclusive before))"
proof -
  let ?old = "split_inclusive before"
  let ?s = "\<lparr>dl_hunks = [], dl_removed = 0, dl_added = 0, dl_previous_end = 0, dl_count = 0, dl_reconstructed = []\<rparr>"
  obtain t where t: "delta_steps ?old (split_inclusive after) rs ?s = Some t"
      "dl_reconstructed t @ concat (drop (dl_previous_end t) ?old) = after" "dl_hunks t \<noteq> []" "hunks = dl_hunks t" "n = dl_count t"
    using assms by (auto simp: applied_delta_def Let_def bind_eq_Some_conv split: if_splits)
  obtain hs where hs: "dl_hunks t = hs" "after = concat (rebuild 0 ?old (map delta_replacement hs))"
      "ascending 0 (length ?old) (map delta_replacement hs)"
      "\<forall>h\<in>set hs. dh_before_text h = concat (sub_range (dh_before_start_line h - 1)
        (dh_before_start_line h - 1 + dh_before_line_count h) ?old)" "dl_count t \<le> MAX_LINES"
    using delta_steps_reconstruct [OF t(1)] t(2) by auto
  show "reconstruct before hunks = after"
    using splice_all_rebuild [OF hs(3)] hs(1,2) t(4) by (simp add: reconstruct_def)
  show "hunks \<noteq> []" "n \<le> MAX_LINES" using t(3,4,5) hs(5) by simp_all
  show "dh_before_text h = concat (sub_range (dh_before_start_line h - 1)
        (dh_before_start_line h - 1 + dh_before_line_count h) ?old)" if "h \<in> set hunks" for h
    using that hs(1,4) t(4) by simp
qed

section \<open>The text of the updated file\<close>

lemma apply_hunks_result:
  assumes "apply_hunks_with_delta X original hunks readback = Inr (updated, delta)"
  shows "\<exists>rs lines. find_replacements X original readback (str_lines original) 0 hunks = Inr rs \<and>
    patched (str_lines original) hunks lines \<and> lines = foldl splice (str_lines original) (rev rs) \<and>
    updated = join_lines lines (dominant_line_ending original) (ends_with original [LF] \<or> ends_with original [CR]) \<and>
    delta = (if readback then from_applied_buffers X original updated rs else None)"
proof -
  obtain rs where rs: "find_replacements X original readback (str_lines original) 0 hunks = Inr rs"
      "updated = join_lines (foldl splice (str_lines original) (rev rs)) (dominant_line_ending original)
        (ends_with original [LF] \<or> ends_with original [CR])"
      "delta = (if readback then from_applied_buffers X original updated rs else None)"
    using assms by (auto simp: apply_hunks_with_delta_def Let_def and_then_Inr_iff)
  have "foldl splice (str_lines original) (rev rs) = rebuild 0 (str_lines original) rs"
    using splice_all_rebuild [OF find_replacements_ascending [OF rs(1)]] by simp
  moreover have "patched (str_lines original) hunks (rebuild 0 (str_lines original) rs)"
    using find_replacements_patched [OF rs(1)] by simp
  ultimately show ?thesis using rs by auto
qed

end
