(* ===== verification/File_Locks.thy ===== *)
theory File_Locks
  imports Prelude "HOL-Library.AList" "HOL-Library.Product_Lexorder"
begin

text \<open>
  The in-process lock table of the tool runtime (\<open>tools/src/runtime/file_locks/mod.rs\<close>): accesses and the
  locks they ask for, the table of readers and writers, and the calls of \<open>acquire\<close> that run side by side,
  each with the guard it builds. A call takes its locks one by one, sleeps on the condition variable while
  a lock is not free, and every release wakes all sleepers.
\<close>

section \<open>Accesses and lock keys\<close>

definition DEFAULT_LOCK_SCOPE :: string where "DEFAULT_LOCK_SCOPE = []"
definition LOCK_SCOPE_SEPARATOR :: char where "LOCK_SCOPE_SEPARATOR = CHR 0x1F"
definition WORKSPACE_LOCK_PATH :: string where "WORKSPACE_LOCK_PATH = ''.''"

record access =
  ac_read_paths :: "string list"
  ac_write_paths :: "string list"
  ac_workspace_write :: bool
  ac_lock_scope :: "string option"

definition access_default :: access where
  "access_default = \<lparr>ac_read_paths = [], ac_write_paths = [], ac_workspace_write = False, ac_lock_scope = None\<rparr>"

definition is_read_only :: "access \<Rightarrow> bool" where
  "is_read_only a = (ac_write_paths a = [] \<and> \<not> ac_workspace_write a)"

datatype lock_mode = ModeRead | ModeWrite

text \<open>The derived order of the modes, by which requests for one key are sorted.\<close>

instantiation lock_mode :: linorder
begin

definition less_eq_lock_mode :: "lock_mode \<Rightarrow> lock_mode \<Rightarrow> bool" where
  "less_eq_lock_mode a b = (a = ModeRead \<or> b = ModeWrite)"

definition less_lock_mode :: "lock_mode \<Rightarrow> lock_mode \<Rightarrow> bool" where
  "less_lock_mode a b = (a = ModeRead \<and> b = ModeWrite)"

instance
  by standard (auto simp: less_eq_lock_mode_def less_lock_mode_def intro: lock_mode.exhaust)

end

type_synonym lock = "string \<times> lock_mode"

definition scoped_key :: "string option \<Rightarrow> string \<Rightarrow> string" where
  "scoped_key scope path =
     (case scope of Some s \<Rightarrow> s @ [LOCK_SCOPE_SEPARATOR] @ path | None \<Rightarrow> path)"

definition trim_end_matches :: "char list \<Rightarrow> string \<Rightarrow> string" where
  "trim_end_matches cs s = rev (dropWhile (\<lambda>c. c \<in> set cs) (rev s))"

definition lock_requests :: "access \<Rightarrow> lock list" where
  "lock_requests a =
     (let scope = (case ac_lock_scope a of
            Some s \<Rightarrow> if trim s = [] then None else Some (trim s) | None \<Rightarrow> None);
          key = (\<lambda>path. scoped_key scope (trim_end_matches [CHR ''/'', CHR 0x5C] (trim path)))
      in if ac_workspace_write a then [(scoped_key scope WORKSPACE_LOCK_PATH, ModeWrite)]
         else map (\<lambda>path. (key path, ModeRead)) (ac_read_paths a) @
              map (\<lambda>path. (key path, ModeWrite)) (ac_write_paths a))"

text \<open>\<open>key.split_once(LOCK_SCOPE_SEPARATOR)\<close>.\<close>

definition split_once :: "char \<Rightarrow> string \<Rightarrow> (string \<times> string) option" where
  "split_once c s = (if c \<in> set s
     then Some (takeWhile (\<lambda>x. x \<noteq> c) s, tl (dropWhile (\<lambda>x. x \<noteq> c) s)) else None)"

definition lock_scope :: "string \<Rightarrow> string" where
  "lock_scope key = (case split_once LOCK_SCOPE_SEPARATOR key of
     Some (scope, _) \<Rightarrow> scope | None \<Rightarrow> DEFAULT_LOCK_SCOPE)"

definition lock_path :: "string \<Rightarrow> string" where
  "lock_path key = (case split_once LOCK_SCOPE_SEPARATOR key of
     Some (_, path) \<Rightarrow> path | None \<Rightarrow> key)"

definition same_lock_scope :: "string \<Rightarrow> string \<Rightarrow> bool" where
  "same_lock_scope left right = (lock_scope left = lock_scope right)"

definition is_workspace_lock :: "string \<Rightarrow> bool" where
  "is_workspace_lock key = (lock_path key = WORKSPACE_LOCK_PATH)"

section \<open>The table\<close>

record lock_state =
  ls_readers :: "(string \<times> nat) list"
  ls_writers :: "string list"

definition lock_state_default :: lock_state where
  "lock_state_default = \<lparr>ls_readers = [], ls_writers = []\<rparr>"

definition reader_count :: "lock_state \<Rightarrow> string \<Rightarrow> nat" where
  "reader_count st key = (case map_of (ls_readers st) key of Some n \<Rightarrow> n | None \<Rightarrow> 0)"

definition has_workspace_writer_in_scope :: "lock_state \<Rightarrow> string \<Rightarrow> bool" where
  "has_workspace_writer_in_scope st key =
     list_ex (\<lambda>writer. is_workspace_lock writer \<and> same_lock_scope writer key) (ls_writers st)"

definition can_acquire :: "lock_state \<Rightarrow> string \<Rightarrow> lock_mode \<Rightarrow> bool" where
  "can_acquire st key mode =
     (if is_workspace_lock key \<and> mode = ModeWrite
      then list_all (\<lambda>reader. \<not> same_lock_scope reader key) (map fst (ls_readers st)) \<and>
           list_all (\<lambda>writer. \<not> same_lock_scope writer key) (ls_writers st)
      else if key \<in> set (ls_writers st) \<or> has_workspace_writer_in_scope st key then False
      else if mode = ModeRead then True
      else reader_count st key = 0 \<and>
           list_all (\<lambda>reader. \<not> is_workspace_lock reader \<or> \<not> same_lock_scope reader key) (map fst (ls_readers st)))"

text \<open>The part of \<open>acquire_one\<close> after its wait, and \<open>release_one\<close> before its notification.\<close>

definition acquire_one :: "lock_state \<Rightarrow> string \<Rightarrow> lock_mode \<Rightarrow> lock_state" where
  "acquire_one st key mode =
     (case mode of
        ModeRead \<Rightarrow> st\<lparr>ls_readers := AList.update key (reader_count st key + 1) (ls_readers st)\<rparr>
      | ModeWrite \<Rightarrow> st\<lparr>ls_writers := push_unique key (ls_writers st)\<rparr>)"

definition release_one :: "lock_state \<Rightarrow> string \<Rightarrow> lock_mode \<Rightarrow> lock_state" where
  "release_one st key mode =
     (case mode of
        ModeRead \<Rightarrow>
          (let count = reader_count st key - 1
           in if count = 0 then st\<lparr>ls_readers := AList.delete key (ls_readers st)\<rparr>
              else st\<lparr>ls_readers := AList.update key count (ls_readers st)\<rparr>)
      | ModeWrite \<Rightarrow> st\<lparr>ls_writers := removeAll key (ls_writers st)\<rparr>)"

section \<open>Calls\<close>

text \<open>
  A call of \<open>acquire\<close> with the guard it is building: the locks still to take, the locks taken in order,
  and whether it runs, sleeps on the condition variable, or drops its guard. A running call with nothing
  left to take has returned its guard to the handler.
\<close>

datatype phase = Running | Sleeping | Dropping

record call =
  cl_access :: access
  cl_pending :: "lock list"
  cl_acquired :: "lock list"
  cl_phase :: phase

record manager =
  mg_state :: lock_state
  mg_calls :: "nat \<Rightarrow> call option"

definition manager_new :: manager where
  "manager_new = \<lparr>mg_state = lock_state_default, mg_calls = Map.empty\<rparr>"

definition enter :: "access \<Rightarrow> call" where
  "enter a = \<lparr>cl_access = a, cl_pending = sort (lock_requests a), cl_acquired = [], cl_phase = Running\<rparr>"

definition wake :: "call \<Rightarrow> call" where
  "wake c = (if cl_phase c = Sleeping then c\<lparr>cl_phase := Running\<rparr> else c)"

definition notify_all :: "(nat \<Rightarrow> call option) \<Rightarrow> nat \<Rightarrow> call option" where
  "notify_all calls i = map_option wake (calls i)"

text \<open>
  One step of one thread. The mutex makes each step atomic: the test of \<open>can_acquire\<close> and the update or the
  wait, and the release of one lock with its notification.
\<close>

inductive work_step :: "manager \<Rightarrow> manager \<Rightarrow> bool" where
  take_lock:
    "\<lbrakk>mg_calls g i = Some c; cl_phase c = Running; cl_pending c = (key, mode) # rest;
      can_acquire (mg_state g) key mode\<rbrakk> \<Longrightarrow>
     work_step g \<lparr>mg_state = acquire_one (mg_state g) key mode,
       mg_calls = (mg_calls g)(i \<mapsto> c\<lparr>cl_pending := rest, cl_acquired := cl_acquired c @ [(key, mode)]\<rparr>)\<rparr>"
| wait:
    "\<lbrakk>mg_calls g i = Some c; cl_phase c = Running; cl_pending c = (key, mode) # rest;
      \<not> can_acquire (mg_state g) key mode\<rbrakk> \<Longrightarrow>
     work_step g (g\<lparr>mg_calls := (mg_calls g)(i \<mapsto> c\<lparr>cl_phase := Sleeping\<rparr>)\<rparr>)"
| start_drop:
    "\<lbrakk>mg_calls g i = Some c; cl_phase c = Running; cl_pending c = []\<rbrakk> \<Longrightarrow>
     work_step g (g\<lparr>mg_calls := (mg_calls g)(i \<mapsto> c\<lparr>cl_phase := Dropping\<rparr>)\<rparr>)"
| release:
    "\<lbrakk>mg_calls g i = Some c; cl_phase c = Dropping; cl_acquired c = held @ [(key, mode)]\<rbrakk> \<Longrightarrow>
     work_step g \<lparr>mg_state = release_one (mg_state g) key mode,
       mg_calls = notify_all ((mg_calls g)(i \<mapsto> c\<lparr>cl_acquired := held\<rparr>))\<rparr>"
| finish:
    "\<lbrakk>mg_calls g i = Some c; cl_phase c = Dropping; cl_acquired c = []\<rbrakk> \<Longrightarrow>
     work_step g (g\<lparr>mg_calls := (mg_calls g)(i := None)\<rparr>)"

text \<open>The environment: a new call, and a spurious wake-up, which \<open>Condvar::wait\<close> allows.\<close>

inductive lock_step :: "(access \<Rightarrow> bool) \<Rightarrow> manager \<Rightarrow> manager \<Rightarrow> bool" for admitted where
  new_call:
    "\<lbrakk>mg_calls g i = None; admitted a\<rbrakk> \<Longrightarrow>
     lock_step admitted g (g\<lparr>mg_calls := (mg_calls g)(i \<mapsto> enter a)\<rparr>)"
| spurious:
    "\<lbrakk>mg_calls g i = Some c; cl_phase c = Sleeping\<rbrakk> \<Longrightarrow>
     lock_step admitted g (g\<lparr>mg_calls := (mg_calls g)(i \<mapsto> wake c)\<rparr>)"
| work: "work_step g g' \<Longrightarrow> lock_step admitted g g'"

inductive lock_reachable :: "(access \<Rightarrow> bool) \<Rightarrow> manager \<Rightarrow> bool" for admitted where
  initial: "lock_reachable admitted manager_new"
| step: "\<lbrakk>lock_reachable admitted g; lock_step admitted g g'\<rbrakk> \<Longrightarrow> lock_reachable admitted g'"

inductive_cases lock_stepE [elim]: "lock_step admitted g g'"
inductive_cases work_stepE [elim]: "work_step g g'"

text \<open>\<open>FileLockManager::acquire\<close> without rivals: the locks taken one after the other, if none blocks.\<close>

fun take_all :: "lock_state \<Rightarrow> lock list \<Rightarrow> lock_state option" where
  "take_all st [] = Some st"
| "take_all st ((key, mode) # rest) =
     (if can_acquire st key mode then take_all (acquire_one st key mode) rest else None)"

definition acquire :: "lock_state \<Rightarrow> access \<Rightarrow> (lock_state \<times> lock list) option" where
  "acquire st a =
     (let locks = sort (lock_requests a) in map_option (\<lambda>st'. (st', locks)) (take_all st locks))"

definition drop_guard :: "lock_state \<Rightarrow> lock list \<Rightarrow> lock_state" where
  "drop_guard st acquired = foldl (\<lambda>st (key, mode). release_one st key mode) st (rev acquired)"

end
