(* ===== verification/Patch_Files.thy ===== *)
theory Patch_Files
  imports Patch_Hunks File_Locks
begin

text \<open>
  The file side of the \<open>apply_patch\<close> command: path resolution and lock keys, the effect of one change and of a
  whole patch, and the response (\<open>tools/src/commands/apply_patch/mod.rs\<close>, on a Unix target).

  The operating system's files are a state of any type with the operations of \<open>std::fs\<close> the code calls, as
  the record \<open>os\<close>. A path is its text; the functions of \<open>std::path\<close> are written out for absolute Unix paths,
  which are the only ones \<open>safe_path\<close> returns.
\<close>

section \<open>The operating system\<close>

record io_error =
  io_permission_denied :: bool
  io_text :: string

record 'f os =
  os_canonicalize :: "'f \<Rightarrow> string \<Rightarrow> (io_error, string) result"
  os_exists :: "'f \<Rightarrow> string \<Rightarrow> bool"
  os_read :: "'f \<Rightarrow> string \<Rightarrow> (io_error, string) result"
  os_read_to_string :: "'f \<Rightarrow> string \<Rightarrow> (io_error, string) result"
  os_write :: "'f \<Rightarrow> string \<Rightarrow> string \<Rightarrow> 'f \<times> (io_error, unit) result"
  os_remove_file :: "'f \<Rightarrow> string \<Rightarrow> 'f \<times> (io_error, unit) result"
  os_create_dir_all :: "'f \<Rightarrow> string \<Rightarrow> 'f \<times> (io_error, unit) result"

section \<open>Paths\<close>

fun split_char :: "char \<Rightarrow> string \<Rightarrow> string list" where
  "split_char sep [] = [[]]"
| "split_char sep (c # s) =
     (if c = sep then [] # split_char sep s
      else case split_char sep s of [] \<Rightarrow> [[c]] | p # ps \<Rightarrow> (c # p) # ps)"

definition is_absolute :: "string \<Rightarrow> bool" where
  "is_absolute p = starts_with p ''/''"

definition yields :: "string \<Rightarrow> bool" where
  "yields seg = (seg \<noteq> [] \<and> seg \<noteq> ''.'')"

definition path_segments :: "string \<Rightarrow> string list" where
  "path_segments p = filter yields (split_char (CHR ''/'') p)"

text \<open>Paths are equal when their components are.\<close>

definition path_eq :: "string \<Rightarrow> string \<Rightarrow> bool" where
  "path_eq p q = (is_absolute p = is_absolute q \<and> path_segments p = path_segments q)"

definition unix_join :: "string \<Rightarrow> string \<Rightarrow> string" where
  "unix_join root raw = root @ (if root = [] \<or> ends_with root ''/'' then [] else ''/'') @ raw"

definition drop_trailing :: "('a \<Rightarrow> bool) \<Rightarrow> 'a list \<Rightarrow> 'a list" where
  "drop_trailing P xs = rev (dropWhile P (rev xs))"

definition path_parent :: "string \<Rightarrow> string option" where
  "path_parent p =
     (if path_segments p = [] then None
      else let body = drop_trailing (\<lambda>s. \<not> yields s)
                 (butlast (drop_trailing (\<lambda>s. \<not> yields s) (split_char (CHR ''/'') p)))
           in Some (if is_absolute p \<and> body = [] then ''/'' else join_with ''/'' body))"

text \<open>\<open>Path::strip_prefix\<close> with its text: the raw segments left, without the silent ones at both ends.\<close>

fun strip_segments :: "string list \<Rightarrow> string list \<Rightarrow> string list option" where
  "strip_segments [] raw = Some raw"
| "strip_segments (r # rs) [] = None"
| "strip_segments (r # rs) (s # raw) =
     (if \<not> yields s then strip_segments (r # rs) raw
      else if s = r then strip_segments rs raw else None)"

definition path_strip_prefix :: "string \<Rightarrow> string \<Rightarrow> string option" where
  "path_strip_prefix root p =
     (if is_absolute p \<noteq> is_absolute root then None
      else map_option (\<lambda>raw. join_with ''/'' (drop_trailing (\<lambda>s. \<not> yields s) (dropWhile (\<lambda>s. \<not> yields s) raw)))
             (strip_segments (path_segments root) (split_char (CHR ''/'') p)))"

definition patch_path :: "string \<Rightarrow> string" where
  "patch_path raw = trim raw"

definition comparable_path_string :: "string \<Rightarrow> string" where
  "comparable_path_string p =
     (let text = replace_char (CHR 0x5C) (CHR ''/'') p;
          text = (case strip_prefix ''//?/'' text of Some s \<Rightarrow> s | None \<Rightarrow> text)
      in trim_end_matches ''/'' text)"

definition safe_path :: "'f os \<Rightarrow> 'f \<Rightarrow> string \<Rightarrow> string \<Rightarrow> (string, string) result" where
  "safe_path F f root raw =
     and_then (map_err (\<lambda>e. ''failed to resolve patch root '' @ root @ '': '' @ io_text e) (os_canonicalize F f root)) (\<lambda>root.
     let raw_path = patch_path raw;
         path = (if is_absolute raw_path then raw_path else unix_join root raw_path)
     in Inr (case os_canonicalize F f path of Inr p \<Rightarrow> p | Inl _ \<Rightarrow> path))"

definition patch_lock_key :: "'f os \<Rightarrow> 'f \<Rightarrow> string \<Rightarrow> string \<Rightarrow> string option" where
  "patch_lock_key F f root raw =
     (case safe_path F f root raw of
        Inl _ \<Rightarrow> None
      | Inr path \<Rightarrow>
          (case os_canonicalize F f root of
             Inl _ \<Rightarrow> None
           | Inr root \<Rightarrow>
               (case path_strip_prefix root path of
                  Some relative \<Rightarrow> Some (replace_char (CHR 0x5C) (CHR ''/'') relative)
                | None \<Rightarrow>
                    (let path = comparable_path_string path; root = comparable_path_string root
                     in case strip_prefix (root @ ''/'') path of
                          Some suffix \<Rightarrow> Some suffix
                        | None \<Rightarrow> Some (''absolute:'' @ path)))))"

text \<open>\<open>..\<close> removes a segment, and nothing at the root.\<close>

definition normalize_path_lexically :: "string \<Rightarrow> string" where
  "normalize_path_lexically p =
     (if is_absolute p then ''/'' else []) @
     join_with ''/'' (foldl (\<lambda>segs s. if s = ''..'' then butlast segs else segs @ [s]) [] (path_segments p))"

definition path_is_within_root :: "string \<Rightarrow> string \<Rightarrow> bool" where
  "path_is_within_root path root =
     (path_strip_prefix root path \<noteq> None \<or>
      (let p = comparable_path_string path; r = comparable_path_string root
       in p = r \<or> starts_with p (r @ ''/'')))"

definition validate_patch_path_within_session_dir :: "'f os \<Rightarrow> 'f \<Rightarrow> string \<Rightarrow> string \<Rightarrow> (string, unit) result" where
  "validate_patch_path_within_session_dir F f session_dir raw =
     and_then (map_err (\<lambda>e. ''failed to resolve patch workspace '' @ session_dir @ '': '' @ io_text e)
       (os_canonicalize F f session_dir)) (\<lambda>root.
     and_then (safe_path F f session_dir raw) (\<lambda>p.
     reject_if (\<not> path_is_within_root (normalize_path_lexically p) root)
       (''apply_patch path is outside workspace: '' @ patch_path raw)))"

definition validate_paths_within_session_dir :: "'f os \<Rightarrow> 'f \<Rightarrow> string \<Rightarrow> string \<Rightarrow> (string, unit) result" where
  "validate_paths_within_session_dir F f patch_text session_dir =
     and_then (parse_patch patch_text) (\<lambda>changes.
     try_each (\<lambda>c.
       and_then (validate_patch_path_within_session_dir F f session_dir (pc_path c)) (\<lambda>_.
       case pc_move_path c of
         Some move \<Rightarrow> validate_patch_path_within_session_dir F f session_dir move
       | None \<Rightarrow> Inr ())) changes)"

definition patch_access :: "'f os \<Rightarrow> 'f \<Rightarrow> string \<Rightarrow> string \<Rightarrow> access" where
  "patch_access F f patch_text session_dir =
     (case parse_patch patch_text of
        Inr changes \<Rightarrow>
          access_default\<lparr>ac_write_paths :=
            concat (map (\<lambda>c.
              (case patch_lock_key F f session_dir (pc_path c) of Some key \<Rightarrow> [key] | None \<Rightarrow> []) @
              (case pc_move_path c of
                 Some move \<Rightarrow> (case patch_lock_key F f session_dir move of Some key \<Rightarrow> [key] | None \<Rightarrow> [])
               | None \<Rightarrow> [])) changes)\<rparr>
      | Inl _ \<Rightarrow> access_default\<lparr>ac_workspace_write := True\<rparr>)"

section \<open>Errors and values\<close>

record patch_error =
  pe_kind :: string
  pe_message :: string
  pe_failed_change :: "json option"

definition json_opt_string :: "string option \<Rightarrow> json" where
  "json_opt_string v = (case v of Some s \<Rightarrow> JString s | None \<Rightarrow> JNull)"

definition patch_change_value :: "patch_change \<Rightarrow> json" where
  "patch_change_value c =
     (if pc_kind c = ''add''
      then JObject [(''kind'', JString (pc_kind c)), (''path'', JString (pc_path c)), (''lines'', json_strings (pc_lines c))]
      else JObject [(''kind'', JString (pc_kind c)), (''path'', JString (pc_path c)),
        (''move_path'', json_opt_string (pc_move_path c)), (''hunks'', JArray (map json_strings (pc_hunks c)))])"

definition error_context_mismatch :: "patch_change \<Rightarrow> string \<Rightarrow> patch_error" where
  "error_context_mismatch c message =
     \<lparr>pe_kind = ''ContextMismatch'', pe_message = message, pe_failed_change = Some (patch_change_value c)\<rparr>"

definition error_io :: "io_error \<Rightarrow> patch_error" where
  "error_io e = \<lparr>pe_kind = (if io_permission_denied e then ''PermissionDenied'' else ''IoError''),
     pe_message = io_text e, pe_failed_change = None\<rparr>"

definition error_missing_file :: "string \<Rightarrow> patch_change \<Rightarrow> patch_error" where
  "error_missing_file kind c = \<lparr>pe_kind = kind, pe_message = kind @ '': '' @ pc_path c,
     pe_failed_change = Some (patch_change_value c)\<rparr>"

definition error_file_exists :: "patch_change \<Rightarrow> patch_error" where
  "error_file_exists c = \<lparr>pe_kind = ''AddFileExists'', pe_message = ''AddFileExists: '' @ pc_path c,
     pe_failed_change = Some (patch_change_value c)\<rparr>"

definition error_path :: "string \<Rightarrow> patch_error" where
  "error_path message = \<lparr>pe_kind = ''IoError'', pe_message = message, pe_failed_change = None\<rparr>"

definition apply_patch_failure_guidance :: "string \<Rightarrow> bool \<Rightarrow> string" where
  "apply_patch_failure_guidance kind partial =
     (if kind = ''ContextMismatch'' then
        if partial
        then ''apply_patch failed because expected context was not found after earlier changes were applied. '' @
          ''Use any attached preimage context to correct smaller hunks; read the exact missing range only if '' @
          ''context is insufficient or the file may have changed. The excerpt is diagnostic, not a patch match '' @
          ''or authority to replay the whole batch. Subsequent commands run against a partially changed tree.''
        else ''apply_patch failed because expected context was not found. Use any attached preimage context to '' @
          ''correct a smaller hunk; read the exact missing range only if context is absent, insufficient, or the '' @
          ''file may have changed. The excerpt is diagnostic, not a patch match or authority to replay the whole batch.''
      else if partial
      then ''apply_patch failed after earlier changes were applied; inspect changes before retrying.''
      else ''apply_patch failed; inspect error_type and message before retrying.'')"

section \<open>One change\<close>

text \<open>An operation on the file state that may fail: \<open>op?\<close> followed by the rest.\<close>

definition io_then ::
  "'f \<times> (io_error, unit) result \<Rightarrow> ('f \<Rightarrow> 'f \<times> (patch_error, 'a) result) \<Rightarrow> 'f \<times> (patch_error, 'a) result" where
  "io_then r k = (case r of (f, Inl e) \<Rightarrow> (f, Inl (error_io e)) | (f, Inr _) \<Rightarrow> k f)"

definition create_parent :: "'f os \<Rightarrow> 'f \<Rightarrow> string \<Rightarrow> 'f \<times> (io_error, unit) result" where
  "create_parent F f path = (case path_parent path of Some parent \<Rightarrow> os_create_dir_all F f parent | None \<Rightarrow> (f, Inr ()))"

definition added_text :: "string list \<Rightarrow> string" where
  "added_text lines =
     (let updated = join_with [LF] lines
      in if updated \<noteq> [] \<and> \<not> ends_with updated [LF] then updated @ [LF] else updated)"

type_synonym change_outcome = "string option \<times> string option \<times> json option"

definition apply_delete ::
  "externals \<Rightarrow> 'f os \<Rightarrow> 'f \<Rightarrow> patch_change \<Rightarrow> string \<Rightarrow> 'f \<times> (patch_error, change_outcome) result" where
  "apply_delete X F f c path =
     (if \<not> os_exists F f path then (f, Inl (error_missing_file ''DeleteFileNotFound'' c))
      else case os_read F f path of
        Inl e \<Rightarrow> (f, Inl (error_io e))
      | Inr original \<Rightarrow>
          io_then (os_remove_file F f path) (\<lambda>f. (f, Inr (Some (sha256_hex X original), None, None))))"

definition apply_add ::
  "externals \<Rightarrow> 'f os \<Rightarrow> 'f \<Rightarrow> patch_change \<Rightarrow> string \<Rightarrow> 'f \<times> (patch_error, change_outcome) result" where
  "apply_add X F f c path =
     (if os_exists F f path then (f, Inl (error_file_exists c))
      else let updated = added_text (pc_lines c)
           in io_then (create_parent F f path) (\<lambda>f.
              io_then (os_write F f path updated) (\<lambda>f. (f, Inr (None, Some (sha256_hex X updated), None)))))"

definition apply_update ::
  "externals \<Rightarrow> 'f os \<Rightarrow> 'f \<Rightarrow> patch_change \<Rightarrow> string \<Rightarrow> string list \<Rightarrow> string \<Rightarrow>
   'f \<times> (patch_error, change_outcome) result" where
  "apply_update X F f c session_dir read_paths path =
     (if \<not> os_exists F f path then (f, Inl (error_missing_file ''UpdateFileNotFound'' c))
      else case os_read_to_string F f path of
        Inl e \<Rightarrow> (f, Inl (error_io e))
      | Inr original \<Rightarrow>
          (case apply_hunks_with_delta X original (pc_hunks c)
             (pc_move_path c = None \<and> list_ex (path_eq path) read_paths) of
             Inl message \<Rightarrow> (f, Inl (error_context_mismatch c message))
           | Inr (updated, delta) \<Rightarrow>
               (case (case pc_move_path c of Some move \<Rightarrow> safe_path F f session_dir move | None \<Rightarrow> Inr path) of
                  Inl message \<Rightarrow> (f, Inl (error_path message))
                | Inr destination \<Rightarrow>
                    io_then (create_parent F f destination) (\<lambda>f.
                    io_then (os_write F f destination updated) (\<lambda>f.
                    io_then (if \<not> path_eq destination path \<and> os_exists F f path then os_remove_file F f path else (f, Inr ()))
                      (\<lambda>f. (f, Inr (Some (sha256_hex X original), Some (sha256_hex X updated), delta))))))))"

definition apply_change ::
  "externals \<Rightarrow> 'f os \<Rightarrow> 'f \<Rightarrow> patch_change \<Rightarrow> string \<Rightarrow> string list \<Rightarrow> 'f \<times> (patch_error, json) result" where
  "apply_change X F f c session_dir read_paths =
     (case safe_path F f session_dir (pc_path c) of
        Inl message \<Rightarrow> (f, Inl (error_path message))
      | Inr path \<Rightarrow>
          (case (if pc_kind c = ''delete'' then apply_delete X F f c path
                 else if pc_kind c = ''add'' then apply_add X F f c path
                 else if pc_kind c = ''update'' then apply_update X F f c session_dir read_paths path
                 else (f, Inl \<lparr>pe_kind = ''ParseError'', pe_message = ''unsupported patch change kind: '' @ pc_kind c,
                   pe_failed_change = Some (patch_change_value c)\<rparr>)) of
             (f, Inl e) \<Rightarrow> (f, Inl e)
           | (f, Inr (pre, post, delta)) \<Rightarrow>
               (let v = json_set ''postimage_sha256'' (json_opt_string post)
                     (json_set ''preimage_sha256'' (json_opt_string pre) (patch_change_value c))
                in (f, Inr (case delta of Some d \<Rightarrow> json_set ''source_delta'' d v | None \<Rightarrow> v)))))"

section \<open>A patch\<close>

record command_response =
  cr_success :: bool
  cr_exit_code :: int
  cr_stdout :: string
  cr_stderr :: string
  cr_output :: json
  cr_changes :: "json list"

definition json_remove :: "string \<Rightarrow> json \<Rightarrow> json" where
  "json_remove k v = (case v of JObject kvs \<Rightarrow> JObject (filter (\<lambda>p. fst p \<noteq> k) kvs) | _ \<Rightarrow> v)"

definition failure_value :: "patch_error \<Rightarrow> bool \<Rightarrow> json" where
  "failure_value e partial =
     (let v = JObject [(''error_type'', JString (pe_kind e)), (''message'', JString (pe_message e)),
            (''guidance'', JString (apply_patch_failure_guidance (pe_kind e) partial))]
      in case pe_failed_change e of Some c \<Rightarrow> json_set ''failed_change'' c v | None \<Rightarrow> v)"

text \<open>The loop over the changes: a failed change does not stop the ones after it.\<close>

fun apply_changes ::
  "externals \<Rightarrow> 'f os \<Rightarrow> string \<Rightarrow> string list \<Rightarrow> 'f \<Rightarrow> patch_change list \<Rightarrow> json list \<times> json list \<Rightarrow>
   'f \<times> json list \<times> json list" where
  "apply_changes X F session_dir read_paths f [] (applied, failed) = (f, applied, failed)"
| "apply_changes X F session_dir read_paths f (c # cs) (applied, failed) =
     (case apply_change X F f c session_dir read_paths of
        (f', Inr v) \<Rightarrow> apply_changes X F session_dir read_paths f' cs (applied @ [v], failed)
      | (f', Inl e) \<Rightarrow>
          apply_changes X F session_dir read_paths f' cs (applied, failed @ [failure_value e (applied \<noteq> [])]))"

definition delta_lines :: "json \<Rightarrow> u64" where
  "delta_lines delta = (case json_get delta ''line_count'' of Some (JNumber (PosInt n)) \<Rightarrow> n | _ \<Rightarrow> - 1)"

fun batch_totals :: "externals \<Rightarrow> json list \<Rightarrow> nat \<times> u64 \<times> nat \<Rightarrow> nat \<times> u64 \<times> nat" where
  "batch_totals X [] acc = acc"
| "batch_totals X (c # cs) (bytes, lines, files) =
     batch_totals X cs (case json_get c ''source_delta'' of
        Some delta \<Rightarrow> (bytes + length (canonical X delta), saturating_add lines (delta_lines delta), files + 1)
      | None \<Rightarrow> (bytes, lines, files))"

definition bound_batch :: "externals \<Rightarrow> json list \<Rightarrow> json list" where
  "bound_batch X changes =
     (case batch_totals X changes (0, 0, 0) of (bytes, lines, files) \<Rightarrow>
        if bytes > MAX_BYTES \<or> lines > of_nat MAX_LINES \<or> files > 4
        then map (json_remove ''source_delta'') changes else changes)"

definition no_effect_message :: string where
  "no_effect_message = ''This apply_patch entry has no command_line, so nothing changed. Entries are commands, '' @
     ''not labels: to edit files, put the complete patch from *** Begin Patch to *** End Patch in command_line.''"

definition failure_response :: "nat \<Rightarrow> json list \<Rightarrow> json list \<Rightarrow> command_response" where
  "failure_response n_changes applied failed =
     (let first_field = (\<lambda>key default. case failed of
              v # _ \<Rightarrow> (case Option.bind (json_get v key) json_as_str of Some s \<Rightarrow> s | None \<Rightarrow> default)
            | [] \<Rightarrow> default);
          first_kind = first_field ''error_type'' ''PatchFailed'';
          first_message = first_field ''message'' ''apply_patch failed''
      in \<lparr>cr_success = False, cr_exit_code = 1, cr_stdout = [],
          cr_stderr = (if length failed = 1 then first_message
            else ''apply_patch failed for '' @ decimal (length failed) @ '' of '' @ decimal n_changes @
              '' changes; first failure: '' @ first_message),
          cr_output = JObject [(''error_type'', JString (if length failed = 1 then first_kind else ''MultiplePatchFailures'')),
            (''failed_changes'', JArray failed)],
          cr_changes = map (json_remove ''source_delta'') applied\<rparr>)"

definition execute_with_readback ::
  "externals \<Rightarrow> 'f os \<Rightarrow> 'f \<Rightarrow> string \<Rightarrow> string \<Rightarrow> string list \<Rightarrow> 'f \<times> command_response" where
  "execute_with_readback X F f patch_text session_dir read_paths =
     (if blank patch_text
      then (f, \<lparr>cr_success = True, cr_exit_code = 0, cr_stdout = [], cr_stderr = [],
             cr_output = JObject [(''no_effect'', JBool True), (''message'', JString no_effect_message)], cr_changes = []\<rparr>)
      else case parse_patch patch_text of
        Inr changes \<Rightarrow>
          (case apply_changes X F session_dir read_paths f changes ([], []) of
             (f', applied, failed) \<Rightarrow>
               if failed \<noteq> [] then (f', failure_response (length changes) applied failed)
               else (f', \<lparr>cr_success = True, cr_exit_code = 0, cr_stdout = ''Success. Updated files.'', cr_stderr = [],
                      cr_output = JObject [], cr_changes = bound_batch X applied\<rparr>))
      | Inl err \<Rightarrow>
          (f, \<lparr>cr_success = False, cr_exit_code = 1, cr_stdout = [], cr_stderr = err,
             cr_output = JObject [(''error_type'', JString ''ParseError''), (''message'', JString err)], cr_changes = []\<rparr>))"

definition execute_patch :: "externals \<Rightarrow> 'f os \<Rightarrow> 'f \<Rightarrow> string \<Rightarrow> string \<Rightarrow> 'f \<times> command_response" where
  "execute_patch X F f patch_text session_dir = execute_with_readback X F f patch_text session_dir []"

end
