(* ===== verification/Patch_File_Facts.thy ===== *)
theory Patch_File_Facts
  imports Patch_Parser_Facts Patch_Hunk_Facts Patch_Files
begin

text \<open>
  Facts on the effect of a patch. The locale \<open>file_system\<close> states what the code relies on of the files: a
  written text is read back, and a write or a new directory leaves the files at other resolved paths alone.
  \<open>sample_os\<close> is a flat file system that keeps these laws.
\<close>

section \<open>Files\<close>

locale file_system =
  fixes F :: "'f os"
  assumes write_read: "os_write F f p text = (f', Inr ()) \<Longrightarrow> os_read_to_string F f' p = Inr text"
    and write_frame: "os_write F f p text = (f', Inr ()) \<Longrightarrow> os_canonicalize F f q = Inr q \<Longrightarrow>
        os_canonicalize F f p \<noteq> Inr q \<Longrightarrow> q \<noteq> p \<Longrightarrow> os_read_to_string F f' q = os_read_to_string F f q"
    and mkdir_frame: "os_create_dir_all F f d = (f', r) \<Longrightarrow> os_read_to_string F f p = Inr t \<Longrightarrow>
        os_read_to_string F f' p = Inr t"
    and mkdir_resolves: "os_create_dir_all F f d = (f', r) \<Longrightarrow> os_canonicalize F f p = Inr q \<Longrightarrow>
        os_canonicalize F f' p = Inr q"
begin

lemma create_parent_frame:
  assumes "create_parent F f path = (f', r)"
  shows "os_read_to_string F f p = Inr t \<Longrightarrow> os_read_to_string F f' p = Inr t"
    and "os_canonicalize F f p = Inr q \<Longrightarrow> os_canonicalize F f' p = Inr q"
  using assms mkdir_frame mkdir_resolves by (auto simp: create_parent_def split: option.splits)

text \<open>Writing a path that resolves to itself, after making room for it.\<close>

lemma write_effect:
  assumes "create_parent F f path = (f1, Inr ())" "os_write F f1 path text = (f2, Inr ())"
    and "os_canonicalize F f path = Inr path"
  shows "os_read_to_string F f2 path = Inr text"
    and "os_canonicalize F f q = Inr q \<Longrightarrow> q \<noteq> path \<Longrightarrow> os_read_to_string F f q = Inr t \<Longrightarrow>
      os_read_to_string F f2 q = Inr t"
proof -
  show "os_read_to_string F f2 path = Inr text" using write_read [OF assms(2)] .
  assume q: "os_canonicalize F f q = Inr q" "q \<noteq> path" "os_read_to_string F f q = Inr t"
  have "os_canonicalize F f1 q = Inr q" "os_canonicalize F f1 path = Inr path" "os_read_to_string F f1 q = Inr t"
    using create_parent_frame [OF assms(1)] q assms(3) by blast+
  then show "os_read_to_string F f2 q = Inr t" using write_frame [OF assms(2), of q] q(2) by simp
qed

end

section \<open>One change\<close>

lemma io_then_Inr:
  "io_then r k = (f, Inr v) \<longleftrightarrow> (\<exists>f1 u. r = (f1, Inr u) \<and> k f1 = (f, Inr v))"
  by (cases r; cases "snd r") (auto simp: io_then_def)

text \<open>A change that fails for a reason other than the operating system has touched nothing.\<close>

lemma io_then_Inl:
  assumes "io_then r k = (f', Inl e)" "pe_kind e \<notin> {''IoError'', ''PermissionDenied''}"
  shows "\<exists>f1 u. r = (f1, Inr u) \<and> k f1 = (f', Inl e)"
  using assms by (cases r; cases "snd r") (auto simp: io_then_def error_io_def split: if_splits)

lemma apply_change_refused:
  assumes "apply_change X F f c session_dir read_paths = (f', Inl e)" "pe_kind e \<notin> {''IoError'', ''PermissionDenied''}"
  shows "f' = f"
proof (cases "safe_path F f session_dir (pc_path c)")
  case (Inl message)
  with assms show ?thesis by (simp add: apply_change_def)
next
  case (Inr path)
  have "apply_delete X F f c path = (f', Inl e) \<Longrightarrow> f' = f"
    using assms(2) by (auto simp: apply_delete_def dest!: io_then_Inl split: if_splits sum.splits)
  moreover have "apply_add X F f c path = (f', Inl e) \<Longrightarrow> f' = f"
    using assms(2) by (auto simp: apply_add_def Let_def dest!: io_then_Inl split: if_splits)
  moreover have "apply_update X F f c session_dir read_paths path = (f', Inl e) \<Longrightarrow> f' = f"
    using assms(2) by (auto simp: apply_update_def dest!: io_then_Inl split: if_splits sum.splits prod.splits option.splits)
  ultimately show ?thesis
    using assms(1) Inr by (auto simp: apply_change_def Let_def split: prod.splits sum.splits if_splits)
qed

lemma apply_update_in_place:
  assumes "apply_update X F f c session_dir read_paths path = (f', Inr (pre, post, delta))" "pc_move_path c = None"
  shows "\<exists>original updated f1. os_read_to_string F f path = Inr original \<and>
    apply_hunks_with_delta X original (pc_hunks c) (list_ex (path_eq path) read_paths) = Inr (updated, delta) \<and>
    create_parent F f path = (f1, Inr ()) \<and> os_write F f1 path updated = (f', Inr ()) \<and>
    pre = Some (sha256_hex X original) \<and> post = Some (sha256_hex X updated)"
proof -
  have eq: "path_eq path path" by (simp add: path_eq_def)
  obtain original where o: "os_read_to_string F f path = Inr original"
    using assms by (auto simp: apply_update_def split: if_splits sum.splits)
  obtain updated where u: "apply_hunks_with_delta X original (pc_hunks c) (list_ex (path_eq path) read_paths) = Inr (updated, delta)"
      "io_then (create_parent F f path) (\<lambda>f. io_then (os_write F f path updated)
         (\<lambda>f. io_then (f, Inr ()) (\<lambda>f. (f, Inr (Some (sha256_hex X original), Some (sha256_hex X updated), delta))))) =
       (f', Inr (pre, post, delta))"
    using assms o eq by (auto simp: apply_update_def io_then_Inr split: if_splits sum.splits)
  then show ?thesis using o by (auto simp: io_then_Inr)
qed

section \<open>A whole patch\<close>

fun outcomes ::
  "externals \<Rightarrow> 'f os \<Rightarrow> string \<Rightarrow> string list \<Rightarrow> 'f \<Rightarrow> patch_change list \<Rightarrow> (patch_error, json) result list" where
  "outcomes X F session_dir read_paths f [] = []"
| "outcomes X F session_dir read_paths f (c # cs) =
     (case apply_change X F f c session_dir read_paths of
        (f', r) \<Rightarrow> r # outcomes X F session_dir read_paths f' cs)"

lemma apply_changes_outcomes:
  assumes "apply_changes X F session_dir read_paths f cs (applied, failed) = (f', applied', failed')"
  shows "f' = foldl (\<lambda>f c. fst (apply_change X F f c session_dir read_paths)) f cs \<and>
    length applied' = length applied + length (filter is_ok (outcomes X F session_dir read_paths f cs)) \<and>
    length failed' = length failed + length (filter (\<lambda>r. \<not> is_ok r) (outcomes X F session_dir read_paths f cs))"
  using assms
proof (induction cs arbitrary: f applied failed)
  case (Cons c cs)
  obtain f1 r where r: "apply_change X F f c session_dir read_paths = (f1, r)" by (cases "apply_change X F f c session_dir read_paths")
  show ?case
  proof (cases r)
    case (Inl e)
    with Cons.IH [of f1 applied "failed @ [failure_value e (applied \<noteq> [])]"] Cons.prems r show ?thesis by simp
  next
    case (Inr v)
    with Cons.IH [of f1 "applied @ [v]" failed] Cons.prems r show ?thesis by simp
  qed
qed simp

lemma length_bound_batch [simp]: "length (bound_batch X changes) = length changes"
  by (simp add: bound_batch_def split: prod.splits)

section \<open>A flat file system\<close>

type_synonym flat_files = "(string \<times> string) list"

definition not_found :: io_error where
  "not_found = \<lparr>io_permission_denied = False, io_text = ''No such file or directory (os error 2)''\<rparr>"

definition flat_read :: "flat_files \<Rightarrow> string \<Rightarrow> (io_error, string) result" where
  "flat_read f p = ok_or not_found (map_of f p)"

definition sample_os :: "flat_files os" where
  "sample_os =
     \<lparr>os_canonicalize = (\<lambda>f p. if p = ''/w'' \<or> map_of f p \<noteq> None then Inr p else Inl not_found),
      os_exists = (\<lambda>f p. map_of f p \<noteq> None), os_read = flat_read, os_read_to_string = flat_read,
      os_write = (\<lambda>f p t. (AList.update p t f, Inr ())),
      os_remove_file = (\<lambda>f p. if map_of f p = None then (f, Inl not_found) else (AList.delete p f, Inr ())),
      os_create_dir_all = (\<lambda>f d. (f, Inr ()))\<rparr>"

interpretation flat: file_system sample_os
  by unfold_locales (auto simp: sample_os_def flat_read_def update_conv')

end
