(* ===== verification/Patch_Properties.thy ===== *)
theory Patch_Properties
  imports Patch_File_Facts Reference_Externals
begin

text \<open>
  What the \<open>apply_patch\<close> command guarantees, from its text to the files, each with a concrete patch
  as witness.
\<close>

section \<open>A concrete patch\<close>

definition sample_change :: patch_change where
  "sample_change = \<lparr>pc_kind = ''update'', pc_path = ''a.txt'', pc_move_path = None,
     pc_hunks = [[''-old'', ''+new'']], pc_lines = []\<rparr>"

definition sample_again :: patch_change where
  "sample_again = sample_change\<lparr>pc_hunks := [[''-new'', ''+newer'']]\<rparr>"

definition sample_patch :: string where "sample_patch = print_patch [sample_change]"
definition sample_twice :: string where "sample_twice = print_patch [sample_change, sample_again]"
definition sample_files :: flat_files where "sample_files = [(''/w/a.txt'', ''old'' @ [LF]), (''/w/b.txt'', ''b'')]"

lemma sample_printable: "printable sample_change" "printable sample_again"
proof -
  have "\<not> blank ''a.txt''" by code_simp
  then show "printable sample_change" "printable sample_again"
    by (simp_all add: printable_def change_valid_def change_shape_def sample_change_def sample_again_def
        hunk_line_def text_line_def plain_line_def LF_def CR_def)
qed

lemma sample_parses:
  "parse_patch sample_patch = Inr [sample_change]" "parse_patch sample_twice = Inr [sample_change, sample_again]"
  unfolding sample_patch_def sample_twice_def using sample_printable by (auto intro!: parse_print)

section \<open>Parsing\<close>

text \<open>
  Every change a parsed patch contains is one of three forms: an added file with lines only, a deleted
  file with nothing, or an updated file whose hunks are not empty and consist of lines that start with a
  space, a plus or a minus; its path is not blank, no text in it contains a line feed, and there is at
  least one change.
\<close>

theorem parsed_changes_well_formed:
  assumes "parse_patch text = Inr changes"
  shows "changes \<noteq> [] \<and> list_all change_valid changes"
  using parse_patch_valid [OF assms] by (auto simp: list_all_iff)

text \<open>An instance: the sample patch.\<close>

theorem parsed_changes_well_formed_witness: "[sample_change] \<noteq> [] \<and> list_all change_valid [sample_change]"
  using parsed_changes_well_formed [OF sample_parses(1)] .

text \<open>
  C34: Reading a printed patch gives back its changes: any non-empty list of well-formed changes, printed in
  the patch format between its markers, is parsed to exactly that list, provided no text ends with a
  carriage return (which the line reader takes for a line ending).
\<close>

theorem patch_print_parse:
  assumes "changes \<noteq> []" "\<And>c. c \<in> set changes \<Longrightarrow> printable c"
  shows "parse_patch (print_patch changes) = Inr changes"
  using assms by (rule parse_print)

text \<open>Witness of C34: two changes of one file.\<close>

theorem patch_print_parse_witness:
  "parse_patch (print_patch [sample_change, sample_again]) = Inr [sample_change, sample_again]"
  by (rule patch_print_parse) (auto simp: sample_printable)

section \<open>Hunks\<close>

text \<open>
  C17: Hunks are applied as specified: the application succeeds exactly if the hunks have a meaning on the
  lines of the file (each finds its expected lines, at the first place after the hunk before it), and then
  the new text is the specified lines, joined with the file's line ending and ended as the file was. A hunk
  that matches exactly puts exactly its new lines in place of its old ones.
\<close>

theorem hunks_applied_as_specified:
  "((\<exists>updated delta. apply_hunks_with_delta X original hunks readback = Inr (updated, delta)) \<longleftrightarrow>
      (\<exists>lines. patched (str_lines original) hunks lines)) \<and>
   (apply_hunks_with_delta X original hunks readback = Inr (updated, delta) \<longrightarrow>
      (\<exists>lines. patched (str_lines original) hunks lines \<and>
         updated = join_lines lines (dominant_line_ending original) (ends_with original [LF] \<or> ends_with original [CR]))) \<and>
   (list_all hunk_line h \<longrightarrow> replacement_lines_for_hunk h (hunk_old h) = hunk_new h)"
proof (intro conjI impI)
  show "(\<exists>updated delta. apply_hunks_with_delta X original hunks readback = Inr (updated, delta)) \<longleftrightarrow>
      (\<exists>lines. patched (str_lines original) hunks lines)"
  proof
    assume "\<exists>updated delta. apply_hunks_with_delta X original hunks readback = Inr (updated, delta)"
    then show "\<exists>lines. patched (str_lines original) hunks lines" using apply_hunks_result by blast
  next
    assume "\<exists>lines. patched (str_lines original) hunks lines"
    then obtain rs where "find_replacements X original readback (str_lines original) 0 hunks = Inr rs"
      using patched_found [of "str_lines original" hunks _ 0 "str_lines original" X original readback] by auto
    then show "\<exists>updated delta. apply_hunks_with_delta X original hunks readback = Inr (updated, delta)"
      by (simp add: apply_hunks_with_delta_def Let_def)
  qed
  show "\<exists>lines. patched (str_lines original) hunks lines \<and>
      updated = join_lines lines (dominant_line_ending original) (ends_with original [LF] \<or> ends_with original [CR])"
    if "apply_hunks_with_delta X original hunks readback = Inr (updated, delta)"
    using apply_hunks_result [OF that] by blast
  show "replacement_lines_for_hunk h (hunk_old h) = hunk_new h" if "list_all hunk_line h"
    using that replacement_exact [of h "[]"] by (auto simp: list_all_iff hunk_line_def)
qed

lemma sample_hunks: "apply_hunks_with_delta reference_externals (''old'' @ [LF]) [[''-old'', ''+new'']] False = Inr (''new'' @ [LF], None)"
  by code_simp

text \<open>Witness of C17: one line replaced.\<close>

theorem hunks_applied_as_specified_witness:
  "(\<exists>lines. patched (str_lines (''old'' @ [LF])) [[''-old'', ''+new'']] lines) \<and>
   replacement_lines_for_hunk [''-old'', ''+new''] (hunk_old [''-old'', ''+new'']) = hunk_new [''-old'', ''+new'']"
proof -
  have h: "list_all hunk_line [''-old'', ''+new'']" by (simp add: hunk_line_def LF_def)
  show ?thesis
    using hunks_applied_as_specified [of reference_externals "''old'' @ [LF]" "[[''-old'', ''+new'']]" False
        "''new'' @ [LF]" None "[''-old'', ''+new'']"] sample_hunks h by blast
qed





section \<open>Files\<close>

text \<open>
  C40: An update in place changes its file as specified and no other: if a change of an existing file
  without a move succeeds, on a file system that keeps the laws, then the file afterwards reads as the
  specified text of what it read before, the response names the digests of exactly these two texts, and
  every other resolved file reads as before.
\<close>

theorem update_changes_only_its_file:
  assumes fs: "file_system F" and ok: "apply_change X F f c session_dir read_paths = (f', Inr v)"
    and c: "pc_kind c = ''update''" "pc_move_path c = None"
    and path: "safe_path F f session_dir (pc_path c) = Inr path" "os_canonicalize F f path = Inr path"
    and q: "os_canonicalize F f q = Inr q" "q \<noteq> path" "os_read_to_string F f q = Inr other"
  shows "\<exists>original updated lines. os_read_to_string F f path = Inr original \<and> os_read_to_string F f' path = Inr updated \<and>
    patched (str_lines original) (pc_hunks c) lines \<and>
    updated = join_lines lines (dominant_line_ending original) (ends_with original [LF] \<or> ends_with original [CR]) \<and>
    json_get v ''preimage_sha256'' = Some (JString (sha256_hex X original)) \<and>
    json_get v ''postimage_sha256'' = Some (JString (sha256_hex X updated)) \<and>
    os_read_to_string F f' q = Inr other"
proof -
  obtain pre post delta where u: "apply_update X F f c session_dir read_paths path = (f', Inr (pre, post, delta))"
      "v = (let v = json_set ''postimage_sha256'' (json_opt_string post)
             (json_set ''preimage_sha256'' (json_opt_string pre) (patch_change_value c))
           in case delta of Some d \<Rightarrow> json_set ''source_delta'' d v | None \<Rightarrow> v)"
    using ok c(1) path(1) by (auto simp: apply_change_def Let_def split: prod.splits sum.splits)
  obtain original updated f1 where o: "os_read_to_string F f path = Inr original"
      "apply_hunks_with_delta X original (pc_hunks c) (list_ex (path_eq path) read_paths) = Inr (updated, delta)"
      "create_parent F f path = (f1, Inr ())" "os_write F f1 path updated = (f', Inr ())"
      "pre = Some (sha256_hex X original)" "post = Some (sha256_hex X updated)"
    using apply_update_in_place [OF u(1) c(2)] by blast
  have "os_read_to_string F f' path = Inr updated" "os_read_to_string F f' q = Inr other"
    using file_system.write_effect [OF fs o(3,4) path(2)] q by auto
  moreover have "json_get v ''preimage_sha256'' = Some (JString (sha256_hex X original)) \<and>
      json_get v ''postimage_sha256'' = Some (JString (sha256_hex X updated))"
    unfolding u(2) by (cases delta) (simp_all add: Let_def o(5,6) json_opt_string_def json_set_def json_get_def patch_change_value_def c(1))
  ultimately show ?thesis using o(1) apply_hunks_result [OF o(2)] by blast
qed

lemma sample_path: "safe_path sample_os sample_files ''/w'' ''a.txt'' = Inr ''/w/a.txt''"
  by code_simp

lemma sample_applied:
  "fst (apply_change reference_externals sample_os sample_files sample_change ''/w'' []) =
     [(''/w/a.txt'', ''new'' @ [LF]), (''/w/b.txt'', ''b'')]"
  "is_ok (snd (apply_change reference_externals sample_os sample_files sample_change ''/w'' []))"
  by code_simp+

text \<open>Witness of C40: the sample update beside another file.\<close>

theorem update_changes_only_its_file_witness:
  "\<exists>original updated lines. flat_read sample_files ''/w/a.txt'' = Inr original \<and>
    flat_read [(''/w/a.txt'', ''new'' @ [LF]), (''/w/b.txt'', ''b'')] ''/w/a.txt'' = Inr updated \<and>
    patched (str_lines original) [[''-old'', ''+new'']] lines"
proof -
  obtain v where "snd (apply_change reference_externals sample_os sample_files sample_change ''/w'' []) = Inr v"
    using sample_applied(2) by (auto simp: is_ok_iff)
  then have v: "apply_change reference_externals sample_os sample_files sample_change ''/w'' [] =
      ([(''/w/a.txt'', ''new'' @ [LF]), (''/w/b.txt'', ''b'')], Inr v)"
    using sample_applied(1) by (metis prod.collapse)
  have files: "os_canonicalize sample_os sample_files ''/w/a.txt'' = Inr ''/w/a.txt''"
    "os_canonicalize sample_os sample_files ''/w/b.txt'' = Inr ''/w/b.txt''"
    "os_read_to_string sample_os sample_files ''/w/b.txt'' = Inr ''b''"
    by code_simp+
  have kind: "pc_kind sample_change = ''update''" "pc_move_path sample_change = None"
    "safe_path sample_os sample_files ''/w'' (pc_path sample_change) = Inr ''/w/a.txt''"
    "pc_hunks sample_change = [[''-old'', ''+new'']]"
    using sample_path by (simp_all add: sample_change_def)
  have read: "os_read_to_string sample_os = flat_read" by (simp add: sample_os_def)
  show ?thesis
    using update_changes_only_its_file [OF flat.file_system_axioms v kind(1,2,3) files(1,2) _ files(3)]
    unfolding kind(4) read by auto
qed

text \<open>
  C35: The response reports exactly what happened: a blank or malformed patch changes no file; otherwise the
  changes are applied in order, one that fails does not stop the later ones, a change refused for any
  reason other than an error of the operating system has touched nothing, the command succeeds exactly if
  every change did, its exit code says so, and it lists as many changes as succeeded.
\<close>

theorem patch_report_exact:
  assumes run: "execute_with_readback X F f text session_dir read_paths = (f', r)"
  shows "(blank text \<or> \<not> is_ok (parse_patch text) \<longrightarrow> f' = f \<and> cr_changes r = [] \<and> (cr_success r \<longleftrightarrow> blank text)) \<and>
    (\<forall>changes. \<not> blank text \<and> parse_patch text = Inr changes \<longrightarrow>
       f' = foldl (\<lambda>f c. fst (apply_change X F f c session_dir read_paths)) f changes \<and>
       (cr_success r \<longleftrightarrow> list_all is_ok (outcomes X F session_dir read_paths f changes)) \<and>
       length (cr_changes r) = length (filter is_ok (outcomes X F session_dir read_paths f changes))) \<and>
    (cr_exit_code r = 0 \<longleftrightarrow> cr_success r) \<and>
    (apply_change X F g c session_dir read_paths = (g', Inl e) \<and> pe_kind e \<notin> {''IoError'', ''PermissionDenied''} \<longrightarrow> g' = g)"
proof (intro conjI)
  show "blank text \<or> \<not> is_ok (parse_patch text) \<longrightarrow> f' = f \<and> cr_changes r = [] \<and> (cr_success r \<longleftrightarrow> blank text)"
    using run by (cases "parse_patch text") (auto simp: execute_with_readback_def split: if_splits)
  have fail: "length failed = length (filter (\<lambda>r. \<not> is_ok r) rs) \<Longrightarrow> failed = [] \<longleftrightarrow> list_all is_ok rs" for failed :: "json list" and rs
    by (auto simp: list_all_iff filter_empty_conv)
  show "\<forall>changes. \<not> blank text \<and> parse_patch text = Inr changes \<longrightarrow>
      f' = foldl (\<lambda>f c. fst (apply_change X F f c session_dir read_paths)) f changes \<and>
      (cr_success r \<longleftrightarrow> list_all is_ok (outcomes X F session_dir read_paths f changes)) \<and>
      length (cr_changes r) = length (filter is_ok (outcomes X F session_dir read_paths f changes))"
  proof (intro allI impI)
    fix changes assume p: "\<not> blank text \<and> parse_patch text = Inr changes"
    obtain f1 applied failed where a: "apply_changes X F session_dir read_paths f changes ([], []) = (f1, applied, failed)"
      by (metis prod_cases3)
    note o = apply_changes_outcomes [OF a]
    show "f' = foldl (\<lambda>f c. fst (apply_change X F f c session_dir read_paths)) f changes \<and>
        (cr_success r \<longleftrightarrow> list_all is_ok (outcomes X F session_dir read_paths f changes)) \<and>
        length (cr_changes r) = length (filter is_ok (outcomes X F session_dir read_paths f changes))"
      using run p a o fail [of failed "outcomes X F session_dir read_paths f changes"]
      by (cases "failed = []") (auto simp: execute_with_readback_def failure_response_def Let_def)
  qed
  show "cr_exit_code r = 0 \<longleftrightarrow> cr_success r"
    using run by (auto simp: execute_with_readback_def failure_response_def Let_def split: sum.splits prod.splits if_splits)
  show "apply_change X F g c session_dir read_paths = (g', Inl e) \<and> pe_kind e \<notin> {''IoError'', ''PermissionDenied''} \<longrightarrow> g' = g"
    using apply_change_refused [of X F g c session_dir read_paths g' e] by blast
qed

lemma sample_run:
  "fst (execute_with_readback reference_externals sample_os sample_files sample_twice ''/w'' []) =
     [(''/w/a.txt'', ''newer'' @ [LF]), (''/w/b.txt'', ''b'')]"
  "cr_success (snd (execute_with_readback reference_externals sample_os sample_files sample_twice ''/w'' []))"
  by code_simp+

text \<open>Witness of C35: a patch of two updates of one file succeeds with exit code 0.\<close>

theorem patch_report_exact_witness:
  "cr_exit_code (snd (execute_with_readback reference_externals sample_os sample_files sample_twice ''/w'' [])) = 0"
proof -
  obtain f' r where run: "execute_with_readback reference_externals sample_os sample_files sample_twice ''/w'' [] = (f', r)"
    by (cases "execute_with_readback reference_externals sample_os sample_files sample_twice ''/w'' []")
  then have "cr_success r" using sample_run(2) by simp
  then show ?thesis using patch_report_exact [OF run] run by simp
qed

end
