(* ===== verification/File_Lock_Facts.thy ===== *)
theory File_Lock_Facts
  imports File_Locks
begin

text \<open>
  The lock table against its specification: which held locks block a request (\<open>blocks\<close>), and that no two
  held locks exclude each other. The locale \<open>lock_table\<close> is the contract between the table and the calls;
  its interpretation \<open>table\<close> shows that the readers and writers of the code keep it. The invariant of every
  reachable state of the calls that run side by side follows from the contract.
\<close>

section \<open>What a held lock forbids\<close>

text \<open>A held lock blocks a request; two locks exclude each other when they may never be held together.\<close>

definition blocks :: "lock \<Rightarrow> lock \<Rightarrow> bool" where
  "blocks l r =
     (fst l = fst r \<and> (snd l = ModeWrite \<or> snd r = ModeWrite) \<or>
      same_lock_scope (fst l) (fst r) \<and>
        (is_workspace_lock (fst l) \<and> (snd l = ModeWrite \<or> snd r = ModeWrite) \<or>
         is_workspace_lock (fst r) \<and> snd r = ModeWrite))"

definition excludes :: "lock \<Rightarrow> lock \<Rightarrow> bool" where
  "excludes l r =
     (fst l = fst r \<and> (snd l = ModeWrite \<or> snd r = ModeWrite) \<or>
      same_lock_scope (fst l) (fst r) \<and>
        (is_workspace_lock (fst l) \<and> snd l = ModeWrite \<or> is_workspace_lock (fst r) \<and> snd r = ModeWrite))"

definition exclusive :: "lock multiset \<Rightarrow> bool" where
  "exclusive H = (\<forall>l. l \<in># H \<longrightarrow> (\<forall>r. r \<in># H - {#l#} \<longrightarrow> \<not> excludes l r))"

lemma same_lock_scope_sym: "same_lock_scope a b \<longleftrightarrow> same_lock_scope b a"
  by (auto simp: same_lock_scope_def)

lemma same_lock_scope_refl [simp]: "same_lock_scope a a"
  by (simp add: same_lock_scope_def)

lemma excludes_sym: "excludes l r \<longleftrightarrow> excludes r l"
  using same_lock_scope_sym by (auto simp: excludes_def)

lemma excludes_blocks: "excludes l r \<Longrightarrow> blocks l r"
  by (auto simp: excludes_def blocks_def)

lemma exclusive_empty [simp]: "exclusive {#}"
  by (simp add: exclusive_def)

lemma exclusiveD: "exclusive H \<Longrightarrow> add_mset l (add_mset r G) \<subseteq># H \<Longrightarrow> \<not> excludes l r"
proof -
  assume H: "exclusive H" and sub: "add_mset l (add_mset r G) \<subseteq># H"
  then have "l \<in># H" by (meson mset_subset_eqD union_single_eq_member)
  moreover have "add_mset r G \<subseteq># H - {#l#}" using sub by (simp add: insert_subset_eq_iff)
  then have "r \<in># H - {#l#}" by (meson mset_subset_eqD union_single_eq_member)
  ultimately show ?thesis using H unfolding exclusive_def by blast
qed

lemma exclusive_add:
  assumes "exclusive H" and "\<And>r. r \<in># H \<Longrightarrow> \<not> excludes l r"
  shows "exclusive (add_mset l H)"
  unfolding exclusive_def
proof (intro allI impI)
  fix a r assume a: "a \<in># add_mset l H" and r: "r \<in># add_mset l H - {#a#}"
  show "\<not> excludes a r"
  proof (cases "a = l")
    case True
    with r assms(2) show ?thesis by simp
  next
    case False
    with a have "a \<in># H" by simp
    with False have "add_mset l H - {#a#} = add_mset l (H - {#a#})" by simp
    with r have "r = l \<or> r \<in># H - {#a#}" by simp
    with assms \<open>a \<in># H\<close> show ?thesis unfolding exclusive_def using excludes_sym by blast
  qed
qed

lemma exclusive_mono: "exclusive H \<Longrightarrow> G \<subseteq># H \<Longrightarrow> exclusive G"
proof -
  assume H: "exclusive H" and sub: "G \<subseteq># H"
  have "G - {#l#} \<subseteq># H - {#l#}" for l
    using sub by (simp add: subseteq_mset_def diff_le_mono)
  with H sub show ?thesis unfolding exclusive_def by (meson mset_subset_eqD)
qed

section \<open>The contract of the table\<close>

locale lock_table =
  fixes may :: "'s \<Rightarrow> string \<Rightarrow> lock_mode \<Rightarrow> bool"
    and acq :: "'s \<Rightarrow> string \<Rightarrow> lock_mode \<Rightarrow> 's"
    and rel :: "'s \<Rightarrow> string \<Rightarrow> lock_mode \<Rightarrow> 's"
    and represents :: "'s \<Rightarrow> lock multiset \<Rightarrow> bool"
  assumes may_iff: "represents st H \<Longrightarrow> may st key mode \<longleftrightarrow> (\<forall>l. l \<in># H \<longrightarrow> \<not> blocks l (key, mode))"
    and acq_adds: "represents st H \<Longrightarrow> may st key mode \<Longrightarrow> represents (acq st key mode) (add_mset (key, mode) H)"
    and rel_removes: "represents st H \<Longrightarrow> (key, mode) \<in># H \<Longrightarrow> represents (rel st key mode) (H - {#(key, mode)#})"
    and exclusively: "represents st H \<Longrightarrow> exclusive H"
begin

lemma blocked_by: "represents st H \<Longrightarrow> \<not> may st key mode \<Longrightarrow> \<exists>l. l \<in># H \<and> blocks l (key, mode)"
  using may_iff by blast

lemma idle_grants: "represents st {#} \<Longrightarrow> may st key mode"
  by (simp add: may_iff)

lemma granting_keeps_blocked:
  assumes "represents st H" "may st key mode" "\<not> may st other wanted"
  shows "\<not> may (acq st key mode) other wanted"
proof -
  obtain l where "l \<in># H" "blocks l (other, wanted)" using blocked_by assms(1,3) by blast
  moreover have "represents (acq st key mode) (add_mset (key, mode) H)" using acq_adds assms(1,2) by blast
  moreover have "l \<in># add_mset (key, mode) H" using \<open>l \<in># H\<close> by simp
  ultimately show ?thesis using may_iff by blast
qed

lemma rel_all:
  "represents st (mset locks + H) \<Longrightarrow>
   represents (foldl (\<lambda>st (key, mode). rel st key mode) st locks) H"
proof (induction locks arbitrary: st)
  case (Cons l locks)
  obtain key mode where l: "l = (key, mode)" by (cases l)
  with Cons.prems have "represents (rel st key mode) (mset locks + H)"
    using rel_removes [of st "mset (l # locks) + H" key mode] by simp
  with Cons.IH l show ?case by simp
qed simp

end

section \<open>The table of the code\<close>

definition table_represents :: "lock_state \<Rightarrow> lock multiset \<Rightarrow> bool" where
  "table_represents st H =
     (distinct (map fst (ls_readers st)) \<and>
      (\<forall>key. map_of (ls_readers st) key =
         (if count H (key, ModeRead) = 0 then None else Some (count H (key, ModeRead)))) \<and>
      (\<forall>key. key \<in> set (ls_writers st) \<longleftrightarrow> (key, ModeWrite) \<in># H) \<and> exclusive H)"

lemma table_readers:
  assumes "table_represents st H"
  shows "key \<in> set (map fst (ls_readers st)) \<longleftrightarrow> (key, ModeRead) \<in># H"
    and "reader_count st key = count H (key, ModeRead)"
proof -
  have map_of: "map_of (ls_readers st) key =
      (if count H (key, ModeRead) = 0 then None else Some (count H (key, ModeRead)))"
    using assms by (simp add: table_represents_def)
  show "key \<in> set (map fst (ls_readers st)) \<longleftrightarrow> (key, ModeRead) \<in># H"
    using map_of_eq_None_iff [of "ls_readers st" key] map_of
    by (metis count_eq_zero_iff list.set_map option.distinct(1))
  show "reader_count st key = count H (key, ModeRead)"
    using map_of by (simp add: reader_count_def)
qed

lemma table_writers: "table_represents st H \<Longrightarrow> key \<in> set (ls_writers st) \<longleftrightarrow> (key, ModeWrite) \<in># H"
  by (simp add: table_represents_def)

lemma mode_cases: "m = ModeRead \<or> m = ModeWrite"
  by (cases m) simp_all

lemma can_acquire_iff_blocks:
  assumes "table_represents st H"
  shows "can_acquire st key mode \<longleftrightarrow> (\<forall>l. l \<in># H \<longrightarrow> \<not> blocks l (key, mode))"
proof -
  note R = table_readers [OF assms] and W = table_writers [OF assms]
  have all: "(\<forall>l. l \<in># H \<longrightarrow> \<not> blocks l (key, mode)) \<longleftrightarrow>
      (\<forall>k. (k, ModeRead) \<in># H \<longrightarrow> \<not> blocks (k, ModeRead) (key, mode)) \<and>
      (\<forall>k. (k, ModeWrite) \<in># H \<longrightarrow> \<not> blocks (k, ModeWrite) (key, mode))"
    (is "?all \<longleftrightarrow> ?split")
  proof
    assume s: ?split
    show ?all
    proof (intro allI impI)
      fix l assume "l \<in># H"
      with s show "\<not> blocks l (key, mode)" by (cases l; cases "snd l") auto
    qed
  qed blast
  have zero: "reader_count st key = 0 \<longleftrightarrow> (key, ModeRead) \<notin># H" by (simp add: R(2) count_eq_zero_iff)
  have ws: "has_workspace_writer_in_scope st key \<longleftrightarrow>
      (\<exists>k. (k, ModeWrite) \<in># H \<and> is_workspace_lock k \<and> same_lock_scope k key)"
    using W by (auto simp: has_workspace_writer_in_scope_def list_ex_iff)
  have readers: "list_all P (map fst (ls_readers st)) \<longleftrightarrow> (\<forall>k. (k, ModeRead) \<in># H \<longrightarrow> P k)"
    and writers: "list_all P (ls_writers st) \<longleftrightarrow> (\<forall>k. (k, ModeWrite) \<in># H \<longrightarrow> P k)" for P
    using R(1) W by (simp_all only: list_all_iff Ball_def)
  show ?thesis
    unfolding all can_acquire_def readers writers ws zero W
    by (cases mode) (auto simp: blocks_def)
qed

lemma count_delete_one: "count (H - {#x#}) y = (if x = y then count H y - 1 else count H y)"
  by auto

lemma acquire_one_represents:
  assumes R: "table_represents st H" and can: "can_acquire st key mode"
  shows "table_represents (acquire_one st key mode) (add_mset (key, mode) H)"
proof -
  have "\<not> excludes (key, mode) r" if "r \<in># H" for r
    using that can can_acquire_iff_blocks [OF R] excludes_blocks excludes_sym by blast
  then have "exclusive (add_mset (key, mode) H)"
    using R by (intro exclusive_add) (auto simp: table_represents_def)
  then show ?thesis
    using R table_readers(2) [OF R, of key]
    by (cases mode)
      (auto simp: table_represents_def acquire_one_def update_conv' distinct_update push_unique_def count_eq_zero_iff)
qed

lemma writer_held_once:
  assumes "exclusive H" "(key, ModeWrite) \<in># H"
  shows "(key, ModeWrite) \<notin># H - {#(key, ModeWrite)#}"
  using assms by (auto simp: exclusive_def excludes_def)

lemma release_one_represents:
  assumes R: "table_represents st H" and held: "(key, mode) \<in># H"
  shows "table_represents (release_one st key mode) (H - {#(key, mode)#})"
proof -
  have "exclusive (H - {#(key, mode)#})"
    using R by (auto simp: table_represents_def intro: exclusive_mono)
  moreover have "mode = ModeWrite \<Longrightarrow> (key, ModeWrite) \<notin># H - {#(key, ModeWrite)#}"
    using R held writer_held_once by (auto simp: table_represents_def)
  ultimately show ?thesis
    using R table_readers(2) [OF R, of key] held
    by (cases mode)
      (auto simp: table_represents_def release_one_def Let_def update_conv' delete_conv' distinct_update
        distinct_delete count_delete_one in_diff_count not_in_iff)
qed

lemma table_exclusive: "table_represents st H \<Longrightarrow> exclusive H"
  by (simp add: table_represents_def)

interpretation table: lock_table can_acquire acquire_one release_one table_represents
  by unfold_locales
    (rule can_acquire_iff_blocks acquire_one_represents release_one_represents table_exclusive; assumption)+

lemma table_empty: "table_represents lock_state_default {#}"
  by (simp add: table_represents_def lock_state_default_def)

section \<open>The locks held by all calls\<close>

definition held :: "(nat \<Rightarrow> call option) \<Rightarrow> lock multiset" where
  "held calls = (\<Sum>i\<in>dom calls. mset (cl_acquired (the (calls i))))"

lemma held_empty [simp]: "held Map.empty = {#}"
  by (simp add: held_def)

lemma held_new:
  assumes "finite (dom calls)" "calls i = None"
  shows "held (calls(i \<mapsto> c)) = mset (cl_acquired c) + held calls"
proof -
  have "held (calls(i \<mapsto> c)) = mset (cl_acquired c) + (\<Sum>j\<in>dom calls. mset (cl_acquired (the ((calls(i \<mapsto> c)) j))))"
    using assms by (simp add: held_def domIff)
  also have "(\<Sum>j\<in>dom calls. mset (cl_acquired (the ((calls(i \<mapsto> c)) j)))) = held calls"
    unfolding held_def using assms by (intro sum.cong) (auto simp: domIff)
  finally show ?thesis .
qed

lemma held_removed:
  assumes "finite (dom calls)" "calls i = Some c"
  shows "held calls = mset (cl_acquired c) + held (calls(i := None))"
proof -
  have "(calls(i := None))(i \<mapsto> c) = calls" using assms by auto
  then show ?thesis using held_new [of "calls(i := None)" i c] assms by simp
qed

lemma held_update:
  assumes "finite (dom calls)" "calls i = Some c"
  shows "held (calls(i \<mapsto> c')) = mset (cl_acquired c') + held (calls(i := None))"
  using held_new [of "calls(i := None)" i c'] assms by simp

lemma cl_acquired_wake [simp]: "cl_acquired (wake c) = cl_acquired c"
  by (simp add: wake_def)

lemma wake_simps [simp]:
  "cl_access (wake c) = cl_access c" "cl_pending (wake c) = cl_pending c" "cl_phase (wake c) \<noteq> Sleeping"
  "cl_phase (wake c) = Dropping \<longleftrightarrow> cl_phase c = Dropping"
  by (auto simp: wake_def)

lemma dom_notify_all [simp]: "dom (notify_all calls) = dom calls"
  by (auto simp: notify_all_def)

lemma held_notify_all [simp]: "held (notify_all calls) = held calls"
proof -
  have "mset (cl_acquired (the (notify_all calls i))) = mset (cl_acquired (the (calls i)))" if "i \<in> dom calls" for i
    using that by (auto simp: notify_all_def)
  then show ?thesis by (simp add: held_def)
qed

lemma held_member:
  assumes "finite (dom calls)"
  shows "l \<in># held calls \<longleftrightarrow> (\<exists>i c. calls i = Some c \<and> l \<in> set (cl_acquired c))"
proof -
  have "l \<in># held calls \<longleftrightarrow> (\<exists>i\<in>dom calls. l \<in> set (cl_acquired (the (calls i))))"
    using assms by (simp add: held_def set_mset_sum)
  then show ?thesis by (auto simp: dom_def) force
qed

lemma two_holders:
  assumes "finite (dom calls)" "calls i = Some c" "calls j = Some d" "i \<noteq> j"
    and "l \<in> set (cl_acquired c)" "r \<in> set (cl_acquired d)"
  shows "add_mset l (add_mset r {#}) \<subseteq># held calls"
proof -
  have "held calls = mset (cl_acquired c) + (mset (cl_acquired d) + held (calls(i := None, j := None)))"
    using held_removed [of calls i c] held_removed [of "calls(i := None)" j d] assms by simp
  moreover obtain A where "mset (cl_acquired c) = add_mset l A"
    using assms(5) multi_member_split [of l "mset (cl_acquired c)"] by auto
  moreover obtain B where "mset (cl_acquired d) = add_mset r B"
    using assms(6) multi_member_split [of r "mset (cl_acquired d)"] by auto
  ultimately show ?thesis by simp
qed

lemma held_within:
  "finite (dom calls) \<Longrightarrow> calls i = Some c \<Longrightarrow> mset (cl_acquired c) \<subseteq># held calls"
  using held_removed by fastforce

section \<open>The invariant\<close>

definition call_ok :: "(access \<Rightarrow> bool) \<Rightarrow> lock_state \<Rightarrow> call \<Rightarrow> bool" where
  "call_ok admitted st c =
     (admitted (cl_access c) \<and>
      (\<exists>released. cl_acquired c @ cl_pending c @ released = sort (lock_requests (cl_access c)) \<and>
         (cl_phase c \<noteq> Dropping \<longrightarrow> released = [])) \<and>
      (cl_phase c = Dropping \<longrightarrow> cl_pending c = []) \<and>
      (cl_phase c = Sleeping \<longrightarrow> (\<exists>key mode rest. cl_pending c = (key, mode) # rest \<and> \<not> can_acquire st key mode)))"

definition lock_inv :: "(access \<Rightarrow> bool) \<Rightarrow> manager \<Rightarrow> bool" where
  "lock_inv admitted g =
     (finite (dom (mg_calls g)) \<and> table_represents (mg_state g) (held (mg_calls g)) \<and>
      (\<forall>i c. mg_calls g i = Some c \<longrightarrow> call_ok admitted (mg_state g) c))"

lemma call_ok_awake: "call_ok admitted st c \<Longrightarrow> call_ok admitted st' (wake c)"
  unfolding call_ok_def by (auto simp: wake_def)

lemma lock_inv_new: "lock_inv admitted manager_new"
  by (simp add: lock_inv_def manager_new_def table_empty)

lemma lock_inv_take:
  assumes inv: "lock_inv admitted g" and c: "mg_calls g i = Some c" "cl_phase c = Running"
    and pending: "cl_pending c = (key, mode) # rest" and can: "can_acquire (mg_state g) key mode"
  shows "lock_inv admitted \<lparr>mg_state = acquire_one (mg_state g) key mode,
       mg_calls = (mg_calls g)(i \<mapsto> c\<lparr>cl_pending := rest, cl_acquired := cl_acquired c @ [(key, mode)]\<rparr>)\<rparr>"
proof -
  let ?st = "acquire_one (mg_state g) key mode"
  let ?c = "c\<lparr>cl_pending := rest, cl_acquired := cl_acquired c @ [(key, mode)]\<rparr>"
  have R: "table_represents (mg_state g) (held (mg_calls g))" and fin: "finite (dom (mg_calls g))"
    and ok: "\<And>j d. mg_calls g j = Some d \<Longrightarrow> call_ok admitted (mg_state g) d"
    using inv by (auto simp: lock_inv_def)
  have "held ((mg_calls g)(i \<mapsto> ?c)) = add_mset (key, mode) (held (mg_calls g))"
    using held_update [OF fin c(1)] held_removed [OF fin c(1)] by simp
  then have "table_represents ?st (held ((mg_calls g)(i \<mapsto> ?c)))"
    using table.acq_adds [OF R can] by simp
  moreover have "call_ok admitted ?st ?c" using ok [OF c(1)] c(2) pending by (auto simp: call_ok_def)
  moreover have "call_ok admitted ?st d" if "mg_calls g j = Some d" for j d
    using ok [OF that] table.granting_keeps_blocked [OF R can] unfolding call_ok_def by blast
  ultimately show ?thesis using fin by (auto simp: lock_inv_def)
qed

lemma lock_inv_release:
  assumes inv: "lock_inv admitted g" and c: "mg_calls g i = Some c" "cl_phase c = Dropping"
    and acquired: "cl_acquired c = keep @ [(key, mode)]"
  shows "lock_inv admitted \<lparr>mg_state = release_one (mg_state g) key mode,
       mg_calls = notify_all ((mg_calls g)(i \<mapsto> c\<lparr>cl_acquired := keep\<rparr>))\<rparr>"
proof -
  let ?st = "release_one (mg_state g) key mode"
  let ?c = "c\<lparr>cl_acquired := keep\<rparr>"
  have R: "table_represents (mg_state g) (held (mg_calls g))" and fin: "finite (dom (mg_calls g))"
    and ok: "\<And>j d. mg_calls g j = Some d \<Longrightarrow> call_ok admitted (mg_state g) d"
    using inv by (auto simp: lock_inv_def)
  have "held (mg_calls g) = add_mset (key, mode) (held ((mg_calls g)(i \<mapsto> ?c)))"
    using held_update [OF fin c(1)] held_removed [OF fin c(1)] acquired by simp
  then have "table_represents ?st (held ((mg_calls g)(i \<mapsto> ?c)))"
    using table.rel_removes [OF R, of key mode] by simp
  moreover have "call_ok admitted ?st (wake ?c)" using ok [OF c(1)] c(2) acquired by (auto simp: call_ok_def)
  moreover have "call_ok admitted ?st (wake d)" if "mg_calls g j = Some d" for j d
    using ok [OF that] by (rule call_ok_awake)
  ultimately show ?thesis
    using fin by (auto simp: lock_inv_def notify_all_def split: if_splits)
qed

text \<open>Steps that touch only one call and keep what it holds.\<close>

lemma lock_inv_one_call:
  assumes inv: "lock_inv admitted g" and c: "mg_calls g i = Some c"
    and same: "cl_acquired c' = cl_acquired c" and ok: "call_ok admitted (mg_state g) c'"
  shows "lock_inv admitted (g\<lparr>mg_calls := (mg_calls g)(i \<mapsto> c')\<rparr>)"
proof -
  have fin: "finite (dom (mg_calls g))" using inv by (simp add: lock_inv_def)
  then have "held ((mg_calls g)(i \<mapsto> c')) = held (mg_calls g)"
    using held_update [OF fin c, of c'] held_removed [OF fin c] same by simp
  then show ?thesis using inv ok by (simp add: lock_inv_def)
qed

lemma lock_inv_finish:
  assumes inv: "lock_inv admitted g" and c: "mg_calls g i = Some c" "cl_acquired c = []"
  shows "lock_inv admitted (g\<lparr>mg_calls := (mg_calls g)(i := None)\<rparr>)"
proof -
  have fin: "finite (dom (mg_calls g))" using inv by (simp add: lock_inv_def)
  then have "held ((mg_calls g)(i := None)) = held (mg_calls g)"
    using held_removed [OF fin c(1)] c(2) by simp
  then show ?thesis using inv by (simp add: lock_inv_def)
qed

lemma lock_inv_enter:
  assumes inv: "lock_inv admitted g" and "mg_calls g i = None" "admitted a"
  shows "lock_inv admitted (g\<lparr>mg_calls := (mg_calls g)(i \<mapsto> enter a)\<rparr>)"
proof -
  have fin: "finite (dom (mg_calls g))" using inv by (simp add: lock_inv_def)
  then have "held ((mg_calls g)(i \<mapsto> enter a)) = held (mg_calls g)"
    using held_new [OF fin assms(2)] by (simp add: enter_def)
  moreover have "call_ok admitted (mg_state g) (enter a)" using assms(3) by (simp add: call_ok_def enter_def)
  ultimately show ?thesis using inv by (simp add: lock_inv_def)
qed

lemma lock_inv_work: "work_step g g' \<Longrightarrow> lock_inv admitted g \<Longrightarrow> lock_inv admitted g'"
proof (induction rule: work_step.induct)
  case (take_lock g i c key mode rest)
  then show ?case by (intro lock_inv_take)
next
  case (wait g i c key mode rest)
  then have "call_ok admitted (mg_state g) c" by (simp add: lock_inv_def)
  with wait show ?case by (intro lock_inv_one_call) (auto simp: call_ok_def)
next
  case (start_drop g i c)
  then have "call_ok admitted (mg_state g) c" by (simp add: lock_inv_def)
  with start_drop show ?case by (intro lock_inv_one_call) (auto simp: call_ok_def)
next
  case (release g i c keep key mode)
  then show ?case by (intro lock_inv_release)
next
  case (finish g i c)
  then show ?case by (intro lock_inv_finish)
qed

lemma lock_inv_step: "lock_step admitted g g' \<Longrightarrow> lock_inv admitted g \<Longrightarrow> lock_inv admitted g'"
proof (induction rule: lock_step.induct)
  case (new_call g i a)
  then show ?case by (intro lock_inv_enter)
next
  case (spurious g i c)
  then have "call_ok admitted (mg_state g) (wake c)" by (auto simp: lock_inv_def intro: call_ok_awake)
  with spurious show ?case by (intro lock_inv_one_call) simp_all
next
  case (work g g')
  then show ?case by (blast intro: lock_inv_work)
qed

lemma lock_inv_reachable: "lock_reachable admitted g \<Longrightarrow> lock_inv admitted g"
  by (induction rule: lock_reachable.induct) (auto intro: lock_inv_new lock_inv_step)

lemma lock_invD:
  assumes "lock_inv admitted g"
  shows "finite (dom (mg_calls g))" "table_represents (mg_state g) (held (mg_calls g))"
    "mg_calls g i = Some c \<Longrightarrow> call_ok admitted (mg_state g) c"
  using assms by (auto simp: lock_inv_def)

text \<open>A call holds what it asked for, and all of it once it has its guard.\<close>

lemma acquired_requested:
  assumes "lock_inv admitted g" "mg_calls g i = Some c"
  shows "set (cl_acquired c) \<subseteq> set (lock_requests (cl_access c))"
    and "cl_phase c = Running \<Longrightarrow> cl_pending c = [] \<Longrightarrow> set (cl_acquired c) = set (lock_requests (cl_access c))"
proof -
  obtain released where r: "cl_acquired c @ cl_pending c @ released = sort (lock_requests (cl_access c))"
      "cl_phase c \<noteq> Dropping \<longrightarrow> released = []"
    using lock_invD(3) [OF assms] unfolding call_ok_def by blast
  have all: "set (cl_acquired c @ cl_pending c @ released) = set (lock_requests (cl_access c))" unfolding r(1) by simp
  then show "set (cl_acquired c) \<subseteq> set (lock_requests (cl_access c))" by auto
  show "cl_phase c = Running \<Longrightarrow> cl_pending c = [] \<Longrightarrow> set (cl_acquired c) = set (lock_requests (cl_access c))"
    using all r(2) by simp
qed

end
