(* ===== verification/File_Lock_Progress.thy ===== *)
theory File_Lock_Progress
  imports File_Lock_Facts
begin

text \<open>
  Progress of the calls on the lock table. An access whose own requests block one another is never served
  (\<open>self_block\<close>); orderly accesses cannot deadlock, because keys are taken in increasing order and a lock
  on the whole workspace is asked for alone; and work always ends.
\<close>

section \<open>Accesses that block themselves\<close>

fun self_block :: "lock list \<Rightarrow> bool" where
  "self_block [] = False"
| "self_block (l # ls) = (list_ex (blocks l) ls \<or> self_block ls)"

lemma self_block_snoc: "self_block (ls @ [r]) \<longleftrightarrow> self_block ls \<or> (\<exists>l\<in>set ls. blocks l r)"
  by (induction ls) (auto simp: list_ex_iff)

lemma self_block_append: "self_block (ls @ rs) \<longleftrightarrow> self_block ls \<or> self_block rs \<or> (\<exists>l\<in>set ls. \<exists>r\<in>set rs. blocks l r)"
  by (induction ls) (auto simp: list_ex_iff)

lemma take_all_iff:
  "table_represents st H \<Longrightarrow>
   take_all st ls \<noteq> None \<longleftrightarrow> \<not> self_block ls \<and> (\<forall>l\<in>set ls. \<forall>h. h \<in># H \<longrightarrow> \<not> blocks h l)"
proof (induction ls arbitrary: st H)
  case (Cons l ls)
  obtain key mode where l: "l = (key, mode)" by (cases l)
  show ?case
  proof (cases "can_acquire st key mode")
    case True
    note R = table.acq_adds [OF Cons.prems True]
    have free: "\<forall>h. h \<in># H \<longrightarrow> \<not> blocks h (key, mode)" using True table.may_iff [OF Cons.prems] by blast
    have "take_all st (l # ls) \<noteq> None \<longleftrightarrow> take_all (acquire_one st key mode) ls \<noteq> None"
      using True by (simp add: l)
    also have "\<dots> \<longleftrightarrow> \<not> self_block ls \<and> (\<forall>r\<in>set ls. \<forall>h. h \<in># add_mset l H \<longrightarrow> \<not> blocks h r)"
      using Cons.IH [OF R] by (simp only: l)
    also have "\<dots> \<longleftrightarrow> \<not> self_block (l # ls) \<and> (\<forall>r\<in>set (l # ls). \<forall>h. h \<in># H \<longrightarrow> \<not> blocks h r)"
      using free unfolding l self_block.simps list_ex_iff set_mset_add_mset_insert list.set by blast
    finally show ?thesis .
  next
    case False
    then obtain h where "h \<in># H" "blocks h (key, mode)" using table.blocked_by [OF Cons.prems] by blast
    with False show ?thesis unfolding l by (simp del: split_paired_All split_paired_Ex) blast
  qed
qed simp

lemma take_all_represents:
  "table_represents st H \<Longrightarrow> take_all st ls = Some st' \<Longrightarrow> table_represents st' (mset ls + H)"
proof (induction ls arbitrary: st H)
  case (Cons l ls)
  obtain key mode where l: "l = (key, mode)" by (cases l)
  with Cons.prems have "can_acquire st key mode" "take_all (acquire_one st key mode) ls = Some st'"
    by (auto split: if_splits)
  with Cons.IH table.acq_adds [OF Cons.prems(1)] show ?case by (fastforce simp: l)
qed simp

lemma acquire_drop_represents:
  assumes "table_represents st H" "acquire st a = Some (st', locks)"
  shows "table_represents (drop_guard st' locks) H"
proof -
  have "table_represents st' (mset (rev locks) + H)"
    using assms take_all_represents [OF assms(1), of locks st'] by (auto simp: acquire_def Let_def)
  then show ?thesis unfolding drop_guard_def by (rule table.rel_all)
qed

text \<open>In no run does a call that blocks itself get past its own lock.\<close>

definition unserved :: "call \<Rightarrow> bool" where
  "unserved c = (\<not> self_block (cl_acquired c) \<and>
     (cl_phase c = Dropping \<longrightarrow> \<not> self_block (sort (lock_requests (cl_access c)))))"

lemma unserved_prefix: "unserved c \<Longrightarrow> cl_acquired c = keep @ rest \<Longrightarrow> unserved (c\<lparr>cl_acquired := keep\<rparr>)"
  by (auto simp: unserved_def self_block_append)

lemma unserved_wake: "unserved (wake c) \<longleftrightarrow> unserved c"
  by (simp add: unserved_def)

lemma unserved_take:
  assumes inv: "lock_inv admitted g" and c: "mg_calls g i = Some c" and can: "can_acquire (mg_state g) key mode"
    and "cl_phase c = Running" "unserved c"
  shows "unserved (c\<lparr>cl_pending := rest, cl_acquired := cl_acquired c @ [(key, mode)]\<rparr>)"
proof -
  have "\<not> blocks l (key, mode)" if "l \<in> set (cl_acquired c)" for l
  proof -
    have "l \<in># held (mg_calls g)" using held_member [OF lock_invD(1) [OF inv]] c that by blast
    then show ?thesis using can table.may_iff [OF lock_invD(2) [OF inv]] by blast
  qed
  with assms(4,5) show ?thesis by (auto simp: unserved_def self_block_snoc)
qed

lemma unserved_work:
  "work_step g g' \<Longrightarrow> lock_inv admitted g \<Longrightarrow> (\<And>i c. mg_calls g i = Some c \<Longrightarrow> unserved c) \<Longrightarrow>
   mg_calls g' j = Some d \<Longrightarrow> unserved d"
proof (induction rule: work_step.induct)
  case (take_lock g i c key mode rest)
  then show ?case using unserved_take [OF take_lock.prems(1) take_lock.hyps(1,4,2)] by (auto split: if_splits)
next
  case (wait g i c key mode rest)
  then show ?case by (force simp: unserved_def split: if_splits)
next
  case (start_drop g i c)
  then have "unserved c" "call_ok admitted (mg_state g) c" by (auto simp: lock_inv_def)
  with start_drop.hyps have "unserved (c\<lparr>cl_phase := Dropping\<rparr>)" by (auto simp: unserved_def call_ok_def)
  with start_drop show ?case by (auto split: if_splits)
next
  case (release g i c keep key mode)
  have "unserved (c\<lparr>cl_acquired := keep\<rparr>)" using release unserved_prefix by blast
  with release.prems show ?case by (auto simp: notify_all_def unserved_wake split: if_splits)
next
  case (finish g i c)
  then show ?case by (auto split: if_splits)
qed

lemma unserved_reachable: "lock_reachable admitted g \<Longrightarrow> mg_calls g i = Some c \<Longrightarrow> unserved c"
proof (induction arbitrary: i c rule: lock_reachable.induct)
  case initial
  then show ?case by (simp add: manager_new_def)
next
  case (step g g')
  note inv = lock_inv_reachable [OF step.hyps(1)]
  from step.hyps(2) show ?case
  proof cases
    case (new_call j a)
    with step show ?thesis by (auto simp: unserved_def enter_def split: if_splits)
  next
    case (spurious j d)
    with step show ?thesis by (auto simp: unserved_wake split: if_splits)
  next
    case work
    then show ?thesis using unserved_work [OF _ inv] step by blast
  qed
qed

section \<open>Orderly accesses\<close>

definition orderly :: "access \<Rightarrow> bool" where
  "orderly a = (let keys = map fst (lock_requests a)
     in distinct keys \<and> (list_ex is_workspace_lock keys \<longrightarrow> length keys = 1))"

lemma orderly_sorted:
  assumes "orderly a"
  shows "distinct (map fst (sort (lock_requests a)))"
    and "x \<in> set (sort (lock_requests a)) \<Longrightarrow> is_workspace_lock (fst x) \<Longrightarrow> length (sort (lock_requests a)) = 1"
proof -
  have "mset (map fst (sort (lock_requests a))) = mset (map fst (lock_requests a))" by simp
  then show "distinct (map fst (sort (lock_requests a)))"
    using assms mset_eq_imp_distinct_iff unfolding orderly_def Let_def by blast
  show "x \<in> set (sort (lock_requests a)) \<Longrightarrow> is_workspace_lock (fst x) \<Longrightarrow> length (sort (lock_requests a)) = 1"
    using assms by (fastforce simp: orderly_def list_ex_iff)
qed

text \<open>A sleeping call that holds a lock asks for no workspace lock and waits for a greater key.\<close>

lemma sleeping_holder:
  assumes "call_ok orderly st c" "cl_phase c = Sleeping" "cl_pending c = (key, mode) # rest" "l \<in> set (cl_acquired c)"
  shows "\<not> is_workspace_lock key" "\<not> is_workspace_lock (fst l)" "fst l < key"
proof -
  have ord: "orderly (cl_access c)" and reqs: "cl_acquired c @ (key, mode) # rest = sort (lock_requests (cl_access c))"
    using assms by (auto simp: call_ok_def)
  have len: "length (sort (lock_requests (cl_access c))) \<noteq> 1"
    using assms(4) unfolding reqs [symmetric] by (cases "cl_acquired c") auto
  have "l \<in> set (sort (lock_requests (cl_access c)))" "(key, mode) \<in> set (sort (lock_requests (cl_access c)))"
    using assms(4) unfolding reqs [symmetric] by auto
  then show "\<not> is_workspace_lock key" "\<not> is_workspace_lock (fst l)"
    using orderly_sorted(2) [OF ord, of l] orderly_sorted(2) [OF ord, of "(key, mode)"] len by auto
  have "sorted (cl_acquired c @ (key, mode) # rest)" unfolding reqs by (rule sorted_sort)
  then have "fst l \<le> key" using assms(4) by (auto simp: sorted_append less_eq_prod_def)
  moreover have "distinct (map fst (cl_acquired c @ (key, mode) # rest))"
    unfolding reqs using orderly_sorted(1) [OF ord] .
  then have "fst l \<noteq> key" using assms(4) by (auto simp: image_iff)
  ultimately show "fst l < key" by simp
qed

lemma stuck_sleeping:
  assumes "\<And>g'. \<not> work_step g g'" "mg_calls g i = Some c"
  shows "cl_phase c = Sleeping"
proof (rule ccontr)
  assume "cl_phase c \<noteq> Sleeping"
  then consider (run) "cl_phase c = Running" | (drop) "cl_phase c = Dropping" by (cases "cl_phase c") simp_all
  then show False
  proof cases
    case run
    show False
    proof (cases "cl_pending c")
      case Nil
      then show False using assms run work_step.start_drop by blast
    next
      case (Cons l rest)
      then obtain key mode where "cl_pending c = (key, mode) # rest" by (cases l) simp
      then show False using assms run work_step.take_lock work_step.wait by blast
    qed
  next
    case drop
    show False
    proof (cases "cl_acquired c" rule: rev_cases)
      case Nil
      then show False using assms drop work_step.finish by blast
    next
      case (snoc keep l)
      then obtain key mode where "cl_acquired c = keep @ [(key, mode)]" by (cases l) simp
      then show False using assms drop work_step.release by blast
    qed
  qed
qed

lemma orderly_progress:
  assumes inv: "lock_inv orderly g" and some: "mg_calls g i = Some c"
  shows "\<exists>g'. work_step g g'"
proof (rule ccontr)
  assume "\<not> ?thesis"
  then have sleeping: "\<And>j d. mg_calls g j = Some d \<Longrightarrow> cl_phase d = Sleeping" using stuck_sleeping by blast
  note fin = lock_invD(1) [OF inv] and R = lock_invD(2) [OF inv] and ok = lock_invD(3) [OF inv]
  define wants where "wants j = fst (hd (cl_pending (the (mg_calls g j))))" for j
  define holders where "holders = {j. \<exists>d. mg_calls g j = Some d \<and> cl_acquired d \<noteq> []}"
  have blocker: "\<exists>key mode rest l k e. cl_pending d = (key, mode) # rest \<and> blocks l (key, mode) \<and>
      mg_calls g k = Some e \<and> l \<in> set (cl_acquired e)" if "mg_calls g j = Some d" for j d
  proof -
    note d = that
    obtain key mode rest where p: "cl_pending d = (key, mode) # rest" "\<not> can_acquire (mg_state g) key mode"
      using ok [OF d] sleeping [OF d] unfolding call_ok_def by blast
    then show ?thesis using table.blocked_by [OF R] held_member [OF fin] by meson
  qed
  have fh: "finite (wants ` holders)" using fin by (intro finite_imageI rev_finite_subset [OF fin]) (auto simp: holders_def)
  obtain k e where "mg_calls g k = Some e" "cl_acquired e \<noteq> []" using blocker [OF some] by force
  then have "wants ` holders \<noteq> {}" by (auto simp: holders_def)
  then obtain j where "j \<in> holders" "wants j = Max (wants ` holders)" using Max_in [OF fh] by (metis imageE)
  then have j: "j \<in> holders" "\<And>k. k \<in> holders \<Longrightarrow> wants k \<le> wants j" using Max_ge [OF fh] by auto
  from j(1) obtain d where d1: "mg_calls g j = Some d" "cl_acquired d \<noteq> []" unfolding holders_def by blast
  then obtain m where d: "mg_calls g j = Some d" "m \<in> set (cl_acquired d)" using list.set_sel(1) by blast
  obtain key mode rest l k e where b: "cl_pending d = (key, mode) # rest" "blocks l (key, mode)"
      "mg_calls g k = Some e" "l \<in> set (cl_acquired e)"
    using blocker [OF d(1)] by blast
  obtain key' mode' rest' where p: "cl_pending e = (key', mode') # rest'" using blocker [OF b(3)] by blast
  have "fst l = key"
    using b(2) sleeping_holder(1) [OF ok [OF d(1)] sleeping [OF d(1)] b(1) d(2)]
      sleeping_holder(2) [OF ok [OF b(3)] sleeping [OF b(3)] p b(4)] by (auto simp: blocks_def)
  then have "key < key'" using sleeping_holder(3) [OF ok [OF b(3)] sleeping [OF b(3)] p b(4)] by simp
  moreover have "k \<in> holders" using b(3,4) by (auto simp: holders_def)
  ultimately show False using j(2) [of k] d(1) b(1,3) p by (auto simp: wants_def)
qed

section \<open>Work ends\<close>

definition work_left :: "call \<Rightarrow> nat" where
  "work_left c = 2 * length (cl_pending c) + length (cl_acquired c) + (if cl_phase c = Dropping then 1 else 2)"

definition total_work :: "(nat \<Rightarrow> call option) \<Rightarrow> nat" where
  "total_work calls = (\<Sum>i\<in>dom calls. work_left (the (calls i)))"

definition awake :: "(nat \<Rightarrow> call option) \<Rightarrow> nat" where
  "awake calls = (\<Sum>i\<in>dom calls. if cl_phase (the (calls i)) = Sleeping then 0 else 1)"

lemma sum_calls_update:
  fixes f :: "call \<Rightarrow> nat"
  assumes "finite (dom calls)" "calls i = Some c"
  shows "(\<Sum>j\<in>dom (calls(i \<mapsto> d)). f (the ((calls(i \<mapsto> d)) j))) + f c = (\<Sum>j\<in>dom calls. f (the (calls j))) + f d"
    and "(\<Sum>j\<in>dom (calls(i := None)). f (the ((calls(i := None)) j))) + f c = (\<Sum>j\<in>dom calls. f (the (calls j)))"
proof -
  have dom: "dom calls = insert i (dom calls - {i})" using assms(2) by auto
  have fin: "finite (dom calls - {i})" using assms(1) by simp
  have old: "(\<Sum>j\<in>dom calls. f (the (calls j))) = f c + (\<Sum>j\<in>dom calls - {i}. f (the (calls j)))"
    using assms by (subst dom, subst sum.insert) (use fin in auto)
  have rest: "(\<Sum>j\<in>dom calls - {i}. f (the ((calls(i := x)) j))) = (\<Sum>j\<in>dom calls - {i}. f (the (calls j)))" for x
    by (intro sum.cong) auto
  have "(\<Sum>j\<in>dom (calls(i \<mapsto> d)). f (the ((calls(i \<mapsto> d)) j))) = f d + (\<Sum>j\<in>dom calls - {i}. f (the ((calls(i \<mapsto> d)) j)))"
    using fin by (simp add: sum.insert_remove)
  then show "(\<Sum>j\<in>dom (calls(i \<mapsto> d)). f (the ((calls(i \<mapsto> d)) j))) + f c = (\<Sum>j\<in>dom calls. f (the (calls j))) + f d"
    using old rest [of "Some d"] by simp
  show "(\<Sum>j\<in>dom (calls(i := None)). f (the ((calls(i := None)) j))) + f c = (\<Sum>j\<in>dom calls. f (the (calls j)))"
    using old rest [of None] by simp
qed

lemma total_work_notify_all [simp]: "total_work (notify_all calls) = total_work calls"
proof -
  have "work_left (the (notify_all calls i)) = work_left (the (calls i))" if "i \<in> dom calls" for i
    using that by (auto simp: notify_all_def work_left_def)
  then show ?thesis by (simp add: total_work_def)
qed

lemma total_work_update:
  assumes "finite (dom calls)" "calls i = Some c"
  shows "total_work (calls(i \<mapsto> d)) + work_left c = total_work calls + work_left d"
    and "total_work (calls(i := None)) + work_left c = total_work calls"
  unfolding total_work_def using assms by (rule sum_calls_update)+

lemma awake_update:
  assumes "finite (dom calls)" "calls i = Some c"
  shows "awake (calls(i \<mapsto> d)) + (if cl_phase c = Sleeping then 0 else 1) =
    awake calls + (if cl_phase d = Sleeping then 0 else 1)"
  unfolding awake_def using assms by (rule sum_calls_update)

lemma work_decreases:
  "work_step g g' \<Longrightarrow> finite (dom (mg_calls g)) \<Longrightarrow>
   ((total_work (mg_calls g'), awake (mg_calls g')), (total_work (mg_calls g), awake (mg_calls g)))
     \<in> less_than <*lex*> less_than"
proof (induction rule: work_step.induct)
  case (take_lock g i c key mode rest)
  then show ?case
    using total_work_update(1) [of "mg_calls g" i c "c\<lparr>cl_pending := rest, cl_acquired := cl_acquired c @ [(key, mode)]\<rparr>"]
    by (simp add: work_left_def del: fun_upd_apply)
next
  case (wait g i c key mode rest)
  then show ?case
    using total_work_update(1) [of "mg_calls g" i c "c\<lparr>cl_phase := Sleeping\<rparr>"]
      awake_update [of "mg_calls g" i c "c\<lparr>cl_phase := Sleeping\<rparr>"]
    by (simp add: work_left_def del: fun_upd_apply)
next
  case (start_drop g i c)
  then show ?case
    using total_work_update(1) [of "mg_calls g" i c "c\<lparr>cl_phase := Dropping\<rparr>"] by (simp add: work_left_def del: fun_upd_apply)
next
  case (release g i c keep key mode)
  then show ?case
    using total_work_update(1) [of "mg_calls g" i c "c\<lparr>cl_acquired := keep\<rparr>"] by (simp add: work_left_def del: fun_upd_apply)
next
  case (finish g i c)
  then show ?case using total_work_update(2) [of "mg_calls g" i c] by (simp add: work_left_def del: fun_upd_apply)
qed

lemma work_step_finite: "work_step g g' \<Longrightarrow> finite (dom (mg_calls g)) \<Longrightarrow> finite (dom (mg_calls g'))"
  by (induction rule: work_step.induct) simp_all

lemma no_infinite_work:
  assumes "finite (dom (mg_calls (f 0)))" "\<And>n. work_step (f n) (f (Suc n))"
  shows False
proof -
  have fin: "finite (dom (mg_calls (f n)))" for n
    using assms by (induction n) (auto intro: work_step_finite)
  define m where "m n = (total_work (mg_calls (f n)), awake (mg_calls (f n)))" for n
  have "(m (Suc n), m n) \<in> less_than <*lex*> less_than" for n
    unfolding m_def using work_decreases [OF assms(2) fin] .
  then show False using wf_iff_no_infinite_down_chain [of "less_than <*lex*> less_than"] by (metis wf_lex_prod wf_less_than)
qed

end
