(* ===== verification/File_Lock_Properties.thy ===== *)
theory File_Lock_Properties
  imports File_Lock_Progress
begin

text \<open>
  What the lock table guarantees to the tools that run side by side, each with a concrete run as witness.
\<close>

section \<open>A concrete run\<close>

definition writes_to :: "string list \<Rightarrow> access" where
  "writes_to paths = access_default\<lparr>ac_write_paths := paths\<rparr>"

lemma trim_ab [simp]: "trim ''a'' = ''a''" "trim ''b'' = ''b''"
  by code_simp+

lemma lock_requests_sample [simp]:
  "lock_requests (writes_to [''a'']) = [(''a'', ModeWrite)]"
  "lock_requests (writes_to [''a'', ''a'']) = [(''a'', ModeWrite), (''a'', ModeWrite)]"
  "lock_requests (writes_to [''b'']) = [(''b'', ModeWrite)]"
  by (simp_all add: lock_requests_def writes_to_def access_default_def scoped_key_def trim_end_matches_def)

lemma sample_keys [simp]: "\<not> is_workspace_lock ''a''" "\<not> is_workspace_lock ''b''" "lock_scope ''a'' = []" "lock_scope ''b'' = []"
  by (simp_all add: is_workspace_lock_def lock_path_def lock_scope_def split_once_def LOCK_SCOPE_SEPARATOR_def
      WORKSPACE_LOCK_PATH_def DEFAULT_LOCK_SCOPE_def)

text \<open>Two calls that each hold the guard of one write lock.\<close>

definition guard_call :: "access \<Rightarrow> string \<Rightarrow> call" where
  "guard_call a key = \<lparr>cl_access = a, cl_pending = [], cl_acquired = [(key, ModeWrite)], cl_phase = Running\<rparr>"

definition two_guards :: "access \<Rightarrow> string \<Rightarrow> access \<Rightarrow> string \<Rightarrow> manager" where
  "two_guards a k b l = \<lparr>mg_state = \<lparr>ls_readers = [], ls_writers = [k, l]\<rparr>,
     mg_calls = Map.empty(0 \<mapsto> guard_call a k, 1 \<mapsto> guard_call b l)\<rparr>"

lemma reachable_enter:
  "lock_reachable adm g \<Longrightarrow> mg_calls g i = None \<Longrightarrow> adm a \<Longrightarrow>
   lock_reachable adm (g\<lparr>mg_calls := (mg_calls g)(i \<mapsto> enter a)\<rparr>)"
  by (blast intro: lock_reachable.step lock_step.new_call)

lemma reachable_take:
  "lock_reachable adm g \<Longrightarrow> mg_calls g i = Some c \<Longrightarrow> cl_phase c = Running \<Longrightarrow> cl_pending c = (key, mode) # rest \<Longrightarrow>
   can_acquire (mg_state g) key mode \<Longrightarrow>
   lock_reachable adm \<lparr>mg_state = acquire_one (mg_state g) key mode,
     mg_calls = (mg_calls g)(i \<mapsto> c\<lparr>cl_pending := rest, cl_acquired := cl_acquired c @ [(key, mode)]\<rparr>)\<rparr>"
  by (blast intro: lock_reachable.step lock_step.work work_step.take_lock)

lemma two_guards_reachable:
  assumes "adm a" "adm b" "lock_requests a = [(k, ModeWrite)]" "lock_requests b = [(l, ModeWrite)]" "k \<noteq> l"
    and "\<not> is_workspace_lock k" "\<not> is_workspace_lock l"
  shows "lock_reachable adm (two_guards a k b l)"
proof -
  let ?g1 = "manager_new\<lparr>mg_calls := (mg_calls manager_new)(0 \<mapsto> enter a)\<rparr>"
  let ?g2 = "\<lparr>mg_state = acquire_one (mg_state ?g1) k ModeWrite,
    mg_calls = (mg_calls ?g1)(0 \<mapsto> (enter a)\<lparr>cl_pending := [], cl_acquired := cl_acquired (enter a) @ [(k, ModeWrite)]\<rparr>)\<rparr>"
  let ?g3 = "?g2\<lparr>mg_calls := (mg_calls ?g2)(1 \<mapsto> enter b)\<rparr>"
  let ?g4 = "\<lparr>mg_state = acquire_one (mg_state ?g3) l ModeWrite,
    mg_calls = (mg_calls ?g3)(1 \<mapsto> (enter b)\<lparr>cl_pending := [], cl_acquired := cl_acquired (enter b) @ [(l, ModeWrite)]\<rparr>)\<rparr>"
  have "lock_reachable adm ?g1"
    by (rule reachable_enter [OF lock_reachable.initial]) (simp_all add: manager_new_def assms)
  then have "lock_reachable adm ?g2"
    by (rule reachable_take)
      (simp_all add: enter_def manager_new_def lock_state_default_def can_acquire_def has_workspace_writer_in_scope_def
        reader_count_def assms)
  then have "lock_reachable adm ?g3"
    by (rule reachable_enter) (simp_all add: manager_new_def assms)
  then have "lock_reachable adm ?g4"
    by (rule reachable_take)
      (use assms in \<open>simp_all add: enter_def manager_new_def lock_state_default_def can_acquire_def
        has_workspace_writer_in_scope_def reader_count_def acquire_one_def push_unique_def\<close>)
  moreover have "?g4 = two_guards a k b l"
    using assms(5) by (simp add: two_guards_def guard_call_def enter_def manager_new_def lock_state_default_def
        acquire_one_def push_unique_def fun_eq_iff)
  ultimately show ?thesis by simp
qed

lemma sample_guards: "lock_reachable orderly (two_guards (writes_to [''a'']) ''a'' (writes_to [''b'']) ''b'')"
  by (rule two_guards_reachable) (simp_all add: orderly_def)

section \<open>Mutual exclusion\<close>

text \<open>
  C14: A write lock excludes: in every reachable state, whatever calls run, a call that has been handed its guard holds
  exactly the locks its access asked for; and while a call holds a write lock on a key no other call holds any lock on
  that key, and while it holds the write lock of a whole workspace no other call holds any lock in its scope.
\<close>

theorem locks_mutually_exclusive:
  assumes "lock_reachable admitted g" and c: "mg_calls g i = Some c"
  shows "(cl_phase c = Running \<and> cl_pending c = [] \<longrightarrow> set (cl_acquired c) = set (lock_requests (cl_access c))) \<and>
    (\<forall>j d key other mode. mg_calls g j = Some d \<and> i \<noteq> j \<and>
       (key, ModeWrite) \<in> set (cl_acquired c) \<and> (other, mode) \<in> set (cl_acquired d) \<longrightarrow>
       key \<noteq> other \<and> (is_workspace_lock key \<longrightarrow> lock_scope key \<noteq> lock_scope other))"
proof (intro conjI allI impI)
  note inv = lock_inv_reachable [OF assms(1)]
  show "set (cl_acquired c) = set (lock_requests (cl_access c))" if "cl_phase c = Running \<and> cl_pending c = []"
    using acquired_requested(2) [OF inv c] that by blast
  fix j d key other mode
  assume held: "mg_calls g j = Some d \<and> i \<noteq> j \<and> (key, ModeWrite) \<in> set (cl_acquired c) \<and> (other, mode) \<in> set (cl_acquired d)"
  then have "add_mset (key, ModeWrite) (add_mset (other, mode) {#}) \<subseteq># held (mg_calls g)"
    using two_holders [OF lock_invD(1) [OF inv] c] by blast
  then have "\<not> excludes (key, ModeWrite) (other, mode)"
    by (rule exclusiveD [OF table.exclusively [OF lock_invD(2) [OF inv]]])
  then show "key \<noteq> other" "is_workspace_lock key \<Longrightarrow> lock_scope key \<noteq> lock_scope other"
    by (auto simp: excludes_def same_lock_scope_def)
qed

text \<open>Witness of C14: two writers of different files.\<close>

theorem locks_mutually_exclusive_witness:
  "''a'' \<noteq> ''b'' \<and> set (cl_acquired (guard_call (writes_to [''a'']) ''a'')) = set (lock_requests (writes_to [''a'']))"
proof -
  let ?c = "guard_call (writes_to [''a'']) ''a''" and ?d = "guard_call (writes_to [''b'']) ''b''"
  let ?g = "two_guards (writes_to [''a'']) ''a'' (writes_to [''b'']) ''b''"
  have calls: "mg_calls ?g 0 = Some ?c" "mg_calls ?g 1 = Some ?d" by (simp_all add: two_guards_def)
  have held: "(''a'', ModeWrite) \<in> set (cl_acquired ?c)" "(''b'', ModeWrite) \<in> set (cl_acquired ?d)" "cl_phase ?c = Running"
      "cl_pending ?c = []" "cl_access ?c = writes_to [''a'']"
    by (simp_all add: guard_call_def)
  note ex = locks_mutually_exclusive [OF sample_guards calls(1)]
  have "''a'' \<noteq> ''b''" using ex calls(2) held(1,2) by (metis zero_neq_one)
  moreover have "set (cl_acquired ?c) = set (lock_requests (cl_access ?c))" using ex held(3,4) by blast
  ultimately show ?thesis using held(5) by simp
qed

section \<open>Progress\<close>

text \<open>
  C16: Orderly accesses never deadlock: if every call asks for distinct keys, and for a workspace lock only
  alone, then in every reachable state with a call in progress some call can go on, and no run of calls goes
  on forever without new calls or spurious wake-ups; so every call is served and releases its locks.
\<close>

theorem orderly_calls_complete:
  assumes "lock_reachable orderly g"
  shows "(\<forall>i c. mg_calls g i = Some c \<longrightarrow> (\<exists>g'. work_step g g')) \<and>
    \<not> (\<exists>run. run 0 = g \<and> (\<forall>n. work_step (run n) (run (Suc n))))"
proof
  note inv = lock_inv_reachable [OF assms]
  show "\<forall>i c. mg_calls g i = Some c \<longrightarrow> (\<exists>g'. work_step g g')" using orderly_progress [OF inv] by blast
  show "\<not> (\<exists>run. run 0 = g \<and> (\<forall>n. work_step (run n) (run (Suc n))))"
    using no_infinite_work lock_invD(1) [OF inv] by blast
qed

text \<open>Witness of C16: the run in which both guards are held goes on and ends.\<close>

theorem orderly_calls_complete_witness:
  "\<exists>g. lock_reachable orderly g \<and> mg_calls g 0 \<noteq> None \<and> (\<exists>g'. work_step g g') \<and>
     \<not> (\<exists>run. run 0 = g \<and> (\<forall>n. work_step (run n) (run (Suc n))))"
proof -
  have "mg_calls (two_guards (writes_to [''a'']) ''a'' (writes_to [''b'']) ''b'') 0 = Some (guard_call (writes_to [''a'']) ''a'')"
    by (simp add: two_guards_def)
  then show ?thesis using sample_guards orderly_calls_complete [OF sample_guards] by blast
qed

section \<open>Accesses that are never served\<close>

text \<open>
  Which accesses can be served: on an idle table \<open>acquire\<close> succeeds exactly if no request of the access
  blocks a later one of the same access, and then dropping the guard leaves the table idle again; an
  access whose requests do block one another (the same path twice in its write paths, or once for reading
  and once for writing) never obtains its guard in any run, so its call waits forever.
\<close>

theorem self_blocking_never_served:
  assumes "lock_reachable admitted g" "mg_calls g i = Some c"
  shows "(acquire lock_state_default a \<noteq> None \<longleftrightarrow> \<not> self_block (sort (lock_requests a))) \<and>
    (acquire lock_state_default a = Some (st, locks) \<longrightarrow>
       ls_readers (drop_guard st locks) = [] \<and> ls_writers (drop_guard st locks) = []) \<and>
    (self_block (sort (lock_requests (cl_access c))) \<longrightarrow> cl_pending c \<noteq> [] \<and> cl_phase c \<noteq> Dropping)"
proof (intro conjI impI)
  show "acquire lock_state_default a \<noteq> None \<longleftrightarrow> \<not> self_block (sort (lock_requests a))"
    using take_all_iff [OF table_empty, of "sort (lock_requests a)"] by (simp add: acquire_def Let_def)
next
  assume "acquire lock_state_default a = Some (st, locks)"
  then have idle: "table_represents (drop_guard st locks) {#}"
    by (rule acquire_drop_represents [OF table_empty])
  show "ls_readers (drop_guard st locks) = []"
    using table_readers(1) [OF idle] by (cases "ls_readers (drop_guard st locks)") auto
  show "ls_writers (drop_guard st locks) = []"
    using table_writers [OF idle] by (cases "ls_writers (drop_guard st locks)") auto
next
  assume block: "self_block (sort (lock_requests (cl_access c)))"
  have u: "unserved c" using unserved_reachable [OF assms] .
  with block show running: "cl_phase c \<noteq> Dropping" by (auto simp: unserved_def)
  have "cl_acquired c @ cl_pending c = sort (lock_requests (cl_access c))"
    using lock_invD(3) [OF lock_inv_reachable [OF assms(1)] assms(2)] running unfolding call_ok_def by auto
  with u block show "cl_pending c \<noteq> []" by (auto simp: unserved_def)
qed

text \<open>An instance: a call that writes one path named twice.\<close>

theorem self_blocking_never_served_witness:
  "acquire lock_state_default (writes_to [''a'', ''a'']) = None \<and> acquire lock_state_default (writes_to [''a'']) \<noteq> None \<and>
   (\<exists>g c. lock_reachable (\<lambda>_. True) g \<and> mg_calls g 0 = Some c \<and> cl_access c = writes_to [''a'', ''a''] \<and>
      cl_pending c \<noteq> [] \<and> cl_phase c \<noteq> Dropping)"
proof -
  let ?g = "manager_new\<lparr>mg_calls := (mg_calls manager_new)(0 \<mapsto> enter (writes_to [''a'', ''a'']))\<rparr>"
  have g: "lock_reachable (\<lambda>_. True) ?g"
    by (rule reachable_enter [OF lock_reachable.initial]) (simp_all add: manager_new_def)
  have c: "mg_calls ?g 0 = Some (enter (writes_to [''a'', ''a'']))" "cl_access (enter (writes_to [''a'', ''a''])) = writes_to [''a'', ''a'']"
    by (simp_all add: enter_def)
  have twice: "self_block (sort (lock_requests (writes_to [''a'', ''a''])))" and once: "\<not> self_block (sort (lock_requests (writes_to [''a''])))"
    by (simp_all add: blocks_def)
  note served = self_blocking_never_served [OF g c(1)]
  have "acquire lock_state_default (writes_to [''a'', ''a'']) = None" using served twice by blast
  moreover have "acquire lock_state_default (writes_to [''a'']) \<noteq> None" using served once by blast
  moreover have "cl_pending (enter (writes_to [''a'', ''a''])) \<noteq> [] \<and> cl_phase (enter (writes_to [''a'', ''a''])) \<noteq> Dropping"
    using served twice c(2) by metis
  ultimately show ?thesis using g c by blast
qed

end
