(* ===== verification/Tool_Dispatch.thy ===== *)
theory Tool_Dispatch
  imports Patch_File_Facts File_Lock_Properties Session_Management
begin

text \<open>
  How the tool runtime dispatches the commands of one \<open>command_run\<close> step (\<open>tools/src/command_run/handler.rs\<close>,
  \<open>tools/src/runtime/tool.rs\<close>, \<open>tools/src/runtime/dispatch.rs\<close>): step numbers, which commands run together and which
  alone, when a step stops, and the locks a dispatched command asks for; then what this gives with the lock table.

  The run of one command, the concurrent run of a batch and the cancellation of the context are parameters, as are the
  parts of the router that read manifests and command arguments.
\<close>

section \<open>Commands\<close>

record command_item =
  ci_index :: nat
  ci_command :: string
  ci_command_line :: string
  ci_inline_arguments :: "json option"
  ci_workdir :: "string option"
  ci_step :: "u64 option"
  ci_timeout_ms :: "u64 option"
  ci_stall_timeout_ms :: "u64 option"
  ci_binding_id :: "string option"

record item_result =
  ir_index :: nat
  ir_step :: u64
  ir_command_type :: string
  ir_id :: "string option"
  ir_success :: bool
  ir_output :: "json option"
  ir_error :: "string option"

record step_output =
  so_results :: "item_result list"
  so_cancelled :: bool
  so_cancel_reason :: "string option"

definition APPLY_PATCH_FAILURE_CANCEL_REASON :: string where
  "APPLY_PATCH_FAILURE_CANCEL_REASON = ''apply_patch failed; command_run stopped before later commands''"

definition effective_step :: "command_item \<Rightarrow> u64" where
  "effective_step c = max (case ci_step c of Some s \<Rightarrow> s | None \<Rightarrow> of_nat (ci_index c + 1)) 1"

fun normalize_steps_from :: "u64 option \<Rightarrow> bool \<Rightarrow> command_item list \<Rightarrow> command_item list" where
  "normalize_steps_from previous_step previous_repaired [] = []"
| "normalize_steps_from previous_step previous_repaired (c # cs) =
     (let requested_step = effective_step c;
          step = (case previous_step of
             Some previous \<Rightarrow>
               if requested_step < previous then previous + 1
               else if requested_step = previous \<and> previous_repaired then previous + 1
               else requested_step
           | None \<Rightarrow> requested_step)
      in c\<lparr>ci_step := Some step\<rparr> # normalize_steps_from (Some step) (step \<noteq> requested_step) cs)"

definition normalize_command_steps :: "command_item list \<Rightarrow> command_item list" where
  "normalize_command_steps cs = normalize_steps_from None False cs"

section \<open>The router\<close>

definition canonical_command :: "environment \<Rightarrow> string \<Rightarrow> string" where
  "canonical_command E name =
     (let text = replace_char (CHR ''-'') (CHR ''_'') (to_ascii_lowercase (trim name))
      in if text \<in> {''bash'', ''zsh'', ''shell'', ''shells'', ''shell_command'', ''shll'', ''shall''}
         then active_shell_command_name E
         else if text \<in> {''read_media'', ''view_media'', ''inspect_media''} then ''read_media''
         else if text \<in> {''web_discover'', ''web_search'', ''web_fetch'', ''discover_web'', ''search_web''} then ''web_discover''
         else if text \<in> {''generate_media'', ''image_gen'', ''generate_image'', ''text_to_image'', ''t2i''} then ''generate_media''
         else text)"

definition planning_command_enabled :: "environment \<Rightarrow> bool" where
  "planning_command_enabled E =
     (\<exists>name\<in>set [''TURA_FORCE_PLANNING'', ''TURA_FORCE_EXECUTE_TOOLS_PLANNING''].
        case env_var E name of
          Some v \<Rightarrow> to_ascii_lowercase (trim v) \<in> {''1'', ''true'', ''yes'', ''on''}
        | None \<Rightarrow> False)"

text \<open>
  What the router reads elsewhere: the identifiers of external manifests, the call built from the arguments of a command,
  and for a call whether its handler supports batches and, in a state of the world, whether it mutates.
\<close>

record ('e, 'k, 'w) command_router =
  rt_external_manifest :: "string \<Rightarrow> string option"
  rt_build_tool_call :: "string \<Rightarrow> command_item \<Rightarrow> ('e, 'k) result"
  rt_supports_macro_command :: "'k \<Rightarrow> bool"
  rt_is_mutating :: "'w \<Rightarrow> 'k \<Rightarrow> bool"

definition resolve_command_tool_name :: "environment \<Rightarrow> ('e, 'k, 'w) command_router \<Rightarrow> string \<Rightarrow> string option" where
  "resolve_command_tool_name E R command =
     (let name = canonical_command E command
      in if name \<in> {''shell_command'', ''bash'', ''zsh'', ''apply_patch'', ''source_read''} then Some name
         else if name = ''planning'' \<and> planning_command_enabled E then Some ''planning''
         else rt_external_manifest R name)"

definition is_macro_command_safe :: "environment \<Rightarrow> ('e, 'k, 'w) command_router \<Rightarrow> 'w \<Rightarrow> command_item \<Rightarrow> bool" where
  "is_macro_command_safe E R w c =
     (case resolve_command_tool_name E R (ci_command c) of
        None \<Rightarrow> False
      | Some tool_name \<Rightarrow>
          if tool_name = ''apply_patch'' then False
          else (case rt_build_tool_call R tool_name c of
                  Inl _ \<Rightarrow> False
                | Inr tool_call \<Rightarrow>
                    if \<not> rt_supports_macro_command R tool_call then False else \<not> rt_is_mutating R w tool_call))"

section \<open>One step\<close>

definition is_failed_apply_patch_result :: "item_result \<Rightarrow> bool" where
  "is_failed_apply_patch_result r = (ir_command_type r = ''apply_patch'' \<and> \<not> ir_success r)"

text \<open>
  The parameters of a step: \<open>rn_item\<close> runs one command, exclusively or not; \<open>rn_together\<close> runs the commands of a batch
  concurrently, none exclusively, and gives the results as they finish; \<open>rn_cancel\<close> cancels the context.
\<close>

record 'w runner =
  rn_item :: "bool \<Rightarrow> command_item \<Rightarrow> 'w \<Rightarrow> 'w \<times> item_result"
  rn_together :: "command_item list \<Rightarrow> 'w \<Rightarrow> 'w \<times> item_result list"
  rn_cancel :: "'w \<Rightarrow> 'w"

definition run_macro_command_batch :: "'w runner \<Rightarrow> command_item list \<Rightarrow> 'w \<Rightarrow> 'w \<times> item_result list" where
  "run_macro_command_batch N cs w =
     (if cs = [] then (w, [])
      else let (w', results) = rn_together N cs w
           in (w', sort_key (\<lambda>r. (ir_step r, ir_index r)) results))"

fun run_step_from ::
  "environment \<Rightarrow> ('e, 'k, 'w) command_router \<Rightarrow> 'w runner \<Rightarrow> item_result list \<Rightarrow> command_item list \<Rightarrow> command_item list \<Rightarrow> 'w \<Rightarrow>
   'w \<times> step_output" where
  "run_step_from E R N results batch [] w =
     (let (w1, rs) = run_macro_command_batch N batch w
      in (w1, \<lparr>so_results = results @ rs, so_cancelled = False, so_cancel_reason = None\<rparr>))"
| "run_step_from E R N results batch (c # cs) w =
     (if is_macro_command_safe E R w c then run_step_from E R N results (batch @ [c]) cs w
      else let (w1, rs) = run_macro_command_batch N batch w;
               (w2, r) = rn_item N True c w1
           in if is_failed_apply_patch_result r
              then (rn_cancel N w2, \<lparr>so_results = results @ rs @ [r], so_cancelled = True,
                     so_cancel_reason = Some APPLY_PATCH_FAILURE_CANCEL_REASON\<rparr>)
              else run_step_from E R N (results @ rs @ [r]) [] cs w2)"

definition run_command_run_step ::
  "environment \<Rightarrow> ('e, 'k, 'w) command_router \<Rightarrow> 'w runner \<Rightarrow> command_item list \<Rightarrow> 'w \<Rightarrow> 'w \<times> step_output" where
  "run_command_run_step E R N cs w = run_step_from E R N [] [] cs w"

section \<open>The access of a dispatched call\<close>

definition normalize_lock_scope :: "string option \<Rightarrow> string option" where
  "normalize_lock_scope scope =
     (case map_option trim scope of Some s \<Rightarrow> if s = [] then None else Some s | None \<Rightarrow> None)"

definition dispatch_access :: "bool \<Rightarrow> access \<Rightarrow> string option \<Rightarrow> access" where
  "dispatch_access force_exclusive handler_access ctx_lock_scope =
     (let access = (if force_exclusive then access_default\<lparr>ac_workspace_write := True\<rparr> else handler_access)
      in case ctx_lock_scope of Some scope \<Rightarrow> access\<lparr>ac_lock_scope := Some scope\<rparr> | None \<Rightarrow> access)"

section \<open>Steps\<close>

lemma effective_step_pos: "1 \<le> effective_step c"
  by (simp add: effective_step_def)

lemma effective_step_set [simp]: "1 \<le> s \<Longrightarrow> effective_step (c\<lparr>ci_step := Some s\<rparr>) = s"
  by (simp add: effective_step_def max_def)

lemma unat_next: "unat (p :: u64) + 1 < 2 ^ 64 \<Longrightarrow> unat (p + 1) = unat p + 1"
  by (simp add: unat_word_ariths)

text \<open>The step one command gets after the step \<open>previous\<close>, without a wrap-around.\<close>

definition next_step :: "u64 \<Rightarrow> bool \<Rightarrow> u64 \<Rightarrow> u64" where
  "next_step previous repaired requested =
     (if requested < previous \<or> requested = previous \<and> repaired then previous + 1 else requested)"

lemma next_step_bounds:
  assumes "unat previous + Suc n < 2 ^ 64" "unat requested + Suc n < 2 ^ 64" "1 \<le> requested"
  shows "previous \<le> next_step previous repaired requested" "requested \<le> next_step previous repaired requested"
    "unat (next_step previous repaired requested) + n < 2 ^ 64" "1 \<le> next_step previous repaired requested"
proof -
  have up: "unat (previous + 1) = unat previous + 1" using assms(1) by (intro unat_next) simp
  show le: "requested \<le> next_step previous repaired requested"
    using up by (auto simp: next_step_def word_le_nat_alt word_less_nat_alt)
  show "previous \<le> next_step previous repaired requested"
    using up by (auto simp: next_step_def word_le_nat_alt word_less_nat_alt)
  show "unat (next_step previous repaired requested) + n < 2 ^ 64"
    using up assms(1,2) by (auto simp: next_step_def)
  show "1 \<le> next_step previous repaired requested" using assms(3) le by (rule order_trans)
qed

lemma normalize_steps_Some:
  "normalize_steps_from (Some previous) repaired (c # cs) =
     (let step = next_step previous repaired (effective_step c)
      in c\<lparr>ci_step := Some step\<rparr> # normalize_steps_from (Some step) (step \<noteq> effective_step c) cs)"
  by (auto simp: next_step_def Let_def)

declare normalize_steps_from.simps(2) [simp del]

lemma normalized_from:
  assumes "unat previous + length cs < 2 ^ 64" "\<forall>c\<in>set cs. unat (effective_step c) + length cs < 2 ^ 64"
  shows "list_all2 (\<lambda>c d. effective_step c \<le> effective_step d \<and> d = c\<lparr>ci_step := Some (effective_step d)\<rparr>)
      cs (normalize_steps_from (Some previous) repaired cs) \<and>
    sorted (previous # map effective_step (normalize_steps_from (Some previous) repaired cs)) \<and>
    (\<not> repaired \<and> sorted (previous # map effective_step cs) \<longrightarrow>
       map effective_step (normalize_steps_from (Some previous) repaired cs) = map effective_step cs)"
  using assms
proof (induction cs arbitrary: previous repaired)
  case (Cons c cs)
  let ?step = "next_step previous repaired (effective_step c)"
  have bound: "unat previous + Suc (length cs) < 2 ^ 64" "unat (effective_step c) + Suc (length cs) < 2 ^ 64"
    using Cons.prems by auto
  note step = next_step_bounds [OF bound effective_step_pos, of repaired]
  have rest: "\<forall>c\<in>set cs. unat (effective_step c) + length cs < 2 ^ 64" using Cons.prems(2) by auto
  note IH = Cons.IH [OF step(3) rest, of "?step \<noteq> effective_step c"]
  have keeps: "?step = effective_step c" if "\<not> repaired" "previous \<le> effective_step c"
    using that by (auto simp: next_step_def)
  show ?case using IH step keeps by (auto simp: normalize_steps_Some Let_def)
qed simp

text \<open>
  Steps are put in order: if no step number comes within the number of commands of the largest u64, normalising gives
  every command a step that is not below the one it asked for and changes nothing else of it, the steps never decrease
  along the list, and commands that already ask for steps in order keep them.
\<close>

theorem normalized_steps_ordered:
  assumes "\<forall>c\<in>set cs. unat (effective_step c) + length cs < 2 ^ 64"
  shows "list_all2 (\<lambda>c d. effective_step c \<le> effective_step d \<and> d = c\<lparr>ci_step := Some (effective_step d)\<rparr>)
      cs (normalize_command_steps cs) \<and>
    sorted (map effective_step (normalize_command_steps cs)) \<and>
    (sorted (map effective_step cs) \<longrightarrow> map effective_step (normalize_command_steps cs) = map effective_step cs)"
proof (cases cs)
  case (Cons c rest)
  have "unat (effective_step c) + length rest < 2 ^ 64" "\<forall>d\<in>set rest. unat (effective_step d) + length rest < 2 ^ 64"
    using assms Cons by auto
  from normalized_from [OF this, of False] show ?thesis
    by (simp add: Cons normalize_command_steps_def normalize_steps_from.simps effective_step_pos Let_def)
qed (simp add: normalize_command_steps_def)

section \<open>Waves\<close>

text \<open>
  What a step does, read as a list of waves: a batch whose commands run together, or a command that runs alone. The
  waves run one after the other until a patch that ran alone has failed.
\<close>

datatype wave = Together "command_item list" | Alone command_item

fun wave_commands :: "wave \<Rightarrow> command_item list" where
  "wave_commands (Together cs) = cs"
| "wave_commands (Alone c) = [c]"

fun run_waves :: "'w runner \<Rightarrow> wave list \<Rightarrow> 'w \<Rightarrow> 'w \<times> item_result list \<times> bool" where
  "run_waves N [] w = (w, [], False)"
| "run_waves N (Together cs # vs) w =
     (let (w1, rs) = run_macro_command_batch N cs w; (w2, rest, stopped) = run_waves N vs w1
      in (w2, rs @ rest, stopped))"
| "run_waves N (Alone c # vs) w =
     (let (w1, r) = rn_item N True c w
      in if is_failed_apply_patch_result r then (rn_cancel N w1, [r], True)
         else let (w2, rest, stopped) = run_waves N vs w1 in (w2, r # rest, stopped))"

definition is_patch :: "environment \<Rightarrow> ('e, 'k, 'w) command_router \<Rightarrow> command_item \<Rightarrow> bool" where
  "is_patch E R c \<longleftrightarrow> resolve_command_tool_name E R (ci_command c) = Some ''apply_patch''"

lemma patch_not_safe: "is_patch E R c \<Longrightarrow> \<not> is_macro_command_safe E R w c"
  by (simp add: is_patch_def is_macro_command_safe_def)

definition waves_ok :: "environment \<Rightarrow> ('e, 'k, 'w) command_router \<Rightarrow> wave list \<Rightarrow> bool" where
  "waves_ok E R waves \<longleftrightarrow> (\<forall>cs. Together cs \<in> set waves \<longrightarrow> cs \<noteq> [] \<and> (\<forall>c\<in>set cs. \<not> is_patch E R c))"

lemma run_waves_stopped:
  "run_waves N waves w = (w', rs, True) \<Longrightarrow> rs \<noteq> [] \<and> is_failed_apply_patch_result (last rs)"
  by (induction N waves w arbitrary: w' rs rule: run_waves.induct) (auto split: prod.splits if_splits)

lemma run_waves_batch:
  "run_waves N ((if batch = [] then [] else [Together batch]) @ vs) w =
     (let (w1, rs) = run_macro_command_batch N batch w; (w2, rest, stopped) = run_waves N vs w1 in (w2, rs @ rest, stopped))"
  by (simp add: run_macro_command_batch_def split: prod.splits)

lemma run_step_waves:
  assumes "run_step_from E R N results batch cs w = (w', out)" "\<forall>c\<in>set batch. \<not> is_patch E R c"
  shows "\<exists>waves rest rs. batch @ cs = concat (map wave_commands waves) @ rest \<and>
    run_waves N waves w = (w', rs, so_cancelled out) \<and> so_results out = results @ rs \<and> waves_ok E R waves \<and>
    (if so_cancelled out then (\<exists>vs c. waves = vs @ [Alone c]) else rest = [])"
  using assms
proof (induction E R N results batch cs w rule: run_step_from.induct)
  case (1 E R N results batch w)
  let ?waves = "if batch = [] then [] else [Together batch]"
  have "run_waves N (?waves @ []) w = (w', drop (length results) (so_results out), so_cancelled out)"
      "so_results out = results @ drop (length results) (so_results out)" "\<not> so_cancelled out"
    using 1(1) unfolding run_waves_batch by (auto split: prod.splits)
  moreover have "batch @ [] = concat (map wave_commands ?waves) @ []" "waves_ok E R ?waves"
    using 1(2) by (auto simp: waves_ok_def)
  ultimately show ?case by (intro exI [of _ ?waves] exI [of _ "[]"] exI [of _ "drop (length results) (so_results out)"]) simp
next
  case (2 E R N results batch c cs w)
  show ?case
  proof (cases "is_macro_command_safe E R w c")
    case True
    then have "\<not> is_patch E R c" using patch_not_safe [of E R c w] by auto
    with 2(1) [OF True] 2(3,4) True show ?thesis by simp
  next
    case False
    define pre where "pre = (if batch = [] then [] else [Together batch])"
    obtain w1 rs1 where b: "run_macro_command_batch N batch w = (w1, rs1)" by fastforce
    obtain w2 r where i: "rn_item N True c w1 = (w2, r)" by fastforce
    have ok: "waves_ok E R (pre @ Alone c # vs) \<longleftrightarrow> waves_ok E R vs" for vs
      using 2(4) by (auto simp: waves_ok_def pre_def)
    have cmds: "concat (map wave_commands (pre @ Alone c # vs)) = batch @ c # concat (map wave_commands vs)" for vs
      by (simp add: pre_def)
    have run: "run_waves N (pre @ Alone c # vs) w =
        (if is_failed_apply_patch_result r then (rn_cancel N w2, rs1 @ [r], True)
         else let (w3, rest, stopped) = run_waves N vs w2 in (w3, rs1 @ r # rest, stopped))" for vs
      unfolding pre_def run_waves_batch using b i by (simp split: prod.splits)
    show ?thesis
    proof (cases "is_failed_apply_patch_result r")
      case True
      then have out: "w' = rn_cancel N w2" "so_results out = results @ rs1 @ [r]" "so_cancelled out"
        using 2(3) False b i by auto
      have "batch @ c # cs = concat (map wave_commands (pre @ [Alone c])) @ cs" unfolding cmds by simp
      moreover have "run_waves N (pre @ [Alone c]) w = (w', rs1 @ [r], so_cancelled out)"
        unfolding run using True out by simp
      moreover have "waves_ok E R (pre @ [Alone c])" unfolding ok by (simp add: waves_ok_def)
      moreover have "if so_cancelled out then \<exists>vs d. pre @ [Alone c] = vs @ [Alone d] else cs = []" using out(3) by simp
      ultimately show ?thesis using out(2) by blast
    next
      case going: False
      then have "run_step_from E R N (results @ rs1 @ [r]) [] cs w2 = (w', out)" using 2(3) False b i by simp
      from 2(2) [OF False b [symmetric] refl i [symmetric] refl going this] obtain waves rest rs where
        IH: "cs = concat (map wave_commands waves) @ rest" "run_waves N waves w2 = (w', rs, so_cancelled out)"
          "so_results out = (results @ rs1 @ [r]) @ rs" "waves_ok E R waves"
          "if so_cancelled out then \<exists>vs c. waves = vs @ [Alone c] else rest = []"
        by auto
      have "batch @ c # cs = concat (map wave_commands (pre @ Alone c # waves)) @ rest"
        unfolding cmds using IH(1) by simp
      moreover have "run_waves N (pre @ Alone c # waves) w = (w', rs1 @ r # rs, so_cancelled out)"
        unfolding run using going IH(2) by simp
      moreover have "if so_cancelled out then \<exists>vs d. pre @ Alone c # waves = vs @ [Alone d] else rest = []"
        using IH(5) by (cases "so_cancelled out") (force intro: exI [of _ "pre @ Alone c # _"])+
      moreover have "waves_ok E R (pre @ Alone c # waves)" "so_results out = results @ (rs1 @ r # rs)"
        using IH(3,4) ok by simp_all
      ultimately show ?thesis by blast
    qed
  qed
qed

text \<open>
  C37: A step runs a prefix of its commands, in their order, as waves. A command that resolves to \<open>apply_patch\<close> is never in
  a batch with others: it runs alone and exclusively. If the step is not cancelled it has run all its commands; it is
  cancelled only after a command that ran alone whose result is that of a failed patch, and then no later command runs.
  Its results are those of the waves in order.
\<close>

theorem step_runs_in_waves:
  assumes "run_command_run_step E R N commands w = (w', out)"
  shows "\<exists>waves rest. commands = concat (map wave_commands waves) @ rest \<and>
    run_waves N waves w = (w', so_results out, so_cancelled out) \<and> waves_ok E R waves \<and>
    (if so_cancelled out
     then (\<exists>vs c. waves = vs @ [Alone c]) \<and> so_results out \<noteq> [] \<and> is_failed_apply_patch_result (last (so_results out))
     else rest = [])"
proof -
  from run_step_waves [OF assms [unfolded run_command_run_step_def]] obtain waves rest where
    w: "commands = concat (map wave_commands waves) @ rest" "run_waves N waves w = (w', so_results out, so_cancelled out)"
      "waves_ok E R waves" "if so_cancelled out then \<exists>vs c. waves = vs @ [Alone c] else rest = []"
    by auto
  have "so_results out \<noteq> [] \<and> is_failed_apply_patch_result (last (so_results out))" if "so_cancelled out"
    using run_waves_stopped [of N waves w w' "so_results out"] w(2) that by simp
  with w show ?thesis by (intro exI [of _ waves] exI [of _ rest]) (auto split: if_splits)
qed

definition sample_environment :: environment where
  "sample_environment = \<lparr>env_var = (\<lambda>_. None), target_windows = False, target_macos = False\<rparr>"

definition sample_router :: "(unit, command_item, string list) command_router" where
  "sample_router = \<lparr>rt_external_manifest = (\<lambda>_. None), rt_build_tool_call = (\<lambda>_ c. Inr c),
     rt_supports_macro_command = (\<lambda>_. True), rt_is_mutating = (\<lambda>_ _. False)\<rparr>"

definition sample_item :: "nat \<Rightarrow> string \<Rightarrow> command_item" where
  "sample_item i command = \<lparr>ci_index = i, ci_command = command, ci_command_line = [], ci_inline_arguments = None,
     ci_workdir = None, ci_step = Some 1, ci_timeout_ms = None, ci_stall_timeout_ms = None, ci_binding_id = None\<rparr>"

text \<open>A runner that notes what ran and in which every patch fails.\<close>

definition sample_result :: "command_item \<Rightarrow> item_result" where
  "sample_result c = \<lparr>ir_index = ci_index c, ir_step = effective_step c, ir_command_type = ci_command c, ir_id = None,
     ir_success = (ci_command c \<noteq> ''apply_patch''), ir_output = None, ir_error = None\<rparr>"

definition sample_runner :: "string list runner" where
  "sample_runner = \<lparr>rn_item = (\<lambda>exclusive c w. (w @ [ci_command c], sample_result c)),
     rn_together = (\<lambda>cs w. (w @ map ci_command cs, map sample_result (rev cs))), rn_cancel = (\<lambda>w. w @ [''cancelled''])\<rparr>"

definition sample_commands :: "command_item list" where
  "sample_commands = [sample_item 0 ''bash'', sample_item 1 ''shell'', sample_item 2 ''apply_patch'', sample_item 3 ''bash'']"

text \<open>Witness of C37: two commands together, a patch that fails, and a command that never runs.\<close>

theorem step_runs_in_waves_witness:
  "fst (run_command_run_step sample_environment sample_router sample_runner sample_commands []) =
     [''bash'', ''shell'', ''apply_patch'', ''cancelled''] \<and>
   (\<exists>waves rest. sample_commands = concat (map wave_commands waves) @ rest \<and> waves_ok sample_environment sample_router waves \<and>
      (\<exists>vs c. waves = vs @ [Alone c]))"
proof -
  obtain out where run: "run_command_run_step sample_environment sample_router sample_runner sample_commands [] =
      ([''bash'', ''shell'', ''apply_patch'', ''cancelled''], out)" and "so_cancelled out"
  proof
    show "run_command_run_step sample_environment sample_router sample_runner sample_commands [] =
      ([''bash'', ''shell'', ''apply_patch'', ''cancelled''],
       snd (run_command_run_step sample_environment sample_router sample_runner sample_commands []))"
      by (rule prod_eqI) code_simp+
    show "so_cancelled (snd (run_command_run_step sample_environment sample_router sample_runner sample_commands []))"
      by code_simp
  qed
  with step_runs_in_waves [OF run] show ?thesis by auto
qed

text \<open>An instance of the order of steps: a second command asks for an earlier step than the first.\<close>

theorem normalized_steps_ordered_witness:
  "map effective_step (normalize_command_steps [(sample_item 0 ''bash'')\<lparr>ci_step := Some 3\<rparr>, sample_item 1 ''bash'']) = [3, 4] \<and>
   sorted (map effective_step (normalize_command_steps [(sample_item 0 ''bash'')\<lparr>ci_step := Some 3\<rparr>, sample_item 1 ''bash'']))"
proof
  let ?cs = "[(sample_item 0 ''bash'')\<lparr>ci_step := Some 3\<rparr>, sample_item 1 ''bash'']"
  show "map effective_step (normalize_command_steps ?cs) = [3, 4]" by code_simp
  have "effective_step ((sample_item 0 ''bash'')\<lparr>ci_step := Some 3\<rparr>) = 3" "effective_step (sample_item 1 ''bash'') = 1" by code_simp+
  then have "\<forall>c\<in>set ?cs. unat (effective_step c) + length ?cs < 2 ^ 64" by simp
  from normalized_steps_ordered [OF this] show "sorted (map effective_step (normalize_command_steps ?cs))" by blast
qed

section \<open>A dispatched patch and the lock table\<close>

text \<open>The scope every key of a dispatched call lies in.\<close>

definition scope_name :: "string option \<Rightarrow> string" where
  "scope_name scope = (case scope of Some s \<Rightarrow> takeWhile (\<lambda>c. c \<noteq> LOCK_SCOPE_SEPARATOR) s | None \<Rightarrow> [])"

lemma lock_scope_scoped:
  "scope = None \<Longrightarrow> LOCK_SCOPE_SEPARATOR \<notin> set path \<Longrightarrow> lock_scope (scoped_key scope path) = scope_name scope"
  "scope \<noteq> None \<Longrightarrow> lock_scope (scoped_key scope path) = scope_name scope"
proof -
  have "takeWhile (\<lambda>c. c \<noteq> sep) (s @ sep # path) = takeWhile (\<lambda>c. c \<noteq> sep) s" for sep :: char and s
    by (induction s) auto
  then show "scope \<noteq> None \<Longrightarrow> lock_scope (scoped_key scope path) = scope_name scope"
    by (auto simp: lock_scope_def scoped_key_def scope_name_def split_once_def)
qed (simp add: lock_scope_def scoped_key_def scope_name_def split_once_def DEFAULT_LOCK_SCOPE_def)

lemma set_trim_end_matches: "set (trim_end_matches cs s) \<subseteq> set s"
  using set_dropWhileD [of _ "\<lambda>c. c \<in> set cs" "rev s"] by (auto simp: trim_end_matches_def)

lemma normalized_scope: "normalize_lock_scope scope = Some s \<Longrightarrow> trim s = s \<and> s \<noteq> []"
  by (auto simp: normalize_lock_scope_def split: option.splits if_splits)

text \<open>Calls whose keys stay in the scope of their context.\<close>

definition scoped_access :: "string option \<Rightarrow> access \<Rightarrow> bool" where
  "scoped_access scope a \<longleftrightarrow> scope \<noteq> None \<or>
     ac_lock_scope a = None \<and> (\<forall>path\<in>set (ac_read_paths a) \<union> set (ac_write_paths a). LOCK_SCOPE_SEPARATOR \<notin> set path)"

lemma dispatched_scope:
  assumes "scope = normalize_lock_scope raw" "scoped_access scope a"
    and "(key, mode) \<in> set (lock_requests (dispatch_access force_exclusive a scope))"
  shows "lock_scope key = scope_name scope"
proof (cases scope)
  case None
  have dot: "LOCK_SCOPE_SEPARATOR \<notin> set WORKSPACE_LOCK_PATH" by (simp add: LOCK_SCOPE_SEPARATOR_def WORKSPACE_LOCK_PATH_def)
  have "\<exists>path. key = scoped_key None path \<and> LOCK_SCOPE_SEPARATOR \<notin> set path"
  proof (cases "force_exclusive \<or> ac_workspace_write a")
    case True
    with assms(2,3) None dot show ?thesis
      by (auto simp: lock_requests_def dispatch_access_def access_default_def scoped_access_def Let_def split: if_splits)
  next
    case False
    have clean: "LOCK_SCOPE_SEPARATOR \<notin> set (trim_end_matches cs (trim path))" if "LOCK_SCOPE_SEPARATOR \<notin> set path" for cs path
      using set_trim_end_matches [of cs "trim path"] set_trim [of path] that by blast
    from False assms(2,3) None obtain path where "path \<in> set (ac_read_paths a) \<union> set (ac_write_paths a)"
        "key = scoped_key None (trim_end_matches [CHR ''/'', CHR 0x5C] (trim path))"
      by (auto simp: lock_requests_def dispatch_access_def scoped_access_def Let_def)
    with clean assms(2) None show ?thesis by (auto simp: scoped_access_def)
  qed
  with None lock_scope_scoped(1) show ?thesis by auto
next
  case (Some s)
  then have "trim s = s" "s \<noteq> []" using assms(1) normalized_scope by auto
  with assms(3) Some have "\<exists>path. key = scoped_key (Some s) path"
    by (auto simp: lock_requests_def dispatch_access_def access_default_def Let_def split: if_splits)
  with Some lock_scope_scoped(2) show ?thesis by auto
qed

lemma exclusive_request:
  assumes "scope = normalize_lock_scope raw"
  shows "lock_requests (dispatch_access True a scope) = [(scoped_key scope WORKSPACE_LOCK_PATH, ModeWrite)]"
proof (cases scope)
  case (Some s)
  then have "trim s = s" "s \<noteq> []" using assms normalized_scope by auto
  with Some show ?thesis by (simp add: lock_requests_def dispatch_access_def access_default_def)
qed (simp add: lock_requests_def dispatch_access_def access_default_def)

lemma workspace_key:
  assumes "\<forall>s. scope = Some s \<longrightarrow> LOCK_SCOPE_SEPARATOR \<notin> set s"
  shows "is_workspace_lock (scoped_key scope WORKSPACE_LOCK_PATH)"
proof -
  have "dropWhile (\<lambda>c. c \<noteq> sep) (s @ sep # t) = sep # t" if "sep \<notin> set s" for sep :: char and s t
    using that by (induction s) auto
  with assms show ?thesis
    by (cases scope) (auto simp: is_workspace_lock_def lock_path_def scoped_key_def split_once_def LOCK_SCOPE_SEPARATOR_def
        WORKSPACE_LOCK_PATH_def)
qed

text \<open>
  C15: A patch is alone in its workspace: in every reachable state of the lock table, while the call of a command that
  resolves to \<open>apply_patch\<close>, dispatched as the step decides, holds its guard, no other call dispatched in the same lock
  scope holds any lock, whatever access its handler asks for. The name of the scope contains no separator; in the default
  scope the other handler names no scope of its own and no path with a separator.
\<close>

theorem dispatched_patch_runs_alone:
  assumes "lock_reachable admitted g" "mg_calls g i = Some c" "cl_phase c = Running" "cl_pending c = []"
    and "is_patch E R command"
    and "cl_access c = dispatch_access (\<not> is_macro_command_safe E R w command) (patch_access F f patch_text session_dir) scope"
    and "scope = normalize_lock_scope raw" "\<forall>s. scope = Some s \<longrightarrow> LOCK_SCOPE_SEPARATOR \<notin> set s"
    and "mg_calls g j = Some d" "i \<noteq> j" "cl_access d = dispatch_access force_exclusive a scope" "scoped_access scope a"
  shows "cl_acquired d = []"
proof (rule ccontr)
  assume "cl_acquired d \<noteq> []"
  then obtain key mode where held: "(key, mode) \<in> set (cl_acquired d)" by (cases "cl_acquired d") auto
  note inv = lock_inv_reachable [OF assms(1)]
  let ?lock = "(scoped_key scope WORKSPACE_LOCK_PATH, ModeWrite)"
  have exclusive: "lock_requests (cl_access c) = [?lock]"
    using assms(6) patch_not_safe [OF assms(5)] exclusive_request [OF assms(7)] by simp
  then have mine: "?lock \<in> set (cl_acquired c)" using acquired_requested(2) [OF inv assms(2,3,4)] by simp
  have "(key, mode) \<in> set (lock_requests (dispatch_access force_exclusive a scope))"
    using acquired_requested(1) [OF inv assms(9)] held assms(11) by auto
  then have "lock_scope key = scope_name scope" using dispatched_scope [OF assms(7,12)] by blast
  moreover have "lock_scope (fst ?lock) = scope_name scope"
    using dispatched_scope [OF assms(7), of access_default _ _ True] exclusive_request [OF assms(7)]
    by (simp add: scoped_access_def access_default_def)
  ultimately have "excludes ?lock (key, mode)"
    using workspace_key [OF assms(8)] by (simp add: excludes_def same_lock_scope_def)
  moreover have "\<not> excludes ?lock (key, mode)"
    using exclusiveD [OF table.exclusively [OF lock_invD(2) [OF inv]]
        two_holders [OF lock_invD(1) [OF inv] assms(2,9,10) mine held]] .
  ultimately show False by blast
qed

definition patch_guard_access :: access where
  "patch_guard_access = dispatch_access (\<not> is_macro_command_safe sample_environment sample_router [] (sample_item 0 ''apply_patch''))
     (patch_access sample_os [] [] ''/w'') (normalize_lock_scope (Some '' s1 ''))"

definition waiting_access :: access where
  "waiting_access = dispatch_access False (writes_to [''a'']) (normalize_lock_scope (Some '' s1 ''))"

text \<open>Witness of C15: the patch holds its guard, and a writer of a file of the same scope has no lock yet.\<close>

theorem dispatched_patch_runs_alone_witness:
  "\<exists>g c. lock_reachable (\<lambda>_. True) g \<and> mg_calls g 0 = Some c \<and> cl_access c = patch_guard_access \<and> cl_pending c = [] \<and>
     mg_calls g 1 = Some (enter waiting_access) \<and> cl_acquired (enter waiting_access) = []"
proof -
  have patch: "is_patch sample_environment sample_router (sample_item 0 ''apply_patch'')" unfolding is_patch_def by code_simp
  have scope: "normalize_lock_scope (Some '' s1 '') = Some ''s1''" by code_simp
  let ?key = "scoped_key (Some ''s1'') WORKSPACE_LOCK_PATH"
  have request: "lock_requests patch_guard_access = [(?key, ModeWrite)]" unfolding patch_guard_access_def
    using patch_not_safe [OF patch] exclusive_request [OF refl, of _ "Some '' s1 ''"] scope by simp
  let ?g1 = "manager_new\<lparr>mg_calls := (mg_calls manager_new)(0 \<mapsto> enter patch_guard_access)\<rparr>"
  let ?c = "(enter patch_guard_access)\<lparr>cl_pending := [], cl_acquired := cl_acquired (enter patch_guard_access) @ [(?key, ModeWrite)]\<rparr>"
  let ?g2 = "\<lparr>mg_state = acquire_one (mg_state ?g1) ?key ModeWrite, mg_calls = (mg_calls ?g1)(0 \<mapsto> ?c)\<rparr>"
  let ?g3 = "?g2\<lparr>mg_calls := (mg_calls ?g2)(1 \<mapsto> enter waiting_access)\<rparr>"
  have "lock_reachable (\<lambda>_. True) ?g1"
    by (rule reachable_enter [OF lock_reachable.initial]) (simp_all add: manager_new_def)
  then have "lock_reachable (\<lambda>_. True) ?g2"
    by (rule reachable_take) (simp_all add: enter_def request manager_new_def lock_state_default_def can_acquire_def
        has_workspace_writer_in_scope_def reader_count_def)
  then have g3: "lock_reachable (\<lambda>_. True) ?g3" by (rule reachable_enter) (simp_all add: manager_new_def)
  have calls: "mg_calls ?g3 0 = Some ?c" "mg_calls ?g3 1 = Some (enter waiting_access)" by simp_all
  have "cl_acquired (enter waiting_access) = []"
  proof (rule dispatched_patch_runs_alone [OF g3 calls(1) _ _ patch _ refl _ calls(2)])
    show "cl_access ?c = dispatch_access (\<not> is_macro_command_safe sample_environment sample_router [] (sample_item 0 ''apply_patch''))
        (patch_access sample_os [] [] ''/w'') (normalize_lock_scope (Some '' s1 ''))"
      by (simp add: enter_def patch_guard_access_def)
    show "cl_access (enter waiting_access) = dispatch_access False (writes_to [''a'']) (normalize_lock_scope (Some '' s1 ''))"
      by (simp add: enter_def waiting_access_def)
    show "scoped_access (normalize_lock_scope (Some '' s1 '')) (writes_to [''a''])" by (simp add: scoped_access_def scope)
    show "\<forall>s. normalize_lock_scope (Some '' s1 '') = Some s \<longrightarrow> LOCK_SCOPE_SEPARATOR \<notin> set s"
      by (simp add: scope LOCK_SCOPE_SEPARATOR_def)
  qed (simp_all add: enter_def)
  with g3 calls show ?thesis by (intro exI [of _ ?g3] exI [of _ ?c]) (simp add: enter_def)
qed

end
