(* ===== verification/Command_Text.thy ===== *)
theory Command_Text
  imports Rust_Text Json_Value File_Locks Patch_Files
begin

text \<open>
  The text functions of the command interceptor (\<open>tools/src/commands/command_safety.rs\<close>): the shell-like
  tokenizer, the splitter at connectors, the extraction of substitution bodies and of the string arguments of
  library calls, and the lexical normalization of paths.

  A text is the list of its UTF-8 bytes. A loop over \<open>chars()\<close> runs over \<open>str_chars\<close>, the characters as byte
  groups; a loop over \<open>as_bytes()\<close> runs over the text itself.
\<close>

definition BACKSLASH :: char where "BACKSLASH = CHR 0x5C"
definition SQUOTE :: char where "SQUOTE = CHR 0x27"
definition DQUOTE :: char where "DQUOTE = CHR 0x22"
definition BACKTICK :: char where "BACKTICK = CHR 0x60"

lemmas quote_defs = BACKSLASH_def SQUOTE_def DQUOTE_def BACKTICK_def LF_def

section \<open>Characters and searches\<close>

definition is_whitespace :: "string \<Rightarrow> bool" where
  "is_whitespace g = (g \<in> set white_space)"

definition ascii_digit :: "char \<Rightarrow> bool" where
  "ascii_digit c = (of_char c \<in> {48..57 :: nat})"

definition ascii_alphabetic :: "char \<Rightarrow> bool" where
  "ascii_alphabetic c = (of_char c \<in> {65..90 :: nat} \<or> of_char c \<in> {97..122 :: nat})"

definition name_char :: "char \<Rightarrow> bool" where
  "name_char c = (ascii_alphabetic c \<or> ascii_digit c \<or> c = CHR ''_'')"

definition eq_ignore_ascii_case :: "string \<Rightarrow> string \<Rightarrow> bool" where
  "eq_ignore_ascii_case s t = (to_ascii_lowercase s = to_ascii_lowercase t)"

definition trim_matches :: "char list \<Rightarrow> string \<Rightarrow> string" where
  "trim_matches cs s = trim_end_matches cs (trim_start_matches cs s)"

fun find_str :: "string \<Rightarrow> string \<Rightarrow> nat option" where
  "find_str w [] = (if w = [] then Some 0 else None)"
| "find_str w (c # s) = (if starts_with (c # s) w then Some 0 else map_option Suc (find_str w s))"

text \<open>The same tests on the bits of a character, for evaluation.\<close>

definition lower_char :: "char \<Rightarrow> char" where
  "lower_char c = (case c of Char b0 b1 b2 b3 b4 b5 b6 b7 \<Rightarrow>
     if b6 \<and> \<not> b5 \<and> \<not> b7 \<and> (b0 \<or> b1 \<or> b2 \<or> b3 \<or> b4) \<and> \<not> (b4 \<and> b3 \<and> (b2 \<or> b0 \<and> b1))
     then Char b0 b1 b2 b3 b4 True b6 b7 else c)"

lemma char_tables:
  "(if of_char c \<in> {65..90 :: nat} then char_of (of_char c + 32 :: nat) else c) = lower_char c"
  "continuation_byte c = (case c of Char b0 b1 b2 b3 b4 b5 b6 b7 \<Rightarrow> b7 \<and> \<not> b6)"
  "ascii_digit c = (c \<in> set ''0123456789'')"
  "ascii_alphabetic c = (lower_char c \<in> set ''abcdefghijklmnopqrstuvwxyz'')"
  by (cases c; cases "digit0 c"; cases "digit1 c"; cases "digit2 c"; cases "digit3 c"; cases "digit4 c";
      cases "digit5 c"; cases "digit6 c"; cases "digit7 c";
      simp add: lower_char_def char_of_def bit_0 continuation_byte_def ascii_digit_def ascii_alphabetic_def)+

lemma lowercase_code [code]: "to_ascii_lowercase s = map lower_char s"
  unfolding to_ascii_lowercase_def char_tables ..

declare char_tables(2-4) [code]

section \<open>Tokens\<close>

record tok_state =
  tk_tokens :: "string list"
  tk_current :: string
  tk_single :: bool
  tk_double :: bool
  tk_escaped :: bool
  tk_started :: bool

definition tok_init :: tok_state where
  "tok_init = \<lparr>tk_tokens = [], tk_current = [], tk_single = False, tk_double = False,
     tk_escaped = False, tk_started = False\<rparr>"

definition tok_step :: "string \<Rightarrow> tok_state \<Rightarrow> tok_state" where
  "tok_step ch st =
     (if tk_escaped st
      then st\<lparr>tk_current := tk_current st @ ch, tk_escaped := False, tk_started := True\<rparr>
      else if ch = [BACKSLASH] \<and> \<not> tk_single st
      then st\<lparr>tk_escaped := True, tk_started := True\<rparr>
      else if ch = [SQUOTE] \<and> \<not> tk_double st
      then st\<lparr>tk_single := \<not> tk_single st, tk_started := True\<rparr>
      else if ch = [DQUOTE] \<and> \<not> tk_single st
      then st\<lparr>tk_double := \<not> tk_double st, tk_started := True\<rparr>
      else if is_whitespace ch \<and> \<not> tk_single st \<and> \<not> tk_double st
      then (if tk_started st
            then st\<lparr>tk_tokens := tk_tokens st @ [tk_current st], tk_current := [], tk_started := False\<rparr>
            else st)
      else st\<lparr>tk_current := tk_current st @ ch, tk_started := True\<rparr>)"

definition tok_finish :: "tok_state \<Rightarrow> string list option" where
  "tok_finish st =
     (if tk_single st \<or> tk_double st then None
      else if tk_started st then Some (tk_tokens st @ [tk_current st])
      else Some (tk_tokens st))"

definition tokenize :: "string \<Rightarrow> string list option" where
  "tokenize segment = tok_finish (fold tok_step (str_chars segment) tok_init)"

section \<open>Segments\<close>

record seg_state =
  sg_segments :: "string list"
  sg_current :: string
  sg_single :: bool
  sg_double :: bool
  sg_escaped :: bool
  sg_paren_depth :: nat
  sg_backtick :: bool

definition seg_init :: seg_state where
  "seg_init = \<lparr>sg_segments = [], sg_current = [], sg_single = False, sg_double = False,
     sg_escaped = False, sg_paren_depth = 0, sg_backtick = False\<rparr>"

definition seg_push :: "string \<Rightarrow> seg_state \<Rightarrow> seg_state" where
  "seg_push ch st = st\<lparr>sg_current := sg_current st @ ch\<rparr>"

definition seg_cut :: "seg_state \<Rightarrow> seg_state" where
  "seg_cut st = st\<lparr>sg_segments := sg_segments st @ [sg_current st], sg_current := []\<rparr>"

text \<open>The arms of the \<open>match\<close> that do not cut; \<open>None\<close> when the character is a connector at the top level.\<close>

definition seg_quote :: "string \<Rightarrow> seg_state \<Rightarrow> seg_state option" where
  "seg_quote ch st =
     (if sg_escaped st then Some ((seg_push ch st)\<lparr>sg_escaped := False\<rparr>)
      else if ch = [BACKSLASH] \<and> \<not> sg_single st then Some ((seg_push ch st)\<lparr>sg_escaped := True\<rparr>)
      else if ch = [SQUOTE] \<and> \<not> sg_double st \<and> \<not> sg_backtick st
      then Some ((seg_push ch st)\<lparr>sg_single := \<not> sg_single st\<rparr>)
      else if ch = [DQUOTE] \<and> \<not> sg_single st \<and> \<not> sg_backtick st
      then Some ((seg_push ch st)\<lparr>sg_double := \<not> sg_double st\<rparr>)
      else if ch = [BACKTICK] \<and> \<not> sg_single st \<and> \<not> sg_double st
      then Some ((seg_push ch st)\<lparr>sg_backtick := \<not> sg_backtick st\<rparr>)
      else if ch = ''('' \<and> \<not> sg_single st \<and> \<not> sg_double st \<and> \<not> sg_backtick st
      then Some ((seg_push ch st)\<lparr>sg_paren_depth := sg_paren_depth st + 1\<rparr>)
      else if ch = '')'' \<and> \<not> sg_single st \<and> \<not> sg_double st \<and> \<not> sg_backtick st
      then Some ((seg_push ch st)\<lparr>sg_paren_depth := sg_paren_depth st - 1\<rparr>)
      else if sg_single st \<or> sg_double st \<or> sg_backtick st \<or> sg_paren_depth st > 0
      then Some (seg_push ch st)
      else if ch \<in> {[LF], '';'', ''|'', ''&''} then None
      else Some (seg_push ch st))"

fun split_loop :: "seg_state \<Rightarrow> string list \<Rightarrow> string list" where
  "split_loop st [] = sg_segments st @ [sg_current st]"
| "split_loop st (ch # chars) =
     (case seg_quote ch st of
        Some st' \<Rightarrow> split_loop st' chars
      | None \<Rightarrow>
          if ch \<in> {[LF], '';''} then split_loop (seg_cut st) chars
          else (case chars of
                  [] \<Rightarrow> split_loop (seg_cut st) []
                | next # rest \<Rightarrow>
                    if next = ch then split_loop (seg_cut st) rest
                    else split_loop (seg_cut st) (next # rest)))"

definition split_segments :: "string \<Rightarrow> string list" where
  "split_segments command = split_loop seg_init (str_chars command)"

section \<open>Substitutions\<close>

text \<open>The inner loop: the body of \<open>$(...)\<close> up to the matching parenthesis, and what follows it.\<close>

fun paren_body :: "nat \<Rightarrow> string \<Rightarrow> string list \<Rightarrow> string \<times> string list" where
  "paren_body 0 body chars = (body, chars)"
| "paren_body (Suc d) body [] = (body, [])"
| "paren_body (Suc d) body (ch # chars) =
     (if ch = ''('' then paren_body (Suc (Suc d)) (body @ ''('') chars
      else if ch = '')'' then paren_body d (if d > 0 then body @ '')'' else body) chars
      else paren_body (Suc d) (body @ ch) chars)"

lemma paren_body_length: "length (snd (paren_body d body chars)) \<le> length chars"
proof (induction d body chars rule: paren_body.induct)
  case (3 d body ch chars)
  then show ?case by (auto intro: le_SucI)
qed simp_all

function substitution_loop :: "string list \<Rightarrow> string list" where
  "substitution_loop [] = []"
| "substitution_loop (ch # chars) =
     (if ch = ''$'' \<and> chars \<noteq> [] \<and> hd chars = ''(''
      then let taken = paren_body 1 [] (tl chars) in fst taken # substitution_loop (snd taken)
      else if ch = [BACKTICK]
      then let body = takeWhile (\<lambda>g. g \<noteq> [BACKTICK]) chars
           in concat body # substitution_loop (drop (length body + 1) chars)
      else substitution_loop chars)"
  by pat_completeness auto
termination
proof (relation "measure length")
  fix ch :: string and chars :: "string list" and x :: "string \<times> string list"
  assume "x = paren_body 1 [] (tl chars)"
  then have "length (snd x) \<le> length (tl chars)" by (simp only: paren_body_length)
  then show "(snd x, ch # chars) \<in> measure length" by simp
qed auto

definition extract_substitutions :: "string \<Rightarrow> string list" where
  "extract_substitutions command = substitution_loop (str_chars command)"

section \<open>Library calls\<close>

definition EXEC_MARKERS :: "string list" where
  "EXEC_MARKERS =
     [''os.system('', ''os.popen('', ''subprocess.call('', ''subprocess.run('', ''subprocess.popen('',
      ''subprocess.check_call('', ''subprocess.check_output('', ''commands.getoutput('',
      ''commands.getstatusoutput('', ''.exec('', ''.execsync('', ''.spawn('', ''.spawnsync('', ''.execfile('',
      ''.execfilesync('', ''system('', ''shell_exec('', ''passthru('', ''proc_open('', ''popen('']"

text \<open>\<open>char_indices\<close>: each character with the byte index it starts at.\<close>

fun char_indices :: "nat \<Rightarrow> string list \<Rightarrow> (nat \<times> string) list" where
  "char_indices i [] = []"
| "char_indices i (ch # chars) = (i, ch) # char_indices (i + length ch) chars"

text \<open>\<open>bytes[index] as char\<close>, pushed on a \<open>String\<close>: the UTF-8 encoding of the Latin-1 character.\<close>

definition latin1 :: "char \<Rightarrow> string" where
  "latin1 c =
     (let n = of_char c :: nat
      in if n < 128 then [c] else [char_of (192 + n div 64), char_of (128 + n mod 64)])"

text \<open>The scan for the parenthesis that closes the one at the head; its index.\<close>

fun paren_close :: "nat \<Rightarrow> nat \<Rightarrow> bool \<Rightarrow> bool \<Rightarrow> bool \<Rightarrow> string \<Rightarrow> nat option" where
  "paren_close i depth single double escaped [] = None"
| "paren_close i depth single double escaped (ch # bytes) =
     (if escaped then paren_close (i + 1) depth single double False bytes
      else if ch = BACKSLASH \<and> (single \<or> double) then paren_close (i + 1) depth single double True bytes
      else if ch = SQUOTE \<and> \<not> double then paren_close (i + 1) depth (\<not> single) double False bytes
      else if ch = DQUOTE \<and> \<not> single then paren_close (i + 1) depth single (\<not> double) False bytes
      else if ch = CHR ''('' \<and> \<not> single \<and> \<not> double
      then paren_close (i + 1) (depth + 1) single double False bytes
      else if ch = CHR '')'' \<and> \<not> single \<and> \<not> double
      then (if depth - 1 = 0 then Some i else paren_close (i + 1) (depth - 1) single double False bytes)
      else paren_close (i + 1) depth single double False bytes)"

definition extract_paren_arg :: "string \<Rightarrow> nat \<Rightarrow> string option" where
  "extract_paren_arg command open_paren =
     (let tail = drop open_paren command
      in if \<not> starts_with tail ''('' then None
         else map_option (\<lambda>close. take (close - 1) (drop 1 tail))
                (paren_close 0 0 False False False tail))"

text \<open>The inner loop of a string literal: its value, and the bytes after the closing quote.\<close>

fun literal_value :: "char \<Rightarrow> bool \<Rightarrow> string \<Rightarrow> string \<Rightarrow> string \<times> string" where
  "literal_value quote escaped val [] = (val, [])"
| "literal_value quote escaped val (inner # bytes) =
     (if escaped then literal_value quote False (val @ latin1 inner) bytes
      else if inner = BACKSLASH then literal_value quote True val bytes
      else if inner = quote then (val, bytes)
      else literal_value quote False (val @ latin1 inner) bytes)"

lemma literal_value_length: "length (snd (literal_value q e v bytes)) \<le> length bytes"
proof (induction q e v bytes rule: literal_value.induct)
  case (2 quote escaped val inner bytes)
  then show ?case by (auto intro: le_SucI)
qed simp

function collect_string_literals :: "string \<Rightarrow> string list" where
  "collect_string_literals [] = []"
| "collect_string_literals (ch # bytes) =
     (if ch = SQUOTE \<or> ch = DQUOTE
      then let taken = literal_value ch False [] bytes in fst taken # collect_string_literals (snd taken)
      else collect_string_literals bytes)"
  by pat_completeness auto
termination
proof (relation "measure length")
  fix ch :: char and bytes :: string and x :: "string \<times> string"
  assume "x = literal_value ch False [] bytes"
  then have "length (snd x) \<le> length bytes" by (simp only: literal_value_length)
  then show "(snd x, ch # bytes) \<in> measure length" by simp
qed auto

text \<open>
  \<open>while let Some(found) = stripped[from..].find(marker)\<close>: the indices the marker is found at. A marker is never
  empty, so it is not found in an empty rest.
\<close>

function marker_hits :: "string \<Rightarrow> nat \<Rightarrow> string \<Rightarrow> nat list" where
  "marker_hits marker from rest =
     (if rest = [] then []
      else case find_str marker rest of
        None \<Rightarrow> []
      | Some found \<Rightarrow> (from + found) # marker_hits marker (from + found + 1) (drop (found + 1) rest))"
  by pat_completeness auto
termination
  by (relation "measure (\<lambda>(marker, from, rest). length rest)") auto

declare marker_hits.simps [simp del]

text \<open>
  One found marker. \<open>map\<close> has one entry per character while the index counts bytes, so the look-up can be out of
  range, which panics: \<open>Inl ()\<close>.
\<close>

definition marker_candidates :: "string \<Rightarrow> nat list \<Rightarrow> string \<Rightarrow> nat \<Rightarrow> (unit, string list) result" where
  "marker_candidates command map_idx marker at =
     (let paren = at + length marker - 1
      in if paren \<ge> length map_idx then Inl ()
         else case extract_paren_arg command (map_idx ! paren) of
           None \<Rightarrow> Inr []
         | Some arg \<Rightarrow>
             let literals = collect_string_literals arg
             in if literals = [] then Inr [] else Inr [join_with '' '' literals, concat literals])"

definition extract_library_shell_commands :: "string \<Rightarrow> (unit, string list) result" where
  "extract_library_shell_commands command =
     (let kept = filter (\<lambda>(i, ch). \<not> is_whitespace ch) (char_indices 0 (str_chars command));
          stripped = concat (map (\<lambda>(i, ch). to_ascii_lowercase ch) kept);
          map_idx = map fst kept
      in and_then (try_map (\<lambda>marker. and_then
             (try_map (marker_candidates command map_idx marker) (marker_hits marker 0 stripped))
             (\<lambda>found. Inr (concat found))) EXEC_MARKERS)
           (\<lambda>candidates. Inr (concat candidates)))"

end
