(* ===== verification/Command_Safety.thy ===== *)
theory Command_Safety
  imports Command_Text
begin

text \<open>
  The command interceptor (\<open>tools/src/commands/command_safety.rs\<close>): which commands are refused before a shell is
  spawned. The two environment inputs, the variable that disables the interceptor and the display texts of the
  working directory and of the workspace root, are arguments.

  \<open>scan\<close> calls itself through the checks of a segment at the next depth, or at the one after; those checks
  take the recursive calls as arguments. A verdict is \<open>Inr (Some reason)\<close> for a refused command, \<open>Inr None\<close> for an
  allowed one and \<open>Inl ()\<close> when the code panics.
\<close>

type_synonym verdict = "(unit, string option) result"

definition orelse :: "verdict \<Rightarrow> verdict \<Rightarrow> verdict" where
  "orelse v w = and_then v (\<lambda>r. case r of None \<Rightarrow> w | Some _ \<Rightarrow> v)"

fun first_danger :: "('a \<Rightarrow> verdict) \<Rightarrow> 'a list \<Rightarrow> verdict" where
  "first_danger f [] = Inr None"
| "first_danger f (x # xs) = orelse (f x) (first_danger f xs)"

definition map_reason :: "(string \<Rightarrow> string) \<Rightarrow> verdict \<Rightarrow> verdict" where
  "map_reason h v = and_then v (\<lambda>r. Inr (map_option h r))"

abbreviation refuse :: "string \<Rightarrow> verdict" where
  "refuse reason \<equiv> Inr (Some reason)"

abbreviation pass :: verdict where
  "pass \<equiv> Inr None"

definition ticked :: "string \<Rightarrow> string" where
  "ticked s = [BACKTICK] @ s @ [BACKTICK]"

record safety_context =
  sc_cwd :: string
  sc_workspace_root :: string

definition WRAPPERS :: "string list" where
  "WRAPPERS = [''sudo'', ''doas'', ''env'', ''nohup'', ''nice'', ''ionice'', ''time'', ''timeout'', ''stdbuf'',
     ''setsid'', ''command'', ''exec'', ''xargs'']"

definition NESTED_SHELLS :: "string list" where
  "NESTED_SHELLS = [''bash'', ''sh'', ''zsh'', ''dash'', ''ksh'', ''ash'']"

definition POWERSHELL_SHELLS :: "string list" where
  "POWERSHELL_SHELLS = [''powershell'', ''pwsh'']"

definition SYSTEM_PATHS :: "string list" where
  "SYSTEM_PATHS =
     [''/'', ''/*'', ''~'', ''~/'', ''$HOME'', ''${HOME}'', ''/etc'', ''/usr'', ''/bin'', ''/sbin'', ''/lib'',
      ''/lib64'', ''/var'', ''/boot'', ''/sys'', ''/proc'', ''/dev'', ''/root'', ''/home'',
      ''c:'' @ [BACKSLASH], ''c:/'', ''c:'' @ [BACKSLASH] @ ''windows'', ''c:/windows'',
      ''c:'' @ [BACKSLASH] @ ''windows'' @ [BACKSLASH] @ ''system32'', ''c:/windows/system32'',
      ''%systemroot%'', ''%windir%'']"

section \<open>Whole-command patterns\<close>

definition is_fork_bomb :: "string \<Rightarrow> bool" where
  "is_fork_bomb segment =
     (let condensed = concat (filter (\<lambda>ch. \<not> is_whitespace ch) (str_chars segment))
      in contains condensed '':(){:|:&};:'' \<or> contains condensed '':(){:|:&}'')"

definition BLOCK_DEVICES :: "string list" where
  "BLOCK_DEVICES = [''/dev/sd'', ''/dev/nvme'', ''/dev/hd'', ''/dev/disk'', ''/dev/vd'']"

fun redirect_to_block_device :: "string \<Rightarrow> string option" where
  "redirect_to_block_device [] = None"
| "redirect_to_block_device (byte # bytes) =
     (let rest = trim_start_matches [CHR ''>'', CHR ''&'', CHR '' '', CHR 0x09] bytes
      in if byte = CHR ''>'' \<and> (\<exists>device\<in>set BLOCK_DEVICES. starts_with rest device)
         then Some (concat (takeWhile (\<lambda>ch. \<not> is_whitespace ch) (str_chars rest)))
         else redirect_to_block_device bytes)"

definition download_pipe_to_shell :: "string \<Rightarrow> string option" where
  "download_pipe_to_shell segment =
     (let lower = to_ascii_lowercase segment;
          fetches = [''curl '', ''wget '', ''fetch '', ''invoke-webrequest'', ''iwr ''];
          shells = [''| sh'', ''|sh'', ''| bash'', ''|bash'', ''| zsh'', ''|zsh'', ''| python'', ''|python'']
      in if CHR ''|'' \<notin> set lower then None
         else if (\<exists>f\<in>set fetches. contains lower f) \<and> (\<exists>s\<in>set shells. contains lower s)
         then Some ''remote download piped into a shell'' else None)"

definition decoder_pipe_to_shell :: "string \<Rightarrow> string option" where
  "decoder_pipe_to_shell segment =
     (let lower = to_ascii_lowercase segment;
          decoders = [''base64 -d'', ''base64 --decode'', ''base64 -decode'', ''openssl base64 -d'',
            ''openssl enc -d -base64'', ''certutil -decode''];
          shells = [''| sh'', ''|sh'', ''| /bin/sh'', ''|/bin/sh'', ''| bash'', ''|bash'', ''| /bin/bash'',
            ''|/bin/bash'', ''| zsh'', ''|zsh'', ''| dash'', ''|dash'', ''| ksh'', ''|ksh'', ''| ash'', ''|ash'',
            ''| python'', ''|python'', ''| python3'', ''|python3'', ''| perl'', ''|perl'', ''| ruby'', ''|ruby'',
            ''| node'', ''|node'', ''| powershell'', ''|powershell'', ''| pwsh'', ''|pwsh'', ''| cmd'', ''|cmd'']
      in if CHR ''|'' \<notin> set lower then None
         else if (\<exists>d\<in>set decoders. contains lower d) \<and> (\<exists>s\<in>set shells. contains lower s)
         then Some ''local decoder piped into a shell'' else None)"

section \<open>Nested scripts\<close>

fun nested_shell_script :: "string list \<Rightarrow> string option" where
  "nested_shell_script [] = None"
| "nested_shell_script (arg # args) =
     (if arg \<in> {''-c'', ''-lc'', ''-lic'', ''-ic''} \<or>
         (starts_with arg ''-'' \<and> CHR ''c'' \<in> set arg \<and> length arg \<le> 5)
      then (case args of [] \<Rightarrow> None | script # _ \<Rightarrow> Some script)
      else nested_shell_script args)"

definition joined_script :: "string list \<Rightarrow> string option" where
  "joined_script args =
     (let script = join_with '' '' args in if trim script = [] then None else Some script)"

fun nested_cmd_script :: "string list \<Rightarrow> string option" where
  "nested_cmd_script [] = None"
| "nested_cmd_script (arg # args) =
     (if eq_ignore_ascii_case arg ''/c'' \<or> eq_ignore_ascii_case arg ''/k'' then joined_script args
      else nested_cmd_script args)"

abbreviation option_name :: "string \<Rightarrow> string" where
  "option_name arg \<equiv> to_ascii_lowercase (trim_start_matches [CHR ''-'', CHR ''/''] arg)"

fun nested_powershell_script :: "string list \<Rightarrow> string option" where
  "nested_powershell_script [] = None"
| "nested_powershell_script (arg # args) =
     (if option_name arg \<in> {''command'', ''c''} then joined_script args
      else nested_powershell_script args)"

definition has_encoded_powershell_command :: "string list \<Rightarrow> bool" where
  "has_encoded_powershell_command args =
     (\<exists>arg\<in>set args. option_name arg \<in> {''encodedcommand'', ''enc'', ''e''})"

section \<open>Words\<close>

definition is_assignment :: "string \<Rightarrow> bool" where
  "is_assignment token =
     (case split_once (CHR ''='') token of
        Some (name, _) \<Rightarrow> name \<noteq> [] \<and> list_all name_char name
      | None \<Rightarrow> False)"

definition is_duration :: "string \<Rightarrow> bool" where
  "is_duration token =
     (let trimmed = trim_end_matches [CHR ''s'', CHR ''m'', CHR ''h'', CHR ''d''] token
      in trimmed \<noteq> [] \<and> list_all (\<lambda>c. ascii_digit c \<or> c = CHR ''.'') trimmed)"

definition base_name :: "string \<Rightarrow> string" where
  "base_name token =
     (let tail = last (split_char (CHR ''/'') (replace_char BACKSLASH (CHR ''/'') token))
      in to_ascii_lowercase (case strip_suffix ''.exe'' tail of Some stem \<Rightarrow> stem | None \<Rightarrow> tail))"

definition sudo_value_option :: "string \<Rightarrow> bool" where
  "sudo_value_option word =
     (word \<in> {''-u'', ''-g'', ''-C'', ''-p'', ''-h'', ''-r'', ''-t'', ''--user'', ''--group''})"

definition xargs_value_option :: "string \<Rightarrow> bool" where
  "xargs_value_option word = (word \<in> {''-I'', ''-n'', ''-P'', ''-d'', ''-E''})"

fun drop_sudo_options :: "string list \<Rightarrow> string list" where
  "drop_sudo_options [] = []"
| "drop_sudo_options (word # tokens) =
     (if \<not> starts_with word ''-'' then word # tokens
      else if sudo_value_option word
      then (case tokens of
              [] \<Rightarrow> []
            | val # rest \<Rightarrow> if starts_with val ''-'' then drop_sudo_options (val # rest) else drop_sudo_options rest)
      else drop_sudo_options tokens)"

fun drop_xargs_options :: "string list \<Rightarrow> string list" where
  "drop_xargs_options [] = []"
| "drop_xargs_options (word # tokens) =
     (if \<not> starts_with word ''-'' then word # tokens
      else if xargs_value_option word
      then (case tokens of [] \<Rightarrow> [] | _ # rest \<Rightarrow> drop_xargs_options rest)
      else drop_xargs_options tokens)"

definition wrapper_prefix :: "string \<Rightarrow> bool" where
  "wrapper_prefix token = (starts_with token ''-'' \<or> is_assignment token \<or> is_duration token)"

definition drop_wrapper_options :: "string \<Rightarrow> string list \<Rightarrow> string list" where
  "drop_wrapper_options base tokens =
     (if base \<in> {''sudo'', ''doas''} then drop_sudo_options tokens
      else if base = ''xargs'' then drop_xargs_options tokens
      else dropWhile wrapper_prefix tokens)"

lemma drop_sudo_options_length: "length (drop_sudo_options ts) \<le> length ts"
proof (induction ts rule: drop_sudo_options.induct)
  case (2 word tokens)
  then show ?case
    by (cases "starts_with word ''-''"; cases "sudo_value_option word"; cases tokens)
      (simp_all add: le_Suc_eq del: starts_with_Cons drop_sudo_options.simps add: drop_sudo_options.simps(2) [of word], blast)
qed simp

lemma drop_xargs_options_length: "length (drop_xargs_options ts) \<le> length ts"
proof (induction ts rule: drop_xargs_options.induct)
  case (2 word tokens)
  then show ?case
    by (cases "starts_with word ''-''"; cases "xargs_value_option word"; cases tokens)
      (simp_all add: le_Suc_eq del: starts_with_Cons drop_xargs_options.simps add: drop_xargs_options.simps(2) [of word])
qed simp

lemma drop_wrapper_options_length: "length (drop_wrapper_options b ts) \<le> length ts"
  by (simp add: drop_wrapper_options_def drop_sudo_options_length drop_xargs_options_length length_dropWhile_le)

function strip_wrappers :: "string list \<Rightarrow> string list" where
  "strip_wrappers [] = []"
| "strip_wrappers (first # tokens) =
     (if base_name first \<notin> set WRAPPERS then first # tokens
      else strip_wrappers (drop_wrapper_options (base_name first) tokens))"
  by pat_completeness auto
termination
  by (relation "measure length") (simp_all add: le_imp_less_Suc drop_wrapper_options_length)

declare strip_wrappers.simps [simp del]

definition short_flag :: "string list \<Rightarrow> char \<Rightarrow> bool" where
  "short_flag args flag =
     (\<exists>arg\<in>set args. starts_with arg ''-'' \<and> \<not> starts_with arg ''--'' \<and>
        list_all ascii_alphabetic (drop 1 arg) \<and> flag \<in> set (drop 1 arg))"

definition long_flag :: "string list \<Rightarrow> string \<Rightarrow> bool" where
  "long_flag args flag = (flag \<in> set args)"

definition is_powershell_flag :: "string \<Rightarrow> string \<Rightarrow> bool" where
  "is_powershell_flag arg name =
     (case strip_prefix ''-'' arg of
        None \<Rightarrow> False
      | Some tail \<Rightarrow>
          let rest = trim_end_matches [CHR '':''] tail
          in rest \<noteq> [] \<and> starts_with name (to_ascii_lowercase rest))"

section \<open>Deletion targets\<close>

fun posix_removal_loop :: "bool \<Rightarrow> string list \<Rightarrow> string list" where
  "posix_removal_loop after_dd [] = []"
| "posix_removal_loop after_dd (arg # args) =
     (if after_dd then arg # posix_removal_loop True args
      else if arg = ''--'' then posix_removal_loop True args
      else if starts_with arg ''-'' then posix_removal_loop False args
      else arg # posix_removal_loop False args)"

definition posix_removal_targets :: "string list \<Rightarrow> string list" where
  "posix_removal_targets args = posix_removal_loop False args"

definition split_powershell_target_list :: "string \<Rightarrow> string list" where
  "split_powershell_target_list val =
     filter (\<lambda>t. t \<noteq> [])
       (map (\<lambda>t. trim_matches [DQUOTE, SQUOTE] (trim t)) (split_char (CHR '','') val))"

fun powershell_removal_targets :: "string list \<Rightarrow> string list" where
  "powershell_removal_targets [] = []"
| "powershell_removal_targets (arg # args) =
     (let lower = to_ascii_lowercase (trim_start_matches [CHR ''-''] arg)
      in if starts_with arg ''/'' then powershell_removal_targets args
         else if trim_end_matches [CHR '':''] lower
                  \<in> {''force'', ''recurse'', ''confirm'', ''whatif'', ''verbose'', ''erroraction'', ''ea''}
         then (if lower \<in> {''erroraction'', ''ea''} \<and> args \<noteq> []
               then (case args of [] \<Rightarrow> [] | _ # rest \<Rightarrow> powershell_removal_targets rest)
               else powershell_removal_targets args)
         else if lower \<in> {''path'', ''literalpath''} \<and> args \<noteq> []
         then (case args of
                 [] \<Rightarrow> []
               | val # rest \<Rightarrow> split_powershell_target_list val @ powershell_removal_targets rest)
         else if starts_with arg ''-''
         then (case split_once (CHR '':'') lower of
                 Some (name, val) \<Rightarrow>
                   if name \<in> {''path'', ''literalpath''} \<and> val \<noteq> [] then split_powershell_target_list val else []
               | None \<Rightarrow> []) @ powershell_removal_targets args
         else split_powershell_target_list arg @ powershell_removal_targets args)"

definition cmd_removal_targets :: "string list \<Rightarrow> string list" where
  "cmd_removal_targets args =
     concat (map split_powershell_target_list (filter (\<lambda>arg. \<not> starts_with arg ''/'') args))"

definition is_batch_removal :: "string list \<Rightarrow> bool" where
  "is_batch_removal targets =
     (length targets > 1 \<or> (\<exists>t\<in>set targets. CHR ''*'' \<in> set t \<or> CHR ''?'' \<in> set t))"

section \<open>Paths\<close>

definition drive_prefix :: "string \<Rightarrow> bool" where
  "drive_prefix s = (length s > 1 \<and> s ! 1 = CHR '':'')"

definition is_absolute_path_text :: "string \<Rightarrow> bool" where
  "is_absolute_path_text path =
     (let p = replace_char BACKSLASH (CHR ''/'') path in starts_with p ''/'' \<or> drive_prefix p)"

fun resolve_parts :: "string list \<Rightarrow> string list \<Rightarrow> string list" where
  "resolve_parts parts [] = parts"
| "resolve_parts parts (part # rest) =
     (if part = [] \<or> part = ''.'' then resolve_parts parts rest
      else if part = ''..'' then resolve_parts (butlast parts) rest
      else resolve_parts (parts @ [part]) rest)"

text \<open>The text after the separators are unified, the drive separated and the verbatim prefix removed.\<close>

definition compare_text :: "string \<Rightarrow> string" where
  "compare_text path =
     (let unified = replace_char BACKSLASH (CHR ''/'') path;
          text = (if drive_prefix unified \<and> \<not> (length unified > 2 \<and> unified ! 2 = CHR ''/'')
                  then take 2 unified @ ''/'' @ drop 2 unified else unified)
      in case strip_prefix ''//?/'' text of Some stripped \<Rightarrow> stripped | None \<Rightarrow> text)"

definition normalize_compare_path :: "string \<Rightarrow> string" where
  "normalize_compare_path path =
     (let text = compare_text path;
          prefix = (if drive_prefix text then to_ascii_lowercase (take 2 text)
                    else if starts_with text ''/'' then ''/'' else []);
          rest = (if drive_prefix text then drop 2 text else text);
          parts = resolve_parts [] (split_char (CHR ''/'') rest)
      in if prefix = ''/'' then trim_end_matches [CHR ''/''] (''/'' @ join_with ''/'' parts)
         else if prefix = [] then join_with ''/'' parts
         else if parts = [] then prefix
         else prefix @ ''/'' @ join_with ''/'' parts)"

definition path_inside_normalized :: "string \<Rightarrow> string \<Rightarrow> bool" where
  "path_inside_normalized path root =
     (let p = trim_end_matches [CHR ''/''] path; r = trim_end_matches [CHR ''/''] root
      in eq_ignore_ascii_case p r \<or> starts_with (to_ascii_lowercase p) (to_ascii_lowercase r @ ''/''))"

definition target_inside_workspace :: "string \<Rightarrow> safety_context \<Rightarrow> bool" where
  "target_inside_workspace raw ctx =
     (let target = trim_matches [DQUOTE, SQUOTE] (trim raw);
          workspace = normalize_compare_path (sc_workspace_root ctx);
          cwd = normalize_compare_path (sc_cwd ctx)
      in if target = [] \<or> starts_with target ''$'' \<or> starts_with target ''%'' \<or> starts_with target ''~'' then False
         else if workspace = [] then False
         else path_inside_normalized
           (if is_absolute_path_text target then normalize_compare_path target
            else normalize_compare_path (cwd @ ''/'' @ target)) workspace)"

definition deletion_targets_inside_workspace :: "string list \<Rightarrow> safety_context option \<Rightarrow> bool" where
  "deletion_targets_inside_workspace targets context_opt =
     (case context_opt of
        None \<Rightarrow> False
      | Some ctx \<Rightarrow> targets \<noteq> [] \<and> list_all (\<lambda>t. target_inside_workspace t ctx) targets)"

definition targets_system_path :: "string list \<Rightarrow> bool" where
  "targets_system_path args =
     (\<exists>arg\<in>set args. \<not> starts_with arg ''-'' \<and>
        (let trimmed = to_ascii_lowercase (trim_end_matches [CHR ''/'']
               (replace_char BACKSLASH (CHR ''/'') (trim_matches [DQUOTE, SQUOTE] arg)));
             normalized = (if trimmed = [] then ''/'' else trimmed)
         in \<exists>path\<in>set SYSTEM_PATHS. eq_ignore_ascii_case normalized (trim_end_matches [CHR ''/''] path)))"

section \<open>Base commands\<close>

definition check_unix_base :: "string \<Rightarrow> string list \<Rightarrow> safety_context option \<Rightarrow> string option" where
  "check_unix_base base args ctx =
     (if base = ''rm''
      then (if targets_system_path args then Some ''removal targeting a system path''
            else if deletion_targets_inside_workspace (posix_removal_targets args) ctx then None
            else if (short_flag args (CHR ''r'') \<or> long_flag args ''--recursive'') \<or>
                    (short_flag args (CHR ''f'') \<or> long_flag args ''--force'')
            then Some ''recursive/forced file removal (rm)''
            else if is_batch_removal (posix_removal_targets args) then Some ''batch removal outside workspace (rm)''
            else None)
      else if base = ''rmdir'' \<and> targets_system_path args then Some ''rmdir targeting a system path''
      else if base = ''rmdir'' \<and> deletion_targets_inside_workspace (posix_removal_targets args) ctx then None
      else if base = ''rmdir'' \<and> is_batch_removal (posix_removal_targets args)
      then Some ''batch rmdir outside workspace''
      else if base \<in> {''shutdown'', ''reboot'', ''halt'', ''poweroff''}
      then Some (''system power control ('' @ ticked base @ '')'')
      else if base \<in> {''init'', ''telinit''} \<and> (\<exists>a\<in>set args. a = ''0'' \<or> a = ''6'')
      then Some ''runlevel change to halt/reboot''
      else if base = ''dd'' \<and> (\<exists>a\<in>set args. starts_with (to_ascii_lowercase a) ''of=/dev/'')
      then Some ''dd writing directly to a device''
      else if base \<in> {''mkfs'', ''wipefs'', ''fdisk'', ''parted'', ''sgdisk'', ''shred''} \<and>
              (\<exists>a\<in>set args. starts_with a ''/dev/'')
      then Some (''destructive disk operation ('' @ ticked base @ '')'')
      else if base = ''diskutil'' \<and> args \<noteq> [] \<and> hd args \<in> {''eraseDisk'', ''partitionDisk''}
      then Some (''destructive disk operation ('' @ ticked ''diskutil'' @ '')'')
      else if starts_with base ''mkfs.'' then Some ''filesystem creation (mkfs)''
      else if base \<in> {''chmod'', ''chown'', ''chgrp''} \<and>
              (short_flag args (CHR ''R'') \<or> long_flag args ''--recursive'') \<and> targets_system_path args
      then Some (''recursive ownership/permission change on a system path ('' @ ticked base @ '')'')
      else None)"

definition check_cmd_base :: "string \<Rightarrow> string list \<Rightarrow> string \<Rightarrow> safety_context option \<Rightarrow> string option" where
  "check_cmd_base base args segment ctx =
     (if base \<in> {''del'', ''erase''} \<and> targets_system_path args then Some ''cmd delete targeting a system path''
      else if base \<in> {''del'', ''erase''} \<and> deletion_targets_inside_workspace (cmd_removal_targets args) ctx
      then None
      else if base \<in> {''del'', ''erase''} \<and> (\<exists>a\<in>set args. eq_ignore_ascii_case a ''/f'')
      then Some ''forced delete (cmd del /f)''
      else if base \<in> {''rd'', ''rmdir''} \<and> targets_system_path args then Some ''cmd rmdir targeting a system path''
      else if base \<in> {''rd'', ''rmdir''} \<and> deletion_targets_inside_workspace (cmd_removal_targets args) ctx
      then None
      else if base \<in> {''rd'', ''rmdir''} \<and>
              (\<exists>a\<in>set args. eq_ignore_ascii_case a ''/s'' \<or> eq_ignore_ascii_case a ''/q'')
      then Some ''recursive directory removal (cmd rd /s)''
      else if base = ''format'' \<and> CHR '':'' \<in> set (to_ascii_lowercase segment)
      then Some ''drive format (cmd format)''
      else None)"

definition check_windows_base :: "string \<Rightarrow> string list \<Rightarrow> string \<Rightarrow> safety_context option \<Rightarrow> string option" where
  "check_windows_base base args segment ctx =
     (let lower = to_ascii_lowercase segment; targets = powershell_removal_targets args
      in if base \<in> {''remove-item'', ''ri'', ''rd'', ''rmdir'', ''del'', ''erase''}
         then (if targets_system_path args then Some (''removal targeting a system path ('' @ ticked base @ '')'')
               else if deletion_targets_inside_workspace targets ctx then None
               else if \<exists>a\<in>set args. is_powershell_flag a ''force'' \<or> is_powershell_flag a ''recurse''
               then Some (''forced/recursive removal ('' @ ticked base @ '')'')
               else if is_batch_removal targets
               then Some (''batch removal outside workspace ('' @ ticked base @ '')'')
               else None)
         else if base \<in> {''invoke-expression'', ''iex''}
         then (if \<exists>w\<in>set [''downloadstring'', ''invoke-webrequest'', ''iwr'', ''invoke-restmethod'',
                    ''http://'', ''https://'']. contains lower w
               then Some ''remote download piped into Invoke-Expression'' else None)
         else if base \<in> {''format-volume'', ''clear-disk'', ''remove-partition'', ''initialize-disk'',
                    ''remove-volume'', ''diskpart''}
         then Some (''destructive disk cmdlet ('' @ ticked base @ '')'')
         else None)"

definition check_base :: "string \<Rightarrow> string list \<Rightarrow> string \<Rightarrow> safety_context option \<Rightarrow> string option" where
  "check_base base args segment ctx =
     (case check_unix_base base args ctx of
        Some reason \<Rightarrow> Some reason
      | None \<Rightarrow> (case check_cmd_base base args segment ctx of
          Some reason \<Rightarrow> Some reason
        | None \<Rightarrow> check_windows_base base args segment ctx))"

end
