(* ===== verification/Command_Scan.thy ===== *)
theory Command_Scan
  imports Command_Safety
begin

text \<open>
  The scan of the command interceptor: shell variables, the checks of one segment and the recursive scan
  (\<open>tools/src/commands/command_safety.rs\<close>).
\<close>

section \<open>Shell variables\<close>

text \<open>A \<open>HashMap\<close> of variables, the newest binding first.\<close>

type_synonym shell_vars = "(string \<times> string) list"

definition declaration_words :: "string list \<Rightarrow> string list" where
  "declaration_words tokens =
     (if base_name (hd tokens) \<in> {''export'', ''readonly'', ''typeset'', ''local'', ''declare''}
      then tl tokens else tokens)"

definition bind_word :: "string \<Rightarrow> shell_vars \<Rightarrow> shell_vars" where
  "bind_word token vars =
     (case split_once (CHR ''='') token of
        Some (name, val) \<Rightarrow>
          if name \<noteq> [] \<and> list_all name_char name \<and> trim val \<noteq> [] then (name, trim val) # vars else vars
      | None \<Rightarrow> vars)"

definition bind_segment :: "string \<Rightarrow> shell_vars \<Rightarrow> shell_vars" where
  "bind_segment segment vars =
     (case tokenize (trim segment) of
        None \<Rightarrow> vars
      | Some tokens \<Rightarrow>
          if tokens = [] then vars
          else let words = declaration_words tokens
               in if words = [] \<or> \<not> list_all is_assignment words then vars else fold bind_word words vars)"

definition collect_shell_variable_assignments :: "string list \<Rightarrow> shell_vars" where
  "collect_shell_variable_assignments segments = fold bind_segment segments []"

definition shell_variable_name :: "string \<Rightarrow> bool" where
  "shell_variable_name s = (s \<noteq> [] \<and> list_all name_char s)"

definition shell_variable_reference :: "string \<Rightarrow> string option" where
  "shell_variable_reference token =
     (case strip_prefix ''$'' token of
        None \<Rightarrow> None
      | Some rest \<Rightarrow>
          (case strip_prefix ''{'' rest of
             Some braced \<Rightarrow>
               (case strip_suffix ''}'' braced of
                  None \<Rightarrow> None
                | Some name \<Rightarrow> if shell_variable_name name then Some name else None)
           | None \<Rightarrow> if shell_variable_name rest then Some rest else None))"

definition variable_value :: "shell_vars \<Rightarrow> string \<Rightarrow> string option" where
  "variable_value vars token = Option.bind (shell_variable_reference token) (map_of vars)"

definition expand_shell_variable_arguments :: "string list \<Rightarrow> shell_vars \<Rightarrow> string list option" where
  "expand_shell_variable_arguments tokens vars =
     (if list_ex (\<lambda>token. variable_value vars token \<noteq> None) tokens
      then Some (map (\<lambda>token. case variable_value vars token of Some val \<Rightarrow> val | None \<Rightarrow> token) tokens)
      else None)"

section \<open>The checks of a segment\<close>

definition check_variable_indirection :: "string \<Rightarrow> shell_vars \<Rightarrow> (string \<Rightarrow> verdict) \<Rightarrow> verdict" where
  "check_variable_indirection segment vars scan_next =
     (if vars = [] then pass
      else case tokenize segment of
        None \<Rightarrow> pass
      | Some words \<Rightarrow>
          if words = [] then pass
          else (case strip_wrappers words of
             [] \<Rightarrow> pass
           | first # args \<Rightarrow>
               (case shell_variable_reference first of
                  None \<Rightarrow> pass
                | Some var \<Rightarrow>
                    (case map_of vars var of
                       None \<Rightarrow> pass
                     | Some val \<Rightarrow>
                         let plain = val # args;
                             expanded = (case expand_shell_variable_arguments plain vars of
                                           Some ts \<Rightarrow> ts | None \<Rightarrow> plain)
                         in map_reason (\<lambda>reason. reason @ '' via shell variable '' @ ticked (''$'' @ var) @
                              '' indirection'') (scan_next (join_with '' '' expanded))))))"

definition check_argument_variable_expansion :: "string \<Rightarrow> shell_vars \<Rightarrow> (string \<Rightarrow> verdict) \<Rightarrow> verdict" where
  "check_argument_variable_expansion segment vars scan_next =
     (if vars = [] then pass
      else case tokenize segment of
        None \<Rightarrow> pass
      | Some words \<Rightarrow>
          (case expand_shell_variable_arguments (strip_wrappers words) vars of
             None \<Rightarrow> pass
           | Some expanded \<Rightarrow>
               map_reason (\<lambda>reason. reason @ '' via shell variable argument'')
                 (scan_next (join_with '' '' expanded))))"

text \<open>The nested check runs the two others one level deeper, so \<open>scan_after\<close> is the scan two levels down.\<close>

definition check_nested_variable_indirection :: "string \<Rightarrow> shell_vars \<Rightarrow> (string \<Rightarrow> verdict) \<Rightarrow> verdict" where
  "check_nested_variable_indirection segment vars scan_after =
     (if vars = [] then pass
      else case tokenize segment of
        None \<Rightarrow> pass
      | Some words \<Rightarrow>
          (case strip_wrappers words of
             [] \<Rightarrow> pass
           | first # args \<Rightarrow>
               if base_name first = ''eval''
               then orelse (check_variable_indirection (join_with '' '' args) vars scan_after)
                      (check_argument_variable_expansion (join_with '' '' args) vars scan_after)
               else if base_name first \<in> set NESTED_SHELLS
               then (case nested_shell_script args of
                       None \<Rightarrow> pass
                     | Some script \<Rightarrow>
                         orelse (check_variable_indirection script vars scan_after)
                           (check_argument_variable_expansion script vars scan_after))
               else pass))"

definition check_segment :: "string \<Rightarrow> (string \<Rightarrow> verdict) \<Rightarrow> safety_context option \<Rightarrow> verdict" where
  "check_segment segment scan_next ctx =
     (case redirect_to_block_device segment of
        Some device \<Rightarrow> refuse (''redirect overwrites block device '' @ ticked device)
      | None \<Rightarrow>
          (case tokenize segment of
             None \<Rightarrow> pass
           | Some [] \<Rightarrow> pass
           | Some (word # words) \<Rightarrow>
               if base_name word = ''eval'' then scan_next (join_with '' '' words)
               else (case strip_wrappers (word # words) of
                  [] \<Rightarrow> pass
                | first # args \<Rightarrow>
                    let base = base_name first
                    in case (if base \<in> set NESTED_SHELLS then nested_shell_script args else None) of
                         Some script \<Rightarrow> scan_next script
                       | None \<Rightarrow>
                           (case (if base = ''cmd'' then nested_cmd_script args else None) of
                              Some script \<Rightarrow> scan_next script
                            | None \<Rightarrow>
                                if base \<in> set POWERSHELL_SHELLS \<and> has_encoded_powershell_command args
                                then refuse ''encoded PowerShell command''
                                else (case (if base \<in> set POWERSHELL_SHELLS then nested_powershell_script args
                                            else None) of
                                        Some script \<Rightarrow> scan_next script
                                      | None \<Rightarrow> Inr (check_base base args segment ctx))))))"

section \<open>The scan\<close>

definition scan_segment ::
  "shell_vars \<Rightarrow> (string \<Rightarrow> verdict) \<Rightarrow> (string \<Rightarrow> verdict) \<Rightarrow> safety_context option \<Rightarrow> string \<Rightarrow> verdict" where
  "scan_segment vars scan_next scan_after ctx raw =
     (let segment = trim raw
      in if segment = [] then pass
         else orelse (check_variable_indirection segment vars scan_next)
             (orelse (check_nested_variable_indirection segment vars scan_after)
             (orelse (check_argument_variable_expansion segment vars scan_next)
               (check_segment segment scan_next ctx))))"

definition scan_body ::
  "(string \<Rightarrow> verdict) \<Rightarrow> (string \<Rightarrow> verdict) \<Rightarrow> safety_context option \<Rightarrow> string \<Rightarrow> verdict" where
  "scan_body scan_next scan_after ctx command =
     (if is_fork_bomb command then refuse ''fork bomb pattern''
      else orelse (Inr (download_pipe_to_shell command))
          (orelse (Inr (decoder_pipe_to_shell command))
          (let segments = split_segments command;
               vars = collect_shell_variable_assignments segments
           in orelse (first_danger (scan_segment vars scan_next scan_after ctx) segments)
             (orelse (first_danger scan_next (extract_substitutions command))
               (and_then (extract_library_shell_commands command)
                 (\<lambda>inners. map_reason (\<lambda>reason. reason @ '' smuggled through a library exec call'')
                    (first_danger scan_next inners)))))))"

text \<open>The number of levels left: a scan at depth \<open>d\<close> has \<open>9 - d\<close>, and one at a depth over 8 returns at once.\<close>

fun scan_levels :: "nat \<Rightarrow> safety_context option \<Rightarrow> string \<Rightarrow> verdict" where
  "scan_levels 0 ctx command = pass"
| "scan_levels (Suc n) ctx command =
     scan_body (scan_levels n ctx) (scan_levels (n - 1) ctx) ctx command"

definition scan :: "string \<Rightarrow> nat \<Rightarrow> safety_context option \<Rightarrow> verdict" where
  "scan command depth ctx = scan_levels (9 - depth) ctx command"

definition interceptor_disabled :: "string option \<Rightarrow> bool" where
  "interceptor_disabled env_var =
     (case env_var of
        None \<Rightarrow> False
      | Some val \<Rightarrow> to_ascii_lowercase (trim val) \<in> {''1'', ''true'', ''yes'', ''on''})"

definition is_dangerous_command :: "string option \<Rightarrow> string \<Rightarrow> verdict" where
  "is_dangerous_command env_var command =
     (if interceptor_disabled env_var \<or> trim command = [] then pass else scan (trim command) 0 None)"

definition is_dangerous_command_with_workspace ::
  "string option \<Rightarrow> string \<Rightarrow> safety_context \<Rightarrow> verdict" where
  "is_dangerous_command_with_workspace env_var command ctx =
     (if interceptor_disabled env_var \<or> trim command = [] then pass else scan (trim command) 0 (Some ctx))"

end
