(* ===== verification/Command_Scan_Facts.thy ===== *)
theory Command_Scan_Facts
  imports Command_Scan
begin

text \<open>
  What the scan of the interceptor looks at, as rules: \<open>runs\<close> says which texts a command hands to a shell,
  \<open>overt\<close> which commands are dangerous as they stand, and \<open>danger\<close> that a dangerous text is reached within a
  number of levels. The scan refuses exactly the dangerous commands: \<open>scan_faithful\<close>.
\<close>

section \<open>Verdicts\<close>

lemma orelse_pass [simp]: "orelse v w = pass \<longleftrightarrow> v = pass \<and> w = pass"
  by (cases v) (auto simp: orelse_def split: option.splits)

lemma orelse_refuse [simp]:
  "orelse v w = refuse r \<longleftrightarrow> v = refuse r \<or> v = pass \<and> w = refuse r"
  by (cases v) (auto simp: orelse_def split: option.splits)

lemma map_reason_pass [simp]: "map_reason h v = pass \<longleftrightarrow> v = pass"
  by (cases v) (auto simp: map_reason_def)

lemma map_reason_refuse: "map_reason h v = refuse r \<Longrightarrow> \<exists>q. v = refuse q"
  by (cases v) (auto simp: map_reason_def)

lemma first_danger_pass [simp]: "first_danger f xs = pass \<longleftrightarrow> (\<forall>x\<in>set xs. f x = pass)"
  by (induction xs) auto

lemma first_danger_refuse: "first_danger f xs = refuse r \<Longrightarrow> \<exists>x\<in>set xs. f x = refuse r"
  by (induction xs) auto

section \<open>What a command runs\<close>

definition segment_of :: "string \<Rightarrow> string \<Rightarrow> bool" where
  "segment_of command segment \<longleftrightarrow> segment \<noteq> [] \<and> (\<exists>raw\<in>set (split_segments command). segment = trim raw)"

definition variables_of :: "string \<Rightarrow> shell_vars" where
  "variables_of command = collect_shell_variable_assignments (split_segments command)"

definition script_of :: "string \<Rightarrow> string list \<Rightarrow> string option" where
  "script_of base args =
     (if base \<in> set NESTED_SHELLS then nested_shell_script args
      else if base = ''cmd'' then nested_cmd_script args
      else if base \<in> set POWERSHELL_SHELLS then nested_powershell_script args
      else None)"

definition expand_word :: "shell_vars \<Rightarrow> string \<Rightarrow> string" where
  "expand_word vars token = (case variable_value vars token of Some val \<Rightarrow> val | None \<Rightarrow> token)"

text \<open>A text with its shell variables replaced: the variable is the command itself, or one of the words.\<close>

inductive expands :: "shell_vars \<Rightarrow> string \<Rightarrow> string \<Rightarrow> bool" for vars where
  expands_command: "\<lbrakk>tokenize text = Some words; strip_wrappers words = first # args;
     shell_variable_reference first = Some var; map_of vars var = Some val\<rbrakk>
     \<Longrightarrow> expands vars text (join_with '' '' (map (expand_word vars) (val # args)))"
| expands_argument: "\<lbrakk>tokenize text = Some words; token \<in> set (strip_wrappers words);
     variable_value vars token \<noteq> None\<rbrakk>
     \<Longrightarrow> expands vars text (join_with '' '' (map (expand_word vars) (strip_wrappers words)))"

text \<open>\<open>runs command levels text\<close>: a shell that is given \<open>command\<close> is handed \<open>text\<close>, that many levels down.\<close>

inductive runs :: "string \<Rightarrow> nat \<Rightarrow> string \<Rightarrow> bool" for command where
  runs_substitution: "body \<in> set (extract_substitutions command) \<Longrightarrow> runs command 1 body"
| runs_library: "\<lbrakk>extract_library_shell_commands command = Inr inners; inner \<in> set inners\<rbrakk>
     \<Longrightarrow> runs command 1 inner"
| runs_eval: "\<lbrakk>segment_of command segment; tokenize segment = Some (word # words); base_name word = ''eval''\<rbrakk>
     \<Longrightarrow> runs command 1 (join_with '' '' words)"
| runs_script: "\<lbrakk>segment_of command segment; tokenize segment = Some (word # words); base_name word \<noteq> ''eval'';
     strip_wrappers (word # words) = first # args; script_of (base_name first) args = Some script\<rbrakk>
     \<Longrightarrow> runs command 1 script"
| runs_variable: "\<lbrakk>segment_of command segment; expands (variables_of command) segment text\<rbrakk>
     \<Longrightarrow> runs command 1 text"
| runs_eval_variable: "\<lbrakk>segment_of command segment; tokenize segment = Some words;
     strip_wrappers words = first # args; base_name first = ''eval'';
     expands (variables_of command) (join_with '' '' args) text\<rbrakk>
     \<Longrightarrow> runs command 2 text"
| runs_script_variable: "\<lbrakk>segment_of command segment; tokenize segment = Some words;
     strip_wrappers words = first # args; base_name first \<in> set NESTED_SHELLS;
     nested_shell_script args = Some script; expands (variables_of command) script text\<rbrakk>
     \<Longrightarrow> runs command 2 text"

text \<open>The commands that are dangerous as they stand.\<close>

inductive overt_segment :: "safety_context option \<Rightarrow> string \<Rightarrow> bool" for ctx where
  overt_redirect: "redirect_to_block_device segment = Some device \<Longrightarrow> overt_segment ctx segment"
| overt_encoded: "\<lbrakk>tokenize segment = Some (word # words); base_name word \<noteq> ''eval'';
     strip_wrappers (word # words) = first # args; base_name first \<in> set POWERSHELL_SHELLS;
     has_encoded_powershell_command args\<rbrakk> \<Longrightarrow> overt_segment ctx segment"
| overt_base: "\<lbrakk>tokenize segment = Some (word # words); base_name word \<noteq> ''eval'';
     strip_wrappers (word # words) = first # args; script_of (base_name first) args = None;
     check_base (base_name first) args segment ctx = Some reason\<rbrakk> \<Longrightarrow> overt_segment ctx segment"

definition overt :: "safety_context option \<Rightarrow> string \<Rightarrow> bool" where
  "overt ctx command \<longleftrightarrow>
     is_fork_bomb command \<or> download_pipe_to_shell command \<noteq> None \<or> decoder_pipe_to_shell command \<noteq> None \<or>
     (\<exists>segment. segment_of command segment \<and> overt_segment ctx segment)"

inductive danger :: "safety_context option \<Rightarrow> nat \<Rightarrow> string \<Rightarrow> bool" for ctx where
  danger_overt: "overt ctx command \<Longrightarrow> danger ctx (Suc n) command"
| danger_runs: "\<lbrakk>runs command levels text; danger ctx (Suc n - levels) text\<rbrakk> \<Longrightarrow> danger ctx (Suc n) command"

inductive_cases danger_zeroE: "danger ctx 0 command"
inductive_cases danger_SucE: "danger ctx (Suc n) command"

lemma runs_deeper: "runs command levels t \<Longrightarrow> 0 < levels"
  by (induction rule: runs.induct) simp_all

lemma danger_one: "danger ctx (Suc 0) command \<Longrightarrow> overt ctx command"
proof (erule danger_SucE)
  fix levels inner
  assume "runs command levels inner" "danger ctx (Suc 0 - levels) inner"
  then have "danger ctx 0 inner" using runs_deeper by fastforce
  then show ?thesis by (rule danger_zeroE)
qed

lemma danger_mono: "danger ctx n command \<Longrightarrow> n \<le> m \<Longrightarrow> danger ctx m command"
proof (induction arbitrary: m rule: danger.induct)
  case (danger_overt command n)
  then show ?case by (cases m) (auto intro: danger.danger_overt)
next
  case (danger_runs command levels inner n)
  then obtain k where m: "m = Suc k" by (cases m) auto
  with danger_runs have "danger ctx (Suc k - levels) inner" by simp
  with danger_runs m show ?case by (auto intro: danger.danger_runs)
qed

section \<open>The check of a segment\<close>

lemma shells_disjoint:
  "base \<in> set POWERSHELL_SHELLS \<Longrightarrow> base \<notin> set NESTED_SHELLS" "base = ''cmd'' \<Longrightarrow> base \<notin> set NESTED_SHELLS"
  "base = ''cmd'' \<Longrightarrow> base \<notin> set POWERSHELL_SHELLS"
  by (auto simp: POWERSHELL_SHELLS_def NESTED_SHELLS_def)

lemma check_segment_redirect:
  "redirect_to_block_device segment = Some device \<Longrightarrow>
   check_segment segment decide ctx = refuse (''redirect overwrites block device '' @ ticked device)"
  by (simp add: check_segment_def)

lemma check_segment_eval:
  "redirect_to_block_device segment = None \<Longrightarrow> tokenize segment = Some (word # words) \<Longrightarrow>
   base_name word = ''eval'' \<Longrightarrow> check_segment segment decide ctx = decide (join_with '' '' words)"
  by (simp add: check_segment_def)

lemma check_segment_words:
  assumes "redirect_to_block_device segment = None" "tokenize segment = Some (word # words)"
    and "base_name word \<noteq> ''eval''" "strip_wrappers (word # words) = first # args"
  shows "check_segment segment decide ctx =
    (if base_name first \<in> set POWERSHELL_SHELLS \<and> has_encoded_powershell_command args
     then refuse ''encoded PowerShell command''
     else case script_of (base_name first) args of
       Some script \<Rightarrow> decide script
     | None \<Rightarrow> Inr (check_base (base_name first) args segment ctx))"
proof -
  define base where "base = base_name first"
  consider "base \<in> set NESTED_SHELLS" "base \<notin> set POWERSHELL_SHELLS" "base \<noteq> ''cmd''"
    | "base = ''cmd''" "base \<notin> set NESTED_SHELLS" "base \<notin> set POWERSHELL_SHELLS"
    | "base \<notin> set NESTED_SHELLS" "base \<noteq> ''cmd''"
    using shells_disjoint [of base] by blast
  then show ?thesis
    by cases (simp_all add: check_segment_def script_of_def assms base_def [symmetric] Let_def
      split del: if_split split: option.split, auto simp: base_def split: option.split)
qed

lemma check_segment_cases:
  obtains (redirect) device where "redirect_to_block_device segment = Some device"
  | (silent) "\<And>decide. check_segment segment decide ctx = pass" "\<not> overt_segment ctx segment"
      "\<And>word words first args. tokenize segment = Some (word # words) \<Longrightarrow> base_name word \<noteq> ''eval'' \<and>
         strip_wrappers (word # words) \<noteq> first # args"
  | (eval) word words where "redirect_to_block_device segment = None"
      "tokenize segment = Some (word # words)" "base_name word = ''eval''"
  | (words) word words first args where "redirect_to_block_device segment = None"
      "tokenize segment = Some (word # words)" "base_name word \<noteq> ''eval''"
      "strip_wrappers (word # words) = first # args"
proof (cases "redirect_to_block_device segment")
  case None
  show ?thesis
  proof (cases "\<exists>word words. tokenize segment = Some (word # words)")
    case True
    then obtain word words where t: "tokenize segment = Some (word # words)" by blast
    show ?thesis
    proof (cases "strip_wrappers (word # words)")
      case Nil
      show ?thesis
      proof (cases "base_name word = ''eval''")
        case False
        show ?thesis
          by (rule silent) (use None t Nil False in \<open>auto simp: check_segment_def overt_segment.simps\<close>)
      qed (rule eval [OF None t])
    qed (use None t eval words in blast)
  next
    case False
    then have "tokenize segment = None \<or> tokenize segment = Some []"
      by (metis neq_Nil_conv option.exhaust)
    then show ?thesis
      by (intro silent) (use None False in \<open>auto simp: check_segment_def overt_segment.simps\<close>)
  qed
qed (rule redirect)

section \<open>Faithful scans\<close>

text \<open>
  A procedure that decides a property of texts when it returns. The recursive calls of the scan are faithful to
  the danger at their level, and each check of a segment is then faithful to its rule.
\<close>

locale faithful =
  fixes decide :: "string \<Rightarrow> verdict" and bad :: "string \<Rightarrow> bool"
  assumes passed: "decide t = pass \<Longrightarrow> \<not> bad t"
    and refused: "decide t = refuse r \<Longrightarrow> bad t"
begin

lemma expansion_applied:
  "(case expand_shell_variable_arguments ts vars of Some us \<Rightarrow> us | None \<Rightarrow> ts) = map (expand_word vars) ts"
proof (cases "\<exists>token\<in>set ts. variable_value vars token \<noteq> None")
  case True
  then have "list_ex (\<lambda>token. variable_value vars token \<noteq> None) ts" by (simp add: list_ex_iff)
  then show ?thesis by (auto simp: expand_shell_variable_arguments_def expand_word_def)
next
  case False
  then have "\<not> list_ex (\<lambda>token. variable_value vars token \<noteq> None) ts" by (auto simp: list_ex_iff)
  with False show ?thesis
    by (auto simp: expand_shell_variable_arguments_def expand_word_def intro!: map_idI [symmetric])
qed

lemma command_variable_passed:
  assumes "check_variable_indirection text vars decide = pass"
    and "tokenize text = Some words" "strip_wrappers words = first # args"
    and "shell_variable_reference first = Some var" "map_of vars var = Some val"
  shows "\<not> bad (join_with '' '' (map (expand_word vars) (val # args)))"
proof -
  from assms(3) have "words \<noteq> []" by (auto simp: strip_wrappers.simps)
  moreover from assms(5) have "vars \<noteq> []" by auto
  ultimately have "decide (join_with '' '' (map (expand_word vars) (val # args))) = pass"
    using assms unfolding expansion_applied [symmetric]
    by (simp add: check_variable_indirection_def Let_def)
  then show ?thesis by (rule passed)
qed

lemma argument_variable_passed:
  assumes "check_argument_variable_expansion text vars decide = pass"
    and "tokenize text = Some words" "token \<in> set (strip_wrappers words)" "variable_value vars token \<noteq> None"
  shows "\<not> bad (join_with '' '' (map (expand_word vars) (strip_wrappers words)))"
proof -
  from assms(4) have "vars \<noteq> []" by (auto simp: variable_value_def bind_eq_Some_conv)
  moreover from assms(3,4) have "expand_shell_variable_arguments (strip_wrappers words) vars =
      Some (map (expand_word vars) (strip_wrappers words))"
    by (auto simp: expand_shell_variable_arguments_def expand_word_def list_ex_iff)
  ultimately have "decide (join_with '' '' (map (expand_word vars) (strip_wrappers words))) = pass"
    using assms(1,2) by (simp add: check_argument_variable_expansion_def)
  then show ?thesis by (rule passed)
qed

lemma variables_passed:
  assumes "check_variable_indirection text vars decide = pass"
    and "check_argument_variable_expansion text vars decide = pass" and "expands vars text t"
  shows "\<not> bad t"
  using assms(3)
  by cases (use assms command_variable_passed argument_variable_passed in blast)+

lemma command_variable_refused:
  assumes "check_variable_indirection text vars decide = refuse r"
  shows "\<exists>t. expands vars text t \<and> bad t"
proof -
  from assms obtain words where w: "tokenize text = Some words" "words \<noteq> []"
    by (auto simp: check_variable_indirection_def split: if_splits option.splits)
  with assms obtain first args var val where
    s: "strip_wrappers words = first # args" "shell_variable_reference first = Some var" "map_of vars var = Some val"
    by (auto simp: check_variable_indirection_def split: if_splits list.splits option.splits)
  with assms w have "\<exists>q. decide (join_with '' '' (map (expand_word vars) (val # args))) = refuse q"
    unfolding expansion_applied [symmetric]
    by (auto simp: check_variable_indirection_def Let_def dest: map_reason_refuse split: if_splits)
  with expands_command [OF w(1) s] show ?thesis using refused by blast
qed

lemma argument_variable_refused:
  assumes "check_argument_variable_expansion text vars decide = refuse r"
  shows "\<exists>t. expands vars text t \<and> bad t"
proof -
  from assms obtain words ts where w: "tokenize text = Some words"
    and e: "expand_shell_variable_arguments (strip_wrappers words) vars = Some ts"
    and d: "\<exists>q. decide (join_with '' '' ts) = refuse q"
    by (auto simp: check_argument_variable_expansion_def dest: map_reason_refuse split: if_splits option.splits)
  from e obtain token where "token \<in> set (strip_wrappers words)" "variable_value vars token \<noteq> None"
    by (auto simp: expand_shell_variable_arguments_def list_ex_iff split: if_splits)
  from expands_argument [OF w this] d refused e show ?thesis
    using expansion_applied [of "strip_wrappers words" vars] by auto
qed

lemma segment_passed_overt:
  assumes "check_segment segment decide ctx = pass"
  shows "\<not> overt_segment ctx segment"
proof (cases rule: check_segment_cases [where segment = segment and ctx = ctx])
  case (redirect device)
  with assms show ?thesis by (simp add: check_segment_redirect)
next
  case (eval word words)
  then show ?thesis by (auto simp: overt_segment.simps)
next
  case (words word words first args)
  with assms show ?thesis
    by (auto simp: overt_segment.simps check_segment_words split: if_splits option.splits)
qed

lemma segment_passed_eval:
  assumes "check_segment segment decide ctx = pass"
    and "tokenize segment = Some (word # words)" "base_name word = ''eval''"
  shows "\<not> bad (join_with '' '' words)"
  using assms
  by (cases "redirect_to_block_device segment") (auto simp: check_segment_redirect check_segment_eval dest: passed)

lemma segment_passed_script:
  assumes "check_segment segment decide ctx = pass"
    and "tokenize segment = Some (word # words)" "base_name word \<noteq> ''eval''"
    and "strip_wrappers (word # words) = first # args" "script_of (base_name first) args = Some script"
  shows "\<not> bad script"
  using assms
  by (cases "redirect_to_block_device segment")
    (auto simp: check_segment_redirect check_segment_words dest: passed split: if_splits)

lemma segment_refused:
  assumes "check_segment segment decide ctx = refuse r"
  shows "overt_segment ctx segment \<or>
    (\<exists>word words. tokenize segment = Some (word # words) \<and> base_name word = ''eval'' \<and>
       bad (join_with '' '' words)) \<or>
    (\<exists>word words first args script. tokenize segment = Some (word # words) \<and> base_name word \<noteq> ''eval'' \<and>
       strip_wrappers (word # words) = first # args \<and> script_of (base_name first) args = Some script \<and> bad script)"
proof (cases rule: check_segment_cases [where segment = segment and ctx = ctx])
  case (redirect device)
  then show ?thesis by (blast intro: overt_redirect)
next
  case (eval word words)
  with assms refused show ?thesis by (auto simp: check_segment_eval)
next
  case (words word words first args)
  show ?thesis
  proof (cases "script_of (base_name first) args")
    case None
    with assms words show ?thesis
      by (auto simp: check_segment_words split: if_splits intro: overt_encoded overt_base)
  next
    case (Some script)
    with assms words refused show ?thesis
      by (auto simp: check_segment_words split: if_splits intro: overt_encoded)
  qed
qed (use assms in simp)

end

text \<open>The two recursive calls of one scan: at the next level, and at the one after it.\<close>

locale two_levels = near: faithful decide bad + far: faithful decide_after bad_after
  for decide bad decide_after bad_after
begin

lemma nested_variables_passed:
  assumes "check_nested_variable_indirection segment vars decide_after = pass"
    and "tokenize segment = Some words" "strip_wrappers words = first # args"
    and "base_name first = ''eval'' \<and> t = join_with '' '' args \<or>
      base_name first \<noteq> ''eval'' \<and> base_name first \<in> set NESTED_SHELLS \<and> nested_shell_script args = Some t"
    and "expands vars t u"
  shows "\<not> bad_after u"
proof -
  from assms(5) have "vars \<noteq> []"
    by cases (auto simp: variable_value_def bind_eq_Some_conv)
  with assms have "check_variable_indirection t vars decide_after = pass"
    "check_argument_variable_expansion t vars decide_after = pass"
    by (auto simp: check_nested_variable_indirection_def)
  then show ?thesis using assms(5) far.variables_passed by blast
qed

lemma nested_variables_refused:
  assumes "check_nested_variable_indirection segment vars decide_after = refuse r"
  shows "\<exists>words first args t u. tokenize segment = Some words \<and> strip_wrappers words = first # args \<and>
    (base_name first = ''eval'' \<and> t = join_with '' '' args \<or>
     base_name first \<in> set NESTED_SHELLS \<and> nested_shell_script args = Some t) \<and>
    expands vars t u \<and> bad_after u"
proof -
  from assms obtain words first args where w: "tokenize segment = Some words" "strip_wrappers words = first # args"
    by (auto simp: check_nested_variable_indirection_def split: if_splits option.splits list.splits)
  with assms obtain t where t: "base_name first = ''eval'' \<and> t = join_with '' '' args \<or>
      base_name first \<in> set NESTED_SHELLS \<and> nested_shell_script args = Some t"
    and c: "check_variable_indirection t vars decide_after = refuse r \<or>
      check_argument_variable_expansion t vars decide_after = refuse r"
    by (auto simp: check_nested_variable_indirection_def split: if_splits option.splits)
  from c obtain u where "expands vars t u" "bad_after u"
    using far.command_variable_refused far.argument_variable_refused by blast
  with w t show ?thesis by blast
qed

lemma scan_segment_passed:
  assumes "scan_segment vars decide decide_after ctx raw = pass" "segment = trim raw" "segment \<noteq> []"
  shows "check_variable_indirection segment vars decide = pass"
    and "check_nested_variable_indirection segment vars decide_after = pass"
    and "check_argument_variable_expansion segment vars decide = pass"
    and "check_segment segment decide ctx = pass"
  using assms by (simp_all add: scan_segment_def Let_def)

lemma body_passed_segment:
  assumes "scan_body decide decide_after ctx command = pass" "segment_of command segment"
  shows "check_variable_indirection segment (variables_of command) decide = pass"
    and "check_nested_variable_indirection segment (variables_of command) decide_after = pass"
    and "check_argument_variable_expansion segment (variables_of command) decide = pass"
    and "check_segment segment decide ctx = pass"
proof -
  from assms obtain raw where "segment = trim raw" "segment \<noteq> []"
    "scan_segment (variables_of command) decide decide_after ctx raw = pass"
    by (auto simp: scan_body_def segment_of_def variables_of_def Let_def split: if_splits)
  note scan_segment_passed [OF this(3,1,2)]
  then show "check_variable_indirection segment (variables_of command) decide = pass"
    "check_nested_variable_indirection segment (variables_of command) decide_after = pass"
    "check_argument_variable_expansion segment (variables_of command) decide = pass"
    "check_segment segment decide ctx = pass" by simp_all
qed

lemma body_passed_overt:
  assumes "scan_body decide decide_after ctx command = pass"
  shows "\<not> overt ctx command"
proof -
  have "\<not> overt_segment ctx segment" if "segment_of command segment" for segment
    using near.segment_passed_overt body_passed_segment(4) [OF assms that] by blast
  with assms show ?thesis by (auto simp: overt_def scan_body_def split: if_splits)
qed

lemma body_passed_runs:
  assumes "scan_body decide decide_after ctx command = pass" "runs command levels t"
  shows "levels = 1 \<and> \<not> bad t \<or> levels = 2 \<and> \<not> bad_after t"
  using assms(2)
proof cases
  case runs_substitution
  with assms(1) have "decide t = pass" by (auto simp: scan_body_def Let_def split: if_splits)
  with runs_substitution show ?thesis using near.passed by blast
next
  case (runs_library inners)
  with assms(1) have "decide t = pass" by (auto simp: scan_body_def Let_def split: if_splits)
  with runs_library show ?thesis using near.passed by blast
next
  case (runs_eval segment word words)
  with near.segment_passed_eval [OF body_passed_segment(4) [OF assms(1) runs_eval(3)]] show ?thesis by blast
next
  case (runs_script segment word words first args)
  with near.segment_passed_script [OF body_passed_segment(4) [OF assms(1) runs_script(2)]] show ?thesis by blast
next
  case (runs_variable segment)
  with near.variables_passed body_passed_segment(1,3) [OF assms(1) runs_variable(2)] show ?thesis by blast
next
  case (runs_eval_variable segment words first args)
  with nested_variables_passed [OF body_passed_segment(2) [OF assms(1) runs_eval_variable(2)]] show ?thesis by blast
next
  case (runs_script_variable segment words first args script)
  then have "base_name first \<noteq> ''eval''" by (auto simp: NESTED_SHELLS_def)
  with runs_script_variable nested_variables_passed [OF body_passed_segment(2) [OF assms(1) runs_script_variable(2)]]
  show ?thesis by blast
qed

lemma segment_refused_runs:
  assumes "scan_segment (variables_of command) decide decide_after ctx raw = refuse r"
    and "raw \<in> set (split_segments command)"
  shows "overt ctx command \<or> (\<exists>t. runs command 1 t \<and> bad t) \<or> (\<exists>t. runs command 2 t \<and> bad_after t)"
proof -
  define segment where "segment = trim raw"
  with assms have s: "segment_of command segment"
    by (auto simp: scan_segment_def segment_of_def Let_def split: if_splits)
  from assms(1) consider
    (var) "check_variable_indirection segment (variables_of command) decide = refuse r"
  | (nested) "check_nested_variable_indirection segment (variables_of command) decide_after = refuse r"
  | (arg) "check_argument_variable_expansion segment (variables_of command) decide = refuse r"
  | (seg) "check_segment segment decide ctx = refuse r"
    by (auto simp: scan_segment_def Let_def segment_def split: if_splits)
  then show ?thesis
  proof cases
    case var
    then show ?thesis using near.command_variable_refused runs_variable [OF s] by blast
  next
    case arg
    then show ?thesis using near.argument_variable_refused runs_variable [OF s] by blast
  next
    case nested
    then show ?thesis
      using nested_variables_refused runs_eval_variable [OF s] runs_script_variable [OF s] by metis
  next
    case seg
    from near.segment_refused [OF this] show ?thesis
      using s runs_eval [OF s] runs_script [OF s] by (auto simp: overt_def)
  qed
qed

lemma body_refused:
  assumes "scan_body decide decide_after ctx command = refuse r"
  shows "overt ctx command \<or> (\<exists>t. runs command 1 t \<and> bad t) \<or> (\<exists>t. runs command 2 t \<and> bad_after t)"
proof -
  from assms consider (overt) "overt ctx command"
    | (segment) "first_danger (scan_segment (variables_of command) decide decide_after ctx)
        (split_segments command) = refuse r"
    | (substitution) "first_danger decide (extract_substitutions command) = refuse r"
    | (library) inners q where "extract_library_shell_commands command = Inr inners"
        "first_danger decide inners = refuse q"
    by (auto simp: scan_body_def Let_def overt_def variables_of_def and_then_Inr_iff
      dest!: map_reason_refuse split: if_splits)
  then show ?thesis
  proof cases
    case segment
    with segment_refused_runs show ?thesis by (blast dest: first_danger_refuse)
  next
    case substitution
    then show ?thesis by (blast dest: first_danger_refuse near.refused intro: runs_substitution)
  next
    case library
    then show ?thesis by (blast dest: first_danger_refuse near.refused intro: runs_library)
  qed blast
qed

end

lemma scan_levels_Suc:
  assumes "two_levels (scan_levels m ctx) (danger ctx m) (scan_levels (m - 1) ctx) (danger ctx (m - 1))"
  shows "faithful (scan_levels (Suc m) ctx) (danger ctx (Suc m))"
proof
  note levels = two_levels.body_passed_overt [OF assms] two_levels.body_passed_runs [OF assms]
    two_levels.body_refused [OF assms]
  show "\<not> danger ctx (Suc m) t" if "scan_levels (Suc m) ctx t = pass" for t
  proof
    assume "danger ctx (Suc m) t"
    then show False
    proof (cases rule: danger.cases)
      case danger_overt
      with levels(1) that show False by simp
    next
      case (danger_runs levels u)
      with levels(2) [of ctx t levels u] that show False by auto
    qed
  qed
  show "danger ctx (Suc m) t" if "scan_levels (Suc m) ctx t = refuse r" for t r
  proof -
    from that have "scan_body (scan_levels m ctx) (scan_levels (m - 1) ctx) ctx t = refuse r" by simp
    from levels(3) [OF this] consider "overt ctx t"
      | u where "runs t 1 u" "danger ctx (Suc m - 1) u" | u where "runs t 2 u" "danger ctx (Suc m - 2) u"
      by auto
    then show ?thesis by cases (blast intro: danger_overt danger_runs)+
  qed
qed

lemma scan_levels_faithful: "faithful (scan_levels n ctx) (danger ctx n)"
proof (induction n rule: less_induct)
  case (less n)
  show ?case
  proof (cases n)
    case 0
    then show ?thesis by unfold_locales (auto elim: danger_zeroE)
  next
    case (Suc m)
    with less have "two_levels (scan_levels m ctx) (danger ctx m) (scan_levels (m - 1) ctx) (danger ctx (m - 1))"
      by (simp add: two_levels_def)
    then show ?thesis unfolding Suc by (rule scan_levels_Suc)
  qed
qed

interpretation scanner: faithful "scan_levels n ctx" "danger ctx n" for n ctx
  by (rule scan_levels_faithful)

interpretation levels: two_levels "scan_levels n ctx" "danger ctx n" "scan_levels (n - 1) ctx" "danger ctx (n - 1)"
  for n ctx
  by (simp add: two_levels_def scan_levels_faithful)

lemma scan_passed: "scan command 0 ctx = pass \<Longrightarrow> \<not> danger ctx 9 command"
  by (simp add: scan_def scanner.passed del: scan_levels.simps)

lemma scan_refused: "scan command 0 ctx = refuse r \<Longrightarrow> danger ctx 9 command"
  using scanner.refused by (simp add: scan_def del: scan_levels.simps)

end
