(* ===== verification/Command_Path_Facts.thy ===== *)
theory Command_Path_Facts
  imports Command_Scan_Facts
begin

text \<open>
  The workspace exemption of the interceptor against lexical path resolution: on Unix paths the text comparison of
  \<open>target_inside_workspace\<close> is the component-wise question whether the resolved target lies in the workspace, up
  to the case of ASCII letters.
\<close>

section \<open>Joining and splitting\<close>

lemma split_char_nonempty [simp]: "split_char sep s \<noteq> []"
  by (cases s) (auto split: list.splits)

lemma split_char_append: "split_char sep (a @ sep # b) = split_char sep a @ split_char sep b"
proof (induction a)
  case (Cons c a)
  then show ?case by (cases "split_char sep a") auto
qed simp

lemma split_char_id: "sep \<notin> set a \<Longrightarrow> split_char sep a = [a]"
  by (induction a) auto

lemma split_char_free: "p \<in> set (split_char sep s) \<Longrightarrow> sep \<notin> set p"
proof (induction s arbitrary: p)
  case (Cons c s)
  then show ?case by (cases "split_char sep s") (auto split: if_splits)
qed simp

lemma join_with_Cons: "join_with sep (x # xs) = (if xs = [] then x else x @ sep @ join_with sep xs)"
  by (cases xs) auto

lemma join_with_append: "xs \<noteq> [] \<Longrightarrow> ys \<noteq> [] \<Longrightarrow> join_with sep (xs @ ys) = join_with sep xs @ sep @ join_with sep ys"
  by (induction xs) (auto simp: join_with_Cons)

lemma split_join: "ps \<noteq> [] \<Longrightarrow> (\<And>p. p \<in> set ps \<Longrightarrow> sep \<notin> set p) \<Longrightarrow> split_char sep (join_with [sep] ps) = ps"
proof (induction ps)
  case (Cons p ps)
  then show ?case
    by (cases "ps = []") (auto simp: join_with_Cons split_char_id split_char_append)
qed simp

lemma join_prefix_iff:
  assumes "rs \<noteq> []" "\<And>r. r \<in> set rs \<Longrightarrow> sep \<notin> set r" "\<And>p. p \<in> set ps \<Longrightarrow> sep \<notin> set p"
  shows "(\<exists>q. join_with [sep] ps = join_with [sep] rs @ sep # q) \<longleftrightarrow> (\<exists>rel. rel \<noteq> [] \<and> ps = rs @ rel)"
proof
  assume "\<exists>q. join_with [sep] ps = join_with [sep] rs @ sep # q"
  then obtain q where q: "join_with [sep] ps = join_with [sep] rs @ sep # q" by blast
  then have "ps \<noteq> []" by auto
  with assms have "ps = split_char sep (join_with [sep] ps)" by (simp add: split_join)
  also have "\<dots> = rs @ split_char sep q" using assms by (simp add: q split_char_append split_join)
  finally show "\<exists>rel. rel \<noteq> [] \<and> ps = rs @ rel" by (metis split_char_nonempty)
next
  assume "\<exists>rel. rel \<noteq> [] \<and> ps = rs @ rel"
  with assms(1) show "\<exists>q. join_with [sep] ps = join_with [sep] rs @ sep # q" by (auto simp: join_with_append)
qed

lemma join_inj:
  assumes "\<And>r. r \<in> set rs \<Longrightarrow> sep \<notin> set r \<and> r \<noteq> []" "\<And>p. p \<in> set ps \<Longrightarrow> sep \<notin> set p \<and> p \<noteq> []"
  shows "join_with [sep] ps = join_with [sep] rs \<longleftrightarrow> ps = rs"
proof
  have empty: "join_with [sep] xs = [] \<Longrightarrow> (\<And>x. x \<in> set xs \<Longrightarrow> x \<noteq> []) \<Longrightarrow> xs = []" for xs
    by (cases xs) (auto simp: join_with_Cons split: if_splits)
  assume eq: "join_with [sep] ps = join_with [sep] rs"
  show "ps = rs"
  proof (cases "ps = [] \<or> rs = []")
    case True
    with eq assms empty [of ps] empty [of rs] show ?thesis by auto
  next
    case False
    with eq assms show ?thesis by (metis split_join)
  qed
qed simp

section \<open>Lower case\<close>

lemma lower_append [simp]: "to_ascii_lowercase (a @ b) = to_ascii_lowercase a @ to_ascii_lowercase b"
  by (simp add: to_ascii_lowercase_def)

lemma lower_Nil [simp]: "to_ascii_lowercase a = [] \<longleftrightarrow> a = []"
  by (simp add: to_ascii_lowercase_def)

lemma lower_slash [simp]: "to_ascii_lowercase ''/'' = ''/''"
  by code_simp

lemma lower_char_slash:
  "(if of_char c \<in> {65..90 :: nat} then char_of (of_char c + 32 :: nat) else c) = CHR ''/'' \<longleftrightarrow> c = CHR ''/''"
proof (cases "of_char c \<in> {65..90 :: nat}")
  case True
  then have "of_char (char_of (of_char c + 32 :: nat) :: char) \<noteq> (47 :: nat)" by (simp add: of_char_of)
  moreover have "of_char (CHR ''/'') = (47 :: nat)" by simp
  ultimately have "char_of (of_char c + 32 :: nat) \<noteq> CHR ''/''" by metis
  with True show ?thesis by auto
qed auto

lemma lower_slash_free: "CHR ''/'' \<in> set (to_ascii_lowercase a) \<longleftrightarrow> CHR ''/'' \<in> set a"
  unfolding to_ascii_lowercase_def set_map image_iff
  by (subst eq_commute) (simp only: lower_char_slash, blast)

lemma lower_join: "to_ascii_lowercase (join_with ''/'' ps) = join_with ''/'' (map to_ascii_lowercase ps)"
  by (induction ps) (auto simp: join_with_Cons to_ascii_lowercase_def)

section \<open>Resolution\<close>

text \<open>A path component that resolution keeps.\<close>

definition component :: "string \<Rightarrow> bool" where
  "component p \<longleftrightarrow> p \<noteq> [] \<and> p \<noteq> ''.'' \<and> p \<noteq> ''..'' \<and> CHR ''/'' \<notin> set p"

text \<open>The components of an absolute Unix path, and of a target seen from a working directory.\<close>

definition path_parts :: "string \<Rightarrow> string list" where
  "path_parts p = resolve_parts [] (split_char (CHR ''/'') p)"

definition lexical :: "string \<Rightarrow> string \<Rightarrow> string list" where
  "lexical cwd t = (if starts_with t ''/'' then path_parts t
     else resolve_parts (path_parts cwd) (split_char (CHR ''/'') t))"

lemma resolve_parts_append: "resolve_parts parts (xs @ ys) = resolve_parts (resolve_parts parts xs) ys"
  by (induction parts xs rule: resolve_parts.induct) auto

lemma resolve_parts_component:
  assumes "p \<in> set (resolve_parts parts xs)" "\<And>q. q \<in> set parts \<Longrightarrow> component q"
    and "\<And>x. x \<in> set xs \<Longrightarrow> CHR ''/'' \<notin> set x"
  shows "component p"
  using assms
proof (induction parts xs rule: resolve_parts.induct)
  case (2 parts part rest)
  then show ?case by (auto simp: component_def split: if_splits dest: in_set_butlastD)
qed simp

lemma resolve_parts_id: "(\<And>x. x \<in> set xs \<Longrightarrow> component x) \<Longrightarrow> resolve_parts parts xs = parts @ xs"
  by (induction parts xs rule: resolve_parts.induct) (auto simp: component_def)

lemma path_parts_component: "p \<in> set (path_parts s) \<Longrightarrow> component p"
  unfolding path_parts_def by (erule resolve_parts_component) (auto dest: split_char_free)

lemma lexical_component: "p \<in> set (lexical cwd t) \<Longrightarrow> component p"
  by (auto simp: lexical_def path_parts_component dest: split_char_free
    elim!: resolve_parts_component split: if_splits)

definition rooted :: "string list \<Rightarrow> string" where
  "rooted parts = (if parts = [] then [] else ''/'' @ join_with ''/'' parts)"

lemma join_with_last: "xs \<noteq> [] \<Longrightarrow> last xs \<noteq> [] \<Longrightarrow> join_with sep xs \<noteq> [] \<and> last (join_with sep xs) = last (last xs)"
  by (induction xs) (auto simp: join_with_Cons split: if_splits)

lemma trim_end_matches_id: "s = [] \<or> last s \<notin> set cs \<Longrightarrow> trim_end_matches cs s = s"
  by (cases s rule: rev_cases) (auto simp: trim_end_matches_def)

lemma component_last: "component p \<Longrightarrow> p \<noteq> [] \<and> last p \<noteq> CHR ''/''"
  by (auto simp: component_def dest: last_in_set)

lemma rooted_trimmed:
  assumes "\<And>p. p \<in> set parts \<Longrightarrow> component p"
  shows "trim_end_matches [CHR ''/''] (rooted parts) = rooted parts"
    "trim_end_matches [CHR ''/''] (''/'' @ join_with ''/'' parts) = rooted parts"
proof -
  have "last (join_with ''/'' parts) \<noteq> CHR ''/''" "join_with ''/'' parts \<noteq> []" if "parts \<noteq> []"
    using join_with_last [OF that] component_last [OF assms [of "last parts"]] that by auto
  then have *: "parts \<noteq> [] \<Longrightarrow> trim_end_matches [CHR ''/''] (''/'' @ join_with ''/'' parts) = ''/'' @ join_with ''/'' parts"
    by (intro trim_end_matches_id) auto
  then show "trim_end_matches [CHR ''/''] (rooted parts) = rooted parts"
    by (auto simp: rooted_def trim_end_matches_def)
  from * show "trim_end_matches [CHR ''/''] (''/'' @ join_with ''/'' parts) = rooted parts"
    by (cases "parts = []") (auto simp: rooted_def trim_end_matches_def)
qed

section \<open>Unix paths\<close>

text \<open>An absolute path with no drive, no verbatim prefix and no backslash.\<close>

definition unix_text :: "string \<Rightarrow> bool" where
  "unix_text p \<longleftrightarrow> starts_with p ''/'' \<and> BACKSLASH \<notin> set p \<and> \<not> drive_prefix p \<and> \<not> starts_with p ''//?/''"

lemma replace_char_id: "a \<notin> set s \<Longrightarrow> replace_char a b s = s"
  by (induction s) (auto simp: replace_char_def)

lemma normalize_unix_text: "unix_text p \<Longrightarrow> normalize_compare_path p = rooted (path_parts p)"
proof -
  assume u: "unix_text p"
  then have "compare_text p = p"
    by (simp add: compare_text_def unix_text_def replace_char_id strip_prefix_def Let_def)
  with u have "normalize_compare_path p = trim_end_matches [CHR ''/''] (''/'' @ join_with ''/'' (path_parts p))"
    by (simp add: normalize_compare_path_def unix_text_def path_parts_def Let_def)
  also have "\<dots> = rooted (path_parts p)" by (rule rooted_trimmed(2)) (rule path_parts_component)
  finally show ?thesis .
qed

lemma rooted_inside:
  assumes "rs \<noteq> []" "\<And>r. r \<in> set rs \<Longrightarrow> component r" "\<And>p. p \<in> set ps \<Longrightarrow> component p"
  shows "path_inside_normalized (rooted ps) (rooted rs) \<longleftrightarrow>
    (\<exists>rel. map to_ascii_lowercase ps = map to_ascii_lowercase rs @ rel)"
proof -
  let ?ps = "map to_ascii_lowercase ps" and ?rs = "map to_ascii_lowercase rs"
  have free: "CHR ''/'' \<notin> set x \<and> x \<noteq> []" if "x \<in> set ?ps \<or> x \<in> set ?rs" for x
    using that assms by (auto simp: component_def lower_slash_free)
  have low: "to_ascii_lowercase (rooted xs) = (if xs = [] then [] else ''/'' @ join_with ''/'' (map to_ascii_lowercase xs))" for xs
    using lower_slash by (simp add: rooted_def lower_join flip: append_Cons) 
  have "eq_ignore_ascii_case (rooted ps) (rooted rs) \<longleftrightarrow> ?ps = ?rs"
    using assms(1) join_inj [of ?rs "CHR ''/''" ?ps] free by (auto simp: eq_ignore_ascii_case_def low)
  moreover have "starts_with (to_ascii_lowercase (rooted ps)) (to_ascii_lowercase (rooted rs) @ ''/'') \<longleftrightarrow>
      (\<exists>rel. rel \<noteq> [] \<and> ?ps = ?rs @ rel)"
  proof -
    have "starts_with (to_ascii_lowercase (rooted ps)) (to_ascii_lowercase (rooted rs) @ ''/'') \<longleftrightarrow>
        (\<exists>q. join_with ''/'' ?ps = join_with ''/'' ?rs @ CHR ''/'' # q)"
      using assms(1) by (cases "ps = []") (auto simp: low starts_with_iff)
    also have "\<dots> \<longleftrightarrow> (\<exists>rel. rel \<noteq> [] \<and> ?ps = ?rs @ rel)"
      by (rule join_prefix_iff) (use assms(1) free in auto)
    finally show ?thesis .
  qed
  ultimately show ?thesis
    using assms by (auto simp: path_inside_normalized_def rooted_trimmed Let_def)
qed

text \<open>A target that is not read as a Windows path, is not trimmed and does not begin with a variable or a tilde.\<close>

definition plain_target :: "string \<Rightarrow> bool" where
  "plain_target t \<longleftrightarrow> t \<noteq> [] \<and> trim_matches [DQUOTE, SQUOTE] (trim t) = t \<and> BACKSLASH \<notin> set t \<and>
     CHR '':'' \<notin> set (take 2 t) \<and> \<not> starts_with t ''//?/'' \<and>
     \<not> starts_with t ''$'' \<and> \<not> starts_with t ''%'' \<and> \<not> starts_with t ''~''"

definition unix_context :: "safety_context \<Rightarrow> bool" where
  "unix_context ctx \<longleftrightarrow> unix_text (sc_cwd ctx) \<and> CHR '':'' \<notin> set (sc_cwd ctx) \<and> unix_text (sc_workspace_root ctx)"

lemma resolve_parts_chars:
  "c \<in> set p \<Longrightarrow> p \<in> set (resolve_parts parts xs) \<Longrightarrow> \<exists>q\<in>set parts \<union> set xs. c \<in> set q"
proof (induction parts xs rule: resolve_parts.induct)
  case (2 parts part rest)
  then show ?case by (auto split: if_splits dest: in_set_butlastD)
qed auto

lemma split_char_chars: "p \<in> set (split_char sep s) \<Longrightarrow> set p \<subseteq> set s"
proof (induction s arbitrary: p)
  case (Cons c s)
  obtain a list where s: "split_char sep s = a # list" by (cases "split_char sep s") auto
  with Cons.IH [of p] Cons.IH [of a] Cons.prems show ?case by (auto split: if_splits)
qed simp

lemma path_parts_chars: "p \<in> set (path_parts s) \<Longrightarrow> set p \<subseteq> set s"
  unfolding path_parts_def using resolve_parts_chars split_char_chars by fastforce

lemma join_with_chars: "c \<in> set (join_with sep xs) \<Longrightarrow> c \<in> set sep \<or> (\<exists>x\<in>set xs. c \<in> set x)"
  by (induction xs) (auto simp: join_with_Cons split: if_splits)

lemma drive_prefix_Cons: "drive_prefix (c # s) \<longleftrightarrow> s \<noteq> [] \<and> hd s = CHR '':''"
  by (cases s) (auto simp: drive_prefix_def)

lemma rooted_chars: "c \<in> set (rooted (path_parts s)) \<Longrightarrow> c = CHR ''/'' \<or> c \<in> set s"
  by (auto simp: rooted_def dest!: join_with_chars dest: path_parts_chars split: if_splits)

lemma split_rooted: "(\<And>p. p \<in> set parts \<Longrightarrow> component p) \<Longrightarrow> parts \<noteq> [] \<Longrightarrow>
   split_char (CHR ''/'') (rooted parts) = [] # parts"
  using split_join [of parts "CHR ''/''"] by (simp add: rooted_def component_def)

lemma relative_unix_text:
  assumes "unix_context ctx" "plain_target t" "\<not> starts_with t ''/''"
  shows "unix_text (rooted (path_parts (sc_cwd ctx)) @ ''/'' @ t)"
    and "path_parts (rooted (path_parts (sc_cwd ctx)) @ ''/'' @ t) = lexical (sc_cwd ctx) t"
proof -
  let ?w = "rooted (path_parts (sc_cwd ctx))"
  have comp: "\<And>p. p \<in> set (path_parts (sc_cwd ctx)) \<Longrightarrow> component p" by (rule path_parts_component)
  have chars: "CHR '':'' \<notin> set ?w" "BACKSLASH \<notin> set ?w"
    using assms(1) by (auto simp: unix_context_def unix_text_def BACKSLASH_def dest!: rooted_chars)
  obtain a t' where t: "t = a # t'" "a \<noteq> CHR '':''" "a \<noteq> CHR ''/''"
    using assms(2,3) by (cases t) (auto simp: plain_target_def)
  show "unix_text (?w @ ''/'' @ t)"
  proof (cases "path_parts (sc_cwd ctx)")
    case Nil
    then have "?w = []" by (simp add: rooted_def)
    with t assms(2) show ?thesis
      by (auto simp: unix_text_def plain_target_def drive_prefix_Cons BACKSLASH_def)
  next
    case (Cons p ps)
    with comp [of p] obtain b r where p: "p = b # r" "b \<noteq> CHR ''/''" by (cases p) (auto simp: component_def)
    with Cons have w: "\<exists>r'. ?w = CHR ''/'' # b # r'" by (simp add: rooted_def join_with_Cons)
    with chars p assms(2) show ?thesis
      by (auto simp: unix_text_def plain_target_def drive_prefix_Cons BACKSLASH_def)
  qed
  show "path_parts (?w @ ''/'' @ t) = lexical (sc_cwd ctx) t"
  proof (cases "path_parts (sc_cwd ctx) = []")
    case True
    then show ?thesis using assms(3) by (simp add: rooted_def path_parts_def lexical_def)
  next
    case False
    have "path_parts (?w @ ''/'' @ t) =
        resolve_parts (resolve_parts [] ([] # path_parts (sc_cwd ctx))) (split_char (CHR ''/'') t)"
      unfolding path_parts_def [of "?w @ ''/'' @ t"] using split_rooted [OF comp False]
      by (simp add: split_char_append flip: resolve_parts_append)
    then show ?thesis using comp assms(3) by (simp add: resolve_parts_id lexical_def)
  qed
qed

lemma target_inside_iff:
  assumes "unix_context ctx" "plain_target t" "path_parts (sc_workspace_root ctx) \<noteq> []"
  shows "target_inside_workspace t ctx \<longleftrightarrow>
    (\<exists>rel. map to_ascii_lowercase (lexical (sc_cwd ctx) t) =
       map to_ascii_lowercase (path_parts (sc_workspace_root ctx)) @ rel)"
proof -
  let ?ws = "path_parts (sc_workspace_root ctx)"
  let ?cwd = "normalize_compare_path (sc_cwd ctx)"
  have ws: "normalize_compare_path (sc_workspace_root ctx) = rooted ?ws" and cwd: "?cwd = rooted (path_parts (sc_cwd ctx))"
    using assms(1) by (simp_all add: unix_context_def normalize_unix_text)
  have absolute: "is_absolute_path_text t \<longleftrightarrow> starts_with t ''/''"
    using assms(2) by (cases t; cases "tl t")
      (auto simp: is_absolute_path_text_def plain_target_def replace_char_id drive_prefix_def Let_def)
  have "normalize_compare_path (if is_absolute_path_text t then t else ?cwd @ ''/'' @ t) =
      rooted (lexical (sc_cwd ctx) t)"
  proof (cases "starts_with t ''/''")
    case True
    with assms(2) have "unix_text t"
      by (cases t; cases "tl t") (auto simp: unix_text_def plain_target_def drive_prefix_def)
    with True absolute show ?thesis by (simp add: normalize_unix_text lexical_def)
  next
    case False
    with relative_unix_text [OF assms(1,2) False] absolute cwd show ?thesis
      by (simp add: normalize_unix_text)
  qed
  then have "target_inside_workspace t ctx \<longleftrightarrow> path_inside_normalized (rooted (lexical (sc_cwd ctx) t)) (rooted ?ws)"
    using assms(2,3) ws by (auto simp: target_inside_workspace_def plain_target_def rooted_def Let_def split: if_splits)
  also have "\<dots> \<longleftrightarrow> (\<exists>rel. map to_ascii_lowercase (lexical (sc_cwd ctx) t) = map to_ascii_lowercase ?ws @ rel)"
    by (rule rooted_inside) (use assms(3) path_parts_component lexical_component in auto)
  finally show ?thesis .
qed

end
