(* ===== verification/Command_Quote_Facts.thy ===== *)
theory Command_Quote_Facts
  imports Command_Path_Facts
begin

text \<open>
  Words and their shell quoting: the tokenizer reads back any list of words quoted for a POSIX shell, a quoted
  list is one segment, and a segment that follows closed text and a separator is a segment of the whole.
\<close>

section \<open>Characters of composed texts\<close>

definition char_group :: "string \<Rightarrow> bool" where
  "char_group g \<longleftrightarrow> g \<noteq> [] \<and> \<not> continuation_byte (hd g) \<and> list_all continuation_byte (tl g)"

definition boundary :: "string \<Rightarrow> bool" where
  "boundary s \<longleftrightarrow> s = [] \<or> \<not> continuation_byte (hd s)"

lemma str_chars_Nil_iff [simp]: "str_chars s = [] \<longleftrightarrow> s = []"
  by (cases s) (auto split: list.splits)

lemma str_chars_head: "str_chars s = g # gs \<Longrightarrow> hd g = hd s"
  by (cases s) (auto split: list.splits if_splits)

lemma str_chars_single: "boundary s \<Longrightarrow> str_chars (c # s) = [c] # str_chars s"
  by (auto simp: boundary_def dest: str_chars_head split: list.splits)

lemma str_chars_tail: "list_all continuation_byte g \<Longrightarrow> g \<noteq> [] \<Longrightarrow> boundary s \<Longrightarrow> str_chars (g @ s) = g # str_chars s"
proof (induction g)
  case (Cons c g)
  then show ?case by (cases g) (simp_all add: str_chars_single del: str_chars.simps, simp)
qed simp

lemma str_chars_group: "char_group g \<Longrightarrow> boundary s \<Longrightarrow> str_chars (g @ s) = g # str_chars s"
proof (cases g)
  case (Cons c g')
  assume "char_group g" "boundary s"
  show ?thesis
  proof (cases "g' = []")
    case True
    with Cons \<open>boundary s\<close> show ?thesis by (simp add: str_chars_single del: str_chars.simps)
  next
    case False
    with Cons \<open>char_group g\<close> \<open>boundary s\<close> have "str_chars (g' @ s) = g' # str_chars s" "continuation_byte (hd g')"
      by (auto simp: char_group_def str_chars_tail list_all_iff)
    with Cons show ?thesis by simp
  qed
qed (simp add: char_group_def)

lemma boundary_concat: "(\<And>g. g \<in> set gs \<Longrightarrow> char_group g) \<Longrightarrow> boundary s \<Longrightarrow> boundary (concat gs @ s)"
  by (cases gs) (auto simp: boundary_def char_group_def)

lemma str_chars_concat:
  "(\<And>g. g \<in> set gs \<Longrightarrow> char_group g) \<Longrightarrow> boundary s \<Longrightarrow> str_chars (concat gs @ s) = gs @ str_chars s"
  by (induction gs) (simp_all add: str_chars_group boundary_concat)

lemma str_chars_groups: "boundary s \<Longrightarrow> g \<in> set (str_chars s) \<Longrightarrow> char_group g"
proof -
  have "g \<in> set (tl (str_chars s)) \<Longrightarrow> \<not> continuation_byte (hd g)" for s g
    by (induction s) (auto split: list.splits if_splits)
  moreover have "g \<in> set (str_chars s) \<Longrightarrow> g \<noteq> [] \<and> list_all continuation_byte (tl g)" for s g
  proof (induction s arbitrary: g)
    case (Cons c s)
    show ?case
    proof (cases "str_chars s")
      case (Cons h hs)
      have "list_all continuation_byte h" if "continuation_byte (hd h)"
        using that Cons.IH [of h] Cons by (cases h) auto
      with Cons Cons.prems Cons.IH show ?thesis by (auto split: if_splits)
    qed (use Cons.prems in simp)
  qed simp
  ultimately show "boundary s \<Longrightarrow> g \<in> set (str_chars s) \<Longrightarrow> char_group g"
    unfolding char_group_def boundary_def
    by (metis list.sel(3) list.set_cases set_ConsD str_chars_head str_chars_Nil_iff list.distinct(1) list.set_intros(1) neq_Nil_conv)
qed

section \<open>Quoted words\<close>

text \<open>The usual quoting for a POSIX shell: safe words as they are, others in single quotes.\<close>

definition safe_char :: "char \<Rightarrow> bool" where
  "safe_char c \<longleftrightarrow> name_char c \<or> c \<in> set ''/.-=,:@%+''"

definition plain_word :: "string \<Rightarrow> bool" where
  "plain_word w \<longleftrightarrow> w \<noteq> [] \<and> list_all safe_char w"

definition quoted_char :: "string \<Rightarrow> string list" where
  "quoted_char g = (if g = [SQUOTE] then [[SQUOTE], [BACKSLASH], [SQUOTE], [SQUOTE]] else [g])"

definition word_chars :: "string \<Rightarrow> string list" where
  "word_chars w =
     (if plain_word w then map (\<lambda>c. [c]) w
      else [SQUOTE] # concat (map quoted_char (str_chars w)) @ [[SQUOTE]])"

definition shell_word :: "string \<Rightarrow> string" where
  "shell_word w = concat (word_chars w)"

definition shell_join :: "string list \<Rightarrow> string" where
  "shell_join ws = join_with '' '' (map shell_word ws)"

fun line_chars :: "string list \<Rightarrow> string list" where
  "line_chars [] = []"
| "line_chars [w] = word_chars w"
| "line_chars (w # v # ws) = word_chars w @ '' '' # line_chars (v # ws)"

lemma shell_join_chars: "concat (line_chars ws) = shell_join ws"
  by (induction ws rule: line_chars.induct) (auto simp: shell_join_def shell_word_def)

lemma ascii_not_continuation: "name_char c \<Longrightarrow> \<not> continuation_byte c"
  by (auto simp: name_char_def ascii_alphabetic_def ascii_digit_def continuation_byte_def)

lemma safe_not_continuation: "safe_char c \<Longrightarrow> \<not> continuation_byte c"
  by (auto simp: safe_char_def ascii_not_continuation) (auto simp: continuation_byte_def)

lemma quote_groups [simp]: "char_group [SQUOTE]" "char_group [BACKSLASH]" "char_group '' ''" "char_group '';''"
  by (simp_all add: char_group_def continuation_byte_def SQUOTE_def BACKSLASH_def)

lemma word_chars_groups: "boundary w \<Longrightarrow> g \<in> set (word_chars w) \<Longrightarrow> char_group g"
  by (auto simp: word_chars_def plain_word_def quoted_char_def list_all_iff str_chars_groups split: if_splits)
    (simp add: char_group_def safe_not_continuation)

lemma line_chars_groups: "(\<And>w. w \<in> set ws \<Longrightarrow> boundary w) \<Longrightarrow> g \<in> set (line_chars ws) \<Longrightarrow> char_group g"
  by (induction ws rule: line_chars.induct) (auto intro: word_chars_groups)

lemma str_chars_line:
  assumes "\<And>w. w \<in> set ws \<Longrightarrow> boundary w" "boundary s"
  shows "str_chars (shell_join ws @ s) = line_chars ws @ str_chars s"
  unfolding shell_join_chars [symmetric]
  by (rule str_chars_concat) (use assms line_chars_groups in blast)+

section \<open>Reading words back\<close>

definition tok_plain :: "tok_state \<Rightarrow> bool" where
  "tok_plain st \<longleftrightarrow> \<not> tk_single st \<and> \<not> tk_double st \<and> \<not> tk_escaped st"

lemma safe_char_plain:
  "safe_char c \<Longrightarrow> c \<noteq> BACKSLASH \<and> c \<noteq> SQUOTE \<and> c \<noteq> DQUOTE \<and> c \<noteq> BACKTICK \<and> c \<noteq> CHR ''('' \<and> c \<noteq> CHR '')'' \<and>
     c \<noteq> LF \<and> c \<noteq> CHR '';'' \<and> c \<noteq> CHR ''|'' \<and> c \<noteq> CHR ''&'' \<and> \<not> is_whitespace [c]"
  by (auto simp: safe_char_def name_char_def ascii_alphabetic_def ascii_digit_def quote_defs is_whitespace_def white_space_def)

lemma tok_safe:
  "list_all safe_char w \<Longrightarrow> tok_plain st \<Longrightarrow> w \<noteq> [] \<Longrightarrow>
   fold tok_step (map (\<lambda>c. [c]) w) st = st\<lparr>tk_current := tk_current st @ w, tk_started := True\<rparr>"
proof (induction w arbitrary: st)
  case (Cons c w)
  then have "tok_step [c] st = st\<lparr>tk_current := tk_current st @ [c], tk_started := True\<rparr>"
    using safe_char_plain [of c] by (simp add: tok_step_def tok_plain_def)
  with Cons show ?case by (cases "w = []") (auto simp: tok_plain_def)
qed simp

lemma tok_quoted:
  "tk_single st \<Longrightarrow> \<not> tk_double st \<Longrightarrow> \<not> tk_escaped st \<Longrightarrow> tk_started st \<Longrightarrow>
   fold tok_step (concat (map quoted_char gs)) st = st\<lparr>tk_current := tk_current st @ concat gs\<rparr>"
proof (induction gs arbitrary: st)
  case (Cons g gs)
  then have "fold tok_step (quoted_char g) st = st\<lparr>tk_current := tk_current st @ g\<rparr>"
    by (auto simp: quoted_char_def tok_step_def quote_defs)
  with Cons show ?case by simp
qed simp

lemma tok_word:
  assumes "tok_plain st"
  shows "fold tok_step (word_chars w) st = st\<lparr>tk_current := tk_current st @ w, tk_started := True\<rparr>"
proof (cases "plain_word w")
  case True
  with assms show ?thesis by (simp add: word_chars_def tok_safe plain_word_def)
next
  case False
  let ?st = "st\<lparr>tk_single := True, tk_started := True\<rparr>"
  from assms have "tok_step [SQUOTE] st = ?st" by (auto simp: tok_step_def tok_plain_def quote_defs)
  moreover from assms have "fold tok_step (concat (map quoted_char (str_chars w))) ?st = ?st\<lparr>tk_current := tk_current st @ w\<rparr>"
    by (simp add: tok_quoted tok_plain_def)
  moreover from assms have "tok_step [SQUOTE] (?st\<lparr>tk_current := tk_current st @ w\<rparr>) =
      st\<lparr>tk_current := tk_current st @ w, tk_started := True\<rparr>"
    by (auto simp: tok_step_def tok_plain_def quote_defs)
  ultimately show ?thesis using False by (simp add: word_chars_def)
qed

lemma tok_line:
  assumes "tok_plain st" "ws \<noteq> []" "tk_current st = []"
  shows "tok_finish (fold tok_step (line_chars ws) st) = Some (tk_tokens st @ ws)"
  using assms
proof (induction ws arbitrary: st rule: line_chars.induct)
  case (2 w)
  then show ?case by (simp add: tok_word tok_finish_def tok_plain_def)
next
  case (3 w v ws)
  let ?st = "st\<lparr>tk_tokens := tk_tokens st @ [w], tk_current := [], tk_started := False\<rparr>"
  from 3 have "fold tok_step (word_chars w @ ['' '']) st = ?st"
    by (auto simp: tok_word tok_step_def tok_plain_def quote_defs is_whitespace_def white_space_def)
  then have "fold tok_step (line_chars (w # v # ws)) st = fold tok_step (line_chars (v # ws)) ?st"
    by (metis append.assoc append_Cons append_Nil fold_append comp_apply line_chars.simps(3))
  with 3 show ?case by (simp add: tok_plain_def)
qed simp

lemma tokenize_shell_join:
  "(\<And>w. w \<in> set ws \<Longrightarrow> boundary w) \<Longrightarrow> ws \<noteq> [] \<Longrightarrow> tokenize (shell_join ws) = Some ws"
  using str_chars_line [of ws "[]"] by (simp add: tokenize_def boundary_def tok_line tok_init_def tok_plain_def)

section \<open>Segments\<close>

definition seg_closed :: "seg_state \<Rightarrow> bool" where
  "seg_closed st \<longleftrightarrow> \<not> sg_single st \<and> \<not> sg_double st \<and> \<not> sg_escaped st \<and> \<not> sg_backtick st \<and> sg_paren_depth st = 0"

lemma seg_closed_simps [simp]: "seg_closed seg_init" "seg_closed (seg_push g st) = seg_closed st"
  "seg_closed (seg_cut st) = seg_closed st"
  by (simp_all add: seg_closed_def seg_init_def seg_push_def seg_cut_def)

lemma seg_quote_plain:
  assumes "seg_closed st" "safe_char c \<or> c = CHR '' ''"
  shows "seg_quote [c] st = Some (seg_push [c] st)"
proof -
  have "c \<noteq> BACKSLASH \<and> c \<noteq> SQUOTE \<and> c \<noteq> DQUOTE \<and> c \<noteq> BACKTICK \<and> c \<noteq> CHR ''('' \<and> c \<noteq> CHR '')'' \<and>
      c \<noteq> LF \<and> c \<noteq> CHR '';'' \<and> c \<noteq> CHR ''|'' \<and> c \<noteq> CHR ''&''"
    using assms(2)
  proof
    assume "c = CHR '' ''"
    then show ?thesis by (simp add: quote_defs)
  qed (use safe_char_plain in blast)
  with assms(1) show ?thesis by (simp add: seg_quote_def seg_closed_def)
qed

lemma split_loop_safe:
  "list_all safe_char w \<Longrightarrow> seg_closed st \<Longrightarrow>
   split_loop st (map (\<lambda>c. [c]) w @ rest) = split_loop (seg_push w st) rest"
proof (induction w arbitrary: st)
  case (Cons c w)
  then have "split_loop st (map (\<lambda>c. [c]) (c # w) @ rest) = split_loop (seg_push [c] st) (map (\<lambda>c. [c]) w @ rest)"
    by (simp add: seg_quote_plain)
  also from Cons have "\<dots> = split_loop (seg_push w (seg_push [c] st)) rest" by simp
  finally show ?case by (simp add: seg_push_def)
qed (simp add: seg_push_def)

lemma split_loop_quoted:
  "sg_single st \<Longrightarrow> \<not> sg_double st \<Longrightarrow> \<not> sg_escaped st \<Longrightarrow> \<not> sg_backtick st \<Longrightarrow> sg_paren_depth st = 0 \<Longrightarrow>
   split_loop st (concat (map quoted_char gs) @ rest) = split_loop (seg_push (concat (concat (map quoted_char gs))) st) rest"
proof (induction gs arbitrary: st)
  case (Cons g gs)
  have "split_loop st (quoted_char g @ rest') = split_loop (seg_push (concat (quoted_char g)) st) rest'" for rest'
    using Cons.prems by (cases st) (auto simp: quoted_char_def seg_quote_def seg_push_def quote_defs)
  with Cons show ?case by (simp add: seg_push_def)
qed (simp add: seg_push_def)

lemma split_loop_word:
  assumes "seg_closed st"
  shows "split_loop st (word_chars w @ rest) = split_loop (seg_push (shell_word w) st) rest"
proof (cases "plain_word w")
  case True
  with assms show ?thesis
    by (simp add: word_chars_def shell_word_def split_loop_safe plain_word_def comp_def)
next
  case False
  let ?body = "concat (map quoted_char (str_chars w))" and ?st = "(seg_push [SQUOTE] st)\<lparr>sg_single := True\<rparr>"
  from assms have "split_loop st ([SQUOTE] # ?body @ [[SQUOTE]] @ rest) = split_loop ?st (?body @ [[SQUOTE]] @ rest)"
    by (auto simp: seg_quote_def seg_closed_def quote_defs)
  also from assms have "\<dots> = split_loop (seg_push (concat ?body) ?st) ([[SQUOTE]] @ rest)"
    by (subst split_loop_quoted) (simp_all add: seg_closed_def seg_push_def)
  also from assms have "\<dots> = split_loop (seg_push (shell_word w) st) rest"
    using False by (cases st) (auto simp: seg_quote_def seg_closed_def seg_push_def shell_word_def word_chars_def quote_defs)
  finally show ?thesis using False by (simp add: word_chars_def)
qed

lemma split_loop_line:
  "seg_closed st \<Longrightarrow> split_loop st (line_chars ws @ rest) = split_loop (seg_push (shell_join ws) st) rest"
proof (induction ws arbitrary: st rule: line_chars.induct)
  case (3 w v ws)
  let ?st = "seg_push (shell_word w) st"
  from 3 have "split_loop st (line_chars (w # v # ws) @ rest) = split_loop ?st ('' '' # line_chars (v # ws) @ rest)"
    by (simp add: split_loop_word)
  also from 3 have "\<dots> = split_loop (seg_push '' '' ?st) (line_chars (v # ws) @ rest)"
    by (simp add: seg_quote_plain)
  also from 3 have "\<dots> = split_loop (seg_push (shell_join (v # ws)) (seg_push '' '' ?st)) rest" by simp
  finally show ?case by (simp add: seg_push_def shell_join_def)
qed (simp_all add: split_loop_word shell_join_def seg_push_def)

lemma map_option_if: "map_option f (if b then x else y) = (if b then map_option f x else map_option f y)"
  by simp

lemma seg_quote_segments:
  "seg_quote ch (st\<lparr>sg_segments := xs\<rparr>) = map_option (\<lambda>st. st\<lparr>sg_segments := xs\<rparr>) (seg_quote ch st)"
  unfolding seg_quote_def seg_push_def map_option_if by (cases st) (simp cong: if_cong del: insert_iff)

lemma seg_quote_keeps:
  assumes "seg_quote ch st = Some st'"
  shows "sg_segments st' = sg_segments st"
proof -
  have "seg_quote ch st = map_option (\<lambda>u. u\<lparr>sg_segments := sg_segments st\<rparr>) (seg_quote ch st)"
    using seg_quote_segments [where st = st and xs = "sg_segments st"] by simp
  with assms show ?thesis by (metis option.inject option.simps(9) seg_state.select_convs(1) seg_state.surjective seg_state.update_convs(1))
qed

text \<open>The loop without its result: the state it ends in.\<close>

fun seg_end :: "seg_state \<Rightarrow> string list \<Rightarrow> seg_state" where
  "seg_end st [] = st"
| "seg_end st (ch # chars) =
     (case seg_quote ch st of
        Some st' \<Rightarrow> seg_end st' chars
      | None \<Rightarrow>
          if ch \<in> {[LF], '';''} then seg_end (seg_cut st) chars
          else (case chars of
                  [] \<Rightarrow> seg_cut st
                | next # rest \<Rightarrow>
                    if next = ch then seg_end (seg_cut st) rest else seg_end (seg_cut st) (next # rest)))"

lemma split_loop_end: "split_loop st chars = sg_segments (seg_end st chars) @ [sg_current (seg_end st chars)]"
  by (induction st chars rule: seg_end.induct) (auto split: option.splits list.splits)

lemma split_loop_segments:
  "split_loop (st\<lparr>sg_segments := xs @ sg_segments st\<rparr>) chars = xs @ split_loop st chars"
proof (induction st chars rule: split_loop.induct)
  case (2 st ch chars)
  have cut: "seg_cut (st\<lparr>sg_segments := xs @ sg_segments st\<rparr>) = (seg_cut st)\<lparr>sg_segments := xs @ sg_segments (seg_cut st)\<rparr>"
    by (simp add: seg_cut_def)
  show ?case
  proof (cases "seg_quote ch st")
    case (Some st')
    from 2(5) [OF Some] Some show ?thesis by (simp add: seg_quote_segments seg_quote_keeps [OF Some])
  next
    case None
    show ?thesis
    proof (cases "ch \<in> {[LF], '';''}")
      case True
      with None 2(1) show ?thesis by (simp add: seg_quote_segments cut del: insert_iff)
    next
      case False
      with None 2(2-4) show ?thesis
        by (cases chars) (simp_all add: seg_quote_segments cut del: insert_iff)
    qed
  qed
qed simp

section \<open>Chains\<close>

lemma str_chars_append: "boundary b \<Longrightarrow> str_chars (a @ b) = str_chars a @ str_chars b"
proof (induction a)
  case (Cons c a)
  show ?case
  proof (cases "a = []")
    case True
    with Cons show ?thesis by (simp add: str_chars_single del: str_chars.simps) simp
  next
    case False
    then obtain g gs where "str_chars a = g # gs" by (metis neq_Nil_conv str_chars_Nil_iff)
    with Cons show ?thesis by simp
  qed
qed simp

text \<open>A text that leaves no quote, escape, backtick or parenthesis open.\<close>

definition closed_text :: "string \<Rightarrow> bool" where
  "closed_text c \<longleftrightarrow> seg_closed (seg_end seg_init (str_chars c))"

lemma seg_end_append: "seg_end st (a @ '';'' # d) = seg_end (seg_end st a) ('';'' # d)"
proof (induction st a rule: seg_end.induct)
  case (2 st ch chars)
  show ?case
  proof (cases "seg_quote ch st")
    case (Some st')
    with 2(4) show ?thesis by (simp add: seg_end.simps(2) [of st ch] del: seg_end.simps(2))
  next
    case None
    show ?thesis
    proof (cases "ch \<in> {[LF], '';''}")
      case True
      with None 2(1) show ?thesis by (simp add: seg_end.simps(2) [of st ch] del: insert_iff seg_end.simps(2))
    next
      case False
      then have "'';'' \<noteq> ch" by auto
      with None 2(2,3) False show ?thesis
        by (cases chars) (simp_all add: seg_end.simps(2) [of st ch] del: insert_iff seg_end.simps(2))
    qed
  qed
qed simp

lemma split_segments_chain:
  assumes "closed_text c" "boundary d"
  shows "split_segments (c @ '';'' @ d) = split_segments c @ split_segments d"
proof -
  let ?e = "seg_end seg_init (str_chars c)"
  have e: "seg_closed ?e" using assms(1) by (simp add: closed_text_def)
  then have cut: "seg_cut ?e = seg_init\<lparr>sg_segments := sg_segments ?e @ [sg_current ?e]\<rparr>" "seg_quote '';'' ?e = None"
    by (cases ?e, simp add: seg_cut_def seg_init_def seg_closed_def)
      (use e in \<open>simp add: seg_quote_def seg_closed_def quote_defs\<close>)
  have "str_chars (c @ '';'' @ d) = str_chars c @ '';'' # str_chars d"
    using assms(2) str_chars_append [of "'';'' @ d" c]
    by (simp add: str_chars_single boundary_def continuation_byte_def del: str_chars.simps)
  then have "split_segments (c @ '';'' @ d) = split_loop (seg_cut ?e) (str_chars d)"
    using cut(2) by (simp add: split_segments_def split_loop_end seg_end_append)
  also have "\<dots> = (sg_segments ?e @ [sg_current ?e]) @ split_segments d"
    using split_loop_segments [where st = seg_init and xs = "sg_segments ?e @ [sg_current ?e]"]
    by (simp add: cut split_segments_def) (simp add: seg_init_def)
  finally show ?thesis by (simp add: split_segments_def split_loop_end)
qed

lemma split_segments_line:
  "(\<And>w. w \<in> set ws \<Longrightarrow> boundary w) \<Longrightarrow> split_segments (shell_join ws) = [shell_join ws]"
  using str_chars_line [of ws "[]"] split_loop_line [of seg_init ws "[]"]
  by (simp add: split_segments_def boundary_def) (simp add: seg_push_def seg_init_def)

section \<open>Trimming\<close>

lemma trim_id: "no_prefix white_space s \<Longrightarrow> no_prefix (map rev white_space) (rev s) \<Longrightarrow> trim s = s"
  by (simp add: trim_def trim_start_def trim_end_def strip_any_id)

definition word_end :: "char \<Rightarrow> bool" where
  "word_end c \<longleftrightarrow> safe_char c \<or> c = SQUOTE"

lemma word_end_white: "word_end c \<Longrightarrow> no_prefix white_space (c # s) \<and> no_prefix (map rev white_space) (c # s)"
  by (auto simp: no_prefix_def word_end_def safe_char_def name_char_def ascii_alphabetic_def ascii_digit_def
    SQUOTE_def white_space_def)

lemma shell_word_ends: "shell_word w \<noteq> [] \<and> word_end (hd (shell_word w)) \<and> word_end (last (shell_word w))"
proof (cases "plain_word w")
  case True
  then have "shell_word w = w" "w \<noteq> []" "safe_char (hd w)" "safe_char (last w)"
    by (auto simp: shell_word_def word_chars_def plain_word_def comp_def list_all_iff)
  then show ?thesis by (simp add: word_end_def)
qed (simp add: shell_word_def word_chars_def word_end_def)

lemma shell_join_ends:
  "ws \<noteq> [] \<Longrightarrow> shell_join ws \<noteq> [] \<and> word_end (hd (shell_join ws)) \<and> word_end (last (shell_join ws))"
proof (induction ws)
  case (Cons w ws)
  then show ?case
    using shell_word_ends [of w] by (cases ws) (auto simp: shell_join_def join_with_Cons)
qed simp

lemma trim_shell_join: "ws \<noteq> [] \<Longrightarrow> trim (shell_join ws) = shell_join ws"
proof (rule trim_id)
  assume "ws \<noteq> []"
  note ends = shell_join_ends [OF this]
  then show "no_prefix white_space (shell_join ws)" using word_end_white by (cases "shell_join ws") auto
  show "no_prefix (map rev white_space) (rev (shell_join ws))"
    using ends word_end_white by (cases "shell_join ws" rule: rev_cases) auto
qed

lemma boundary_shell_join: "ws \<noteq> [] \<Longrightarrow> boundary (shell_join ws)"
proof -
  have "\<not> continuation_byte SQUOTE" by (simp add: continuation_byte_def SQUOTE_def)
  then show "ws \<noteq> [] \<Longrightarrow> boundary (shell_join ws)"
    using shell_join_ends [of ws] safe_not_continuation by (auto simp: boundary_def word_end_def)
qed

lemma segment_of_chain:
  assumes "closed_text c" "ws \<noteq> []" "\<And>w. w \<in> set ws \<Longrightarrow> boundary w"
  shows "segment_of (c @ '';'' @ shell_join ws) (shell_join ws)"
proof -
  have "shell_join ws \<in> set (split_segments (c @ '';'' @ shell_join ws))"
    using assms by (simp add: split_segments_chain boundary_shell_join split_segments_line del: append_Cons)
  with trim_shell_join [OF assms(2)] shell_join_ends [OF assms(2)] show ?thesis
    unfolding segment_of_def by metis
qed

lemma segment_of_line:
  assumes "ws \<noteq> []" "\<And>w. w \<in> set ws \<Longrightarrow> boundary w"
  shows "segment_of (shell_join ws) (shell_join ws)"
  using assms trim_shell_join [OF assms(1)] shell_join_ends [OF assms(1)]
  by (auto simp: segment_of_def split_segments_line)

end
