(* ===== verification/Command_Properties.thy ===== *)
theory Command_Properties
  imports Command_Quote_Facts
begin

text \<open>
  Properties of the command interceptor: what it refuses, what an allowed deletion can reach, and where it lets
  dangerous commands through.
\<close>

section \<open>What is refused\<close>

definition sample_workspace :: safety_context where
  "sample_workspace = \<lparr>sc_cwd = ''/workspace/project'', sc_workspace_root = ''/workspace/project''\<rparr>"

text \<open>
  C9: the interceptor decides danger. When it is enabled and returns, a command that is not blank and that it allows reaches no dangerous text within nine
  levels of segments, substitutions, nested shells, library calls and shell variables, and a command it refuses
  does reach one.
\<close>

theorem refused_iff_danger:
  assumes "\<not> interceptor_disabled env_var" "trim command \<noteq> []"
    and "is_dangerous_command_with_workspace env_var command ctx = Inr verdict"
  shows "verdict \<noteq> None \<longleftrightarrow> danger (Some ctx) 9 (trim command)"
proof -
  have "scan (trim command) 0 (Some ctx) = Inr verdict"
    using assms by (simp add: is_dangerous_command_with_workspace_def)
  then show ?thesis using scan_passed scan_refused by (cases verdict) blast+
qed

text \<open>Witness of C9: a removal outside the workspace is refused, so it is dangerous.\<close>

theorem refused_iff_danger_witness:
  "is_dangerous_command_with_workspace None ''rm -rf ../outside'' sample_workspace =
     refuse ''recursive/forced file removal (rm)'' \<and> danger (Some sample_workspace) 9 ''rm -rf ../outside''"
proof -
  have refused: "is_dangerous_command_with_workspace None ''rm -rf ../outside'' sample_workspace =
      refuse ''recursive/forced file removal (rm)''" by code_simp
  have "trim ''rm -rf ../outside'' = ''rm -rf ../outside''" "\<not> interceptor_disabled None" by code_simp+
  with refused refused_iff_danger [OF _ _ refused] show ?thesis by simp
qed

lemma overt_chain:
  assumes "closed_text c" "list_all boundary words" "words \<noteq> []" "overt_segment ctx (shell_join words)"
  shows "overt ctx (c @ '';'' @ shell_join words)"
  using segment_of_chain [OF assms(1,3)] assms(2,4) unfolding overt_def by (auto simp: list_all_iff)

text \<open>
  a dangerous command is refused wherever it stands in a chain. After any text that leaves no quote open and a
  semicolon, words quoted for a shell are never allowed if the command that \<open>strip_wrappers\<close> leaves of them is one
  \<open>check_base\<close> refuses, neither \<open>eval\<close> nor a shell called on a script. Which command stands behind a wrapper is what
  \<open>strip_wrappers\<close> makes of it: it does not skip the value of an option it does not know (\<open>timeout -s KILL 5 rm\<close>
  leaves \<open>KILL\<close>).
\<close>

theorem chained_danger_refused:
  assumes "closed_text c" "list_all boundary (word # words)" "base_name word \<noteq> ''eval''"
    and "strip_wrappers (word # words) = first # args" "script_of (base_name first) args = None"
    and "check_base (base_name first) args (shell_join (word # words)) ctx = Some reason"
  shows "scan (c @ '';'' @ shell_join (word # words)) 0 ctx \<noteq> pass"
proof
  assume "scan (c @ '';'' @ shell_join (word # words)) 0 ctx = pass"
  then have "\<not> danger ctx (Suc 8) (c @ '';'' @ shell_join (word # words))" using scan_passed by fastforce
  then have "\<not> overt ctx (c @ '';'' @ shell_join (word # words))" using danger_overt by blast
  moreover have "tokenize (shell_join (word # words)) = Some (word # words)"
    by (rule tokenize_shell_join) (use assms(2) in \<open>auto simp: list_all_iff\<close>)
  then have "overt_segment ctx (shell_join (word # words))" using assms(3-) by (rule overt_base)
  with assms(1,2) have "overt ctx (c @ '';'' @ shell_join (word # words))" by (intro overt_chain) simp_all
  ultimately show False by blast
qed

text \<open>Witness of C13: a forced removal behind \<open>sudo\<close>, after a harmless command.\<close>

theorem chained_danger_refused_witness:
  "shell_join [''sudo'', ''-u'', ''root'', ''rm'', ''-rf'', ''/my data''] =
     ''sudo -u root rm -rf '' @ [SQUOTE] @ ''/my data'' @ [SQUOTE] \<and>
   scan (''echo hi'' @ '';'' @ shell_join [''sudo'', ''-u'', ''root'', ''rm'', ''-rf'', ''/my data'']) 0 None \<noteq> pass"
proof
  show "scan (''echo hi'' @ '';'' @ shell_join [''sudo'', ''-u'', ''root'', ''rm'', ''-rf'', ''/my data'']) 0 None \<noteq> pass"
  proof (rule chained_danger_refused)
    show "closed_text ''echo hi''" by code_simp
    show "list_all boundary [''sudo'', ''-u'', ''root'', ''rm'', ''-rf'', ''/my data'']" by code_simp
    show "base_name ''sudo'' \<noteq> ''eval''" by code_simp
    show "strip_wrappers [''sudo'', ''-u'', ''root'', ''rm'', ''-rf'', ''/my data''] = [''rm'', ''-rf'', ''/my data'']"
      by code_simp
    show "script_of (base_name ''rm'') [''-rf'', ''/my data''] = None" by code_simp
    show "check_base (base_name ''rm'') [''-rf'', ''/my data'']
      (shell_join [''sudo'', ''-u'', ''root'', ''rm'', ''-rf'', ''/my data'']) None =
      Some ''recursive/forced file removal (rm)''" by code_simp
  qed
qed code_simp

section \<open>Nested shells\<close>

text \<open>The words before a script that hand it to a shell, and a command handed over through several of them.\<close>

definition shell_calls :: "string list list" where
  "shell_calls = [''eval''] # concat (map (\<lambda>sh. map (\<lambda>c. [sh, c]) [''-c'', ''-lc'', ''-lic'', ''-ic'']) NESTED_SHELLS)"

fun handed_over :: "string list list \<Rightarrow> string \<Rightarrow> string" where
  "handed_over [] command = command"
| "handed_over (call # calls) command = shell_join (call @ [handed_over calls command])"

lemma shell_calls_boundary: "call \<in> set shell_calls \<Longrightarrow> call \<noteq> [] \<and> list_all boundary call"
proof -
  have "list_all (\<lambda>call. call \<noteq> [] \<and> list_all boundary call) shell_calls" by code_simp
  then show "call \<in> set shell_calls \<Longrightarrow> call \<noteq> [] \<and> list_all boundary call" by (simp add: list_all_iff)
qed

definition hands_over :: "string list \<Rightarrow> bool" where
  "hands_over call = (case call of
     [w] \<Rightarrow> base_name w = ''eval''
   | [sh, c] \<Rightarrow> base_name sh \<noteq> ''eval'' \<and> base_name sh \<notin> set WRAPPERS \<and> base_name sh \<in> set NESTED_SHELLS \<and>
       c \<in> {''-c'', ''-lc'', ''-lic'', ''-ic''}
   | _ \<Rightarrow> False)"

lemma shell_calls_hand_over: "call \<in> set shell_calls \<Longrightarrow> hands_over call"
proof -
  have "list_all hands_over shell_calls" by code_simp
  then show "call \<in> set shell_calls \<Longrightarrow> hands_over call" by (simp add: list_all_iff)
qed

lemma shell_call_runs:
  assumes "call \<in> set shell_calls" "boundary script"
  shows "runs (shell_join (call @ [script])) 1 script"
proof -
  have words: "call @ [script] \<noteq> []" "\<And>w. w \<in> set (call @ [script]) \<Longrightarrow> boundary w"
    using shell_calls_boundary [OF assms(1)] assms(2) by (auto simp: list_all_iff)
  note segment = segment_of_line [OF words] and tokens = tokenize_shell_join [OF words(2,1)]
  from shell_calls_hand_over [OF assms(1)] consider (eval) w where "call = [w]" "base_name w = ''eval''"
    | (shell) sh c where "call = [sh, c]" "base_name sh \<noteq> ''eval''" "base_name sh \<notin> set WRAPPERS"
      "base_name sh \<in> set NESTED_SHELLS" "c \<in> {''-c'', ''-lc'', ''-lic'', ''-ic''}"
    by (auto simp: hands_over_def simp del: insert_iff split: list.splits)
  then show ?thesis
  proof cases
    case eval
    with runs_eval [OF segment, of w "[script]"] tokens show ?thesis by simp
  next
    case shell
    then have "strip_wrappers (sh # [c, script]) = sh # [c, script]" by (simp add: strip_wrappers.simps)
    moreover from shell have "script_of (base_name sh) [c, script] = Some script" by (simp add: script_of_def)
    ultimately show ?thesis using runs_script [OF segment, of sh "[c, script]"] tokens shell by simp
  qed
qed

lemma handed_over_danger:
  assumes "overt ctx command" "boundary command" "set calls \<subseteq> set shell_calls"
  shows "boundary (handed_over calls command) \<and> danger ctx (Suc (length calls)) (handed_over calls command)"
  using assms(3)
proof (induction calls)
  case Nil
  with assms show ?case by (simp add: danger_overt)
next
  case (Cons call calls)
  then have IH: "boundary (handed_over calls command)" "danger ctx (Suc (length calls)) (handed_over calls command)"
    by simp_all
  have "danger ctx (Suc (Suc (length calls))) (handed_over (call # calls) command)"
    using shell_call_runs [of call "handed_over calls command"] Cons.prems IH danger_runs by fastforce
  then show ?case by (simp add: boundary_shell_join)
qed

text \<open>
  nesting does not hide a dangerous command, up to eight levels. A dangerous command handed over through at
  most eight calls of \<open>eval\<close> or of a shell with \<open>-c\<close>, quoted at every level, is never allowed.
\<close>

theorem nested_danger_refused:
  assumes "overt ctx command" "boundary command" "set calls \<subseteq> set shell_calls" "length calls \<le> 8"
  shows "scan (handed_over calls command) 0 ctx \<noteq> pass"
proof -
  have "danger ctx (Suc (length calls)) (handed_over calls command)"
    using handed_over_danger [OF assms(1-3)] by blast
  then have "danger ctx 9 (handed_over calls command)" by (rule danger_mono) (use assms(4) in simp)
  then show ?thesis using scan_passed by blast
qed

text \<open>An instance: a removal through \<open>bash -c\<close> and \<open>eval\<close>.\<close>

theorem nested_danger_refused_witness:
  "handed_over [[''bash'', ''-c''], [''eval'']] ''reboot'' = ''bash -c '' @ [SQUOTE] @ ''eval reboot'' @ [SQUOTE] \<and>
   scan (handed_over [[''bash'', ''-c''], [''eval'']] ''reboot'') 0 None \<noteq> pass"
proof
  show "scan (handed_over [[''bash'', ''-c''], [''eval'']] ''reboot'') 0 None \<noteq> pass"
  proof (rule nested_danger_refused)
    have "scan ''reboot'' 8 None = refuse (''system power control ('' @ ticked ''reboot'' @ '')'')" by code_simp
    then have "danger None (Suc 0) ''reboot''" using scanner.refused by (simp add: scan_def)
    then show "overt None ''reboot''" by (rule danger_one)
    show "boundary ''reboot''" by code_simp
    show "set [[''bash'', ''-c''], [''eval'']] \<subseteq> set shell_calls" by code_simp
  qed simp
qed code_simp

text \<open>
  Nine levels are one too many: the scan gives up at depth nine and allows what it has not read, although a
  shell runs it.
\<close>

lemma nine_evals_allowed:
  "is_dangerous_command None ''eval eval eval eval eval eval eval eval eval rm -rf /'' = pass \<and>
   is_dangerous_command None ''eval eval eval eval eval eval eval eval rm -rf /'' =
     refuse ''recursive/forced file removal (rm)''"
  by code_simp

section \<open>Quoting\<close>

text \<open>
  the tokenizer reads back any words quoted for a POSIX shell, whatever characters they contain: spaces,
  quotes, backslashes, connectors and bytes beyond ASCII; and it keeps them one segment.
\<close>

theorem quoted_words_read_back:
  assumes "words \<noteq> []" "list_all boundary words"
  shows "tokenize (shell_join words) = Some words \<and> split_segments (shell_join words) = [shell_join words]"
  using assms tokenize_shell_join [of words] split_segments_line [of words] by (auto simp: list_all_iff)

text \<open>An instance: a word with a quote and a connector, and an empty word.\<close>

theorem quoted_words_read_back_witness:
  "tokenize (shell_join [''echo'', ''it'' @ [SQUOTE] @ ''s; rm'', []]) = Some [''echo'', ''it'' @ [SQUOTE] @ ''s; rm'', []] \<and>
   split_segments (shell_join [''echo'', ''it'' @ [SQUOTE] @ ''s; rm'', []]) =
     [shell_join [''echo'', ''it'' @ [SQUOTE] @ ''s; rm'', []]]"
proof -
  have "list_all boundary [''echo'', ''it'' @ [SQUOTE] @ ''s; rm'', []]" by code_simp
  then show ?thesis using quoted_words_read_back [of "[''echo'', ''it'' @ [SQUOTE] @ ''s; rm'', []]"] by blast
qed

section \<open>The workspace exemption\<close>

text \<open>
  C12: an allowed forced or recursive removal stays inside the workspace. Wherever a segment of an allowed line is read
  as \<open>rm\<close>, once \<open>strip_wrappers\<close> has taken its wrappers away, with a recursive or forced flag in short or long form,
  every target of it that is an ordinary Unix path resolves, lexically and component by component from the working
  directory of the request, to the workspace root or below it, up to the case of letters. The targets are read literally:
  a change of directory earlier in the line is not followed, and braces and patterns are not expanded.
\<close>

theorem allowed_removal_stays_inside:
  assumes "is_dangerous_command_with_workspace env_var command ctx = pass" "\<not> interceptor_disabled env_var"
    and "segment_of (trim command) segment" "tokenize segment = Some words"
    and "strip_wrappers words = first # args" "base_name first = ''rm''"
    and "short_flag args (CHR ''r'') \<or> short_flag args (CHR ''f'') \<or> long_flag args ''--recursive'' \<or> long_flag args ''--force''"
    and "unix_context ctx" "path_parts (sc_workspace_root ctx) \<noteq> []"
    and "t \<in> set (posix_removal_targets args)" "plain_target t"
  shows "\<exists>rel. map to_ascii_lowercase (lexical (sc_cwd ctx) t) =
    map to_ascii_lowercase (path_parts (sc_workspace_root ctx)) @ rel"
proof -
  have rm: "''rm'' \<notin> set NESTED_SHELLS" "''rm'' \<notin> set POWERSHELL_SHELLS" "''eval'' \<notin> set WRAPPERS" by code_simp+
  obtain word rest where words: "words = word # rest" using assms(5) by (cases words) (simp_all add: strip_wrappers.simps)
  have word: "base_name word \<noteq> ''eval''"
  proof
    assume "base_name word = ''eval''"
    with rm(3) assms(5,6) show False by (simp add: words strip_wrappers.simps)
  qed
  have "\<forall>raw\<in>set (split_segments []). trim raw = []" by code_simp
  then have "trim command \<noteq> []" using assms(3) unfolding segment_of_def by metis
  then have "scan (trim command) 0 (Some ctx) = pass"
    using assms(1,2) by (simp add: is_dangerous_command_with_workspace_def)
  then have "\<not> danger (Some ctx) (Suc 8) (trim command)" using scan_passed by fastforce
  then have "\<not> overt_segment (Some ctx) segment" using danger_overt assms(3) unfolding overt_def by blast
  then have "check_base ''rm'' args segment (Some ctx) = None"
    using overt_base [where ctx = "Some ctx", OF assms(4) [unfolded words] word assms(5) [unfolded words]] assms(6) rm
    by (cases "check_base ''rm'' args segment (Some ctx)") (auto simp: script_of_def)
  then have "deletion_targets_inside_workspace (posix_removal_targets args) (Some ctx)"
    using assms(7) by (auto simp: check_base_def check_unix_base_def split: option.splits if_splits)
  with assms(10) have "target_inside_workspace t ctx"
    by (simp add: deletion_targets_inside_workspace_def list_all_iff)
  with target_inside_iff [OF assms(8,11,9)] show ?thesis by simp
qed

text \<open>Witness of C12: a removal of a directory below the working directory, behind a wrapper and after another command.\<close>

theorem allowed_removal_stays_inside_witness:
  "is_dangerous_command_with_workspace None ''make; nice rm -v --force cache/../Build'' sample_workspace = pass \<and>
   (\<exists>rel. map to_ascii_lowercase (lexical (sc_cwd sample_workspace) ''cache/../Build'') =
      map to_ascii_lowercase (path_parts (sc_workspace_root sample_workspace)) @ rel)"
proof
  let ?args = "[''-v'', ''--force'', ''cache/../Build'']"
  show passed: "is_dangerous_command_with_workspace None ''make; nice rm -v --force cache/../Build'' sample_workspace = pass"
    by code_simp
  show "\<exists>rel. map to_ascii_lowercase (lexical (sc_cwd sample_workspace) ''cache/../Build'') =
      map to_ascii_lowercase (path_parts (sc_workspace_root sample_workspace)) @ rel"
  proof (rule allowed_removal_stays_inside [OF passed])
    show "\<not> interceptor_disabled None" by code_simp
    show "segment_of (trim ''make; nice rm -v --force cache/../Build'') ''nice rm -v --force cache/../Build''"
      unfolding segment_of_def by code_simp
    show "tokenize ''nice rm -v --force cache/../Build'' = Some (''nice'' # ''rm'' # ?args)" by code_simp
    show "strip_wrappers (''nice'' # ''rm'' # ?args) = ''rm'' # ?args" by code_simp
    show "base_name ''rm'' = ''rm''" by code_simp
    show "short_flag ?args (CHR ''r'') \<or> short_flag ?args (CHR ''f'') \<or> long_flag ?args ''--recursive'' \<or> long_flag ?args ''--force''"
      by code_simp
    show "unix_context sample_workspace" by code_simp
    show "path_parts (sc_workspace_root sample_workspace) \<noteq> []" by code_simp
    show "''cache/../Build'' \<in> set (posix_removal_targets ?args)" by code_simp
    show "plain_target ''cache/../Build''" by code_simp
  qed
qed

section \<open>What is let through\<close>

text \<open>An option of a wrapper that takes a value leaves the value as the base command.\<close>

lemma wrapper_value_hides_command:
  "strip_wrappers [''timeout'', ''-s'', ''KILL'', ''5'', ''rm'', ''-rf'', ''/''] = [''KILL'', ''5'', ''rm'', ''-rf'', ''/''] \<and>
   is_dangerous_command None ''timeout -s KILL 5 rm -rf /'' = pass \<and> is_dangerous_command None ''env -u HOME rm -rf /'' = pass"
  by code_simp

text \<open>The entry \<open>/\<close> of the system paths loses its only character before it is compared.\<close>

lemma root_is_no_system_path:
  "\<not> targets_system_path [''/''] \<and> targets_system_path [''/etc''] \<and>
   is_dangerous_command None ''chmod -R 777 /'' = pass"
  by code_simp

text \<open>A change of directory earlier in the chain does not move the directory targets are resolved from.\<close>

lemma cd_not_followed:
  "is_dangerous_command_with_workspace None ''cd / && rm -rf etc'' sample_workspace = pass"
  by code_simp

text \<open>A brace expansion is read as one relative name.\<close>

lemma braces_not_expanded:
  "is_dangerous_command_with_workspace None ''rm -rf {/etc,x}'' sample_workspace = pass"
  by code_simp

text \<open>
  The index map of the library search counts characters where the search counts bytes: after a character of two
  bytes the call is not found, or the look-up is out of range and the interceptor panics.
\<close>

lemma non_ascii_shifts_library_search:
  "is_dangerous_command None (''os.system('' @ [SQUOTE] @ ''rm -rf /'' @ [SQUOTE] @ '')'') \<noteq> pass \<and>
   is_dangerous_command None ([CHR 0xC3, CHR 0xA9] @ '' os.system('' @ [SQUOTE] @ ''rm -rf /'' @ [SQUOTE] @ '')'') = pass \<and>
   is_dangerous_command None ([CHR 0xC3, CHR 0xA9] @ '' system('') = Inl ()"
  by code_simp

end
