(* ===== verification/JSpace_Scopes.thy ===== *)
theory JSpace_Scopes
  imports Command_Text "HOL-Library.Sublist"
begin

text \<open>
  Scopes of a J-Space contract (\<open>path/src/jspace.rs\<close>): the components of a scope, canonical scopes and scope
  claims, overlap and conflict of claims, and the path trie the matcher compiles scopes into.

  The trie is the code's arena: a list of nodes whose children are indices into it. A \<open>HashMap\<close> of children is the
  list of its entries, a \<open>BTreeSet\<close> of texts the sorted list without duplicates.
\<close>

section \<open>Errors\<close>

record jspace_error =
  je_code :: string
  je_operation :: string
  je_target :: string
  je_detail :: string

definition jspace_err :: "string \<Rightarrow> string \<Rightarrow> string \<Rightarrow> string \<Rightarrow> jspace_error" where
  "jspace_err code operation target detail =
     \<lparr>je_code = code, je_operation = operation, je_target = target, je_detail = detail\<rparr>"

definition display_jspace_error :: "jspace_error \<Rightarrow> string" where
  "display_jspace_error e =
     je_code e @ '': operation='' @ (if je_operation e = [] then ''<none>'' else je_operation e) @
     '' target='' @ (if je_target e = [] then ''<none>'' else je_target e) @ '' detail='' @ je_detail e"

definition JSPACE_EXPANSION_REQUIRED :: string where
  "JSPACE_EXPANSION_REQUIRED = ''JSPACE_EXPANSION_REQUIRED''"

definition KNOWN_OPERATIONS :: "string list" where
  "KNOWN_OPERATIONS =
     [''read'', ''create'', ''modify'', ''delete'', ''command'', ''network'', ''install'', ''system_mutation'']"

section \<open>Components\<close>

definition scope_error :: "string \<Rightarrow> string \<Rightarrow> jspace_error" where
  "scope_error raw detail = jspace_err ''JSPACE_SCOPE_INVALID'' ''admission'' raw detail"

fun collect_components :: "string \<Rightarrow> string list \<Rightarrow> (jspace_error, string list) result" where
  "collect_components raw [] = Inr []"
| "collect_components raw (part # parts) =
     (if part = [] \<or> part = ''.'' then collect_components raw parts
      else if part = ''..''
      then Inl (jspace_err ''JSPACE_PATH_TRAVERSAL'' ''admission'' raw ''scope contains parent traversal'')
      else and_then (collect_components raw parts) (\<lambda>cs. Inr (part # cs)))"

definition scope_components :: "string \<Rightarrow> (jspace_error, string list \<times> bool) result" where
  "scope_components raw =
     (let scope = replace_char BACKSLASH (CHR ''/'') (trim raw);
          recursive = (scope = ''**'' \<or> ends_with scope ''/**'');
          base = (if recursive then (case strip_suffix ''/**'' scope of Some s \<Rightarrow> s | None \<Rightarrow> []) else scope);
          body = (if starts_with base ''./'' then drop 2 base else base)
      in if scope = [] then Inl (scope_error raw ''scope must be non-empty'')
         else if starts_with scope ''/'' \<or> (length scope > 1 \<and> scope ! 1 = CHR '':'')
         then Inl (scope_error raw ''scope must be relative to repo_root'')
         else if CHR ''*'' \<in> set body then Inl (scope_error raw ''only a terminal /** wildcard is supported'')
         else and_then (collect_components raw (split_char (CHR ''/'') body)) (\<lambda>cs. Inr (cs, recursive)))"

section \<open>Canonical scopes\<close>

definition canonical_scope :: "string \<Rightarrow> (jspace_error, string) result" where
  "canonical_scope raw =
     and_then (scope_components raw) (\<lambda>(components, recursive).
     let exact = (if components = [] then ''.'' else join_with ''/'' components)
     in Inr (if recursive then (if components = [] then ''**'' else exact @ ''/**'') else exact))"

definition claim_scope_components :: "string \<Rightarrow> (jspace_error, bool \<times> string list \<times> bool) result" where
  "claim_scope_components raw =
     (let scope = replace_char BACKSLASH (CHR ''/'') (trim raw)
      in if starts_with scope ''/''
         then and_then (scope_components (trim_start_matches [CHR ''/''] scope)) (\<lambda>(components, recursive).
              if components = []
              then Inl (jspace_err ''JSPACE_DOMAIN_ROOT_TOO_BROAD'' ''admission'' raw
                     ''filesystem root cannot be used as a scope claim'')
              else Inr (True, components, recursive))
         else and_then (scope_components scope) (\<lambda>(components, recursive). Inr (False, components, recursive)))"

definition canonical_claim_scope :: "string \<Rightarrow> (jspace_error, string) result" where
  "canonical_claim_scope raw =
     and_then (claim_scope_components raw) (\<lambda>(absolute, components, recursive).
     let joined = join_with ''/'' components;
         exact = (if absolute then ''/'' @ joined else if joined = [] then ''.'' else joined)
     in Inr (if recursive then exact @ ''/**'' else exact))"

definition canonical_scope_set :: "string list \<Rightarrow> (jspace_error, string list) result" where
  "canonical_scope_set values = and_then (try_map canonical_scope values) (\<lambda>scopes. Inr (sorted_list_of_set (set scopes)))"

definition canonical_claim_scope_set :: "string list \<Rightarrow> (jspace_error, string list) result" where
  "canonical_claim_scope_set values =
     and_then (try_map canonical_claim_scope values) (\<lambda>scopes. Inr (sorted_list_of_set (set scopes)))"

record scope_projection =
  sp_read_scopes :: "string list"
  sp_write_scopes :: "string list"

definition canonical_scope_projection :: "string list \<Rightarrow> string list \<Rightarrow> (jspace_error, scope_projection) result" where
  "canonical_scope_projection read_scopes write_scopes =
     and_then (canonical_claim_scope_set read_scopes) (\<lambda>reads.
     and_then (canonical_claim_scope_set write_scopes) (\<lambda>writes.
     Inr \<lparr>sp_read_scopes = reads, sp_write_scopes = writes\<rparr>))"

definition has_wildcard :: "string \<Rightarrow> bool" where
  "has_wildcard target = (\<exists>c\<in>set ''*?[]''. c \<in> set target)"

definition canonical_declared_targets :: "string list \<Rightarrow> (jspace_error, string list) result" where
  "canonical_declared_targets targets =
     (case find has_wildcard targets of
        Some target \<Rightarrow>
          Inl (jspace_err ''JSPACE_TARGET_INVALID'' ''admission'' target
            ''declared targets must be exact paths without wildcards'')
      | None \<Rightarrow> canonical_claim_scope_set targets)"

section \<open>Overlap and conflict\<close>

definition scope_claims_overlap :: "string \<Rightarrow> string \<Rightarrow> (jspace_error, bool) result" where
  "scope_claims_overlap left_scope right_scope =
     and_then (claim_scope_components left_scope) (\<lambda>(left_absolute, left_components, left_recursive).
     and_then (claim_scope_components right_scope) (\<lambda>(right_absolute, right_components, right_recursive).
     if left_absolute \<noteq> right_absolute
     then Inl (jspace_err ''JSPACE_SCOPE_REPRESENTATION_MISMATCH'' ''admission'' left_scope
            ''absolute and repo-relative scope claims cannot be compared losslessly'')
     else if left_components = right_components then Inr True
     else Inr ((left_recursive \<and> prefix left_components right_components) \<or>
               (right_recursive \<and> prefix right_components left_components))))"

text \<open>A loop of \<open>if f(x)? { return Ok(true) }\<close>.\<close>

fun any_ok :: "('a \<Rightarrow> ('e, bool) result) \<Rightarrow> 'a list \<Rightarrow> ('e, bool) result" where
  "any_ok f [] = Inr False"
| "any_ok f (x # xs) = and_then (f x) (\<lambda>b. if b then Inr True else any_ok f xs)"

definition scope_projections_conflict :: "scope_projection \<Rightarrow> scope_projection \<Rightarrow> (jspace_error, bool) result" where
  "scope_projections_conflict left right =
     and_then (any_ok (\<lambda>left_write. any_ok (\<lambda>right_scope. scope_claims_overlap left_write right_scope)
         (sp_read_scopes right @ sp_write_scopes right)) (sp_write_scopes left)) (\<lambda>found.
     if found then Inr True
     else any_ok (\<lambda>right_write. any_ok (\<lambda>left_read. scope_claims_overlap right_write left_read)
            (sp_read_scopes left)) (sp_write_scopes right))"

section \<open>The path trie\<close>

record trie_node =
  tn_children :: "(string \<times> nat) list"
  tn_exact :: bool
  tn_recursive :: bool

type_synonym path_trie = "trie_node list"

definition trie_leaf :: trie_node where
  "trie_leaf = \<lparr>tn_children = [], tn_exact = False, tn_recursive = False\<rparr>"

definition trie_new :: path_trie where
  "trie_new = [trie_leaf]"

fun trie_walk :: "path_trie \<Rightarrow> nat \<Rightarrow> string list \<Rightarrow> path_trie \<times> nat" where
  "trie_walk nodes node_index [] = (nodes, node_index)"
| "trie_walk nodes node_index (component # components) =
     (case map_of (tn_children (nodes ! node_index)) component of
        Some index \<Rightarrow> trie_walk nodes index components
      | None \<Rightarrow>
          let index = length nodes;
              node = nodes ! node_index
          in trie_walk ((nodes @ [trie_leaf])[node_index := node\<lparr>tn_children := (component, index) # tn_children node\<rparr>])
               index components)"

definition trie_insert :: "path_trie \<Rightarrow> string \<Rightarrow> (jspace_error, path_trie) result" where
  "trie_insert nodes raw_scope =
     and_then (scope_components raw_scope) (\<lambda>(components, recursive).
     let (walked, node_index) = trie_walk nodes 0 components;
         node = walked ! node_index
     in Inr (walked[node_index := (if recursive then node\<lparr>tn_recursive := True\<rparr> else node\<lparr>tn_exact := True\<rparr>)]))"

definition relative_parts :: "string \<Rightarrow> string list" where
  "relative_parts relative = filter (\<lambda>part. part \<noteq> []) (split_char (CHR ''/'') relative)"

fun trie_matches_from :: "path_trie \<Rightarrow> nat \<Rightarrow> string list \<Rightarrow> bool" where
  "trie_matches_from nodes node_index [] = tn_exact (nodes ! node_index)"
| "trie_matches_from nodes node_index (component # components) =
     (case map_of (tn_children (nodes ! node_index)) component of
        None \<Rightarrow> False
      | Some index \<Rightarrow> tn_recursive (nodes ! index) \<or> trie_matches_from nodes index components)"

definition trie_matches :: "path_trie \<Rightarrow> string \<Rightarrow> bool" where
  "trie_matches nodes relative =
     (tn_recursive (nodes ! 0) \<or> trie_matches_from nodes 0 (relative_parts relative))"

fun trie_exact_from :: "path_trie \<Rightarrow> nat \<Rightarrow> string list \<Rightarrow> bool" where
  "trie_exact_from nodes node_index [] = tn_exact (nodes ! node_index)"
| "trie_exact_from nodes node_index (component # components) =
     (case map_of (tn_children (nodes ! node_index)) component of
        None \<Rightarrow> False
      | Some index \<Rightarrow> trie_exact_from nodes index components)"

definition trie_matches_exact :: "path_trie \<Rightarrow> string \<Rightarrow> bool" where
  "trie_matches_exact nodes relative = trie_exact_from nodes 0 (relative_parts relative)"

text \<open>The loops of the admission that compile a list of scopes: \<open>for scope in scopes { trie.insert(scope)?; }\<close>.\<close>

definition trie_insert_all :: "path_trie \<Rightarrow> string list \<Rightarrow> (jspace_error, path_trie) result" where
  "trie_insert_all nodes scopes = try_fold trie_insert nodes scopes"

end
