(* ===== verification/JSpace_Json.thy ===== *)
theory JSpace_Json
  imports JSpace_Scopes
begin

text \<open>
  JSON of a J-Space contract (\<open>path/src/jspace.rs\<close>): the canonical text and its digest, the readers of required
  fields and the validators of the fixed ones. An object is the list of its entries, whose keys are distinct.
\<close>

type_synonym json_object = "(string \<times> json) list"

section \<open>Canonical text\<close>

fun code_point :: "string \<Rightarrow> nat" where
  "code_point [a] = of_char a"
| "code_point [a, b] = (of_char a mod 32) * 64 + of_char b mod 64"
| "code_point [a, b, c] = (of_char a mod 16) * 4096 + (of_char b mod 64) * 64 + of_char c mod 64"
| "code_point [a, b, c, d] =
     (of_char a mod 8) * 262144 + (of_char b mod 64) * 4096 + (of_char c mod 64) * 64 + of_char d mod 64"
| "code_point _ = 0"

definition encode_utf16 :: "nat \<Rightarrow> nat list" where
  "encode_utf16 p =
     (if p < 0x10000 then [p] else [0xD800 + (p - 0x10000) div 1024, 0xDC00 + (p - 0x10000) mod 1024])"

definition hex_digit :: "nat \<Rightarrow> char" where
  "hex_digit n = ''0123456789abcdef'' ! (n mod 16)"

definition unicode_escape :: "nat \<Rightarrow> string" where
  "unicode_escape n =
     [BACKSLASH, CHR ''u'', hex_digit (n div 4096), hex_digit (n div 256), hex_digit (n div 16), hex_digit n]"

definition short_escapes :: "(string \<times> string) list" where
  "short_escapes =
     [([DQUOTE], [BACKSLASH, DQUOTE]), ([BACKSLASH], [BACKSLASH, BACKSLASH]), ([CHR 0x08], [BACKSLASH, CHR ''b'']),
      ([CHR 0x0C], [BACKSLASH, CHR ''f'']), ([CHR 0x0A], [BACKSLASH, CHR ''n'']), ([CHR 0x0D], [BACKSLASH, CHR ''r'']),
      ([CHR 0x09], [BACKSLASH, CHR ''t''])]"

definition char_is_control :: "string \<Rightarrow> bool" where
  "char_is_control ch = (code_point ch < 0x20 \<or> 0x7F \<le> code_point ch \<and> code_point ch < 0xA0)"

definition canonical_json_char :: "string \<Rightarrow> string" where
  "canonical_json_char ch =
     (case map_of short_escapes ch of
        Some e \<Rightarrow> e
      | None \<Rightarrow>
          if char_is_control ch then unicode_escape (code_point ch)
          else if code_point ch < 0x80 then ch
          else concat (map unicode_escape (encode_utf16 (code_point ch))))"

definition canonical_json_string :: "string \<Rightarrow> string" where
  "canonical_json_string s = [DQUOTE] @ concat (map canonical_json_char (str_chars s)) @ [DQUOTE]"

function canonical_json :: "externals \<Rightarrow> json \<Rightarrow> string" where
  "canonical_json X JNull = ''null''"
| "canonical_json X (JBool b) = (if b then ''true'' else ''false'')"
| "canonical_json X (JNumber n) = json_number_text X n"
| "canonical_json X (JString s) = canonical_json_string s"
| "canonical_json X (JArray vs) = ''['' @ join_with '','' (map (canonical_json X) vs) @ '']''"
| "canonical_json X (JObject kvs) =
     ''{'' @ join_with '','' (map (\<lambda>(k, v). canonical_json_string k @ '':'' @ canonical_json X v) (sort_key fst kvs)) @ ''}''"
  by pat_completeness auto
termination
  by (relation "measure (\<lambda>(X, v). size v)") (auto simp: size_json_member less_Suc_eq_le size_list_estimation')

definition semantic_sha256 :: "externals \<Rightarrow> json \<Rightarrow> string" where
  "semantic_sha256 X payload = sha256_hex X (canonical_json X payload)"

definition jspace_lower_sha256 :: "string \<Rightarrow> bool" where
  "jspace_lower_sha256 s = (length s = 64 \<and> list_all (\<lambda>c. ascii_digit c \<or> c \<in> set ''abcdef'') s)"

section \<open>Readers of values\<close>

definition as_object :: "json \<Rightarrow> json_object option" where
  "as_object v = (case v of JObject kvs \<Rightarrow> Some kvs | _ \<Rightarrow> None)"

definition as_array :: "json \<Rightarrow> json list option" where
  "as_array v = (case v of JArray vs \<Rightarrow> Some vs | _ \<Rightarrow> None)"

definition as_bool :: "json \<Rightarrow> bool option" where
  "as_bool v = (case v of JBool b \<Rightarrow> Some b | _ \<Rightarrow> None)"

definition as_u64 :: "json \<Rightarrow> u64 option" where
  "as_u64 v = (case v of JNumber (PosInt n) \<Rightarrow> Some n | _ \<Rightarrow> None)"

text \<open>\<open>object.get(key).and_then(Value::as_str)\<close> and its companions, and \<open>object.contains_key(key)\<close>.\<close>

definition get_str :: "json_object \<Rightarrow> string \<Rightarrow> string option" where
  "get_str obj key = Option.bind (map_of obj key) json_as_str"

definition get_bool :: "json_object \<Rightarrow> string \<Rightarrow> bool option" where
  "get_bool obj key = Option.bind (map_of obj key) as_bool"

definition get_object :: "json_object \<Rightarrow> string \<Rightarrow> json_object option" where
  "get_object obj key = Option.bind (map_of obj key) as_object"

definition contains_key :: "json_object \<Rightarrow> string \<Rightarrow> bool" where
  "contains_key obj key = (map_of obj key \<noteq> None)"

text \<open>\<open>object.get(key).cloned().unwrap_or(Value::Null)\<close>.\<close>

definition get_or_null :: "json_object \<Rightarrow> string \<Rightarrow> json" where
  "get_or_null obj key = (case map_of obj key of Some v \<Rightarrow> v | None \<Rightarrow> JNull)"

section \<open>Required fields\<close>

definition malformed :: "string \<Rightarrow> string \<Rightarrow> jspace_error" where
  "malformed key detail = jspace_err ''JSPACE_CONTRACT_MALFORMED'' ''admission'' key detail"

definition required_string :: "json_object \<Rightarrow> string \<Rightarrow> (jspace_error, string) result" where
  "required_string obj key =
     (case get_str obj key of
        Some s \<Rightarrow> if trim s = [] then Inl (malformed key ''required non-empty string is missing'') else Inr s
      | None \<Rightarrow> Inl (malformed key ''required non-empty string is missing''))"

definition required_usize :: "json_object \<Rightarrow> string \<Rightarrow> (jspace_error, nat) result" where
  "required_usize obj key =
     (case Option.bind (map_of obj key) as_u64 of
        Some n \<Rightarrow> Inr (unat n)
      | None \<Rightarrow> Inl (malformed key ''required non-negative integer is missing''))"

definition required_string_array :: "json_object \<Rightarrow> string \<Rightarrow> (jspace_error, string list) result" where
  "required_string_array obj key =
     (case map_of obj key of
        Some (JArray vs) \<Rightarrow> try_map (\<lambda>v. ok_or (malformed key ''array member is not a string'') (json_as_str v)) vs
      | _ \<Rightarrow> Inl (malformed key ''required array of strings is missing''))"

definition operation_set :: "string list \<Rightarrow> string \<Rightarrow> (jspace_error, string set) result" where
  "operation_set ops field =
     and_then (try_each (\<lambda>v. reject_if (v \<notin> set KNOWN_OPERATIONS \<and> v \<notin> {''network'', ''install'', ''system_mutation''})
         (jspace_err ''JSPACE_UNKNOWN_OPERATION'' ''admission'' field (''unknown operation '' @ v))) ops)
       (\<lambda>_. Inr (set ops))"

definition validate_object_field :: "json_object \<Rightarrow> string \<Rightarrow> (jspace_error, unit) result" where
  "validate_object_field obj key = reject_if (get_object obj key = None) (malformed key ''required object is missing'')"

definition validate_string_array_field :: "json_object \<Rightarrow> string \<Rightarrow> (jspace_error, unit) result" where
  "validate_string_array_field obj key = and_then (required_string_array obj key) (\<lambda>_. Inr ())"

definition validate_object_array_field :: "json_object \<Rightarrow> string \<Rightarrow> (jspace_error, unit) result" where
  "validate_object_array_field obj key =
     (case map_of obj key of
        Some (JArray vs) \<Rightarrow> reject_if (\<not> list_all (\<lambda>v. as_object v \<noteq> None) vs) (malformed key ''array member is not an object'')
      | _ \<Rightarrow> Inl (malformed key ''required object array is missing''))"

definition validate_expansion_rule :: "json_object \<Rightarrow> (jspace_error, unit) result" where
  "validate_expansion_rule obj =
     (case get_object obj ''expansion'' of
        None \<Rightarrow> Inl (malformed ''expansion'' ''expansion rule is missing'')
      | Some expansion \<Rightarrow>
          reject_if (get_str expansion ''mode'' \<noteq> Some ''exact_target_only'' \<or>
              get_str expansion ''error_code'' \<noteq> Some JSPACE_EXPANSION_REQUIRED \<or>
              get_bool expansion ''mutation_on_expansion'' \<noteq> Some False)
            (jspace_err ''JSPACE_EXPANSION_RULE_INVALID'' ''admission'' ''expansion'' ''exact-target no-mutation rule is invalid''))"

end
