(* ===== verification/JSpace_Paths.thy ===== *)
theory JSpace_Paths
  imports JSpace_Json Patch_Files Command_Path_Facts
begin

text \<open>
  Paths and the operating system as the J-Space matcher uses them (\<open>path/src/jspace.rs\<close>,
  \<open>path/src/lib.rs\<close>, on a Unix target): the components of a path, the files' metadata, the normalised root and the
  resolution of a path whose last part may not exist yet.

  A path is its text. Files are a state of any type with the operations of \<open>std::fs\<close> that the code calls; one check
  reads one state.
\<close>

section \<open>Components\<close>

datatype path_component = RootDir | CurDir | ParentDir | Normal string

definition named_component :: "string \<Rightarrow> path_component" where
  "named_component s = (if s = ''..'' then ParentDir else Normal s)"

definition path_components :: "string \<Rightarrow> path_component list" where
  "path_components p =
     (if is_absolute p then [RootDir] else if hd (split_char (CHR ''/'') p) = ''.'' then [CurDir] else []) @
     map named_component (path_segments p)"

fun component_text :: "path_component \<Rightarrow> string" where
  "component_text RootDir = ''/''"
| "component_text CurDir = ''.''"
| "component_text ParentDir = ''..''"
| "component_text (Normal s) = s"

fun is_normal :: "path_component \<Rightarrow> bool" where
  "is_normal (Normal s) = True"
| "is_normal c = False"

definition path_starts_with :: "string \<Rightarrow> string \<Rightarrow> bool" where
  "path_starts_with p q = prefix (path_components q) (path_components p)"

definition path_same :: "string \<Rightarrow> string \<Rightarrow> bool" where
  "path_same p q = (path_components p = path_components q)"

definition strip_path :: "string \<Rightarrow> string \<Rightarrow> string option" where
  "strip_path root p = (if path_starts_with p root then path_strip_prefix root p else None)"

definition os_path_join :: "string \<Rightarrow> string \<Rightarrow> string" where
  "os_path_join root raw = (if is_absolute raw then raw else unix_join root raw)"

definition components_file_name :: "path_component list \<Rightarrow> string option" where
  "components_file_name cs = (if cs = [] then None else case last cs of Normal s \<Rightarrow> Some s | _ \<Rightarrow> None)"

definition path_file_name :: "string \<Rightarrow> string option" where
  "path_file_name p = components_file_name (path_components p)"

text \<open>\<open>Path::parent\<close> of a path with a file name: the text up to the last part.\<close>

definition path_pop :: "string \<Rightarrow> string" where
  "path_pop p =
     (let raw = split_char (CHR ''/'') p;
          body = drop_trailing (\<lambda>s. \<not> yields s) (butlast (drop_trailing (\<lambda>s. \<not> yields s) raw))
      in if body \<noteq> [] then join_with ''/'' body
         else if is_absolute p then ''/'' else if hd raw = ''.'' then ''.'' else [])"

text \<open>The prefixes of a path that a loop over its components builds with \<open>push\<close>.\<close>

fun push_prefixes :: "string \<Rightarrow> path_component list \<Rightarrow> string list" where
  "push_prefixes current [] = []"
| "push_prefixes current (c # cs) =
     (let next = os_path_join current (component_text c) in next # push_prefixes next cs)"

section \<open>The operating system\<close>

text \<open>
  Beside \<open>std::fs\<close>: \<open>js_openat\<close> opens a name below a descriptor (or the working directory) for reading without
  following a link, as a directory when its flag is set; \<open>js_fread\<close> reads at most so many bytes of a descriptor;
  \<open>js_json_entries\<close> is serde\_json's reading of a text with the entries of an object in order, repeated keys kept,
  and \<open>js_slice_error\<close>, \<open>js_serde_error\<close> the texts of its errors on a text and on a value;
  \<open>js_debug_list\<close> is the \<open>Debug\<close> text of a list of strings.
\<close>

datatype file_kind = FileRegular | FileDirectory | FileSymlink | FileOther

record file_meta =
  fm_kind :: file_kind
  fm_len :: nat
  fm_mode :: nat
  fm_device :: u64
  fm_inode :: u64
  fm_times :: "int list"

record stat_error = io_error +
  io_not_found :: bool

record 'f jos = "'f os" +
  js_is_dir :: "'f \<Rightarrow> string \<Rightarrow> bool"
  js_is_file :: "'f \<Rightarrow> string \<Rightarrow> bool"
  js_symlink_metadata :: "'f \<Rightarrow> string \<Rightarrow> (stat_error, file_meta) result"
  js_metadata :: "'f \<Rightarrow> string \<Rightarrow> (stat_error, file_meta) result"
  js_openat :: "'f \<Rightarrow> nat option \<Rightarrow> string \<Rightarrow> bool \<Rightarrow> (string, nat) result"
  js_fstat :: "'f \<Rightarrow> nat \<Rightarrow> (string, file_meta) result"
  js_fread :: "'f \<Rightarrow> nat \<Rightarrow> nat \<Rightarrow> (string, string) result"
  js_statat :: "'f \<Rightarrow> nat \<Rightarrow> string \<Rightarrow> (string, file_meta) result"
  js_readlinkat :: "'f \<Rightarrow> nat \<Rightarrow> string \<Rightarrow> (string, string) result"
  js_env :: "string \<Rightarrow> string option"
  js_json_entries :: "string \<Rightarrow> json option"
  js_slice_error :: "string \<Rightarrow> string"
  js_serde_error :: "json \<Rightarrow> string"
  js_debug_list :: "string list \<Rightarrow> string"

section \<open>Normalised paths\<close>

definition strip_verbatim_prefix :: "string \<Rightarrow> string" where
  "strip_verbatim_prefix p =
     (case strip_prefix ([BACKSLASH, BACKSLASH] @ ''?'' @ [BACKSLASH] @ ''UNC'' @ [BACKSLASH]) p of
        Some rest \<Rightarrow> [BACKSLASH, BACKSLASH] @ rest
      | None \<Rightarrow>
          (case strip_prefix ([BACKSLASH, BACKSLASH] @ ''?'' @ [BACKSLASH]) p of Some rest \<Rightarrow> rest | None \<Rightarrow> p))"

definition normalize_path :: "'f jos \<Rightarrow> 'f \<Rightarrow> string \<Rightarrow> string" where
  "normalize_path F f p = strip_verbatim_prefix (case os_canonicalize F f p of Inr q \<Rightarrow> q | Inl _ \<Rightarrow> p)"

definition normalized_root :: "'f jos \<Rightarrow> 'f \<Rightarrow> string \<Rightarrow> (jspace_error, string) result" where
  "normalized_root F f p =
     (if \<not> os_exists F f p \<or> \<not> js_is_dir F f p
      then Inl (jspace_err ''JSPACE_ROOT_INVALID'' ''admission'' p ''repo root must be an existing directory'')
      else Inr (normalize_path F f p))"

lemma dropWhile_idem: "dropWhile P (dropWhile P xs) = dropWhile P xs"
  by (induction xs) auto

lemma drop_trailing_filter: "filter (\<lambda>s. \<not> P s) (drop_trailing P xs) = filter (\<lambda>s. \<not> P s) xs"
proof -
  have "filter (\<lambda>s. \<not> P s) (dropWhile P ys) = filter (\<lambda>s. \<not> P s) ys" for ys by (induction ys) auto
  then have "filter (\<lambda>s. \<not> P s) (rev (dropWhile P (rev xs))) = rev (filter (\<lambda>s. \<not> P s) (rev xs))"
    by (simp only: rev_filter [symmetric])
  then show ?thesis by (simp add: drop_trailing_def rev_filter)
qed

lemma drop_trailing_last: "drop_trailing P xs \<noteq> [] \<Longrightarrow> \<not> P (last (drop_trailing P xs))"
  unfolding drop_trailing_def by (metis hd_dropWhile last_rev rev.simps(1))

lemma set_drop_trailing: "x \<in> set (drop_trailing P xs) \<Longrightarrow> x \<in> set xs"
  unfolding drop_trailing_def by (metis set_dropWhileD set_rev)

lemma path_segments_join:
  assumes "body \<noteq> []" "\<And>s. s \<in> set body \<Longrightarrow> CHR ''/'' \<notin> set s"
  shows "path_segments (join_with ''/'' body) = filter yields body"
  using assms by (simp add: path_segments_def split_join)

text \<open>Dropping the last part of a path drops its last segment.\<close>

lemma path_segments_pop: "path_segments (path_pop p) = butlast (path_segments p)"
proof -
  let ?raw = "split_char (CHR ''/'') p" and ?P = "\<lambda>s. \<not> yields s"
  let ?trim = "drop_trailing ?P ?raw" and ?body = "drop_trailing ?P (butlast (drop_trailing ?P ?raw))"
  have segs: "path_segments p = filter yields ?trim" using drop_trailing_filter [of ?P ?raw] by (simp add: path_segments_def)
  have body: "filter yields ?body = filter yields (butlast ?trim)" using drop_trailing_filter [of ?P "butlast ?trim"] by simp
  have but: "filter yields (butlast ?trim) = butlast (path_segments p)"
  proof (cases "?trim = []")
    case False
    then obtain ys y where t: "?trim = ys @ [y]" by (cases ?trim rule: rev_cases) auto
    moreover have "yields y" using drop_trailing_last [of ?P ?raw] t by simp
    ultimately show ?thesis unfolding segs by simp
  qed (simp add: segs)
  show ?thesis
  proof (cases "?body = []")
    case True
    then have "butlast (path_segments p) = []" using body but by simp
    moreover have "path_segments ''/'' = []" "path_segments ''.'' = []" "path_segments [] = []"
      by (simp_all add: path_segments_def yields_def)
    ultimately show ?thesis using True by (simp add: path_pop_def Let_def)
  next
    case False
    have "CHR ''/'' \<notin> set s" if "s \<in> set ?body" for s
      using that set_drop_trailing [of s ?P "butlast ?trim"] set_drop_trailing [of s ?P ?raw] in_set_butlastD
        split_char_free by fast
    then have "path_segments (join_with ''/'' ?body) = filter yields ?body" by (rule path_segments_join [OF False])
    with False body but show ?thesis by (simp add: path_pop_def Let_def)
  qed
qed

lemma file_name_segments:
  assumes "path_file_name p = Some n"
  shows "path_segments p \<noteq> [] \<and> last (path_segments p) = n"
proof -
  have "path_components p \<noteq> []" "last (path_components p) = Normal n"
    using assms by (auto simp: path_file_name_def components_file_name_def split: if_splits path_component.splits)
  then show ?thesis
    by (cases "path_segments p = []")
      (auto simp: path_components_def last_map named_component_def split: if_splits)
qed

text \<open>\<open>while !existing.exists()\<close>: the existing ancestor and the missing names, innermost first.\<close>

function boundary_loop ::
  "'f jos \<Rightarrow> 'f \<Rightarrow> string \<Rightarrow> string list \<Rightarrow> string \<Rightarrow> (string, string \<times> string list) result" where
  "boundary_loop F f path missing existing =
     (if os_exists F f existing then Inr (existing, missing)
      else case path_file_name existing of
        None \<Rightarrow> Inl (''no existing ancestor for '' @ path)
      | Some name \<Rightarrow> boundary_loop F f path (missing @ [name]) (path_pop existing))"
  by pat_completeness auto
termination
proof (relation "measure (\<lambda>(F, f, path, missing, existing). length (path_segments existing))")
  fix F f path missing existing name
  assume "path_file_name existing = Some name"
  then have "path_segments existing \<noteq> []" using file_name_segments by blast
  then show "((F, f, path, missing @ [name], path_pop existing), F, f, path, missing, existing)
      \<in> measure (\<lambda>(F, f, path, missing, existing). length (path_segments existing))"
    by (simp add: path_segments_pop)
qed simp

declare boundary_loop.simps [simp del]

definition resolve_existing_boundary :: "'f jos \<Rightarrow> 'f \<Rightarrow> string \<Rightarrow> (string, string) result" where
  "resolve_existing_boundary F f path =
     and_then (boundary_loop F f path [] path) (\<lambda>(existing, missing).
     and_then (map_err (\<lambda>e. ''failed to canonicalize '' @ existing @ '': '' @ io_text e) (os_canonicalize F f existing)) (\<lambda>base.
     Inr (normalize_path F f (foldl os_path_join base (rev missing)))))"

fun symlink_among :: "'f jos \<Rightarrow> 'f \<Rightarrow> string \<Rightarrow> string list \<Rightarrow> (jspace_error, bool) result" where
  "symlink_among F f path [] = Inr False"
| "symlink_among F f path (p # ps) =
     (case js_symlink_metadata F f p of
        Inr meta \<Rightarrow> if fm_kind meta = FileSymlink then Inr True else symlink_among F f path ps
      | Inl e \<Rightarrow>
          Inl (jspace_err ''JSPACE_DOMAIN_ROOT_INVALID'' ''admission'' path
            (''failed to inspect effect domain component: '' @ io_text e)))"

definition has_symlink_component :: "'f jos \<Rightarrow> 'f \<Rightarrow> string \<Rightarrow> (jspace_error, bool) result" where
  "has_symlink_component F f path = symlink_among F f path (push_prefixes [] (path_components path))"

definition rooted_scope :: "string \<Rightarrow> string \<Rightarrow> (jspace_error, string) result" where
  "rooted_scope root relative_scope =
     and_then (canonical_scope relative_scope) (\<lambda>scope.
     canonical_claim_scope
       (if scope = ''.'' then root
        else if scope = ''**'' then root @ ''/**''
        else case strip_suffix ''/**'' scope of
          Some base \<Rightarrow> os_path_join root base @ ''/**''
        | None \<Rightarrow> os_path_join root scope))"

end
