(* ===== verification/JSpace_Mapped.thy ===== *)
theory JSpace_Mapped
  imports JSpace_Paths
begin

text \<open>
  Mapped source reads (\<open>path/src/mapped_source_read.rs\<close>, on a Unix target): the binding of one logical pointer
  to a file outside the repository, derived from the contract on disk and compared with it again before each use.
  An error is its code and its detail.
\<close>

type_synonym mapped_error = "string \<times> string"

definition display_mapped_error :: "mapped_error \<Rightarrow> string" where
  "display_mapped_error e = fst e @ '': '' @ snd e"

record file_system_identity =
  fi_device :: u64
  fi_inode :: u64

record mapped_binding =
  mb_schema_version :: string
  mb_contract_path :: string
  mb_contract_sha256 :: string
  mb_contract_identity :: file_system_identity
  mb_repo_identity :: file_system_identity
  mb_requested_logical_path :: string
  mb_logical_path :: string
  mb_logical_namespace :: string
  mb_alias_path :: string
  mb_alias_link_text :: string
  mb_alias_identity :: file_system_identity
  mb_alias_parent_identity :: file_system_identity
  mb_physical_root :: string
  mb_physical_root_identity :: file_system_identity
  mb_physical_path :: string

definition BINDING_SCHEMA :: string where
  "BINDING_SCHEMA = ''dcf_mapped_source_read_binding_v1''"

definition CONTRACT_PATH :: string where
  "CONTRACT_PATH = ''config/contracts/dcf_v2_contract.json''"

definition MAX_CONTRACT_BYTES :: nat where
  "MAX_CONTRACT_BYTES = 64 * 1024"

section \<open>Serialisation\<close>

definition strict_object :: "string list \<Rightarrow> json \<Rightarrow> json_object option" where
  "strict_object names v =
     Option.bind (as_object v) (\<lambda>obj. if list_all (\<lambda>(k, _). k \<in> set names) obj then Some obj else None)"

definition identity_of_value :: "json \<Rightarrow> file_system_identity option" where
  "identity_of_value v =
     Option.bind (strict_object [''device'', ''inode''] v) (\<lambda>obj.
     Option.bind (Option.bind (map_of obj ''device'') as_u64) (\<lambda>d.
     Option.bind (Option.bind (map_of obj ''inode'') as_u64) (\<lambda>i.
     Some \<lparr>fi_device = d, fi_inode = i\<rparr>)))"

definition identity_to_value :: "file_system_identity \<Rightarrow> json" where
  "identity_to_value i = JObject [(''device'', json_u64 (fi_device i)), (''inode'', json_u64 (fi_inode i))]"

definition binding_fields :: "string list" where
  "binding_fields = [''schema_version'', ''contract_path'', ''contract_sha256'', ''contract_identity'', ''repo_identity'',
     ''requested_logical_path'', ''logical_path'', ''logical_namespace'', ''alias_path'', ''alias_link_text'',
     ''alias_identity'', ''alias_parent_identity'', ''physical_root'', ''physical_root_identity'', ''physical_path'']"

definition binding_of_value :: "json \<Rightarrow> mapped_binding option" where
  "binding_of_value v =
     Option.bind (strict_object binding_fields v) (\<lambda>obj.
     let str = get_str obj; identity = (\<lambda>k. Option.bind (map_of obj k) identity_of_value)
     in case (str ''schema_version'', str ''contract_path'', str ''contract_sha256'', identity ''contract_identity'',
          identity ''repo_identity'', str ''requested_logical_path'', str ''logical_path'', str ''logical_namespace'',
          str ''alias_path'', str ''alias_link_text'', identity ''alias_identity'', identity ''alias_parent_identity'',
          str ''physical_root'', identity ''physical_root_identity'', str ''physical_path'') of
        (Some a, Some b, Some c, Some d, Some e, Some g, Some h, Some i, Some j, Some k, Some l, Some m, Some n,
         Some p, Some q) \<Rightarrow>
          Some \<lparr>mb_schema_version = a, mb_contract_path = b, mb_contract_sha256 = c, mb_contract_identity = d,
            mb_repo_identity = e, mb_requested_logical_path = g, mb_logical_path = h, mb_logical_namespace = i,
            mb_alias_path = j, mb_alias_link_text = k, mb_alias_identity = l, mb_alias_parent_identity = m,
            mb_physical_root = n, mb_physical_root_identity = p, mb_physical_path = q\<rparr>
      | _ \<Rightarrow> None)"

definition binding_to_value :: "mapped_binding \<Rightarrow> json" where
  "binding_to_value b = JObject
     [(''schema_version'', JString (mb_schema_version b)), (''contract_path'', JString (mb_contract_path b)),
      (''contract_sha256'', JString (mb_contract_sha256 b)),
      (''contract_identity'', identity_to_value (mb_contract_identity b)),
      (''repo_identity'', identity_to_value (mb_repo_identity b)),
      (''requested_logical_path'', JString (mb_requested_logical_path b)), (''logical_path'', JString (mb_logical_path b)),
      (''logical_namespace'', JString (mb_logical_namespace b)), (''alias_path'', JString (mb_alias_path b)),
      (''alias_link_text'', JString (mb_alias_link_text b)),
      (''alias_identity'', identity_to_value (mb_alias_identity b)),
      (''alias_parent_identity'', identity_to_value (mb_alias_parent_identity b)),
      (''physical_root'', JString (mb_physical_root b)),
      (''physical_root_identity'', identity_to_value (mb_physical_root_identity b)),
      (''physical_path'', JString (mb_physical_path b))]"

section \<open>Paths\<close>

definition canonical_relative :: "string \<Rightarrow> bool" where
  "canonical_relative raw = (raw \<noteq> [] \<and> length raw \<le> MAX_CONTRACT_BYTES \<and> BACKSLASH \<notin> set raw \<and>
     \<not> list_ex char_is_control (str_chars raw) \<and> \<not> has_wildcard raw \<and>
     \<not> list_ex (\<lambda>part. part \<in> {[], ''.'', ''..''}) (split_char (CHR ''/'') raw))"

definition mapped_relative_parts :: "string \<Rightarrow> (mapped_error, string list) result" where
  "mapped_relative_parts raw =
     (if \<not> canonical_relative raw
      then Inl (''MAPPED_SOURCE_READ_PATH_INVALID'', ''canonical nonempty relative path required'')
      else Inr (split_char (CHR ''/'') raw))"

definition absolute_parts :: "string \<Rightarrow> (mapped_error, string list) result" where
  "absolute_parts path =
     (case strip_prefix ''/'' path of
        None \<Rightarrow> Inl (''MAPPED_SOURCE_READ_PATH_INVALID'', ''canonical absolute directory required'')
      | Some rest \<Rightarrow> mapped_relative_parts rest)"

definition mapped_field :: "json \<Rightarrow> string \<Rightarrow> (mapped_error, string) result" where
  "mapped_field v name =
     ok_or (''MAPPED_SOURCE_READ_CONTRACT_INVALID'', ''missing string '' @ name) (Option.bind (json_get v name) json_as_str)"

text \<open>The visitor of \<open>UnambiguousJson\<close>: a value in which some object repeats a key is refused.\<close>

function unambiguous_json :: "json \<Rightarrow> bool" where
  "unambiguous_json (JArray vs) = (\<forall>v\<in>set vs. unambiguous_json v)"
| "unambiguous_json (JObject kvs) = (distinct (map fst kvs) \<and> (\<forall>(k, v)\<in>set kvs. unambiguous_json v))"
| "unambiguous_json JNull = True"
| "unambiguous_json (JBool b) = True"
| "unambiguous_json (JNumber n) = True"
| "unambiguous_json (JString s) = True"
  by pat_completeness auto
termination
  by (relation "measure size") (auto simp: size_json_member less_Suc_eq_le size_list_estimation')

definition parse_unambiguous :: "'f jos \<Rightarrow> string \<Rightarrow> (mapped_error, json) result" where
  "parse_unambiguous F bytes =
     (case js_json_entries F bytes of
        Some v \<Rightarrow> if unambiguous_json v then Inr v else Inl (''MAPPED_SOURCE_READ_CONTRACT_INVALID'', js_slice_error F bytes)
      | None \<Rightarrow> Inl (''MAPPED_SOURCE_READ_CONTRACT_INVALID'', js_slice_error F bytes))"

section \<open>Descriptors\<close>

definition file_identity :: "'f jos \<Rightarrow> 'f \<Rightarrow> nat \<Rightarrow> (mapped_error, file_system_identity) result" where
  "file_identity F f fd =
     and_then (map_err (\<lambda>cause. (''MAPPED_SOURCE_READ_PATH_INVALID'', cause)) (js_fstat F f fd)) (\<lambda>meta.
     Inr \<lparr>fi_device = fm_device meta, fi_inode = fm_inode meta\<rparr>)"

definition open_directory_at :: "'f jos \<Rightarrow> 'f \<Rightarrow> nat \<Rightarrow> string \<Rightarrow> (mapped_error, nat) result" where
  "open_directory_at F f parent part =
     map_err (\<lambda>cause. (''MAPPED_SOURCE_READ_PATH_INVALID'', ''directory '' @ part @ '': '' @ cause))
       (js_openat F f (Some parent) part True)"

definition open_absolute_directory :: "'f jos \<Rightarrow> 'f \<Rightarrow> string \<Rightarrow> (mapped_error, nat) result" where
  "open_absolute_directory F f path =
     and_then (absolute_parts path) (\<lambda>parts.
     and_then (map_err (\<lambda>cause. (''MAPPED_SOURCE_READ_PATH_INVALID'', cause)) (js_openat F f None ''/'' True)) (\<lambda>root.
     try_fold (open_directory_at F f) root parts))"

fun open_file_below :: "'f jos \<Rightarrow> 'f \<Rightarrow> nat \<Rightarrow> string list \<Rightarrow> (mapped_error, nat) result" where
  "open_file_below F f directory [] = Inl (''MAPPED_SOURCE_READ_PATH_INVALID'', ''empty suffix'')"
| "open_file_below F f directory [part] =
     map_err (\<lambda>cause. (''MAPPED_SOURCE_READ_TARGET_INVALID'', cause)) (js_openat F f (Some directory) part False)"
| "open_file_below F f directory (part # parts) =
     and_then (open_directory_at F f directory part) (\<lambda>d. open_file_below F f d parts)"

definition open_relative_file :: "'f jos \<Rightarrow> 'f \<Rightarrow> nat \<Rightarrow> string \<Rightarrow> (mapped_error, nat) result" where
  "open_relative_file F f root relative = and_then (mapped_relative_parts relative) (open_file_below F f root)"

definition read_contract :: "'f jos \<Rightarrow> 'f \<Rightarrow> nat \<Rightarrow> (mapped_error, string \<times> file_system_identity) result" where
  "read_contract F f repo =
     (let invalid = (\<lambda>cause. (''MAPPED_SOURCE_READ_CONTRACT_INVALID'', cause));
          changed = (\<lambda>detail. (''MAPPED_SOURCE_READ_BINDING_CHANGED'', detail));
          too_large = (''MAPPED_SOURCE_READ_CONTRACT_TOO_LARGE'', ''contract byte limit'');
          stamp = (\<lambda>m. (fm_len m, fm_times m))
      in and_then (open_relative_file F f repo CONTRACT_PATH) (\<lambda>file.
         and_then (file_identity F f file) (\<lambda>identity.
         and_then (map_err invalid (js_fstat F f file)) (\<lambda>meta.
         and_then (reject_if (fm_kind meta \<noteq> FileRegular) (invalid ''contract is not a regular file'')) (\<lambda>_.
         and_then (reject_if (fm_len meta > MAX_CONTRACT_BYTES) too_large) (\<lambda>_.
         and_then (map_err invalid (js_fread F f file (MAX_CONTRACT_BYTES + 1))) (\<lambda>bytes.
         and_then (reject_if (length bytes > MAX_CONTRACT_BYTES) too_large) (\<lambda>_.
         and_then (file_identity F f file) (\<lambda>again.
         and_then (reject_if (again \<noteq> identity) (changed ''contract descriptor identity'')) (\<lambda>_.
         and_then (map_err invalid (js_fstat F f file)) (\<lambda>after.
         and_then (reject_if (stamp meta \<noteq> stamp after) (changed ''contract changed during read'')) (\<lambda>_.
         and_then (open_relative_file F f repo CONTRACT_PATH) (\<lambda>reopened.
         and_then (file_identity F f reopened) (\<lambda>identity'.
         and_then (reject_if (identity' \<noteq> identity) (changed ''contract path identity'')) (\<lambda>_.
         Inr (bytes, identity))))))))))))))))"

section \<open>Deriving the binding\<close>

text \<open>The ancestor of the physical root that an alias of the first parts of the namespace has to point at.\<close>

fun pop_descendants :: "string \<Rightarrow> string list \<Rightarrow> (mapped_error, string) result" where
  "pop_descendants expected [] = Inr expected"
| "pop_descendants expected (d # ds) =
     (if path_file_name expected \<noteq> Some d
      then Inl (''MAPPED_SOURCE_READ_ALIAS_INVALID'', ''namespace suffix does not match physical root'')
      else pop_descendants (path_pop expected) ds)"

type_synonym alias_found = "string \<times> string \<times> file_system_identity \<times> file_system_identity"

definition alias_at ::
  "'f jos \<Rightarrow> 'f \<Rightarrow> string \<Rightarrow> string list \<Rightarrow> nat \<Rightarrow> nat \<Rightarrow> string \<Rightarrow> file_meta \<Rightarrow> (mapped_error, alias_found) result" where
  "alias_at F f physical_root namespace_parts index directory part earlier =
     (let invalid = (\<lambda>cause. (''MAPPED_SOURCE_READ_ALIAS_INVALID'', cause));
          same = (\<lambda>a b. fm_device a = fm_device b \<and> fm_inode a = fm_inode b \<and> fm_mode a = fm_mode b)
      in and_then (map_err invalid (js_readlinkat F f directory part)) (\<lambda>link_text.
         and_then (pop_descendants physical_root (rev (drop (index + 1) namespace_parts))) (\<lambda>expected.
         and_then (absolute_parts expected) (\<lambda>_.
         and_then (reject_if (\<not> path_same link_text expected \<or> link_text \<noteq> expected)
             (invalid ''link text is not the contract-derived namespace ancestor'')) (\<lambda>_.
         and_then (map_err invalid (js_statat F f directory part)) (\<lambda>after.
         and_then (reject_if (\<not> same earlier after)
             (''MAPPED_SOURCE_READ_BINDING_CHANGED'', ''alias changed during inspection'')) (\<lambda>_.
         and_then (file_identity F f directory) (\<lambda>parent.
         Inr (join_with ''/'' (take (index + 1) namespace_parts), link_text,
           \<lparr>fi_device = fm_device earlier, fi_inode = fm_inode earlier\<rparr>, parent)))))))))"

fun find_alias ::
  "'f jos \<Rightarrow> 'f \<Rightarrow> string \<Rightarrow> string list \<Rightarrow> nat \<Rightarrow> nat \<Rightarrow> string list \<Rightarrow> (mapped_error, alias_found option) result" where
  "find_alias F f physical_root namespace_parts index directory [] = Inr None"
| "find_alias F f physical_root namespace_parts index directory (part # parts) =
     and_then (map_err (\<lambda>cause. (''MAPPED_SOURCE_READ_ALIAS_INVALID'', cause)) (js_statat F f directory part)) (\<lambda>earlier.
     case fm_kind earlier of
       FileDirectory \<Rightarrow>
         and_then (open_directory_at F f directory part) (\<lambda>d.
           find_alias F f physical_root namespace_parts (index + 1) d parts)
     | FileSymlink \<Rightarrow>
         and_then (alias_at F f physical_root namespace_parts index directory part earlier) (\<lambda>found. Inr (Some found))
     | _ \<Rightarrow> Inl (''MAPPED_SOURCE_READ_ALIAS_INVALID'', ''namespace ancestor is not directory or declared alias''))"

definition active_contract :: "json \<Rightarrow> (mapped_error, bool) result" where
  "active_contract contract =
     and_then (mapped_field contract ''schema_version'') (\<lambda>schema.
     if schema \<noteq> ''dcf_v2_contract_v1'' then Inr False else
     and_then (mapped_field contract ''status'') (\<lambda>status.
     if status \<noteq> ''active'' then Inr False else
     and_then (mapped_field contract ''authority_effect'') (\<lambda>effect.
     if effect \<noteq> ''none'' then Inr False else
     Inr (Option.bind (json_get contract ''no_apply'') as_bool = Some True))))"

definition derive_observed ::
  "externals \<Rightarrow> 'f jos \<Rightarrow> 'f \<Rightarrow> string \<Rightarrow> nat \<Rightarrow> string \<Rightarrow> file_system_identity \<Rightarrow> string \<Rightarrow> (mapped_error, mapped_binding) result" where
  "derive_observed X F f repo_root repo bytes contract_identity requested =
     (let invalid = (\<lambda>detail. (''MAPPED_SOURCE_READ_CONTRACT_INVALID'', detail))
      in and_then (reject_if (length bytes > MAX_CONTRACT_BYTES)
             (''MAPPED_SOURCE_READ_CONTRACT_TOO_LARGE'', ''contract byte limit'')) (\<lambda>_.
         and_then (parse_unambiguous F bytes) (\<lambda>contract.
         and_then (active_contract contract) (\<lambda>active.
         and_then (reject_if (\<not> active) (invalid ''active no-apply DCF contract required'')) (\<lambda>_.
         and_then (ok_or (invalid ''runtime missing'') (json_get contract ''runtime'')) (\<lambda>runtime.
         and_then (ok_or (invalid ''storage cutover missing'') (json_get contract ''two_tier_storage_cutover'')) (\<lambda>cutover.
         and_then (mapped_field runtime ''namespace'') (\<lambda>namespace.
         and_then (mapped_relative_parts namespace) (\<lambda>namespace_parts.
         and_then (mapped_field cutover ''logical_runtime_namespace'') (\<lambda>logical_namespace.
         and_then (reject_if (logical_namespace \<noteq> namespace) (invalid ''logical namespace mismatch'')) (\<lambda>_.
         and_then (mapped_field runtime ''current_pointer'') (\<lambda>logical_path.
         and_then (mapped_relative_parts logical_path) (\<lambda>_.
         and_then (ok_or (invalid ''pointer is outside namespace'') (strip_path namespace logical_path)) (\<lambda>suffix.
         and_then (mapped_relative_parts suffix) (\<lambda>_.
         and_then (if starts_with requested ''/'' then absolute_parts requested else mapped_relative_parts requested) (\<lambda>_.
         and_then (reject_if (requested \<noteq> logical_path \<and> \<not> path_same requested (os_path_join repo_root logical_path))
             (''MAPPED_SOURCE_READ_REQUEST_NOT_EXACT'', ''only configured current_pointer is eligible'')) (\<lambda>_.
         and_then (mapped_field cutover ''target_physical_runtime_root'') (\<lambda>physical_root.
         and_then (absolute_parts physical_root) (\<lambda>_.
         and_then (reject_if (path_starts_with physical_root repo_root)
             (invalid ''physical materialization must be outside repo'')) (\<lambda>_.
         and_then (open_absolute_directory F f physical_root) (\<lambda>physical.
         and_then (file_identity F f physical) (\<lambda>physical_identity.
         and_then (find_alias F f physical_root namespace_parts 0 repo namespace_parts) (\<lambda>found.
         and_then (ok_or (''MAPPED_SOURCE_READ_ALIAS_INVALID'', ''mapped namespace has no declared ancestor alias'') found)
           (\<lambda>(alias_path, link_text, alias_identity, alias_parent).
         and_then (file_identity F f repo) (\<lambda>repo_identity.
         Inr \<lparr>mb_schema_version = BINDING_SCHEMA, mb_contract_path = CONTRACT_PATH, mb_contract_sha256 = sha256_hex X bytes,
           mb_contract_identity = contract_identity, mb_repo_identity = repo_identity,
           mb_requested_logical_path = requested, mb_logical_path = logical_path, mb_logical_namespace = namespace,
           mb_alias_path = alias_path, mb_alias_link_text = link_text, mb_alias_identity = alias_identity,
           mb_alias_parent_identity = alias_parent, mb_physical_root = physical_root,
           mb_physical_root_identity = physical_identity, mb_physical_path = os_path_join physical_root suffix\<rparr>
         )))))))))))))))))))))))))"

definition derive_binding ::
  "externals \<Rightarrow> 'f jos \<Rightarrow> 'f \<Rightarrow> string \<Rightarrow> string \<Rightarrow> string \<Rightarrow> string \<Rightarrow> (mapped_error, mapped_binding) result" where
  "derive_binding X F f repo_root contract_bytes expected requested =
     (let mismatch = (\<lambda>detail. (''MAPPED_SOURCE_READ_CONTRACT_SHA_MISMATCH'', detail))
      in and_then (reject_if (length contract_bytes > MAX_CONTRACT_BYTES)
             (''MAPPED_SOURCE_READ_CONTRACT_TOO_LARGE'', ''contract byte limit'')) (\<lambda>_.
         and_then (reject_if (length expected \<noteq> 64 \<or>
               \<not> list_all (\<lambda>c. ascii_digit c \<or> c \<in> set ''abcdefABCDEF'') expected \<or>
               \<not> eq_ignore_ascii_case (sha256_hex X contract_bytes) expected) (mismatch ''supplied contract pin'')) (\<lambda>_.
         and_then (open_absolute_directory F f repo_root) (\<lambda>repo.
         and_then (read_contract F f repo) (\<lambda>(observed, contract_identity).
         and_then (reject_if (observed \<noteq> contract_bytes) (mismatch ''on-disk contract bytes'')) (\<lambda>_.
         derive_observed X F f repo_root repo contract_bytes contract_identity requested))))))"

definition validate_binding :: "externals \<Rightarrow> 'f jos \<Rightarrow> 'f \<Rightarrow> mapped_binding \<Rightarrow> string \<Rightarrow> (mapped_error, unit) result" where
  "validate_binding X F f b repo_root =
     and_then (open_absolute_directory F f repo_root) (\<lambda>repo.
     and_then (read_contract F f repo) (\<lambda>(bytes, identity).
     and_then (reject_if (sha256_hex X bytes \<noteq> mb_contract_sha256 b)
         (''MAPPED_SOURCE_READ_CONTRACT_SHA_MISMATCH'', ''on-disk contract changed'')) (\<lambda>_.
     and_then (derive_observed X F f repo_root repo bytes identity (mb_requested_logical_path b)) (\<lambda>observed.
     reject_if (observed \<noteq> b)
       (''MAPPED_SOURCE_READ_BINDING_CHANGED'', ''descriptor does not match current binding'')))))"

section \<open>Opening\<close>

definition open_bound_target :: "'f jos \<Rightarrow> 'f \<Rightarrow> mapped_binding \<Rightarrow> (mapped_error, nat) result" where
  "open_bound_target F f b =
     (let changed = (\<lambda>detail. (''MAPPED_SOURCE_READ_BINDING_CHANGED'', detail))
      in and_then (open_absolute_directory F f (mb_physical_root b)) (\<lambda>physical_root.
         and_then (file_identity F f physical_root) (\<lambda>identity.
         and_then (reject_if (identity \<noteq> mb_physical_root_identity b) (changed ''physical root changed before open'')) (\<lambda>_.
         and_then (ok_or (changed ''logical suffix'') (strip_path (mb_logical_namespace b) (mb_logical_path b))) (\<lambda>suffix.
         and_then (open_relative_file F f physical_root suffix) (\<lambda>file.
         and_then (map_err (\<lambda>cause. (''MAPPED_SOURCE_READ_TARGET_INVALID'', cause)) (js_fstat F f file)) (\<lambda>meta.
         and_then (reject_if (fm_kind meta \<noteq> FileRegular)
             (''MAPPED_SOURCE_READ_NOT_REGULAR_FILE'', ''exact pointer is not a regular file'')) (\<lambda>_.
         Inr file))))))))"

definition guard_revalidate ::
  "externals \<Rightarrow> 'f jos \<Rightarrow> 'f \<Rightarrow> mapped_binding \<Rightarrow> nat \<Rightarrow> string \<Rightarrow> (mapped_error, unit) result" where
  "guard_revalidate X F f b file repo_root =
     and_then (validate_binding X F f b repo_root) (\<lambda>_.
     and_then (open_bound_target F f b) (\<lambda>current.
     and_then (file_identity F f current) (\<lambda>now.
     and_then (file_identity F f file) (\<lambda>opened.
     and_then (reject_if (now \<noteq> opened)
         (''MAPPED_SOURCE_READ_BINDING_CHANGED'', ''exact pointer descriptor was replaced'')) (\<lambda>_.
     validate_binding X F f b repo_root)))))"

definition open_read_only ::
  "externals \<Rightarrow> 'f jos \<Rightarrow> 'f \<Rightarrow> mapped_binding \<Rightarrow> string \<Rightarrow> (mapped_error, mapped_binding \<times> nat) result" where
  "open_read_only X F f b repo_root =
     and_then (validate_binding X F f b repo_root) (\<lambda>_.
     and_then (open_bound_target F f b) (\<lambda>file.
     and_then (guard_revalidate X F f b file repo_root) (\<lambda>_.
     Inr (b, file))))"

end
