(* ===== verification/JSpace_Command.thy ===== *)
theory JSpace_Command
  imports JSpace_Scopes
begin

text \<open>
  Command lines of a J-Space contract (\<open>path/src/jspace.rs\<close>): command types, the shell line of a command entry and
  the strict argument parser.
\<close>

section \<open>Command types\<close>

definition normalize_command_type :: "string \<Rightarrow> string" where
  "normalize_command_type raw =
     (let kind = replace_char (CHR ''-'') (CHR ''_'') (to_ascii_lowercase (trim raw))
      in if kind \<in> {''bash'', ''zsh'', ''shell'', ''shells'', ''shell_command'', ''shll'', ''shall''} then ''shell_command''
         else if kind \<in> {''web_discover'', ''web_search'', ''web_fetch''} then ''web_discover''
         else if kind \<in> {''generate_media'', ''image_gen'', ''generate_image''} then ''generate_media''
         else if kind \<in> {''read_media'', ''view_media'', ''inspect_media''} then ''read_media''
         else kind)"

definition is_known_command_type :: "string \<Rightarrow> bool" where
  "is_known_command_type kind =
     (kind \<in> {''shell_command'', ''bash'', ''zsh'', ''apply_patch'', ''planning'', ''task_status'', ''web_discover'',
        ''generate_media'', ''read_media'', ''source_read''})"

section \<open>Shell lines\<close>

text \<open>A field of the parsed entry under its first name or its second, as a text that is not blank.\<close>

definition entry_text :: "json option \<Rightarrow> string \<Rightarrow> string \<Rightarrow> string option" where
  "entry_text parsed name other =
     (case parsed of
        Some (JObject kvs) \<Rightarrow>
          (case (case map_of kvs name of Some v \<Rightarrow> Some v | None \<Rightarrow> map_of kvs other) of
             Some (JString s) \<Rightarrow> if trim s = [] then None else Some (trim s)
           | _ \<Rightarrow> None)
      | _ \<Rightarrow> None)"

definition shell_command_parts :: "externals \<Rightarrow> string \<Rightarrow> string \<times> string option" where
  "shell_command_parts X raw =
     (let parsed = json_parse X raw
      in (case entry_text parsed ''command'' ''cmd'' of Some c \<Rightarrow> c | None \<Rightarrow> trim raw,
          entry_text parsed ''workdir'' ''cwd''))"

section \<open>Arguments\<close>

datatype argv_quote = QuoteNone | QuoteSingle | QuoteDouble

definition argv_error :: "string \<Rightarrow> string \<Rightarrow> jspace_error" where
  "argv_error raw detail = jspace_err ''JSPACE_COMMAND_SYNTAX_UNSAFE'' ''command'' raw detail"

definition argv_control :: "string \<Rightarrow> bool" where
  "argv_control ch = (ch \<in> {[CHR 0x00], [CR], [LF]})"

definition argv_denied :: "string \<Rightarrow> bool" where
  "argv_denied ch = (ch \<in> {'';'', ''&'', ''|'', ''<'', ''>'', ''('', '')'', ''$'', [BACKTICK], ''#'', ''*'', ''?'',
     ''['', '']'', ''{'', ''}'', ''~''})"

fun argv_loop ::
  "string \<Rightarrow> argv_quote \<Rightarrow> string list \<Rightarrow> string \<Rightarrow> bool \<Rightarrow> string list \<Rightarrow> (jspace_error, string list) result" where
  "argv_loop raw q argv token started [] =
     (if q \<noteq> QuoteNone then Inl (argv_error raw ''unterminated shell quote is invalid'')
      else if started then Inr (argv @ [token])
      else if argv = [] then Inl (argv_error raw ''command must contain an executable'')
      else Inr argv)"
| "argv_loop raw q argv token started (ch # chars) =
     (if argv_control ch then Inl (argv_error raw ''control bytes and multiline shell commands are denied'')
      else case q of
        QuoteSingle \<Rightarrow>
          if ch = [SQUOTE] then argv_loop raw QuoteNone argv token started chars
          else argv_loop raw QuoteSingle argv (token @ ch) started chars
      | QuoteDouble \<Rightarrow>
          if ch = [DQUOTE] then argv_loop raw QuoteNone argv token started chars
          else if ch = [BACKSLASH]
          then (case chars of
                  [] \<Rightarrow> Inl (argv_error raw ''trailing escape is invalid'')
                | escaped # rest \<Rightarrow> argv_loop raw QuoteDouble argv (token @ escaped) started rest)
          else if ch = ''$'' \<or> ch = [BACKTICK]
          then Inl (argv_error raw ''shell expansion and command substitution are denied'')
          else argv_loop raw QuoteDouble argv (token @ ch) started chars
      | QuoteNone \<Rightarrow>
          if is_whitespace ch
          then (if started then argv_loop raw QuoteNone (argv @ [token]) [] False chars
                else argv_loop raw QuoteNone argv token False chars)
          else if ch = [SQUOTE] then argv_loop raw QuoteSingle argv token True chars
          else if ch = [DQUOTE] then argv_loop raw QuoteDouble argv token True chars
          else if ch = [BACKSLASH]
          then (case chars of
                  [] \<Rightarrow> Inl (argv_error raw ''trailing escape is invalid'')
                | escaped # rest \<Rightarrow>
                    if argv_control escaped then Inl (argv_error raw ''escaped control bytes are denied'')
                    else argv_loop raw QuoteNone argv (token @ escaped) True rest)
          else if argv_denied ch
          then Inl (argv_error raw ''shell control, expansion, redirection, comments, and globbing are denied'')
          else argv_loop raw QuoteNone argv (token @ ch) True chars)"

definition parse_shell_argv :: "string \<Rightarrow> (jspace_error, string list) result" where
  "parse_shell_argv raw =
     (if trim raw = [] then Inl (argv_error raw ''command must be non-empty'')
      else argv_loop raw QuoteNone [] [] False (str_chars raw))"

end
