(* ===== verification/JSpace_Matcher.thy ===== *)
theory JSpace_Matcher
  imports JSpace_Mapped JSpace_Command
begin

text \<open>
  The compiled contract and its checks of paths (\<open>JSpaceMatcher\<close> and \<open>EffectCapabilityMatcher\<close> of
  \<open>path/src/jspace.rs\<close>). A \<open>HashSet\<close> is a set, the index of the templates the list of its entries.
\<close>

section \<open>Data\<close>

definition JSPACE_SCHEMA_VERSION :: string where
  "JSPACE_SCHEMA_VERSION = ''jspace_contract_v3''"

definition JSPACE_SINGLE_ROOT_SCHEMA_VERSION :: string where
  "JSPACE_SINGLE_ROOT_SCHEMA_VERSION = ''jspace_contract_v2''"

definition JSPACE_LEGACY_SCHEMA_VERSION :: string where
  "JSPACE_LEGACY_SCHEMA_VERSION = ''jspace_contract_v1''"

record command_target =
  ct_domain_id :: "string option"
  ct_operation :: string
  ct_path :: string
  ct_argv_index :: nat

record command_template =
  tp_argv :: "string list"
  tp_effects :: "string list"
  tp_targets :: "command_target list"

record effect_capability =
  ec_domain_id :: string
  ec_root :: string
  ec_lexical_root :: string
  ec_read_projection :: "string list"
  ec_write_projection :: "string list"
  ec_declared_projection :: "string list"
  ec_read_scopes :: path_trie
  ec_write_scopes :: path_trie
  ec_declared_targets :: path_trie
  ec_allowed_operations :: "string set"

datatype verifier_pin_scope = VerifierOnly

record verifier_pinned_file =
  vp_path :: string
  vp_sha256 :: string
  vp_scope :: "verifier_pin_scope option"

record verifier_command =
  vc_argv :: "string list"
  vc_executable_sha256 :: string
  vc_pinned_files :: "verifier_pinned_file list"
  vc_timeout_seconds :: u64
  vc_scratch_root :: string
  vc_network :: bool
  vc_python_import_roots :: "string list option"
  vc_cwd :: "string option"

record jspace_matcher =
  jm_schema_version :: string
  jm_repo_root :: string
  jm_lexical_repo_root :: string
  jm_content_digest :: string
  jm_authorization_digest :: string
  jm_scope_projection :: scope_projection
  jm_read_scopes :: path_trie
  jm_write_scopes :: path_trie
  jm_declared_targets :: path_trie
  jm_allowed_operations :: "string set"
  jm_denied_operations :: "string set"
  jm_command_templates :: "command_template list"
  jm_command_template_index :: "(string list \<times> nat) list"
  jm_read_commands :: "json option"
  jm_inspect_shell :: "json option"
  jm_parent_shell :: "json option"
  jm_verifier_commands :: "verifier_command list"
  jm_verifier_artifact_root :: "string option"
  jm_source_read :: bool
  jm_mapped_source_reads :: "mapped_binding list"
  jm_directory_source_read :: bool
  jm_effect_capabilities :: "effect_capability list"
  jm_declared_target_projection :: "string list"

section \<open>Operations\<close>

definition denied_detail :: "jspace_matcher \<Rightarrow> string \<Rightarrow> string \<Rightarrow> string" where
  "denied_detail m operation reason =
     (case Option.bind (jm_inspect_shell m) (\<lambda>policy. Option.bind (json_get policy ''evidence_root'') json_as_str) of
        Some root \<Rightarrow>
          if operation \<in> {''create'', ''modify'', ''delete''}
          then reason @ ''; this inspect action writes and edits task-local files with shell lines under '' @ root @
            '' (admitted, not a switched path); repository paths stay read-only''
          else reason
      | None \<Rightarrow> reason)"

definition check_operation :: "jspace_matcher \<Rightarrow> string \<Rightarrow> string \<Rightarrow> (jspace_error, unit) result" where
  "check_operation m operation target =
     (if operation \<notin> set KNOWN_OPERATIONS
      then Inl (jspace_err ''JSPACE_UNKNOWN_OPERATION'' operation target ''operation is not in the shared J-Space schema'')
      else if operation \<in> jm_denied_operations m
      then Inl (jspace_err ''JSPACE_OPERATION_DENIED'' operation target
             (denied_detail m operation ''operation is explicitly denied''))
      else if operation \<notin> jm_allowed_operations m
      then Inl (jspace_err ''JSPACE_OPERATION_DENIED'' operation target
             (denied_detail m operation ''operation is not explicitly allowed''))
      else Inr ())"

section \<open>Targets\<close>

definition resolve_target :: "'f jos \<Rightarrow> 'f \<Rightarrow> jspace_matcher \<Rightarrow> string \<Rightarrow> string \<Rightarrow> (jspace_error, string) result" where
  "resolve_target F f m target operation =
     (if target = [] then Inl (jspace_err ''JSPACE_TARGET_INVALID'' operation [] ''target must be non-empty'')
      else if ParentDir \<in> set (path_components target)
      then Inl (jspace_err ''JSPACE_PATH_TRAVERSAL'' operation target ''parent traversal is not admitted'')
      else
        let lexical = (if is_absolute target then target else os_path_join (jm_repo_root m) target);
            lexical_within_root = (strip_path (jm_repo_root m) lexical \<noteq> None \<or>
              is_absolute target \<and> strip_path (jm_lexical_repo_root m) target \<noteq> None)
        in and_then (map_err (\<lambda>e. jspace_err ''JSPACE_PATH_RESOLUTION_FAILED'' operation target e)
             (resolve_existing_boundary F f lexical)) (\<lambda>resolved.
           case strip_path (jm_repo_root m) resolved of
             None \<Rightarrow>
               Inl (jspace_err (if lexical_within_root then ''JSPACE_SYMLINK_ESCAPE'' else ''JSPACE_PATH_OUTSIDE_ROOT'')
                 operation target (''resolved target is '' @ resolved))
           | Some relative \<Rightarrow> Inr (replace_char BACKSLASH (CHR ''/'') relative)))"

definition domain_target ::
  "'f jos \<Rightarrow> 'f \<Rightarrow> effect_capability \<Rightarrow> string \<Rightarrow> string \<Rightarrow> (jspace_error, string) result" where
  "domain_target F f c target operation =
     (if ParentDir \<in> set (path_components target)
      then Inl (jspace_err ''JSPACE_PATH_TRAVERSAL'' operation target ''parent traversal is not admitted'')
      else
        let lexical_within_root = (strip_path (ec_lexical_root c) target \<noteq> None \<or> strip_path (ec_root c) target \<noteq> None)
        in and_then (map_err (\<lambda>e. jspace_err ''JSPACE_PATH_RESOLUTION_FAILED'' operation target e)
             (resolve_existing_boundary F f target)) (\<lambda>resolved.
           case strip_path (ec_root c) resolved of
             None \<Rightarrow>
               Inl (jspace_err (if lexical_within_root then ''JSPACE_SYMLINK_ESCAPE'' else ''JSPACE_PATH_OUTSIDE_DOMAIN'')
                 operation target (''resolved target is outside effect domain '' @ ec_domain_id c @ '' at '' @ ec_root c))
           | Some relative \<Rightarrow> Inr (replace_char BACKSLASH (CHR ''/'') relative)))"

definition ensure_in_root :: "'f jos \<Rightarrow> 'f \<Rightarrow> jspace_matcher \<Rightarrow> string \<Rightarrow> string \<Rightarrow> (jspace_error, unit) result" where
  "ensure_in_root F f m target operation = and_then (resolve_target F f m target operation) (\<lambda>_. Inr ())"

section \<open>Paths of effect domains\<close>

text \<open>The first domain the target resolves in; a domain it lies outside of is passed over.\<close>

fun match_domain ::
  "'f jos \<Rightarrow> 'f \<Rightarrow> string \<Rightarrow> string \<Rightarrow> string option \<Rightarrow> effect_capability list \<Rightarrow>
   (jspace_error, (effect_capability \<times> string) option) result" where
  "match_domain F f operation target domain_id [] = Inr None"
| "match_domain F f operation target domain_id (c # cs) =
     (if domain_id \<noteq> None \<and> domain_id \<noteq> Some (ec_domain_id c) then match_domain F f operation target domain_id cs
      else case domain_target F f c target operation of
        Inr relative \<Rightarrow> Inr (Some (c, relative))
      | Inl e \<Rightarrow> if je_code e = ''JSPACE_PATH_OUTSIDE_DOMAIN'' then match_domain F f operation target domain_id cs else Inl e)"

definition check_effect_path ::
  "'f jos \<Rightarrow> 'f \<Rightarrow> jspace_matcher \<Rightarrow> string \<Rightarrow> string \<Rightarrow> string option \<Rightarrow> (jspace_error, unit) result" where
  "check_effect_path F f m operation target domain_id =
     (if \<not> is_absolute target
      then Inl (jspace_err ''JSPACE_TARGET_INVALID'' operation target ''multi-domain targets must be exact absolute paths'')
      else if operation \<in> jm_denied_operations m
      then Inl (jspace_err ''JSPACE_OPERATION_DENIED'' operation target ''operation is explicitly denied'')
      else and_then (match_domain F f operation target domain_id (jm_effect_capabilities m)) (\<lambda>matched.
        case matched of
          None \<Rightarrow>
            Inl (jspace_err (if domain_id \<noteq> None then ''JSPACE_DOMAIN_TARGET_MISMATCH'' else ''JSPACE_PATH_OUTSIDE_ROOT'')
              operation target ''target is outside every admitted effect domain'')
        | Some (c, relative) \<Rightarrow>
            if operation \<notin> ec_allowed_operations c
            then Inl (jspace_err ''JSPACE_OPERATION_DENIED'' operation target
                   (''operation is not admitted in effect domain '' @ ec_domain_id c))
            else if \<not> trie_matches (if operation = ''read'' then ec_read_scopes c else ec_write_scopes c) relative
            then Inl (jspace_err JSPACE_EXPANSION_REQUIRED operation target
                   (''target is outside the declared scope for effect domain '' @ ec_domain_id c))
            else if operation \<noteq> ''read'' \<and> \<not> trie_matches (ec_declared_targets c) relative
            then Inl (jspace_err JSPACE_EXPANSION_REQUIRED operation target
                   (''mutation target is not exact in effect domain '' @ ec_domain_id c))
            else Inr ()))"

section \<open>Paths\<close>

definition check_path :: "'f jos \<Rightarrow> 'f \<Rightarrow> jspace_matcher \<Rightarrow> string \<Rightarrow> string \<Rightarrow> (jspace_error, unit) result" where
  "check_path F f m operation target =
     (if jm_schema_version m = JSPACE_SCHEMA_VERSION then check_effect_path F f m operation target None
      else and_then (check_operation m operation target) (\<lambda>_.
        and_then (resolve_target F f m target operation) (\<lambda>relative.
        and_then
          (if operation = ''read'' then Inr (trie_matches (jm_read_scopes m) relative)
           else if operation = ''delete'' \<and> ''delete'' \<notin> jm_allowed_operations m
           then Inl (jspace_err ''JSPACE_DELETE_NOT_GRANTED'' operation target
                  ''delete requires an explicit delete operation grant'')
           else Inr (trie_matches (jm_write_scopes m) relative)) (\<lambda>scope_allowed.
        if \<not> scope_allowed
        then Inl (jspace_err JSPACE_EXPANSION_REQUIRED operation target
               ''exact target is inside the root but outside the declared scope'')
        else if operation \<noteq> ''read'' \<and> \<not> trie_matches (jm_declared_targets m) relative
        then Inl (jspace_err JSPACE_EXPANSION_REQUIRED operation target
               ''mutation target is not one of the exact declared targets'')
        else Inr ()))))"

definition has_declared_patch_target :: "jspace_matcher \<Rightarrow> bool" where
  "has_declared_patch_target m =
     (let writable = (\<lambda>ops. ''create'' \<in> ops \<or> ''modify'' \<in> ops)
      in if jm_schema_version m = JSPACE_SCHEMA_VERSION
         then list_ex (\<lambda>c. writable (ec_allowed_operations c) \<and>
                list_ex (trie_matches (ec_write_scopes c)) (ec_declared_projection c)) (jm_effect_capabilities m)
         else writable (jm_allowed_operations m) \<and>
              list_ex (trie_matches (jm_write_scopes m)) (jm_declared_target_projection m))"

end
