(* ===== verification/JSpace_Checks.thy ===== *)
theory JSpace_Checks
  imports JSpace_Matcher
begin

text \<open>
  The checks of commands and of source reads of the compiled contract (\<open>JSpaceMatcher\<close> of \<open>path/src/jspace.rs\<close>),
  and before them the opt-in grants that admit more than exact templates: directory discovery with pinned \<open>rg\<close> and
  \<open>cat\<close> (\<open>path/src/jspace_read.rs\<close>), the inspection shell (\<open>path/src/jspace_inspect.rs\<close>) and the shell the
  parent runs (\<open>path/src/jspace_parent_shell.rs\<close>).
\<close>

section \<open>Refusals\<close>

definition read_denied :: "string \<Rightarrow> jspace_error" where
  "read_denied detail = jspace_err ''JSPACE_READ_COMMAND_DENIED'' ''read'' [] detail"

fun char_boundary :: "string \<Rightarrow> nat \<Rightarrow> nat" where
  "char_boundary text 0 = 0"
| "char_boundary text (Suc e) =
     (if Suc e < length text \<and> continuation_byte (text ! Suc e) then char_boundary text e else Suc e)"

definition shown :: "string \<Rightarrow> string" where
  "shown text = (if length text \<le> 160 then text else take (char_boundary text 160) text @ ''...'')"

definition denied_operand :: "string \<Rightarrow> string \<Rightarrow> jspace_error" where
  "denied_operand operand detail = jspace_err ''JSPACE_READ_COMMAND_DENIED'' ''read'' (shown operand) detail"

definition bounded_count :: "string \<Rightarrow> bool" where
  "bounded_count v = (v \<noteq> [] \<and> length v \<le> 5 \<and> list_all ascii_digit v \<and> undecimal v \<le> 10000)"

section \<open>The policy of discovery\<close>

definition hidden_component :: "path_component \<Rightarrow> bool" where
  "hidden_component c = starts_with (component_text c) ''.''"

definition valid_read_root :: "string \<Rightarrow> bool" where
  "valid_read_root name = (name \<noteq> [] \<and> \<not> has_wildcard name \<and> CHR 0x00 \<notin> set name \<and> LF \<notin> set name \<and> CR \<notin> set name \<and>
     \<not> is_absolute name \<and> list_all is_normal (path_components name) \<and>
     \<not> list_ex hidden_component (path_components name))"

fun read_roots :: "string list \<Rightarrow> json list \<Rightarrow> (jspace_error, string list) result" where
  "read_roots names [] = Inr names"
| "read_roots names (root # roots) =
     (case json_as_str root of
        None \<Rightarrow> Inl (read_denied ''root must be a string'')
      | Some name \<Rightarrow>
          if \<not> valid_read_root name
          then Inl (read_denied ''roots must be explicit non-hidden relative directories'')
          else if name \<in> set names then Inl (read_denied ''duplicate root'')
          else read_roots (names @ [name]) roots)"

definition ascii_hexdigit :: "char \<Rightarrow> bool" where
  "ascii_hexdigit c = (ascii_digit c \<or> c \<in> set ''abcdefABCDEF'')"

definition executable_identity :: "json_object \<Rightarrow> string \<Rightarrow> (jspace_error, unit) result" where
  "executable_identity obj tool =
     (case get_object obj tool of
        None \<Rightarrow> Inl (read_denied ''missing executable identity'')
      | Some executable \<Rightarrow>
          (case (get_str executable ''path'', get_str executable ''sha256'') of
             (Some path, Some sha) \<Rightarrow>
               if length executable \<noteq> 2 then Inl (read_denied ''executable requires path and sha256'')
               else reject_if (\<not> is_absolute path \<or> length sha \<noteq> 64 \<or> \<not> list_all ascii_hexdigit sha)
                      (read_denied ''invalid executable identity'')
           | _ \<Rightarrow> Inl (read_denied ''executable requires path and sha256'')))"

definition read_validate :: "json \<Rightarrow> (jspace_error, string list) result" where
  "read_validate policy =
     (case as_object policy of
        None \<Rightarrow> Inl (read_denied ''read_commands must be an object'')
      | Some obj \<Rightarrow>
          if length obj \<noteq> 3 \<or> \<not> contains_key obj ''roots'' \<or> \<not> contains_key obj ''rg'' \<or> \<not> contains_key obj ''cat''
          then Inl (read_denied ''read_commands requires roots and pinned rg/cat'')
          else (case Option.bind (map_of obj ''roots'') as_array of
              None \<Rightarrow> Inl (read_denied ''roots must be an array'')
            | Some roots \<Rightarrow>
                if roots = [] \<or> length roots > 8 then Inl (read_denied ''require 1..8 roots'')
                else and_then (read_roots [] roots) (\<lambda>names.
                     and_then (try_each (executable_identity obj) [''rg'', ''cat'']) (\<lambda>_. Inr names))))"

section \<open>Operands\<close>

definition lexical_operand :: "string \<Rightarrow> string \<Rightarrow> string \<Rightarrow> (jspace_error, string) result" where
  "lexical_operand root path operand =
     and_then (ok_or (denied_operand operand ''path outside workspace'') (strip_path root path)) (\<lambda>relative.
     if list_ex (\<lambda>c. \<not> is_normal c \<or> hidden_component c) (path_components relative)
     then Inl (denied_operand operand ''hidden/traversal operands denied'')
     else Inr relative)"

fun no_links_from :: "'f jos \<Rightarrow> 'f \<Rightarrow> string \<Rightarrow> string \<Rightarrow> string \<Rightarrow> string list \<Rightarrow> (jspace_error, string) result" where
  "no_links_from F f root operand current [] = Inr current"
| "no_links_from F f root operand current (p # ps) =
     (case js_symlink_metadata F f p of
        Inl e \<Rightarrow>
          Inl (denied_operand operand (''unavailable operand: '' @
            shown (case strip_path root p of Some missing \<Rightarrow> missing | None \<Rightarrow> p) @ '' '' @
            (if io_not_found e then ''does not exist'' else ''cannot be inspected'')))
      | Inr meta \<Rightarrow>
          if fm_kind meta = FileSymlink then Inl (denied_operand operand ''symlink operand denied'')
          else no_links_from F f root operand p ps)"

definition no_links :: "'f jos \<Rightarrow> 'f \<Rightarrow> string \<Rightarrow> string \<Rightarrow> string \<Rightarrow> (jspace_error, string) result" where
  "no_links F f root relative operand =
     no_links_from F f root operand root (push_prefixes root (path_components relative))"

section \<open>The arguments of the two tools\<close>

definition cat_operands :: "string list \<Rightarrow> (jspace_error, string list) result" where
  "cat_operands argv =
     (let files = (if length argv > 1 \<and> argv ! 1 = ''--'' then drop 2 argv else drop 1 argv)
      in if files = [] \<or> length files > 16 then Inl (read_denied ''cat requires 1..16 files'') else Inr files)"

record rg_state =
  rg_no_config :: bool
  rg_bounded_size :: bool
  rg_files :: bool
  rg_pattern_bytes :: nat

definition rg_init :: rg_state where
  "rg_init = \<lparr>rg_no_config = False, rg_bounded_size = False, rg_files = False, rg_pattern_bytes = 0\<rparr>"

definition rg_plain_flags :: "string list" where
  "rg_plain_flags = [''-n'', ''--line-number'', ''-N'', ''--no-line-number'', ''-l'', ''--files-with-matches'',
     ''--files-without-match'', ''-c'', ''--count'', ''--count-matches'', ''-o'', ''--only-matching'', ''-i'',
     ''--ignore-case'', ''-F'', ''--fixed-strings'', ''-S'', ''--smart-case'', ''-w'', ''--word-regexp'', ''-x'',
     ''--line-regexp'', ''-v'', ''--invert-match'', ''-q'', ''--quiet'', ''--json'', ''--no-heading'', ''-H'',
     ''--with-filename'', ''-I'', ''--no-filename'', ''--column'', ''-b'', ''--byte-offset'', ''--trim'', ''--color=never'']"

definition rg_count_flags :: "string list" where
  "rg_count_flags = [''-A'', ''-B'', ''-C'', ''-m'', ''-d'', ''--after-context'', ''--before-context'', ''--context'',
     ''--max-count'', ''--max-depth'']"

definition rg_count_prefixes :: "string list" where
  "rg_count_prefixes =
     [''--after-context='', ''--before-context='', ''--context='', ''--max-count='', ''--max-depth='']"

definition counted_flag :: "string \<Rightarrow> bool" where
  "counted_flag flag =
     list_ex (\<lambda>p. case strip_prefix p flag of Some v \<Rightarrow> bounded_count v | None \<Rightarrow> False) rg_count_prefixes"

fun rg_options :: "rg_state \<Rightarrow> string list \<Rightarrow> (jspace_error, rg_state \<times> string list) result" where
  "rg_options st [] = Inr (st, [])"
| "rg_options st (arg # args) =
     (if arg = ''--'' then Inr (st, arg # args)
      else if arg = ''--no-config'' then rg_options (st\<lparr>rg_no_config := True\<rparr>) args
      else if arg = ''--max-filesize=1M'' then rg_options (st\<lparr>rg_bounded_size := True\<rparr>) args
      else if arg = ''--files'' then rg_options (st\<lparr>rg_files := True\<rparr>) args
      else if arg \<in> set rg_plain_flags then rg_options st args
      else if arg \<in> set rg_count_flags
      then (case args of
              v # rest \<Rightarrow>
                if bounded_count v then rg_options st rest
                else Inl (denied_operand arg ''context, count and depth options take a number 0..10000'')
            | [] \<Rightarrow> Inl (denied_operand arg ''context, count and depth options take a number 0..10000''))
      else if counted_flag arg then rg_options st args
      else if arg = ''-g'' \<or> arg = ''--glob''
      then (case args of
              glob # rest \<Rightarrow>
                if length glob > 256 then Inl (denied_operand arg ''-g/--glob takes a glob of at most 256 bytes'')
                else rg_options st rest
            | [] \<Rightarrow> Inl (denied_operand arg ''-g/--glob takes a glob of at most 256 bytes''))
      else if arg = ''-e'' \<or> arg = ''--regexp''
      then (case args of
              [] \<Rightarrow> Inl (denied_operand arg ''pattern option requires a value'')
            | pattern # rest \<Rightarrow>
                let bytes = rg_pattern_bytes st + length pattern
                in if pattern = [] \<or> bytes > 2048
                   then Inl (denied_operand arg ''require nonempty patterns totaling at most 2048 bytes'')
                   else rg_options (st\<lparr>rg_pattern_bytes := bytes\<rparr>) rest)
      else Inl (denied_operand arg (''unsupported rg option before --; allowed: match and output options, '' @
             ''-A/-B/-C/-m/-d N and -g GLOB, then -- <pattern> <paths>, or -e/--regexp <pattern> before -- <paths>'')))"

definition rg_operands :: "string list \<Rightarrow> (jspace_error, string list) result" where
  "rg_operands argv =
     and_then (rg_options rg_init (drop 1 argv)) (\<lambda>(st, rest).
     if \<not> rg_no_config st \<or> \<not> rg_bounded_size st \<or> rest = []
     then Inl (read_denied ''rg requires --no-config --max-filesize=1M and --'')
     else if rg_files st \<and> rg_pattern_bytes st > 0
     then Inl (read_denied ''--files cannot be combined with pattern options'')
     else
       let operands = tl rest; pattern_operand = (\<not> rg_files st \<and> rg_pattern_bytes st = 0)
       in if pattern_operand \<and> (operands = [] \<or> hd operands = [] \<or> length (hd operands) > 2048)
          then Inl (read_denied ''require a bounded pattern'')
          else
            let paths = (if pattern_operand then tl operands else operands)
            in if paths = [] \<or> length paths > 16 then Inl (read_denied ''rg requires explicit search paths'') else Inr paths)"

section \<open>The check\<close>

definition policy_text :: "json \<Rightarrow> string \<Rightarrow> string \<Rightarrow> string option" where
  "policy_text policy tool key = Option.bind (json_get policy tool) (\<lambda>t. Option.bind (json_get t key) json_as_str)"

definition pinned_tool :: "json \<Rightarrow> string \<Rightarrow> (jspace_error, string) result" where
  "pinned_tool policy program =
     (case find (\<lambda>tool. policy_text policy tool ''path'' = Some program) [''rg'', ''cat''] of
        Some tool \<Rightarrow> Inr tool
      | None \<Rightarrow>
          (case path_file_name program of
             Some name \<Rightarrow>
               if name = ''rg'' \<or> name = ''cat''
               then Inl (denied_operand program (''use the pinned executable '' @
                      (case policy_text policy name ''path'' of Some p \<Rightarrow> p | None \<Rightarrow> ''<missing>'') @
                      '', not PATH or a shell alias''))
               else Inl (denied_operand program (''discovery runs only the pinned rg and cat; '' @
                      ''tests and other programs run only as declared verifier commands''))
           | None \<Rightarrow> Inl (denied_operand program (''discovery runs only the pinned rg and cat; '' @
                  ''tests and other programs run only as declared verifier commands''))))"

definition same_resolved :: "'f jos \<Rightarrow> 'f \<Rightarrow> string \<Rightarrow> bool" where
  "same_resolved F f p = (case os_canonicalize F f p of Inr q \<Rightarrow> path_same q p | Inl _ \<Rightarrow> False)"

definition check_operand ::
  "'f jos \<Rightarrow> 'f \<Rightarrow> jspace_matcher \<Rightarrow> string \<Rightarrow> string list \<Rightarrow> string \<Rightarrow> string \<Rightarrow> (jspace_error, unit) result" where
  "check_operand F f m tool roots cwd operand =
     (if starts_with operand ''-'' then Inl (denied_operand operand ''stdin/options are not paths'')
      else and_then (lexical_operand (jm_repo_root m) (os_path_join cwd operand) operand) (\<lambda>relative.
        if \<not> list_ex (path_starts_with relative) roots
        then Inl (denied_operand operand (''operand outside discovery roots '' @ js_debug_list F roots))
        else and_then (no_links F f (jm_repo_root m) relative operand) (\<lambda>path.
          and_then (check_path F f m ''read'' path) (\<lambda>_.
          and_then (map_err (\<lambda>_. denied_operand operand ''unavailable operand'') (js_metadata F f path)) (\<lambda>meta.
          if fm_kind meta \<noteq> FileRegular \<and> fm_kind meta \<noteq> FileDirectory
          then Inl (denied_operand operand ''only regular files and directories may be read'')
          else if tool = ''cat'' \<and> fm_kind meta = FileDirectory
          then Inl (denied_operand operand ''cat reads files; list a directory with rg --files'')
          else reject_if (tool = ''cat'' \<and> fm_len meta > 1024 * 1024)
                 (denied_operand operand ''cat reads files up to 1 MiB''))))))"

definition read_check ::
  "externals \<Rightarrow> 'f jos \<Rightarrow> 'f \<Rightarrow> jspace_matcher \<Rightarrow> string list \<Rightarrow> string \<Rightarrow> (jspace_error, unit) result" where
  "read_check X F f m argv cwd =
     and_then (check_operation m ''read'' ''discovery'') (\<lambda>_.
     and_then (ok_or (read_denied ''no discovery grant'') (jm_read_commands m)) (\<lambda>policy.
     and_then (pinned_tool policy (case argv of program # _ \<Rightarrow> program | [] \<Rightarrow> [])) (\<lambda>tool.
     case (policy_text policy tool ''path'', policy_text policy tool ''sha256'') of
       (Some executable, Some expected) \<Rightarrow>
         and_then (map_err (\<lambda>_. read_denied ''executable unavailable'') (os_read F f executable)) (\<lambda>bytes.
         if \<not> same_resolved F f executable \<or> sha256_hex X bytes \<noteq> expected
         then Inl (read_denied ''executable identity changed'')
         else and_then (if tool = ''cat'' then cat_operands argv else rg_operands argv) (\<lambda>paths.
              and_then (read_validate policy) (\<lambda>roots.
              try_each (check_operand F f m tool roots cwd) paths)))
     | _ \<Rightarrow> Inl (read_denied ''missing executable identity''))))"

definition read_check_file ::
  "externals \<Rightarrow> 'f jos \<Rightarrow> 'f \<Rightarrow> jspace_matcher \<Rightarrow> string \<Rightarrow> (jspace_error, unit) result" where
  "read_check_file X F f m target =
     and_then (ok_or (read_denied ''no discovery grant'') (jm_read_commands m)) (\<lambda>policy.
     and_then (ok_or (read_denied ''missing executable identity'') (policy_text policy ''cat'' ''path'')) (\<lambda>executable.
     read_check X F f m [executable, ''--'', target] (jm_repo_root m)))"

section \<open>Shell policies\<close>

text \<open>Both policies have the same fields; they differ in the schema, the networks and the error.\<close>

definition validate_shell_policy ::
  "(string \<Rightarrow> jspace_error) \<Rightarrow> string \<Rightarrow> string \<Rightarrow> string list \<Rightarrow> string \<Rightarrow> json \<Rightarrow> (jspace_error, unit) result" where
  "validate_shell_policy denied name schema networks network_detail policy =
     (case as_object policy of
        None \<Rightarrow> Inl (denied (name @ '' must be an object''))
      | Some obj \<Rightarrow>
          if sort (map fst obj) \<noteq> [''evidence_root'', ''network'', ''profile_sha256'', ''schema_version'']
          then Inl (denied (name @ '' requires schema_version, profile_sha256, evidence_root and network''))
          else if get_str obj ''schema_version'' \<noteq> Some schema
          then Inl (denied (''unsupported '' @ name @ '' schema''))
          else if \<not> jspace_lower_sha256 (case get_str obj ''profile_sha256'' of Some d \<Rightarrow> d | None \<Rightarrow> [])
          then Inl (denied ''profile_sha256 must be a lowercase SHA-256'')
          else if \<not> is_absolute (case get_str obj ''evidence_root'' of Some p \<Rightarrow> p | None \<Rightarrow> [])
          then Inl (denied ''evidence_root must be an absolute path'')
          else reject_if (get_str obj ''network'' \<notin> Some ` set networks) (denied network_detail))"

definition inspect_denied :: "string \<Rightarrow> jspace_error" where
  "inspect_denied detail = jspace_err ''JSPACE_INSPECT_DENIED'' ''command'' ''inspect_shell'' detail"

definition inspect_validate :: "json \<Rightarrow> (jspace_error, unit) result" where
  "inspect_validate policy = validate_shell_policy inspect_denied ''inspect_shell'' ''nokiy_inspect_shell_v1''
     [''loopback'', ''none'', ''inherit''] ''network must be loopback, none or inherit'' policy"

definition check_profile ::
  "externals \<Rightarrow> 'f jos \<Rightarrow> 'f \<Rightarrow> json \<Rightarrow> string option \<Rightarrow> (jspace_error, unit) result" where
  "check_profile X F f policy profile =
     and_then (ok_or (inspect_denied ''inspect_shell policy is incomplete'')
       (Option.bind (json_get policy ''profile_sha256'') json_as_str)) (\<lambda>expected.
     and_then (ok_or (inspect_denied ''inspect sandbox profile is not bound to this process'') profile) (\<lambda>path.
     and_then (map_err (\<lambda>_. inspect_denied ''inspect sandbox profile is unavailable'') (os_read F f path)) (\<lambda>bytes.
     reject_if (sha256_hex X bytes \<noteq> expected)
       (inspect_denied ''inspect sandbox profile digest does not match the contract''))))"

definition check_binding :: "externals \<Rightarrow> 'f jos \<Rightarrow> 'f \<Rightarrow> json \<Rightarrow> (jspace_error, unit) result" where
  "check_binding X F f policy = check_profile X F f policy (js_env F ''TURA_INSPECT_SANDBOX_PROFILE'')"

definition parent_denied :: "string \<Rightarrow> jspace_error" where
  "parent_denied detail = jspace_err ''JSPACE_PARENT_SHELL_DENIED'' ''command'' ''parent_shell'' detail"

definition parent_validate :: "json \<Rightarrow> (jspace_error, unit) result" where
  "parent_validate policy = validate_shell_policy parent_denied ''parent_shell'' ''nokiy_parent_shell_v1''
     [''inherit'', ''none''] ''network must be inherit or none'' policy"

section \<open>Templates\<close>

definition shell_template_matches :: "externals \<Rightarrow> jspace_matcher \<Rightarrow> string \<Rightarrow> bool" where
  "shell_template_matches X m command_line =
     (case parse_shell_argv (fst (shell_command_parts X command_line)) of
        Inr argv \<Rightarrow> map_of (jm_command_template_index m) argv \<noteq> None
      | Inl _ \<Rightarrow> False)"

definition parent_shell_routes :: "externals \<Rightarrow> jspace_matcher \<Rightarrow> string \<Rightarrow> string \<Rightarrow> bool" where
  "parent_shell_routes X m command_type command_line =
     (jm_parent_shell m \<noteq> None \<and> normalize_command_type command_type = ''shell_command'' \<and>
      \<not> shell_template_matches X m command_line)"

definition source_read_enabled :: "jspace_matcher \<Rightarrow> bool" where
  "source_read_enabled m = (jm_source_read m \<or> jm_directory_source_read m)"

section \<open>Source reads\<close>

definition mapped_source_read_binding :: "jspace_matcher \<Rightarrow> string \<Rightarrow> mapped_binding option" where
  "mapped_source_read_binding m target = find (\<lambda>b. target = mb_requested_logical_path b) (jm_mapped_source_reads m)"

definition revalidate_mapped_source_reads ::
  "externals \<Rightarrow> 'f jos \<Rightarrow> 'f \<Rightarrow> jspace_matcher \<Rightarrow> (jspace_error, unit) result" where
  "revalidate_mapped_source_reads X F f m =
     try_each (\<lambda>b. map_err (\<lambda>e. jspace_err ''JSPACE_MAPPED_SOURCE_READ_BINDING_INVALID'' ''read''
         (mb_requested_logical_path b) (display_mapped_error e)) (validate_binding X F f b (jm_repo_root m)))
       (jm_mapped_source_reads m)"

definition exact_read_scope :: "'f jos \<Rightarrow> 'f \<Rightarrow> jspace_matcher \<Rightarrow> string \<Rightarrow> bool" where
  "exact_read_scope F f m target =
     (if jm_schema_version m = JSPACE_SCHEMA_VERSION
      then list_ex (\<lambda>c. ''read'' \<in> ec_allowed_operations c \<and>
             (case domain_target F f c target ''read'' of
                Inr relative \<Rightarrow> trie_matches_exact (ec_read_scopes c) relative | Inl _ \<Rightarrow> False)) (jm_effect_capabilities m)
      else (case resolve_target F f m target ''read'' of
              Inr relative \<Rightarrow> trie_matches_exact (jm_read_scopes m) relative | Inl _ \<Rightarrow> False))"

definition check_source_read ::
  "externals \<Rightarrow> 'f jos \<Rightarrow> 'f \<Rightarrow> jspace_matcher \<Rightarrow> string \<Rightarrow> (jspace_error, unit) result" where
  "check_source_read X F f m target =
     and_then (check_operation m ''command'' ''source_read'') (\<lambda>_.
     if \<not> jm_source_read m
     then (if jm_directory_source_read m then read_check_file X F f m target
           else Inl (jspace_err ''JSPACE_SOURCE_READ_DENIED'' ''read'' target ''source_read is not explicitly granted''))
     else if mapped_source_read_binding m target \<noteq> None
     then and_then (check_operation m ''read'' target) (\<lambda>_. revalidate_mapped_source_reads X F f m)
     else and_then (check_path F f m ''read'' target) (\<lambda>_.
       if exact_read_scope F f m target then Inr ()
       else if jm_directory_source_read m then read_check_file X F f m target
       else Inl (jspace_err JSPACE_EXPANSION_REQUIRED ''read'' target
              ''source_read requires the exact file path in a read scope'')))"

text \<open>The digest pinned for a file: all pins of it agree on one well-formed digest.\<close>

fun pinned_digest :: "string \<Rightarrow> string option \<Rightarrow> verifier_pinned_file list \<Rightarrow> (unit, string option) result" where
  "pinned_digest target digest [] = Inr digest"
| "pinned_digest target digest (pin # pins) =
     (if vp_scope pin \<noteq> None \<or> \<not> path_same (vp_path pin) target then pinned_digest target digest pins
      else let v = to_ascii_lowercase (vp_sha256 pin)
           in if length v \<noteq> 64 \<or> \<not> list_all ascii_hexdigit v \<or> (digest \<noteq> None \<and> digest \<noteq> Some v) then Inl ()
              else pinned_digest target (Some v) pins)"

definition admitted_source_read_digest ::
  "externals \<Rightarrow> 'f jos \<Rightarrow> 'f \<Rightarrow> jspace_matcher \<Rightarrow> string \<Rightarrow> (jspace_error, string) result" where
  "admitted_source_read_digest X F f m relative =
     (let unavailable = jspace_err ''JSPACE_SOURCE_DIGEST_REFERENCE_UNAVAILABLE'' ''read'' relative
            ''requires one admitted exact read-only file pin'';
          overlaps = (\<lambda>scope. case scope_claims_overlap relative scope of Inr b \<Rightarrow> b | Inl _ \<Rightarrow> True)
      in if \<not> jm_source_read m \<or> is_absolute relative \<or> BACKSLASH \<in> set relative \<or>
            \<not> list_all is_normal (path_components relative) \<or>
            relative \<notin> set (sp_read_scopes (jm_scope_projection m)) \<or>
            list_ex overlaps (sp_write_scopes (jm_scope_projection m)) \<or>
            mapped_source_read_binding m relative \<noteq> None
         then Inl unavailable
         else
           let target = os_path_join (jm_repo_root m) relative
           in and_then (check_source_read X F f m target) (\<lambda>_.
              case pinned_digest target None (concat (map vc_pinned_files (jm_verifier_commands m))) of
                Inr (Some digest) \<Rightarrow> Inr digest
              | _ \<Rightarrow> Inl unavailable))"

section \<open>Commands\<close>

definition check_read_search_command ::
  "externals \<Rightarrow> 'f jos \<Rightarrow> 'f \<Rightarrow> jspace_matcher \<Rightarrow> string \<Rightarrow> string \<Rightarrow> (jspace_error, unit) result" where
  "check_read_search_command X F f m command_type command_line =
     (let kind = normalize_command_type command_type;
          denied = jspace_err ''JSPACE_READ_COMMAND_DENIED'' ''read'' ''rg'' ''not a pinned direct rg discovery command''
      in and_then (check_operation m ''command'' kind) (\<lambda>_.
         if kind \<notin> {''shell_command'', ''bash'', ''zsh''} \<or> jm_inspect_shell m \<noteq> None \<or> length command_line > 8192
         then Inl denied
         else and_then (parse_shell_argv command_line) (\<lambda>argv.
              and_then (ok_or denied (jm_read_commands m)) (\<lambda>policy.
              if policy_text policy ''rg'' ''path'' \<noteq> (case argv of program # _ \<Rightarrow> Some program | [] \<Rightarrow> None)
              then Inl denied
              else read_check X F f m argv (jm_repo_root m)))))"

definition check_template ::
  "'f jos \<Rightarrow> 'f \<Rightarrow> jspace_matcher \<Rightarrow> string \<Rightarrow> string option \<Rightarrow> command_template \<Rightarrow> (jspace_error, unit) result" where
  "check_template F f m command workdir template =
     and_then (case workdir of
         Some directory \<Rightarrow> ensure_in_root F f m directory ''command'' | None \<Rightarrow> Inr ()) (\<lambda>_.
     if jm_schema_version m = JSPACE_SCHEMA_VERSION
     then try_each (\<lambda>t. check_effect_path F f m (ct_operation t) (ct_path t) (ct_domain_id t)) (tp_targets template)
     else and_then (try_each (\<lambda>effect. check_operation m effect command) (tp_effects template)) (\<lambda>_.
          try_each (\<lambda>t. check_path F f m (ct_operation t) (ct_path t)) (tp_targets template)))"

definition discovery_cwd ::
  "'f jos \<Rightarrow> 'f \<Rightarrow> jspace_matcher \<Rightarrow> string option \<Rightarrow> (jspace_error, string) result" where
  "discovery_cwd F f m workdir =
     (case workdir of
        Some directory \<Rightarrow>
          and_then (resolve_target F f m directory ''read'') (\<lambda>_.
          Inr (if is_absolute directory then directory else os_path_join (jm_repo_root m) directory))
      | None \<Rightarrow> Inr (jm_repo_root m))"

definition check_shell ::
  "externals \<Rightarrow> 'f jos \<Rightarrow> 'f \<Rightarrow> jspace_matcher \<Rightarrow> string \<Rightarrow> (jspace_error, unit) result" where
  "check_shell X F f m command_line =
     (case jm_inspect_shell m of
        Some policy \<Rightarrow> check_binding X F f policy
      | None \<Rightarrow>
          if jm_parent_shell m \<noteq> None \<and> \<not> shell_template_matches X m command_line then Inr ()
          else (case shell_command_parts X command_line of (command, workdir) \<Rightarrow>
            and_then (parse_shell_argv command) (\<lambda>argv.
            case map_of (jm_command_template_index m) argv of
              None \<Rightarrow>
                if jm_read_commands m \<noteq> None
                then and_then (discovery_cwd F f m workdir) (\<lambda>cwd. read_check X F f m argv cwd)
                else Inl (jspace_err ''JSPACE_COMMAND_DENIED'' ''command'' command
                       ''command does not match an exact admitted argv template'')
            | Some index \<Rightarrow> check_template F f m command workdir (jm_command_templates m ! index))))"

definition check_command ::
  "externals \<Rightarrow> 'f jos \<Rightarrow> 'f \<Rightarrow> jspace_matcher \<Rightarrow> string \<Rightarrow> string \<Rightarrow> (jspace_error, unit) result" where
  "check_command X F f m command_type command_line =
     (let kind = normalize_command_type command_type
      in if \<not> is_known_command_type kind
         then Inl (jspace_err ''JSPACE_UNKNOWN_TOOL'' ''command'' kind ''command type is not in the local J-Space tool set'')
         else if kind \<in> {''apply_patch'', ''planning'', ''task_status''}
         then reject_if (jm_source_read m \<and> kind = ''apply_patch'' \<and> \<not> has_declared_patch_target m)
                (jspace_err ''JSPACE_COMMAND_DENIED'' ''command'' kind ''source_read does not authorize an unscoped apply_patch'')
         else and_then (check_operation m ''command'' kind) (\<lambda>_.
           if kind \<in> {''shell_command'', ''bash'', ''zsh''} then check_shell X F f m command_line
           else if kind = ''source_read''
           then Inl (jspace_err ''JSPACE_SOURCE_READ_INVALID'' ''read'' ''source_read''
                  ''source_read requires an exact target preflight'')
           else if kind = ''web_discover''
           then Inl (jspace_err ''JSPACE_NETWORK_DENIED'' ''network'' kind ''network command is not admitted by J-Space'')
           else if kind = ''generate_media''
           then Inl (jspace_err ''JSPACE_INSTALL_DENIED'' ''install'' kind ''external media command is not admitted by J-Space'')
           else if kind = ''read_media''
           then Inl (jspace_err ''JSPACE_COMMAND_DENIED'' ''command'' kind ''external command is not admitted by J-Space'')
           else Inl (jspace_err ''JSPACE_UNKNOWN_TOOL'' ''command'' kind ''command type is not supported'')))"

definition check_verifier_command :: "jspace_matcher \<Rightarrow> nat \<Rightarrow> (jspace_error, verifier_command) result" where
  "check_verifier_command m index =
     and_then (check_operation m ''command'' ''focused_verifier'') (\<lambda>_.
     if index < length (jm_verifier_commands m) then Inr (jm_verifier_commands m ! index)
     else Inl (jspace_err ''JSPACE_VERIFIER_NOT_GRANTED'' ''command'' (decimal index)
            ''verifier index is not in the admitted exact grant''))"

end
