(* ===== verification/JSpace_Grants.thy ===== *)
theory JSpace_Grants
  imports JSpace_Checks
begin

text \<open>
  The grants of a contract as the admission reads them (\<open>path/src/jspace.rs\<close>): effect domains, command templates and
  source reads; and the digests that bind them, of what the contract authorises and of its whole content, claimed by
  the contract and recomputed at admission.
\<close>

section \<open>Effect domains\<close>

definition path_operation :: "string \<Rightarrow> bool" where
  "path_operation op = (op \<in> {''read'', ''create'', ''modify'', ''delete''})"

definition capabilities_missing :: "string \<Rightarrow> jspace_error" where
  "capabilities_missing detail =
     jspace_err ''JSPACE_EFFECT_CAPABILITIES_MISSING'' ''admission'' ''effect_capabilities'' detail"

definition parse_capability ::
  "'f jos \<Rightarrow> 'f \<Rightarrow> string set \<Rightarrow> string list \<Rightarrow> json \<Rightarrow> (jspace_error, effect_capability) result" where
  "parse_capability F f denied domain_ids v =
     and_then (ok_or (malformed ''effect_capabilities'' ''capability member is not an object'') (as_object v)) (\<lambda>obj.
     and_then (required_string obj ''domain_id'') (\<lambda>domain_id.
     and_then (reject_if (trim domain_id \<noteq> domain_id \<or> domain_id \<in> set domain_ids)
         (jspace_err ''JSPACE_DOMAIN_ID_INVALID'' ''admission'' domain_id
           ''effect domain identity must be unique and whitespace-normalized'')) (\<lambda>_.
     and_then (required_string obj ''root'') (\<lambda>lexical_root.
     and_then (reject_if (\<not> is_absolute lexical_root)
         (jspace_err ''JSPACE_DOMAIN_ROOT_INVALID'' ''admission'' lexical_root ''effect domain root must be absolute'')) (\<lambda>_.
     and_then (has_symlink_component F f lexical_root) (\<lambda>symlink.
     and_then (reject_if symlink
         (jspace_err ''JSPACE_DOMAIN_ROOT_SYMLINK'' ''admission'' lexical_root
           ''effect domain roots must not contain symlink aliases'')) (\<lambda>_.
     and_then (normalized_root F f lexical_root) (\<lambda>root.
     and_then (reject_if (path_components root \<in> {[], [RootDir]})
         (jspace_err ''JSPACE_DOMAIN_ROOT_TOO_BROAD'' ''admission'' root
           ''filesystem root cannot be admitted as an effect domain'')) (\<lambda>_.
     and_then (and_then (required_string_array obj ''read_scopes'') canonical_scope_set) (\<lambda>reads.
     and_then (and_then (required_string_array obj ''write_scopes'') canonical_scope_set) (\<lambda>writes.
     and_then (and_then (required_string_array obj ''declared_targets'') canonical_declared_targets) (\<lambda>declared.
     and_then (and_then (required_string_array obj ''allowed_operations'')
         (\<lambda>ops. operation_set ops ''effect_capabilities.allowed_operations'')) (\<lambda>allowed.
     and_then (reject_if (allowed = {} \<or> (\<exists>op\<in>allowed. \<not> path_operation op \<or> op \<in> denied))
         (jspace_err ''JSPACE_CAPABILITY_PERMISSION_INVALID'' ''admission'' domain_id
           ''effect domain permissions must be non-empty admitted path operations'')) (\<lambda>_.
     and_then (trie_insert_all trie_new reads) (\<lambda>read_trie.
     and_then (trie_insert_all trie_new writes) (\<lambda>write_trie.
     and_then (trie_insert_all trie_new declared) (\<lambda>declared_trie.
     Inr \<lparr>ec_domain_id = domain_id, ec_root = root, ec_lexical_root = lexical_root, ec_read_projection = reads,
       ec_write_projection = writes, ec_declared_projection = declared, ec_read_scopes = read_trie,
       ec_write_scopes = write_trie, ec_declared_targets = declared_trie, ec_allowed_operations = allowed\<rparr>)))))))))))))))))"

fun parse_capabilities ::
  "'f jos \<Rightarrow> 'f \<Rightarrow> string set \<Rightarrow> effect_capability list \<Rightarrow> json list \<Rightarrow> (jspace_error, effect_capability list) result" where
  "parse_capabilities F f denied cs [] = Inr cs"
| "parse_capabilities F f denied cs (v # vs) =
     and_then (parse_capability F f denied (map ec_domain_id cs) v) (\<lambda>c. parse_capabilities F f denied (cs @ [c]) vs)"

text \<open>The first pair of domains, in their order, whose roots contain one another.\<close>

fun reject_overlaps :: "effect_capability list \<Rightarrow> (jspace_error, unit) result" where
  "reject_overlaps [] = Inr ()"
| "reject_overlaps (l # cs) =
     and_then (try_each (\<lambda>r. reject_if (path_starts_with (ec_root l) (ec_root r) \<or> path_starts_with (ec_root r) (ec_root l))
         (jspace_err ''JSPACE_DOMAIN_ROOT_OVERLAP'' ''admission'' (ec_root l)
           (''effect domains '' @ ec_domain_id l @ '' and '' @ ec_domain_id r @ '' overlap or alias''))) cs)
       (\<lambda>_. reject_overlaps cs)"

definition parse_effect_capabilities ::
  "'f jos \<Rightarrow> 'f \<Rightarrow> json_object \<Rightarrow> string set \<Rightarrow> (jspace_error, effect_capability list) result" where
  "parse_effect_capabilities F f obj denied =
     (case map_of obj ''effect_capabilities'' of
        Some (JArray vs) \<Rightarrow>
          if vs = [] then Inl (capabilities_missing ''at least one bounded effect domain is required'')
          else and_then (parse_capabilities F f denied [] vs) (\<lambda>cs.
            let sorted_cs = sort_key ec_domain_id cs
            in and_then (reject_overlaps sorted_cs) (\<lambda>_. Inr sorted_cs))
      | _ \<Rightarrow> Inl (capabilities_missing ''multi-domain contracts require an explicit capability array''))"

definition effect_capability_projection ::
  "effect_capability list \<Rightarrow> (jspace_error, string list \<times> string list \<times> string list) result" where
  "effect_capability_projection cs =
     and_then (try_map (\<lambda>c.
         and_then (try_map (rooted_scope (ec_root c)) (ec_read_projection c)) (\<lambda>reads.
         and_then (try_map (rooted_scope (ec_root c)) (ec_write_projection c)) (\<lambda>writes.
         and_then (try_map (rooted_scope (ec_root c)) (ec_declared_projection c)) (\<lambda>declared.
         Inr (reads, writes, declared))))) cs) (\<lambda>ps.
     and_then (canonical_claim_scope_set (concat (map fst ps))) (\<lambda>reads.
     and_then (canonical_claim_scope_set (concat (map (fst \<circ> snd) ps))) (\<lambda>writes.
     and_then (canonical_claim_scope_set (concat (map (snd \<circ> snd) ps))) (\<lambda>declared.
     Inr (reads, writes, declared)))))"

section \<open>Command templates\<close>

definition parse_target :: "bool \<Rightarrow> json \<Rightarrow> (jspace_error, command_target) result" where
  "parse_target require_domain v =
     and_then (ok_or (malformed ''command_templates.targets'' ''target is not an object'') (as_object v)) (\<lambda>obj.
     and_then (if require_domain then and_then (required_string obj ''domain_id'') (\<lambda>d. Inr (Some d))
               else Inr (get_str obj ''domain_id'')) (\<lambda>domain_id.
     and_then (required_string obj ''operation'') (\<lambda>operation.
     and_then (required_string obj ''path'') (\<lambda>path.
     and_then (reject_if (require_domain \<and> get_str obj ''binding'' \<noteq> Some ''argv'')
         (jspace_err ''JSPACE_COMMAND_TARGET_BINDING_INVALID'' ''admission'' ''command_templates.targets''
           ''multi-domain targets must bind an exact argv path'')) (\<lambda>_.
     and_then (required_usize obj ''argv_index'') (\<lambda>argv_index.
     Inr \<lparr>ct_domain_id = domain_id, ct_operation = operation, ct_path = path, ct_argv_index = argv_index\<rparr>))))))"

definition parse_template :: "bool \<Rightarrow> nat \<times> json \<Rightarrow> (jspace_error, command_template) result" where
  "parse_template require_domain = (\<lambda>(index, v).
     and_then (ok_or (malformed ''command_templates'' (''template '' @ decimal index @ '' is not an object'')) (as_object v)) (\<lambda>obj.
     and_then (required_string_array obj ''argv'') (\<lambda>argv.
     and_then (required_string_array obj ''effects'') (\<lambda>effects.
     and_then (reject_if (argv = [] \<or> effects = [] \<or> [] \<in> set argv)
         (jspace_err ''JSPACE_COMMAND_TEMPLATE_INVALID'' ''admission'' ''command_templates''
           (''template '' @ decimal index @ '' requires non-empty argv and effects''))) (\<lambda>_.
     case map_of obj ''targets'' of
       Some (JArray vs) \<Rightarrow>
         and_then (try_map (parse_target require_domain) vs) (\<lambda>targets.
         Inr \<lparr>tp_argv = argv, tp_effects = effects, tp_targets = targets\<rparr>)
     | _ \<Rightarrow> Inl (malformed ''command_templates.targets'' ''required target array is missing''))))))"

definition parse_command_templates :: "json_object \<Rightarrow> bool \<Rightarrow> (jspace_error, command_template list) result" where
  "parse_command_templates obj require_domain =
     (case map_of obj ''command_templates'' of
        Some (JArray vs) \<Rightarrow> try_map (parse_template require_domain) (enumerate 0 vs)
      | _ \<Rightarrow> Inl (malformed ''command_templates'' ''required command template array is missing''))"

definition joined_argv :: "command_template \<Rightarrow> string" where
  "joined_argv t = join_with '' '' (tp_argv t)"

definition validate_template_effect ::
  "string set \<Rightarrow> string set \<Rightarrow> bool \<Rightarrow> command_template \<Rightarrow> string \<Rightarrow> (jspace_error, unit) result" where
  "validate_template_effect allowed denied require_domain t effect =
     (if effect \<notin> set KNOWN_OPERATIONS \<or> effect = ''command''
      then Inl (jspace_err ''JSPACE_COMMAND_EFFECT_INVALID'' ''admission'' effect ''command template contains an unknown effect'')
      else reject_if (effect \<in> denied \<or> (\<not> require_domain \<and> path_operation effect \<and> effect \<notin> allowed) \<or>
             (require_domain \<and> \<not> path_operation effect))
           (jspace_err ''JSPACE_COMMAND_EFFECT_DENIED'' effect (joined_argv t) ''command effect is not admitted''))"

definition validate_domain_target ::
  "'f jos \<Rightarrow> 'f \<Rightarrow> effect_capability list \<Rightarrow> command_target \<Rightarrow> (jspace_error, unit) result" where
  "validate_domain_target F f cs target =
     and_then (ok_or (jspace_err ''JSPACE_COMMAND_TARGET_DOMAIN_MISSING'' (ct_operation target) (ct_path target)
         ''multi-domain targets require an exact domain identity'') (ct_domain_id target)) (\<lambda>domain_id.
     and_then (ok_or (jspace_err ''JSPACE_COMMAND_TARGET_DOMAIN_UNKNOWN'' (ct_operation target) (ct_path target)
         (''unknown effect domain '' @ domain_id)) (find (\<lambda>c. ec_domain_id c = domain_id) cs)) (\<lambda>c.
     and_then (domain_target F f c (ct_path target) (ct_operation target)) (\<lambda>relative.
     if ct_operation target \<notin> ec_allowed_operations c
     then Inl (jspace_err ''JSPACE_COMMAND_EFFECT_DENIED'' (ct_operation target) (ct_path target)
            (''effect is not admitted in domain '' @ domain_id))
     else reject_if (\<not> trie_matches (if ct_operation target = ''read'' then ec_read_scopes c else ec_write_scopes c) relative \<or>
              (ct_operation target \<noteq> ''read'' \<and> \<not> trie_matches (ec_declared_targets c) relative))
            (jspace_err JSPACE_EXPANSION_REQUIRED (ct_operation target) (ct_path target)
              (''target is outside exact domain capability '' @ domain_id)))))"

definition validate_target ::
  "'f jos \<Rightarrow> 'f \<Rightarrow> path_trie \<Rightarrow> effect_capability list \<Rightarrow> bool \<Rightarrow> command_template \<Rightarrow> command_target list \<Rightarrow>
   command_target \<Rightarrow> (jspace_error, unit) result" where
  "validate_target F f declared cs require_domain t seen target =
     (if \<not> path_operation (ct_operation target) \<or> ct_operation target \<notin> set (tp_effects t)
      then Inl (jspace_err ''JSPACE_COMMAND_TARGET_EFFECT_MISMATCH'' (ct_operation target) (ct_path target)
             ''command target operation is absent from effects'')
      else and_then
        (if require_domain
         then reject_if (\<not> is_absolute (ct_path target) \<or> ParentDir \<in> set (path_components (ct_path target)))
                (jspace_err ''JSPACE_COMMAND_TARGET_INVALID'' (ct_operation target) (ct_path target)
                  ''multi-domain command targets must be exact absolute paths'')
         else and_then (scope_components (ct_path target)) (\<lambda>_. Inr ())) (\<lambda>_.
      if \<not> (ct_argv_index target < length (tp_argv t) \<and> tp_argv t ! ct_argv_index target = ct_path target)
      then Inl (jspace_err ''JSPACE_COMMAND_TARGET_ARGV_MISMATCH'' (ct_operation target) (ct_path target)
             (''target path must equal argv['' @ decimal (ct_argv_index target) @ '']''))
      else if target \<in> set seen
      then Inl (jspace_err ''JSPACE_COMMAND_TARGET_DUPLICATE'' (ct_operation target) (ct_path target)
             ''command target identity is duplicated'')
      else if require_domain then validate_domain_target F f cs target
      else reject_if (ct_operation target \<noteq> ''read'' \<and> \<not> trie_matches declared (ct_path target))
             (jspace_err ''JSPACE_COMMAND_TARGET_UNDECLARED'' (ct_operation target) (ct_path target)
               ''command mutation target is not declared'')))"

fun validate_targets ::
  "'f jos \<Rightarrow> 'f \<Rightarrow> path_trie \<Rightarrow> effect_capability list \<Rightarrow> bool \<Rightarrow> command_template \<Rightarrow> command_target list \<Rightarrow>
   command_target list \<Rightarrow> (jspace_error, unit) result" where
  "validate_targets F f declared cs require_domain t seen [] = Inr ()"
| "validate_targets F f declared cs require_domain t seen (target # targets) =
     and_then (validate_target F f declared cs require_domain t seen target) (\<lambda>_.
       validate_targets F f declared cs require_domain t (seen @ [target]) targets)"

definition validate_multi_domain_command_semantics :: "command_template \<Rightarrow> (jspace_error, unit) result" where
  "validate_multi_domain_command_semantics t =
     (case tp_argv t of
        [git, option, git_dir, verb, action, worktree] \<Rightarrow>
          if git \<noteq> ''git'' \<or> option \<noteq> ''--git-dir'' \<or> \<not> is_absolute git_dir \<or> verb \<noteq> ''worktree'' \<or> action \<noteq> ''remove'' \<or>
             \<not> is_absolute worktree
          then Inl (jspace_err ''JSPACE_MULTI_DOMAIN_COMMAND_UNSUPPORTED'' ''command'' (joined_argv t)
                 ''multi-domain commands require an exact closed semantic parser'')
          else reject_if (set (tp_effects t) \<noteq> {''read'', ''delete''} \<or>
                 (\<lambda>target. (ct_argv_index target, ct_operation target)) ` set (tp_targets t) \<noteq>
                   {(2, ''read''), (2, ''delete''), (5, ''delete'')} \<or>
                 length (tp_targets t) \<noteq> 3)
               (jspace_err ''JSPACE_COMMAND_SEMANTICS_MISMATCH'' ''command'' (joined_argv t)
                 ''git worktree remove requires exact read/delete effects on argv[2] and delete on argv[5]'')
      | _ \<Rightarrow> Inl (jspace_err ''JSPACE_MULTI_DOMAIN_COMMAND_UNSUPPORTED'' ''command'' (joined_argv t)
               ''multi-domain commands require an exact closed semantic parser''))"

definition validate_absolute_argument :: "command_template \<Rightarrow> nat \<times> string \<Rightarrow> (jspace_error, unit) result" where
  "validate_absolute_argument t = (\<lambda>(index, argument).
     reject_if (is_absolute argument \<and>
         \<not> list_ex (\<lambda>target. ct_argv_index target = index \<and> ct_path target = argument) (tp_targets t))
       (jspace_err ''JSPACE_COMMAND_MUTATION_TARGET_MISSING'' ''command'' argument
         (''absolute argv['' @ decimal index @ ''] has no exact target identity'')))"

definition mutation_effects :: "command_template \<Rightarrow> string set" where
  "mutation_effects t = {op \<in> set (tp_effects t). op \<in> {''create'', ''modify'', ''delete''}}"

definition targeted_effects :: "command_template \<Rightarrow> string set" where
  "targeted_effects t = ct_operation ` set (tp_targets t)"

definition targeted_mutations :: "command_template \<Rightarrow> string set" where
  "targeted_mutations t = {op \<in> targeted_effects t. op \<noteq> ''read''}"

definition validate_template ::
  "'f jos \<Rightarrow> 'f \<Rightarrow> string set \<Rightarrow> string set \<Rightarrow> path_trie \<Rightarrow> effect_capability list \<Rightarrow> bool \<Rightarrow>
   string list list \<Rightarrow> command_template \<Rightarrow> (jspace_error, unit) result" where
  "validate_template F f allowed denied declared cs require_domain seen t =
     and_then (reject_if (tp_argv t \<in> set seen)
             (jspace_err ''JSPACE_COMMAND_TEMPLATE_DUPLICATE'' ''admission'' (joined_argv t)
               ''exact argv template is duplicated'')) (\<lambda>_.
         and_then (try_each (validate_template_effect allowed denied require_domain t) (tp_effects t)) (\<lambda>_.
         and_then (validate_targets F f declared cs require_domain t [] (tp_targets t)) (\<lambda>_.
         and_then (reject_if (mutation_effects t \<noteq> targeted_mutations t)
             (jspace_err ''JSPACE_COMMAND_MUTATION_TARGET_MISSING'' ''command'' (joined_argv t)
               ''every mutation effect requires an exact target'')) (\<lambda>_.
         if \<not> require_domain then Inr ()
         else and_then (reject_if (set (tp_effects t) \<noteq> targeted_effects t)
             (jspace_err ''JSPACE_COMMAND_EFFECT_TARGET_MISMATCH'' ''command'' (joined_argv t)
               ''every effect requires at least one exact domain target'')) (\<lambda>_.
           and_then (try_each (validate_absolute_argument t) (drop 1 (enumerate 0 (tp_argv t)))) (\<lambda>_.
           validate_multi_domain_command_semantics t))))))"

fun validate_templates_from ::
  "'f jos \<Rightarrow> 'f \<Rightarrow> string set \<Rightarrow> string set \<Rightarrow> path_trie \<Rightarrow> effect_capability list \<Rightarrow> bool \<Rightarrow>
   string list list \<Rightarrow> command_template list \<Rightarrow> (jspace_error, unit) result" where
  "validate_templates_from F f allowed denied declared cs require_domain seen [] = Inr ()"
| "validate_templates_from F f allowed denied declared cs require_domain seen (t # ts) =
     and_then (validate_template F f allowed denied declared cs require_domain seen t) (\<lambda>_.
       validate_templates_from F f allowed denied declared cs require_domain (tp_argv t # seen) ts)"

definition validate_command_templates ::
  "'f jos \<Rightarrow> 'f \<Rightarrow> command_template list \<Rightarrow> string set \<Rightarrow> string set \<Rightarrow> path_trie \<Rightarrow> effect_capability list \<Rightarrow> bool \<Rightarrow>
   (jspace_error, unit) result" where
  "validate_command_templates F f ts allowed denied declared cs require_domain =
     validate_templates_from F f allowed denied declared cs require_domain [] ts"

section \<open>Source read grants\<close>

definition source_read_grant :: "json_object \<Rightarrow> (jspace_error, bool) result" where
  "source_read_grant obj =
     (case map_of obj ''source_read'' of
        None \<Rightarrow> Inr False
      | Some v \<Rightarrow>
          if v = JBool True \<and>
             get_str obj ''schema_version'' \<in> {Some JSPACE_SCHEMA_VERSION, Some JSPACE_SINGLE_ROOT_SCHEMA_VERSION}
          then Inr True
          else Inl (jspace_err ''JSPACE_SOURCE_READ_GRANT_INVALID'' ''admission'' ''source_read''
                 ''source_read must be true on a v2 or v3 contract''))"

definition mapped_grant_invalid :: "string \<Rightarrow> jspace_error" where
  "mapped_grant_invalid detail =
     jspace_err ''JSPACE_MAPPED_SOURCE_READ_GRANT_INVALID'' ''admission'' ''mapped_source_reads'' detail"

text \<open>\<open>serde_json::from_value::<Vec<MappedSourceReadBinding>>\<close>.\<close>

definition bindings_of_value :: "'f jos \<Rightarrow> json \<Rightarrow> (jspace_error, mapped_binding list) result" where
  "bindings_of_value F v =
     (let refused = mapped_grant_invalid (js_serde_error F v)
      in and_then (ok_or refused (as_array v)) (\<lambda>vs. try_map (\<lambda>b. ok_or refused (binding_of_value b)) vs))"

definition operations_of :: "json_object \<Rightarrow> string \<Rightarrow> (jspace_error, string set) result" where
  "operations_of obj field = and_then (required_string_array obj field) (\<lambda>ops. operation_set ops field)"

definition parse_mapped_source_read_grant :: "'f jos \<Rightarrow> json_object \<Rightarrow> (jspace_error, mapped_binding list) result" where
  "parse_mapped_source_read_grant F obj =
     (case map_of obj ''mapped_source_reads'' of
        None \<Rightarrow> Inr []
      | Some v \<Rightarrow>
          if get_str obj ''schema_version'' \<noteq> Some JSPACE_SINGLE_ROOT_SCHEMA_VERSION \<or> get_bool obj ''source_read'' \<noteq> Some True
          then Inl (mapped_grant_invalid ''mapped reads require source_read=true on single-root v2'')
          else and_then (bindings_of_value F v) (\<lambda>bindings.
            case bindings of
              [b] \<Rightarrow>
                if mb_requested_logical_path b \<noteq> mb_logical_path b \<or> \<not> canonical_relative (mb_logical_path b)
                then Inl (mapped_grant_invalid ''the mapped request must be the canonical relative logical path'')
                else and_then (operations_of obj ''allowed_operations'') (\<lambda>allowed.
                     and_then (operations_of obj ''denied_operations'') (\<lambda>denied.
                     and_then (if ''read'' \<notin> allowed \<or> ''command'' \<notin> allowed \<or> ''read'' \<in> denied \<or> ''command'' \<in> denied
                       then Inr False
                       else and_then (required_string_array obj ''read_scopes'') (\<lambda>scopes.
                            Inr (mb_logical_path b \<in> set scopes))) (\<lambda>granted.
                     if granted then Inr bindings
                     else Inl (mapped_grant_invalid
                       ''mapped reads require existing read/command grants and an exact logical read scope''))))
            | _ \<Rightarrow> Inl (mapped_grant_invalid ''exactly one mapped source read binding is required'')))"

section \<open>Claimed digests\<close>

definition claimed_contract_digests :: "json_object \<Rightarrow> string \<Rightarrow> (jspace_error, string \<times> string) result" where
  "claimed_contract_digests obj schema_version =
     and_then
       (if schema_version = JSPACE_SCHEMA_VERSION \<or> schema_version = JSPACE_SINGLE_ROOT_SCHEMA_VERSION
        then and_then (required_string obj ''content_sha256'') (\<lambda>content.
             and_then (required_string obj ''authorization_semantic_sha256'') (\<lambda>authorization.
             Inr (content, authorization)))
        else if schema_version = JSPACE_LEGACY_SCHEMA_VERSION
        then and_then (required_string obj ''semantic_sha256'') (\<lambda>digest. Inr (digest, digest))
        else Inl (jspace_err ''JSPACE_SCHEMA_VERSION_UNSUPPORTED'' ''admission'' ''schema_version''
               (''unsupported schema '' @ schema_version)))
       (\<lambda>(content, authorization).
        if \<not> jspace_lower_sha256 content \<or> \<not> jspace_lower_sha256 authorization
        then Inl (jspace_err ''JSPACE_DIGEST_INVALID'' ''admission'' [] ''J-Space digests must be lowercase SHA-256'')
        else Inr (content, authorization))"

section \<open>The digest of what a contract authorises\<close>

definition capability_value :: "effect_capability \<Rightarrow> json" where
  "capability_value c = JObject
     [(''domain_id'', JString (ec_domain_id c)), (''root'', JString (ec_root c)),
      (''read_scopes'', json_strings (ec_read_projection c)), (''write_scopes'', json_strings (ec_write_projection c)),
      (''allowed_operations'', json_strings (sorted_list_of_set (ec_allowed_operations c))),
      (''declared_targets'', json_strings (ec_declared_projection c))]"

definition target_value :: "'f jos \<Rightarrow> 'f \<Rightarrow> command_target \<Rightarrow> json" where
  "target_value F f t = JObject
     [(''domain_id'', json_opt_string (ct_domain_id t)), (''operation'', JString (ct_operation t)),
      (''path'', JString (case resolve_existing_boundary F f (ct_path t) of Inr p \<Rightarrow> p | Inl _ \<Rightarrow> ct_path t)),
      (''argv_index'', json_u64 (of_nat (ct_argv_index t))), (''binding'', JString ''argv'')]"

definition template_value :: "externals \<Rightarrow> 'f jos \<Rightarrow> 'f \<Rightarrow> command_template \<Rightarrow> json" where
  "template_value X F f t = JObject
     [(''argv'', json_strings (tp_argv t)), (''effects'', json_strings (sorted_list_of_set (set (tp_effects t)))),
      (''targets'', JArray (sort_key (canonical_json X) (map (target_value F f) (tp_targets t))))]"

definition generation_object :: "json_object \<Rightarrow> (jspace_error, json_object) result" where
  "generation_object obj = ok_or (malformed ''dcf_generation'' ''required object is missing'') (get_object obj ''dcf_generation'')"

definition normalized_effect_authorization_sha256 ::
  "externals \<Rightarrow> 'f jos \<Rightarrow> 'f \<Rightarrow> json_object \<Rightarrow> (jspace_error, string) result" where
  "normalized_effect_authorization_sha256 X F f obj =
     and_then (source_read_grant obj) (\<lambda>source_read.
     and_then (generation_object obj) (\<lambda>generation.
     and_then (operations_of obj ''allowed_operations'') (\<lambda>allowed.
     and_then (operations_of obj ''denied_operations'') (\<lambda>denied.
     and_then (parse_effect_capabilities F f obj denied) (\<lambda>capabilities.
     and_then (parse_command_templates obj True) (\<lambda>templates.
     and_then (validate_command_templates F f templates allowed denied trie_new capabilities True) (\<lambda>_.
     and_then (required_string_array obj ''matched_surface_ids'') (\<lambda>surface_ids.
     and_then (and_then (required_string obj ''repo_root'') (normalized_root F f)) (\<lambda>repo_root.
     let payload = JObject
       ([(''schema_version'', JString ''jspace_effect_authorization_v1''), (''repo_root'', JString repo_root),
         (''required_domain_bindings'', get_or_null generation ''required_domain_bindings''),
         (''matched_surface_ids'', json_strings (sorted_list_of_set (set surface_ids))),
         (''allowed_operations'', json_strings (sorted_list_of_set allowed)),
         (''denied_operations'', json_strings (sorted_list_of_set denied)),
         (''effect_capabilities'', JArray (sort_key (canonical_json X) (map capability_value capabilities))),
         (''command_templates'', JArray (sort_key (canonical_json X) (map (template_value X F f) templates))),
         (''expansion'', get_or_null obj ''expansion'')] @
        (if source_read then [(''source_read'', JBool True)] else []))
     in Inr (semantic_sha256 X payload))))))))))"

text \<open>An optional field of the payload: copied when present, after its own check.\<close>

definition policy_entry ::
  "json_object \<Rightarrow> string \<Rightarrow> (json \<Rightarrow> (jspace_error, unit) result) \<Rightarrow> (jspace_error, json_object) result" where
  "policy_entry obj key valid =
     (case map_of obj key of
        None \<Rightarrow> Inr []
      | Some v \<Rightarrow> and_then (valid v) (\<lambda>_. Inr [(key, v)]))"

definition effect_policy_valid :: "json \<Rightarrow> (jspace_error, unit) result" where
  "effect_policy_valid v = reject_if (json_as_str v \<noteq> Some ''trusted_argv_effects_v1'')
     (jspace_err ''JSPACE_COMMAND_EFFECT_POLICY_UNSUPPORTED'' ''admission'' ''command_effect_policy''
       ''unsupported command effect policy'')"

definition authorization_fields :: "string list" where
  "authorization_fields = [''matched_surface_ids'', ''read_scopes'', ''write_scopes'', ''allowed_operations'',
     ''denied_operations'', ''command_templates'', ''declared_targets'', ''expansion'']"

definition verifier_unsupported :: jspace_error where
  "verifier_unsupported = jspace_err ''JSPACE_VERIFIER_GRANT_UNSUPPORTED'' ''admission'' ''verifier_commands''
     ''typed verifier fields require single-root v2''"

definition verifier_entries :: "json_object \<Rightarrow> json_object" where
  "verifier_entries obj =
     (case map_of obj ''verifier_commands'' of
        Some commands \<Rightarrow>
          [(''verifier_commands'', commands), (''verifier_artifact_root'', get_or_null obj ''verifier_artifact_root'')]
      | None \<Rightarrow>
          if contains_key obj ''verifier_artifact_root''
          then [(''verifier_artifact_root'', get_or_null obj ''verifier_artifact_root'')] else [])"

definition authorization_semantic_sha256 ::
  "externals \<Rightarrow> 'f jos \<Rightarrow> 'f \<Rightarrow> json \<Rightarrow> (jspace_error, string) result" where
  "authorization_semantic_sha256 X F f contract =
     and_then (ok_or (malformed [] ''contract must be an object'') (as_object contract)) (\<lambda>obj.
     and_then (parse_mapped_source_read_grant F obj) (\<lambda>mapped.
     if (contains_key obj ''verifier_commands'' \<or> contains_key obj ''verifier_artifact_root'') \<and>
        get_str obj ''schema_version'' \<noteq> Some JSPACE_SINGLE_ROOT_SCHEMA_VERSION
     then Inl verifier_unsupported
     else if get_str obj ''schema_version'' = Some JSPACE_SCHEMA_VERSION
     then normalized_effect_authorization_sha256 X F f obj
     else
       and_then (source_read_grant obj) (\<lambda>source_read.
       and_then (generation_object obj) (\<lambda>generation.
       and_then (policy_entry obj ''command_effect_policy'' effect_policy_valid) (\<lambda>effect_policy.
       and_then (policy_entry obj ''read_commands'' (\<lambda>v. and_then (read_validate v) (\<lambda>_. Inr ()))) (\<lambda>reads.
       and_then (policy_entry obj ''inspect_shell'' inspect_validate) (\<lambda>inspect.
       and_then (policy_entry obj ''parent_shell'' parent_validate) (\<lambda>parent.
       Inr (semantic_sha256 X (JObject
         ([(''schema_version'', JString ''jspace_authorization_v1''), (''repo_root'', get_or_null obj ''repo_root''),
           (''required_domain_bindings'', get_or_null generation ''required_domain_bindings'')] @
          map (\<lambda>key. (key, get_or_null obj key)) authorization_fields @
          effect_policy @ reads @ inspect @ parent @ verifier_entries obj @
          (if source_read then [(''source_read'', JBool True)] else []) @
          (if mapped \<noteq> [] then [(''mapped_source_reads'', JArray (map binding_to_value mapped))] else []))))))))))))"

section \<open>Recomputed digests\<close>

definition digest_mismatch :: "string \<Rightarrow> string \<Rightarrow> string \<Rightarrow> jspace_error" where
  "digest_mismatch code expected got = jspace_err code ''admission'' [] (''expected '' @ expected @ '', got '' @ got)"

definition verified_contract_digests ::
  "externals \<Rightarrow> 'f jos \<Rightarrow> 'f \<Rightarrow> json \<Rightarrow> json_object \<Rightarrow> string \<Rightarrow> (jspace_error, string \<times> string) result" where
  "verified_contract_digests X F f contract obj schema_version =
     and_then (claimed_contract_digests obj schema_version) (\<lambda>(content, authorization).
     if schema_version = JSPACE_SCHEMA_VERSION \<or> schema_version = JSPACE_SINGLE_ROOT_SCHEMA_VERSION
     then and_then (authorization_semantic_sha256 X F f contract) (\<lambda>expected_authorization.
          and_then (reject_if (authorization \<noteq> expected_authorization)
              (digest_mismatch ''JSPACE_AUTHORIZATION_DIGEST_MISMATCH'' expected_authorization authorization)) (\<lambda>_.
          let expected_content = semantic_sha256 X (json_remove ''content_sha256'' contract)
          in and_then (reject_if (content \<noteq> expected_content)
              (digest_mismatch ''JSPACE_CONTENT_DIGEST_MISMATCH'' expected_content content)) (\<lambda>_.
          Inr (content, authorization))))
     else
       let expected = semantic_sha256 X (json_remove ''semantic_sha256'' contract)
       in and_then (reject_if (content \<noteq> expected)
              (digest_mismatch ''JSPACE_SEMANTIC_DIGEST_MISMATCH'' expected content)) (\<lambda>_.
          Inr (content, authorization)))"

end
