(* ===== verification/JSpace_Verifiers.thy ===== *)
theory JSpace_Verifiers
  imports JSpace_Grants
begin

text \<open>
  Typed verifier commands of a contract (\<open>path/src/jspace.rs\<close>): the grant as admission reads it, the syntax it
  allows, and the pins of files that are compared again before a verifier runs.
\<close>

section \<open>Serialisation\<close>

definition paths_of_value :: "json \<Rightarrow> string list option" where
  "paths_of_value v =
     Option.bind (as_array v) (\<lambda>vs. if list_all (\<lambda>x. json_as_str x \<noteq> None) vs then Some (map (the \<circ> json_as_str) vs) else None)"

definition pinned_file_of_value :: "json \<Rightarrow> verifier_pinned_file option" where
  "pinned_file_of_value v =
     Option.bind (strict_object [''path'', ''sha256'', ''scope''] v) (\<lambda>obj.
     case (get_str obj ''path'', get_str obj ''sha256'', map_of obj ''scope'') of
       (Some path, Some sha, None) \<Rightarrow> Some \<lparr>vp_path = path, vp_sha256 = sha, vp_scope = None\<rparr>
     | (Some path, Some sha, Some scope) \<Rightarrow>
         if json_as_str scope = Some ''verifier_only''
         then Some \<lparr>vp_path = path, vp_sha256 = sha, vp_scope = Some VerifierOnly\<rparr> else None
     | _ \<Rightarrow> None)"

text \<open>An omitted field is \<open>None\<close>; a present one has to be well formed.\<close>

definition optional_value :: "(json \<Rightarrow> 'a option) \<Rightarrow> json_object \<Rightarrow> string \<Rightarrow> 'a option option" where
  "optional_value read obj key = (case map_of obj key of None \<Rightarrow> Some None | Some v \<Rightarrow> map_option Some (read v))"

definition verifier_of_value :: "json \<Rightarrow> verifier_command option" where
  "verifier_of_value v =
     Option.bind (strict_object [''argv'', ''executable_sha256'', ''pinned_files'', ''timeout_seconds'', ''scratch_root'',
         ''network'', ''python_import_roots'', ''cwd''] v) (\<lambda>obj.
     let pins = Option.bind (Option.bind (map_of obj ''pinned_files'') as_array)
           (\<lambda>vs. those (map pinned_file_of_value vs))
     in case (Option.bind (map_of obj ''argv'') paths_of_value, get_str obj ''executable_sha256'', pins,
          Option.bind (map_of obj ''timeout_seconds'') as_u64, get_str obj ''scratch_root'', get_bool obj ''network'',
          optional_value paths_of_value obj ''python_import_roots'', optional_value json_as_str obj ''cwd'') of
          (Some argv, Some sha, Some pinned, Some timeout, Some scratch, Some network, Some roots, Some cwd) \<Rightarrow>
            Some \<lparr>vc_argv = argv, vc_executable_sha256 = sha, vc_pinned_files = pinned, vc_timeout_seconds = timeout,
              vc_scratch_root = scratch, vc_network = network, vc_python_import_roots = roots, vc_cwd = cwd\<rparr>
        | _ \<Rightarrow> None)"

section \<open>Arguments\<close>

definition verifier_error :: "string \<Rightarrow> string \<Rightarrow> string \<Rightarrow> jspace_error" where
  "verifier_error code path detail = jspace_err code ''admission'' path detail"

definition grant_malformed :: "string \<Rightarrow> string \<Rightarrow> jspace_error" where
  "grant_malformed target detail = jspace_err ''JSPACE_VERIFIER_GRANT_MALFORMED'' ''admission'' target detail"

definition file_name_text :: "string \<Rightarrow> string" where
  "file_name_text p = (case path_file_name p of Some name \<Rightarrow> name | None \<Rightarrow> [])"

definition version_text :: "string \<Rightarrow> bool" where
  "version_text v = list_all (\<lambda>c. ascii_digit c \<or> c = CHR ''.'') v"

definition cpython_name :: "string \<Rightarrow> bool" where
  "cpython_name name = (case strip_prefix ''python'' name of Some version \<Rightarrow> version_text version | None \<Rightarrow> False)"

definition module_test_runner :: "string list \<Rightarrow> bool" where
  "module_test_runner argv =
     ((case strip_prefix ''python'' (file_name_text (hd argv)) of
         Some version \<Rightarrow> version \<noteq> [] \<and> version_text version | None \<Rightarrow> False) \<and>
      (case position (\<lambda>arg. arg = ''-m'') (tl argv) of
         None \<Rightarrow> False
       | Some offset \<Rightarrow>
           list_all (\<lambda>flag. flag = ''-B'') (take offset (tl argv)) \<and>
           offset + 2 < length argv \<and> argv ! (offset + 2) \<in> {''unittest'', ''pytest''}))"

definition shell_syntax :: "char \<Rightarrow> bool" where
  "shell_syntax c = (c \<in> set '';&|<>$'' \<or> c \<in> {BACKTICK, BACKSLASH, DQUOTE, SQUOTE, CR, LF, CHR 0x00})"

definition glob_syntax :: "char \<Rightarrow> bool" where
  "glob_syntax c = (c \<in> set ''*?[]{}()'')"

datatype flag_scan = FlagCode | FlagModule | FlagValueNext | FlagsDone

fun scan_flags :: "string \<Rightarrow> flag_scan" where
  "scan_flags [] = FlagsDone"
| "scan_flags (c # cs) =
     (if c = CHR ''c'' then FlagCode
      else if c = CHR ''m'' then FlagModule
      else if c = CHR ''W'' \<or> c = CHR ''X'' then (if cs = [] then FlagValueNext else FlagsDone)
      else scan_flags cs)"

fun inline_code_args :: "string list \<Rightarrow> bool" where
  "inline_code_args [] = False"
| "inline_code_args (arg # args) =
     (if arg = ''--check-hash-based-pycs'' then (case args of [] \<Rightarrow> False | _ # rest \<Rightarrow> inline_code_args rest)
      else if arg = ''--'' \<or> arg = ''-'' \<or> \<not> starts_with arg ''-'' then False
      else if starts_with arg ''--'' then inline_code_args args
      else case scan_flags (drop 1 arg) of
        FlagCode \<Rightarrow> True
      | FlagModule \<Rightarrow> False
      | FlagValueNext \<Rightarrow> (case args of [] \<Rightarrow> False | _ # rest \<Rightarrow> inline_code_args rest)
      | FlagsDone \<Rightarrow> inline_code_args args)"

definition cpython_inline_code :: "string list \<Rightarrow> bool" where
  "cpython_inline_code argv = inline_code_args (drop 1 argv)"

definition work_product_operands_only :: "'f jos \<Rightarrow> 'f \<Rightarrow> string list \<Rightarrow> string \<Rightarrow> string list \<Rightarrow> bool" where
  "work_product_operands_only F f argv workspace write_scopes =
     (let within = (\<lambda>relative scope. scope = relative \<or>
            (case strip_suffix ''/**'' scope of
               Some base \<Rightarrow> (case strip_prefix base relative of Some rest \<Rightarrow> starts_with rest ''/'' | None \<Rightarrow> False)
             | None \<Rightarrow> False));
          written = (\<lambda>path. case strip_path workspace path of
            Some relative \<Rightarrow> list_ex (within relative) write_scopes | None \<Rightarrow> False);
          operands = filter is_absolute (drop 1 argv)
      in list_ex written operands \<and> \<not> list_ex (\<lambda>path. js_is_file F f path \<and> \<not> written path) operands)"

definition sensitive_names :: "string list" where
  "sensitive_names = [''.git'', ''.ssh'', ''.gnupg'', ''.aws'', ''.docker'', ''.netrc'']"

definition sensitive_endings :: "string list list" where
  "sensitive_endings = [[''.config'', ''gh''], [''Library'', ''Keychains''], [''.codex'', ''auth.json'']]"

definition verifier_node_path_is_sensitive :: "string \<Rightarrow> bool" where
  "verifier_node_path_is_sensitive p =
     list_ex (\<lambda>ancestor.
       (case components_file_name ancestor of Some name \<Rightarrow> name \<in> set sensitive_names | None \<Rightarrow> False) \<or>
       list_ex (\<lambda>ending. suffix (map Normal ending) ancestor) sensitive_endings) (prefixes (path_components p))"

definition path_extension :: "string \<Rightarrow> string option" where
  "path_extension p =
     Option.bind (path_file_name p) (\<lambda>name.
     let parts = split_char (CHR ''.'') name
     in if length parts = 1 \<or> (length parts = 2 \<and> hd parts = []) then None else Some (last parts))"

definition direct_node_verifier_program :: "string list \<Rightarrow> string option" where
  "direct_node_verifier_program argv =
     (case argv of
        executable # program # _ \<Rightarrow>
          if is_absolute executable \<and> path_file_name executable = Some ''node'' \<and>
             \<not> verifier_node_path_is_sensitive executable \<and> is_absolute program \<and>
             \<not> verifier_node_path_is_sensitive program \<and> path_extension program \<in> {Some ''js'', Some ''cjs'', Some ''mjs''} \<and>
             length (filter (\<lambda>arg. arg = program) argv) = 1
          then Some program else None
      | _ \<Rightarrow> None)"

definition verifier_interpreter_reads_entries :: "string list \<Rightarrow> bool" where
  "verifier_interpreter_reads_entries argv =
     (let name = (case argv of arg # _ \<Rightarrow> file_name_text arg | [] \<Rightarrow> []) in name = ''node'' \<or> cpython_name name)"

definition shell_names :: "string list" where
  "shell_names = [''sh'', ''bash'', ''dash'', ''zsh'', ''fish'', ''csh'', ''tcsh'', ''ksh'', ''env'', ''osascript'']"

section \<open>Paths\<close>

fun real_prefixes :: "'f jos \<Rightarrow> 'f \<Rightarrow> string \<Rightarrow> bool \<Rightarrow> string list \<Rightarrow> (jspace_error, unit) result" where
  "real_prefixes F f path must_exist [] = Inr ()"
| "real_prefixes F f path must_exist (p # ps) =
     (case js_symlink_metadata F f p of
        Inr meta \<Rightarrow>
          if fm_kind meta = FileSymlink
          then Inl (verifier_error ''JSPACE_VERIFIER_SYMLINK_DENIED'' p ''symlink component is not admitted'')
          else if \<not> path_same p path \<and> fm_kind meta \<noteq> FileDirectory
          then Inl (verifier_error ''JSPACE_VERIFIER_PATH_INVALID'' p ''path ancestor must be a directory'')
          else real_prefixes F f path must_exist ps
      | Inl e \<Rightarrow>
          if io_not_found e \<and> \<not> must_exist then Inr ()
          else Inl (verifier_error ''JSPACE_VERIFIER_PATH_INVALID'' p ''path unavailable''))"

definition verifier_path_without_symlink :: "'f jos \<Rightarrow> 'f \<Rightarrow> string \<Rightarrow> bool \<Rightarrow> (jspace_error, unit) result" where
  "verifier_path_without_symlink F f path must_exist =
     (if \<not> is_absolute path \<or> CHR 0x00 \<in> set path \<or>
         list_ex (\<lambda>part. part \<in> {[], ''.'', ''..''}) (drop 1 (split_char (CHR ''/'') path)) \<or>
         list_ex (\<lambda>c. c = CurDir \<or> c = ParentDir) (path_components path)
      then Inl (verifier_error ''JSPACE_VERIFIER_PATH_INVALID'' path ''path must be canonical absolute syntax'')
      else real_prefixes F f path must_exist (push_prefixes [] (path_components path)))"

definition bounded_directory :: "string \<Rightarrow> bool" where
  "bounded_directory p = (p \<noteq> [] \<and> CHR '':'' \<notin> set p \<and> length (str_chars p) \<le> 1024 \<and> is_absolute p \<and>
     Normal ''.git'' \<notin> set (path_components p))"

definition ignores_environment :: "string \<Rightarrow> bool" where
  "ignores_environment arg = (starts_with arg ''-'' \<and> \<not> starts_with arg ''--'' \<and>
     list_ex (\<lambda>c. c \<in> set ''IE'') (takeWhile (\<lambda>c. c \<notin> set ''WXmc'') (drop 1 arg)))"

fun check_import_roots :: "'f jos \<Rightarrow> 'f \<Rightarrow> string list \<Rightarrow> string list \<Rightarrow> (jspace_error, unit) result" where
  "check_import_roots F f seen [] = Inr ()"
| "check_import_roots F f seen (root # roots) =
     (let code = ''JSPACE_VERIFIER_PYTHON_IMPORT_ROOTS_INVALID''
      in and_then (reject_if (\<not> bounded_directory root \<or> list_ex (path_same root) seen)
             (verifier_error code root ''distinct bounded absolute directories outside Git metadata required'')) (\<lambda>_.
         and_then (verifier_path_without_symlink F f root True) (\<lambda>_.
         and_then (reject_if (\<not> js_is_dir F f root \<or> \<not> same_resolved F f root)
             (verifier_error code root ''canonical existing directory required'')) (\<lambda>_.
         check_import_roots F f (root # seen) roots))))"

definition verifier_python_import_roots :: "'f jos \<Rightarrow> 'f \<Rightarrow> verifier_command \<Rightarrow> (jspace_error, unit) result" where
  "verifier_python_import_roots F f c =
     (case vc_python_import_roots c of
        None \<Rightarrow> Inr ()
      | Some roots \<Rightarrow>
          and_then (reject_if (roots = [] \<or> length roots > 4 \<or> \<not> cpython_name (file_name_text (hd (vc_argv c))) \<or>
                list_ex ignores_environment (tl (vc_argv c)))
              (verifier_error ''JSPACE_VERIFIER_PYTHON_IMPORT_ROOTS_INVALID'' (hd (vc_argv c))
                ''1..4 import roots require a CPython-named executable without -I/-E'')) (\<lambda>_.
          check_import_roots F f [] roots))"

definition verifier_cwd :: "'f jos \<Rightarrow> 'f \<Rightarrow> verifier_command \<Rightarrow> (jspace_error, unit) result" where
  "verifier_cwd F f c =
     (case vc_cwd c of
        None \<Rightarrow> Inr ()
      | Some cwd \<Rightarrow>
          and_then (reject_if (\<not> bounded_directory cwd)
              (verifier_error ''JSPACE_VERIFIER_CWD_INVALID'' cwd ''bounded absolute directory outside Git metadata required'')) (\<lambda>_.
          and_then (verifier_path_without_symlink F f cwd True) (\<lambda>_.
          reject_if (\<not> js_is_dir F f cwd \<or> \<not> same_resolved F f cwd)
            (verifier_error ''JSPACE_VERIFIER_CWD_INVALID'' cwd ''canonical existing directory required''))))"

section \<open>Files\<close>

definition mach_headers :: "string list" where
  "mach_headers =
     [[CHR 0xFE, CHR 0xED, CHR 0xFA, CHR 0xCE], [CHR 0xCE, CHR 0xFA, CHR 0xED, CHR 0xFE],
      [CHR 0xFE, CHR 0xED, CHR 0xFA, CHR 0xCF], [CHR 0xCF, CHR 0xFA, CHR 0xED, CHR 0xFE],
      [CHR 0xCA, CHR 0xFE, CHR 0xBA, CHR 0xBE], [CHR 0xBE, CHR 0xBA, CHR 0xFE, CHR 0xCA],
      [CHR 0xCA, CHR 0xFE, CHR 0xBA, CHR 0xBF], [CHR 0xBF, CHR 0xBA, CHR 0xFE, CHR 0xCA]]"

definition executable_mode :: "nat \<Rightarrow> bool" where
  "executable_mode mode = (odd mode \<or> odd (mode div 8) \<or> odd (mode div 64))"

text \<open>The name of the program in a \<open>#!\<close> header, of which the first 256 bytes are read.\<close>

definition shebang_program :: "string \<Rightarrow> string" where
  "shebang_program header =
     (let line = takeWhile (\<lambda>c. c \<noteq> LF) (drop 2 header);
          ascii = filter (\<lambda>c. of_char c < (128 :: nat)) line;
          white = (\<lambda>c. is_whitespace [c])
      in last (split_char (CHR ''/'') (takeWhile (\<lambda>c. \<not> white c) (dropWhile white ascii))))"

definition verifier_file ::
  "externals \<Rightarrow> 'f jos \<Rightarrow> 'f \<Rightarrow> string \<Rightarrow> string \<Rightarrow> bool \<Rightarrow> bool \<Rightarrow> bool \<Rightarrow> (jspace_error, unit) result" where
  "verifier_file X F f path expected executable stale header_is_data =
     (let unavailable = verifier_error ''JSPACE_VERIFIER_PATH_INVALID'' path ''verifier file unavailable''
      in and_then (verifier_path_without_symlink F f path True) (\<lambda>_.
         and_then (reject_if (\<not> jspace_lower_sha256 expected) (grant_malformed path ''lowercase SHA-256 required'')) (\<lambda>_.
         and_then (map_err (\<lambda>_. unavailable) (js_metadata F f path)) (\<lambda>meta.
         and_then (reject_if (fm_kind meta \<noteq> FileRegular \<or> (executable \<and> \<not> executable_mode (fm_mode meta)))
             (grant_malformed path ''regular executable file required'')) (\<lambda>_.
         and_then (map_err (\<lambda>_. unavailable) (os_read F f path)) (\<lambda>bytes.
         and_then (reject_if (executable \<and> take 4 bytes \<notin> set mach_headers)
             (grant_malformed path ''pinned Mach-O executable required'')) (\<lambda>_.
         and_then (reject_if (\<not> header_is_data \<and> starts_with bytes ''#!'' \<and> shebang_program (take 256 bytes) \<in> set shell_names)
             (grant_malformed path ''shell and env verifier entries are not admitted'')) (\<lambda>_.
         reject_if (sha256_hex X bytes \<noteq> expected)
           (verifier_error (if stale then ''NOKIY_LOCAL_CONTEXT_STALE'' else ''JSPACE_VERIFIER_FILE_MISMATCH'') path
             ''verifier file SHA-256 changed'')))))))))"

text \<open>\<open>current = current.parent()\<close> from the scratch directory up to the artifact root.\<close>

function scratch_ancestors ::
  "'f jos \<Rightarrow> 'f \<Rightarrow> string \<Rightarrow> string \<Rightarrow> bool \<Rightarrow> string \<Rightarrow> (jspace_error, unit) result" where
  "scratch_ancestors F f path root must_exist current =
     (if path_same current root then Inr ()
      else and_then
        (case js_symlink_metadata F f current of
           Inr meta \<Rightarrow>
             reject_if (fm_kind meta \<noteq> FileDirectory)
               (verifier_error ''JSPACE_VERIFIER_SCRATCH_INVALID'' current ''scratch components must be directories'')
         | Inl e \<Rightarrow>
             reject_if (must_exist \<or> \<not> io_not_found e)
               (verifier_error ''JSPACE_VERIFIER_SCRATCH_NOT_READY'' current ''scratch directory unavailable'')) (\<lambda>_.
        if path_segments current = []
        then Inl (verifier_error ''JSPACE_VERIFIER_SCRATCH_INVALID'' path ''invalid scratch parent'')
        else scratch_ancestors F f path root must_exist (path_pop current)))"
  by pat_completeness auto
termination
  by (relation "measure (\<lambda>(F, f, path, root, must_exist, current). length (path_segments current))")
    (simp_all add: path_segments_pop)

declare scratch_ancestors.simps [simp del]

definition verifier_scratch ::
  "'f jos \<Rightarrow> 'f \<Rightarrow> string \<Rightarrow> string \<Rightarrow> string \<Rightarrow> bool \<Rightarrow> (jspace_error, unit) result" where
  "verifier_scratch F f path root workspace must_exist =
     and_then (verifier_path_without_symlink F f path must_exist) (\<lambda>_.
     and_then (reject_if (path_same path root \<or> \<not> path_starts_with path root \<or> path_starts_with path workspace)
         (verifier_error ''JSPACE_VERIFIER_SCRATCH_INVALID'' path
           ''scratch must be strictly below artifact root and outside workspace'')) (\<lambda>_.
     and_then (scratch_ancestors F f path root must_exist path) (\<lambda>_.
     reject_if (must_exist \<and> \<not> same_resolved F f path)
       (verifier_error ''JSPACE_VERIFIER_SCRATCH_NOT_READY'' path ''scratch identity changed''))))"

section \<open>The grant\<close>

definition verifier_argument_ok :: "nat \<times> string \<Rightarrow> bool" where
  "verifier_argument_ok = (\<lambda>(index, arg). arg \<noteq> [] \<and> length (str_chars arg) \<le> 1024 \<and>
     \<not> list_ex (\<lambda>c. shell_syntax c \<or> (index = 0 \<and> glob_syntax c)) arg)"

definition inline_interpreter :: "string list \<Rightarrow> bool" where
  "inline_interpreter argv =
     (let name = file_name_text (hd argv)
      in if cpython_name name then cpython_inline_code argv
         else list_ex (starts_with name) [''python'', ''node'', ''ruby'', ''perl'', ''php''] \<and>
              list_ex (\<lambda>arg. arg \<in> {''-c'', ''-e'', ''--eval'', ''--execute''}) (tl argv))"

fun check_pins :: "string list \<Rightarrow> string list \<Rightarrow> verifier_pinned_file list \<Rightarrow> (jspace_error, unit) result" where
  "check_pins argv seen [] = Inr ()"
| "check_pins argv seen (pin # pins) =
     (let occurrences = length (filter (\<lambda>arg. vp_path pin = arg) argv)
      in and_then (reject_if (\<not> jspace_lower_sha256 (vp_sha256 pin) \<or> list_ex (path_same (vp_path pin)) seen \<or> occurrences = 0 \<or>
             (vp_scope pin \<noteq> None \<and> occurrences \<noteq> 1))
           (grant_malformed (vp_path pin)
             ''pinned file must have a valid digest and occur in exact argv; verifier_only requires exactly once'')) (\<lambda>_.
         check_pins argv (vp_path pin # seen) pins))"

fun check_verifiers ::
  "externals \<Rightarrow> 'f jos \<Rightarrow> 'f \<Rightarrow> string \<Rightarrow> string \<Rightarrow> string list \<Rightarrow> string list list \<Rightarrow> string list \<Rightarrow> verifier_command list \<Rightarrow>
   (jspace_error, unit) result" where
  "check_verifiers X F f root workspace write_scopes argvs scratches [] = Inr ()"
| "check_verifiers X F f root workspace write_scopes argvs scratches (c # cs) =
     (let argv = vc_argv c;
          unpinned = (argv \<noteq> [] \<and> (module_test_runner argv \<or> work_product_operands_only F f argv workspace write_scopes));
          pins = length (vc_pinned_files c)
      in and_then (reject_if (argv = [] \<or> length argv > 32 \<or> pins > 8 \<or> (\<not> unpinned \<and> pins = 0) \<or>
             vc_timeout_seconds c < 1 \<or> vc_timeout_seconds c > 300 \<or> vc_network c \<or> argv \<in> set argvs)
           (grant_malformed ''verifier_commands'' ''invalid bounds, network policy or duplicate argv'')) (\<lambda>_.
         and_then (reject_if (\<not> list_all verifier_argument_ok (enumerate 0 argv))
           (grant_malformed ''verifier_commands'' ''argv must be bounded and shell-free'')) (\<lambda>_.
         and_then (reject_if (file_name_text (hd argv) \<in> set shell_names \<or> inline_interpreter argv)
           (grant_malformed ''verifier_commands'' ''shell or inline interpreter invocation denied'')) (\<lambda>_.
         and_then (verifier_file X F f (hd argv) (vc_executable_sha256 c) True False False) (\<lambda>_.
         and_then (verifier_scratch F f (vc_scratch_root c) root workspace False) (\<lambda>_.
         and_then (reject_if (list_ex (path_same (vc_scratch_root c)) scratches)
           (verifier_error ''JSPACE_VERIFIER_SCRATCH_INVALID'' (vc_scratch_root c) ''duplicate scratch root'')) (\<lambda>_.
         and_then (check_pins argv [] (vc_pinned_files c)) (\<lambda>_.
         check_verifiers X F f root workspace write_scopes (argv # argvs) (vc_scratch_root c # scratches) cs))))))))"

definition parse_verifier_grant ::
  "externals \<Rightarrow> 'f jos \<Rightarrow> 'f \<Rightarrow> json_object \<Rightarrow> string \<Rightarrow> string \<Rightarrow>
   (jspace_error, string option \<times> verifier_command list) result" where
  "parse_verifier_grant X F f obj workspace schema =
     (if \<not> contains_key obj ''verifier_commands'' \<and> \<not> contains_key obj ''verifier_artifact_root'' then Inr (None, [])
      else if schema \<noteq> JSPACE_SINGLE_ROOT_SCHEMA_VERSION then Inl verifier_unsupported
      else
        and_then (ok_or (grant_malformed ''verifier_commands'' ''paired fields required'') (map_of obj ''verifier_commands'')) (\<lambda>raw.
        and_then (ok_or (grant_malformed ''verifier_commands'' (js_serde_error F raw))
            (Option.bind (as_array raw) (\<lambda>vs. those (map verifier_of_value vs)))) (\<lambda>commands.
        and_then (reject_if (commands = [] \<or> length commands > 8)
            (grant_malformed ''verifier_commands'' ''1..8 commands required'')) (\<lambda>_.
        and_then (ok_or (grant_malformed ''verifier_artifact_root'' ''paired absolute root required'')
            (get_str obj ''verifier_artifact_root'')) (\<lambda>root.
        and_then (verifier_path_without_symlink F f root True) (\<lambda>_.
        and_then (reject_if (\<not> js_is_dir F f root \<or> \<not> same_resolved F f root \<or> path_starts_with root workspace)
            (verifier_error ''JSPACE_VERIFIER_ARTIFACT_ROOT_INVALID'' root
              ''canonical artifact directory must be outside workspace'')) (\<lambda>_.
        let write_scopes = (case Option.bind (map_of obj ''write_scopes'') as_array of
              Some vs \<Rightarrow> List.map_filter json_as_str vs | None \<Rightarrow> [])
        in and_then (check_verifiers X F f root workspace write_scopes [] [] commands) (\<lambda>_.
           Inr (Some root, commands)))))))))"

section \<open>Revalidation\<close>

definition revalidate_verifier_pin ::
  "externals \<Rightarrow> 'f jos \<Rightarrow> 'f \<Rightarrow> jspace_matcher \<Rightarrow> verifier_command \<Rightarrow> verifier_pinned_file \<Rightarrow> bool \<Rightarrow> (jspace_error, unit) result" where
  "revalidate_verifier_pin X F f m c pin stale =
     and_then
       (if vp_scope pin \<noteq> None
        then and_then (verifier_path_without_symlink F f (vp_path pin) True) (\<lambda>_.
          reject_if (path_starts_with (vp_path pin) (jm_repo_root m) \<or> Normal ''.git'' \<in> set (path_components (vp_path pin)) \<or>
              list_ex (\<lambda>g. path_starts_with (vp_path pin) (vc_scratch_root g)) (jm_verifier_commands m) \<or>
              \<not> same_resolved F f (vp_path pin))
            (verifier_error ''JSPACE_VERIFIER_PIN_SCOPE_INVALID'' (vp_path pin)
              ''verifier_only pin must be canonical, outside workspace, Git metadata and every verifier scratch''))
        else check_path F f m ''read'' (vp_path pin)) (\<lambda>_.
     let executable_in_scratch =
           list_ex (\<lambda>g. path_starts_with (hd (vc_argv c)) (vc_scratch_root g)) (jm_verifier_commands m);
         direct = (case direct_node_verifier_program (vc_argv c) of Some p \<Rightarrow> path_same p (vp_path pin) | None \<Rightarrow> False)
     in and_then (reject_if (vp_scope pin = Some VerifierOnly \<and> path_file_name (hd (vc_argv c)) = Some ''node'' \<and>
            (executable_in_scratch \<or> \<not> direct))
          (grant_malformed (vp_path pin) ''verifier_only Node entry requires a direct JavaScript program'')) (\<lambda>_.
        verifier_file X F f (vp_path pin) (vp_sha256 pin) False stale
          (verifier_interpreter_reads_entries (vc_argv c) \<and> \<not> executable_in_scratch)))"

definition revalidate_verifier_paths :: "externals \<Rightarrow> 'f jos \<Rightarrow> 'f \<Rightarrow> jspace_matcher \<Rightarrow> (jspace_error, unit) result" where
  "revalidate_verifier_paths X F f m =
     (case jm_verifier_artifact_root m of
        None \<Rightarrow> Inr ()
      | Some root \<Rightarrow>
          and_then (verifier_path_without_symlink F f root True) (\<lambda>_.
          and_then (reject_if (\<not> js_is_dir F f root \<or> \<not> same_resolved F f root)
              (verifier_error ''JSPACE_VERIFIER_ARTIFACT_ROOT_INVALID'' root ''artifact root identity changed'')) (\<lambda>_.
          try_each (\<lambda>c.
            and_then (verifier_file X F f (hd (vc_argv c)) (vc_executable_sha256 c) True True False) (\<lambda>_.
            and_then (try_each (\<lambda>pin. revalidate_verifier_pin X F f m c pin True) (vc_pinned_files c)) (\<lambda>_.
            and_then (verifier_python_import_roots F f c) (\<lambda>_.
            and_then (verifier_cwd F f c) (\<lambda>_.
            verifier_scratch F f (vc_scratch_root c) root (jm_repo_root m) True)))))
            (jm_verifier_commands m))))"

end
