(* ===== verification/JSpace_Admission.thy ===== *)
theory JSpace_Admission
  imports JSpace_Verifiers
begin

text \<open>
  Admission of a J-Space contract (\<open>JSpaceMatcher::from_value\<close> and \<open>JSpaceAdmissionCache\<close> of
  \<open>path/src/jspace.rs\<close>): a contract is parsed, digest-checked and compiled, and the cache binds the compiled contract
  to its session.

  \<open>admit\<close> takes the cache's lock three times: to refuse a missing contract, to look up the session, and to
  publish. Each is one step of the model, so that admissions of several callers interleave between them.
\<close>

section \<open>Compilation\<close>

definition denied_read_or_command :: "string set \<Rightarrow> string set \<Rightarrow> bool" where
  "denied_read_or_command allowed denied =
     (''read'' \<notin> allowed \<or> ''command'' \<notin> allowed \<or> ''read'' \<in> denied \<or> ''command'' \<in> denied)"

definition check_generation_root ::
  "'f jos \<Rightarrow> 'f \<Rightarrow> json_object \<Rightarrow> string \<Rightarrow> string \<Rightarrow> (jspace_error, unit) result" where
  "check_generation_root F f obj schema_version contract_root =
     (if schema_version = JSPACE_LEGACY_SCHEMA_VERSION then Inr ()
      else and_then (ok_or (malformed ''dcf_generation.repo_root'' ''DCF evidence root is missing'')
          (Option.bind (get_object obj ''dcf_generation'') (\<lambda>g. get_str g ''repo_root''))) (\<lambda>raw.
        and_then (normalized_root F f raw) (\<lambda>generation_root.
        reject_if (\<not> path_same generation_root contract_root)
          (jspace_err ''JSPACE_DCF_ROOT_MISMATCH'' ''admission'' generation_root (''contract root is '' @ contract_root)))))"

definition admitted_capabilities ::
  "'f jos \<Rightarrow> 'f \<Rightarrow> json_object \<Rightarrow> string \<Rightarrow> string set \<Rightarrow> string set \<Rightarrow> (jspace_error, effect_capability list) result" where
  "admitted_capabilities F f obj schema_version allowed denied =
     (if schema_version \<noteq> JSPACE_SCHEMA_VERSION then Inr []
      else and_then (try_each (\<lambda>field. reject_if (contains_key obj field)
             (jspace_err ''JSPACE_CAPABILITY_REPRESENTATION_CONFLICT'' ''admission'' field
               ''multi-domain contracts must not retain single-root capability fields''))
           [''read_scopes'', ''write_scopes'', ''declared_targets'']) (\<lambda>_.
        and_then (reject_if (\<exists>op\<in>allowed. path_operation op)
             (jspace_err ''JSPACE_CAPABILITY_PERMISSION_INVALID'' ''admission'' ''allowed_operations''
               ''path permissions must be declared inside an exact effect domain'')) (\<lambda>_.
        parse_effect_capabilities F f obj denied)))"

definition admitted_projection ::
  "json_object \<Rightarrow> string \<Rightarrow> effect_capability list \<Rightarrow> (jspace_error, string list \<times> string list \<times> string list) result" where
  "admitted_projection obj schema_version capabilities =
     (if schema_version = JSPACE_SCHEMA_VERSION then effect_capability_projection capabilities
      else and_then (validate_string_array_field obj ''declared_targets'') (\<lambda>_.
        and_then (and_then (required_string_array obj ''read_scopes'') canonical_scope_set) (\<lambda>reads.
        and_then (and_then (required_string_array obj ''write_scopes'') canonical_scope_set) (\<lambda>writes.
        and_then (and_then (required_string_array obj ''declared_targets'') canonical_declared_targets) (\<lambda>declared.
        Inr (reads, writes, declared))))))"

text \<open>The tries of a single-root contract; those of a multi-domain contract are in its domains.\<close>

definition insert_declared :: "path_trie \<Rightarrow> string \<Rightarrow> (jspace_error, path_trie) result" where
  "insert_declared nodes target =
     (if has_wildcard target
      then Inl (jspace_err ''JSPACE_TARGET_INVALID'' ''admission'' target
             ''declared targets must be exact paths without wildcards'')
      else trie_insert nodes target)"

definition compile_tries ::
  "json_object \<Rightarrow> string \<Rightarrow> string list \<Rightarrow> string list \<Rightarrow> (jspace_error, path_trie \<times> path_trie \<times> path_trie) result" where
  "compile_tries obj schema_version reads writes =
     (if schema_version = JSPACE_SCHEMA_VERSION then Inr (trie_new, trie_new, trie_new)
      else and_then (trie_insert_all trie_new reads) (\<lambda>read_trie.
        and_then (trie_insert_all trie_new writes) (\<lambda>write_trie.
        and_then (required_string_array obj ''declared_targets'') (\<lambda>targets.
        and_then (try_fold insert_declared trie_new targets) (\<lambda>declared_trie.
        Inr (read_trie, write_trie, declared_trie))))))"

definition admitted_templates :: "json_object \<Rightarrow> string \<Rightarrow> (jspace_error, command_template list) result" where
  "admitted_templates obj schema_version =
     (if schema_version \<noteq> JSPACE_LEGACY_SCHEMA_VERSION
      then parse_command_templates obj (schema_version = JSPACE_SCHEMA_VERSION)
      else and_then (required_string_array obj ''command_prefixes'') (\<lambda>commands.
        try_map (\<lambda>command. and_then (parse_shell_argv command) (\<lambda>argv.
          Inr \<lparr>tp_argv = argv, tp_effects = [''read''], tp_targets = []\<rparr>)) commands))"

definition add_template :: "(string list \<times> nat) list \<Rightarrow> nat \<times> command_template \<Rightarrow> (string list \<times> nat) list" where
  "add_template entries = (\<lambda>(i, t).
     if map_of entries (tp_argv t) \<noteq> None then entries else entries @ [(tp_argv t, i)])"

definition template_index :: "command_template list \<Rightarrow> (string list \<times> nat) list" where
  "template_index ts = foldl add_template [] (enumerate 0 ts)"

definition check_read_policy ::
  "'f jos \<Rightarrow> 'f \<Rightarrow> string \<Rightarrow> string \<Rightarrow> string set \<Rightarrow> string set \<Rightarrow> string list \<Rightarrow> json option \<Rightarrow> (jspace_error, unit) result" where
  "check_read_policy F f root schema_version allowed denied reads policy =
     (let refused = (\<lambda>target detail. jspace_err ''JSPACE_READ_COMMAND_DENIED'' ''admission'' target detail)
      in case policy of
           None \<Rightarrow> Inr ()
         | Some p \<Rightarrow>
             and_then (reject_if (schema_version \<noteq> JSPACE_SINGLE_ROOT_SCHEMA_VERSION \<or> denied_read_or_command allowed denied)
                 (refused [] ''read/command v2 grants required'')) (\<lambda>_.
             and_then (read_validate p) (\<lambda>names.
             try_each (\<lambda>name.
               and_then (reject_if (name @ ''/**'' \<notin> set reads) (refused name ''recursive read scope required'')) (\<lambda>_.
               reject_if (\<not> js_is_dir F f (os_path_join root name) \<or> \<not> same_resolved F f (os_path_join root name))
                 (refused name ''canonical directory required''))) names)))"

definition check_inspect_policy ::
  "string \<Rightarrow> string set \<Rightarrow> string list \<Rightarrow> bool \<Rightarrow> bool \<Rightarrow> json option \<Rightarrow> (jspace_error, unit) result" where
  "check_inspect_policy schema_version allowed writes has_reads has_verifiers policy =
     (case policy of
        None \<Rightarrow> Inr ()
      | Some p \<Rightarrow>
          and_then (inspect_validate p) (\<lambda>_.
          reject_if (schema_version \<noteq> JSPACE_SINGLE_ROOT_SCHEMA_VERSION \<or> ''read'' \<notin> allowed \<or> ''command'' \<notin> allowed \<or>
              (\<exists>op\<in>allowed. op \<noteq> ''read'' \<and> op \<noteq> ''command'') \<or> writes \<noteq> [] \<or> has_reads \<or> has_verifiers)
            (jspace_err ''JSPACE_INSPECT_DENIED'' ''admission'' ''inspect_shell''
              (''inspect_shell requires a v2 read/command-only contract without write scopes, '' @ ''discovery or verifiers''))))"

definition check_parent_policy :: "string set \<Rightarrow> bool \<Rightarrow> json option \<Rightarrow> (jspace_error, unit) result" where
  "check_parent_policy allowed has_inspect policy =
     (case policy of
        None \<Rightarrow> Inr ()
      | Some p \<Rightarrow>
          and_then (parent_validate p) (\<lambda>_.
          reject_if (has_inspect \<or> ''read'' \<notin> allowed \<or> ''command'' \<notin> allowed)
            (jspace_err ''JSPACE_PARENT_SHELL_DENIED'' ''admission'' ''parent_shell''
              ''parent_shell requires read and command operations and excludes inspect_shell'')))"

definition check_source_read_grant ::
  "string \<Rightarrow> string set \<Rightarrow> string set \<Rightarrow> string list \<Rightarrow> effect_capability list \<Rightarrow> bool \<Rightarrow> bool \<Rightarrow> (jspace_error, unit) result" where
  "check_source_read_grant schema_version allowed denied reads capabilities source_read directory =
     (let exact = (\<lambda>scope. \<not> ends_with scope ''/**'');
          scoped_read =
            (if schema_version = JSPACE_SCHEMA_VERSION
             then list_ex (\<lambda>c. ''read'' \<in> ec_allowed_operations c \<and> list_ex exact (ec_read_projection c)) capabilities
             else ''read'' \<in> allowed \<and> list_ex exact reads)
      in reject_if (source_read \<and> (''command'' \<notin> allowed \<or> ''command'' \<in> denied \<or> ''read'' \<in> denied \<or>
             (\<not> scoped_read \<and> \<not> directory)))
           (jspace_err ''JSPACE_SOURCE_READ_DENIED'' ''read'' ''source_read''
             ''source_read requires command and a scoped read grant''))"

definition from_value ::
  "externals \<Rightarrow> 'f jos \<Rightarrow> 'f \<Rightarrow> string \<Rightarrow> json \<Rightarrow> (jspace_error, jspace_matcher) result" where
  "from_value X F f lexical_root contract =
     and_then (ok_or (malformed [] ''contract must be a JSON object'') (as_object contract)) (\<lambda>obj.
     and_then (required_string obj ''schema_version'') (\<lambda>schema.
     and_then (reject_if (schema \<notin> {JSPACE_SCHEMA_VERSION, JSPACE_SINGLE_ROOT_SCHEMA_VERSION, JSPACE_LEGACY_SCHEMA_VERSION})
         (jspace_err ''JSPACE_SCHEMA_VERSION_UNSUPPORTED'' ''admission'' []
           (''expected '' @ JSPACE_SCHEMA_VERSION @ '', '' @ JSPACE_SINGLE_ROOT_SCHEMA_VERSION @ '', or '' @
            JSPACE_LEGACY_SCHEMA_VERSION @ '', got '' @ schema))) (\<lambda>_.
     and_then (parse_mapped_source_read_grant F obj) (\<lambda>mapped.
     and_then (verified_contract_digests X F f contract obj schema) (\<lambda>(content_digest, authorization_digest).
     and_then (required_string obj ''repo_root'') (\<lambda>raw_root.
     and_then (normalized_root F f lexical_root) (\<lambda>session_root.
     and_then (normalized_root F f raw_root) (\<lambda>contract_root.
     and_then (reject_if (\<not> path_same contract_root session_root)
         (jspace_err ''JSPACE_ROOT_MISMATCH'' ''admission'' contract_root (''session root is '' @ session_root))) (\<lambda>_.
     and_then (check_generation_root F f obj schema contract_root) (\<lambda>_.
     and_then (validate_expansion_rule obj) (\<lambda>_.
     and_then (validate_object_field obj ''dcf_generation'') (\<lambda>_.
     and_then (validate_object_field obj ''provenance'') (\<lambda>_.
     and_then (validate_string_array_field obj ''matched_surface_ids'') (\<lambda>_.
     and_then (validate_object_array_field obj ''focused_verifiers'') (\<lambda>_.
     and_then (required_string_array obj ''allowed_operations'') (\<lambda>allowed_values.
     and_then (required_string_array obj ''denied_operations'') (\<lambda>denied_values.
     and_then (operation_set allowed_values ''allowed_operations'') (\<lambda>allowed.
     and_then (operation_set denied_values ''denied_operations'') (\<lambda>denied.
     and_then (source_read_grant obj) (\<lambda>source_read.
     and_then (parse_verifier_grant X F f obj session_root schema) (\<lambda>(artifact_root, verifiers).
     and_then (reject_if (verifiers \<noteq> [] \<and>
           (denied_read_or_command allowed denied \<or> ''network'' \<notin> denied \<or> ''network'' \<in> allowed))
         (jspace_err ''JSPACE_VERIFIER_OPERATION_DENIED'' ''admission'' ''verifier_commands''
           ''v2 verifiers require read and command allowed and network denied'')) (\<lambda>_.
     and_then (reject_if (\<exists>op\<in>allowed. op \<in> denied)
         (jspace_err ''JSPACE_OPERATION_CONFLICT'' ''admission'' [] ''an operation cannot be both allowed and denied'')) (\<lambda>_.
     and_then (admitted_capabilities F f obj schema allowed denied) (\<lambda>capabilities.
     and_then (admitted_projection obj schema capabilities) (\<lambda>(reads, writes, declared).
     and_then (compile_tries obj schema reads writes) (\<lambda>(read_trie, write_trie, declared_trie).
     and_then (admitted_templates obj schema) (\<lambda>templates.
     and_then (validate_command_templates F f templates allowed denied declared_trie capabilities
         (schema = JSPACE_SCHEMA_VERSION)) (\<lambda>_.
     let read_commands = map_of obj ''read_commands''; inspect_shell = map_of obj ''inspect_shell'';
         parent_shell = map_of obj ''parent_shell'';
         directory = (schema = JSPACE_SINGLE_ROOT_SCHEMA_VERSION \<and> read_commands \<noteq> None)
     in and_then (check_read_policy F f session_root schema allowed denied reads read_commands) (\<lambda>_.
     and_then (check_inspect_policy schema allowed writes (read_commands \<noteq> None) (verifiers \<noteq> []) inspect_shell) (\<lambda>_.
     and_then (check_parent_policy allowed (inspect_shell \<noteq> None) parent_shell) (\<lambda>_.
     and_then (check_source_read_grant schema allowed denied reads capabilities source_read directory) (\<lambda>_.
     and_then (try_each (\<lambda>b. map_err (\<lambda>e. jspace_err ''JSPACE_MAPPED_SOURCE_READ_BINDING_INVALID'' ''admission''
           (mb_requested_logical_path b) (display_mapped_error e)) (validate_binding X F f b session_root)) mapped) (\<lambda>_.
     and_then (reject_if (''command'' \<in> allowed \<and> templates = [] \<and> read_commands = None \<and> inspect_shell = None \<and>
           parent_shell = None \<and> \<not> source_read \<and> verifiers = [])
         (jspace_err ''JSPACE_COMMAND_TEMPLATE_MISSING'' ''command'' []
           ''command operation requires at least one exact argv template'')) (\<lambda>_.
     let m = \<lparr>jm_schema_version = schema, jm_repo_root = session_root, jm_lexical_repo_root = lexical_root,
           jm_content_digest = content_digest, jm_authorization_digest = authorization_digest,
           jm_scope_projection = \<lparr>sp_read_scopes = reads, sp_write_scopes = writes\<rparr>,
           jm_read_scopes = read_trie, jm_write_scopes = write_trie, jm_declared_targets = declared_trie,
           jm_allowed_operations = allowed, jm_denied_operations = denied, jm_command_templates = templates,
           jm_command_template_index = template_index templates, jm_read_commands = read_commands,
           jm_inspect_shell = inspect_shell, jm_parent_shell = parent_shell, jm_verifier_commands = verifiers,
           jm_verifier_artifact_root = artifact_root, jm_source_read = source_read,
           jm_mapped_source_reads = mapped, jm_directory_source_read = directory,
           jm_effect_capabilities = capabilities, jm_declared_target_projection = declared\<rparr>
     in and_then (try_each (\<lambda>c.
          and_then (try_each (\<lambda>pin. revalidate_verifier_pin X F f m c pin False) (vc_pinned_files c)) (\<lambda>_.
          and_then (verifier_python_import_roots F f c) (\<lambda>_. verifier_cwd F f c))) verifiers) (\<lambda>_.
        Inr m)))))))))))))))))))))))))))))))))))"

section \<open>The cache\<close>

record cached_admission =
  ca_matcher :: jspace_matcher
  ca_canonical_contract :: string

record admission_cache =
  jc_entries :: "string \<rightharpoonup> cached_admission"
  jc_admissions :: nat

definition empty_cache :: admission_cache where
  "empty_cache = \<lparr>jc_entries = Map.empty, jc_admissions = 0\<rparr>"

definition admission_error :: "string \<Rightarrow> string \<Rightarrow> string \<Rightarrow> jspace_error" where
  "admission_error code target detail = jspace_err code ''admission'' target detail"

text \<open>A request without a contract.\<close>

definition admit_without_contract :: "admission_cache \<Rightarrow> string \<Rightarrow> (jspace_error, unit) result" where
  "admit_without_contract cache session_id =
     reject_if (jc_entries cache session_id \<noteq> None)
       (admission_error ''JSPACE_CONTRACT_MISSING_ON_RETRY'' session_id
         ''a session with a bound capability contract cannot omit it on retry'')"

text \<open>What a request claims, before the cache is consulted.\<close>

record admission_claim =
  cl_root :: string
  cl_content :: string
  cl_authorization :: string
  cl_canonical_contract :: string

definition admission_claim_of ::
  "externals \<Rightarrow> 'f jos \<Rightarrow> 'f \<Rightarrow> string \<Rightarrow> string \<Rightarrow> json \<Rightarrow> (jspace_error, admission_claim) result" where
  "admission_claim_of X F f session_id session_root contract =
     and_then (reject_if (trim session_id = [])
         (admission_error ''JSPACE_SESSION_ID_MISSING'' [] ''a J-Space contract requires a session identity'')) (\<lambda>_.
     and_then (normalized_root F f session_root) (\<lambda>root.
     and_then (ok_or (malformed [] ''contract must be a JSON object'') (as_object contract)) (\<lambda>obj.
     and_then (required_string obj ''schema_version'') (\<lambda>schema.
     and_then (claimed_contract_digests obj schema) (\<lambda>(content, authorization).
     and_then (and_then (required_string obj ''repo_root'') (normalized_root F f)) (\<lambda>claimed_root.
     and_then (reject_if (\<not> path_same claimed_root root)
         (admission_error ''JSPACE_ROOT_MISMATCH'' claimed_root (''session root is '' @ root))) (\<lambda>_.
     Inr \<lparr>cl_root = root, cl_content = content, cl_authorization = authorization,
       cl_canonical_contract = canonical_json X contract\<rparr>)))))))"

text \<open>The look-up: a hit, a refusal, or \<open>None\<close> to go on and compile.\<close>

definition admit_lookup ::
  "admission_cache \<Rightarrow> string \<Rightarrow> admission_claim \<Rightarrow> (jspace_error, jspace_matcher option) result" where
  "admit_lookup cache session_id claim =
     (case jc_entries cache session_id of
        None \<Rightarrow> Inr None
      | Some existing \<Rightarrow>
          if \<not> path_same (jm_repo_root (ca_matcher existing)) (cl_root claim)
          then Inl (admission_error ''JSPACE_ROOT_MISMATCH'' session_id ''existing session root cannot be replaced'')
          else if jm_authorization_digest (ca_matcher existing) \<noteq> cl_authorization claim
          then Inl (admission_error ''JSPACE_CONTRACT_CHANGED'' session_id ''existing session authorization cannot be replaced'')
          else if jm_content_digest (ca_matcher existing) = cl_content claim
          then (if ca_canonical_contract existing \<noteq> cl_canonical_contract claim
                then Inl (admission_error ''JSPACE_CONTENT_DIGEST_MISMATCH'' session_id
                       ''cached digest strings do not authenticate a changed request body'')
                else Inr (Some (ca_matcher existing)))
          else Inr None)"

definition admit_publish ::
  "admission_cache \<Rightarrow> string \<Rightarrow> jspace_matcher \<Rightarrow> string \<Rightarrow> admission_cache \<times> (jspace_error, jspace_matcher) result" where
  "admit_publish cache session_id m canonical_contract =
     (let stored = (jc_entries cache)(session_id \<mapsto> \<lparr>ca_matcher = m, ca_canonical_contract = canonical_contract\<rparr>)
      in case jc_entries cache session_id of
           None \<Rightarrow> (cache\<lparr>jc_entries := stored, jc_admissions := jc_admissions cache + 1\<rparr>, Inr m)
         | Some existing \<Rightarrow>
             if \<not> path_same (jm_repo_root (ca_matcher existing)) (jm_repo_root m)
             then (cache, Inl (admission_error ''JSPACE_ROOT_MISMATCH'' session_id ''concurrent admission bound another root''))
             else if jm_authorization_digest (ca_matcher existing) \<noteq> jm_authorization_digest m
             then (cache, Inl (admission_error ''JSPACE_CONTRACT_CHANGED'' session_id
                    ''concurrent admission bound another authorization''))
             else if ca_canonical_contract existing = canonical_contract then (cache, Inr (ca_matcher existing))
             else (cache\<lparr>jc_entries := stored\<rparr>, Inr m))"

text \<open>One admission with nothing in between.\<close>

definition admit ::
  "externals \<Rightarrow> 'f jos \<Rightarrow> 'f \<Rightarrow> admission_cache \<Rightarrow> string \<Rightarrow> string \<Rightarrow> json option \<Rightarrow>
   admission_cache \<times> (jspace_error, jspace_matcher option) result" where
  "admit X F f cache session_id session_root request =
     (case request of
        None \<Rightarrow> (cache, and_then (admit_without_contract cache session_id) (\<lambda>_. Inr None))
      | Some contract \<Rightarrow>
          (case admission_claim_of X F f session_id session_root contract of
             Inl e \<Rightarrow> (cache, Inl e)
           | Inr claim \<Rightarrow>
               (case admit_lookup cache session_id claim of
                  Inl e \<Rightarrow> (cache, Inl e)
                | Inr (Some m) \<Rightarrow> (cache, Inr (Some m))
                | Inr None \<Rightarrow>
                    (case from_value X F f (cl_root claim) contract of
                       Inl e \<Rightarrow> (cache, Inl e)
                     | Inr m \<Rightarrow>
                         (case admit_publish cache session_id m (cl_canonical_contract claim) of
                            (cache', r) \<Rightarrow> (cache', and_then r (\<lambda>m. Inr (Some m))))))))"

section \<open>Concurrent admissions\<close>

text \<open>
  A compiled contract waiting to be published. Callers share the cache and the waiting publications; the files may
  change between any two steps. A step returns a matcher to a caller or nothing.
\<close>

type_synonym publication = "string \<times> jspace_matcher \<times> string"

type_synonym admission_state = "admission_cache \<times> publication list"

inductive admission_step ::
  "externals \<Rightarrow> 'f jos \<Rightarrow> admission_state \<Rightarrow> (string \<times> jspace_matcher) option \<Rightarrow> admission_state \<Rightarrow> bool"
  for X :: externals and F :: "'f jos" where
  hit: "admission_claim_of X F f session_id session_root contract = Inr claim \<Longrightarrow>
    admit_lookup cache session_id claim = Inr (Some m) \<Longrightarrow>
    admission_step X F (cache, waiting) (Some (session_id, m)) (cache, waiting)"
| compile: "admission_claim_of X F f session_id session_root contract = Inr claim \<Longrightarrow>
    admit_lookup cache session_id claim = Inr None \<Longrightarrow> from_value X F f' (cl_root claim) contract = Inr m \<Longrightarrow>
    admission_step X F (cache, waiting) None (cache, waiting @ [(session_id, m, cl_canonical_contract claim)])"
| publish: "(session_id, m, canonical_contract) \<in> set waiting \<Longrightarrow>
    admit_publish cache session_id m canonical_contract = (cache', Inr m') \<Longrightarrow>
    admission_step X F (cache, waiting) (Some (session_id, m'))
      (cache', remove1 (session_id, m, canonical_contract) waiting)"
| refuse: "(session_id, m, canonical_contract) \<in> set waiting \<Longrightarrow>
    admit_publish cache session_id m canonical_contract = (cache', Inl e) \<Longrightarrow>
    admission_step X F (cache, waiting) None (cache', remove1 (session_id, m, canonical_contract) waiting)"

text \<open>A run, with the matchers it returned in order.\<close>

inductive admission_run ::
  "externals \<Rightarrow> 'f jos \<Rightarrow> admission_state \<Rightarrow> (string \<times> jspace_matcher) list \<Rightarrow> admission_state \<Rightarrow> bool"
  for X :: externals and F :: "'f jos" where
  start: "admission_run X F st [] st"
| quiet: "admission_run X F st returned st' \<Longrightarrow> admission_step X F st' None st'' \<Longrightarrow> admission_run X F st returned st''"
| return: "admission_run X F st returned st' \<Longrightarrow> admission_step X F st' (Some r) st'' \<Longrightarrow>
    admission_run X F st (returned @ [r]) st''"

end
