(* ===== verification/JSpace_Scope_Facts.thy ===== *)
theory JSpace_Scope_Facts
  imports JSpace_Scopes
begin

text \<open>
  What scopes mean: a scope covers a list of path components, exactly or recursively. The path trie matches what
  one of its scopes covers, two claims overlap when some path is covered by both, and projections conflict when
  some path is written by one and touched by the other.
\<close>

section \<open>Covering\<close>

fun covers :: "string list \<times> bool \<Rightarrow> string list \<Rightarrow> bool" where
  "covers (components, recursive) path = (if recursive then prefix components path else path = components)"

text \<open>
  An index of scopes, as the matcher uses it: scopes are added by their text and paths looked up. What it shows
  after a list of additions follows from what one addition does.
\<close>

locale scope_index =
  fixes empty_index :: 'i and add :: "'i \<Rightarrow> string \<Rightarrow> (jspace_error, 'i) result"
    and hit :: "'i \<Rightarrow> string \<Rightarrow> bool" and hit_exact :: "'i \<Rightarrow> string \<Rightarrow> bool"
    and ok :: "'i \<Rightarrow> bool" and scopes_of :: "'i \<Rightarrow> (string list \<times> bool) set"
  assumes empty_ok: "ok empty_index" and empty_scopes: "scopes_of empty_index = {}"
    and add_fails: "add i raw = Inl e \<longleftrightarrow> scope_components raw = Inl e"
    and add_ok: "ok i \<Longrightarrow> add i raw = Inr j \<Longrightarrow> ok j"
    and add_scopes: "ok i \<Longrightarrow> add i raw = Inr j \<Longrightarrow> scope_components raw = Inr s \<Longrightarrow>
      scopes_of j = insert s (scopes_of i)"
    and hit_iff: "ok i \<Longrightarrow> hit i p \<longleftrightarrow> (\<exists>s\<in>scopes_of i. covers s (relative_parts p))"
    and hit_exact_iff: "ok i \<Longrightarrow> hit_exact i p \<longleftrightarrow> (relative_parts p, False) \<in> scopes_of i"
begin

lemma add_all_succeeds: "(\<exists>j. try_fold add i raws = Inr j) \<longleftrightarrow> (\<forall>raw\<in>set raws. is_ok (scope_components raw))"
proof (induction raws arbitrary: i)
  case (Cons raw raws)
  show ?case
  proof (cases "add i raw")
    case (Inl e)
    then have "scope_components raw = Inl e" by (simp add: add_fails)
    with Inl show ?thesis by simp
  next
    case (Inr j)
    then have "is_ok (scope_components raw)" using add_fails [of i raw] by (cases "scope_components raw") auto
    with Inr Cons show ?thesis by simp
  qed
qed simp

lemma add_all:
  assumes "ok i" "try_fold add i raws = Inr j"
  shows "ok j \<and> scopes_of j = scopes_of i \<union> {s. \<exists>raw\<in>set raws. scope_components raw = Inr s}"
  using assms
proof (induction raws arbitrary: i)
  case (Cons raw raws)
  then obtain k where k: "add i raw = Inr k" "try_fold add k raws = Inr j" by (auto simp: and_then_Inr_iff)
  then obtain s where "scope_components raw = Inr s" using add_fails [of i raw] by (cases "scope_components raw") auto
  with k Cons.prems(1) Cons.IH [OF add_ok k(2)] show ?case by (auto simp: add_scopes)
qed simp

lemma compiled_hit:
  assumes "try_fold add empty_index raws = Inr j"
  shows "hit j p \<longleftrightarrow> (\<exists>raw\<in>set raws. \<exists>s. scope_components raw = Inr s \<and> covers s (relative_parts p))"
  using add_all [OF empty_ok assms] by (auto simp: hit_iff empty_scopes)

lemma compiled_hit_exact:
  assumes "try_fold add empty_index raws = Inr j"
  shows "hit_exact j p \<longleftrightarrow> (\<exists>raw\<in>set raws. scope_components raw = Inr (relative_parts p, False))"
  using add_all [OF empty_ok assms] by (auto simp: hit_exact_iff empty_scopes)

end

section \<open>The trie as an index\<close>

fun descend :: "path_trie \<Rightarrow> nat \<Rightarrow> string list \<Rightarrow> nat option" where
  "descend nodes i [] = Some i"
| "descend nodes i (c # cs) = Option.bind (map_of (tn_children (nodes ! i)) c) (\<lambda>j. descend nodes j cs)"

definition trie_ok :: "path_trie \<Rightarrow> bool" where
  "trie_ok nodes \<longleftrightarrow> nodes \<noteq> [] \<and>
     (\<forall>cs i. descend nodes 0 cs = Some i \<longrightarrow> i < length nodes) \<and>
     (\<forall>cs ds i. descend nodes 0 cs = Some i \<longrightarrow> descend nodes 0 ds = Some i \<longrightarrow> cs = ds)"

definition trie_scopes :: "path_trie \<Rightarrow> (string list \<times> bool) set" where
  "trie_scopes nodes = {(cs, recursive). \<exists>i. descend nodes 0 cs = Some i \<and>
     (if recursive then tn_recursive (nodes ! i) else tn_exact (nodes ! i))}"

lemma descend_append: "descend nodes i (cs @ ds) = Option.bind (descend nodes i cs) (\<lambda>j. descend nodes j ds)"
  by (induction cs arbitrary: i) (auto split: bind_splits)

lemma trie_okD:
  assumes "trie_ok nodes"
  shows "descend nodes 0 cs = Some i \<Longrightarrow> i < length nodes"
    and "descend nodes 0 cs = Some i \<Longrightarrow> descend nodes 0 ds = Some i \<Longrightarrow> cs = ds"
  using assms unfolding trie_ok_def by blast+

lemma trie_new_descend: "descend trie_new i cs = (if cs = [] then Some i else if i = 0 then None else descend trie_new i cs)"
  by (cases cs) (auto simp: trie_new_def trie_leaf_def)

lemma trie_new_ok: "trie_ok trie_new" "trie_scopes trie_new = {}"
proof -
  have "descend trie_new 0 cs = Some i \<longleftrightarrow> cs = [] \<and> i = 0" for cs i
    by (subst trie_new_descend) auto
  then show "trie_ok trie_new" "trie_scopes trie_new = {}"
    by (auto simp: trie_ok_def trie_scopes_def) (auto simp: trie_new_def trie_leaf_def split: if_splits)
qed

text \<open>One new child.\<close>

definition trie_grow :: "path_trie \<Rightarrow> nat \<Rightarrow> string \<Rightarrow> path_trie" where
  "trie_grow nodes i c =
     (nodes @ [trie_leaf])[i := (nodes ! i)\<lparr>tn_children := (c, length nodes) # tn_children (nodes ! i)\<rparr>]"

lemma descend_snoc:
  "descend nodes i (cs @ [d]) = Option.bind (descend nodes i cs) (\<lambda>j. map_of (tn_children (nodes ! j)) d)"
  by (simp add: descend_append)

lemma trie_grow_nth:
  assumes "i < length nodes"
  shows "tn_children (trie_grow nodes i c ! length nodes) = []"
    and "tn_children (trie_grow nodes i c ! i) = (c, length nodes) # tn_children (nodes ! i)"
    and "j < length nodes \<Longrightarrow> j \<noteq> i \<Longrightarrow> trie_grow nodes i c ! j = nodes ! j"
  using assms by (auto simp: trie_grow_def nth_append trie_leaf_def)

lemma trie_grow_descend:
  assumes ok: "trie_ok nodes" and at: "descend nodes 0 ps = Some i"
    and new: "map_of (tn_children (nodes ! i)) c = None"
  shows "descend (trie_grow nodes i c) 0 qs =
    (if qs = ps @ [c] then Some (length nodes) else descend nodes 0 qs)"
proof (induction qs rule: rev_induct)
  case (snoc d qs)
  note nth = trie_grow_nth [OF trie_okD(1) [OF ok at]]
  have none: "descend nodes 0 (ps @ [c]) = None" using at new by (simp add: descend_snoc)
  show ?case
  proof (cases "qs = ps @ [c]")
    case True
    have "descend (trie_grow nodes i c) 0 (qs @ [d]) = None"
      unfolding descend_snoc [of _ _ qs] snoc using True by (simp add: nth)
    moreover have "descend nodes 0 (qs @ [d]) = None" using none descend_snoc [of nodes 0 qs d] True by simp
    ultimately show ?thesis using True by simp
  next
    case False
    show ?thesis
    proof (cases "descend nodes 0 qs")
      case None
      with at have "qs \<noteq> ps" by auto
      with False None show ?thesis by (simp add: descend_snoc [of _ _ qs] snoc)
    next
      case (Some j)
      with trie_okD [OF ok] at have "j < length nodes" "j = i \<longleftrightarrow> qs = ps" by auto
      with Some False new snoc show ?thesis
        using descend_snoc [of "trie_grow nodes i c" 0 qs d] descend_snoc [of nodes 0 qs d]
        by (cases "j = i") (auto simp: nth)
    qed
  qed
qed simp

lemma trie_grow_ok:
  assumes "trie_ok nodes" "descend nodes 0 ps = Some i" "map_of (tn_children (nodes ! i)) c = None"
  shows "trie_ok (trie_grow nodes i c)" "trie_scopes (trie_grow nodes i c) = trie_scopes nodes"
    "descend (trie_grow nodes i c) 0 (ps @ [c]) = Some (length nodes)"
proof -
  note grow = trie_grow_descend [OF assms]
  have len: "length (trie_grow nodes i c) = Suc (length nodes)" by (simp add: trie_grow_def)
  show "descend (trie_grow nodes i c) 0 (ps @ [c]) = Some (length nodes)" by (simp add: grow)
  show "trie_ok (trie_grow nodes i c)"
    unfolding trie_ok_def grow len using trie_okD [OF assms(1)] assms(1)
    by (auto simp: trie_ok_def trie_grow_def less_Suc_eq)
  have flags: "tn_exact (trie_grow nodes i c ! j) = (j < length nodes \<and> tn_exact (nodes ! j))"
    "tn_recursive (trie_grow nodes i c ! j) = (j < length nodes \<and> tn_recursive (nodes ! j))" if "j \<le> length nodes" for j
    using that trie_okD(1) [OF assms(1,2)] by (auto simp: trie_grow_def nth_append nth_list_update trie_leaf_def)
  show "trie_scopes (trie_grow nodes i c) = trie_scopes nodes"
    unfolding trie_scopes_def grow using trie_okD(1) [OF assms(1)] assms
    by (auto simp: flags descend_append less_imp_le split: if_splits)
qed

lemma trie_walk_ok:
  assumes "trie_ok nodes" "descend nodes 0 ps = Some i" "trie_walk nodes i cs = (walked, k)"
  shows "trie_ok walked \<and> trie_scopes walked = trie_scopes nodes \<and> descend walked 0 (ps @ cs) = Some k"
  using assms
proof (induction cs arbitrary: nodes i ps)
  case (Cons c cs)
  show ?case
  proof (cases "map_of (tn_children (nodes ! i)) c")
    case None
    note grow = trie_grow_ok [OF Cons.prems(1,2) None]
    from Cons.prems(3) None have "trie_walk (trie_grow nodes i c) (length nodes) cs = (walked, k)"
      by (simp add: trie_grow_def Let_def)
    from Cons.IH [OF grow(1,3) this] grow(2) show ?thesis by simp
  next
    case (Some j)
    with Cons.prems have "trie_walk nodes j cs = (walked, k)" "descend nodes 0 (ps @ [c]) = Some j"
      by (simp_all add: descend_snoc)
    from Cons.IH [OF Cons.prems(1) this(2,1)] show ?thesis by simp
  qed
qed simp

definition trie_mark :: "path_trie \<Rightarrow> nat \<Rightarrow> bool \<Rightarrow> path_trie" where
  "trie_mark nodes i recursive =
     nodes[i := (if recursive then (nodes ! i)\<lparr>tn_recursive := True\<rparr> else (nodes ! i)\<lparr>tn_exact := True\<rparr>)]"

lemma trie_mark_ok:
  assumes "trie_ok nodes" "descend nodes 0 cs = Some i"
  shows "trie_ok (trie_mark nodes i recursive)"
    "trie_scopes (trie_mark nodes i recursive) = insert (cs, recursive) (trie_scopes nodes)"
proof -
  have i: "i < length nodes" using trie_okD(1) [OF assms] .
  have "tn_children (trie_mark nodes i recursive ! j) = tn_children (nodes ! j)" for j
    using i by (cases "j = i") (auto simp: trie_mark_def)
  then have same: "descend (trie_mark nodes i recursive) j ds = descend nodes j ds" for j ds
    by (induction ds arbitrary: j) simp_all
  have len: "length (trie_mark nodes i recursive) = length nodes" by (simp add: trie_mark_def)
  then have "trie_mark nodes i recursive \<noteq> []" using i by auto
  then show "trie_ok (trie_mark nodes i recursive)"
    using assms(1) unfolding trie_ok_def same len by blast
  have flags: "(if r then tn_recursive (trie_mark nodes i recursive ! j) else tn_exact (trie_mark nodes i recursive ! j)) =
      (j = i \<and> r = recursive \<or> (if r then tn_recursive (nodes ! j) else tn_exact (nodes ! j)))" for j r
    using i by (cases "j = i") (auto simp: trie_mark_def)
  show "trie_scopes (trie_mark nodes i recursive) = insert (cs, recursive) (trie_scopes nodes)"
    unfolding trie_scopes_def same flags using trie_okD(2) [OF assms(1)] assms(2) by auto
qed

lemma trie_insert_ok:
  assumes "trie_ok nodes" "trie_insert nodes raw = Inr j" "scope_components raw = Inr s"
  shows "trie_ok j \<and> trie_scopes j = insert s (trie_scopes nodes)"
proof -
  obtain cs recursive where s: "s = (cs, recursive)" by (cases s)
  obtain walked k where w: "trie_walk nodes 0 cs = (walked, k)" by (cases "trie_walk nodes 0 cs")
  have "j = trie_mark walked k recursive"
    using assms(2,3) s w by (auto simp: trie_insert_def trie_mark_def Let_def)
  with trie_walk_ok [OF assms(1) _ w, of "[]"] s show ?thesis using trie_mark_ok [of walked cs k recursive] by simp
qed

lemma trie_matches_from_iff:
  "trie_matches_from nodes i ps \<longleftrightarrow>
     (\<exists>qs j. qs \<noteq> [] \<and> prefix qs ps \<and> descend nodes i qs = Some j \<and> tn_recursive (nodes ! j)) \<or>
     (\<exists>j. descend nodes i ps = Some j \<and> tn_exact (nodes ! j))"
proof (induction ps arbitrary: i)
  case (Cons p ps)
  show ?case
  proof (cases "map_of (tn_children (nodes ! i)) p")
    case None
    have "descend nodes i qs = None" if "qs \<noteq> []" "prefix qs (p # ps)" for qs
      using that None by (cases qs) auto
    with None show ?thesis by fastforce
  next
    case (Some j)
    have "(\<exists>qs k. qs \<noteq> [] \<and> prefix qs (p # ps) \<and> descend nodes i qs = Some k \<and> tn_recursive (nodes ! k)) \<longleftrightarrow>
        (\<exists>qs k. prefix qs ps \<and> descend nodes j qs = Some k \<and> tn_recursive (nodes ! k))" (is "?l \<longleftrightarrow> ?r")
    proof
      assume ?l
      then obtain qs k where "qs \<noteq> []" "prefix qs (p # ps)" "descend nodes i qs = Some k" "tn_recursive (nodes ! k)" by blast
      then show ?r using Some by (cases qs) auto
    next
      assume ?r
      then obtain qs k where "prefix qs ps" "descend nodes j qs = Some k" "tn_recursive (nodes ! k)" by blast
      with Some have "p # qs \<noteq> [] \<and> prefix (p # qs) (p # ps) \<and> descend nodes i (p # qs) = Some k \<and> tn_recursive (nodes ! k)"
        by simp
      then show ?l by blast
    qed
    moreover have "(\<exists>qs k. prefix qs ps \<and> descend nodes j qs = Some k \<and> tn_recursive (nodes ! k)) \<longleftrightarrow>
        tn_recursive (nodes ! j) \<or>
        (\<exists>qs k. qs \<noteq> [] \<and> prefix qs ps \<and> descend nodes j qs = Some k \<and> tn_recursive (nodes ! k))"
      by (metis Nil_prefix descend.simps(1) option.inject)
    ultimately show ?thesis using Some Cons [of j] by auto
  qed
qed auto

lemma trie_exact_from_iff: "trie_exact_from nodes i ps \<longleftrightarrow> (\<exists>j. descend nodes i ps = Some j \<and> tn_exact (nodes ! j))"
  by (induction ps arbitrary: i) (auto split: option.splits)

interpretation trie: scope_index trie_new trie_insert trie_matches trie_matches_exact trie_ok trie_scopes
proof
  show "trie_ok trie_new" "trie_scopes trie_new = {}" by (rule trie_new_ok)+
  show "trie_insert i raw = Inl e \<longleftrightarrow> scope_components raw = Inl e" for i raw e
    by (cases "scope_components raw") (auto simp: trie_insert_def Let_def split: prod.splits)
  show "trie_ok j" if "trie_ok i" "trie_insert i raw = Inr j" for i raw j
    using that trie_insert_ok by (cases "scope_components raw") (auto simp: trie_insert_def)
  show "trie_scopes j = insert s (trie_scopes i)" if "trie_ok i" "trie_insert i raw = Inr j" "scope_components raw = Inr s"
    for i raw j s using that trie_insert_ok by blast
  show "trie_matches i p \<longleftrightarrow> (\<exists>s\<in>trie_scopes i. covers s (relative_parts p))" if "trie_ok i" for i p
  proof -
    have "trie_matches i p \<longleftrightarrow>
        (\<exists>qs j. prefix qs (relative_parts p) \<and> descend i 0 qs = Some j \<and> tn_recursive (i ! j)) \<or>
        (\<exists>j. descend i 0 (relative_parts p) = Some j \<and> tn_exact (i ! j))"
      unfolding trie_matches_def trie_matches_from_iff by (metis Nil_prefix descend.simps(1) option.inject)
    also have "\<dots> \<longleftrightarrow> (\<exists>cs recursive. (cs, recursive) \<in> trie_scopes i \<and> covers (cs, recursive) (relative_parts p))"
      unfolding trie_scopes_def by (auto split: if_splits)
    also have "\<dots> \<longleftrightarrow> (\<exists>s\<in>trie_scopes i. covers s (relative_parts p))" by fast
    finally show ?thesis .
  qed
  show "trie_matches_exact i p \<longleftrightarrow> (relative_parts p, False) \<in> trie_scopes i" for i p
    by (auto simp: trie_matches_exact_def trie_exact_from_iff trie_scopes_def)
qed

section \<open>Overlap and conflict\<close>

lemma overlap_iff_common_path:
  "(ls = rs \<or> (lr \<and> prefix ls rs) \<or> (rr \<and> prefix rs ls)) \<longleftrightarrow> (\<exists>p. covers (ls, lr) p \<and> covers (rs, rr) p)"
proof
  assume "ls = rs \<or> (lr \<and> prefix ls rs) \<or> (rr \<and> prefix rs ls)"
  then show "\<exists>p. covers (ls, lr) p \<and> covers (rs, rr) p"
    by (auto intro: exI [of _ rs] exI [of _ ls])
next
  assume "\<exists>p. covers (ls, lr) p \<and> covers (rs, rr) p"
  then show "ls = rs \<or> (lr \<and> prefix ls rs) \<or> (rr \<and> prefix rs ls)"
    by (auto split: if_splits dest: prefix_same_cases)
qed

text \<open>The paths a claim covers: whether they are absolute, and their components.\<close>

definition claim_covers :: "string \<Rightarrow> bool \<times> string list \<Rightarrow> bool" where
  "claim_covers scope path \<longleftrightarrow> (\<exists>absolute components recursive.
     claim_scope_components scope = Inr (absolute, components, recursive) \<and>
     fst path = absolute \<and> covers (components, recursive) (snd path))"

lemma scope_claims_overlap_iff:
  assumes "scope_claims_overlap l r = Inr b"
  shows "b \<longleftrightarrow> (\<exists>path. claim_covers l path \<and> claim_covers r path)"
proof -
  from assms obtain a ls lr rs rr where c: "claim_scope_components l = Inr (a, ls, lr)"
      "claim_scope_components r = Inr (a, rs, rr)"
    and b: "b = (ls = rs \<or> (lr \<and> prefix ls rs) \<or> (rr \<and> prefix rs ls))"
    by (auto simp: scope_claims_overlap_def and_then_Inr_iff split: if_splits)
  then show ?thesis
    unfolding b overlap_iff_common_path by (auto simp: claim_covers_def)
qed

lemma any_ok_Inr:
  "any_ok f xs = Inr b \<Longrightarrow> (b \<longrightarrow> (\<exists>x\<in>set xs. f x = Inr True)) \<and> (\<not> b \<longrightarrow> (\<forall>x\<in>set xs. f x = Inr False))"
  by (induction xs arbitrary: b) (auto simp: and_then_Inr_iff split: if_splits)

lemma conflict_pairs:
  assumes "any_ok (\<lambda>l. any_ok (\<lambda>r. scope_claims_overlap l r) rs) ls = Inr b"
  shows "b \<longleftrightarrow> (\<exists>l\<in>set ls. \<exists>r\<in>set rs. \<exists>path. claim_covers l path \<and> claim_covers r path)"
proof (cases b)
  case True
  with any_ok_Inr [OF assms] obtain l where "l \<in> set ls" "any_ok (\<lambda>r. scope_claims_overlap l r) rs = Inr True" by blast
  with any_ok_Inr [of _ rs True] True scope_claims_overlap_iff show ?thesis by blast
next
  case False
  with any_ok_Inr [OF assms] have "\<forall>l\<in>set ls. \<forall>r\<in>set rs. scope_claims_overlap l r = Inr False"
    using any_ok_Inr [of _ rs False] by blast
  with False scope_claims_overlap_iff show ?thesis by blast
qed

lemma scope_projections_conflict_iff:
  assumes "scope_projections_conflict left right = Inr b"
  shows "b \<longleftrightarrow> (\<exists>path.
    ((\<exists>w\<in>set (sp_write_scopes left). claim_covers w path) \<and>
     (\<exists>s\<in>set (sp_read_scopes right) \<union> set (sp_write_scopes right). claim_covers s path)) \<or>
    ((\<exists>w\<in>set (sp_write_scopes right). claim_covers w path) \<and>
     (\<exists>s\<in>set (sp_read_scopes left) \<union> set (sp_write_scopes left). claim_covers s path)))"
proof -
  from assms obtain first where first: "any_ok (\<lambda>l. any_ok (\<lambda>r. scope_claims_overlap l r)
        (sp_read_scopes right @ sp_write_scopes right)) (sp_write_scopes left) = Inr first"
    and second: "if first then b else any_ok (\<lambda>r. any_ok (\<lambda>l. scope_claims_overlap r l) (sp_read_scopes left))
        (sp_write_scopes right) = Inr b"
    by (auto simp: scope_projections_conflict_def and_then_Inr_iff split: if_splits)
  show ?thesis
  proof (cases first)
    case True
    with second conflict_pairs [OF first] show ?thesis by auto
  next
    case False
    with second have "any_ok (\<lambda>r. any_ok (\<lambda>l. scope_claims_overlap r l) (sp_read_scopes left)) (sp_write_scopes right) = Inr b"
      by simp
    from conflict_pairs [OF this] conflict_pairs [OF first] False show ?thesis by auto
  qed
qed

end
