(* ===== verification/JSpace_Path_Facts.thy ===== *)
theory JSpace_Path_Facts
  imports JSpace_Matcher JSpace_Scope_Facts
begin

text \<open>
  Facts on paths: resolved paths have plain text, stripping a root leaves the segments below it, and a path below a
  root is matched by its segments.
\<close>

section \<open>Plain paths\<close>

text \<open>An absolute path with no empty, \<open>.\<close> or \<open>..\<close> part, as \<open>canonicalize\<close> returns it.\<close>

definition plain_segment :: "string \<Rightarrow> bool" where
  "plain_segment s = (yields s \<and> s \<noteq> ''..'' \<and> CHR ''/'' \<notin> set s)"

definition plain_path :: "string \<Rightarrow> bool" where
  "plain_path p = (\<exists>ss. list_all plain_segment ss \<and> p = ''/'' @ join_with ''/'' ss)"

lemma plain_segmentsD: "list_all plain_segment ss \<Longrightarrow> s \<in> set ss \<Longrightarrow> yields s \<and> s \<noteq> ''..'' \<and> CHR ''/'' \<notin> set s"
  by (auto simp: list_all_iff plain_segment_def)

lemma split_root: "split_char (CHR ''/'') (''/'' @ s) = [] # split_char (CHR ''/'') s"
  by simp

lemma split_plain:
  assumes "list_all plain_segment ss" "ss \<noteq> []"
  shows "split_char (CHR ''/'') (join_with ''/'' ss) = ss"
  using assms plain_segmentsD [OF assms(1)] by (intro split_join) auto

lemma plain_filter: "list_all plain_segment ss \<Longrightarrow> filter yields ss = ss"
  by (auto simp: filter_id_conv plain_segmentsD)

lemma plain_segments:
  assumes "list_all plain_segment ss"
  shows "path_segments (''/'' @ join_with ''/'' ss) = ss" "is_absolute (''/'' @ join_with ''/'' ss)"
proof -
  show "is_absolute (''/'' @ join_with ''/'' ss)" by (simp add: is_absolute_def)
  show "path_segments (''/'' @ join_with ''/'' ss) = ss"
    using assms by (cases "ss = []") (simp_all add: path_segments_def split_plain plain_filter yields_def)
qed

lemma plain_pathE:
  assumes "plain_path p"
  obtains ss where "list_all plain_segment ss" "p = ''/'' @ join_with ''/'' ss" "path_segments p = ss" "is_absolute p"
  using assms plain_segments unfolding plain_path_def by blast

lemma plain_path_segments: "plain_path p \<Longrightarrow> list_all plain_segment (path_segments p) \<and> is_absolute p"
  by (auto elim!: plain_pathE)

lemma plain_path_join:
  assumes "plain_path p" "plain_segment n"
  shows "plain_path (os_path_join p n)" "path_segments (os_path_join p n) = path_segments p @ [n]"
proof -
  obtain ss where ss: "list_all plain_segment ss" "p = ''/'' @ join_with ''/'' ss" "path_segments p = ss"
    using assms(1) by (rule plain_pathE)
  have n: "\<not> is_absolute n" using assms(2)
    by (cases n) (auto simp: plain_segment_def is_absolute_def yields_def)
  have "os_path_join p n = ''/'' @ join_with ''/'' (ss @ [n])"
  proof (cases "ss = []")
    case True
    with n ss show ?thesis by (simp add: os_path_join_def unix_join_def ends_with_def)
  next
    case False
    then have "last ss \<in> set ss" by simp
    then have l: "last ss \<noteq> []" "CHR ''/'' \<notin> set (last ss)" using plain_segmentsD [OF ss(1)] by (auto simp: yields_def)
    have "last (last ss) \<noteq> CHR ''/''" using l by (metis last_in_set)
    with False l have "last p \<noteq> CHR ''/''"
      using join_with_last [of ss "''/''"] by (auto simp: ss(2))
    then have "\<not> ends_with p ''/''" by (auto simp: ends_with_iff)
    with n False show ?thesis
      by (simp add: os_path_join_def unix_join_def ss(2) join_with_append)
  qed
  moreover have plain: "list_all plain_segment (ss @ [n])" using ss(1) assms(2) by simp
  ultimately show "plain_path (os_path_join p n)" "path_segments (os_path_join p n) = path_segments p @ [n]"
    using plain_segments [OF plain] ss(3) unfolding plain_path_def by (blast, simp)
qed

lemma plain_path_joins:
  "plain_path p \<Longrightarrow> list_all plain_segment ns \<Longrightarrow>
   plain_path (foldl os_path_join p ns) \<and> path_segments (foldl os_path_join p ns) = path_segments p @ ns"
proof (induction ns arbitrary: p)
  case (Cons n ns)
  with plain_path_join [of p n] Cons.IH [of "os_path_join p n"] show ?case by simp
qed simp

lemma strip_verbatim_absolute: "is_absolute p \<Longrightarrow> strip_verbatim_prefix p = p"
  by (cases p) (auto simp: is_absolute_def strip_verbatim_prefix_def strip_prefix_def BACKSLASH_def)

section \<open>Below a root\<close>

lemma path_components_absolute: "is_absolute p \<Longrightarrow> path_components p = RootDir # map named_component (path_segments p)"
  by (simp add: path_components_def)

lemma named_component_inj: "named_component a = named_component b \<longleftrightarrow> a = b"
  by (auto simp: named_component_def)

lemma map_named_inj: "map named_component xs = map named_component ys \<longleftrightarrow> xs = ys"
  by (rule inj_map_eq_map) (auto simp: inj_def named_component_inj)

lemma prefix_map_named: "prefix (map named_component xs) (map named_component ys) \<longleftrightarrow> prefix xs ys"
proof
  assume "prefix (map named_component xs) (map named_component ys)"
  then have "map named_component xs = map named_component (take (length xs) ys)"
    by (metis length_map take_map append_eq_conv_conj prefix_def)
  then show "prefix xs ys" by (simp add: map_named_inj) (metis take_is_prefix)
qed (auto simp: prefix_def)

lemma starts_with_absolute:
  assumes "is_absolute p"
  shows "path_starts_with p q \<longleftrightarrow> path_components q = [] \<or> is_absolute q \<and> prefix (path_segments q) (path_segments p)"
proof (cases "is_absolute q")
  case True
  with assms show ?thesis by (simp add: path_starts_with_def path_components_absolute prefix_map_named)
next
  case False
  with assms show ?thesis
    by (auto simp: path_starts_with_def path_components_absolute path_components_def prefix_Cons named_component_def
      split: if_splits)
qed

lemma strip_segments_yields:
  assumes "list_all yields raw"
  shows "strip_segments rs raw = (if prefix rs raw then Some (drop (length rs) raw) else None)"
  using assms by (induction rs raw rule: strip_segments.induct) auto

lemma strip_path_plain:
  assumes "plain_path p" "is_absolute root"
  shows "strip_path root p = (if prefix (path_segments root) (path_segments p)
    then Some (join_with ''/'' (drop (length (path_segments root)) (path_segments p))) else None)"
proof -
  obtain ss where ss: "list_all plain_segment ss" "p = ''/'' @ join_with ''/'' ss" "path_segments p = ss" "is_absolute p"
    using assms(1) by (rule plain_pathE)
  let ?P = "\<lambda>s. \<not> yields s" and ?r = "path_segments root"
  have root: "list_all yields ?r" by (auto simp: path_segments_def list_all_iff)
  have yss: "list_all yields ss" using plain_segmentsD [OF ss(1)] by (auto simp: list_all_iff)
  have raw: "split_char (CHR ''/'') p = [] # (if ss = [] then [[]] else ss)"
    using split_plain [OF ss(1)] by (simp add: ss(2))
  have strip: "strip_segments ?r (split_char (CHR ''/'') p) =
      (if prefix ?r ss then Some (if ?r = [] then [] # (if ss = [] then [[]] else ss) else drop (length ?r) ss) else None)"
  proof (cases ?r)
    case Nil
    then show ?thesis by (simp add: raw)
  next
    case (Cons r rs)
    then show ?thesis using strip_segments_yields [OF yss, of "r # rs"] by (auto simp: raw yields_def)
  qed
  have trim: "dropWhile ?P (if ?r = [] then [] # (if ss = [] then [[]] else ss) else drop (length ?r) ss) = drop (length ?r) ss"
  proof -
    have "dropWhile ?P (drop k ss) = drop k ss" for k
    proof (cases "drop k ss")
      case (Cons a rest)
      then have "a \<in> set ss" by (metis in_set_dropD list.set_intros(1))
      with yss Cons show ?thesis by (simp add: list_all_iff)
    qed simp
    from this [of 0] this [of "length ?r"] show ?thesis by (auto simp: yields_def)
  qed
  have last: "drop_trailing ?P (drop k ss) = drop k ss" for k
  proof -
    have "dropWhile ?P (rev (drop k ss)) = rev (drop k ss)"
    proof (cases "rev (drop k ss)")
      case (Cons a rest)
      then have "a \<in> set (drop k ss)" by (metis list.set_intros(1) set_rev)
      then have "a \<in> set ss" by (rule in_set_dropD)
      with yss Cons show ?thesis by (simp add: list_all_iff)
    qed simp
    then show ?thesis by (simp add: drop_trailing_def)
  qed
  have comps: "path_components root \<noteq> []" using assms(2) by (simp add: path_components_absolute)
  show ?thesis
    using strip trim last [of "length ?r"] assms(2) ss(4) comps
    by (simp add: strip_path_def path_strip_prefix_def starts_with_absolute ss(3))
qed

text \<open>
  The matcher reads the path below a root with each backslash as a separator, so that one name of the file system may
  stand for several names of the contract.
\<close>

definition slash_parts :: "string list \<Rightarrow> string list" where
  "slash_parts names = concat (map (\<lambda>name. filter (\<lambda>part. part \<noteq> []) (split_char BACKSLASH name)) names)"

lemma split_replaced: "d \<notin> set s \<Longrightarrow> split_char d (replace_char c d s) = split_char c s"
  by (induction s) (auto simp: replace_char_def split: list.splits)

lemma replace_char_append: "replace_char c d (s @ t) = replace_char c d s @ replace_char c d t"
  by (simp add: replace_char_def)

lemma relative_parts_join:
  "\<forall>name\<in>set names. CHR ''/'' \<notin> set name \<Longrightarrow>
   relative_parts (replace_char BACKSLASH (CHR ''/'') (join_with ''/'' names)) = slash_parts names"
proof (induction names)
  case (Cons name names)
  have slash: "replace_char BACKSLASH (CHR ''/'') (CHR ''/'' # s) = CHR ''/'' # replace_char BACKSLASH (CHR ''/'') s" for s
    by (simp add: replace_char_def BACKSLASH_def)
  show ?case
  proof (cases "names = []")
    case True
    with Cons.prems show ?thesis by (simp add: relative_parts_def slash_parts_def split_replaced)
  next
    case False
    with Cons show ?thesis
      by (simp add: join_with_Cons replace_char_append slash relative_parts_def slash_parts_def split_char_append split_replaced)
  qed
qed (simp add: relative_parts_def slash_parts_def replace_char_def)

text \<open>A path whose names have no backslash is read as it is.\<close>

lemma slash_parts_plain:
  assumes "list_all plain_segment names" "\<forall>name\<in>set names. BACKSLASH \<notin> set name"
  shows "slash_parts names = names"
  using assms by (induction names) (auto simp: slash_parts_def plain_segment_def yields_def split_char_id)

text \<open>The relative text of a path below the root stands for its segments below the root.\<close>

lemma strip_path_parts:
  assumes "plain_path p" "is_absolute root" "strip_path root p = Some relative"
  shows "\<exists>path. path_segments p = path_segments root @ path \<and>
    relative_parts (replace_char BACKSLASH (CHR ''/'') relative) = slash_parts path"
proof -
  let ?ss = "drop (length (path_segments root)) (path_segments p)"
  have rel: "relative = join_with ''/'' ?ss" and pre: "prefix (path_segments root) (path_segments p)"
    using assms(3) unfolding strip_path_plain [OF assms(1,2)] by (auto split: if_splits)
  have "\<forall>name\<in>set ?ss. CHR ''/'' \<notin> set name"
    using plain_path_segments [OF assms(1)] by (auto dest!: in_set_dropD dest: plain_segmentsD)
  then have "relative_parts (replace_char BACKSLASH (CHR ''/'') relative) = slash_parts ?ss"
    unfolding rel by (rule relative_parts_join)
  moreover have "path_segments p = path_segments root @ ?ss" using pre by (metis append_eq_conv_conj prefix_def)
  ultimately show ?thesis by blast
qed

section \<open>Resolution\<close>

text \<open>What \<open>std::fs::canonicalize\<close> promises: an absolute path with all its parts normalised.\<close>

locale canonical_paths =
  fixes F :: "'f jos"
  assumes canonical_plain: "os_canonicalize F f p = Inr q \<Longrightarrow> plain_path q"
begin

lemma normalize_plain: "plain_path p \<Longrightarrow> plain_path (normalize_path F f p)"
  using canonical_plain plain_path_segments
  by (auto simp: normalize_path_def strip_verbatim_absolute split: sum.splits)

lemma file_name_plain: "path_file_name p = Some n \<Longrightarrow> plain_segment n"
proof -
  assume n: "path_file_name p = Some n"
  then have "last (path_components p) = Normal n" "path_components p \<noteq> []"
    by (auto simp: path_file_name_def components_file_name_def split: if_splits path_component.splits)
  then have "n \<noteq> ''..''"
    by (cases "path_segments p = []")
      (auto simp: path_components_def last_map named_component_def split: if_splits)
  moreover have "n \<in> set (path_segments p)" using file_name_segments [OF n] by auto
  ultimately show ?thesis using split_char_free [of n "CHR ''/''" p] by (auto simp: path_segments_def plain_segment_def)
qed

lemma boundary_names:
  "boundary_loop F f path missing existing = Inr (e, names) \<Longrightarrow> list_all plain_segment missing \<Longrightarrow>
   list_all plain_segment names"
proof (induction F f path missing existing rule: boundary_loop.induct)
  case (1 F f path missing existing)
  show ?case
  proof (cases "os_exists F f existing")
    case True
    with 1(2,3) show ?thesis by (simp add: boundary_loop.simps)
  next
    case False
    with 1(2) obtain n where n: "path_file_name existing = Some n"
      "boundary_loop F f path (missing @ [n]) (path_pop existing) = Inr (e, names)"
      by (subst (asm) boundary_loop.simps) (auto split: option.splits)
    have "plain_segment n" using n(1) file_name_plain by blast
    with 1(1) [OF False n(1) n(2)] 1(3) show ?thesis by simp
  qed
qed

lemma boundary_plain:
  assumes "resolve_existing_boundary F f path = Inr resolved"
  shows "plain_path resolved"
proof -
  obtain e names base where b: "boundary_loop F f path [] path = Inr (e, names)" "os_canonicalize F f e = Inr base"
    and r: "resolved = normalize_path F f (foldl os_path_join base (rev names))"
    using assms by (auto simp: resolve_existing_boundary_def and_then_Inr_iff)
  have "list_all plain_segment (rev names)" using boundary_names [OF b(1)] by (simp add: list_all_iff)
  then have "plain_path (foldl os_path_join base (rev names))"
    using plain_path_joins canonical_plain [OF b(2)] by blast
  then show ?thesis unfolding r by (rule normalize_plain)
qed

text \<open>A target is read as the segments of its resolved path below the root, if it resolves there.\<close>

lemma resolve_target_iff:
  assumes "is_absolute (jm_repo_root m)"
  shows "(\<exists>relative. resolve_target F f m target operation = Inr relative \<and> relative_parts relative = parts) \<longleftrightarrow>
    target \<noteq> [] \<and> ParentDir \<notin> set (path_components target) \<and>
    (\<exists>resolved path. resolve_existing_boundary F f (os_path_join (jm_repo_root m) target) = Inr resolved \<and>
       path_segments resolved = path_segments (jm_repo_root m) @ path \<and> slash_parts path = parts)"
    (is "?read \<longleftrightarrow> ?below")
proof -
  let ?stripped = "\<lambda>resolved. strip_path (jm_repo_root m) resolved"
  have lexical: "(if is_absolute target then target else os_path_join (jm_repo_root m) target) = os_path_join (jm_repo_root m) target"
    by (simp add: os_path_join_def)
  have found: "(case stripped of None \<Rightarrow> Inl e | Some s \<Rightarrow> Inr (h s)) = Inr y \<longleftrightarrow> (\<exists>s. stripped = Some s \<and> h s = y)"
    for stripped :: "string option" and e :: jspace_error and h :: "string \<Rightarrow> string" and y
    by (cases stripped) auto
  have read: "?read \<longleftrightarrow> target \<noteq> [] \<and> ParentDir \<notin> set (path_components target) \<and>
    (\<exists>resolved stripped. resolve_existing_boundary F f (os_path_join (jm_repo_root m) target) = Inr resolved \<and>
       ?stripped resolved = Some stripped \<and> relative_parts (replace_char BACKSLASH (CHR ''/'') stripped) = parts)"
    by (auto simp: resolve_target_def lexical Let_def and_then_Inr_iff found)
  have strip: "(\<exists>stripped. ?stripped resolved = Some stripped \<and> relative_parts (replace_char BACKSLASH (CHR ''/'') stripped) = parts) \<longleftrightarrow>
      (\<exists>path. path_segments resolved = path_segments (jm_repo_root m) @ path \<and> slash_parts path = parts)"
    if "resolve_existing_boundary F f (os_path_join (jm_repo_root m) target) = Inr resolved" for resolved
  proof -
    note plain = boundary_plain [OF that]
    note parts = strip_path_parts [OF plain assms]
    have "\<exists>stripped. ?stripped resolved = Some stripped" if "path_segments resolved = path_segments (jm_repo_root m) @ path" for path
      using that by (simp add: strip_path_plain [OF plain assms])
    with parts show ?thesis by (metis same_append_eq)
  qed
  show ?thesis unfolding read using strip by blast
qed

end

end
