(* ===== verification/JSpace_Command_Facts.thy ===== *)
theory JSpace_Command_Facts
  imports JSpace_Command Command_Quote_Facts
begin

text \<open>
  The strict argument parser of J-Space against the text functions of the command interceptor: a line it accepts is
  one segment whose tokens are the parsed arguments, and quoted words are accepted and read back.
\<close>

lemma quotes_distinct [simp]:
  "BACKSLASH \<noteq> SQUOTE" "SQUOTE \<noteq> BACKSLASH" "BACKSLASH \<noteq> DQUOTE" "DQUOTE \<noteq> BACKSLASH" "SQUOTE \<noteq> DQUOTE"
  "DQUOTE \<noteq> SQUOTE"
  by (simp_all add: quote_defs)

section \<open>Accepted lines are one command\<close>

definition argv_tok :: "argv_quote \<Rightarrow> string list \<Rightarrow> string \<Rightarrow> bool \<Rightarrow> tok_state" where
  "argv_tok q argv token started =
     \<lparr>tk_tokens = argv, tk_current = token, tk_single = (q = QuoteSingle), tk_double = (q = QuoteDouble),
      tk_escaped = False, tk_started = started\<rparr>"

lemma whitespace_quotes [simp]:
  "\<not> is_whitespace [BACKSLASH]" "\<not> is_whitespace [SQUOTE]" "\<not> is_whitespace [DQUOTE]"
  by (simp_all add: is_whitespace_def white_space_def quote_defs)

lemma tok_step_argv:
  "ch \<noteq> [SQUOTE] \<Longrightarrow> tok_step ch (argv_tok QuoteSingle argv token True) = argv_tok QuoteSingle argv (token @ ch) True"
  "tok_step [SQUOTE] (argv_tok QuoteSingle argv token True) = argv_tok QuoteNone argv token True"
  "ch \<noteq> [DQUOTE] \<Longrightarrow> ch \<noteq> [BACKSLASH] \<Longrightarrow>
     tok_step ch (argv_tok QuoteDouble argv token True) = argv_tok QuoteDouble argv (token @ ch) True"
  "tok_step [DQUOTE] (argv_tok QuoteDouble argv token True) = argv_tok QuoteNone argv token True"
  "tok_step e (tok_step [BACKSLASH] (argv_tok QuoteDouble argv token True)) = argv_tok QuoteDouble argv (token @ e) True"
  "tok_step e (tok_step [BACKSLASH] (argv_tok QuoteNone argv token started)) = argv_tok QuoteNone argv (token @ e) True"
  "tok_step [SQUOTE] (argv_tok QuoteNone argv token started) = argv_tok QuoteSingle argv token True"
  "tok_step [DQUOTE] (argv_tok QuoteNone argv token started) = argv_tok QuoteDouble argv token True"
  "is_whitespace ch \<Longrightarrow> tok_step ch (argv_tok QuoteNone argv token started) =
     (if started then argv_tok QuoteNone (argv @ [token]) [] False else argv_tok QuoteNone argv token False)"
  "\<not> is_whitespace ch \<Longrightarrow> ch \<noteq> [SQUOTE] \<Longrightarrow> ch \<noteq> [DQUOTE] \<Longrightarrow> ch \<noteq> [BACKSLASH] \<Longrightarrow>
     tok_step ch (argv_tok QuoteNone argv token started) = argv_tok QuoteNone argv (token @ ch) True"
  by (auto simp: tok_step_def argv_tok_def quote_defs is_whitespace_def white_space_def)

lemma argv_loop_Nil: "argv_loop raw q argv token started [] = Inr res \<Longrightarrow>
    q = QuoteNone \<and> res = (if started then argv @ [token] else argv)"
  by (auto split: if_splits)

text \<open>One round of the loop on an accepted line: what it read, and the state it goes on in.\<close>

lemma argv_loop_cases:
  assumes "argv_loop raw q argv token started (ch # chars) = Inr res"
  obtains (push) "q = QuoteSingle \<and> ch \<noteq> [SQUOTE] \<or> q = QuoteDouble \<and> ch \<noteq> [DQUOTE] \<and> ch \<noteq> [BACKSLASH]"
      "argv_loop raw q argv (token @ ch) started chars = Inr res"
    | (close) "q = QuoteSingle \<and> ch = [SQUOTE] \<or> q = QuoteDouble \<and> ch = [DQUOTE]"
      "argv_loop raw QuoteNone argv token started chars = Inr res"
    | (escape) e rest where "q \<noteq> QuoteSingle" "ch = [BACKSLASH]" "chars = e # rest"
      "argv_loop raw q argv (token @ e) (q = QuoteNone \<or> started) rest = Inr res"
    | (blank) "q = QuoteNone" "is_whitespace ch" "\<not> argv_control ch"
      "argv_loop raw QuoteNone (if started then argv @ [token] else argv) (if started then [] else token) False chars = Inr res"
    | (single) "q = QuoteNone" "ch = [SQUOTE]" "argv_loop raw QuoteSingle argv token True chars = Inr res"
    | (double) "q = QuoteNone" "ch = [DQUOTE]" "argv_loop raw QuoteDouble argv token True chars = Inr res"
    | (plain) "q = QuoteNone" "\<not> is_whitespace ch" "\<not> argv_control ch" "\<not> argv_denied ch" "ch \<noteq> [SQUOTE]"
      "ch \<noteq> [DQUOTE]" "ch \<noteq> [BACKSLASH]" "argv_loop raw QuoteNone argv (token @ ch) True chars = Inr res"
proof -
  have ok: "\<not> argv_control ch" using assms by (auto split: if_splits)
  show thesis
  proof (cases q)
    case QuoteSingle
    with assms ok show thesis by (cases "ch = [SQUOTE]") (auto intro: push close)
  next
    case QuoteDouble
    show thesis
    proof (cases "ch = [BACKSLASH]")
      case True
      with assms ok QuoteDouble show thesis by (cases chars) (auto intro: escape)
    next
      case False
      with assms ok QuoteDouble show thesis by (cases "ch = [DQUOTE]") (auto intro: push close split: if_splits)
    qed
  next
    case QuoteNone
    show thesis
    proof (cases "ch = [BACKSLASH]")
      case True
      with assms ok QuoteNone show thesis by (cases chars) (auto intro: escape split: if_splits)
    next
      case False
      with assms ok QuoteNone show thesis
        by (cases "is_whitespace ch"; cases "ch = [SQUOTE]"; cases "ch = [DQUOTE]"; cases "argv_denied ch")
          (auto intro: blank single double plain split: if_splits)
    qed
  qed
qed

lemma argv_loop_tokens:
  "argv_loop raw q argv token started chars = Inr res \<Longrightarrow> q = QuoteNone \<or> started \<Longrightarrow>
   tok_finish (fold tok_step chars (argv_tok q argv token started)) = Some res"
proof (induction chars arbitrary: q argv token started rule: measure_induct_rule [of length])
  case (less chars)
  show ?case
  proof (cases chars)
    case Nil
    have "q = QuoteNone \<and> res = (if started then argv @ [token] else argv)"
      using less.prems(1) unfolding Nil by (rule argv_loop_Nil)
    then show ?thesis unfolding Nil by (simp add: tok_finish_def argv_tok_def)
  next
    case (Cons ch rest)
    note IH = less.IH [of rest] less.IH [of "tl rest"]
    from less.prems(1) [unfolded Cons] show ?thesis
    proof (cases rule: argv_loop_cases)
      case push
      with IH(1) less.prems(2) Cons show ?thesis by (auto simp: tok_step_argv)
    next
      case close
      with IH(1) less.prems(2) Cons show ?thesis by (auto simp: tok_step_argv)
    next
      case (escape e tail)
      with IH(2) less.prems(2) Cons show ?thesis by (cases q) (auto simp: tok_step_argv)
    next
      case blank
      with IH(1) Cons show ?thesis by (auto simp: tok_step_argv split: if_splits)
    qed (use IH(1) Cons in \<open>simp_all add: tok_step_argv\<close>)
  qed
qed

definition argv_seg :: "argv_quote \<Rightarrow> string list \<Rightarrow> string \<Rightarrow> seg_state" where
  "argv_seg q segments current =
     \<lparr>sg_segments = segments, sg_current = current, sg_single = (q = QuoteSingle), sg_double = (q = QuoteDouble),
      sg_escaped = False, sg_paren_depth = 0, sg_backtick = False\<rparr>"

lemma seg_quote_argv:
  "ch \<noteq> [SQUOTE] \<Longrightarrow> seg_quote ch (argv_seg QuoteSingle segs cur) = Some (argv_seg QuoteSingle segs (cur @ ch))"
  "seg_quote [SQUOTE] (argv_seg QuoteSingle segs cur) = Some (argv_seg QuoteNone segs (cur @ [SQUOTE]))"
  "ch \<noteq> [DQUOTE] \<Longrightarrow> ch \<noteq> [BACKSLASH] \<Longrightarrow>
     seg_quote ch (argv_seg QuoteDouble segs cur) = Some (argv_seg QuoteDouble segs (cur @ ch))"
  "seg_quote [DQUOTE] (argv_seg QuoteDouble segs cur) = Some (argv_seg QuoteNone segs (cur @ [DQUOTE]))"
  "q \<noteq> QuoteSingle \<Longrightarrow> seg_quote [BACKSLASH] (argv_seg q segs cur) =
     Some ((argv_seg q segs (cur @ [BACKSLASH]))\<lparr>sg_escaped := True\<rparr>)"
  "seg_quote e ((argv_seg q segs cur)\<lparr>sg_escaped := True\<rparr>) = Some (argv_seg q segs (cur @ e))"
  "seg_quote [SQUOTE] (argv_seg QuoteNone segs cur) = Some (argv_seg QuoteSingle segs (cur @ [SQUOTE]))"
  "seg_quote [DQUOTE] (argv_seg QuoteNone segs cur) = Some (argv_seg QuoteDouble segs (cur @ [DQUOTE]))"
  by (auto simp: seg_quote_def argv_seg_def seg_push_def quote_defs)

lemma seg_quote_argv_plain:
  assumes "\<not> argv_control ch" "\<not> argv_denied ch" "ch \<noteq> [SQUOTE]" "ch \<noteq> [DQUOTE]" "ch \<noteq> [BACKSLASH]"
  shows "seg_quote ch (argv_seg QuoteNone segs cur) = Some (argv_seg QuoteNone segs (cur @ ch))"
proof -
  have "ch \<noteq> [BACKTICK]" "ch \<noteq> ''(''" "ch \<noteq> '')''" "ch \<notin> {[LF], '';'', ''|'', ''&''}"
    using assms(1,2) by (auto simp: argv_denied_def argv_control_def)
  with assms(3-) show ?thesis by (simp add: seg_quote_def argv_seg_def seg_push_def)
qed

lemma whitespace_allowed: "is_whitespace ch \<Longrightarrow> \<not> argv_denied ch"
  by (auto simp: is_whitespace_def white_space_def argv_denied_def quote_defs)

lemma split_loop_quote: "seg_quote ch st = Some st' \<Longrightarrow> split_loop st (ch # chars) = split_loop st' chars"
  by (cases chars) simp_all

lemma argv_loop_segment:
  "argv_loop raw q argv token started chars = Inr res \<Longrightarrow>
   split_loop (argv_seg q segs cur) chars = segs @ [cur @ concat chars]"
proof (induction chars arbitrary: q argv token started cur rule: measure_induct_rule [of length])
  case (less chars)
  show ?case
  proof (cases chars)
    case (Cons ch rest)
    have IH: "argv_loop raw q argv token started rest = Inr res \<Longrightarrow>
        split_loop (argv_seg q segs cur) rest = segs @ [cur @ concat rest]" for q argv token started cur
      using less.IH [of rest] Cons by simp
    have step: ?thesis
      if "seg_quote ch (argv_seg q segs cur) = Some (argv_seg q' segs (cur @ ch))"
        "argv_loop raw q' argv' token' started' rest = Inr res" for q' argv' token' started'
      unfolding Cons split_loop_quote [OF that(1)] by (subst IH [OF that(2)]) simp
    from less.prems(1) [unfolded Cons] show ?thesis
    proof (cases rule: argv_loop_cases)
      case push
      then show ?thesis using step [OF _ push(2)] by (auto simp: seg_quote_argv Cons simp del: split_loop.simps)
    next
      case close
      then show ?thesis using step [OF _ close(2)] by (auto simp: seg_quote_argv Cons simp del: split_loop.simps)
    next
      case (escape e tail)
      have "split_loop (argv_seg q segs (cur @ [BACKSLASH] @ e)) tail = segs @ [(cur @ [BACKSLASH] @ e) @ concat tail]"
        using less.IH [OF _ escape(4)] Cons escape(3) by simp
      with escape Cons show ?thesis by (simp add: split_loop_quote seg_quote_argv del: split_loop.simps)
    next
      case blank
      then have "ch \<noteq> [SQUOTE]" "ch \<noteq> [DQUOTE]" "ch \<noteq> [BACKSLASH]" by auto
      with blank step [OF _ blank(4)] show ?thesis by (simp add: seg_quote_argv_plain whitespace_allowed Cons del: split_loop.simps)
    next
      case single
      then show ?thesis using step [OF _ single(3)] by (simp add: seg_quote_argv Cons del: split_loop.simps)
    next
      case double
      then show ?thesis using step [OF _ double(3)] by (simp add: seg_quote_argv Cons del: split_loop.simps)
    next
      case plain
      then show ?thesis using step [OF _ plain(8)] by (simp add: seg_quote_argv_plain Cons del: split_loop.simps)
    qed
  qed (simp add: argv_seg_def)
qed

lemma parsed_line_is_one_command:
  assumes "parse_shell_argv raw = Inr argv"
  shows "tokenize raw = Some argv" "split_segments raw = [raw]"
proof -
  from assms have loop: "argv_loop raw QuoteNone [] [] False (str_chars raw) = Inr argv"
    by (simp add: parse_shell_argv_def split: if_splits)
  have "argv_tok QuoteNone [] [] False = tok_init" by (simp add: argv_tok_def tok_init_def)
  with argv_loop_tokens [OF loop] show "tokenize raw = Some argv" by (simp add: tokenize_def)
  have "argv_seg QuoteNone [] [] = seg_init" by (simp add: argv_seg_def seg_init_def)
  with argv_loop_segment [OF loop, of "[]" "[]"] show "split_segments raw = [raw]" by (simp add: split_segments_def)
qed

section \<open>Quoted words are accepted\<close>

definition one_line :: "string \<Rightarrow> bool" where
  "one_line w \<longleftrightarrow> list_all (\<lambda>ch. \<not> argv_control ch) (str_chars w)"

lemma safe_char_allowed:
  assumes "safe_char c"
  shows "\<not> argv_control [c]" "\<not> argv_denied [c]"
proof -
  show "\<not> argv_denied [c]"
    using assms by (auto simp: argv_denied_def safe_char_def name_char_def ascii_alphabetic_def ascii_digit_def quote_defs)
  show "\<not> argv_control [c]"
    using assms by (auto simp: argv_control_def safe_char_def name_char_def ascii_alphabetic_def ascii_digit_def
      quote_defs CR_def)
qed

lemma argv_loop_safe:
  "list_all safe_char w \<Longrightarrow> w \<noteq> [] \<Longrightarrow>
   argv_loop raw QuoteNone argv token started (map (\<lambda>c. [c]) w @ rest) =
   argv_loop raw QuoteNone argv (token @ w) True rest"
proof (induction w arbitrary: token started)
  case (Cons c w)
  then have "safe_char c" by simp
  note plain = safe_char_plain [OF this] and allowed = safe_char_allowed [OF this]
  have "argv_loop raw QuoteNone argv token started ([c] # map (\<lambda>c. [c]) w @ rest) =
      argv_loop raw QuoteNone argv (token @ [c]) True (map (\<lambda>c. [c]) w @ rest)"
    using plain allowed by simp
  with Cons show ?case by (cases "w = []") simp_all
qed simp

lemma quote_allowed [simp]: "\<not> argv_control [SQUOTE]" "\<not> argv_control [BACKSLASH]"
  by (simp_all add: argv_control_def quote_defs CR_def)

lemma argv_loop_quoted:
  "list_all (\<lambda>ch. \<not> argv_control ch) gs \<Longrightarrow>
   argv_loop raw QuoteSingle argv token True (concat (map quoted_char gs) @ rest) =
   argv_loop raw QuoteSingle argv (token @ concat gs) True rest"
proof (induction gs arbitrary: token)
  case (Cons g gs)
  have "argv_loop raw QuoteSingle argv token True (quoted_char g @ rest') =
      argv_loop raw QuoteSingle argv (token @ g) True rest'" for rest'
    using Cons.prems by (auto simp: quoted_char_def)
  with Cons show ?case by simp
qed simp

lemma argv_loop_word:
  assumes "one_line w"
  shows "argv_loop raw QuoteNone argv token started (word_chars w @ rest) =
    argv_loop raw QuoteNone argv (token @ w) True rest"
proof (cases "plain_word w")
  case True
  then show ?thesis by (simp add: word_chars_def plain_word_def argv_loop_safe)
next
  case False
  have "argv_loop raw QuoteNone argv token started ([SQUOTE] # concat (map quoted_char (str_chars w)) @ [SQUOTE] # rest) =
      argv_loop raw QuoteSingle argv token True (concat (map quoted_char (str_chars w)) @ [SQUOTE] # rest)"
    by simp
  also have "\<dots> = argv_loop raw QuoteSingle argv (token @ w) True ([SQUOTE] # rest)"
    using assms by (simp add: argv_loop_quoted one_line_def del: argv_loop.simps)
  finally show ?thesis using False by (simp add: word_chars_def)
qed

lemma argv_loop_line:
  "ws \<noteq> [] \<Longrightarrow> list_all one_line ws \<Longrightarrow>
   argv_loop raw QuoteNone argv [] False (line_chars ws) = Inr (argv @ ws)"
proof (induction ws arbitrary: argv rule: line_chars.induct)
  case (2 w)
  then show ?case using argv_loop_word [of w raw argv "[]" False "[]"] by simp
next
  case (3 w v ws)
  have blank: "is_whitespace '' ''" "\<not> argv_control '' ''"
    by (simp_all add: is_whitespace_def white_space_def argv_control_def quote_defs CR_def)
  from 3 have "argv_loop raw QuoteNone argv [] False (line_chars (w # v # ws)) =
      argv_loop raw QuoteNone argv w True ('' '' # line_chars (v # ws))"
    using argv_loop_word [of w] by simp
  also have "\<dots> = argv_loop raw QuoteNone (argv @ [w]) [] False (line_chars (v # ws))" using blank by simp
  finally show ?case using 3 by simp
qed simp

lemma parse_shell_join:
  assumes "ws \<noteq> []" "list_all boundary ws" "list_all one_line ws"
  shows "parse_shell_argv (shell_join ws) = Inr ws"
proof -
  have "str_chars (shell_join ws) = line_chars ws"
    using str_chars_line [of ws "[]"] assms(2) by (simp add: list_all_iff boundary_def)
  then show ?thesis
    using assms argv_loop_line [of ws "shell_join ws" "[]"] shell_join_ends [OF assms(1)]
    by (simp add: parse_shell_argv_def trim_shell_join)
qed

end
