(* ===== verification/JSpace_Admission_Facts.thy ===== *)
theory JSpace_Admission_Facts
  imports JSpace_Admission JSpace_Path_Facts JSpace_Command_Facts
begin

text \<open>
  What admission establishes of the compiled contract: where its fields come from, and what its tries match.
\<close>

section \<open>Admitted contracts\<close>

text \<open>The steps of admission that decide the fields of the compiled contract.\<close>

definition admitted_from :: "externals \<Rightarrow> 'f jos \<Rightarrow> 'f \<Rightarrow> string \<Rightarrow> json \<Rightarrow> json_object \<Rightarrow> jspace_matcher \<Rightarrow> bool" where
  "admitted_from X F f lexical_root contract obj m \<longleftrightarrow>
     as_object contract = Some obj \<and> required_string obj ''schema_version'' = Inr (jm_schema_version m) \<and>
     verified_contract_digests X F f contract obj (jm_schema_version m) = Inr (jm_content_digest m, jm_authorization_digest m) \<and>
     normalized_root F f lexical_root = Inr (jm_repo_root m) \<and> jm_lexical_repo_root m = lexical_root \<and>
     operations_of obj ''allowed_operations'' = Inr (jm_allowed_operations m) \<and>
     operations_of obj ''denied_operations'' = Inr (jm_denied_operations m) \<and>
     parse_verifier_grant X F f obj (jm_repo_root m) (jm_schema_version m) =
       Inr (jm_verifier_artifact_root m, jm_verifier_commands m) \<and>
     (\<forall>op\<in>jm_allowed_operations m. op \<notin> jm_denied_operations m) \<and>
     admitted_capabilities F f obj (jm_schema_version m) (jm_allowed_operations m) (jm_denied_operations m) =
       Inr (jm_effect_capabilities m) \<and>
     admitted_projection obj (jm_schema_version m) (jm_effect_capabilities m) =
       Inr (sp_read_scopes (jm_scope_projection m), sp_write_scopes (jm_scope_projection m), jm_declared_target_projection m) \<and>
     compile_tries obj (jm_schema_version m) (sp_read_scopes (jm_scope_projection m)) (sp_write_scopes (jm_scope_projection m)) =
       Inr (jm_read_scopes m, jm_write_scopes m, jm_declared_targets m) \<and>
     admitted_templates obj (jm_schema_version m) = Inr (jm_command_templates m) \<and>
     validate_command_templates F f (jm_command_templates m) (jm_allowed_operations m) (jm_denied_operations m)
       (jm_declared_targets m) (jm_effect_capabilities m) (jm_schema_version m = JSPACE_SCHEMA_VERSION) = Inr () \<and>
     jm_command_template_index m = template_index (jm_command_templates m) \<and>
     jm_read_commands m = map_of obj ''read_commands'' \<and> jm_inspect_shell m = map_of obj ''inspect_shell'' \<and>
     jm_parent_shell m = map_of obj ''parent_shell''"

lemma from_value_admitted:
  assumes "from_value X F f lexical_root contract = Inr m"
  shows "\<exists>obj. admitted_from X F f lexical_root contract obj m"
  using assms unfolding from_value_def Let_def and_then_Inr_iff
  by (clarsimp simp only: and_then_Inr_iff split_paired_all prod.case reject_if_Inr ok_or_Inr_iff)
    (auto simp: admitted_from_def operations_of_def)

section \<open>Scopes and claims\<close>

lemma starts_with_replaced:
  assumes "d \<notin> set w" "starts_with (replace_char c d s) w"
  shows "starts_with s w"
proof -
  have w: "map (\<lambda>x. if x = c then d else x) (take (length w) s) = w"
    using assms(2) by (simp add: starts_with_def replace_char_def take_map)
  have "c \<notin> set (take (length w) s)"
  proof
    assume "c \<in> set (take (length w) s)"
    then have "d \<in> set (map (\<lambda>x. if x = c then d else x) (take (length w) s))" by force
    with w assms(1) show False by simp
  qed
  then have "map (\<lambda>x. if x = c then d else x) (take (length w) s) = take (length w) s" by (auto intro: map_idI)
  with w show ?thesis by (simp add: starts_with_def)
qed

lemma no_prefix_replaced: "\<forall>w\<in>set ws. d \<notin> set w \<Longrightarrow> no_prefix ws s \<Longrightarrow> no_prefix ws (replace_char c d s)"
  using starts_with_replaced unfolding no_prefix_def by blast

lemma slash_not_white: "\<forall>w\<in>set white_space. CHR ''/'' \<notin> set w"
  by (simp add: white_space_def)

lemma trim_replaced: "trim (replace_char BACKSLASH (CHR ''/'') (trim s)) = replace_char BACKSLASH (CHR ''/'') (trim s)"
proof (rule trim_id)
  have front: "no_prefix white_space (trim s)"
    using strip_any_no_prefix [of white_space "trim s"] trim_start_trim [of s] by (simp add: trim_start_def)
  then show "no_prefix white_space (replace_char BACKSLASH (CHR ''/'') (trim s))"
    by (rule no_prefix_replaced [OF slash_not_white])
  have "trim_end (trim s) = trim s" by (simp add: trim_def)
  then have "no_prefix (map rev white_space) (rev (trim s))"
    using strip_any_no_prefix [of "map rev white_space" "rev (trim s)"] by (metis trim_end_def rev_rev_ident)
  then have "no_prefix (map rev white_space) (replace_char BACKSLASH (CHR ''/'') (rev (trim s)))"
    using slash_not_white by (intro no_prefix_replaced) auto
  then show "no_prefix (map rev white_space) (rev (replace_char BACKSLASH (CHR ''/'') (trim s)))"
    by (simp add: replace_char_def rev_map)
qed

lemma collect_components_raw: "collect_components raw parts = Inr cs \<Longrightarrow> collect_components raw' parts = Inr cs"
  by (induction parts arbitrary: cs) (auto simp: and_then_Inr_iff split: if_splits)

lemma replace_char_idem: "c \<noteq> d \<Longrightarrow> replace_char c d (replace_char c d s) = replace_char c d s"
  by (induction s) (auto simp: replace_char_def)

text \<open>A scope is the repository-relative claim of the same components.\<close>

lemma claim_of_scope:
  assumes "scope_components s = Inr (cs, r)"
  shows "claim_scope_components s = Inr (False, cs, r)"
proof -
  let ?t = "replace_char BACKSLASH (CHR ''/'') (trim s)"
  have t: "replace_char BACKSLASH (CHR ''/'') (trim ?t) = ?t"
    unfolding trim_replaced by (simp add: replace_char_idem BACKSLASH_def)
  have "\<not> starts_with ?t ''/''" using assms by (auto simp: scope_components_def Let_def split: if_splits)
  moreover have "scope_components ?t = Inr (cs, r)"
    using assms collect_components_raw [of s _ cs ?t] unfolding scope_components_def Let_def t
    by (auto simp: and_then_Inr_iff split: if_splits)
  ultimately show ?thesis by (simp add: claim_scope_components_def)
qed

lemma claim_covers_scope:
  "scope_components s = Inr c \<Longrightarrow> claim_covers s (False, path) \<longleftrightarrow> covers c path"
  using claim_of_scope [of s "fst c" "snd c"] by (cases c) (auto simp: claim_covers_def)

lemma exact_scope:
  assumes "scope_components t = Inr (cs, r)" "\<not> has_wildcard t"
  shows "\<not> r"
proof
  let ?t = "replace_char BACKSLASH (CHR ''/'') (trim t)"
  assume r
  then have "?t = ''**'' \<or> ends_with ?t ''/**''"
    using assms(1) by (auto simp: scope_components_def Let_def and_then_Inr_iff split: if_splits)
  then have "CHR ''*'' \<in> set ?t" by (auto simp: ends_with_iff)
  then have "CHR ''*'' \<in> set (trim t)" by (auto simp: replace_char_def BACKSLASH_def split: if_splits)
  with set_trim [of t] assms(2) show False by (auto simp: has_wildcard_def)
qed

section \<open>The tries of a single-root contract\<close>

lemma insert_declared_all:
  assumes "try_fold insert_declared nodes targets = Inr j"
  shows "try_fold trie_insert nodes targets = Inr j \<and> list_all (\<lambda>t. \<not> has_wildcard t) targets"
  using assms by (induction targets arbitrary: nodes)
    (auto simp: insert_declared_def and_then_Inr_iff split: if_splits)

definition scopes_cover :: "string list \<Rightarrow> string list \<Rightarrow> bool" where
  "scopes_cover scopes path \<longleftrightarrow> (\<exists>s\<in>set scopes. \<exists>c. scope_components s = Inr c \<and> covers c path)"

lemma compiled_scopes: "trie_insert_all trie_new scopes = Inr j \<Longrightarrow> trie_matches j p \<longleftrightarrow> scopes_cover scopes (relative_parts p)"
  unfolding trie_insert_all_def scopes_cover_def by (rule trie.compiled_hit)

lemma compiled_declared:
  assumes "try_fold insert_declared trie_new targets = Inr j"
  shows "trie_matches j p \<longleftrightarrow> (\<exists>t\<in>set targets. scope_components t = Inr (relative_parts p, False))"
proof -
  have all: "try_fold trie_insert trie_new targets = Inr j" "\<And>t. t \<in> set targets \<Longrightarrow> \<not> has_wildcard t"
    using insert_declared_all [OF assms] by (auto simp: list_all_iff)
  have "(\<exists>c. scope_components t = Inr c \<and> covers c path) \<longleftrightarrow> scope_components t = Inr (path, False)"
    if "t \<in> set targets" for t path
  proof -
    have "\<not> snd c" if "scope_components t = Inr c" for c
      using exact_scope [of t "fst c" "snd c"] all(2) \<open>t \<in> set targets\<close> that by (cases c) auto
    then show ?thesis by (auto split: if_splits)
  qed
  then show ?thesis unfolding trie.compiled_hit [OF all(1)] by blast
qed

lemma single_root_tries:
  assumes "admitted_from X F f lexical_root contract obj m" "jm_schema_version m \<noteq> JSPACE_SCHEMA_VERSION"
  obtains reads writes targets where
    "required_string_array obj ''read_scopes'' = Inr reads" "canonical_scope_set reads = Inr (sp_read_scopes (jm_scope_projection m))"
    "required_string_array obj ''write_scopes'' = Inr writes" "canonical_scope_set writes = Inr (sp_write_scopes (jm_scope_projection m))"
    "required_string_array obj ''declared_targets'' = Inr targets"
    "\<forall>p. trie_matches (jm_read_scopes m) p \<longleftrightarrow> scopes_cover (sp_read_scopes (jm_scope_projection m)) (relative_parts p)"
    "\<forall>p. trie_matches (jm_write_scopes m) p \<longleftrightarrow> scopes_cover (sp_write_scopes (jm_scope_projection m)) (relative_parts p)"
    "\<forall>p. trie_matches (jm_declared_targets m) p \<longleftrightarrow> (\<exists>t\<in>set targets. scope_components t = Inr (relative_parts p, False))"
    "\<forall>s\<in>set (sp_read_scopes (jm_scope_projection m)) \<union> set (sp_write_scopes (jm_scope_projection m)). is_ok (scope_components s)"
proof -
  let ?r = "sp_read_scopes (jm_scope_projection m)" and ?w = "sp_write_scopes (jm_scope_projection m)"
  obtain reads writes where sets: "required_string_array obj ''read_scopes'' = Inr reads" "canonical_scope_set reads = Inr ?r"
      "required_string_array obj ''write_scopes'' = Inr writes" "canonical_scope_set writes = Inr ?w"
    using assms by (auto simp: admitted_from_def admitted_projection_def and_then_Inr_iff)
  obtain targets where tries: "trie_insert_all trie_new ?r = Inr (jm_read_scopes m)"
      "trie_insert_all trie_new ?w = Inr (jm_write_scopes m)" "required_string_array obj ''declared_targets'' = Inr targets"
      "try_fold insert_declared trie_new targets = Inr (jm_declared_targets m)"
    using assms by (auto simp: admitted_from_def compile_tries_def and_then_Inr_iff)
  have "\<forall>s\<in>set ?r \<union> set ?w. is_ok (scope_components s)"
    using tries(1,2) trie.add_all_succeeds [of trie_new ?r] trie.add_all_succeeds [of trie_new ?w]
    by (auto simp: trie_insert_all_def)
  with sets tries(3) compiled_scopes [OF tries(1)] compiled_scopes [OF tries(2)] compiled_declared [OF tries(4)] show thesis
    using that by blast
qed

section \<open>Paths of a single-root contract\<close>

text \<open>
  What a contract grants: the operation is allowed and not denied, a scope of its kind covers the path below the root,
  and a mutation names exactly a declared target.
\<close>

definition granted :: "json_object \<Rightarrow> string \<Rightarrow> string list \<Rightarrow> bool" where
  "granted obj op path \<longleftrightarrow>
     (\<exists>allowed denied scopes projection.
        operations_of obj ''allowed_operations'' = Inr allowed \<and> op \<in> allowed \<and>
        operations_of obj ''denied_operations'' = Inr denied \<and> op \<notin> denied \<and>
        required_string_array obj (if op = ''read'' then ''read_scopes'' else ''write_scopes'') = Inr scopes \<and>
        canonical_scope_set scopes = Inr projection \<and> scopes_cover projection path) \<and>
     (op \<noteq> ''read'' \<longrightarrow> (\<exists>targets. required_string_array obj ''declared_targets'' = Inr targets \<and>
        (\<exists>t\<in>set targets. scope_components t = Inr (path, False))))"

lemma operations_known: "operations_of obj field = Inr ops \<Longrightarrow> ops \<subseteq> set KNOWN_OPERATIONS"
proof -
  assume "operations_of obj field = Inr ops"
  then obtain vs where "\<forall>v\<in>set vs. v \<notin> set KNOWN_OPERATIONS \<longrightarrow> v \<in> {''network'', ''install'', ''system_mutation''}"
      "ops = set vs"
    by (auto simp: operations_of_def operation_set_def and_then_Inr_iff try_each_Inr simp del: insert_iff)
  moreover have "{''network'', ''install'', ''system_mutation''} \<subseteq> set KNOWN_OPERATIONS" by (simp add: KNOWN_OPERATIONS_def)
  ultimately show ?thesis by blast
qed

lemma check_operation_Inr:
  "check_operation m op target = Inr () \<longleftrightarrow> op \<in> set KNOWN_OPERATIONS \<and> op \<notin> jm_denied_operations m \<and> op \<in> jm_allowed_operations m"
  by (simp add: check_operation_def)

lemma check_path_single:
  assumes "jm_schema_version m \<noteq> JSPACE_SCHEMA_VERSION"
  shows "check_path F f m op target = Inr () \<longleftrightarrow>
    check_operation m op target = Inr () \<and>
    (\<exists>relative. resolve_target F f m target op = Inr relative \<and>
       trie_matches (if op = ''read'' then jm_read_scopes m else jm_write_scopes m) relative \<and>
       (op \<noteq> ''read'' \<longrightarrow> trie_matches (jm_declared_targets m) relative))"
  using assms by (auto simp: check_path_def check_operation_Inr and_then_Inr_iff split: if_splits)

context canonical_paths
begin

lemma repo_root_absolute:
  assumes "admitted_from X F f lexical_root contract obj m" "is_absolute lexical_root"
  shows "is_absolute (jm_repo_root m)"
  using assms canonical_plain [of f lexical_root] plain_path_segments
  by (auto simp: admitted_from_def normalized_root_def normalize_path_def strip_verbatim_absolute split: if_splits sum.splits)

lemma admitted_path:
  assumes adm: "admitted_from X F f lexical_root contract obj m" "jm_schema_version m \<noteq> JSPACE_SCHEMA_VERSION"
    and root: "is_absolute lexical_root"
  shows "check_path F g m op target = Inr () \<longleftrightarrow>
    target \<noteq> [] \<and> ParentDir \<notin> set (path_components target) \<and>
    (\<exists>resolved path. resolve_existing_boundary F g (os_path_join (jm_repo_root m) target) = Inr resolved \<and>
       path_segments resolved = path_segments (jm_repo_root m) @ path \<and> granted obj op (slash_parts path))"
proof -
  have ops: "operations_of obj ''allowed_operations'' = Inr (jm_allowed_operations m)"
      "operations_of obj ''denied_operations'' = Inr (jm_denied_operations m)"
    using adm(1) by (auto simp: admitted_from_def)
  have known: "op \<in> jm_allowed_operations m \<Longrightarrow> op \<in> set KNOWN_OPERATIONS" using operations_known [OF ops(1)] by blast
  note res = resolve_target_iff [OF repo_root_absolute [OF adm(1) root]]
  obtain reads writes targets where t:
    "required_string_array obj ''read_scopes'' = Inr reads" "canonical_scope_set reads = Inr (sp_read_scopes (jm_scope_projection m))"
    "required_string_array obj ''write_scopes'' = Inr writes" "canonical_scope_set writes = Inr (sp_write_scopes (jm_scope_projection m))"
    "required_string_array obj ''declared_targets'' = Inr targets"
    "\<forall>p. trie_matches (jm_read_scopes m) p \<longleftrightarrow> scopes_cover (sp_read_scopes (jm_scope_projection m)) (relative_parts p)"
    "\<forall>p. trie_matches (jm_write_scopes m) p \<longleftrightarrow> scopes_cover (sp_write_scopes (jm_scope_projection m)) (relative_parts p)"
    "\<forall>p. trie_matches (jm_declared_targets m) p \<longleftrightarrow> (\<exists>t\<in>set targets. scope_components t = Inr (relative_parts p, False))"
    "\<forall>s\<in>set (sp_read_scopes (jm_scope_projection m)) \<union> set (sp_write_scopes (jm_scope_projection m)). is_ok (scope_components s)"
    by (rule single_root_tries [OF adm])
  have grant: "granted obj op path \<longleftrightarrow> op \<in> jm_allowed_operations m \<and> op \<notin> jm_denied_operations m \<and>
      scopes_cover (if op = ''read'' then sp_read_scopes (jm_scope_projection m) else sp_write_scopes (jm_scope_projection m)) path \<and>
      (op \<noteq> ''read'' \<longrightarrow> (\<exists>t\<in>set targets. scope_components t = Inr (path, False)))" for path
    using ops t(1-5) by (cases "op = ''read''") (simp_all add: granted_def)
  have match: "trie_matches (if op = ''read'' then jm_read_scopes m else jm_write_scopes m) relative \<and>
      (op \<noteq> ''read'' \<longrightarrow> trie_matches (jm_declared_targets m) relative) \<and> check_operation m op target = Inr () \<longleftrightarrow>
      granted obj op (relative_parts relative)" for relative
    using known by (auto simp: grant t(6-8) check_operation_Inr)
  have "check_path F g m op target = Inr () \<longleftrightarrow>
      (\<exists>parts. (\<exists>relative. resolve_target F g m target op = Inr relative \<and> relative_parts relative = parts) \<and> granted obj op parts)"
    unfolding check_path_single [OF adm(2)] using match by blast
  then show ?thesis unfolding res by blast
qed

end

end
