(* ===== verification/JSpace_Contract_Facts.thy ===== *)
theory JSpace_Contract_Facts
  imports JSpace_Admission_Facts
begin

text \<open>
  What an admitted contract allows: commands are its validated templates, effect domains are disjoint, discovery reads
  below its roots, and verifiers are bounded.
\<close>

section \<open>Templates\<close>

lemma map_of_add_template:
  "map_of (add_template entries (i, t)) argv =
   (case map_of entries argv of Some j \<Rightarrow> Some j | None \<Rightarrow> if tp_argv t = argv then Some i else None)"
  by (auto simp: add_template_def map_add_def split: option.splits)

lemma template_index_fold:
  "map_of (foldl add_template entries (enumerate n ts)) argv =
   (case map_of entries argv of
      Some i \<Rightarrow> Some i
    | None \<Rightarrow> map_option (\<lambda>i. n + i) (position (\<lambda>t. tp_argv t = argv) ts))"
proof (induction ts arbitrary: entries n)
  case (Cons t ts)
  show ?case
    by (cases "position (\<lambda>t. tp_argv t = argv) ts") (simp_all add: Cons map_of_add_template split: option.splits)
qed (simp split: option.splits)

lemma template_index_position: "map_of (template_index ts) argv = position (\<lambda>t. tp_argv t = argv) ts"
  using template_index_fold [of "[]" 0 ts argv] by (cases "position (\<lambda>t. tp_argv t = argv) ts") (simp_all add: template_index_def)

definition template_ok :: "command_template \<Rightarrow> bool" where
  "template_ok t \<longleftrightarrow>
     (\<forall>effect\<in>set (tp_effects t). effect \<in> {''create'', ''modify'', ''delete''} \<longrightarrow>
        (\<exists>target\<in>set (tp_targets t). ct_operation target = effect)) \<and>
     (\<forall>target\<in>set (tp_targets t). path_operation (ct_operation target) \<and> ct_operation target \<in> set (tp_effects t) \<and>
        ct_argv_index target < length (tp_argv t) \<and> tp_argv t ! ct_argv_index target = ct_path target)"

lemma validate_target_ok:
  "validate_target F f declared cs require_domain t seen target = Inr () \<Longrightarrow>
   path_operation (ct_operation target) \<and> ct_operation target \<in> set (tp_effects t) \<and>
   ct_argv_index target < length (tp_argv t) \<and> tp_argv t ! ct_argv_index target = ct_path target"
  by (auto simp: validate_target_def and_then_Inr_iff split: if_splits)

lemma validate_targets_ok:
  "validate_targets F f declared cs require_domain t seen targets = Inr () \<Longrightarrow> target \<in> set targets \<Longrightarrow>
   path_operation (ct_operation target) \<and> ct_operation target \<in> set (tp_effects t) \<and>
   ct_argv_index target < length (tp_argv t) \<and> tp_argv t ! ct_argv_index target = ct_path target"
proof (induction targets arbitrary: seen)
  case (Cons x targets)
  from Cons.prems(1) have x: "validate_target F f declared cs require_domain t seen x = Inr ()"
      "validate_targets F f declared cs require_domain t (seen @ [x]) targets = Inr ()"
    by (auto simp: and_then_Inr_iff)
  show ?case
  proof (cases "target = x")
    case True
    with validate_target_ok [OF x(1)] show ?thesis by simp
  next
    case False
    with Cons.IH [OF x(2)] Cons.prems(2) show ?thesis by simp
  qed
qed simp

lemma validate_template_ok:
  assumes "validate_template F f allowed denied declared cs require_domain seen t = Inr ()"
  shows "template_ok t \<and> tp_argv t \<notin> set seen"
proof -
  have targets: "validate_targets F f declared cs require_domain t [] (tp_targets t) = Inr ()"
    and mutating: "mutation_effects t = targeted_mutations t" and fresh: "tp_argv t \<notin> set seen"
    using assms by (auto simp: validate_template_def and_then_Inr_iff split: if_splits)
  have "\<exists>target\<in>set (tp_targets t). ct_operation target = effect"
    if "effect \<in> set (tp_effects t)" "effect \<in> {''create'', ''modify'', ''delete''}" for effect
  proof -
    have "effect \<in> mutation_effects t" using that unfolding mutation_effects_def by blast
    then have "effect \<in> targeted_effects t" unfolding mutating targeted_mutations_def by blast
    then show ?thesis unfolding targeted_effects_def by blast
  qed
  with validate_targets_ok [OF targets] fresh show ?thesis unfolding template_ok_def by blast
qed

lemma validate_templates_ok:
  "validate_templates_from F f allowed denied declared cs require_domain seen ts = Inr () \<Longrightarrow>
   list_all template_ok ts \<and> distinct (map tp_argv ts) \<and> set (map tp_argv ts) \<inter> set seen = {}"
proof (induction ts arbitrary: seen)
  case (Cons t ts)
  then have "validate_template F f allowed denied declared cs require_domain seen t = Inr ()"
    and rest: "validate_templates_from F f allowed denied declared cs require_domain (tp_argv t # seen) ts = Inr ()"
    by (auto simp: and_then_Inr_iff)
  with validate_template_ok [of F f allowed denied declared cs require_domain seen t] Cons.IH [OF rest] show ?case by auto
qed simp

lemma admitted_templates_ok:
  assumes "admitted_from X F f lexical_root contract obj m"
  shows "list_all template_ok (jm_command_templates m) \<and> distinct (map tp_argv (jm_command_templates m))"
proof -
  have "validate_templates_from F f (jm_allowed_operations m) (jm_denied_operations m) (jm_declared_targets m)
      (jm_effect_capabilities m) (jm_schema_version m = JSPACE_SCHEMA_VERSION) [] (jm_command_templates m) = Inr ()"
    using assms by (simp add: admitted_from_def validate_command_templates_def)
  from validate_templates_ok [OF this] show ?thesis by simp
qed

text \<open>The check of a target at the time of the command.\<close>

definition target_admitted :: "'f jos \<Rightarrow> 'f \<Rightarrow> jspace_matcher \<Rightarrow> command_target \<Rightarrow> bool" where
  "target_admitted F f m t \<longleftrightarrow>
     (if jm_schema_version m = JSPACE_SCHEMA_VERSION then check_effect_path F f m (ct_operation t) (ct_path t) (ct_domain_id t)
      else check_path F f m (ct_operation t) (ct_path t)) = Inr ()"

lemma check_template_targets:
  assumes "check_template F f m command workdir t = Inr ()"
  shows "\<forall>target\<in>set (tp_targets t). target_admitted F f m target"
  using assms by (auto simp: check_template_def target_admitted_def and_then_Inr_iff try_each_Inr split: if_splits)

lemma shell_kind: "is_known_command_type ''shell_command''"
    "''shell_command'' \<notin> {''apply_patch'', ''planning'', ''task_status''}" "''shell_command'' \<in> {''shell_command'', ''bash'', ''zsh''}"
  by (simp_all add: is_known_command_type_def)

lemma check_command_shell:
  assumes "check_command X F f m kind line = Inr ()" "normalize_command_type kind = ''shell_command''"
  shows "check_shell X F f m line = Inr () \<and> check_operation m ''command'' ''shell_command'' = Inr ()"
  using assms shell_kind by (auto simp: check_command_def Let_def and_then_Inr_iff simp del: insert_iff)

lemma check_shell_template:
  assumes "admitted_from X' F' f' lexical_root contract obj m" "check_shell X F f m line = Inr ()"
    and "jm_inspect_shell m = None" "jm_parent_shell m = None" "jm_read_commands m = None"
  shows "\<exists>t\<in>set (jm_command_templates m). parse_shell_argv (fst (shell_command_parts X line)) = Inr (tp_argv t) \<and>
    (\<forall>target\<in>set (tp_targets t). target_admitted F f m target)"
proof -
  obtain command workdir where parts: "shell_command_parts X line = (command, workdir)" by fastforce
  with assms(2-5) obtain argv i where run: "parse_shell_argv command = Inr argv"
      "map_of (jm_command_template_index m) argv = Some i"
      "check_template F f m command workdir (jm_command_templates m ! i) = Inr ()"
    by (auto simp: check_shell_def and_then_Inr_iff split: option.splits)
  have "position (\<lambda>t. tp_argv t = argv) (jm_command_templates m) = Some i"
    using run(2) assms(1) by (auto simp: admitted_from_def template_index_position)
  then have "i < length (jm_command_templates m)" "tp_argv (jm_command_templates m ! i) = argv"
    using position_Some_D by fastforce+
  with run check_template_targets [OF run(3)] parts show ?thesis
    by (intro bexI [of _ "jm_command_templates m ! i"]) auto
qed

section \<open>Effect domains\<close>

lemma check_effect_path_Inr:
  "check_effect_path F f m op target domain = Inr () \<longleftrightarrow> is_absolute target \<and> op \<notin> jm_denied_operations m \<and>
   (\<exists>c relative. match_domain F f op target domain (jm_effect_capabilities m) = Inr (Some (c, relative)) \<and>
      op \<in> ec_allowed_operations c \<and> trie_matches (if op = ''read'' then ec_read_scopes c else ec_write_scopes c) relative \<and>
      (op \<noteq> ''read'' \<longrightarrow> trie_matches (ec_declared_targets c) relative))"
proof (cases "match_domain F f op target domain (jm_effect_capabilities m)")
  case (Inl e)
  then show ?thesis by (simp add: check_effect_path_def)
next
  case (Inr found)
  then show ?thesis by (cases found) (simp_all add: check_effect_path_def split: prod.splits)
qed

lemma reject_overlaps_disjoint:
  assumes "reject_overlaps cs = Inr ()" "i < j" "j < length cs"
  shows "\<not> path_starts_with (ec_root (cs ! i)) (ec_root (cs ! j)) \<and> \<not> path_starts_with (ec_root (cs ! j)) (ec_root (cs ! i))"
  using assms
proof (induction cs arbitrary: i j)
  case (Cons c cs)
  from Cons.prems(1) have all: "\<forall>r\<in>set cs. \<not> path_starts_with (ec_root c) (ec_root r) \<and> \<not> path_starts_with (ec_root r) (ec_root c)"
    and rest: "reject_overlaps cs = Inr ()"
    by (auto simp: and_then_Inr_iff try_each_Inr)
  obtain k where k: "j = Suc k" "k < length cs" using Cons.prems(2,3) by (cases j) auto
  show ?case
  proof (cases i)
    case 0
    with all k show ?thesis by simp
  next
    case (Suc n)
    with Cons.IH [OF rest, of n k] Cons.prems(2) k show ?thesis by simp
  qed
qed simp

definition capability_ok :: "effect_capability \<Rightarrow> bool" where
  "capability_ok c \<longleftrightarrow> is_absolute (ec_root c) \<and>
     (\<forall>p. trie_matches (ec_read_scopes c) p \<longleftrightarrow> scopes_cover (ec_read_projection c) (relative_parts p)) \<and>
     (\<forall>p. trie_matches (ec_write_scopes c) p \<longleftrightarrow> scopes_cover (ec_write_projection c) (relative_parts p)) \<and>
     (\<forall>p. trie_matches (ec_declared_targets c) p \<longleftrightarrow> scopes_cover (ec_declared_projection c) (relative_parts p))"

context canonical_paths
begin

lemma normalized_root_absolute: "is_absolute p \<Longrightarrow> normalized_root F f p = Inr r \<Longrightarrow> is_absolute r"
  using canonical_plain [of f p] plain_path_segments
  by (auto simp: normalized_root_def normalize_path_def strip_verbatim_absolute split: if_splits sum.splits)

lemma parse_capability_ok:
  assumes "parse_capability F f denied ids v = Inr c"
  shows "capability_ok c \<and> ec_allowed_operations c \<inter> denied = {} \<and> (\<forall>op\<in>ec_allowed_operations c. path_operation op)"
proof -
  obtain lexical where "is_absolute lexical" "normalized_root F f lexical = Inr (ec_root c)"
      "trie_insert_all trie_new (ec_read_projection c) = Inr (ec_read_scopes c)"
      "trie_insert_all trie_new (ec_write_projection c) = Inr (ec_write_scopes c)"
      "trie_insert_all trie_new (ec_declared_projection c) = Inr (ec_declared_targets c)"
      "\<not> (\<exists>op\<in>ec_allowed_operations c. \<not> path_operation op \<or> op \<in> denied)"
    using assms unfolding parse_capability_def and_then_Inr_iff by (clarsimp simp: and_then_Inr_iff)
  then show ?thesis using normalized_root_absolute compiled_scopes unfolding capability_ok_def by blast
qed

lemma parse_capabilities_ok:
  "parse_capabilities F f denied cs vs = Inr ds \<Longrightarrow> list_all capability_ok cs \<Longrightarrow> list_all capability_ok ds"
  using parse_capability_ok by (induction vs arbitrary: cs) (auto simp: and_then_Inr_iff)

lemma admitted_domains:
  assumes "admitted_from X F f lexical_root contract obj m" "jm_schema_version m = JSPACE_SCHEMA_VERSION"
  shows "list_all capability_ok (jm_effect_capabilities m)" "reject_overlaps (jm_effect_capabilities m) = Inr ()"
proof -
  have "parse_effect_capabilities F f obj (jm_denied_operations m) = Inr (jm_effect_capabilities m)"
    using assms by (auto simp: admitted_from_def admitted_capabilities_def and_then_Inr_iff)
  then obtain vs cs where cs: "parse_capabilities F f (jm_denied_operations m) [] vs = Inr cs"
      "jm_effect_capabilities m = sort_key ec_domain_id cs" "reject_overlaps (sort_key ec_domain_id cs) = Inr ()"
    by (auto simp: parse_effect_capabilities_def Let_def and_then_Inr_iff split: option.splits json.splits if_splits)
  then show "list_all capability_ok (jm_effect_capabilities m)" "reject_overlaps (jm_effect_capabilities m) = Inr ()"
    using parse_capabilities_ok [OF cs(1)] by (auto simp: list_all_iff)
qed

text \<open>A path lies in at most one of the domains of a contract.\<close>

lemma one_domain:
  assumes "list_all capability_ok cs" "reject_overlaps cs = Inr ()" "c \<in> set cs" "d \<in> set cs"
    and "prefix (path_segments (ec_root c)) segs" "prefix (path_segments (ec_root d)) segs"
  shows "c = d"
proof -
  obtain i j where ij: "i < length cs" "cs ! i = c" "j < length cs" "cs ! j = d"
    using assms(3,4) by (auto simp: in_set_conv_nth)
  have abs: "is_absolute (ec_root c)" "is_absolute (ec_root d)"
    using assms(1,3,4) by (auto simp: list_all_iff capability_ok_def)
  have "path_starts_with (ec_root c) (ec_root d) \<or> path_starts_with (ec_root d) (ec_root c)"
    using prefix_same_cases [OF assms(5,6)] abs by (auto simp: starts_with_absolute)
  then have "i = j"
    using reject_overlaps_disjoint [OF assms(2), of i j] reject_overlaps_disjoint [OF assms(2), of j i] ij
    by (metis nat_neq_iff)
  with ij show ?thesis by simp
qed

lemma match_domain_Some:
  "match_domain F f op target domain cs = Inr (Some (c, relative)) \<Longrightarrow>
   c \<in> set cs \<and> domain_target F f c target op = Inr relative \<and> (domain = None \<or> domain = Some (ec_domain_id c))"
  by (induction F f op target domain cs rule: match_domain.induct) (auto split: if_splits sum.splits)

lemma domain_target_segments:
  assumes "domain_target F f c target op = Inr relative" "resolve_existing_boundary F f target = Inr resolved"
    and "is_absolute (ec_root c)"
  shows "\<exists>path. path_segments resolved = path_segments (ec_root c) @ path \<and> relative_parts relative = slash_parts path"
proof -
  obtain stripped where "strip_path (ec_root c) resolved = Some stripped"
      "relative = replace_char BACKSLASH (CHR ''/'') stripped"
    using assms(1,2) by (auto simp: domain_target_def Let_def split: if_splits option.splits)
  with strip_path_parts [OF boundary_plain [OF assms(2)] assms(3)] show ?thesis by blast
qed

lemma admitted_effect_path:
  assumes adm: "admitted_from X F f lexical_root contract obj m" "jm_schema_version m = JSPACE_SCHEMA_VERSION"
    and ok: "check_effect_path F g m op target domain = Inr ()"
    and target: "resolve_existing_boundary F g target = Inr resolved"
  shows "\<exists>c\<in>set (jm_effect_capabilities m). \<exists>path. path_segments resolved = path_segments (ec_root c) @ path \<and>
    op \<in> ec_allowed_operations c \<and> op \<notin> jm_denied_operations m \<and> (domain = None \<or> domain = Some (ec_domain_id c)) \<and>
    scopes_cover (if op = ''read'' then ec_read_projection c else ec_write_projection c) (slash_parts path) \<and>
    (op \<noteq> ''read'' \<longrightarrow> scopes_cover (ec_declared_projection c) (slash_parts path)) \<and>
    (\<forall>d\<in>set (jm_effect_capabilities m). prefix (path_segments (ec_root d)) (path_segments resolved) \<longrightarrow> d = c)"
proof -
  note doms = admitted_domains [OF adm]
  obtain c relative where m: "match_domain F g op target domain (jm_effect_capabilities m) = Inr (Some (c, relative))"
    and allowed: "op \<in> ec_allowed_operations c" "op \<notin> jm_denied_operations m"
      "trie_matches (if op = ''read'' then ec_read_scopes c else ec_write_scopes c) relative"
      "op \<noteq> ''read'' \<longrightarrow> trie_matches (ec_declared_targets c) relative"
    using ok unfolding check_effect_path_Inr by blast
  note found = match_domain_Some [OF m]
  have cok: "capability_ok c" using doms(1) found by (auto simp: list_all_iff)
  obtain path where segs: "path_segments resolved = path_segments (ec_root c) @ path" and read: "relative_parts relative = slash_parts path"
    using domain_target_segments found target cok unfolding capability_ok_def by blast
  have unique: "\<forall>d\<in>set (jm_effect_capabilities m). prefix (path_segments (ec_root d)) (path_segments resolved) \<longrightarrow> d = c"
  proof (intro ballI impI)
    fix d assume d: "d \<in> set (jm_effect_capabilities m)" "prefix (path_segments (ec_root d)) (path_segments resolved)"
    have "prefix (path_segments (ec_root c)) (path_segments resolved)" unfolding segs by simp
    then show "d = c" using one_domain [OF doms d(1) _ d(2)] found by simp
  qed
  have scope: "scopes_cover (if op = ''read'' then ec_read_projection c else ec_write_projection c) (slash_parts path)"
    using allowed(3) cok by (cases "op = ''read''") (simp_all add: capability_ok_def read)
  have declared: "op \<noteq> ''read'' \<longrightarrow> scopes_cover (ec_declared_projection c) (slash_parts path)"
    using allowed(4) cok by (simp add: capability_ok_def read)
  have "c \<in> set (jm_effect_capabilities m)" "domain = None \<or> domain = Some (ec_domain_id c)" using found by simp_all
  then show ?thesis using segs allowed(1,2) scope declared unique by (intro bexI exI conjI)
qed

end

end
