(* ===== verification/JSpace_Reader_Facts.thy ===== *)
theory JSpace_Reader_Facts
  imports JSpace_Contract_Facts
begin

text \<open>
  Facts on what a contract lets be read and run beside its templates: discovery stays below its roots and follows no
  link, verifiers are bounded, and a mapped binding names the pointer of the contract on disk.
\<close>

section \<open>Stripping any path\<close>

lemma strip_segments_filter:
  "strip_segments rs raw = Some rest \<Longrightarrow> list_all yields rs \<Longrightarrow>
   filter yields raw = rs @ filter yields rest \<and> (\<exists>k. rest = drop k raw)"
proof (induction rs raw rule: strip_segments.induct)
  case (1 raw)
  then show ?case by (auto intro: exI [of _ 0])
next
  case (3 r rs s raw)
  show ?case
  proof (cases "yields s")
    case True
    with 3 obtain k where "filter yields raw = rs @ filter yields rest" "rest = drop k raw" "s = r"
      by (auto split: if_splits)
    with True show ?thesis by (auto intro: exI [of _ "Suc k"])
  next
    case False
    with 3 obtain k where "filter yields raw = (r # rs) @ filter yields rest" "rest = drop k raw" by auto
    with False show ?thesis by (auto intro: exI [of _ "Suc k"])
  qed
qed simp

lemma filter_drop_silent: "filter yields (drop_trailing (\<lambda>s. \<not> yields s) (dropWhile (\<lambda>s. \<not> yields s) xs)) = filter yields xs"
proof -
  have "filter yields (dropWhile (\<lambda>s. \<not> yields s) ys) = filter yields ys" for ys by (induction ys) auto
  with drop_trailing_filter [of "\<lambda>s. \<not> yields s" "dropWhile (\<lambda>s. \<not> yields s) xs"] show ?thesis by simp
qed

lemma strip_path_segments:
  assumes "strip_path root p = Some relative"
  shows "path_segments p = path_segments root @ path_segments relative" "is_absolute p = is_absolute root"
proof -
  let ?P = "\<lambda>s. \<not> yields s"
  obtain rest where rest: "strip_segments (path_segments root) (split_char (CHR ''/'') p) = Some rest"
      "relative = join_with ''/'' (drop_trailing ?P (dropWhile ?P rest))" and abs: "is_absolute p = is_absolute root"
    using assms by (auto simp: strip_path_def path_strip_prefix_def split: if_splits)
  let ?t = "drop_trailing ?P (dropWhile ?P rest)"
  have "list_all yields (path_segments root)" by (auto simp: path_segments_def list_all_iff)
  with strip_segments_filter [OF rest(1)] obtain k
    where f: "path_segments p = path_segments root @ filter yields rest" "rest = drop k (split_char (CHR ''/'') p)"
    by (auto simp: path_segments_def)
  have free: "CHR ''/'' \<notin> set s" if "s \<in> set ?t" for s
    using that set_drop_trailing [of s ?P "dropWhile ?P rest"] set_dropWhileD [of s ?P rest]
      in_set_dropD [of s k "split_char (CHR ''/'') p"] split_char_free [of s "CHR ''/''" p] f(2) by blast
  have "path_segments relative = filter yields ?t"
  proof (cases "?t = []")
    case True
    then show ?thesis by (simp add: rest(2) path_segments_def yields_def)
  next
    case False
    then show ?thesis unfolding rest(2) using path_segments_join free by blast
  qed
  then show "path_segments p = path_segments root @ path_segments relative" using f(1) by (simp add: filter_drop_silent)
  show "is_absolute p = is_absolute root" by (rule abs)
qed

section \<open>Discovery\<close>

definition linkless :: "'f jos \<Rightarrow> 'f \<Rightarrow> string \<Rightarrow> bool" where
  "linkless F f p \<longleftrightarrow> (\<exists>meta. js_symlink_metadata F f p = Inr meta \<and> fm_kind meta \<noteq> FileSymlink)"

lemma no_links_from_Inr:
  "no_links_from F f root operand current ps = Inr path \<Longrightarrow>
   path = last (current # ps) \<and> list_all (linkless F f) ps"
  by (induction ps arbitrary: current) (auto simp: linkless_def split: sum.splits if_splits)

lemma push_prefixes_normal:
  "path = last (current # push_prefixes current (map Normal segs)) \<Longrightarrow> path = foldl os_path_join current segs"
  by (induction segs arbitrary: current) (auto simp: Let_def)

lemma normal_components:
  assumes "list_all is_normal (path_components p)"
  shows "path_components p = map Normal (path_segments p)" "\<not> is_absolute p"
proof -
  show "\<not> is_absolute p" using assms by (auto simp: path_components_def)
  then have "path_components p = map named_component (path_segments p)" using assms
    by (auto simp: path_components_def split: if_splits)
  moreover have "named_component s = Normal s" if "s \<in> set (path_segments p)" for s
    using assms that calculation by (auto simp: list_all_iff named_component_def)
  ultimately show "path_components p = map Normal (path_segments p)" by simp
qed

lemma unix_join_segments:
  assumes "root \<noteq> []" "CHR ''/'' \<notin> set n" "yields n"
  shows "path_segments (unix_join root n) = path_segments root @ [n]"
proof (cases "ends_with root ''/''")
  case True
  then obtain r where r: "root = r @ ''/''" by (auto simp: ends_with_iff)
  then have "unix_join root n = r @ CHR ''/'' # n" by (simp add: unix_join_def ends_with_iff)
  with r assms show ?thesis by (simp add: path_segments_def split_char_append split_char_id yields_def)
next
  case False
  with assms show ?thesis by (simp add: path_segments_def unix_join_def split_char_append split_char_id)
qed

lemma joined_segments:
  "is_absolute p \<Longrightarrow> (\<And>n. n \<in> set ns \<Longrightarrow> CHR ''/'' \<notin> set n \<and> yields n) \<Longrightarrow>
   path_segments (foldl os_path_join p ns) = path_segments p @ ns \<and> is_absolute (foldl os_path_join p ns)"
proof (induction ns arbitrary: p)
  case (Cons n ns)
  have n: "\<not> is_absolute n" using Cons.prems(2) [of n] by (cases n) (auto simp: is_absolute_def)
  have "p \<noteq> []" using Cons.prems(1) by (auto simp: is_absolute_def)
  then have "path_segments (os_path_join p n) = path_segments p @ [n]" "is_absolute (os_path_join p n)"
    using n Cons.prems unix_join_segments [of p n] by (auto simp: os_path_join_def unix_join_def is_absolute_def starts_with_iff)
  with Cons show ?case by simp
qed simp

text \<open>What the check of an operand shows of the file it names.\<close>

definition discovered :: "'f jos \<Rightarrow> 'f \<Rightarrow> jspace_matcher \<Rightarrow> string list \<Rightarrow> string \<Rightarrow> bool" where
  "discovered F f m roots named \<longleftrightarrow>
     (\<exists>segs. path_segments named = path_segments (jm_repo_root m) @ segs \<and> is_absolute named \<and>
        (\<exists>root\<in>set roots. prefix (path_segments root) segs) \<and> (\<forall>s\<in>set segs. \<not> starts_with s ''.'') \<and>
        list_all (linkless F f) (push_prefixes (jm_repo_root m) (map Normal segs)) \<and>
        check_path F f m ''read'' (foldl os_path_join (jm_repo_root m) segs) = Inr ())"

lemma relative_starts_with:
  assumes "path_starts_with relative root" "list_all is_normal (path_components relative)"
  shows "prefix (path_segments root) (path_segments relative)"
proof -
  have pre: "prefix (path_components root) (map Normal (path_segments relative))"
    using assms normal_components(1) [OF assms(2)] by (simp add: path_starts_with_def)
  then have "list_all is_normal (path_components root)" by (auto simp: prefix_def list_all_iff map_eq_append_conv)
  with pre normal_components(1) have "prefix (map Normal (path_segments root)) (map Normal (path_segments relative))" by metis
  then show ?thesis
    by (auto simp: prefix_def map_eq_append_conv) (metis (no_types, lifting) inj_def inj_map_eq_map path_component.inject)
qed

lemma check_operand_discovered:
  assumes "check_operand F f m tool roots cwd operand = Inr ()" "is_absolute (jm_repo_root m)"
  shows "discovered F f m roots (os_path_join cwd operand)"
proof -
  obtain relative path where rel: "strip_path (jm_repo_root m) (os_path_join cwd operand) = Some relative"
    and shape: "\<not> list_ex (\<lambda>c. \<not> is_normal c \<or> hidden_component c) (path_components relative)"
    and root: "list_ex (path_starts_with relative) roots"
    and links: "no_links F f (jm_repo_root m) relative operand = Inr path"
    and ok: "check_path F f m ''read'' path = Inr ()"
    using assms(1) by (auto simp: check_operand_def lexical_operand_def and_then_Inr_iff split: if_splits)
  let ?segs = "path_segments relative"
  have normal: "list_all is_normal (path_components relative)" using shape by (auto simp: list_ex_iff list_all_iff)
  note comps = normal_components [OF normal]
  have visible: "\<forall>s\<in>set ?segs. \<not> starts_with s ''.''"
    using shape unfolding comps(1) by (auto simp: list_ex_iff hidden_component_def)
  have under: "\<exists>root\<in>set roots. prefix (path_segments root) ?segs"
    using root relative_starts_with normal by (auto simp: list_ex_iff)
  have path: "path = foldl os_path_join (jm_repo_root m) ?segs"
    "list_all (linkless F f) (push_prefixes (jm_repo_root m) (map Normal ?segs))"
    using no_links_from_Inr [OF links [unfolded no_links_def]] push_prefixes_normal by (auto simp: comps(1))
  show ?thesis
    unfolding discovered_def using strip_path_segments [OF rel] assms(2) under visible path ok by blast
qed

lemma cat_operands_Inr: "cat_operands argv = Inr paths \<Longrightarrow> paths \<noteq> [] \<and> length paths \<le> 16 \<and> set paths \<subseteq> set argv"
  by (auto simp: cat_operands_def Let_def split: if_splits dest: in_set_dropD)

lemma branch_elim: "(if b then x else y) = z \<Longrightarrow> (x = z \<Longrightarrow> P) \<Longrightarrow> (y = z \<Longrightarrow> P) \<Longrightarrow> P"
  by (cases b) simp_all

lemma rg_options_step:
  assumes "rg_options st (arg # args) = Inr r"
  shows "r = (st, arg # args) \<or> (\<exists>st' tail. (tail = args \<or> tail = tl args) \<and> rg_options st' tail = Inr r)"
proof (cases args)
  case Nil
  from assms have "r = (st, [arg]) \<or> (\<exists>st'. rg_options st' [] = Inr r)"
    unfolding rg_options.simps(2) [of st arg args] unfolding Nil list.case
    by (elim branch_elim) (erule exI [THEN disjI2] | simp only: sum.distinct sum.inject simp_thms)+
  with Nil show ?thesis by blast
next
  case (Cons v rest)
  from assms have "r = (st, arg # args) \<or> (\<exists>st'. rg_options st' args = Inr r) \<or> (\<exists>st'. rg_options st' rest = Inr r)"
    unfolding rg_options.simps(2) [of st arg args] unfolding Cons list.case Let_def
    by (elim branch_elim)
      (erule exI [THEN disjI1, THEN disjI2] | erule exI [THEN disjI2, THEN disjI2] | simp only: sum.distinct sum.inject simp_thms)+
  moreover have "rest = tl args" using Cons by simp
  ultimately show ?thesis by blast
qed

lemma rg_options_rest: "rg_options st args = Inr (st', rest) \<Longrightarrow> set rest \<subseteq> set args"
proof (induction args arbitrary: st rule: measure_induct_rule [of length])
  case (less args)
  show ?case
  proof (cases args)
    case Nil
    with less.prems show ?thesis by simp
  next
    case (Cons arg tail)
    from rg_options_step [OF less.prems [unfolded Cons]] consider "rest = arg # tail"
      | st1 where "rg_options st1 tail = Inr (st', rest)" | st1 where "rg_options st1 (tl tail) = Inr (st', rest)" by auto
    then show ?thesis
    proof cases
      case 1
      with Cons show ?thesis by simp
    next
      case 2
      with less.IH [of tail] Cons show ?thesis by auto
    next
      case 3
      with less.IH [of "tl tail"] Cons show ?thesis by (cases tail) auto
    qed
  qed
qed

lemma rg_operands_Inr:
  assumes "rg_operands argv = Inr paths"
  shows "paths \<noteq> [] \<and> length paths \<le> 16 \<and> set paths \<subseteq> set argv"
proof -
  obtain st rest where opts: "rg_options rg_init (drop 1 argv) = Inr (st, rest)"
    and paths: "paths \<noteq> []" "length paths \<le> 16" "paths = tl rest \<or> paths = tl (tl rest)"
    using assms by (auto simp: rg_operands_def and_then_Inr_iff Let_def split: if_splits)
  have "set (tl (tl rest)) \<subseteq> set rest" "set (tl rest) \<subseteq> set rest" by (metis list.set_sel(2) subsetI tl_Nil)+
  moreover have "set rest \<subseteq> set argv" using rg_options_rest [OF opts] by (auto dest: in_set_dropD)
  ultimately show ?thesis using paths by blast
qed

lemma pinned_tool_Inr:
  assumes "pinned_tool policy program = Inr tool"
  shows "tool \<in> {''rg'', ''cat''} \<and> policy_text policy tool ''path'' = Some program"
proof (cases "find (\<lambda>tool. policy_text policy tool ''path'' = Some program) [''rg'', ''cat'']")
  case None
  with assms show ?thesis by (auto simp: pinned_tool_def split: option.splits if_splits)
next
  case (Some t)
  with assms show ?thesis unfolding pinned_tool_def find_Some_iff by (auto simp: less_Suc_eq split: if_splits)
qed

lemma read_check_Inr:
  assumes "read_check X F f m argv cwd = Inr ()" "is_absolute (jm_repo_root m)"
  shows "\<exists>policy tool program bytes roots paths. jm_read_commands m = Some policy \<and> tool \<in> {''rg'', ''cat''} \<and>
    policy_text policy tool ''path'' = Some program \<and> program = (case argv of p # _ \<Rightarrow> p | [] \<Rightarrow> []) \<and>
    os_read F f program = Inr bytes \<and> policy_text policy tool ''sha256'' = Some (sha256_hex X bytes) \<and>
    read_validate policy = Inr roots \<and> (if tool = ''cat'' then cat_operands argv else rg_operands argv) = Inr paths \<and>
    paths \<noteq> [] \<and> length paths \<le> 16 \<and> set paths \<subseteq> set argv \<and>
    (\<forall>operand\<in>set paths. discovered F f m roots (os_path_join cwd operand))"
proof -
  let ?program = "case argv of p # _ \<Rightarrow> p | [] \<Rightarrow> []"
  obtain policy tool where policy: "jm_read_commands m = Some policy" and tool: "pinned_tool policy ?program = Inr tool"
    and rest: "(case (policy_text policy tool ''path'', policy_text policy tool ''sha256'') of
       (Some executable, Some expected) \<Rightarrow>
         and_then (map_err (\<lambda>_. read_denied ''executable unavailable'') (os_read F f executable)) (\<lambda>bytes.
         if \<not> same_resolved F f executable \<or> sha256_hex X bytes \<noteq> expected
         then Inl (read_denied ''executable identity changed'')
         else and_then (if tool = ''cat'' then cat_operands argv else rg_operands argv) (\<lambda>paths.
              and_then (read_validate policy) (\<lambda>roots.
              try_each (check_operand F f m tool roots cwd) paths)))
     | _ \<Rightarrow> Inl (read_denied ''missing executable identity'')) = Inr ()"
    using assms(1) unfolding read_check_def and_then_Inr_iff ok_or_Inr_iff by blast
  note t = pinned_tool_Inr [OF tool]
  from rest t obtain bytes roots paths where "os_read F f ?program = Inr bytes"
      "policy_text policy tool ''sha256'' = Some (sha256_hex X bytes)"
      "(if tool = ''cat'' then cat_operands argv else rg_operands argv) = Inr paths" "read_validate policy = Inr roots"
      "\<forall>operand\<in>set paths. check_operand F f m tool roots cwd operand = Inr ()"
    by (auto simp: and_then_Inr_iff try_each_Inr simp del: insert_iff split: option.splits if_splits)
  moreover from this(3) have "paths \<noteq> [] \<and> length paths \<le> 16 \<and> set paths \<subseteq> set argv"
    using cat_operands_Inr rg_operands_Inr by (metis (full_types))
  ultimately show ?thesis using policy t check_operand_discovered [OF _ assms(2)] by metis
qed

section \<open>Verifiers\<close>

definition verifier_bounded :: "verifier_command \<Rightarrow> bool" where
  "verifier_bounded c \<longleftrightarrow> 1 \<le> length (vc_argv c) \<and> length (vc_argv c) \<le> 32 \<and>
     (\<forall>arg\<in>set (vc_argv c). arg \<noteq> [] \<and> length (str_chars arg) \<le> 1024 \<and> \<not> list_ex shell_syntax arg) \<and>
     \<not> list_ex glob_syntax (hd (vc_argv c)) \<and> file_name_text (hd (vc_argv c)) \<notin> set shell_names \<and>
     \<not> inline_interpreter (vc_argv c) \<and>
     length (vc_pinned_files c) \<le> 8 \<and> vc_timeout_seconds c \<noteq> 0 \<and> vc_timeout_seconds c \<le> 300 \<and> \<not> vc_network c"

definition verifier_pinned :: "externals \<Rightarrow> 'f jos \<Rightarrow> 'f \<Rightarrow> string \<Rightarrow> string \<Rightarrow> verifier_command \<Rightarrow> bool" where
  "verifier_pinned X F f root workspace c \<longleftrightarrow>
     (\<exists>bytes. os_read F f (hd (vc_argv c)) = Inr bytes \<and> sha256_hex X bytes = vc_executable_sha256 c) \<and>
     path_starts_with (vc_scratch_root c) root \<and> \<not> path_same (vc_scratch_root c) root \<and>
     \<not> path_starts_with (vc_scratch_root c) workspace \<and>
     (\<forall>pin\<in>set (vc_pinned_files c). jspace_lower_sha256 (vp_sha256 pin) \<and> vp_path pin \<in> set (vc_argv c))"

lemma arguments_ok:
  assumes "list_all verifier_argument_ok (enumerate 0 argv)" "argv \<noteq> []"
  shows "(\<forall>arg\<in>set argv. arg \<noteq> [] \<and> length (str_chars arg) \<le> 1024 \<and> \<not> list_ex shell_syntax arg) \<and>
    \<not> list_ex glob_syntax (hd argv)"
proof -
  have each: "verifier_argument_ok (i, argv ! i)" if "i < length argv" for i
    using assms(1) that by (auto simp: list_all_length nth_enumerate_eq)
  have "argv ! 0 = hd argv" using assms(2) by (simp add: hd_conv_nth)
  with each [of 0] assms(2) have "\<not> list_ex glob_syntax (hd argv)" by (auto simp: verifier_argument_ok_def list_ex_iff)
  moreover have "arg \<noteq> [] \<and> length (str_chars arg) \<le> 1024 \<and> \<not> list_ex shell_syntax arg" if arg: "arg \<in> set argv" for arg
  proof -
    obtain i where "i < length argv" "argv ! i = arg" using arg unfolding in_set_conv_nth by blast
    with each [of i] show ?thesis by (auto simp: verifier_argument_ok_def list_ex_iff)
  qed
  ultimately show ?thesis by blast
qed

lemma check_pins_Inr:
  "check_pins argv seen pins = Inr () \<Longrightarrow> pin \<in> set pins \<Longrightarrow> jspace_lower_sha256 (vp_sha256 pin) \<and> vp_path pin \<in> set argv"
proof (induction pins arbitrary: seen)
  case (Cons p pins)
  have "p = pin \<Longrightarrow> vp_path p \<in> set argv"
    using Cons.prems(1) by (auto simp: Let_def and_then_Inr_iff filter_empty_conv)
  with Cons show ?case by (auto simp: Let_def and_then_Inr_iff)
qed simp

lemma verifier_file_digest:
  "verifier_file X F f path expected executable stale data = Inr () \<Longrightarrow>
   \<exists>bytes. os_read F f path = Inr bytes \<and> sha256_hex X bytes = expected"
  by (auto simp: verifier_file_def Let_def and_then_Inr_iff)

lemma check_verifiers_Inr:
  "check_verifiers X F f root workspace scopes argvs scratches cs = Inr () \<Longrightarrow>
   list_all (\<lambda>c. verifier_bounded c \<and> verifier_pinned X F f root workspace c) cs"
proof (induction cs arbitrary: argvs scratches)
  case (Cons c cs)
  from Cons.prems have bounds: "vc_argv c \<noteq> []" "length (vc_argv c) \<le> 32" "length (vc_pinned_files c) \<le> 8"
      "vc_timeout_seconds c \<noteq> 0" "vc_timeout_seconds c \<le> 300" "\<not> vc_network c"
    and args: "list_all verifier_argument_ok (enumerate 0 (vc_argv c))"
    and name: "file_name_text (hd (vc_argv c)) \<notin> set shell_names" "\<not> inline_interpreter (vc_argv c)"
    and exe: "verifier_file X F f (hd (vc_argv c)) (vc_executable_sha256 c) True False False = Inr ()"
    and scratch: "verifier_scratch F f (vc_scratch_root c) root workspace False = Inr ()"
    and pins: "check_pins (vc_argv c) [] (vc_pinned_files c) = Inr ()"
    and rest: "check_verifiers X F f root workspace scopes (vc_argv c # argvs) (vc_scratch_root c # scratches) cs = Inr ()"
    by (auto simp: Let_def and_then_Inr_iff not_less)
  have "verifier_bounded c"
    using arguments_ok [OF args bounds(1)] bounds name unfolding verifier_bounded_def by (cases "vc_argv c") auto
  moreover have "verifier_pinned X F f root workspace c"
    using verifier_file_digest [OF exe] scratch check_pins_Inr [OF pins]
    unfolding verifier_pinned_def by (auto simp: verifier_scratch_def and_then_Inr_iff)
  ultimately show ?case using Cons.IH [OF rest] by simp
qed simp

lemma verifier_grant_Inr:
  assumes "parse_verifier_grant X F f obj workspace schema = Inr (root, cs)"
  shows "length cs \<le> 8 \<and> (cs \<noteq> [] \<longrightarrow> (\<exists>r. root = Some r \<and> list_all (\<lambda>c. verifier_bounded c \<and> verifier_pinned X F f r workspace c) cs))"
proof (cases "\<not> contains_key obj ''verifier_commands'' \<and> \<not> contains_key obj ''verifier_artifact_root''")
  case True
  with assms show ?thesis by (simp add: parse_verifier_grant_def)
next
  case False
  with assms obtain r scopes where "root = Some r" "length cs \<le> 8" "check_verifiers X F f r workspace scopes [] [] cs = Inr ()"
    unfolding parse_verifier_grant_def by (auto simp: and_then_Inr_iff Let_def split: if_splits)
  with check_verifiers_Inr [of X F f r workspace scopes "[]" "[]" cs] show ?thesis by blast
qed

section \<open>Mapped reads\<close>

lemma derive_observed_fields:
  assumes "derive_observed X F f repo_root repo bytes identity requested = Inr b"
  shows "mb_contract_sha256 b = sha256_hex X bytes" "mb_requested_logical_path b = requested"
    "\<not> path_starts_with (mb_physical_root b) repo_root"
    "requested = mb_logical_path b \<or> path_same requested (os_path_join repo_root (mb_logical_path b))"
    "\<exists>suf. strip_path (mb_logical_namespace b) (mb_logical_path b) = Some suf \<and>
       mb_physical_path b = os_path_join (mb_physical_root b) suf"
  using assms unfolding derive_observed_def Let_def and_then_Inr_iff
  by (clarsimp simp: and_then_Inr_iff)+

lemma derived_binding_validates:
  assumes "derive_binding X F f repo_root bytes expected requested = Inr b"
  shows "validate_binding X F f b repo_root = Inr ()"
proof -
  obtain repo identity where "open_absolute_directory F f repo_root = Inr repo" "read_contract F f repo = Inr (bytes, identity)"
      and d: "derive_observed X F f repo_root repo bytes identity requested = Inr b"
    using assms by (auto simp: derive_binding_def Let_def and_then_Inr_iff)
  with derive_observed_fields(1,2) [OF d] show ?thesis by (simp add: validate_binding_def)
qed

end
