(* ===== verification/JSpace_Cache_Facts.thy ===== *)
theory JSpace_Cache_Facts
  imports JSpace_Admission_Facts
begin

text \<open>
  The admission cache under interleaved admissions: a session keeps the root and the authorization it was first bound
  to, and every matcher the cache holds or returns was compiled from a contract with the recorded canonical text.
\<close>

inductive_cases admission_stepE: "admission_step X F st r st'"

section \<open>One session, one authorization\<close>

definition same_binding :: "jspace_matcher \<Rightarrow> jspace_matcher \<Rightarrow> bool" where
  "same_binding m n \<longleftrightarrow> path_same (jm_repo_root m) (jm_repo_root n) \<and> jm_authorization_digest m = jm_authorization_digest n"

lemma same_binding_refl [simp]: "same_binding m m"
  by (simp add: same_binding_def path_same_def)

lemma same_binding_sym: "same_binding m n \<Longrightarrow> same_binding n m"
  by (simp add: same_binding_def path_same_def)

lemma same_binding_trans: "same_binding m n \<Longrightarrow> same_binding n k \<Longrightarrow> same_binding m k"
  by (simp add: same_binding_def path_same_def)

definition bound_to :: "admission_cache \<Rightarrow> string \<Rightarrow> jspace_matcher \<Rightarrow> bool" where
  "bound_to cache s m \<longleftrightarrow> (\<exists>entry. jc_entries cache s = Some entry \<and> same_binding (ca_matcher entry) m)"

lemma publish_keeps:
  assumes "admit_publish cache s m c = (cache', r)" "bound_to cache t n"
  shows "bound_to cache' t n"
proof (cases "jc_entries cache s")
  case None
  with assms show ?thesis by (auto simp: admit_publish_def Let_def bound_to_def)
next
  case (Some entry)
  show ?thesis
  proof (cases "t = s")
    case True
    with assms Some show ?thesis
      by (auto simp: admit_publish_def Let_def bound_to_def same_binding_def path_same_def split: if_splits)
  next
    case False
    with assms Some show ?thesis by (auto simp: admit_publish_def Let_def bound_to_def split: if_splits)
  qed
qed

lemma publish_binds:
  assumes "admit_publish cache s m c = (cache', Inr m')"
  shows "bound_to cache' s m'"
  using assms
  by (auto simp: admit_publish_def Let_def bound_to_def same_binding_def path_same_def split: option.splits if_splits)

lemma lookup_binds: "admit_lookup cache s claim = Inr (Some m) \<Longrightarrow> bound_to cache s m"
  by (auto simp: admit_lookup_def bound_to_def split: option.splits if_splits)

lemma step_keeps:
  assumes "admission_step X F st r st'" "bound_to (fst st) s m"
  shows "bound_to (fst st') s m"
  using assms by (cases rule: admission_step.cases) (auto intro: publish_keeps)

lemma step_returns:
  assumes "admission_step X F st (Some (s, m)) st'"
  shows "bound_to (fst st') s m"
  using assms by (cases rule: admission_step.cases) (auto intro: publish_binds lookup_binds)

text \<open>Along a run: what was bound stays bound, and everything returned for a session is bound at the end.\<close>

lemma run_keeps:
  assumes "admission_run X F st returned st'"
  shows "bound_to (fst st) s m \<Longrightarrow> bound_to (fst st') s m"
    and "(s, m) \<in> set returned \<Longrightarrow> bound_to (fst st') s m"
proof -
  have "(bound_to (fst st) s m \<or> (s, m) \<in> set returned) \<longrightarrow> bound_to (fst st') s m"
    using assms
  proof induction
    case (quiet st returned st' st'')
    then show ?case using step_keeps by blast
  next
    case (return st returned st' r st'')
    show ?case
    proof (cases "r = (s, m)")
      case True
      with step_returns [of X F st' s m st''] return(2) show ?thesis by simp
    next
      case False
      with step_keeps [OF return(2)] return.IH show ?thesis by auto
    qed
  qed simp
  then show "bound_to (fst st) s m \<Longrightarrow> bound_to (fst st') s m" "(s, m) \<in> set returned \<Longrightarrow> bound_to (fst st') s m" by blast+
qed

lemma bound_to_unique: "bound_to cache s m \<Longrightarrow> bound_to cache s n \<Longrightarrow> same_binding m n"
proof -
  assume "bound_to cache s m" "bound_to cache s n"
  then obtain entry :: cached_admission where "same_binding (ca_matcher entry) m" "same_binding (ca_matcher entry) n"
    by (auto simp: bound_to_def)
  then show ?thesis using same_binding_sym same_binding_trans by blast
qed

section \<open>Authentic matchers\<close>

definition compiled_as :: "externals \<Rightarrow> 'f jos \<Rightarrow> jspace_matcher \<Rightarrow> string \<Rightarrow> bool" where
  "compiled_as X F m canonical_contract \<longleftrightarrow>
     (\<exists>f root contract. from_value X F f root contract = Inr m \<and> canonical_json X contract = canonical_contract)"

definition waiting_compiled :: "externals \<Rightarrow> 'f jos \<Rightarrow> publication list \<Rightarrow> bool" where
  "waiting_compiled X F waiting \<longleftrightarrow> (\<forall>p\<in>set waiting. compiled_as X F (fst (snd p)) (snd (snd p)))"

lemma waiting_compiled_remove: "waiting_compiled X F waiting \<Longrightarrow> waiting_compiled X F (remove1 p waiting)"
  using notin_set_remove1 by (force simp: waiting_compiled_def)

definition authentic :: "externals \<Rightarrow> 'f jos \<Rightarrow> admission_state \<Rightarrow> bool" where
  "authentic X F st \<longleftrightarrow>
     (\<forall>s entry. jc_entries (fst st) s = Some entry \<longrightarrow> compiled_as X F (ca_matcher entry) (ca_canonical_contract entry)) \<and>
     waiting_compiled X F (snd st)"

lemma claim_canonical:
  "admission_claim_of X F f s root contract = Inr claim \<Longrightarrow> cl_canonical_contract claim = canonical_json X contract"
  by (auto simp: admission_claim_of_def and_then_Inr_iff)

lemma publish_authentic:
  assumes "admit_publish cache s m c = (cache', r)" "compiled_as X F m c"
    and "\<forall>s entry. jc_entries cache s = Some entry \<longrightarrow> compiled_as X F (ca_matcher entry) (ca_canonical_contract entry)"
  shows "\<forall>s entry. jc_entries cache' s = Some entry \<longrightarrow> compiled_as X F (ca_matcher entry) (ca_canonical_contract entry)"
proof -
  let ?stored = "(jc_entries cache)(s \<mapsto> \<lparr>ca_matcher = m, ca_canonical_contract = c\<rparr>)"
  have "jc_entries cache' = jc_entries cache \<or> jc_entries cache' = ?stored"
    using assms(1) by (auto simp: admit_publish_def Let_def split: option.splits if_splits)
  moreover have "\<forall>t entry. ?stored t = Some entry \<longrightarrow> compiled_as X F (ca_matcher entry) (ca_canonical_contract entry)"
    using assms(2,3) by auto
  ultimately show ?thesis using assms(3) by metis
qed

lemma publish_returns:
  assumes "admit_publish cache s m c = (cache', Inr m')" "compiled_as X F m c"
    and "\<forall>s entry. jc_entries cache s = Some entry \<longrightarrow> compiled_as X F (ca_matcher entry) (ca_canonical_contract entry)"
  shows "compiled_as X F m' c"
  using assms by (auto simp: admit_publish_def Let_def split: option.splits if_splits)

lemma step_authentic:
  assumes "admission_step X F st r st'" "authentic X F st"
  shows "authentic X F st'"
  using assms
proof (cases rule: admission_step.cases)
  case (compile f s root contract claim cache f' m waiting)
  then have "compiled_as X F m (cl_canonical_contract claim)" using claim_canonical unfolding compiled_as_def by metis
  with compile assms(2) show ?thesis by (simp add: authentic_def waiting_compiled_def ball_Un)
next
  case (publish s m c waiting cache cache' m')
  with assms(2) have "compiled_as X F m c" by (auto simp: authentic_def waiting_compiled_def)
  from publish_authentic [OF publish(5) this] publish assms(2) show ?thesis
    by (simp add: authentic_def waiting_compiled_remove)
next
  case (refuse s m c waiting cache cache' e)
  with assms(2) have "compiled_as X F m c" by (auto simp: authentic_def waiting_compiled_def)
  from publish_authentic [OF refuse(5) this] refuse assms(2) show ?thesis
    by (simp add: authentic_def waiting_compiled_remove)
qed auto

lemma step_returns_authentic:
  assumes "admission_step X F st (Some (s, m)) st'" "authentic X F st"
  shows "\<exists>c. compiled_as X F m c"
  using assms(1)
proof (cases rule: admission_step.cases)
  case (hit f root contract claim cache waiting)
  then obtain entry where "jc_entries cache s = Some entry" "m = ca_matcher entry"
    by (auto simp: admit_lookup_def split: option.splits if_splits)
  with hit assms(2) show ?thesis by (auto simp: authentic_def)
next
  case (publish n c waiting cache cache')
  with assms(2) have "compiled_as X F n c" by (auto simp: authentic_def waiting_compiled_def)
  with publish publish_returns [OF publish(4) this] assms(2) show ?thesis by (auto simp: authentic_def)
qed

lemma run_authentic:
  "admission_run X F st returned st' \<Longrightarrow> authentic X F st \<Longrightarrow>
   authentic X F st' \<and> (\<forall>(s, m)\<in>set returned. \<exists>c. compiled_as X F m c)"
proof (induction rule: admission_run.induct)
  case (return st returned st' r st'')
  obtain s m where r: "r = (s, m)" by fastforce
  with step_returns_authentic [of X F st' s m st''] step_authentic [OF return(2)] return show ?case by auto
qed (auto intro: step_authentic)

text \<open>One admission on its own is such a run.\<close>

lemma admit_is_run:
  assumes "admit X F f cache s root request = (cache', Inr (Some m))"
  shows "admission_run X F (cache, []) [(s, m)] (cache', [])"
proof -
  obtain contract claim where c: "request = Some contract" "admission_claim_of X F f s root contract = Inr claim"
    using assms by (auto simp: admit_def and_then_Inr_iff split: option.splits sum.splits)
  show ?thesis
  proof (cases "admit_lookup cache s claim")
    case (Inl e)
    with assms c show ?thesis by (simp add: admit_def)
  next
    case (Inr found)
    show ?thesis
    proof (cases found)
      case (Some n)
      with assms c Inr have "n = m" "cache' = cache" by (simp_all add: admit_def)
      with admission_step.hit [OF c(2), of cache n "[]"] Inr Some show ?thesis
        using admission_run.return [OF admission_run.start, of X F "(cache, [])" "(s, m)" "(cache, [])"] by simp
    next
      case None
      with assms c Inr obtain n where n: "from_value X F f (cl_root claim) contract = Inr n"
          "admit_publish cache s n (cl_canonical_contract claim) = (cache', Inr m)"
        by (auto simp: admit_def and_then_Inr_iff split: sum.splits prod.splits)
      let ?w = "[(s, n, cl_canonical_contract claim)]"
      have one: "admission_step X F (cache, []) None (cache, ?w)"
        using admission_step.compile [OF c(2) _ n(1), of cache "[]"] Inr None by simp
      have two: "admission_step X F (cache, ?w) (Some (s, m)) (cache', [])"
        using admission_step.publish [OF _ n(2), of ?w X F] by simp
      show ?thesis
        using admission_run.return [OF admission_run.quiet [OF admission_run.start one] two] by simp
    qed
  qed
qed

end
