(* ===== verification/JSpace_Samples.thy ===== *)
theory JSpace_Samples
  imports JSpace_Reader_Facts JSpace_Cache_Facts Reference_Externals
begin

text \<open>
  A small file system with directories, files and symbolic links that keeps the law of \<open>canonical_paths\<close>, and
  contracts admitted on it.
\<close>

section \<open>Files\<close>

datatype tree_node = TreeDir | TreeFile string | TreeLink string

type_synonym tree = "(string \<times> tree_node) list"

definition plain_text :: "string \<Rightarrow> bool" where
  "plain_text p = (p = ''/'' @ join_with ''/'' (path_segments p) \<and> list_all plain_segment (path_segments p))"

lemma plain_text_path: "plain_text p \<Longrightarrow> plain_path p"
  unfolding plain_text_def plain_path_def by blast

text \<open>The entry a path leads to, through at most one link.\<close>

definition tree_real :: "tree \<Rightarrow> string \<Rightarrow> string option" where
  "tree_real f p =
     (case map_of f p of
        None \<Rightarrow> None
      | Some (TreeLink q) \<Rightarrow> (case map_of f q of Some (TreeLink r) \<Rightarrow> None | Some n \<Rightarrow> Some q | None \<Rightarrow> None)
      | Some n \<Rightarrow> Some p)"

definition tree_node_at :: "tree \<Rightarrow> string \<Rightarrow> tree_node option" where
  "tree_node_at f p = Option.bind (tree_real f p) (map_of f)"

definition tree_missing :: stat_error where
  "tree_missing = \<lparr>io_permission_denied = False, io_text = ''not found'', io_not_found = True\<rparr>"

definition tree_absent :: io_error where
  "tree_absent = \<lparr>io_permission_denied = False, io_text = ''not found''\<rparr>"

definition tree_meta :: "tree_node \<Rightarrow> file_meta" where
  "tree_meta n =
     \<lparr>fm_kind = (case n of TreeDir \<Rightarrow> FileDirectory | TreeFile _ \<Rightarrow> FileRegular | TreeLink _ \<Rightarrow> FileSymlink),
      fm_len = (case n of TreeFile s \<Rightarrow> length s | _ \<Rightarrow> 0), fm_mode = 493, fm_device = 1, fm_inode = 1, fm_times = []\<rparr>"

definition tree_canonicalize :: "tree \<Rightarrow> string \<Rightarrow> (io_error, string) result" where
  "tree_canonicalize f p =
     (case tree_real f p of Some q \<Rightarrow> if plain_text q then Inr q else Inl tree_absent | None \<Rightarrow> Inl tree_absent)"

definition tree_read :: "tree \<Rightarrow> string \<Rightarrow> (io_error, string) result" where
  "tree_read f p = (case tree_node_at f p of Some (TreeFile s) \<Rightarrow> Inr s | _ \<Rightarrow> Inl tree_absent)"

definition tree_os :: "tree jos" where
  "tree_os =
     \<lparr>os_canonicalize = tree_canonicalize, os_exists = (\<lambda>f p. tree_real f p \<noteq> None), os_read = tree_read,
      os_read_to_string = tree_read, os_write = (\<lambda>f p t. ((p, TreeFile t) # f, Inr ())),
      os_remove_file = (\<lambda>f p. (filter (\<lambda>e. fst e \<noteq> p) f, Inr ())), os_create_dir_all = (\<lambda>f d. (f, Inr ())),
      js_is_dir = (\<lambda>f p. tree_node_at f p = Some TreeDir),
      js_is_file = (\<lambda>f p. case tree_node_at f p of Some (TreeFile _) \<Rightarrow> True | _ \<Rightarrow> False),
      js_symlink_metadata = (\<lambda>f p. case map_of f p of Some n \<Rightarrow> Inr (tree_meta n) | None \<Rightarrow> Inl tree_missing),
      js_metadata = (\<lambda>f p. case tree_node_at f p of Some n \<Rightarrow> Inr (tree_meta n) | None \<Rightarrow> Inl tree_missing),
      js_openat = (\<lambda>f fd p d. Inl ''not supported''), js_fstat = (\<lambda>f fd. Inl ''not supported''),
      js_fread = (\<lambda>f fd n. Inl ''not supported''), js_statat = (\<lambda>f fd p. Inl ''not supported''),
      js_readlinkat = (\<lambda>f fd p. Inl ''not supported''), js_env = (\<lambda>_. None), js_json_entries = (\<lambda>_. None),
      js_slice_error = (\<lambda>_. ''invalid''), js_serde_error = (\<lambda>_. ''invalid''), js_debug_list = (\<lambda>_. [])\<rparr>"

interpretation tree_paths: canonical_paths tree_os
  by unfold_locales (auto simp: tree_os_def tree_canonicalize_def plain_text_path split: option.splits if_splits)

definition project_tree :: tree where
  "project_tree = [(''/w'', TreeDir), (''/w/src'', TreeDir), (''/w/src/a'', TreeFile ''x''), (''/w/b'', TreeFile ''y''),
     (''/out'', TreeDir), (''/w/src/link'', TreeLink ''/out/new'')]"

section \<open>Contracts\<close>

definition text_array :: "string list \<Rightarrow> json" where
  "text_array xs = JArray (map JString xs)"

definition src_contract_fields :: "json_object" where
  "src_contract_fields =
     [(''schema_version'', JString ''jspace_contract_v2''), (''repo_root'', JString ''/w''),
      (''dcf_generation'', JObject [(''repo_root'', JString ''/w'')]), (''provenance'', JObject []),
      (''expansion'', JObject [(''mode'', JString ''exact_target_only''), (''error_code'', JString ''JSPACE_EXPANSION_REQUIRED''),
         (''mutation_on_expansion'', JBool False)]),
      (''matched_surface_ids'', JArray []), (''focused_verifiers'', JArray []),
      (''allowed_operations'', text_array [''read'', ''create'', ''command'']), (''denied_operations'', text_array [''network'']),
      (''read_scopes'', text_array [''src/**'']), (''write_scopes'', text_array [''src/**'']),
      (''declared_targets'', text_array [''src/a'', ''src/link'']),
      (''command_templates'', JArray [JObject [(''argv'', text_array [''touch'', ''src/a'']), (''effects'', text_array [''create'']),
         (''targets'', JArray [JObject [(''operation'', JString ''create''), (''path'', JString ''src/a''),
            (''argv_index'', json_u64 1)]])]])]"

definition padded_digest :: "string \<Rightarrow> string" where
  "padded_digest tail = replicate 60 (CHR ''0'') @ ''a1'' @ tail"

definition src_fields :: json_object where
  "src_fields = src_contract_fields @
     [(''authorization_semantic_sha256'', JString (padded_digest ''ff'')), (''content_sha256'', JString (padded_digest ''00''))]"

definition src_contract :: json where
  "src_contract = JObject src_fields"

definition src_template :: command_template where
  "src_template = \<lparr>tp_argv = [''touch'', ''src/a''], tp_effects = [''create''],
     tp_targets = [\<lparr>ct_domain_id = None, ct_operation = ''create'', ct_path = ''src/a'', ct_argv_index = 1\<rparr>]\<rparr>"

definition src_scope_trie :: path_trie where
  "src_scope_trie = [\<lparr>tn_children = [(''src'', 1)], tn_exact = False, tn_recursive = False\<rparr>,
     \<lparr>tn_children = [], tn_exact = False, tn_recursive = True\<rparr>]"

definition src_target_trie :: path_trie where
  "src_target_trie = [\<lparr>tn_children = [(''src'', 1)], tn_exact = False, tn_recursive = False\<rparr>,
     \<lparr>tn_children = [(''link'', 3), (''a'', 2)], tn_exact = False, tn_recursive = False\<rparr>,
     \<lparr>tn_children = [], tn_exact = True, tn_recursive = False\<rparr>, \<lparr>tn_children = [], tn_exact = True, tn_recursive = False\<rparr>]"

definition src_matcher :: jspace_matcher where
  "src_matcher =
     \<lparr>jm_schema_version = JSPACE_SINGLE_ROOT_SCHEMA_VERSION, jm_repo_root = ''/w'', jm_lexical_repo_root = ''/w'',
      jm_content_digest = padded_digest ''00'', jm_authorization_digest = padded_digest ''ff'',
      jm_scope_projection = \<lparr>sp_read_scopes = [''src/**''], sp_write_scopes = [''src/**'']\<rparr>,
      jm_read_scopes = src_scope_trie, jm_write_scopes = src_scope_trie, jm_declared_targets = src_target_trie,
      jm_allowed_operations = set [''read'', ''create'', ''command''], jm_denied_operations = set [''network''],
      jm_command_templates = [src_template], jm_command_template_index = template_index [src_template],
      jm_read_commands = None, jm_inspect_shell = None, jm_parent_shell = None, jm_verifier_commands = [],
      jm_verifier_artifact_root = None, jm_source_read = False, jm_mapped_source_reads = [], jm_directory_source_read = False,
      jm_effect_capabilities = [], jm_declared_target_projection = [''src/a'', ''src/link'']\<rparr>"

text \<open>The steps of an admission without grants for reading and shells, and their composition.\<close>

lemma and_then_weak: "r = r' \<Longrightarrow> and_then r f = and_then r' f"
  by simp

lemma src_schema: "(JSPACE_SINGLE_ROOT_SCHEMA_VERSION = JSPACE_SCHEMA_VERSION) = False"
  by (simp add: JSPACE_SINGLE_ROOT_SCHEMA_VERSION_def JSPACE_SCHEMA_VERSION_def)

lemma from_value_composes:
  assumes "as_object contract = Some obj" "required_string obj ''schema_version'' = Inr schema"
    and "schema \<in> {JSPACE_SCHEMA_VERSION, JSPACE_SINGLE_ROOT_SCHEMA_VERSION, JSPACE_LEGACY_SCHEMA_VERSION}"
    and "parse_mapped_source_read_grant F obj = Inr []"
    and "verified_contract_digests X F f contract obj schema = Inr (content, authorization)"
    and "required_string obj ''repo_root'' = Inr root" "normalized_root F f root = Inr root"
    and "check_generation_root F f obj schema root = Inr ()" "validate_expansion_rule obj = Inr ()"
    and "validate_object_field obj ''dcf_generation'' = Inr ()" "validate_object_field obj ''provenance'' = Inr ()"
    and "validate_string_array_field obj ''matched_surface_ids'' = Inr ()"
    and "validate_object_array_field obj ''focused_verifiers'' = Inr ()"
    and "required_string_array obj ''allowed_operations'' = Inr allowed_values"
    and "required_string_array obj ''denied_operations'' = Inr denied_values"
    and "operation_set allowed_values ''allowed_operations'' = Inr allowed"
    and "operation_set denied_values ''denied_operations'' = Inr denied" "source_read_grant obj = Inr False"
    and "parse_verifier_grant X F f obj root schema = Inr (None, [])" "\<not> (\<exists>op\<in>allowed. op \<in> denied)"
    and "admitted_capabilities F f obj schema allowed denied = Inr capabilities"
    and "admitted_projection obj schema capabilities = Inr (reads, writes, declared)"
    and "compile_tries obj schema reads writes = Inr (read_trie, write_trie, declared_trie)"
    and "admitted_templates obj schema = Inr templates"
    and "validate_command_templates F f templates allowed denied declared_trie capabilities (schema = JSPACE_SCHEMA_VERSION) = Inr ()"
    and "map_of obj ''read_commands'' = None" "map_of obj ''inspect_shell'' = None" "map_of obj ''parent_shell'' = None"
    and "\<not> (''command'' \<in> allowed \<and> templates = [])"
  shows "from_value X F f root contract = Inr
    \<lparr>jm_schema_version = schema, jm_repo_root = root, jm_lexical_repo_root = root, jm_content_digest = content,
     jm_authorization_digest = authorization, jm_scope_projection = \<lparr>sp_read_scopes = reads, sp_write_scopes = writes\<rparr>,
     jm_read_scopes = read_trie, jm_write_scopes = write_trie, jm_declared_targets = declared_trie,
     jm_allowed_operations = allowed, jm_denied_operations = denied, jm_command_templates = templates,
     jm_command_template_index = template_index templates, jm_read_commands = None, jm_inspect_shell = None,
     jm_parent_shell = None, jm_verifier_commands = [], jm_verifier_artifact_root = None, jm_source_read = False,
     jm_mapped_source_reads = [], jm_directory_source_read = False, jm_effect_capabilities = capabilities,
     jm_declared_target_projection = declared\<rparr>"
  using assms unfolding from_value_def
  by (cases "''command'' \<in> allowed") (simp_all add: path_same_def check_read_policy_def check_inspect_policy_def check_parent_policy_def
    check_source_read_grant_def cong: and_then_weak)

lemma src_steps:
  "as_object src_contract = Some src_fields" "required_string src_fields ''schema_version'' = Inr JSPACE_SINGLE_ROOT_SCHEMA_VERSION"
  "JSPACE_SINGLE_ROOT_SCHEMA_VERSION \<in> {JSPACE_SCHEMA_VERSION, JSPACE_SINGLE_ROOT_SCHEMA_VERSION, JSPACE_LEGACY_SCHEMA_VERSION}"
  "parse_mapped_source_read_grant tree_os src_fields = Inr []"
  "verified_contract_digests reference_externals tree_os project_tree src_contract src_fields JSPACE_SINGLE_ROOT_SCHEMA_VERSION =
     Inr (padded_digest ''00'', padded_digest ''ff'')"
  "required_string src_fields ''repo_root'' = Inr ''/w''" "normalized_root tree_os project_tree ''/w'' = Inr ''/w''"
  "check_generation_root tree_os project_tree src_fields JSPACE_SINGLE_ROOT_SCHEMA_VERSION ''/w'' = Inr ()" "validate_expansion_rule src_fields = Inr ()"
  "validate_object_field src_fields ''dcf_generation'' = Inr ()" "validate_object_field src_fields ''provenance'' = Inr ()"
  "validate_string_array_field src_fields ''matched_surface_ids'' = Inr ()"
  "validate_object_array_field src_fields ''focused_verifiers'' = Inr ()"
  "required_string_array src_fields ''allowed_operations'' = Inr [''read'', ''create'', ''command'']"
  "required_string_array src_fields ''denied_operations'' = Inr [''network'']"
  "operation_set [''read'', ''create'', ''command''] ''allowed_operations'' = Inr (set [''read'', ''create'', ''command''])"
  "operation_set [''network''] ''denied_operations'' = Inr (set [''network''])" "source_read_grant src_fields = Inr False"
  "parse_verifier_grant reference_externals tree_os project_tree src_fields ''/w'' JSPACE_SINGLE_ROOT_SCHEMA_VERSION = Inr (None, [])"
  "\<not> (\<exists>op\<in>set [''read'', ''create'', ''command'']. op \<in> set [''network''])"
  "admitted_capabilities tree_os project_tree src_fields JSPACE_SINGLE_ROOT_SCHEMA_VERSION (set [''read'', ''create'', ''command'']) (set [''network'']) = Inr []"
  "admitted_projection src_fields JSPACE_SINGLE_ROOT_SCHEMA_VERSION [] = Inr ([''src/**''], [''src/**''], [''src/a'', ''src/link''])"
  "compile_tries src_fields JSPACE_SINGLE_ROOT_SCHEMA_VERSION [''src/**''] [''src/**''] = Inr (src_scope_trie, src_scope_trie, src_target_trie)"
  "admitted_templates src_fields JSPACE_SINGLE_ROOT_SCHEMA_VERSION = Inr [src_template]"
  "validate_command_templates tree_os project_tree [src_template] (set [''read'', ''create'', ''command'']) (set [''network'']) src_target_trie []
     (JSPACE_SINGLE_ROOT_SCHEMA_VERSION = JSPACE_SCHEMA_VERSION) = Inr ()"
  "map_of src_fields ''read_commands'' = None" "map_of src_fields ''inspect_shell'' = None" "map_of src_fields ''parent_shell'' = None"
  "\<not> (''command'' \<in> set [''read'', ''create'', ''command''] \<and> [src_template] = [])"
  by code_simp+

lemma src_admitted: "from_value reference_externals tree_os project_tree ''/w'' src_contract = Inr src_matcher"
  unfolding src_matcher_def by (rule from_value_composes [OF src_steps])

section \<open>A contract beside it\<close>

definition sibling_fields :: json_object where
  "sibling_fields =
     [(''schema_version'', JString ''jspace_contract_v2''), (''repo_root'', JString ''/w''),
      (''dcf_generation'', JObject [(''repo_root'', JString ''/w'')]), (''provenance'', JObject []),
      (''expansion'', JObject [(''mode'', JString ''exact_target_only''), (''error_code'', JString ''JSPACE_EXPANSION_REQUIRED''),
         (''mutation_on_expansion'', JBool False)]),
      (''matched_surface_ids'', JArray []), (''focused_verifiers'', JArray []),
      (''allowed_operations'', text_array [''read'', ''modify'']), (''denied_operations'', text_array [''network'']),
      (''read_scopes'', text_array [''b'']), (''write_scopes'', text_array [''b'']),
      (''declared_targets'', text_array [''b'']), (''command_templates'', JArray []),
      (''authorization_semantic_sha256'', JString (padded_digest ''00'')), (''content_sha256'', JString (padded_digest ''ff''))]"

definition sibling_contract :: json where
  "sibling_contract = JObject sibling_fields"

definition sibling_trie :: path_trie where
  "sibling_trie = [\<lparr>tn_children = [(''b'', 1)], tn_exact = False, tn_recursive = False\<rparr>,
     \<lparr>tn_children = [], tn_exact = True, tn_recursive = False\<rparr>]"

definition sibling_matcher :: jspace_matcher where
  "sibling_matcher =
     \<lparr>jm_schema_version = JSPACE_SINGLE_ROOT_SCHEMA_VERSION, jm_repo_root = ''/w'', jm_lexical_repo_root = ''/w'',
      jm_content_digest = padded_digest ''ff'', jm_authorization_digest = padded_digest ''00'',
      jm_scope_projection = \<lparr>sp_read_scopes = [''b''], sp_write_scopes = [''b'']\<rparr>,
      jm_read_scopes = sibling_trie, jm_write_scopes = sibling_trie, jm_declared_targets = sibling_trie,
      jm_allowed_operations = set [''read'', ''modify''], jm_denied_operations = set [''network''],
      jm_command_templates = [], jm_command_template_index = template_index [],
      jm_read_commands = None, jm_inspect_shell = None, jm_parent_shell = None, jm_verifier_commands = [],
      jm_verifier_artifact_root = None, jm_source_read = False, jm_mapped_source_reads = [], jm_directory_source_read = False,
      jm_effect_capabilities = [], jm_declared_target_projection = [''b'']\<rparr>"

lemma sibling_steps:
  "as_object sibling_contract = Some sibling_fields" "required_string sibling_fields ''schema_version'' = Inr JSPACE_SINGLE_ROOT_SCHEMA_VERSION"
  "JSPACE_SINGLE_ROOT_SCHEMA_VERSION \<in> {JSPACE_SCHEMA_VERSION, JSPACE_SINGLE_ROOT_SCHEMA_VERSION, JSPACE_LEGACY_SCHEMA_VERSION}"
  "parse_mapped_source_read_grant tree_os sibling_fields = Inr []"
  "verified_contract_digests reference_externals tree_os project_tree sibling_contract sibling_fields JSPACE_SINGLE_ROOT_SCHEMA_VERSION =
     Inr (padded_digest ''ff'', padded_digest ''00'')"
  "required_string sibling_fields ''repo_root'' = Inr ''/w''" "normalized_root tree_os project_tree ''/w'' = Inr ''/w''"
  "check_generation_root tree_os project_tree sibling_fields JSPACE_SINGLE_ROOT_SCHEMA_VERSION ''/w'' = Inr ()" "validate_expansion_rule sibling_fields = Inr ()"
  "validate_object_field sibling_fields ''dcf_generation'' = Inr ()" "validate_object_field sibling_fields ''provenance'' = Inr ()"
  "validate_string_array_field sibling_fields ''matched_surface_ids'' = Inr ()"
  "validate_object_array_field sibling_fields ''focused_verifiers'' = Inr ()"
  "required_string_array sibling_fields ''allowed_operations'' = Inr [''read'', ''modify'']"
  "required_string_array sibling_fields ''denied_operations'' = Inr [''network'']"
  "operation_set [''read'', ''modify''] ''allowed_operations'' = Inr (set [''read'', ''modify''])"
  "operation_set [''network''] ''denied_operations'' = Inr (set [''network''])" "source_read_grant sibling_fields = Inr False"
  "parse_verifier_grant reference_externals tree_os project_tree sibling_fields ''/w'' JSPACE_SINGLE_ROOT_SCHEMA_VERSION = Inr (None, [])"
  "\<not> (\<exists>op\<in>set [''read'', ''modify'']. op \<in> set [''network''])"
  "admitted_capabilities tree_os project_tree sibling_fields JSPACE_SINGLE_ROOT_SCHEMA_VERSION (set [''read'', ''modify'']) (set [''network'']) = Inr []"
  "admitted_projection sibling_fields JSPACE_SINGLE_ROOT_SCHEMA_VERSION [] = Inr ([''b''], [''b''], [''b''])"
  "compile_tries sibling_fields JSPACE_SINGLE_ROOT_SCHEMA_VERSION [''b''] [''b''] = Inr (sibling_trie, sibling_trie, sibling_trie)"
  "admitted_templates sibling_fields JSPACE_SINGLE_ROOT_SCHEMA_VERSION = Inr []"
  "validate_command_templates tree_os project_tree [] (set [''read'', ''modify'']) (set [''network'']) sibling_trie []
     (JSPACE_SINGLE_ROOT_SCHEMA_VERSION = JSPACE_SCHEMA_VERSION) = Inr ()"
  "map_of sibling_fields ''read_commands'' = None" "map_of sibling_fields ''inspect_shell'' = None" "map_of sibling_fields ''parent_shell'' = None"
  "\<not> (''command'' \<in> set [''read'', ''modify''] \<and> [] = [])"
  by code_simp+

lemma sibling_admitted: "from_value reference_externals tree_os project_tree ''/w'' sibling_contract = Inr sibling_matcher"
  unfolding sibling_matcher_def by (rule from_value_composes [OF sibling_steps])

section \<open>A contract with two domains\<close>

definition domain_contract_fields :: json_object where
  "domain_contract_fields =
     [(''schema_version'', JString ''jspace_contract_v3''), (''repo_root'', JString ''/w''),
      (''dcf_generation'', JObject [(''repo_root'', JString ''/w'')]), (''provenance'', JObject []),
      (''expansion'', JObject [(''mode'', JString ''exact_target_only''), (''error_code'', JString ''JSPACE_EXPANSION_REQUIRED''),
         (''mutation_on_expansion'', JBool False)]),
      (''matched_surface_ids'', JArray []), (''focused_verifiers'', JArray []),
      (''allowed_operations'', text_array []), (''denied_operations'', text_array [''network'']),
      (''effect_capabilities'', JArray
        [JObject [(''domain_id'', JString ''out''), (''root'', JString ''/out''), (''read_scopes'', text_array []),
           (''write_scopes'', text_array [''**'']), (''declared_targets'', text_array [''new'']),
           (''allowed_operations'', text_array [''create''])],
         JObject [(''domain_id'', JString ''app''), (''root'', JString ''/w/src''), (''read_scopes'', text_array [''a'']),
           (''write_scopes'', text_array []), (''declared_targets'', text_array []),
           (''allowed_operations'', text_array [''read''])]]),
      (''command_templates'', JArray []),
      (''authorization_semantic_sha256'', JString (padded_digest ''00'')), (''content_sha256'', JString (padded_digest ''00''))]"

definition domain_contract :: json where
  "domain_contract = JObject domain_contract_fields"

definition domain_tree :: tree where
  "domain_tree = (''/'', TreeDir) # project_tree"

definition app_domain :: effect_capability where
  "app_domain = \<lparr>ec_domain_id = ''app'', ec_root = ''/w/src'', ec_lexical_root = ''/w/src'', ec_read_projection = [''a''],
     ec_write_projection = [], ec_declared_projection = [],
     ec_read_scopes = [\<lparr>tn_children = [(''a'', 1)], tn_exact = False, tn_recursive = False\<rparr>,
       \<lparr>tn_children = [], tn_exact = True, tn_recursive = False\<rparr>],
     ec_write_scopes = trie_new, ec_declared_targets = trie_new, ec_allowed_operations = set [''read'']\<rparr>"

definition out_domain :: effect_capability where
  "out_domain = \<lparr>ec_domain_id = ''out'', ec_root = ''/out'', ec_lexical_root = ''/out'', ec_read_projection = [],
     ec_write_projection = [''**''], ec_declared_projection = [''new''], ec_read_scopes = trie_new,
     ec_write_scopes = [\<lparr>tn_children = [], tn_exact = False, tn_recursive = True\<rparr>],
     ec_declared_targets = [\<lparr>tn_children = [(''new'', 1)], tn_exact = False, tn_recursive = False\<rparr>,
       \<lparr>tn_children = [], tn_exact = True, tn_recursive = False\<rparr>],
     ec_allowed_operations = set [''create'']\<rparr>"

definition domain_matcher :: jspace_matcher where
  "domain_matcher =
     \<lparr>jm_schema_version = JSPACE_SCHEMA_VERSION, jm_repo_root = ''/w'', jm_lexical_repo_root = ''/w'',
      jm_content_digest = padded_digest ''00'', jm_authorization_digest = padded_digest ''00'',
      jm_scope_projection = \<lparr>sp_read_scopes = [''/w/src/a''], sp_write_scopes = [''/out/**'']\<rparr>,
      jm_read_scopes = trie_new, jm_write_scopes = trie_new, jm_declared_targets = trie_new,
      jm_allowed_operations = set [], jm_denied_operations = set [''network''],
      jm_command_templates = [], jm_command_template_index = template_index [],
      jm_read_commands = None, jm_inspect_shell = None, jm_parent_shell = None, jm_verifier_commands = [],
      jm_verifier_artifact_root = None, jm_source_read = False, jm_mapped_source_reads = [], jm_directory_source_read = False,
      jm_effect_capabilities = [app_domain, out_domain], jm_declared_target_projection = [''/out/new'']\<rparr>"

lemma domain_authorization:
  "normalized_effect_authorization_sha256 reference_externals tree_os domain_tree domain_contract_fields = Inr (padded_digest ''00'')"
proof -
  have steps: "source_read_grant domain_contract_fields = Inr False"
      "generation_object domain_contract_fields = Inr [(''repo_root'', JString ''/w'')]"
      "operations_of domain_contract_fields ''allowed_operations'' = Inr (set [])"
      "operations_of domain_contract_fields ''denied_operations'' = Inr (set [''network''])"
      "parse_effect_capabilities tree_os domain_tree domain_contract_fields (set [''network'']) = Inr [app_domain, out_domain]"
      "parse_command_templates domain_contract_fields True = Inr []"
      "validate_command_templates tree_os domain_tree [] (set []) (set [''network'']) trie_new [app_domain, out_domain] True = Inr ()"
      "required_string_array domain_contract_fields ''matched_surface_ids'' = Inr []"
      "required_string domain_contract_fields ''repo_root'' = Inr ''/w''" "normalized_root tree_os domain_tree ''/w'' = Inr ''/w''"
    by code_simp+
  show ?thesis
    unfolding normalized_effect_authorization_sha256_def steps and_then_simps Let_def by code_simp
qed

lemma domain_digests:
  "verified_contract_digests reference_externals tree_os domain_tree domain_contract domain_contract_fields JSPACE_SCHEMA_VERSION =
     Inr (padded_digest ''00'', padded_digest ''00'')"
proof -
  have "claimed_contract_digests domain_contract_fields JSPACE_SCHEMA_VERSION = Inr (padded_digest ''00'', padded_digest ''00'')"
      "semantic_sha256 reference_externals (json_remove ''content_sha256'' domain_contract) = padded_digest ''00''"
      "parse_mapped_source_read_grant tree_os domain_contract_fields = Inr []"
      "\<not> contains_key domain_contract_fields ''verifier_commands''" "\<not> contains_key domain_contract_fields ''verifier_artifact_root''"
      "get_str domain_contract_fields ''schema_version'' = Some JSPACE_SCHEMA_VERSION"
      "as_object domain_contract = Some domain_contract_fields" by code_simp+
  with domain_authorization show ?thesis
    by (simp add: verified_contract_digests_def authorization_semantic_sha256_def Let_def)
qed
lemma domain_opening:
  "as_object domain_contract = Some domain_contract_fields" "required_string domain_contract_fields ''schema_version'' = Inr JSPACE_SCHEMA_VERSION"
  "JSPACE_SCHEMA_VERSION \<in> {JSPACE_SCHEMA_VERSION, JSPACE_SINGLE_ROOT_SCHEMA_VERSION, JSPACE_LEGACY_SCHEMA_VERSION}"
  "parse_mapped_source_read_grant tree_os domain_contract_fields = Inr []"
  by code_simp+

lemma domain_steps:
  "required_string domain_contract_fields ''repo_root'' = Inr ''/w''" "normalized_root tree_os domain_tree ''/w'' = Inr ''/w''"
  "check_generation_root tree_os domain_tree domain_contract_fields JSPACE_SCHEMA_VERSION ''/w'' = Inr ()" "validate_expansion_rule domain_contract_fields = Inr ()"
  "validate_object_field domain_contract_fields ''dcf_generation'' = Inr ()" "validate_object_field domain_contract_fields ''provenance'' = Inr ()"
  "validate_string_array_field domain_contract_fields ''matched_surface_ids'' = Inr ()"
  "validate_object_array_field domain_contract_fields ''focused_verifiers'' = Inr ()"
  "required_string_array domain_contract_fields ''allowed_operations'' = Inr []"
  "required_string_array domain_contract_fields ''denied_operations'' = Inr [''network'']"
  "operation_set [] ''allowed_operations'' = Inr (set [])"
  "operation_set [''network''] ''denied_operations'' = Inr (set [''network''])" "source_read_grant domain_contract_fields = Inr False"
  "parse_verifier_grant reference_externals tree_os domain_tree domain_contract_fields ''/w'' JSPACE_SCHEMA_VERSION = Inr (None, [])"
  "\<not> (\<exists>op\<in>set []. op \<in> set [''network''])"
  "admitted_capabilities tree_os domain_tree domain_contract_fields JSPACE_SCHEMA_VERSION (set []) (set [''network'']) = Inr [app_domain, out_domain]"
  "admitted_projection domain_contract_fields JSPACE_SCHEMA_VERSION [app_domain, out_domain] = Inr ([''/w/src/a''], [''/out/**''], [''/out/new''])"
  "compile_tries domain_contract_fields JSPACE_SCHEMA_VERSION [''/w/src/a''] [''/out/**''] = Inr (trie_new, trie_new, trie_new)"
  "admitted_templates domain_contract_fields JSPACE_SCHEMA_VERSION = Inr []"
  "validate_command_templates tree_os domain_tree [] (set []) (set [''network'']) trie_new [app_domain, out_domain]
     (JSPACE_SCHEMA_VERSION = JSPACE_SCHEMA_VERSION) = Inr ()"
  "map_of domain_contract_fields ''read_commands'' = None" "map_of domain_contract_fields ''inspect_shell'' = None" "map_of domain_contract_fields ''parent_shell'' = None"
  "\<not> (''command'' \<in> set [] \<and> [] = [])"
  by code_simp+

lemma domain_admitted: "from_value reference_externals tree_os domain_tree ''/w'' domain_contract = Inr domain_matcher"
  unfolding domain_matcher_def by (rule from_value_composes [OF domain_opening domain_digests domain_steps])

end
