(* ===== verification/JSpace_Properties.thy ===== *)
theory JSpace_Properties
  imports JSpace_Samples
begin

text \<open>
  Properties of J-Space: what an admitted contract lets an agent touch and run, what two contracts may do beside each
  other, and what the admission cache hands out.
\<close>

section \<open>Paths\<close>

text \<open>
  C3: a path check decides the grant. For a contract of the single-root form that was admitted, an operation on a
  target is allowed exactly when the target is not empty and has no parent component, it resolves, the resolved path
  lies below the repository root, and the contract grants the operation on that path: the operation is allowed and not
  denied, a scope of its kind covers the path, and a mutation names exactly one of the declared targets. The names of
  the path below the root are read as the matcher reads them, with each backslash as a separator.
\<close>

theorem admitted_path_iff:
  assumes "canonical_paths F" "from_value X F f lexical_root (JObject obj) = Inr m" "is_absolute lexical_root"
    and "jm_schema_version m \<noteq> JSPACE_SCHEMA_VERSION"
  shows "check_path F g m op target = Inr () \<longleftrightarrow>
    target \<noteq> [] \<and> ParentDir \<notin> set (path_components target) \<and>
    (\<exists>resolved path. resolve_existing_boundary F g (os_path_join (jm_repo_root m) target) = Inr resolved \<and>
       path_segments resolved = path_segments (jm_repo_root m) @ path \<and> granted obj op (slash_parts path))"
proof -
  obtain obj' where adm: "admitted_from X F f lexical_root (JObject obj) obj' m" using from_value_admitted [OF assms(2)] ..
  then have "obj' = obj" by (auto simp: admitted_from_def as_object_def)
  with canonical_paths.admitted_path [OF assms(1) adm assms(4,3)] show ?thesis by simp
qed

lemma src_resolves:
  "resolve_existing_boundary tree_os project_tree (os_path_join ''/w'' ''src/a'') = Inr ''/w/src/a''"
  "ParentDir \<notin> set (path_components ''src/a'')" "is_absolute ''/w''" "slash_parts [''src'', ''a''] = [''src'', ''a'']"
  by code_simp+

lemma src_fields_of: "src_contract = JObject src_fields" "jm_repo_root src_matcher = ''/w''"
    "jm_schema_version src_matcher \<noteq> JSPACE_SCHEMA_VERSION"
  by (simp_all add: src_contract_def src_matcher_def src_schema)

text \<open>
  Witness of C3: the sample contract lets its declared file be created and nothing be deleted, and refuses a spelling of
  the file with a parent component.
\<close>

theorem admitted_path_iff_witness:
  "check_path tree_os project_tree src_matcher ''create'' ''src/a'' = Inr () \<and> granted src_fields ''create'' [''src'', ''a''] \<and>
   \<not> granted src_fields ''delete'' [''src'', ''a''] \<and>
   check_path tree_os project_tree src_matcher ''create'' ''src/../src/a'' \<noteq> Inr ()"
proof -
  have iff: "check_path tree_os project_tree src_matcher op target = Inr () \<longleftrightarrow>
      target \<noteq> [] \<and> ParentDir \<notin> set (path_components target) \<and>
      (\<exists>resolved path. resolve_existing_boundary tree_os project_tree (os_path_join ''/w'' target) = Inr resolved \<and>
         path_segments resolved = path_segments ''/w'' @ path \<and> granted src_fields op (slash_parts path))" for op target
    using admitted_path_iff [OF tree_paths.canonical_paths_axioms src_admitted [unfolded src_fields_of(1)]
      src_resolves(3) src_fields_of(3)] by (simp add: src_fields_of(2))
  have segs: "path_segments ''/w/src/a'' = [''w'', ''src'', ''a'']" "path_segments ''/w'' = [''w'']" by code_simp+
  have "check_path tree_os project_tree src_matcher ''create'' ''src/a'' = Inr ()"
    and "check_path tree_os project_tree src_matcher ''delete'' ''src/a'' \<noteq> Inr ()" by code_simp+
  then have "granted src_fields ''create'' [''src'', ''a'']" "\<not> granted src_fields ''delete'' [''src'', ''a'']"
    unfolding iff using src_resolves segs by auto
  moreover have "ParentDir \<in> set (path_components ''src/../src/a'')" by code_simp
  then have "check_path tree_os project_tree src_matcher ''create'' ''src/../src/a'' \<noteq> Inr ()" unfolding iff by blast
  ultimately show ?thesis using \<open>check_path tree_os project_tree src_matcher ''create'' ''src/a'' = Inr ()\<close> by blast
qed

section \<open>Contracts beside each other\<close>

text \<open>What an allowed path check uses of the scopes a contract publishes for conflict detection.\<close>

lemma checked_path_claimed:
  assumes "canonical_paths F" "from_value X F f lexical_root contract = Inr m" "is_absolute lexical_root"
    and "jm_schema_version m \<noteq> JSPACE_SCHEMA_VERSION"
    and "resolve_existing_boundary F g (os_path_join (jm_repo_root m) target) = Inr resolved"
    and "check_path F g m op target = Inr ()"
  shows "\<exists>path. path_segments resolved = path_segments (jm_repo_root m) @ path \<and>
    (\<exists>s\<in>set (if op = ''read'' then sp_read_scopes (jm_scope_projection m) else sp_write_scopes (jm_scope_projection m)).
       claim_covers s (False, slash_parts path))"
proof -
  obtain obj where adm: "admitted_from X F f lexical_root contract obj m" using from_value_admitted [OF assms(2)] ..
  note below = canonical_paths.resolve_target_iff [OF assms(1) canonical_paths.repo_root_absolute [OF assms(1) adm assms(3)]]
  obtain relative where rel: "resolve_target F g m target op = Inr relative"
      "trie_matches (if op = ''read'' then jm_read_scopes m else jm_write_scopes m) relative"
    using assms(4,6) by (auto simp: check_path_single)
  then obtain path where path: "path_segments resolved = path_segments (jm_repo_root m) @ path" "slash_parts path = relative_parts relative"
    using below [of g target op "relative_parts relative"] assms(5) by auto
  let ?scopes = "if op = ''read'' then sp_read_scopes (jm_scope_projection m) else sp_write_scopes (jm_scope_projection m)"
  have "scopes_cover ?scopes (slash_parts path)"
    using rel(2) path(2) by - (rule single_root_tries [OF adm assms(4)], simp split: if_splits)
  then show ?thesis using path(1) claim_covers_scope unfolding scopes_cover_def by blast
qed

text \<open>
  C11: contracts without a conflict do not collide. When the conflict check finds two admitted single-root contracts on
  one root free of conflicts, whatever one of them is allowed to change the other is allowed neither to read nor to change.
\<close>

theorem disjoint_contracts_never_collide:
  assumes "canonical_paths F"
    and "from_value X F f1 root1 c1 = Inr m1" "is_absolute root1" "jm_schema_version m1 \<noteq> JSPACE_SCHEMA_VERSION"
    and "from_value X F f2 root2 c2 = Inr m2" "is_absolute root2" "jm_schema_version m2 \<noteq> JSPACE_SCHEMA_VERSION"
    and "path_segments (jm_repo_root m1) = path_segments (jm_repo_root m2)"
    and "scope_projections_conflict (jm_scope_projection m1) (jm_scope_projection m2) = Inr False"
    and "resolve_existing_boundary F g1 (os_path_join (jm_repo_root m1) target1) = Inr resolved1"
    and "resolve_existing_boundary F g2 (os_path_join (jm_repo_root m2) target2) = Inr resolved2"
    and "check_path F g1 m1 change target1 = Inr ()" "change \<noteq> ''read''" "check_path F g2 m2 op target2 = Inr ()"
  shows "path_segments resolved1 \<noteq> path_segments resolved2"
proof
  assume same: "path_segments resolved1 = path_segments resolved2"
  obtain path where p: "path_segments resolved1 = path_segments (jm_repo_root m1) @ path"
      "\<exists>s\<in>set (sp_write_scopes (jm_scope_projection m1)). claim_covers s (False, slash_parts path)"
    using checked_path_claimed [OF assms(1-4) assms(10,12)] assms(13) by auto
  obtain path' where q: "path_segments resolved2 = path_segments (jm_repo_root m2) @ path'"
      "\<exists>s\<in>set (sp_read_scopes (jm_scope_projection m2)) \<union> set (sp_write_scopes (jm_scope_projection m2)). claim_covers s (False, slash_parts path')"
    using checked_path_claimed [OF assms(1,5-7) assms(11,14)] by (auto split: if_splits)
  have "path' = path" using p(1) q(1) same assms(8) by simp
  with p(2) q(2) scope_projections_conflict_iff [OF assms(9)] show False by blast
qed

text \<open>Witness of C11: one contract creates \<open>src/a\<close> while its sibling changes \<open>b\<close>.\<close>

theorem disjoint_contracts_never_collide_witness:
  "check_path tree_os project_tree src_matcher ''create'' ''src/a'' = Inr () \<and>
   check_path tree_os project_tree sibling_matcher ''modify'' ''b'' = Inr () \<and>
   path_segments ''/w/src/a'' \<noteq> path_segments ''/w/b''"
proof -
  have checks: "check_path tree_os project_tree src_matcher ''create'' ''src/a'' = Inr ()"
      "check_path tree_os project_tree sibling_matcher ''modify'' ''b'' = Inr ()" by code_simp+
  have apart: "scope_projections_conflict (jm_scope_projection src_matcher) (jm_scope_projection sibling_matcher) = Inr False"
    by code_simp
  have b: "resolve_existing_boundary tree_os project_tree (os_path_join ''/w'' ''b'') = Inr ''/w/b''"
    by code_simp
  have sibling: "jm_repo_root sibling_matcher = ''/w''" "jm_schema_version sibling_matcher \<noteq> JSPACE_SCHEMA_VERSION"
    by (simp_all add: sibling_matcher_def src_schema)
  from disjoint_contracts_never_collide [OF tree_paths.canonical_paths_axioms src_admitted src_resolves(3) src_fields_of(3)
      sibling_admitted src_resolves(3) sibling(2) _ apart, unfolded sibling(1) src_fields_of(2), OF refl src_resolves(1)
      b checks(1) _ checks(2)]
  show ?thesis using checks by simp
qed

section \<open>Commands\<close>

text \<open>
  C10: a shell line runs only as a template. Under an admitted contract with no discovery or shell grant, an accepted
  line, read the way the interceptor reads a shell line, is one command whose words are those of a template: the
  template's targets are among its arguments, each of its mutations has a target, and each target passed its check.
\<close>

theorem accepted_shell_line_is_template:
  assumes "from_value X F f lexical_root contract = Inr m" "check_command X F g m kind line = Inr ()"
    and "normalize_command_type kind = ''shell_command''"
    and "jm_inspect_shell m = None" "jm_parent_shell m = None" "jm_read_commands m = None"
  shows "\<exists>t\<in>set (jm_command_templates m).
    let command = fst (shell_command_parts X line)
    in tokenize command = Some (tp_argv t) \<and> split_segments command = [command] \<and> template_ok t \<and>
       (\<forall>target\<in>set (tp_targets t). target_admitted F g m target)"
proof -
  obtain obj where adm: "admitted_from X F f lexical_root contract obj m" using from_value_admitted [OF assms(1)] ..
  from check_command_shell [OF assms(2,3)] have "check_shell X F g m line = Inr ()" by blast
  from check_shell_template [OF adm this assms(4-6)] obtain t where t: "t \<in> set (jm_command_templates m)"
      "parse_shell_argv (fst (shell_command_parts X line)) = Inr (tp_argv t)"
      "\<forall>target\<in>set (tp_targets t). target_admitted F g m target" by blast
  moreover have "template_ok t" using admitted_templates_ok [OF adm] t(1) by (auto simp: list_all_iff)
  ultimately show ?thesis using parsed_line_is_one_command [OF t(2)] by (auto simp: Let_def)
qed

text \<open>Witness of C10: the one command of the sample contract.\<close>

theorem accepted_shell_line_is_template_witness:
  "check_command reference_externals tree_os project_tree src_matcher ''shell_command'' ''touch src/a'' = Inr () \<and>
   tokenize ''touch src/a'' = Some (tp_argv src_template) \<and>
   target_admitted tree_os project_tree src_matcher \<lparr>ct_domain_id = None, ct_operation = ''create'', ct_path = ''src/a'', ct_argv_index = 1\<rparr>"
proof -
  have ok: "check_command reference_externals tree_os project_tree src_matcher ''shell_command'' ''touch src/a'' = Inr ()" by code_simp
  have kind: "normalize_command_type ''shell_command'' = ''shell_command''"
    and line: "fst (shell_command_parts reference_externals ''touch src/a'') = ''touch src/a''" by code_simp+
  have "jm_inspect_shell src_matcher = None" "jm_parent_shell src_matcher = None" "jm_read_commands src_matcher = None"
      "jm_command_templates src_matcher = [src_template]"
    by (simp_all add: src_matcher_def)
  with accepted_shell_line_is_template [OF src_admitted ok kind] ok show ?thesis
    by (simp add: line Let_def) (simp add: src_template_def)
qed

section \<open>Admission\<close>

text \<open>
  C4: a session is bound once. However admissions of any number of callers interleave, with the files changing between
  steps, all the matchers returned for one session have the same repository root and the same authorization digest.
\<close>

theorem session_binding_permanent:
  assumes "admission_run X F st returned st'" "(session_id, m) \<in> set returned" "(session_id, n) \<in> set returned"
  shows "path_same (jm_repo_root m) (jm_repo_root n) \<and> jm_authorization_digest m = jm_authorization_digest n"
  using bound_to_unique [OF run_keeps(2) [OF assms(1,2)] run_keeps(2) [OF assms(1,3)]] by (simp add: same_binding_def)

definition src_claim :: admission_claim where
  "src_claim = \<lparr>cl_root = ''/w'', cl_content = padded_digest ''00'', cl_authorization = padded_digest ''ff'',
     cl_canonical_contract = canonical_json reference_externals src_contract\<rparr>"

lemma src_claimed: "admission_claim_of reference_externals tree_os project_tree ''s'' ''/w'' src_contract = Inr src_claim"
proof -
  have "claimed_contract_digests src_fields JSPACE_SINGLE_ROOT_SCHEMA_VERSION = Inr (padded_digest ''00'', padded_digest ''ff'')"
      "trim ''s'' = ''s''"
    by code_simp+
  then show ?thesis
    unfolding admission_claim_of_def src_fields_of(1)
    by (simp add: as_object_def src_steps path_same_def src_claim_def src_contract_def cong: and_then_weak)
qed

text \<open>Two callers compile the sample contract for one session, and then both publish it.\<close>

lemma src_race:
  "\<exists>st. admission_run reference_externals tree_os (empty_cache, []) [(''s'', src_matcher), (''s'', src_matcher)] st"
proof -
  let ?p = "(''s'', src_matcher, cl_canonical_contract src_claim)"
  let ?c = "empty_cache\<lparr>jc_entries := [''s'' \<mapsto> \<lparr>ca_matcher = src_matcher, ca_canonical_contract = cl_canonical_contract src_claim\<rparr>],
    jc_admissions := 1\<rparr>"
  have compile: "admission_step reference_externals tree_os (empty_cache, w) None (empty_cache, w @ [?p])" for w
    using admission_step.compile [OF src_claimed, of empty_cache project_tree src_matcher w] src_admitted
    by (simp add: admit_lookup_def empty_cache_def src_claim_def)
  have first: "admission_step reference_externals tree_os (empty_cache, [?p, ?p]) (Some (''s'', src_matcher)) (?c, [?p])"
    using admission_step.publish [of "''s''" src_matcher "cl_canonical_contract src_claim" "[?p, ?p]" empty_cache ?c src_matcher]
    by (simp add: admit_publish_def empty_cache_def)
  have second: "admission_step reference_externals tree_os (?c, [?p]) (Some (''s'', src_matcher)) (?c, [])"
    using admission_step.publish [of "''s''" src_matcher "cl_canonical_contract src_claim" "[?p]" ?c ?c src_matcher]
    by (simp add: admit_publish_def path_same_def)
  have "admission_run reference_externals tree_os (empty_cache, []) [] (empty_cache, [?p, ?p])"
    using admission_run.quiet [OF admission_run.quiet [OF admission_run.start compile [of "[]"]] compile] by simp
  from admission_run.return [OF admission_run.return [OF this first] second] show ?thesis by auto
qed

text \<open>Witness of C4: the race of the sample contract with itself.\<close>

theorem session_binding_permanent_witness:
  "\<exists>st. admission_run reference_externals tree_os (empty_cache, []) [(''s'', src_matcher), (''s'', src_matcher)] st \<and>
     path_same (jm_repo_root src_matcher) (jm_repo_root src_matcher)"
  using src_race session_binding_permanent [where session_id = "''s''" and m = src_matcher and n = src_matcher]
  by (meson list.set_intros(1))

text \<open>
  C23: no matcher without a contract. Whatever the interleaving, every matcher that a run from the empty cache returns
  was compiled by a full admission, digests included, of a contract.
\<close>

theorem returned_matchers_admitted:
  assumes "admission_run X F (empty_cache, []) returned st" "(session_id, m) \<in> set returned"
  shows "\<exists>f root contract obj. from_value X F f root contract = Inr m \<and> as_object contract = Some obj \<and>
    verified_contract_digests X F f contract obj (jm_schema_version m) = Inr (jm_content_digest m, jm_authorization_digest m)"
proof -
  have "authentic X F (empty_cache, [])" by (simp add: authentic_def empty_cache_def waiting_compiled_def)
  from run_authentic [OF assms(1) this] assms(2) obtain c where "compiled_as X F m c" by blast
  then obtain f root contract where c: "from_value X F f root contract = Inr m" by (auto simp: compiled_as_def)
  from from_value_admitted [OF this] c show ?thesis unfolding admitted_from_def by blast
qed

text \<open>Witness of C23: the matchers the race returned.\<close>

theorem returned_matchers_admitted_witness:
  "\<exists>f root contract. from_value reference_externals tree_os f root contract = Inr src_matcher"
  using src_race returned_matchers_admitted [where session_id = "''s''" and m = src_matcher] by (meson list.set_intros(1))

section \<open>Admitted contracts\<close>

text \<open>The shape of a compiled contract.\<close>

definition matcher_wf :: "jspace_matcher \<Rightarrow> bool" where
  "matcher_wf m \<longleftrightarrow>
     is_absolute (jm_repo_root m) \<and> jm_allowed_operations m \<union> jm_denied_operations m \<subseteq> set KNOWN_OPERATIONS \<and>
     jm_allowed_operations m \<inter> jm_denied_operations m = {} \<and>
     list_all template_ok (jm_command_templates m) \<and> distinct (map tp_argv (jm_command_templates m)) \<and>
     (\<forall>i < length (jm_command_templates m).
        map_of (jm_command_template_index m) (tp_argv (jm_command_templates m ! i)) = Some i) \<and>
     (jm_schema_version m = JSPACE_SCHEMA_VERSION \<longrightarrow>
        list_all capability_ok (jm_effect_capabilities m) \<and> reject_overlaps (jm_effect_capabilities m) = Inr ()) \<and>
     length (jm_verifier_commands m) \<le> 8 \<and> list_all verifier_bounded (jm_verifier_commands m)"

lemma template_position:
  "distinct (map tp_argv ts) \<Longrightarrow> i < length ts \<Longrightarrow> map_of (template_index ts) (tp_argv (ts ! i)) = Some i"
  by (simp add: template_index_position position_distinct_key)

text \<open>
  C24: a compiled contract is well formed. Its root is absolute; its allowed and denied operations are known and apart;
  its templates are distinct, each found through the index, with every mutation targeted by an argument; its effect
  domains do not overlap; and its verifiers are at most eight, each with at most 32 plain arguments, no shell, a time
  limit of at most 300 seconds and no network.
\<close>

theorem admitted_contract_well_formed:
  assumes "canonical_paths F" "from_value X F f lexical_root contract = Inr m" "is_absolute lexical_root"
  shows "matcher_wf m"
proof -
  obtain obj where adm: "admitted_from X F f lexical_root contract obj m" using from_value_admitted [OF assms(2)] ..
  have ops: "operations_of obj ''allowed_operations'' = Inr (jm_allowed_operations m)"
      "operations_of obj ''denied_operations'' = Inr (jm_denied_operations m)"
      "jm_allowed_operations m \<inter> jm_denied_operations m = {}"
    using adm by (auto simp: admitted_from_def)
  have index: "jm_command_template_index m = template_index (jm_command_templates m)" using adm by (simp add: admitted_from_def)
  note templates = admitted_templates_ok [OF adm]
  have "parse_verifier_grant X F f obj (jm_repo_root m) (jm_schema_version m) =
      Inr (jm_verifier_artifact_root m, jm_verifier_commands m)" using adm by (simp add: admitted_from_def)
  from verifier_grant_Inr [OF this] have "length (jm_verifier_commands m) \<le> 8" "list_all verifier_bounded (jm_verifier_commands m)"
    by (auto simp: list_all_iff)
  then show ?thesis
    unfolding matcher_wf_def index
    using operations_known [OF ops(1)] operations_known [OF ops(2)] ops(3) templates template_position
      canonical_paths.repo_root_absolute [OF assms(1) adm assms(3)] canonical_paths.admitted_domains [OF assms(1) adm] by blast
qed

text \<open>Witness of C24: the sample contract.\<close>

theorem admitted_contract_well_formed_witness: "matcher_wf src_matcher"
  by (rule admitted_contract_well_formed [OF tree_paths.canonical_paths_axioms src_admitted src_resolves(3)])



section \<open>Discovery\<close>

text \<open>
  C22: discovery stays in its roots. An accepted search or read names one of the two pinned programs by its path, the
  program's bytes have the pinned digest, and each of its one to sixteen operands names a file below the repository
  root and below one of the granted roots, with no hidden component and no symbolic link on the way, that may be read.
\<close>

theorem discovery_stays_in_roots:
  assumes "read_check X F f m argv cwd = Inr ()" "is_absolute (jm_repo_root m)"
  shows "\<exists>policy tool program bytes roots paths. jm_read_commands m = Some policy \<and> tool \<in> {''rg'', ''cat''} \<and>
    policy_text policy tool ''path'' = Some program \<and> program = (case argv of p # _ \<Rightarrow> p | [] \<Rightarrow> []) \<and>
    os_read F f program = Inr bytes \<and> policy_text policy tool ''sha256'' = Some (sha256_hex X bytes) \<and>
    read_validate policy = Inr roots \<and> (if tool = ''cat'' then cat_operands argv else rg_operands argv) = Inr paths \<and>
    paths \<noteq> [] \<and> length paths \<le> 16 \<and> set paths \<subseteq> set argv \<and>
    (\<forall>operand\<in>set paths. discovered F f m roots (os_path_join cwd operand))"
  using assms by (rule read_check_Inr)

definition tool_pin :: "string \<Rightarrow> json" where
  "tool_pin p = JObject [(''path'', JString p), (''sha256'', JString (padded_digest ''ff''))]"

definition discovery_policy :: json where
  "discovery_policy = JObject [(''roots'', text_array [''src'']), (''rg'', tool_pin ''/bin/rg''), (''cat'', tool_pin ''/bin/cat'')]"

definition discovery_tree :: tree where
  "discovery_tree = [(''/bin/rg'', TreeFile ''r''), (''/bin/cat'', TreeFile ''c'')] @ project_tree"

definition discovery_matcher :: jspace_matcher where
  "discovery_matcher = src_matcher\<lparr>jm_read_commands := Some discovery_policy\<rparr>"

lemma discovery_steps:
  "pinned_tool discovery_policy ''/bin/cat'' = Inr ''cat''"
  "policy_text discovery_policy ''cat'' ''path'' = Some ''/bin/cat''"
  "policy_text discovery_policy ''cat'' ''sha256'' = Some (padded_digest ''ff'')"
  "os_read tree_os discovery_tree ''/bin/cat'' = Inr ''c''" "sha256_hex reference_externals ''c'' = padded_digest ''ff''"
  "same_resolved tree_os discovery_tree ''/bin/cat''" "cat_operands [''/bin/cat'', ''src/a''] = Inr [''src/a'']"
  "read_validate discovery_policy = Inr [''src'']"
  "os_path_join ''/w'' ''src/a'' = ''/w/src/a''" "is_absolute (jm_repo_root discovery_matcher)"
  "check_operation discovery_matcher ''read'' ''discovery'' = Inr ()"
  by code_simp+

lemma discovery_operand: "check_operand tree_os discovery_tree discovery_matcher ''cat'' [''src''] ''/w'' ''src/a'' = Inr ()"
proof -
  have "\<not> starts_with ''src/a'' ''-''"
      "lexical_operand (jm_repo_root discovery_matcher) (os_path_join ''/w'' ''src/a'') ''src/a'' = Inr ''src/a''"
      "list_ex (path_starts_with ''src/a'') [''src'']"
      "no_links tree_os discovery_tree (jm_repo_root discovery_matcher) ''src/a'' ''src/a'' = Inr ''/w/src/a''"
      "check_path tree_os discovery_tree discovery_matcher ''read'' ''/w/src/a'' = Inr ()"
      "js_metadata tree_os discovery_tree ''/w/src/a'' = Inr (tree_meta (TreeFile ''x''))" by code_simp+
  then show ?thesis by (simp add: check_operand_def tree_meta_def)
qed

text \<open>Witness of C22: reading the file below the granted root.\<close>

theorem discovery_stays_in_roots_witness:
  "read_check reference_externals tree_os discovery_tree discovery_matcher [''/bin/cat'', ''src/a''] ''/w'' = Inr () \<and>
   discovered tree_os discovery_tree discovery_matcher [''src''] ''/w/src/a''"
proof -
  have m: "jm_read_commands discovery_matcher = Some discovery_policy" by (simp add: discovery_matcher_def)
  have ok: "read_check reference_externals tree_os discovery_tree discovery_matcher [''/bin/cat'', ''src/a''] ''/w'' = Inr ()"
    by (simp add: read_check_def m discovery_steps discovery_operand)
  from discovery_stays_in_roots [OF this discovery_steps(10)] m obtain tool roots paths
    where "policy_text discovery_policy tool ''path'' = Some ''/bin/cat''" "read_validate discovery_policy = Inr roots"
      "(if tool = ''cat'' then cat_operands [''/bin/cat'', ''src/a''] else rg_operands [''/bin/cat'', ''src/a'']) = Inr paths"
      "tool \<in> {''rg'', ''cat''}" "\<forall>operand\<in>set paths. discovered tree_os discovery_tree discovery_matcher roots (os_path_join ''/w'' operand)"
    by fastforce
  moreover have "policy_text discovery_policy ''rg'' ''path'' = Some ''/bin/rg''" by code_simp
  ultimately have "discovered tree_os discovery_tree discovery_matcher [''src''] ''/w/src/a''"
    using discovery_steps(7,8,9) by auto
  with ok show ?thesis by blast
qed

section \<open>Effect domains\<close>

text \<open>
  C21: an effect happens in one domain. Under an admitted multi-domain contract, an allowed operation on an absolute
  target lies below the root of one domain and of no other; that domain is the named one if one is named, allows the
  operation, covers the path by a scope of its kind and, for a mutation, declares the path. The names of the path below
  the root of the domain are read as the matcher reads them, with each backslash as a separator.
\<close>

theorem effect_in_one_domain:
  assumes "canonical_paths F" "from_value X F f lexical_root contract = Inr m" "jm_schema_version m = JSPACE_SCHEMA_VERSION"
    and "check_effect_path F g m op target domain = Inr ()"
    and "resolve_existing_boundary F g target = Inr resolved"
  shows "\<exists>c\<in>set (jm_effect_capabilities m). \<exists>path. path_segments resolved = path_segments (ec_root c) @ path \<and>
    op \<in> ec_allowed_operations c \<and> op \<notin> jm_denied_operations m \<and> (domain = None \<or> domain = Some (ec_domain_id c)) \<and>
    scopes_cover (if op = ''read'' then ec_read_projection c else ec_write_projection c) (slash_parts path) \<and>
    (op \<noteq> ''read'' \<longrightarrow> scopes_cover (ec_declared_projection c) (slash_parts path)) \<and>
    (\<forall>d\<in>set (jm_effect_capabilities m). prefix (path_segments (ec_root d)) (path_segments resolved) \<longrightarrow> d = c)"
proof -
  obtain obj where "admitted_from X F f lexical_root contract obj m" using from_value_admitted [OF assms(2)] ..
  from canonical_paths.admitted_effect_path [OF assms(1) this assms(3-5)] show ?thesis .
qed

text \<open>Witness of C21: the declared file of the output domain.\<close>

theorem effect_in_one_domain_witness:
  "check_effect_path tree_os domain_tree domain_matcher ''create'' ''/out/new'' None = Inr () \<and>
   scopes_cover (ec_write_projection out_domain) [''new''] \<and> scopes_cover (ec_declared_projection out_domain) [''new'']"
proof -
  have ok: "check_effect_path tree_os domain_tree domain_matcher ''create'' ''/out/new'' None = Inr ()" by code_simp
  have new: "resolve_existing_boundary tree_os domain_tree ''/out/new'' = Inr ''/out/new''" "slash_parts [''new''] = [''new'']"
      "path_segments ''/out/new'' = [''out'', ''new'']" "path_segments (ec_root out_domain) = [''out'']"
      "path_segments (ec_root app_domain) = [''w'', ''src'']" by code_simp+
  have m: "jm_schema_version domain_matcher = JSPACE_SCHEMA_VERSION"
      "jm_effect_capabilities domain_matcher = [app_domain, out_domain]" by (simp_all add: domain_matcher_def)
  from effect_in_one_domain [OF tree_paths.canonical_paths_axioms domain_admitted m(1) ok new(1)] ok show ?thesis
    by (simp add: m(2) new(2-5))
qed

section \<open>Mapped reads\<close>

lemma identity_roundtrip: "identity_of_value (identity_to_value i) = Some i"
  by (simp add: identity_of_value_def identity_to_value_def strict_object_def as_object_def json_u64_def as_u64_def)

text \<open>
  a binding survives its contract. The binding of a mapped read, written into a contract and parsed from it, is
  the same binding.
\<close>

theorem binding_roundtrip: "binding_of_value (binding_to_value b) = Some b"
  by (simp add: binding_of_value_def binding_to_value_def strict_object_def as_object_def binding_fields_def
    identity_roundtrip get_str_def json_as_str_def Let_def)

section \<open>Gaps\<close>

definition escaped_line :: string where
  "escaped_line = ''touch '' @ [DQUOTE] @ ''src/'' @ [BACKSLASH] @ ''a'' @ [DQUOTE]"

text \<open>
  Three requests pass although the file they reach is not the declared one. A link to a missing file outside
  the root counts as a new file at the link's own place, so creating through it is allowed. A file of the root whose
  name contains a backslash is taken for the declared file below a directory. And a backslash between double quotes is
  dropped before any character, so the line that makes a shell create another file is taken for the template.
\<close>

lemma jspace_gaps:
  "map_of project_tree ''/w/src/link'' = Some (TreeLink ''/out/new'') \<and>
   check_path tree_os project_tree src_matcher ''create'' ''src/link'' = Inr () \<and>
   path_segments (''/w/src'' @ [BACKSLASH] @ ''a'') = [''w'', ''src'' @ [BACKSLASH] @ ''a''] \<and>
   check_path tree_os project_tree src_matcher ''create'' (''/w/src'' @ [BACKSLASH] @ ''a'') = Inr () \<and>
   parse_shell_argv escaped_line = Inr (tp_argv src_template) \<and>
   check_command reference_externals tree_os project_tree src_matcher ''shell_command'' escaped_line = Inr ()"
  by (intro conjI) code_simp+

end
