(* ===== verification/Spec2Isabelle.thy ===== *)
theory Spec2Isabelle
  imports Runtime_Properties Task_Properties Session_Properties Management_Properties Store_Properties
    Patch_Properties Tool_Dispatch Command_Properties JSpace_Properties
begin

text \<open>
  Verification of the lifecycle core, the patch tool, the command interceptor and the J-Space capability contracts of
  the full-stack harness.

  The program. The harness runs language-model sessions: a gateway and a router accept requests, an
  agent runtime calls providers and tools, and a session service stores what happened. Two crates hold
  the logic all of them share: \<open>src/runtime/crates/lifecycle\<close> decides every change of a session and of a
  provider call, and \<open>src/runtime/crates/session_lifecycle\<close> keeps the durable records by which a commander
  session learns how its children ended. Both are modelled, with the part of
  \<open>src/runtime/crates/runtime_contract\<close> they rely on. Of \<open>src/runtime/crates/tools\<close> the command by which agents
  edit files, the dispatch of the commands of a step, the lock table that keeps them apart and the interceptor of
  dangerous commands are modelled, and of
  \<open>src/runtime/crates/path\<close> J-Space: the contracts that say which files a session may touch and which commands it
  may run.

  The lifecycle crate.

  \<^item> \<open>runtime.rs\<close>, one provider call. State \<open>runtime_aggregate\<close> (\<open>RuntimeAggregate\<close>); commands are
    decided into events (\<open>decide\<close>), events applied (\<open>apply_event\<close>), a committed event is accepted only
    if the reducer would have produced it (\<open>apply_committed\<close>), a stream is replayed (\<open>replay\<close>).
    Theories \<open>Runtime_Types\<close>, \<open>Runtime_Lifecycle\<close>; facts in \<open>Runtime_Facts\<close>.
  \<^item> \<open>session.rs\<close>, the session and its tasks. Contracts, claims, acknowledgments and their digests
    (\<open>Task_Contracts\<close>); task steps, eligibility, polling and plan identities (\<open>Task_Steps\<close>); the
    ready-set classifier (\<open>Ready_Set\<close>); plan patches with the table of session states
    (\<open>Task_Patching\<close>); the aggregate with its 24 commands and 20 events (\<open>Session_Lifecycle\<close>:
    \<open>session_decide\<close>, \<open>session_apply\<close>, \<open>session_apply_committed\<close>, \<open>session_replay\<close>); facts in
    \<open>Session_Facts\<close> and, over sequences of commands, in \<open>Session_Protocol\<close>.
  \<^item> \<open>session_management.rs\<close>, the session object around the aggregate: the log, the
    object, its persisted delta, capabilities, compaction and wire form (\<open>Session_Management\<close>); facts
    in \<open>Management_Facts\<close>.
  \<^item> \<open>session_projection.rs\<close>, JSON views of a plan (\<open>Session_Projection\<close>).

  The session lifecycle store (\<open>SessionLifecycleStore\<close>).

  \<^item> The records and their validation that needs no store: \<open>Store_Records\<close>, \<open>Continuation_Records\<close>,
    \<open>Runtime_Contract\<close> (continuation bindings and convergence proofs).
  \<^item> The disk: \<open>Store_Disk\<close>. A directory is the list of its files, a file holds a record or cannot be
    read, and an operation returns its outcome and the ordered list of its durable writes.
  \<^item> The operations: receipts, the blocker log and slots (\<open>Store_Receipts\<close>), admissions and callbacks
    (\<open>Store_Callbacks\<close>), continuations (\<open>Store_Continuations\<close>), identity failures, checkpoints and native
    events (\<open>Store_Checkpoints\<close>), readback and the control deck (\<open>Store_Projection\<close>).
  \<^item> The store as a transition system: \<open>Store_Protocol\<close>. A step is one call of any process whose writes
    are cut anywhere by a crash; \<open>interleaved_run\<close> separates the checks a call makes before it takes the
    lock. \<open>Store_Facts\<close> states the invariant and which effects keep it (\<open>effect_ok\<close>, with
    \<open>continuation_step\<close> as the specification of a continuation's life), \<open>Store_Calls\<close> that every call
    performs only such effects, \<open>Store_Sequences\<close>, \<open>Store_Delivery\<close>, \<open>Store_Replay\<close> and \<open>Store_Deck\<close> what
    follows along runs, and \<open>Store_Samples\<close> evaluates a concrete store.

  The tools.

  \<^item> \<open>runtime/file_locks/mod.rs\<close>: accesses, lock keys, the table of readers and writers, and the calls of
    \<open>acquire\<close> that run side by side (\<open>File_Locks\<close>, step relation \<open>work_step\<close>). \<open>File_Lock_Facts\<close> states the
    contract of the table as the locale \<open>lock_table\<close>, interprets it on the code's readers and writers and holds
    the invariant; \<open>File_Lock_Progress\<close> holds progress and termination.
  \<^item> \<open>commands/apply_patch\<close>: finding and parsing the patch (\<open>Patch_Parser\<close>), matching and applying hunks, the
    recorded delta and the diagnostic excerpt (\<open>Patch_Hunks\<close>), paths, the access the handler declares, effects on
    files and the response (\<open>Patch_Files\<close>), over the text operations of \<open>Rust_Text\<close>. \<open>Patch_Parser_Facts\<close> prints changes and
    reads them back, \<open>Patch_Hunk_Facts\<close> specifies what hunks mean (\<open>patched\<close>), \<open>Patch_File_Facts\<close> states
    what is relied on of the files as the locale \<open>file_system\<close>.
  \<^item> \<open>command_run/handler.rs\<close>, \<open>runtime/tool.rs\<close> and \<open>runtime/dispatch.rs\<close>, the part that orders commands
    (\<open>Tool_Dispatch\<close>): step numbers (\<open>normalize_command_steps\<close>), command names (\<open>canonical_command\<close>,
    \<open>resolve_command_tool_name\<close>), which commands may run together (\<open>is_macro_command_safe\<close>), one step
    (\<open>run_command_run_step\<close>) and the access a dispatched call asks for (\<open>dispatch_access\<close>): a patch is always dispatched
    exclusively, under the lock of its workspace and not under the keys its handler would declare. The run of a command
    and the concurrent futures of a batch are parameters (\<open>runner\<close>).
  \<^item> \<open>commands/command_safety.rs\<close>: the shell-like text functions (\<open>Command_Text\<close>), wrappers, base commands and
    path comparison (\<open>Command_Safety\<close>), shell variables and the recursive scan (\<open>Command_Scan\<close>). The scan takes
    its own deeper calls as arguments; \<open>Command_Scan_Facts\<close> states what a command runs and when it is dangerous
    as inductive rules, and the locale \<open>faithful\<close> (a procedure that decides a property when it returns), which
    \<open>two_levels\<close> extends and the scan interprets at every depth. \<open>Command_Path_Facts\<close> compares the textual
    path test with lexical resolution, \<open>Command_Quote_Facts\<close> quotes words and reads them back.

  J-Space (\<open>path/src/jspace.rs\<close> and its companions).

  \<^item> Scopes, their canonical form, conflicts and the tries that index them (\<open>JSpace_Scopes\<close>); command types and the
    parser of shell lines (\<open>JSpace_Command\<close>); canonical JSON, digests and readers of values (\<open>JSpace_Json\<close>).
  \<^item> Paths and the files below them (\<open>JSpace_Paths\<close>): the components of \<open>std::path\<close>, canonical roots and the resolution
    of a path whose end does not exist yet. The operating system is the record \<open>jos\<close>, which extends the files of the
    patch tool; a check reads one state of the files, and states may differ between checks. \<open>JSpace_Mapped\<close> models
    \<open>mapped_source_read.rs\<close>, where descriptors are numbers.
  \<^item> The compiled contract \<open>jspace_matcher\<close> (\<open>JSpaceMatcher\<close>) with its path checks (\<open>JSpace_Matcher\<close>), and the checks
    of commands, source reads, discovery and shells (\<open>JSpace_Checks\<close>, with \<open>jspace_read.rs\<close>,
    \<open>jspace_inspect.rs\<close> and \<open>jspace_parent_shell.rs\<close>).
  \<^item> Admission: effect domains, templates and digests (\<open>JSpace_Grants\<close>), verifier commands (\<open>JSpace_Verifiers\<close>), the
    compilation \<open>from_value\<close> and the cache (\<open>JSpace_Admission\<close>). \<open>admission_step\<close> splits \<open>admit\<close> at the two places where
    it takes the lock, so that \<open>admission_run\<close> is any interleaving of callers.
  \<^item> \<open>JSpace_Scope_Facts\<close> states what an index of scopes promises as the locale \<open>scope_index\<close> and interprets it on the
    trie; \<open>JSpace_Path_Facts\<close> states what is relied on of \<open>canonicalize\<close> as the locale \<open>canonical_paths\<close>.
    \<open>JSpace_Command_Facts\<close>, \<open>JSpace_Admission_Facts\<close>, \<open>JSpace_Contract_Facts\<close>, \<open>JSpace_Reader_Facts\<close> and
    \<open>JSpace_Cache_Facts\<close> hold what follows, and \<open>JSpace_Samples\<close> interprets \<open>canonical_paths\<close> on a small tree with
    links and admits three contracts on it.

  How the parts interact. The session object owns a session aggregate and changes it only by its
  commands; the aggregate owns the task plan, which patches, claims, callbacks and the scheduler
  change through it; the classifier reads the same plan to say what may be dispatched. A child that
  ends leaves a terminal receipt and a callback in its commander's store; the store delivers the callback
  as a continuation, and its acknowledgement is what the session aggregate converges. Both
  aggregates are event sourced: \<open>Event_Sourcing\<close> states that contract as three locales (\<open>reducer\<close>,
  \<open>committed_reducer\<close>, \<open>event_sourced\<close>) and proves once what follows from it. The runtime
  interprets it as \<open>rt\<close>; the session interprets \<open>committed_reducer\<close> as \<open>sr\<close> for every library, and
  \<open>chrono_laws\<close> gives \<open>event_sourced\<close> as \<open>sess\<close>.

  Conventions. \<open>Prelude\<close> holds results, strings, machine integers, list searches and printed
  numbers. A Rust string is the list of its UTF-8 bytes; \<open>u64\<close> is a 64-bit word with the saturating and
  wrapping operations written out; floats are their bits, with the code's \<open>PartialEq\<close> written out; a
  \<open>BTreeSet\<close> is a list read as a set, a \<open>BTreeMap\<close> the list of its entries. An operation that mutates
  returns the new state; an error is the left of a sum; a panic is a value (\<open>Panicked\<close>,
  \<open>ReplayPanicked\<close>, or \<open>None\<close>). Libraries are the record \<open>externals\<close> of \<open>Json_Value\<close> (chrono, sha2,
  serde\_json text): the locale \<open>chrono_laws\<close> states what chrono documents, \<open>json_text_laws\<close> what JSON
  text is, \<open>digest_laws\<close> the shape of a printed digest, and \<open>Reference_Externals\<close> and \<open>Store_Facts\<close>
  interpret them on concrete functions. Nothing is assumed of collisions of the hash: digest theorems end
  in equality or a named collision, and where the store needs distinct file names a theorem says so.
  Environment variables and the build target are the record \<open>environment\<close>; the clock is an argument.

  What is shown. \<open>Runtime_Properties\<close>: streams rebuild runtimes and only reducer runs are accepted,
  terminal states absorb, progress is monotone and failure always possible, transport forms are faithful.
  \<open>Task_Properties\<close> and \<open>Ready_Set\<close>: the classifier equals its specification, digests bind, polling ends
  and stays on its grid, patches keep order. \<open>Session_Properties\<close>: replay, the invariant, exclusive and
  exact claims, callbacks, one runtime at a time, interruption and revival. \<open>Management_Properties\<close>: deltas,
  log and compaction, wire form, capabilities, views. \<open>Store_Properties\<close>, over all runs with crashes:
  receipts are applied without gaps (\<open>receipts_gap_free\<close>), an interrupted intake is finished by repeating it
  and a replay applies everything (\<open>intake_restarts\<close>, \<open>replay_applies_all\<close>), receipts, callbacks, continuations,
  admissions, acknowledgements and releases are well-formed and no durable record changes (\<open>store_well_formed\<close>, \<open>durable_records_kept\<close>), an acknowledged callback and a
  completed continuation rest on their evidence (\<open>acknowledged_callback_sound\<close>,
  \<open>completed_continuation_grounded\<close>), a continuation is sent at most once (\<open>delivery_begun_once\<close>), checking
  before locking is safe (\<open>checks_before_lock_safe\<close>), the control deck never fails
  (\<open>control_deck_available\<close>), checkpoints and slots (\<open>checkpoint_roundtrip\<close>, \<open>slot_released_iff\<close>), and two
  weaknesses (\<open>blocker_log_stays_broken\<close>, \<open>prepare_accepts_any_state\<close>). \<open>File_Lock_Properties\<close>: write locks
  exclude, orderly calls never deadlock, accesses that block themselves are never served.
  \<open>Patch_Properties\<close>: parsed changes are well-formed and printed ones are read back, hunks are applied as
  specified, the delta reconstructs the file, an update touches only its file, and the response is exact.
  \<open>Tool_Dispatch\<close>: a step runs its commands in order as waves and stops after a failed patch, steps are put in order,
  and a dispatched patch is alone in its lock scope. \<open>Command_Properties\<close>: the
  interceptor refuses exactly what the rules call dangerous, in chains and nested shells up to eight levels, and
  an allowed removal, as it reads it, stays inside the workspace; lemmas at its end show commands it lets through.
  \<open>JSpace_Properties\<close>: a path check decides exactly what the contract grants, with backslashes in names read as
  separators (\<open>slash_parts\<close>), contracts without a conflict never
  collide, an accepted shell line is a template and every template can be run, an effect happens in one domain,
  discovery stays in its roots, a session is bound to one root and authorization under all interleavings and every
  matcher handed out was admitted, compiled contracts are well formed, a mapped binding survives its contract, and
  \<open>jspace_gaps\<close> shows three requests that reach another file than the declared one. Below, \<open>ready_task_can_be_claimed\<close>
  relates the classifier to the claim.

  Loops and fuel. The polling loop is the only loop that may not end; it is a \<open>partial_function\<close> whose
  value \<open>None\<close> is a panic of chrono, and \<open>polling_terminates\<close> shows that it returns. No fuel is used: the
  number of levels of \<open>scan_levels\<close> is the code's own bound on its depth.

  Not modelled. The deserialisers serde derives (field defaults, unknown fields), the text of the JSON
  wire beyond canonical text, the operating system's locks and the file watcher (the lock is taken to
  exclude, the channel of the watcher is modelled), and everything outside these crates: the session log
  service (SQLite), the gateway, router and agent runtime (asynchronous I/O), provider clients, shell, media
  and web commands, and the Python and JavaScript packages: they are input and output around libraries, with little
  logic of their own. Of the patch tool, the Windows path branches and the terminal receipt of its handler. Of the dispatch of commands,
  output bindings, the terminal status guard, sandboxing, receipts and streaming. Of J-Space,
  the Windows path branches, the moment a program or a file is really opened after its check (a check and what follows
  it are not one step), and the home directories and gateway files of the same crate.
\<close>

section \<open>Scheduling meets claiming\<close>

text \<open>The claim that names what the plan and the contract of a task say, for a given child.\<close>

definition issued_claim ::
  "externals \<Rightarrow> task_plan \<Rightarrow> task_scheduling_contract \<Rightarrow> string \<Rightarrow> string \<Rightarrow> string \<Rightarrow> string \<Rightarrow> string \<Rightarrow> task_dispatch_claim" where
  "issued_claim X p c task_id child_session child_runtime child_lease child_transaction =
     \<lparr>dc_schema_version = TASK_DISPATCH_CLAIM_SCHEMA_VERSION, dc_mission_id = sc_mission_id c, dc_task_id = task_id,
      dc_child_session_id = child_session, dc_child_runtime_id = child_runtime, dc_child_lease_id = child_lease,
      dc_child_transaction_id = child_transaction, dc_semantic_dispatch_key = sc_semantic_dispatch_key c,
      dc_authority_mission_revision_sha256 = sc_authority_mission_revision_sha256 c,
      dc_delegated_input_sha256 = sc_delegated_input_sha256 c,
      dc_task_context_capsule_semantic_sha256 = sc_task_context_capsule_semantic_sha256 c,
      dc_parent_task_plan_sha256 = task_plan_ready_set_sha256 X p,
      dc_task_scheduling_contract_sha256 = contract_sha256 X c,
      dc_scope_claim_sha256 = scope_claim_sha256 X c\<rparr>"

lemma execution_eligible_dispatch:
  assumes "execution_eligible X t task_id ev" "re_claimed_task_id ev \<noteq> Some task_id"
    and "\<And>u. timestamp_millis X u \<le> re_evaluated_at_ms ev \<Longrightarrow> u \<le> now"
  shows "direct_dispatch_eligible t now"
  using assms
  by (auto simp: execution_eligible_def Let_def direct_dispatch_eligible_def scheduler_eligible_def
      split: start_condition.splits)

text \<open>
  C33: What the classifier calls ready can be dispatched: if a task of the session's plan is classified
  ready on evidence that names no claimed task and states the session's own transition and whether the
  dispatch key is the contract's, and the task is unclaimed, has no sub-session and is not polling, then
  the session accepts the valid claim issued for it from its plan and contract, at every instant not before
  an instant of the evaluated millisecond or earlier.
\<close>

theorem ready_task_can_be_claimed:
  assumes ready: "rd_state (classify_task_ready_set X (ss_task_plan s) task_id ev) = Ready"
    and evidence: "re_claimed_task_id ev = None"
      "re_parent_session_can_transition_to_running ev = session_can_transition_to (ss_state s) SRunning"
      "re_semantic_dispatch_identity_valid ev = (semantic_dispatch_sha256 X c task_id = sc_semantic_dispatch_key c)"
    and clock: "\<And>u. timestamp_millis X u \<le> re_evaluated_at_ms ev \<Longrightarrow> u \<le> now"
    and t: "t \<in> set (plan_tasks s)" "ts_task_id t = task_id" "ts_scheduling_contract t = Some c"
      "ts_dispatch_claim t = None" "ts_sub_session_id t = []" "ts_start_condition t \<noteq> PollingTask"
    and claim: "claim = issued_claim X (ss_task_plan s) c task_id cs cr cl ct" "is_ok (validate_claim claim)"
  shows "is_ok (session_decide X s (ClaimScheduledChildTask (ss_task_plan s) claim now))"
proof -
  from ready have "ready_checks X (ss_task_plan s) task_id ev = Inr ()"
    using ready_checks_not_ready [of X "ss_task_plan s" task_id ev]
    by (cases "ready_checks X (ss_task_plan s) task_id ev") (auto simp: classify_task_ready_set_def)
  then have spec: "ready_spec X (ss_task_plan s) task_id ev" by (simp add: ready_checks_iff)
  then have ids: "scheduling_identities_valid (ss_task_plan s)" by (simp add: ready_spec_def)
  then have inj: "u = t" if "u \<in> set (plan_tasks s)" "ts_task_id u = task_id" for u
    using that t(1,2) by (auto simp: scheduling_identities_valid_iff distinct_map dest: inj_onD)
  with spec t have ok: "is_ok (validate_contract c task_id)" and elig: "execution_eligible X t task_id ev"
    unfolding ready_spec_def by (metis option.inject)+
  have dispatch: "direct_dispatch_eligible t now"
    using execution_eligible_dispatch [OF elig _ clock] evidence(1) by simp
  have run: "session_can_transition_to (ss_state s) SRunning" and key: "semantic_dispatch_sha256 X c task_id = sc_semantic_dispatch_key c"
    using spec evidence(2,3) by (auto simp: ready_spec_def)
  obtain i where i: "position (\<lambda>u. ts_task_id u = dc_task_id claim \<and> direct_dispatch_eligible u now) (plan_tasks s) = Some i"
    using position_None_iff [of "\<lambda>u. ts_task_id u = dc_task_id claim \<and> direct_dispatch_eligible u now" "plan_tasks s"]
      t(1,2) dispatch claim(1) by (cases "position (\<lambda>u. ts_task_id u = dc_task_id claim \<and> direct_dispatch_eligible u now) (plan_tasks s)")
      (auto simp: issued_claim_def)
  have it: "plan_tasks s ! i = t"
    using position_Some_D [OF i] inj claim(1) by (simp add: issued_claim_def)
  have "\<not> claim_conflicts X (ss_task_plan s) t c claim"
    using t ok key by (simp add: claim_conflicts_def claim(1) issued_claim_def)
  then show ?thesis
    using i it t(3,6) claim(2) ids run
    by (simp add: claim_scheduled_child_task_def advance_if_polling_def)
qed

definition sample_evidence :: task_ready_set_evidence where
  "sample_evidence =
     \<lparr>re_evaluated_at_ms = 0, re_parent_session_can_transition_to_running = True,
      re_authority_mission_revision_sha256 = zeros, re_execution_terminal_task_ids = [],
      re_available_exact_input_sha256s = None, re_semantic_dispatch_identity_valid = True,
      re_candidate_scope_identity_valid = True, re_parallel_runtime_limit_supported = True,
      re_task_leases = [], re_lease_unknown_task_ids = [], re_scope_evaluated_task_ids = [],
      re_scope_conflicting_task_ids = [], re_scope_unknown_task_ids = [], re_active_runtime_workers = 0,
      re_requested_lease_id = None, re_claimed_task_id = None\<rparr>"

lemma sample_ready: "rd_state (classify_task_ready_set ref sample_plan ''t1'' sample_evidence) = Ready"
proof -
  have c: "sc_authority_mission_revision_sha256 sample_contract = zeros" "sc_exact_input_sha256s sample_contract = []"
    "sc_dependency_task_ids sample_contract = []" "sc_maximum_parallel_runtime_workers sample_contract = 2"
    by (simp_all add: sample_contract_def sample_draft_def)
  have t: "ts_task_id sample_task = ''t1''" "ts_scheduling_contract sample_task = Some sample_contract"
    "ts_start_condition sample_task = SessionIdle" "ts_status sample_task = Todo"
    by (simp_all add: sample_task_def task_step_default_def)
  have "ready_task sample_plan ''t1'' = Inr (sample_task, sample_contract)"
    by (simp add: ready_task_ok sample_plan_identities t sample_contract_valid) (simp add: sample_plan_def)
  then have "ready_checks ref sample_plan ''t1'' sample_evidence = Inr ()"
    by (simp add: ready_checks_def ready_identities_def ready_inputs_def ready_eligibility_def execution_eligible_def
        ready_leases_def other_active_leases_def c t sample_evidence_def)
  then show ?thesis by (simp add: classify_task_ready_set_def)
qed

text \<open>Witness of C33: the sample task is ready at millisecond 0 and claimed at its end.\<close>

theorem ready_task_can_be_claimed_witness:
  "is_ok (session_decide ref sample_session (ClaimScheduledChildTask (ss_task_plan sample_session)
     (issued_claim ref (ss_task_plan sample_session) sample_contract ''t1'' ''c1'' ''r1'' ''r1'' ''r1'') 999999))"
proof -
  have plan: "ss_task_plan sample_session = sample_plan" by (simp add: sample_session_def session_new_def)
  have claim: "issued_claim ref sample_plan sample_contract ''t1'' ''c1'' ''r1'' ''r1'' ''r1'' = sample_claim"
    by (simp add: issued_claim_def sample_claim_def) (simp add: sample_contract_def sample_draft_def)
  show ?thesis
  proof (rule ready_task_can_be_claimed [where t = sample_task and c = sample_contract and ev = sample_evidence,
        OF _ _ _ _ _ _ _ _ _ _ _ refl])
    show "rd_state (classify_task_ready_set ref (ss_task_plan sample_session) ''t1'' sample_evidence) = Ready"
      by (simp add: plan sample_ready)
    show "re_semantic_dispatch_identity_valid sample_evidence =
        (semantic_dispatch_sha256 ref sample_contract ''t1'' = sc_semantic_dispatch_key sample_contract)"
      by (simp add: sample_dispatch_key sample_evidence_def)
    show "timestamp_millis ref u \<le> re_evaluated_at_ms sample_evidence \<Longrightarrow> u \<le> 999999" for u
      by (simp add: reference_externals_def sample_evidence_def)
    show "is_ok (validate_claim (issued_claim ref (ss_task_plan sample_session) sample_contract ''t1'' ''c1'' ''r1'' ''r1'' ''r1''))"
      by (simp add: plan claim sample_claim_valid)
  qed (simp_all add: plan sample_evidence_def sample_session_def session_new_def state_defs sample_plan_def
      sample_task_def task_step_default_def)
qed

end
